(* ===== verification/Runtime_Prelude.thy ===== *)
theory Runtime_Prelude
  imports Main "HOL-Library.List_Lexorder" "HOL-Library.Char_ord" "HOL-Library.Product_Lexorder"
begin

text \<open>
  Shared vocabulary of the development. The runtime keeps its durable state in relational
  tables and talks to them through SQL statements inside one write transaction, so the
  prelude fixes what a table, an \<^verbatim>\<open>UPDATE ... WHERE\<close>, an
  \<^verbatim>\<open>ORDER BY ... LIMIT 1\<close> and a comparison with \<^verbatim>\<open>NULL\<close> are, gives JSON
  values and the Python accessors the sources use on them, and proves the generic lemmas the
  component theories rest on. The last section holds the interface of a transactional
  component: an initial state, a set of transactions and an invariant.
\<close>

section \<open>Tables and SQL statements\<close>

text \<open>A table is the list of its rows in insertion order.\<close>

type_synonym 'r table = "'r list"

definition sql_update :: "('r \<Rightarrow> bool) \<Rightarrow> ('r \<Rightarrow> 'r) \<Rightarrow> 'r table \<Rightarrow> 'r table" where
  "sql_update p f rows = map (\<lambda>r. if p r then f r else r) rows"

definition rowcount :: "('r \<Rightarrow> bool) \<Rightarrow> 'r table \<Rightarrow> nat" where
  "rowcount p rows = length (filter p rows)"

definition fetchone :: "('r \<Rightarrow> bool) \<Rightarrow> 'r table \<Rightarrow> 'r option" where
  "fetchone p rows = List.find p rows"

definition select_first :: "('r \<Rightarrow> 'k::linorder) \<Rightarrow> ('r \<Rightarrow> bool) \<Rightarrow> 'r table \<Rightarrow> 'r option" where
  "select_first k p rows = (case sort_key k (filter p rows) of [] \<Rightarrow> None | r # _ \<Rightarrow> Some r)"

text \<open>Comparisons with \<^verbatim>\<open>NULL\<close> are never true; \<^verbatim>\<open>IS NOT\<close> is the null-safe inequality.\<close>

definition sql_eq :: "'a option \<Rightarrow> 'a option \<Rightarrow> bool" where
  "sql_eq a b \<longleftrightarrow> a \<noteq> None \<and> a = b"

definition sql_gt :: "int option \<Rightarrow> int \<Rightarrow> bool" where
  "sql_gt a b \<longleftrightarrow> (case a of None \<Rightarrow> False | Some x \<Rightarrow> b < x)"

definition sql_le :: "int option \<Rightarrow> int \<Rightarrow> bool" where
  "sql_le a b \<longleftrightarrow> (case a of None \<Rightarrow> False | Some x \<Rightarrow> x \<le> b)"

lemma sql_eq_simps [simp]:
  "sql_eq None b = False" "sql_eq a None = False" "sql_eq (Some x) (Some y) = (x = y)"
  by (auto simp: sql_eq_def)

lemma sql_eq_Some [simp]: "sql_eq a (Some x) \<longleftrightarrow> a = Some x"
  by (auto simp: sql_eq_def)

lemma sql_gt_simps [simp]: "sql_gt None b = False" "sql_gt (Some x) b = (b < x)"
  by (auto simp: sql_gt_def)

lemma sql_le_simps [simp]: "sql_le None b = False" "sql_le (Some x) b = (x \<le> b)"
  by (auto simp: sql_le_def)

lemma sql_le_not_gt: "sql_le a b \<Longrightarrow> \<not> sql_gt a b"
  by (cases a) auto

lemma length_sql_update [simp]: "length (sql_update p f rows) = length rows"
  by (simp add: sql_update_def)

lemma sql_update_Nil [simp]: "sql_update p f [] = []"
  by (simp add: sql_update_def)

lemma sql_update_Cons [simp]:
  "sql_update p f (r # rows) = (if p r then f r else r) # sql_update p f rows"
  by (simp add: sql_update_def)

lemma rowcount_simps [simp]:
  "rowcount p [] = 0" "rowcount p (r # rows) = (if p r then Suc (rowcount p rows) else rowcount p rows)"
  by (simp_all add: rowcount_def)

lemma rowcount_0_iff: "rowcount p rows = 0 \<longleftrightarrow> (\<forall>r\<in>set rows. \<not> p r)"
  by (auto simp: rowcount_def filter_empty_conv)

lemma rowcount_witness: "rowcount p rows = Suc n \<Longrightarrow> \<exists>r\<in>set rows. p r"
  by (rule ccontr) (simp add: rowcount_0_iff [symmetric])

lemma sql_update_none: "rowcount p rows = 0 \<Longrightarrow> sql_update p f rows = rows"
  by (induction rows) (auto split: if_splits)

lemma map_key_sql_update:
  assumes "\<And>r. p r \<Longrightarrow> k (f r) = k r"
  shows "map k (sql_update p f rows) = map k rows"
  using assms by (induction rows) auto

lemma set_sql_update: "set (sql_update p f rows) = (\<lambda>r. if p r then f r else r) ` set rows"
  by (simp add: sql_update_def)

lemma fetchone_simps [simp]:
  "fetchone p [] = None" "fetchone p (r # rows) = (if p r then Some r else fetchone p rows)"
  by (simp_all add: fetchone_def)

lemma fetchone_append: "fetchone p (xs @ ys) = (case fetchone p xs of None \<Rightarrow> fetchone p ys | Some r \<Rightarrow> Some r)"
  by (induction xs) auto

lemma fetchone_SomeD: "fetchone p rows = Some r \<Longrightarrow> r \<in> set rows \<and> p r"
  by (induction rows) (auto split: if_splits)

lemma fetchone_None_iff: "fetchone p rows = None \<longleftrightarrow> (\<forall>r\<in>set rows. \<not> p r)"
  by (induction rows) auto

lemma fetchone_cong: "(\<And>r. r \<in> set rows \<Longrightarrow> p r = q r) \<Longrightarrow> fetchone p rows = fetchone q rows"
  by (induction rows) auto

text \<open>Two rows of a table with a primary key are equal when their keys are.\<close>

lemma key_unique:
  "distinct (map k rows) \<Longrightarrow> r \<in> set rows \<Longrightarrow> r' \<in> set rows \<Longrightarrow> k r = k r' \<Longrightarrow> r = r'"
  by (metis distinct_map inj_onD)

lemma fetchone_key:
  assumes "distinct (map k rows)" and "r \<in> set rows"
  shows "fetchone (\<lambda>x. k x = k r) rows = Some r"
proof (cases "fetchone (\<lambda>x. k x = k r) rows")
  case None
  with assms(2) show ?thesis by (auto simp: fetchone_None_iff)
next
  case (Some x)
  with assms key_unique [of k rows x r] show ?thesis by (auto dest!: fetchone_SomeD)
qed

lemma fetchone_sql_update_key:
  assumes "\<And>r. k (f r) = k r"
  shows "fetchone (\<lambda>r. k r = a) (sql_update p f rows) =
    map_option (\<lambda>r. if p r then f r else r) (fetchone (\<lambda>r. k r = a) rows)"
  using assms by (induction rows) auto

lemma rowcount_key_le_1: "distinct (map k rows) \<Longrightarrow> (\<And>r. p r \<Longrightarrow> k r = a) \<Longrightarrow> rowcount p rows \<le> 1"
proof (induction rows)
  case (Cons r rows)
  show ?case
  proof (cases "p r")
    case True
    with Cons.prems have "\<forall>x\<in>set rows. \<not> p x" by (metis distinct.simps(2) image_eqI list.set_map list.simps(9))
    with True show ?thesis by (simp add: rowcount_0_iff [symmetric])
  next
    case False
    with Cons show ?thesis by simp
  qed
qed simp

lemma rowcount_key_eq_1:
  assumes "distinct (map k rows)" and "\<And>r. p r \<Longrightarrow> k r = a"
  shows "rowcount p rows = 1 \<longleftrightarrow> (\<exists>r\<in>set rows. p r)"
  using rowcount_key_le_1 [OF assms] rowcount_0_iff [of p rows] by force

section \<open>Ordered selection\<close>

lemma select_first_SomeD:
  assumes "select_first k p rows = Some r"
  shows "r \<in> set rows" and "p r" and "\<And>r'. r' \<in> set rows \<Longrightarrow> p r' \<Longrightarrow> k r \<le> k r'"
proof -
  obtain rs where rs: "sort_key k (filter p rows) = r # rs"
    using assms by (auto simp: select_first_def split: list.splits)
  have set: "set (r # rs) = {x \<in> set rows. p x}" by (simp add: rs [symmetric])
  have sorted: "sorted (map k (r # rs))" by (simp only: rs [symmetric] sorted_sort_key)
  from set show "r \<in> set rows" and "p r" by auto
  show "k r \<le> k r'" if "r' \<in> set rows" "p r'" for r'
  proof -
    from that set have "r' \<in> set (r # rs)" by auto
    with sorted show ?thesis by auto
  qed
qed

lemma select_first_None_iff: "select_first k p rows = None \<longleftrightarrow> (\<forall>r\<in>set rows. \<not> p r)"
proof -
  have "sort_key k (filter p rows) = [] \<longleftrightarrow> filter p rows = []"
    by (metis length_0_conv length_sort)
  then show ?thesis by (auto simp: select_first_def filter_empty_conv split: list.splits)
qed

lemma foldr_max_eq:
  assumes "m \<in> set (x # xs)" and "\<forall>y\<in>set (x # xs). y \<le> m"
  shows "foldr max xs x = (m::int)"
proof (rule antisym)
  from assms(2) show "foldr max xs x \<le> m" by (induction xs) auto
  have "y \<le> foldr max xs x" if "y \<in> set (x # xs)" for y
    using that by (induction xs) (auto simp: le_max_iff_disj)
  from this [OF assms(1)] show "m \<le> foldr max xs x" .
qed

section \<open>JSON values\<close>

text \<open>
  The payloads, inputs and checkpoints the store persists. \<^verbatim>\<open>dict.get\<close> answers
  \<^verbatim>\<open>None\<close> for a missing key, which is also what a JSON null decodes to.
\<close>

datatype json =
  JNull | JBool bool | JInt int | JStr string | JList "json list" | JObj "(string \<times> json) list"

text \<open>A text column that should hold JSON: what the store wrote, or text that does not decode.\<close>

datatype json_text = Encoded json | Garbled string

fun py_get :: "(string \<times> json) list \<Rightarrow> string \<Rightarrow> json" where
  "py_get kvs k = (case map_of kvs k of None \<Rightarrow> JNull | Some v \<Rightarrow> v)"

definition jopt_int :: "int option \<Rightarrow> json" where
  "jopt_int v = (case v of None \<Rightarrow> JNull | Some i \<Rightarrow> JInt i)"

definition jopt_str :: "string option \<Rightarrow> json" where
  "jopt_str v = (case v of None \<Rightarrow> JNull | Some i \<Rightarrow> JStr i)"

lemma jopt_int_inj [simp]: "jopt_int a = jopt_int b \<longleftrightarrow> a = b"
  by (auto simp: jopt_int_def split: option.splits)

lemma jopt_str_inj [simp]: "jopt_str a = jopt_str b \<longleftrightarrow> a = b"
  by (auto simp: jopt_str_def split: option.splits)

section \<open>Python's decimal rendering of integers\<close>

fun show_nat :: "nat \<Rightarrow> string" where
  "show_nat n = (if n < 10 then [char_of (48 + n)] else show_nat (n div 10) @ [char_of (48 + n mod 10)])"

declare show_nat.simps [simp del]

definition show_int :: "int \<Rightarrow> string" where
  "show_int i = (if i < 0 then ''-'' @ show_nat (nat (- i)) else show_nat (nat i))"

definition show_opt_int :: "int option \<Rightarrow> string" where
  "show_opt_int v = (case v of None \<Rightarrow> ''None'' | Some i \<Rightarrow> show_int i)"

section \<open>Text\<close>

fun hex_digit :: "nat \<Rightarrow> char" where
  "hex_digit n = (if n < 10 then char_of (48 + n) else char_of (87 + n))"

fun join :: "string \<Rightarrow> string list \<Rightarrow> string" where
  "join sep [] = []"
| "join sep [x] = x"
| "join sep (x # xs) = x @ sep @ join sep xs"

text \<open>
  \<^verbatim>\<open>repr\<close> of a text and of a list of texts, as the error messages print them: single
  quotes unless the text has a single quote and no double quote, with the usual escapes.
\<close>

definition repr_char :: "char \<Rightarrow> char \<Rightarrow> string" where
  "repr_char quote c = (let n = of_char c :: nat in
     if c = quote \<or> n = 92 then [CHR 0x5C, c]
     else if n = 10 then [CHR 0x5C, CHR ''n''] else if n = 13 then [CHR 0x5C, CHR ''r'']
     else if n = 9 then [CHR 0x5C, CHR ''t'']
     else if n < 32 \<or> n = 127 then CHR 0x5C # ''x'' @ [hex_digit (n div 16), hex_digit (n mod 16)]
     else [c])"

definition py_repr :: "string \<Rightarrow> string" where
  "py_repr s = (let quote = (if CHR 0x27 \<in> set s \<and> CHR 0x22 \<notin> set s then CHR 0x22 else CHR 0x27)
     in quote # concat (map (repr_char quote) s) @ [quote])"

definition py_repr_list :: "string list \<Rightarrow> string" where
  "py_repr_list xs = ''['' @ join '', '' (map py_repr xs) @ '']''"

section \<open>Transactions\<close>

text \<open>
  The body of a transaction either raises or yields a value and the next state; an exception
  that leaves the \<^verbatim>\<open>with connection\<close> block rolls the whole transaction back.
\<close>

type_synonym ('e, 'a, 's) body = "'e + 'a \<times> 's"
type_synonym ('e, 'a, 's) outcome = "('e + 'a) \<times> 's"

definition transaction :: "'s \<Rightarrow> ('e, 'a, 's) body \<Rightarrow> ('e, 'a, 's) outcome" where
  "transaction s b = (case b of Inl e \<Rightarrow> (Inl e, s) | Inr (x, t) \<Rightarrow> (Inr x, t))"

lemma transaction_simps [simp]:
  "transaction s (Inl e) = (Inl e, s)" "transaction s (Inr (x, t)) = (Inr x, t)"
  by (simp_all add: transaction_def)

lemma transaction_cases:
  assumes "transaction s b = (r, t)"
  obtains e where "b = Inl e" "r = Inl e" "t = s" | x where "b = Inr (x, t)" "r = Inr x"
  using assms by (auto simp: transaction_def split: sum.splits prod.splits)

section \<open>The interface of a transactional component\<close>

text \<open>
  A component is a state, a family of transactions that either raise (and roll back) or
  return a value and the next state, and an invariant. What every client needs, that the
  invariant holds after any sequence of transactions, is proved once here.
\<close>

inductive tx_reachable :: "'s \<Rightarrow> ('s \<Rightarrow> 's \<Rightarrow> bool) \<Rightarrow> 's \<Rightarrow> bool" for s0 step where
  tx_start: "tx_reachable s0 step s0"
| tx_step: "tx_reachable s0 step s \<Longrightarrow> step s t \<Longrightarrow> tx_reachable s0 step t"

locale transactional =
  fixes init :: 's
    and step :: "'s \<Rightarrow> 's \<Rightarrow> bool"
    and invar :: "'s \<Rightarrow> bool"
  assumes invar_init: "invar init"
    and invar_step: "invar s \<Longrightarrow> step s t \<Longrightarrow> invar t"
begin

lemma reachable_invar: "tx_reachable init step s \<Longrightarrow> invar s"
  by (induction rule: tx_reachable.induct) (auto intro: invar_init invar_step)

text \<open>A relation that every transaction respects relates every state to every later one.\<close>

lemma reachable_from_invar:
  assumes "tx_reachable s step t" and "invar s"
  shows "invar t"
  using assms by (induction rule: tx_reachable.induct) (auto intro: invar_step)

lemma reachable_monotone:
  assumes "tx_reachable s step t" and "invar s"
    and "\<And>x. invar x \<Longrightarrow> R x x"
    and "\<And>x y z. R x y \<Longrightarrow> R y z \<Longrightarrow> R x z"
    and "\<And>x y. invar x \<Longrightarrow> step x y \<Longrightarrow> R x y"
  shows "R s t"
  using assms(1)
proof (induction rule: tx_reachable.induct)
  case tx_start
  from assms(2) show ?case by (rule assms(3))
next
  case (tx_step x y)
  from tx_step(1) assms(2) have "invar x" by (rule reachable_from_invar)
  with tx_step assms(4,5) show ?case by blast
qed

end

end
