(* ===== verification/Runtime_Database.thy ===== *)
theory Runtime_Database
  imports Runtime_Prelude
begin

text \<open>
  The data the runtime persists and passes around: the records and enumerations of
  \<^verbatim>\<open>runtime_service/models.py\<close> and \<^verbatim>\<open>agent/contracts.py\<close>, the row types of the
  tables that \<^verbatim>\<open>runtime_service/store.py\<close>, \<^verbatim>\<open>runtime_service/workflow_store.py\<close> and
  \<^verbatim>\<open>runtime_service/memory.py\<close> create, and the database they share. Identifiers and timestamps are strings, lease clocks
  and revisions are Python integers, and a nullable column is an option.
\<close>

section \<open>Runtime states and execution authority\<close>

record trace_event =
  te_event :: string
  te_reason :: string
  te_payload :: json
  te_timestamp :: string

text \<open>
  A runtime state carries the class attributes \<^verbatim>\<open>domain_id\<close> and
  \<^verbatim>\<open>schema_version\<close> beside its data; they identify the concrete state class and are not part
  of the dumped payload. The domain's own fields are a JSON object.
\<close>

record rt_state =
  st_domain_id :: string
  st_schema_version :: string
  st_thread_id :: string
  st_execution_trace :: "trace_event list"
  st_fields :: "(string \<times> json) list"

record state_json =
  sj_thread_id :: string
  sj_execution_trace :: "trace_event list"
  sj_fields :: "(string \<times> json) list"

definition model_dump :: "rt_state \<Rightarrow> state_json" where
  "model_dump s = \<lparr>sj_thread_id = st_thread_id s, sj_execution_trace = st_execution_trace s,
     sj_fields = st_fields s\<rparr>"

record authority =
  a_tenant_id :: string
  a_subject_id :: string
  a_permissions :: "string list"

section \<open>Runs\<close>

datatype run_status = QUEUED | RUNNING | COMPLETED | FAILED | CANCELLED

fun status_value :: "run_status \<Rightarrow> string" where
  "status_value QUEUED = ''queued''"
| "status_value RUNNING = ''running''"
| "status_value COMPLETED = ''completed''"
| "status_value FAILED = ''failed''"
| "status_value CANCELLED = ''cancelled''"

fun is_terminal :: "run_status \<Rightarrow> bool" where
  "is_terminal QUEUED = False"
| "is_terminal RUNNING = False"
| "is_terminal COMPLETED = True"
| "is_terminal FAILED = True"
| "is_terminal CANCELLED = True"

datatype recovery_reason = LEASE_EXPIRED | LEGACY_UNLEASED

fun recovery_value :: "recovery_reason \<Rightarrow> string" where
  "recovery_value LEASE_EXPIRED = ''lease_expired''"
| "recovery_value LEGACY_UNLEASED = ''legacy_unleased''"

datatype commit_outcome =
  COMMITTED | CANCEL_REQUESTED | CHECKPOINT_CONFLICT | LEASE_LOST | ALREADY_TERMINAL | NOT_ELIGIBLE

text \<open>The columns of table \<^verbatim>\<open>runs\<close> that a \<^verbatim>\<open>RunRecord\<close> has under the same name.\<close>

record run_core =
  r_run_id :: string
  r_tenant_id :: string
  r_execution_authority :: "authority option"
  r_thread_id :: string
  r_agent_id :: string
  r_agent_version :: string
  r_domain_id :: string
  r_schema_version :: string
  r_status :: run_status
  r_output_message :: "string option"
  r_validation_errors :: "string list"
  r_error_code :: "string option"
  r_error :: "string option"
  r_attempt :: int
  r_cancel_requested :: bool
  r_client_request_id :: "string option"
  r_created_at :: string
  r_updated_at :: string
  r_started_at :: "string option"
  r_completed_at :: "string option"
  r_lease_owner_id :: "string option"
  r_lease_token :: "string option"
  r_lease_heartbeat_at :: "int option"
  r_lease_expires_at :: "int option"
  r_checkpoint_base_revision :: "int option"

text \<open>A row of table \<^verbatim>\<open>runs\<close>, and the in-memory \<^verbatim>\<open>RunRecord\<close>.\<close>

record run_row = run_core +
  r_input_message :: string
  r_input_json :: "(string \<times> json) list option"
  r_state_json :: "state_json option"

record run_record = run_core +
  r_input :: "(string \<times> json) list"
  r_state :: "rt_state option"

record run_event =
  e_event_id :: int
  e_run_id :: string
  e_sequence :: int
  e_event_type :: string
  e_payload_json :: json_text
  e_created_at :: string

record thread_row =
  t_tenant_id :: string
  t_thread_id :: string
  t_domain_id :: string
  t_schema_version :: string
  t_state_json :: state_json
  t_updated_at :: string
  t_revision :: int

record lease_claim =
  c_run :: run_record
  c_owner_id :: string
  c_lease_token :: string
  c_recovery_reason :: "recovery_reason option"

section \<open>Workflow tables\<close>

text \<open>
  Status columns are the enumeration's string value; the quarantine code reads them as
  text and treats a value it does not know as unrecognized.
\<close>

record execution_row =
  x_run_id :: string
  x_workflow_type :: string
  x_input_hash :: string
  x_status :: string
  x_result_json :: "json_text option"
  x_error_code :: "string option"
  x_created_at :: string
  x_updated_at :: string
  x_completed_at :: "string option"

record tool_row =
  k_call_id :: string
  k_run_id :: string
  k_step_id :: string
  k_tool_name :: string
  k_input_hash :: string
  k_status :: string
  k_attempt_count :: int
  k_attempt_token :: "string option"
  k_result_json :: "json_text option"
  k_error_code :: "string option"
  k_created_at :: string
  k_updated_at :: string

record action_row =
  x_action_id :: string
  xa_run_id :: string
  xa_step_id :: string
  xa_tenant_id :: string
  xa_subject_id :: string
  xa_workflow_type :: string
  xa_tool_name :: string
  xa_provider_name :: string
  xa_provider_identity :: string
  xa_input_hash :: string
  xa_arguments_json :: json_text
  xa_retry_mode :: string
  xa_idempotency_key :: string
  xa_status :: string
  xa_dispatch_count :: int
  xa_dispatch_token :: "string option"
  xa_provider_reference :: "string option"
  xa_result_json :: "json_text option"
  xa_error_code :: "string option"
  xa_created_at :: string
  xa_updated_at :: string
  xa_dispatched_at :: "string option"
  xa_finalized_at :: "string option"

section \<open>Memory tables\<close>

text \<open>
  The rows of \<^verbatim>\<open>runtime_service/memory.py\<close>. A row of \<^verbatim>\<open>memory_records\<close> has the fields of a
  \<^verbatim>\<open>MemoryRecord\<close>; its value column is JSON text with sorted keys and is kept as that value. A
  Python float is \<open>m * 2 ^ e\<close> for two integers, or not finite.
\<close>

datatype py_float = Binary int int | NotFinite

datatype memory_kind = PREFERENCE | FACT

fun kind_value :: "memory_kind \<Rightarrow> string" where
  "kind_value PREFERENCE = ''preference''"
| "kind_value FACT = ''fact''"

datatype memory_status = MEM_ACTIVE | MEM_SUPERSEDED | MEM_DELETED

record memory_row =
  mm_memory_id :: string
  mm_tenant_id :: string
  mm_subject_id :: string
  mm_domain_id :: string
  mm_kind :: memory_kind
  mm_key :: string
  mm_value :: json
  mm_status :: memory_status
  mm_source_run_id :: "string option"
  mm_source_thread_id :: "string option"
  mm_confidence :: py_float
  mm_version :: int
  mm_created_at :: string
  mm_updated_at :: string
  mm_expires_at :: "string option"

record retrieved_memory =
  rm_memory_id :: string
  rm_kind :: memory_kind
  rm_key :: string
  rm_value :: json
  rm_source_run_id :: "string option"
  rm_source_thread_id :: "string option"
  rm_confidence :: py_float
  rm_version :: int
  rm_created_at :: string
  rm_expires_at :: "string option"

record memory_snapshot =
  ms_run_id :: string
  ms_tenant_id :: string
  ms_subject_id :: string
  ms_domain_id :: string
  ms_memories :: "retrieved_memory list"
  ms_created_at :: string

record memory_event =
  me_event_id :: int
  me_tenant_id :: string
  me_subject_id :: string
  me_event_type :: string
  me_memory_id :: "string option"
  me_actor_subject_id :: string
  me_source_run_id :: "string option"
  me_payload :: "(string \<times> json) list"
  me_created_at :: string

record memory_tables =
  mt_records :: "memory_row table"
  mt_events :: "memory_event table"
  mt_next_event_id :: int
  mt_snapshots :: "memory_snapshot table"

definition empty_memory :: memory_tables where
  "empty_memory = \<lparr>mt_records = [], mt_events = [], mt_next_event_id = 1, mt_snapshots = []\<rparr>"

section \<open>The database\<close>

text \<open>
  \<^verbatim>\<open>AUTOINCREMENT\<close> never reuses an event id, so the next id is part of the state.
\<close>

record db =
  db_runs :: "run_row table"
  db_run_events :: "run_event table"
  db_thread_states :: "thread_row table"
  db_next_event_id :: int
  db_executions :: "execution_row table"
  db_tool_calls :: "tool_row table"
  db_external_actions :: "action_row table"
  db_workflow_events :: "run_event table"
  db_next_workflow_event_id :: int
  db_memory :: memory_tables

definition empty_db :: db where
  "empty_db = \<lparr>db_runs = [], db_run_events = [], db_thread_states = [], db_next_event_id = 1,
     db_executions = [], db_tool_calls = [], db_external_actions = [], db_workflow_events = [],
     db_next_workflow_event_id = 1, db_memory = empty_memory\<rparr>"

datatype store_error =
    KeyError string
  | ValueError string
  | RuntimeError string
  | ValidationError
  | IntegrityError
  | RunLeaseLostError string
  | ThreadStateConflictError string
  | ThreadCheckpointRevisionConflictError "int option" int
  | StaleAttemptError string
  | StaleDispatchError string

type_synonym 'a store_body = "(store_error, 'a, db) body"
type_synonym 'a store_outcome = "(store_error, 'a, db) outcome"

end
