(* ===== verification/Run_Store.thy ===== *)
theory Run_Store
  imports Runtime_Database
begin

text \<open>
  The SQLite run store, \<^verbatim>\<open>runtime_service/store.py\<close>: one definition per operation, in the
  order of the class. An operation is one write transaction (\<^verbatim>\<open>BEGIN IMMEDIATE\<close>), so it is
  a function from the database to a result and the next database; an exception inside the
  transaction leaves the database as it was. What the operation reads from outside is an
  argument: \<open>clk\<close> gives the successive readings of \<^verbatim>\<open>utc_now\<close>, \<open>now_ms\<close> the one
  reading of the lease clock inside the transaction, \<open>M\<close> the registered Pydantic state
  models, and \<open>token\<close> the freshly drawn lease token.
\<close>

section \<open>Constants and state models\<close>

definition THREAD_CHECKPOINT_CONFLICT_CODE :: string where
  "THREAD_CHECKPOINT_CONFLICT_CODE = ''thread_checkpoint_conflict''"

definition THREAD_CHECKPOINT_RECONCILIATION_BLOCKED_CODE :: string where
  "THREAD_CHECKPOINT_RECONCILIATION_BLOCKED_CODE = ''thread_checkpoint_conflict_reconciliation_pending''"

definition CONTROL_PLANE_EVENT_TYPES :: "string list" where
  "CONTROL_PLANE_EVENT_TYPES = [''sandbox.execution_started'', ''sandbox.execution_finished'']"

text \<open>
  The domain state classes are outside the store: \<open>m_registered\<close> says which schemas the
  agent registry knows, \<open>m_validate\<close> is the class's \<^verbatim>\<open>model_validate\<close>.
\<close>

record models =
  m_registered :: "string \<Rightarrow> string \<Rightarrow> bool"
  m_validate :: "string \<Rightarrow> string \<Rightarrow> state_json \<Rightarrow> rt_state option"

definition parse_state :: "models \<Rightarrow> string \<Rightarrow> string \<Rightarrow> state_json \<Rightarrow> store_error + rt_state" where
  "parse_state M domain_id schema_version payload =
     (if \<not> m_registered M domain_id schema_version
      then Inl (KeyError (''Unknown state schema: '' @ domain_id @ '':'' @ schema_version))
      else case m_validate M domain_id schema_version payload of
        None \<Rightarrow> Inl ValidationError
      | Some st \<Rightarrow> Inr st)"

definition project_thread_checkpoint_state :: "models \<Rightarrow> rt_state \<Rightarrow> store_error + rt_state" where
  "project_thread_checkpoint_state M st =
     (let payload = (model_dump st)\<lparr>sj_execution_trace := []\<rparr>
      in case m_validate M (st_domain_id st) (st_schema_version st) payload of
        None \<Rightarrow> Inl ValidationError
      | Some p \<Rightarrow> Inr p)"

section \<open>Rows and records\<close>

definition legacy_input_message :: "(string \<times> json) list \<Rightarrow> string" where
  "legacy_input_message payload = (case py_get payload ''user_message'' of JStr v \<Rightarrow> v | _ \<Rightarrow> '''')"

definition run_values :: "run_record \<Rightarrow> run_row" where
  "run_values run = \<lparr>
     r_run_id = r_run_id run, r_tenant_id = r_tenant_id run,
     r_execution_authority = r_execution_authority run, r_thread_id = r_thread_id run,
     r_agent_id = r_agent_id run, r_agent_version = r_agent_version run,
     r_domain_id = r_domain_id run, r_schema_version = r_schema_version run,
     r_status = r_status run, r_output_message = r_output_message run,
     r_validation_errors = r_validation_errors run, r_error_code = r_error_code run,
     r_error = r_error run, r_attempt = r_attempt run,
     r_cancel_requested = r_cancel_requested run, r_client_request_id = r_client_request_id run,
     r_created_at = r_created_at run, r_updated_at = r_updated_at run,
     r_started_at = r_started_at run, r_completed_at = r_completed_at run,
     r_lease_owner_id = r_lease_owner_id run, r_lease_token = r_lease_token run,
     r_lease_heartbeat_at = r_lease_heartbeat_at run, r_lease_expires_at = r_lease_expires_at run,
     r_checkpoint_base_revision = r_checkpoint_base_revision run,
     r_input_message = legacy_input_message (r_input run), r_input_json = Some (r_input run),
     r_state_json = map_option model_dump (r_state run)\<rparr>"

text \<open>The field constraints that constructing a \<^verbatim>\<open>RunRecord\<close> checks.\<close>

definition record_fields_valid :: "'a run_core_scheme \<Rightarrow> bool" where
  "record_fields_valid r \<longleftrightarrow> r_tenant_id r \<noteq> [] \<and> length (r_tenant_id r) \<le> 200 \<and>
     (case r_checkpoint_base_revision r of None \<Rightarrow> True | Some b \<Rightarrow> 0 \<le> b)"

definition deserialize_state :: "models \<Rightarrow> run_row \<Rightarrow> store_error + rt_state option" where
  "deserialize_state M row = (case r_state_json row of
      None \<Rightarrow> Inr None
    | Some j \<Rightarrow> (case parse_state M (r_domain_id row) (r_schema_version row) j of
          Inl e \<Rightarrow> Inl e | Inr st \<Rightarrow> Inr (Some st)))"

definition row_to_run :: "models \<Rightarrow> run_row \<Rightarrow> store_error + run_record" where
  "row_to_run M row = (case deserialize_state M row of
      Inl e \<Rightarrow> Inl e
    | Inr st \<Rightarrow>
      if \<not> record_fields_valid row then Inl ValidationError
      else Inr \<lparr>
        r_run_id = r_run_id row, r_tenant_id = r_tenant_id row,
        r_execution_authority = r_execution_authority row, r_thread_id = r_thread_id row,
        r_agent_id = r_agent_id row, r_agent_version = r_agent_version row,
        r_domain_id = r_domain_id row, r_schema_version = r_schema_version row,
        r_status = r_status row, r_output_message = r_output_message row,
        r_validation_errors = r_validation_errors row, r_error_code = r_error_code row,
        r_error = r_error row, r_attempt = r_attempt row,
        r_cancel_requested = r_cancel_requested row, r_client_request_id = r_client_request_id row,
        r_created_at = r_created_at row, r_updated_at = r_updated_at row,
        r_started_at = r_started_at row, r_completed_at = r_completed_at row,
        r_lease_owner_id = r_lease_owner_id row, r_lease_token = r_lease_token row,
        r_lease_heartbeat_at = r_lease_heartbeat_at row, r_lease_expires_at = r_lease_expires_at row,
        r_checkpoint_base_revision = r_checkpoint_base_revision row,
        r_input = (case r_input_json row of
            Some payload \<Rightarrow> payload
          | None \<Rightarrow> [(''user_message'', JStr (r_input_message row))]),
        r_state = st\<rparr>)"

section \<open>Table access\<close>

definition thread_key :: "'a run_core_scheme \<Rightarrow> string \<times> string" where
  "thread_key r = (r_tenant_id r, r_thread_id r)"

definition client_key :: "'a run_core_scheme \<Rightarrow> string \<times> string option" where
  "client_key r = (r_tenant_id r, r_client_request_id r)"

text \<open>
  The uniqueness constraints on table \<^verbatim>\<open>runs\<close>: the primary key, one running run per
  tenant-qualified thread (\<^verbatim>\<open>idx_runs_one_running_per_thread\<close>), and one run per
  tenant-qualified client request (\<^verbatim>\<open>idx_runs_tenant_client_request_id\<close>).
\<close>

definition run_constraints :: "run_row table \<Rightarrow> bool" where
  "run_constraints rows \<longleftrightarrow> distinct (map r_run_id rows) \<and>
     distinct (map thread_key (filter (\<lambda>r. r_status r = RUNNING) rows)) \<and>
     distinct (map client_key (filter (\<lambda>r. r_client_request_id r \<noteq> None) rows))"

definition insert_run :: "run_row \<Rightarrow> db \<Rightarrow> unit store_body" where
  "insert_run row s = (if run_constraints (db_runs s @ [row])
     then Inr ((), s\<lparr>db_runs := db_runs s @ [row]\<rparr>) else Inl IntegrityError)"

definition update_runs :: "(run_row \<Rightarrow> bool) \<Rightarrow> (run_row \<Rightarrow> run_row) \<Rightarrow> db \<Rightarrow> nat store_body" where
  "update_runs p f s =
     (let n = rowcount p (db_runs s); rows = sql_update p f (db_runs s)
      in if n = 0 then Inr (0, s)
         else if run_constraints rows then Inr (n, s\<lparr>db_runs := rows\<rparr>)
         else Inl IntegrityError)"

definition select_run :: "string \<Rightarrow> db \<Rightarrow> run_row option" where
  "select_run run_id s = fetchone (\<lambda>r. r_run_id r = run_id) (db_runs s)"

definition select_run_for_tenant :: "string \<Rightarrow> string \<Rightarrow> db \<Rightarrow> run_row option" where
  "select_run_for_tenant run_id tenant_id s =
     fetchone (\<lambda>r. r_run_id r = run_id \<and> r_tenant_id r = tenant_id) (db_runs s)"

definition select_thread :: "string \<Rightarrow> string \<Rightarrow> db \<Rightarrow> thread_row option" where
  "select_thread tenant_id thread_id s =
     fetchone (\<lambda>t. (t_tenant_id t, t_thread_id t) = (tenant_id, thread_id)) (db_thread_states s)"

definition thread_revision :: "db \<Rightarrow> string \<Rightarrow> string \<Rightarrow> int" where
  "thread_revision s tenant_id thread_id =
     (case select_thread tenant_id thread_id s of None \<Rightarrow> 0 | Some t \<Rightarrow> t_revision t)"

definition assert_thread_schema_available ::
  "db \<Rightarrow> string \<Rightarrow> string \<Rightarrow> string \<Rightarrow> string \<Rightarrow> store_error option" where
  "assert_thread_schema_available s tenant_id thread_id domain_id schema_version =
     (case select_thread tenant_id thread_id s of
        None \<Rightarrow> None
      | Some t \<Rightarrow>
          if t_domain_id t \<noteq> domain_id \<or> t_schema_version t \<noteq> schema_version
          then Some (ValueError (''Thread '' @ thread_id @ '' is already bound to '' @
                 t_domain_id t @ '':'' @ t_schema_version t))
          else None)"

text \<open>\<^verbatim>\<open>SELECT COALESCE(MAX(sequence), 0) + 1\<close> and the insert that uses it.\<close>

definition next_sequence :: "string \<Rightarrow> run_event table \<Rightarrow> int" where
  "next_sequence run_id evs =
     (case map e_sequence (filter (\<lambda>e. e_run_id e = run_id) evs) of
        [] \<Rightarrow> 1 | x # xs \<Rightarrow> foldr max xs x + 1)"

definition append_event_with_connection ::
  "string \<Rightarrow> string \<Rightarrow> (string \<times> json) list \<Rightarrow> string \<Rightarrow> db \<Rightarrow> run_event store_body" where
  "append_event_with_connection run_id event_type payload created_at s =
     (if select_run run_id s = None then Inl IntegrityError
      else let event = \<lparr>e_event_id = db_next_event_id s, e_run_id = run_id,
                 e_sequence = next_sequence run_id (db_run_events s), e_event_type = event_type,
                 e_payload_json = Encoded (JObj payload), e_created_at = created_at\<rparr>
           in Inr (event, s\<lparr>db_run_events := db_run_events s @ [event],
                             db_next_event_id := db_next_event_id s + 1\<rparr>))"

section \<open>Creating runs\<close>

definition assert_new_queued_run :: "run_record \<Rightarrow> bool" where
  "assert_new_queued_run run \<longleftrightarrow> \<not> (r_status run \<noteq> QUEUED \<or> r_attempt run \<noteq> 0
     \<or> r_cancel_requested run \<or> r_started_at run \<noteq> None \<or> r_completed_at run \<noteq> None
     \<or> r_output_message run \<noteq> None \<or> r_validation_errors run \<noteq> []
     \<or> r_error_code run \<noteq> None \<or> r_error run \<noteq> None
     \<or> r_checkpoint_base_revision run \<noteq> None
     \<or> r_lease_owner_id run \<noteq> None \<or> r_lease_token run \<noteq> None
     \<or> r_lease_heartbeat_at run \<noteq> None \<or> r_lease_expires_at run \<noteq> None)"

definition prepare_client_state_seed :: "run_record \<Rightarrow> db \<Rightarrow> run_record store_body" where
  "prepare_client_state_seed run s =
     (if r_state run = None then Inr (run, s)
      else if select_thread (r_tenant_id run) (r_thread_id run) s \<noteq> None
        \<or> (\<exists>r\<in>set (db_runs s). thread_key r = thread_key run \<and> r_run_id r \<noteq> r_run_id run
              \<and> r_status r \<in> {QUEUED, RUNNING})
      then Inl (ThreadStateConflictError (r_thread_id run))
      else case update_runs (\<lambda>r. r_run_id r = r_run_id run)
                  (\<lambda>r. r\<lparr>r_checkpoint_base_revision := Some 0\<rparr>) s of
        Inl e \<Rightarrow> Inl e
      | Inr (n, s1) \<Rightarrow>
          if n \<noteq> 1 then Inl (RuntimeError ''Client-state seed Run disappeared during creation'')
          else Inr (run\<lparr>r_checkpoint_base_revision := Some 0\<rparr>, s1))"

definition create_run :: "run_record \<Rightarrow> db \<Rightarrow> run_record store_outcome" where
  "create_run run s =
     (if \<not> assert_new_queued_run run
      then (Inl (ValueError ''New Runs must be pristine queued records without lease authority''), s)
      else transaction s (case insert_run (run_values run) s of
          Inl e \<Rightarrow> Inl e
        | Inr (_, s1) \<Rightarrow> prepare_client_state_seed run s1))"

definition create_run_with_event ::
  "(nat \<Rightarrow> string) \<Rightarrow> run_record \<Rightarrow> string \<Rightarrow> (string \<times> json) list \<Rightarrow> db \<Rightarrow> run_record store_outcome" where
  "create_run_with_event clk run event_type payload s =
     (if \<not> assert_new_queued_run run
      then (Inl (ValueError ''New Runs must be pristine queued records without lease authority''), s)
      else if event_type \<noteq> ''run.queued''
      then (Inl (ValueError (''A new Run'' @ [CHR 0x27] @ ''s initial event must be run.queued'')), s)
      else transaction s (case insert_run (run_values run) s of
          Inl e \<Rightarrow> Inl e
        | Inr (_, s1) \<Rightarrow> (case prepare_client_state_seed run s1 of
            Inl e \<Rightarrow> Inl e
          | Inr (run', s2) \<Rightarrow> (case append_event_with_connection (r_run_id run) event_type payload (clk 0) s2 of
              Inl e \<Rightarrow> Inl e
            | Inr (_, s3) \<Rightarrow> Inr (run', s3)))))"

section \<open>Reading runs\<close>

definition read_row :: "models \<Rightarrow> run_row option \<Rightarrow> store_error + run_record option" where
  "read_row M row = (case row of None \<Rightarrow> Inr None
     | Some r \<Rightarrow> (case row_to_run M r of Inl e \<Rightarrow> Inl e | Inr run \<Rightarrow> Inr (Some run)))"

definition get_run_internal :: "models \<Rightarrow> string \<Rightarrow> db \<Rightarrow> store_error + run_record option" where
  "get_run_internal M run_id s = read_row M (select_run run_id s)"

definition get_run_for_tenant :: "models \<Rightarrow> string \<Rightarrow> string \<Rightarrow> db \<Rightarrow> store_error + run_record option" where
  "get_run_for_tenant M run_id tenant_id s = read_row M (select_run_for_tenant run_id tenant_id s)"

definition get_run_by_client_request_id ::
  "models \<Rightarrow> string \<Rightarrow> string \<Rightarrow> db \<Rightarrow> store_error + run_record option" where
  "get_run_by_client_request_id M tenant_id client_request_id s =
     read_row M (fetchone (\<lambda>r. r_tenant_id r = tenant_id \<and>
       sql_eq (r_client_request_id r) (Some client_request_id)) (db_runs s))"

fun rows_to_runs :: "models \<Rightarrow> run_row list \<Rightarrow> store_error + run_record list" where
  "rows_to_runs M [] = Inr []"
| "rows_to_runs M (r # rows) = (case row_to_run M r of
     Inl e \<Rightarrow> Inl e
   | Inr run \<Rightarrow> (case rows_to_runs M rows of Inl e \<Rightarrow> Inl e | Inr runs \<Rightarrow> Inr (run # runs)))"

definition list_recoverable_runs :: "models \<Rightarrow> db \<Rightarrow> store_error + run_record list" where
  "list_recoverable_runs M s = rows_to_runs M (sort_key r_created_at
     (filter (\<lambda>r. r_status r \<in> {QUEUED, RUNNING}) (db_runs s)))"

definition list_events :: "string \<Rightarrow> int \<Rightarrow> db \<Rightarrow> run_event list" where
  "list_events run_id after_sequence s = sort_key e_sequence
     (filter (\<lambda>e. e_run_id e = run_id \<and> after_sequence < e_sequence e) (db_run_events s))"

definition list_events_for_tenant :: "string \<Rightarrow> string \<Rightarrow> int \<Rightarrow> db \<Rightarrow> run_event list" where
  "list_events_for_tenant run_id tenant_id after_sequence s = sort_key e_sequence
     (filter (\<lambda>e. e_run_id e = run_id \<and>
        (\<exists>r\<in>set (db_runs s). r_run_id r = e_run_id e \<and> r_tenant_id r = tenant_id) \<and>
        after_sequence < e_sequence e) (db_run_events s))"

record thread_snapshot =
  ts_state :: "rt_state option"
  ts_revision :: int

definition load_thread_state_snapshot ::
  "models \<Rightarrow> string \<Rightarrow> string \<Rightarrow> string option \<Rightarrow> string option \<Rightarrow> int option \<Rightarrow> bool \<Rightarrow> db
     \<Rightarrow> store_error + thread_snapshot" where
  "load_thread_state_snapshot M thread_id tenant_id domain_id schema_version expected_revision
       require_revision_match s =
     (let row = select_thread tenant_id thread_id s;
          observed_revision = (case row of None \<Rightarrow> 0 | Some t \<Rightarrow> t_revision t)
      in if require_revision_match \<and> expected_revision \<noteq> Some observed_revision
         then Inl (ThreadCheckpointRevisionConflictError expected_revision observed_revision)
         else case row of
           None \<Rightarrow> Inr \<lparr>ts_state = None, ts_revision = 0\<rparr>
         | Some t \<Rightarrow>
             if domain_id \<noteq> None \<and> Some (t_domain_id t) \<noteq> domain_id
             then Inl (ValueError (''Thread '' @ thread_id @ '' belongs to domain '' @ t_domain_id t))
             else if schema_version \<noteq> None \<and> Some (t_schema_version t) \<noteq> schema_version
             then Inl (ValueError (''Thread '' @ thread_id @ '' uses schema '' @ t_schema_version t))
             else case parse_state M (t_domain_id t) (t_schema_version t) (t_state_json t) of
               Inl e \<Rightarrow> Inl e
             | Inr st \<Rightarrow> Inr \<lparr>ts_state = Some st, ts_revision = observed_revision\<rparr>)"

definition load_thread_state ::
  "models \<Rightarrow> string \<Rightarrow> string \<Rightarrow> string option \<Rightarrow> string option \<Rightarrow> db \<Rightarrow> store_error + rt_state option" where
  "load_thread_state M thread_id tenant_id domain_id schema_version s =
     (case load_thread_state_snapshot M thread_id tenant_id domain_id schema_version None False s of
        Inl e \<Rightarrow> Inl e | Inr snap \<Rightarrow> Inr (ts_state snap))"

end
