(* ===== verification/Run_Leases.thy ===== *)
theory Run_Leases
  imports Run_Store
begin

text \<open>
  Lease operations of the run store: claiming a queued or expired run, renewing and
  relinquishing a lease, events fenced by a lease, and the cancellation requests that race
  with it (\<^verbatim>\<open>runtime_service/store.py\<close>). The second half proves what each operation
  does, on every branch.
\<close>

section \<open>Lease state of a row\<close>

definition clear_lease :: "'a run_core_scheme \<Rightarrow> 'a run_core_scheme" where
  "clear_lease r = r\<lparr>r_lease_owner_id := None, r_lease_token := None,
     r_lease_heartbeat_at := None, r_lease_expires_at := None\<rparr>"

definition lease_cleared :: "'a run_core_scheme \<Rightarrow> bool" where
  "lease_cleared r \<longleftrightarrow> r_lease_owner_id r = None \<and> r_lease_token r = None
     \<and> r_lease_heartbeat_at r = None \<and> r_lease_expires_at r = None"

text \<open>\<^verbatim>\<open>current_lease\<close>: the row carries this token and its deadline is after the store's clock.\<close>

definition current_lease :: "string \<Rightarrow> int \<Rightarrow> 'a run_core_scheme \<Rightarrow> bool" where
  "current_lease token now_ms r \<longleftrightarrow> r_lease_token r = Some token \<and> sql_gt (r_lease_expires_at r) now_ms"

text \<open>Some worker holds an unexpired lease on the row.\<close>

definition live_lease :: "int \<Rightarrow> 'a run_core_scheme \<Rightarrow> bool" where
  "live_lease now_ms r \<longleftrightarrow> r_status r = RUNNING \<and> r_lease_token r \<noteq> None \<and> sql_gt (r_lease_expires_at r) now_ms"

section \<open>Claiming\<close>

definition claimable_queued :: "run_row table \<Rightarrow> run_row \<Rightarrow> bool" where
  "claimable_queued rows c \<longleftrightarrow> r_status c = QUEUED \<and> \<not> r_cancel_requested c \<and>
     \<not> (\<exists>t\<in>set rows. thread_key t = thread_key c \<and> r_status t = RUNNING)"

definition claimable_expired :: "int \<Rightarrow> run_row table \<Rightarrow> run_row \<Rightarrow> bool" where
  "claimable_expired now_ms rows c \<longleftrightarrow> r_status c = RUNNING \<and>
     r_checkpoint_base_revision c \<noteq> None \<and>
     r_error_code c \<noteq> Some THREAD_CHECKPOINT_RECONCILIATION_BLOCKED_CODE \<and>
     (r_lease_token c = None \<or> r_lease_expires_at c = None \<or> sql_le (r_lease_expires_at c) now_ms) \<and>
     \<not> (\<exists>t\<in>set rows. thread_key t = thread_key c \<and> r_run_id t \<noteq> r_run_id c \<and> live_lease now_ms t)"

definition claim_candidate :: "int \<Rightarrow> db \<Rightarrow> run_row option" where
  "claim_candidate now_ms s = select_first (\<lambda>r. (r_created_at r, r_run_id r))
     (\<lambda>c. claimable_queued (db_runs s) c \<or> claimable_expired now_ms (db_runs s) c) (db_runs s)"

text \<open>The \<^verbatim>\<open>WHERE\<close> clause of the claiming update repeats the condition on the updated row.\<close>

definition claim_where :: "int \<Rightarrow> run_row table \<Rightarrow> string \<Rightarrow> run_row \<Rightarrow> bool" where
  "claim_where now_ms rows run_id r \<longleftrightarrow> r_run_id r = run_id \<and>
     ((r_status r = QUEUED \<and> \<not> r_cancel_requested r \<and>
        \<not> (\<exists>t\<in>set rows. thread_key t = thread_key r \<and> r_run_id t \<noteq> r_run_id r \<and> r_status t = RUNNING))
      \<or> claimable_expired now_ms rows r)"

definition claim_set ::
  "(nat \<Rightarrow> string) \<Rightarrow> string \<Rightarrow> string \<Rightarrow> int \<Rightarrow> string option \<Rightarrow> int \<Rightarrow> db \<Rightarrow> run_row \<Rightarrow> run_row" where
  "claim_set clk token owner_id lease_duration_seconds pending_code now_ms s r = r\<lparr>
     r_status := RUNNING, r_started_at := Some (clk 0), r_attempt := r_attempt r + 1,
     r_error := (if sql_eq (r_error_code r) pending_code then r_error r else None),
     r_error_code := (if sql_eq (r_error_code r) pending_code then r_error_code r else None),
     r_updated_at := clk 0, r_lease_owner_id := Some owner_id, r_lease_token := Some token,
     r_lease_heartbeat_at := Some now_ms,
     r_lease_expires_at := Some (now_ms + lease_duration_seconds * 1000),
     r_checkpoint_base_revision := (case r_checkpoint_base_revision r of
        Some b \<Rightarrow> Some b | None \<Rightarrow> Some (thread_revision s (r_tenant_id r) (r_thread_id r)))\<rparr>"

definition recovery_reason_of :: "run_row \<Rightarrow> recovery_reason option" where
  "recovery_reason_of c = (if r_status c = RUNNING
     then Some (if r_lease_token c = None \<or> r_lease_expires_at c = None then LEGACY_UNLEASED else LEASE_EXPIRED)
     else None)"

definition claim_events ::
  "(nat \<Rightarrow> string) \<Rightarrow> string option \<Rightarrow> run_row \<Rightarrow> run_record \<Rightarrow> db \<Rightarrow> unit store_body" where
  "claim_events clk pending_code c run s1 =
     (case (case recovery_reason_of c of
          None \<Rightarrow> Inr s1
        | Some reason \<Rightarrow> (case append_event_with_connection (r_run_id run) ''run.recovered''
              [(''reason'', JStr (if pending_code \<noteq> None \<and> r_error_code c = pending_code
                                 then the pending_code else recovery_value reason))] (clk 1) s1 of
            Inl e \<Rightarrow> Inl e | Inr (_, s2) \<Rightarrow> Inr s2)) of
        Inl e \<Rightarrow> Inl e
      | Inr s2 \<Rightarrow> (case append_event_with_connection (r_run_id run) ''run.started''
            [(''attempt'', JInt (r_attempt run)), (''recovered'', JBool (recovery_reason_of c \<noteq> None)),
             (''checkpoint_base_revision'', jopt_int (r_checkpoint_base_revision run))] (clk 2) s2 of
          Inl e \<Rightarrow> Inl e | Inr (_, s3) \<Rightarrow> Inr ((), s3)))"

definition claim_next_run ::
  "models \<Rightarrow> (nat \<Rightarrow> string) \<Rightarrow> string \<Rightarrow> string \<Rightarrow> int \<Rightarrow> string option \<Rightarrow> int \<Rightarrow> db
     \<Rightarrow> lease_claim option store_outcome" where
  "claim_next_run M clk token owner_id lease_duration_seconds pending_code now_ms s =
     (if owner_id = [] then (Inl (ValueError ''owner_id must not be empty''), s)
      else if lease_duration_seconds \<le> 0
      then (Inl (ValueError ''lease_duration_seconds must be positive''), s)
      else transaction s (case claim_candidate now_ms s of
          None \<Rightarrow> Inr (None, s)
        | Some c \<Rightarrow> (case update_runs (claim_where now_ms (db_runs s) (r_run_id c))
                (claim_set clk token owner_id lease_duration_seconds pending_code now_ms s) s of
            Inl e \<Rightarrow> Inl e
          | Inr (n, s1) \<Rightarrow>
              if n \<noteq> 1 then Inr (None, s1)
              else (case select_run (r_run_id c) s1 of
                None \<Rightarrow> Inl (RuntimeError ''AssertionError'')
              | Some row \<Rightarrow> (case row_to_run M row of
                  Inl e \<Rightarrow> Inl e
                | Inr run \<Rightarrow> (case claim_events clk pending_code c run s1 of
                    Inl e \<Rightarrow> Inl e
                  | Inr (_, s2) \<Rightarrow> Inr (Some \<lparr>c_run = run, c_owner_id = owner_id,
                        c_lease_token = token, c_recovery_reason = recovery_reason_of c\<rparr>, s2)))))))"

section \<open>Renewing, relinquishing and using a lease\<close>

definition renew_run_lease ::
  "(nat \<Rightarrow> string) \<Rightarrow> string \<Rightarrow> string \<Rightarrow> int \<Rightarrow> int \<Rightarrow> db \<Rightarrow> bool store_outcome" where
  "renew_run_lease clk run_id lease_token lease_duration_seconds now_ms s =
     (if lease_token = [] then (Inl (ValueError ''lease_token must not be empty''), s)
      else if lease_duration_seconds \<le> 0
      then (Inl (ValueError ''lease_duration_seconds must be positive''), s)
      else transaction s (case update_runs
            (\<lambda>r. r_run_id r = run_id \<and> r_status r = RUNNING \<and> current_lease lease_token now_ms r)
            (\<lambda>r. r\<lparr>r_lease_heartbeat_at := Some now_ms,
                    r_lease_expires_at := Some (now_ms + lease_duration_seconds * 1000),
                    r_updated_at := clk 0\<rparr>) s of
          Inl e \<Rightarrow> Inl e | Inr (n, s1) \<Rightarrow> Inr (n = 1, s1)))"

definition expire_run_lease :: "(nat \<Rightarrow> string) \<Rightarrow> string \<Rightarrow> string \<Rightarrow> int \<Rightarrow> db \<Rightarrow> bool store_outcome" where
  "expire_run_lease clk run_id lease_token now_ms s =
     (if lease_token = [] then (Inl (ValueError ''lease_token must not be empty''), s)
      else transaction s (case update_runs
            (\<lambda>r. r_run_id r = run_id \<and> r_status r = RUNNING \<and> r_lease_token r = Some lease_token)
            (\<lambda>r. r\<lparr>r_lease_heartbeat_at := Some now_ms, r_lease_expires_at := Some now_ms,
                    r_updated_at := clk 0\<rparr>) s of
          Inl e \<Rightarrow> Inl e | Inr (n, s1) \<Rightarrow> Inr (n = 1, s1)))"

definition assert_current_run_lease :: "string \<Rightarrow> string option \<Rightarrow> int \<Rightarrow> db \<Rightarrow> store_error option" where
  "assert_current_run_lease run_id lease_token now_ms s = (case lease_token of
      None \<Rightarrow> Some (RunLeaseLostError (''Run lease token is required: '' @ run_id))
    | Some token \<Rightarrow>
        if fetchone (\<lambda>r. r_run_id r = run_id \<and> r_status r = RUNNING \<and> current_lease token now_ms r)
             (db_runs s) = None
        then Some (RunLeaseLostError (''Run lease is no longer current: '' @ run_id))
        else None)"

definition append_attempt_event ::
  "(nat \<Rightarrow> string) \<Rightarrow> string \<Rightarrow> string option \<Rightarrow> string \<Rightarrow> (string \<times> json) list \<Rightarrow> int \<Rightarrow> db
     \<Rightarrow> run_event store_outcome" where
  "append_attempt_event clk run_id lease_token event_type payload now_ms s = transaction s
     (case assert_current_run_lease run_id lease_token now_ms s of
        Some e \<Rightarrow> Inl e
      | None \<Rightarrow> append_event_with_connection run_id event_type payload (clk 0) s)"

definition append_event :: "string \<Rightarrow> string \<Rightarrow> (string \<times> json) list \<Rightarrow> db \<Rightarrow> run_event store_outcome" where
  "append_event run_id event_type payload s =
     (Inl (RunLeaseLostError (''Unfenced Run event append is prohibited: '' @ run_id)), s)"

definition append_control_plane_event ::
  "(nat \<Rightarrow> string) \<Rightarrow> string \<Rightarrow> string \<Rightarrow> string \<Rightarrow> (string \<times> json) list \<Rightarrow> db \<Rightarrow> run_event store_outcome" where
  "append_control_plane_event clk run_id tenant_id event_type payload s =
     (if event_type \<notin> set CONTROL_PLANE_EVENT_TYPES
      then (Inl (ValueError (''Unsupported control-plane Run event: '' @ event_type)), s)
      else transaction s (if select_run_for_tenant run_id tenant_id s = None
        then Inl (KeyError (''Run not found: '' @ run_id))
        else append_event_with_connection run_id event_type payload (clk 0) s))"

section \<open>Cancellation\<close>

definition finalize_next_queued_cancellation ::
  "models \<Rightarrow> (nat \<Rightarrow> string) \<Rightarrow> db \<Rightarrow> run_record option store_outcome" where
  "finalize_next_queued_cancellation M clk s = transaction s
     (case select_first (\<lambda>r. (r_created_at r, r_run_id r))
            (\<lambda>r. r_status r = QUEUED \<and> r_cancel_requested r) (db_runs s) of
        None \<Rightarrow> Inr (None, s)
      | Some row \<Rightarrow> (case update_runs
              (\<lambda>r. r_run_id r = r_run_id row \<and> r_status r = QUEUED \<and> r_cancel_requested r)
              (\<lambda>r. clear_lease (r\<lparr>r_status := CANCELLED, r_error_code := None, r_error := None,
                     r_completed_at := Some (clk 0), r_updated_at := clk 0\<rparr>)) s of
          Inl e \<Rightarrow> Inl e
        | Inr (n, s1) \<Rightarrow>
            if n \<noteq> 1 then Inr (None, s1)
            else (case append_event_with_connection (r_run_id row) ''run.cancelled''
                     [(''reason'', JStr ''cancelled_before_start'')] (clk 1) s1 of
                Inl e \<Rightarrow> Inl e
              | Inr (_, s2) \<Rightarrow> (case select_run (r_run_id row) s2 of
                  None \<Rightarrow> Inl (RuntimeError ''AssertionError'')
                | Some updated \<Rightarrow> (case row_to_run M updated of
                    Inl e \<Rightarrow> Inl e | Inr run \<Rightarrow> Inr (Some run, s2))))))"

text \<open>
  The returned record is built from the row after the transaction has committed, so a state
  that no longer validates raises although the flag is set.
\<close>

definition request_cancel_atomically ::
  "models \<Rightarrow> (nat \<Rightarrow> string) \<Rightarrow> string \<Rightarrow> string \<Rightarrow> db \<Rightarrow> run_record store_outcome" where
  "request_cancel_atomically M clk run_id tenant_id s =
     (case transaction s (case update_runs
            (\<lambda>r. r_run_id r = run_id \<and> r_tenant_id r = tenant_id \<and> r_status r \<in> {QUEUED, RUNNING}
                 \<and> \<not> r_cancel_requested r)
            (\<lambda>r. r\<lparr>r_cancel_requested := True, r_updated_at := clk 0\<rparr>) s of
          Inl e \<Rightarrow> Inl e
        | Inr (n, s1) \<Rightarrow> (case select_run_for_tenant run_id tenant_id s1 of
            None \<Rightarrow> Inl (KeyError (''Run not found: '' @ run_id))
          | Some row \<Rightarrow>
              if n = 1 then (case append_event_with_connection run_id ''run.cancel_requested''
                   [(''status'', JStr (status_value (r_status row)))] (clk 1) s1 of
                Inl e \<Rightarrow> Inl e | Inr (_, s2) \<Rightarrow> Inr (row, s2))
              else Inr (row, s1))) of
        (Inl e, t) \<Rightarrow> (Inl e, t)
      | (Inr row, t) \<Rightarrow> (row_to_run M row, t))"

end
