(* ===== verification/Run_Commits.thy ===== *)
theory Run_Commits
  imports Run_Leases
begin

text \<open>
  The commits of an execution attempt (\<^verbatim>\<open>runtime_service/store.py\<close>): completion with its
  checkpoint compare-and-set, failure, cancellation, the reconciliation marker, and the two
  dispositions of a checkpoint conflict. Every one is fenced by the attempt's lease token.
  The Python methods also bring the caller's \<^verbatim>\<open>RunRecord\<close> up to date; the model returns it
  beside the outcome.
\<close>

definition classify_commit_outcome ::
  "string \<Rightarrow> string \<Rightarrow> string \<Rightarrow> int \<Rightarrow> db \<Rightarrow> store_error + commit_outcome" where
  "classify_commit_outcome run_id tenant_id lease_token now_ms s =
     (case select_run_for_tenant run_id tenant_id s of
        None \<Rightarrow> Inl (KeyError (''Run not found: '' @ run_id))
      | Some row \<Rightarrow> Inr (
          if is_terminal (r_status row) then ALREADY_TERMINAL
          else if \<not> current_lease lease_token now_ms row then LEASE_LOST
          else if r_cancel_requested row then CANCEL_REQUESTED
          else NOT_ELIGIBLE))"

abbreviation classified ::
  "string \<Rightarrow> string \<Rightarrow> string \<Rightarrow> int \<Rightarrow> 'r \<Rightarrow> db \<Rightarrow> (commit_outcome \<times> 'r) store_body" where
  "classified run_id tenant_id lease_token now_ms run s \<equiv>
     (case classify_commit_outcome run_id tenant_id lease_token now_ms s of
        Inl e \<Rightarrow> Inl e | Inr oc \<Rightarrow> Inr ((oc, run), s))"

text \<open>The columns every terminal commit of an attempt writes.\<close>

definition terminalize ::
  "run_status \<Rightarrow> string option \<Rightarrow> string option \<Rightarrow> string \<Rightarrow> 'a run_core_scheme \<Rightarrow> 'a run_core_scheme" where
  "terminalize st error_code error completed_at r = clear_lease (r\<lparr>r_status := st,
     r_error_code := error_code, r_error := error, r_completed_at := Some completed_at,
     r_updated_at := completed_at\<rparr>)"

section \<open>Checkpoint conflicts\<close>

definition checkpoint_conflict_error :: "int option \<Rightarrow> int \<Rightarrow> string" where
  "checkpoint_conflict_error expected_revision observed_revision =
     ''Thread checkpoint revision changed while the Run held execution ownership: expected ''
     @ show_opt_int expected_revision @ '', observed '' @ show_int observed_revision"

definition fail_checkpoint_conflict_with_connection ::
  "(nat \<Rightarrow> string) \<Rightarrow> string \<Rightarrow> string \<Rightarrow> string \<Rightarrow> int option \<Rightarrow> int \<Rightarrow> string \<Rightarrow> int \<Rightarrow> db \<Rightarrow> string store_body" where
  "fail_checkpoint_conflict_with_connection clk run_id tenant_id lease_token expected_revision
       observed_revision phase now_ms s =
     (let error = checkpoint_conflict_error expected_revision observed_revision
      in case update_runs (\<lambda>r. r_run_id r = run_id \<and> r_tenant_id r = tenant_id \<and> r_status r = RUNNING
              \<and> \<not> r_cancel_requested r \<and> current_lease lease_token now_ms r)
            (terminalize FAILED (Some THREAD_CHECKPOINT_CONFLICT_CODE) (Some error) (clk 0)) s of
          Inl e \<Rightarrow> Inl e
        | Inr (n, s1) \<Rightarrow>
            if n \<noteq> 1 then Inl (RuntimeError ''Checkpoint conflict terminalization lost its Run lease'')
            else (case append_event_with_connection run_id ''checkpoint.conflict''
                [(''phase'', JStr phase), (''expected_revision'', jopt_int expected_revision),
                 (''observed_revision'', JInt observed_revision)] (clk 1) s1 of
                Inl e \<Rightarrow> Inl e
              | Inr (_, s2) \<Rightarrow> (case append_event_with_connection run_id ''run.failed''
                    [(''error_code'', JStr THREAD_CHECKPOINT_CONFLICT_CODE), (''error'', JStr error)] (clk 2) s2 of
                  Inl e \<Rightarrow> Inl e | Inr (_, s3) \<Rightarrow> Inr (error, s3))))"

definition apply_checkpoint_conflict_to_run :: "string \<Rightarrow> string \<Rightarrow> run_record \<Rightarrow> run_record" where
  "apply_checkpoint_conflict_to_run error completed_at run =
     terminalize FAILED (Some THREAD_CHECKPOINT_CONFLICT_CODE) (Some error) completed_at run"

definition commit_checkpoint_conflict ::
  "(nat \<Rightarrow> string) \<Rightarrow> run_record \<Rightarrow> string \<Rightarrow> string \<Rightarrow> int \<Rightarrow> db \<Rightarrow> (commit_outcome \<times> run_record) store_outcome" where
  "commit_checkpoint_conflict clk run lease_token phase now_ms s = transaction s
     (case select_run_for_tenant (r_run_id run) (r_tenant_id run) s of
        None \<Rightarrow> Inl (KeyError (''Run not found: '' @ r_run_id run))
      | Some persisted \<Rightarrow>
          if r_status persisted \<noteq> RUNNING \<or> r_cancel_requested persisted
             \<or> \<not> current_lease lease_token now_ms persisted
          then classified (r_run_id run) (r_tenant_id run) lease_token now_ms run s
          else (case fail_checkpoint_conflict_with_connection clk (r_run_id run) (r_tenant_id run)
                 lease_token (r_checkpoint_base_revision persisted)
                 (thread_revision s (r_tenant_id run) (r_thread_id persisted)) phase now_ms s of
              Inl e \<Rightarrow> Inl e
            | Inr (error, s1) \<Rightarrow>
                Inr ((CHECKPOINT_CONFLICT, apply_checkpoint_conflict_to_run error (clk 0) run), s1)))"

section \<open>Completion\<close>

text \<open>\<^verbatim>\<open>INSERT ... ON CONFLICT(tenant_id, thread_id) DO UPDATE ... WHERE revision = ?\<close>.\<close>

definition upsert_checkpoint ::
  "string \<Rightarrow> string \<Rightarrow> string \<Rightarrow> string \<Rightarrow> state_json \<Rightarrow> string \<Rightarrow> int \<Rightarrow> db \<Rightarrow> nat \<times> db" where
  "upsert_checkpoint tenant_id thread_id domain_id schema_version js updated_at observed_revision s =
     (let key = (\<lambda>t. (t_tenant_id t, t_thread_id t) = (tenant_id, thread_id)) in
      if select_thread tenant_id thread_id s = None
      then (1, s\<lparr>db_thread_states := db_thread_states s @ [\<lparr>t_tenant_id = tenant_id,
              t_thread_id = thread_id, t_domain_id = domain_id, t_schema_version = schema_version,
              t_state_json = js, t_updated_at = updated_at, t_revision = 1\<rparr>]\<rparr>)
      else (rowcount (\<lambda>t. key t \<and> t_revision t = observed_revision) (db_thread_states s),
            s\<lparr>db_thread_states := sql_update (\<lambda>t. key t \<and> t_revision t = observed_revision)
              (\<lambda>t. t\<lparr>t_domain_id := domain_id, t_schema_version := schema_version,
                     t_state_json := js, t_updated_at := updated_at, t_revision := t_revision t + 1\<rparr>)
              (db_thread_states s)\<rparr>))"

text \<open>The part of the completion that runs once the lease and the base revision are checked.\<close>

definition commit_completed_write ::
  "models \<Rightarrow> (nat \<Rightarrow> string) \<Rightarrow> run_record \<Rightarrow> rt_state \<Rightarrow> run_row \<Rightarrow> int \<Rightarrow> string \<Rightarrow> int \<Rightarrow> db
     \<Rightarrow> (commit_outcome \<times> run_record) store_body" where
  "commit_completed_write M clk run st persisted observed_revision lease_token now_ms s =
     (case project_thread_checkpoint_state M st of
        Inl e \<Rightarrow> Inl e
      | Inr checkpoint_state \<Rightarrow> (case assert_thread_schema_available s (r_tenant_id run)
            (r_thread_id persisted) (r_domain_id persisted) (r_schema_version persisted) of
          Some e \<Rightarrow> Inl e
        | None \<Rightarrow> (case update_runs (\<lambda>r. r_run_id r = r_run_id run \<and> r_tenant_id r = r_tenant_id run
                \<and> r_status r = RUNNING \<and> \<not> r_cancel_requested r \<and> current_lease lease_token now_ms r)
              (\<lambda>r. terminalize COMPLETED None None (clk 0) (r\<lparr>r_state_json := Some (model_dump st),
                 r_output_message := r_output_message run,
                 r_validation_errors := r_validation_errors run\<rparr>)) s of
            Inl e \<Rightarrow> Inl e
          | Inr (n, s1) \<Rightarrow>
              if n \<noteq> 1 then classified (r_run_id run) (r_tenant_id run) lease_token now_ms run s1
              else (case upsert_checkpoint (r_tenant_id run) (r_thread_id persisted)
                    (r_domain_id persisted) (r_schema_version persisted)
                    (model_dump checkpoint_state) (clk 0) observed_revision s1 of (m, s2) \<Rightarrow>
                if m \<noteq> 1
                then Inl (RuntimeError ''Thread checkpoint CAS changed inside its write transaction'')
                else (case append_event_with_connection (r_run_id run) ''checkpoint.saved''
                      [(''thread_id'', JStr (r_thread_id persisted)),
                       (''trace_events'', JInt (int (length (st_execution_trace checkpoint_state)))),
                       (''run_trace_events'', JInt (int (length (st_execution_trace st)))),
                       (''projection'', JStr ''execution_trace_reset''),
                       (''base_revision'', JInt observed_revision),
                       (''revision'', JInt (observed_revision + 1))] (clk 1) s2 of
                    Inl e \<Rightarrow> Inl e
                  | Inr (_, s3) \<Rightarrow> (case append_event_with_connection (r_run_id run) ''run.completed''
                        [(''validation_errors'', JList (map JStr (r_validation_errors run)))] (clk 2) s3 of
                      Inl e \<Rightarrow> Inl e
                    | Inr (_, s4) \<Rightarrow>
                        Inr ((COMMITTED, terminalize COMPLETED None None (clk 0) run), s4)))))))"

definition commit_completed_run ::
  "models \<Rightarrow> (nat \<Rightarrow> string) \<Rightarrow> run_record \<Rightarrow> string \<Rightarrow> int \<Rightarrow> db
     \<Rightarrow> (commit_outcome \<times> run_record) store_outcome" where
  "commit_completed_run M clk run lease_token now_ms s = transaction s
     (case select_run_for_tenant (r_run_id run) (r_tenant_id run) s of
        None \<Rightarrow> Inl (KeyError (''Run not found: '' @ r_run_id run))
      | Some persisted \<Rightarrow>
          if r_status persisted \<noteq> RUNNING \<or> r_cancel_requested persisted
             \<or> \<not> current_lease lease_token now_ms persisted
          then classified (r_run_id run) (r_tenant_id run) lease_token now_ms run s
          else (case r_state run of
              None \<Rightarrow> Inl (ValueError ''A completed managed Run must include checkpoint state'')
            | Some st \<Rightarrow>
                let persisted_identity = (r_thread_id persisted, r_domain_id persisted, r_schema_version persisted);
                    expected_revision = r_checkpoint_base_revision persisted;
                    observed_revision = thread_revision s (r_tenant_id run) (r_thread_id persisted)
                in if expected_revision \<noteq> Some observed_revision
                   then (case fail_checkpoint_conflict_with_connection clk (r_run_id run) (r_tenant_id run)
                          lease_token expected_revision observed_revision ''completion'' now_ms s of
                       Inl e \<Rightarrow> Inl e
                     | Inr (error, s1) \<Rightarrow>
                         Inr ((CHECKPOINT_CONFLICT, apply_checkpoint_conflict_to_run error (clk 0) run), s1))
                   else if (r_thread_id run, r_domain_id run, r_schema_version run) \<noteq> persisted_identity
                     \<or> (st_thread_id st, st_domain_id st, st_schema_version st) \<noteq> persisted_identity
                   then Inl (ValueError ''Completed Run and checkpoint state identity must match the persisted Run'')
                   else commit_completed_write M clk run st persisted observed_revision lease_token now_ms s))"

section \<open>Failure, cancellation, reconciliation\<close>

definition commit_failed_run ::
  "(nat \<Rightarrow> string) \<Rightarrow> run_record \<Rightarrow> string \<Rightarrow> string \<Rightarrow> string \<Rightarrow> string option \<Rightarrow> bool \<Rightarrow> int \<Rightarrow> db
     \<Rightarrow> (commit_outcome \<times> run_record) store_outcome" where
  "commit_failed_run clk run lease_token error_code error traceback_text allow_cancel_requested now_ms s =
     transaction s (case update_runs (\<lambda>r. r_run_id r = r_run_id run \<and> r_tenant_id r = r_tenant_id run
            \<and> r_status r = RUNNING \<and> (\<not> r_cancel_requested r \<or> allow_cancel_requested)
            \<and> current_lease lease_token now_ms r)
          (terminalize FAILED (Some error_code) (Some error) (clk 0)) s of
        Inl e \<Rightarrow> Inl e
      | Inr (n, s1) \<Rightarrow>
          if n \<noteq> 1 then classified (r_run_id run) (r_tenant_id run) lease_token now_ms run s1
          else (case append_event_with_connection (r_run_id run) ''run.failed''
                ([(''error_code'', JStr error_code), (''error'', JStr error)] @
                 (case traceback_text of None \<Rightarrow> [] | Some tb \<Rightarrow> [(''traceback'', JStr tb)])) (clk 1) s1 of
              Inl e \<Rightarrow> Inl e
            | Inr (_, s2) \<Rightarrow>
                Inr ((COMMITTED, terminalize FAILED (Some error_code) (Some error) (clk 0) run), s2)))"

definition commit_cancelled_run ::
  "(nat \<Rightarrow> string) \<Rightarrow> run_record \<Rightarrow> string \<Rightarrow> string \<Rightarrow> int \<Rightarrow> db
     \<Rightarrow> (commit_outcome \<times> run_record) store_outcome" where
  "commit_cancelled_run clk run reason lease_token now_ms s = transaction s
     (case update_runs (\<lambda>r. r_run_id r = r_run_id run \<and> r_tenant_id r = r_tenant_id run
            \<and> r_status r \<in> {QUEUED, RUNNING} \<and> r_cancel_requested r \<and> current_lease lease_token now_ms r)
          (\<lambda>r. clear_lease (r\<lparr>r_execution_authority := r_execution_authority run,
             r_thread_id := r_thread_id run, r_agent_id := r_agent_id run,
             r_agent_version := r_agent_version run, r_domain_id := r_domain_id run,
             r_schema_version := r_schema_version run, r_status := CANCELLED,
             r_input_message := legacy_input_message (r_input run), r_input_json := Some (r_input run),
             r_state_json := map_option model_dump (r_state run),
             r_output_message := r_output_message run,
             r_validation_errors := r_validation_errors run, r_error_code := None, r_error := None,
             r_attempt := r_attempt run, r_cancel_requested := True,
             r_client_request_id := r_client_request_id run, r_created_at := r_created_at run,
             r_updated_at := clk 0, r_started_at := r_started_at run, r_completed_at := Some (clk 0)\<rparr>)) s of
        Inl e \<Rightarrow> Inl e
      | Inr (n, s1) \<Rightarrow>
          if n \<noteq> 1 then classified (r_run_id run) (r_tenant_id run) lease_token now_ms run s1
          else (case append_event_with_connection (r_run_id run) ''run.cancelled''
                [(''reason'', JStr reason)] (clk 1) s1 of
              Inl e \<Rightarrow> Inl e
            | Inr (_, s2) \<Rightarrow>
                Inr ((COMMITTED, (terminalize CANCELLED None None (clk 0) run)\<lparr>r_cancel_requested := True\<rparr>), s2)))"

definition commit_reconciliation_pending ::
  "(nat \<Rightarrow> string) \<Rightarrow> string \<Rightarrow> string \<Rightarrow> string \<Rightarrow> string \<Rightarrow> string \<Rightarrow> int \<Rightarrow> db \<Rightarrow> commit_outcome store_outcome" where
  "commit_reconciliation_pending clk run_id tenant_id lease_token error_code error now_ms s = transaction s
     (case update_runs (\<lambda>r. r_run_id r = run_id \<and> r_tenant_id r = tenant_id \<and> r_status r = RUNNING
            \<and> current_lease lease_token now_ms r)
          (\<lambda>r. r\<lparr>r_error_code := Some error_code, r_error := Some error, r_completed_at := None,
                  r_updated_at := clk 0\<rparr>) s of
        Inl e \<Rightarrow> Inl e
      | Inr (n, s1) \<Rightarrow>
          if n = 1 then Inr (COMMITTED, s1)
          else (case classify_commit_outcome run_id tenant_id lease_token now_ms s1 of
              Inl e \<Rightarrow> Inl e | Inr oc \<Rightarrow> Inr (oc, s1)))"

definition quarantine_error :: "int option \<Rightarrow> int \<Rightarrow> string" where
  "quarantine_error expected_revision observed_revision =
     ''Thread checkpoint revision changed while external-action reconciliation remains unresolved; ''
     @ ''the Run is quarantined: expected '' @ show_opt_int expected_revision
     @ '', observed '' @ show_int observed_revision"

definition quarantine_checkpoint_conflict_for_reconciliation ::
  "(nat \<Rightarrow> string) \<Rightarrow> run_record \<Rightarrow> string \<Rightarrow> string \<Rightarrow> int \<Rightarrow> db \<Rightarrow> (commit_outcome \<times> run_record) store_outcome" where
  "quarantine_checkpoint_conflict_for_reconciliation clk run lease_token phase now_ms s = transaction s
     (case select_run_for_tenant (r_run_id run) (r_tenant_id run) s of
        None \<Rightarrow> Inl (KeyError (''Run not found: '' @ r_run_id run))
      | Some persisted \<Rightarrow>
          if r_status persisted \<noteq> RUNNING \<or> \<not> current_lease lease_token now_ms persisted
          then classified (r_run_id run) (r_tenant_id run) lease_token now_ms run s
          else let expected_revision = r_checkpoint_base_revision persisted;
                   observed_revision = thread_revision s (r_tenant_id run) (r_thread_id persisted);
                   error = quarantine_error expected_revision observed_revision
               in if expected_revision = Some observed_revision
                  then Inl (RuntimeError ''Checkpoint reconciliation quarantine requires a current revision mismatch'')
                  else (case update_runs (\<lambda>r. r_run_id r = r_run_id run \<and> r_tenant_id r = r_tenant_id run
                         \<and> r_status r = RUNNING \<and> current_lease lease_token now_ms r)
                       (\<lambda>r. clear_lease (r\<lparr>r_error_code := Some THREAD_CHECKPOINT_RECONCILIATION_BLOCKED_CODE,
                          r_error := Some error, r_completed_at := None, r_updated_at := clk 0\<rparr>)) s of
                     Inl e \<Rightarrow> Inl e
                   | Inr (n, s1) \<Rightarrow>
                       if n \<noteq> 1 then Inl (RuntimeError ''Checkpoint reconciliation quarantine lost its Run lease'')
                       else (case append_event_with_connection (r_run_id run) ''checkpoint.conflict''
                             [(''phase'', JStr phase), (''expected_revision'', jopt_int expected_revision),
                              (''observed_revision'', JInt observed_revision),
                              (''disposition'', JStr ''external_action_reconciliation_quarantined'')] (clk 1) s1 of
                           Inl e \<Rightarrow> Inl e
                         | Inr (_, s2) \<Rightarrow> Inr ((COMMITTED, clear_lease (run\<lparr>r_status := RUNNING,
                               r_error_code := Some THREAD_CHECKPOINT_RECONCILIATION_BLOCKED_CODE,
                               r_error := Some error, r_completed_at := None, r_updated_at := clk 0\<rparr>)), s2))))"

end
