(* ===== verification/Run_Invariant.thy ===== *)
theory Run_Invariant
  imports Run_Commits
begin

text \<open>
  The invariant of the run store's tables and the way they may evolve: what one transaction
  may change and what it never touches. Both are proved for the four primitive writes (insert
  a run, update one run, upsert a checkpoint, append an event) and lifted to the operations
  through a small calculus of transaction bodies.
\<close>

section \<open>A calculus of transaction bodies\<close>

text \<open>\<open>yields P b\<close>: if the body does not raise, its value and next state satisfy \<open>P\<close>.\<close>

definition yields :: "('a \<Rightarrow> 's \<Rightarrow> bool) \<Rightarrow> ('e, 'a, 's) body \<Rightarrow> bool" where
  "yields P b \<longleftrightarrow> (case b of Inl e \<Rightarrow> True | Inr (x, t) \<Rightarrow> P x t)"

lemma yields_simps [simp]: "yields P (Inl e)" "yields P (Inr (x, t)) \<longleftrightarrow> P x t"
  by (simp_all add: yields_def)

lemma yields_bind:
  assumes "yields Q b" and "\<And>x t. Q x t \<Longrightarrow> yields P (g x t)"
  shows "yields P (case b of Inl e \<Rightarrow> Inl e | Inr (x, t) \<Rightarrow> g x t)"
  using assms by (fastforce simp: yields_def split: sum.splits prod.splits)

lemma yields_pure:
  assumes "\<And>x. v = Inr x \<Longrightarrow> yields P (g x)"
  shows "yields P (case v of Inl e \<Rightarrow> Inl e | Inr x \<Rightarrow> g x)"
  using assms by (auto split: sum.splits)

lemma yields_guard:
  assumes "v = None \<Longrightarrow> yields P b"
  shows "yields P (case v of Some e \<Rightarrow> Inl e | None \<Rightarrow> b)"
  using assms by (auto split: option.splits)

lemma yields_if:
  assumes "c \<Longrightarrow> yields P a" and "\<not> c \<Longrightarrow> yields P b"
  shows "yields P (if c then a else b)"
  using assms by auto

lemma yields_option:
  assumes "v = None \<Longrightarrow> yields P a" and "\<And>x. v = Some x \<Longrightarrow> yields P (g x)"
  shows "yields P (case v of None \<Rightarrow> a | Some x \<Rightarrow> g x)"
  using assms by (auto split: option.splits)

lemma yields_mono: "yields P b \<Longrightarrow> (\<And>x t. P x t \<Longrightarrow> Q x t) \<Longrightarrow> yields Q b"
  by (auto simp: yields_def split: sum.splits)

lemma snd_transaction:
  assumes "yields (\<lambda>x t. P t) b" and "P s"
  shows "P (snd (transaction s b))"
  using assms by (auto simp: transaction_def yields_def split: sum.splits prod.splits)

section \<open>The invariant\<close>

text \<open>Either no lease columns are set or all are, with a deadline not before the heartbeat.\<close>

definition lease_ok :: "string option \<Rightarrow> string option \<Rightarrow> int option \<Rightarrow> int option \<Rightarrow> bool" where
  "lease_ok owner token heartbeat expires \<longleftrightarrow> (case token of
      None \<Rightarrow> owner = None \<and> heartbeat = None \<and> expires = None
    | Some _ \<Rightarrow> owner \<noteq> None \<and> (\<exists>h e. heartbeat = Some h \<and> expires = Some e \<and> h \<le> e))"

lemma lease_ok_simps [simp]:
  "lease_ok None None None None"
  "lease_ok (Some ow) (Some tok) (Some h) (Some e) \<longleftrightarrow> h \<le> e"
  by (simp_all add: lease_ok_def)

lemma lease_ok_token: "lease_ok ow tok h e \<Longrightarrow> tok \<noteq> None \<Longrightarrow> ow \<noteq> None \<and> h \<noteq> None \<and> e \<noteq> None"
  by (auto simp: lease_ok_def split: option.splits)

definition row_ok :: "run_row \<Rightarrow> bool" where
  "row_ok r \<longleftrightarrow> record_fields_valid r \<and>
     (r_status r \<noteq> RUNNING \<longrightarrow> lease_cleared r) \<and>
     (r_status r = RUNNING \<longrightarrow> r_checkpoint_base_revision r \<noteq> None \<and> 1 \<le> r_attempt r) \<and>
     (r_status r = QUEUED \<longrightarrow> r_attempt r = 0 \<and> r_started_at r = None \<and> r_error_code r = None) \<and>
     (is_terminal (r_status r) \<longleftrightarrow> r_completed_at r \<noteq> None) \<and>
     lease_ok (r_lease_owner_id r) (r_lease_token r) (r_lease_heartbeat_at r) (r_lease_expires_at r)"

definition base_current :: "db \<Rightarrow> run_row \<Rightarrow> bool" where
  "base_current s r \<longleftrightarrow> is_terminal (r_status r) \<or>
     (\<forall>b. r_checkpoint_base_revision r = Some b \<longrightarrow> b \<le> thread_revision s (r_tenant_id r) (r_thread_id r))"

definition seqs :: "string \<Rightarrow> run_event table \<Rightarrow> int list" where
  "seqs run_id evs = map e_sequence (filter (\<lambda>e. e_run_id e = run_id) evs)"

definition events_ok :: "run_event table \<Rightarrow> int \<Rightarrow> bool" where
  "events_ok evs next_id \<longleftrightarrow>
     (\<forall>run_id. seqs run_id evs = map (\<lambda>i. int i + 1) [0..<length (seqs run_id evs)]) \<and>
     sorted_wrt (<) (map e_event_id evs) \<and> (\<forall>e\<in>set evs. e_event_id e < next_id)"

definition thread_row_key :: "thread_row \<Rightarrow> string \<times> string" where
  "thread_row_key t = (t_tenant_id t, t_thread_id t)"

definition store_inv :: "db \<Rightarrow> bool" where
  "store_inv s \<longleftrightarrow> run_constraints (db_runs s) \<and>
     (\<forall>r\<in>set (db_runs s). row_ok r \<and> base_current s r) \<and>
     distinct (map thread_row_key (db_thread_states s)) \<and>
     (\<forall>t\<in>set (db_thread_states s). 1 \<le> t_revision t) \<and>
     events_ok (db_run_events s) (db_next_event_id s) \<and>
     (\<forall>e\<in>set (db_run_events s). \<exists>r\<in>set (db_runs s). r_run_id r = e_run_id e)"

section \<open>How the tables evolve\<close>

text \<open>
  What happens to one run over its life: its identity and its base revision are fixed, and
  once it is terminal its row never changes again.
\<close>

definition row_evolves :: "run_row \<Rightarrow> run_row \<Rightarrow> bool" where
  "row_evolves r r' \<longleftrightarrow> r_run_id r' = r_run_id r \<and> r_tenant_id r' = r_tenant_id r \<and>
     (is_terminal (r_status r) \<longrightarrow> r' = r) \<and>
     (\<not> is_terminal (r_status r') \<longrightarrow> thread_key r' = thread_key r \<and> r_attempt r \<le> r_attempt r' \<and>
        r_created_at r' = r_created_at r) \<and>
     (r_checkpoint_base_revision r \<noteq> None \<longrightarrow>
        r_checkpoint_base_revision r' = r_checkpoint_base_revision r) \<and>
     (r_status r' = QUEUED \<longrightarrow> r_status r = QUEUED) \<and>
     (r_cancel_requested r \<longrightarrow> r_cancel_requested r')"

definition thread_evolves :: "thread_row \<Rightarrow> thread_row \<Rightarrow> bool" where
  "thread_evolves t t' \<longleftrightarrow> thread_row_key t' = thread_row_key t \<and> t_domain_id t' = t_domain_id t \<and>
     t_schema_version t' = t_schema_version t \<and> t_revision t \<le> t_revision t' \<and>
     (t_revision t' = t_revision t \<longrightarrow> t' = t)"

definition evolves :: "db \<Rightarrow> db \<Rightarrow> bool" where
  "evolves s t \<longleftrightarrow>
     (\<forall>run_id r. select_run run_id s = Some r \<longrightarrow>
        (\<exists>r'. select_run run_id t = Some r' \<and> row_evolves r r')) \<and>
     (\<forall>tenant_id thread_id x. select_thread tenant_id thread_id s = Some x \<longrightarrow>
        (\<exists>x'. select_thread tenant_id thread_id t = Some x' \<and> thread_evolves x x')) \<and>
     (\<exists>evs. db_run_events t = db_run_events s @ evs)"

text \<open>The run store only reads the tables of the workflow ledger and of the memory.\<close>

definition ledger_same :: "db \<Rightarrow> db \<Rightarrow> bool" where
  "ledger_same s t \<longleftrightarrow> db_executions t = db_executions s \<and> db_tool_calls t = db_tool_calls s \<and>
     db_external_actions t = db_external_actions s \<and> db_workflow_events t = db_workflow_events s \<and>
     db_next_workflow_event_id t = db_next_workflow_event_id s \<and> db_memory t = db_memory s"

text \<open>One transaction, from a state that satisfies the invariant.\<close>

definition ok_step :: "db \<Rightarrow> db \<Rightarrow> bool" where
  "ok_step s t \<longleftrightarrow> store_inv t \<and> evolves s t \<and> ledger_same s t"

lemma row_evolves_refl [simp]: "row_evolves r r"
  by (simp add: row_evolves_def)

lemma row_evolves_trans: "row_evolves a b \<Longrightarrow> row_evolves b c \<Longrightarrow> row_evolves a c"
proof (cases "is_terminal (r_status b)")
  case True
  then have "row_evolves b c \<Longrightarrow> c = b" by (simp only: row_evolves_def)
  then show "row_evolves a b \<Longrightarrow> row_evolves b c \<Longrightarrow> row_evolves a c" by simp
next
  case False
  then show "row_evolves a b \<Longrightarrow> row_evolves b c \<Longrightarrow> row_evolves a c"
    by (auto simp add: row_evolves_def)
qed

lemma thread_evolves_refl [simp]: "thread_evolves t t"
  by (simp add: thread_evolves_def)

lemma thread_evolves_trans: "thread_evolves a b \<Longrightarrow> thread_evolves b c \<Longrightarrow> thread_evolves a c"
  by (auto simp: thread_evolves_def)

lemma evolves_refl [simp]: "evolves s s"
  by (auto simp: evolves_def)

lemma evolves_trans:
  assumes "evolves s t" and "evolves t u"
  shows "evolves s u"
  unfolding evolves_def
proof (intro conjI allI impI)
  fix run_id r assume "select_run run_id s = Some r"
  with assms show "\<exists>r'. select_run run_id u = Some r' \<and> row_evolves r r'"
    unfolding evolves_def by (meson row_evolves_trans)
next
  fix tenant_id thread_id x assume "select_thread tenant_id thread_id s = Some x"
  with assms show "\<exists>x'. select_thread tenant_id thread_id u = Some x' \<and> thread_evolves x x'"
    unfolding evolves_def by (meson thread_evolves_trans)
next
  from assms show "\<exists>evs. db_run_events u = db_run_events s @ evs"
    unfolding evolves_def by (metis append_assoc)
qed

lemma ok_step_refl: "store_inv s \<Longrightarrow> ok_step s s"
  by (simp add: ok_step_def ledger_same_def)

lemma ok_step_inv: "ok_step s t \<Longrightarrow> store_inv t"
  by (simp add: ok_step_def)

lemma ok_step_trans: "ok_step s t \<Longrightarrow> ok_step t u \<Longrightarrow> ok_step s u"
  by (auto simp: ok_step_def ledger_same_def intro: evolves_trans)

section \<open>Lookups\<close>

lemma select_run_SomeD: "select_run run_id s = Some r \<Longrightarrow> r \<in> set (db_runs s) \<and> r_run_id r = run_id"
  by (auto simp: select_run_def dest: fetchone_SomeD)

lemma store_inv_distinct: "store_inv s \<Longrightarrow> distinct (map r_run_id (db_runs s))"
  by (simp add: store_inv_def run_constraints_def)

lemma select_run_mem: "store_inv s \<Longrightarrow> r \<in> set (db_runs s) \<Longrightarrow> select_run (r_run_id r) s = Some r"
  unfolding select_run_def using store_inv_distinct by (rule fetchone_key)

lemma select_run_for_tenant_SomeD:
  "select_run_for_tenant run_id tenant_id s = Some r \<Longrightarrow>
     r \<in> set (db_runs s) \<and> r_run_id r = run_id \<and> r_tenant_id r = tenant_id"
  by (auto simp: select_run_for_tenant_def dest: fetchone_SomeD)

lemma row_okD: "store_inv s \<Longrightarrow> r \<in> set (db_runs s) \<Longrightarrow> row_ok r"
  by (simp add: store_inv_def)

lemma base_currentD: "store_inv s \<Longrightarrow> r \<in> set (db_runs s) \<Longrightarrow> base_current s r"
  by (simp add: store_inv_def)

lemma select_thread_SomeD:
  "select_thread tenant_id thread_id s = Some t \<Longrightarrow>
     t \<in> set (db_thread_states s) \<and> thread_row_key t = (tenant_id, thread_id)"
  by (auto simp: select_thread_def thread_row_key_def dest: fetchone_SomeD)

lemma select_thread_key: "select_thread tenant_id thread_id s =
  fetchone (\<lambda>t. thread_row_key t = (tenant_id, thread_id)) (db_thread_states s)"
  by (simp add: select_thread_def thread_row_key_def)

lemma thread_frame [simp]:
  "select_thread a b (s\<lparr>db_runs := x\<rparr>) = select_thread a b s"
  "select_thread a b (s\<lparr>db_run_events := y, db_next_event_id := z\<rparr>) = select_thread a b s"
  "thread_revision (s\<lparr>db_runs := x\<rparr>) a b = thread_revision s a b"
  "thread_revision (s\<lparr>db_run_events := y, db_next_event_id := z\<rparr>) a b = thread_revision s a b"
  "select_run c (s\<lparr>db_run_events := y, db_next_event_id := z\<rparr>) = select_run c s"
  "select_run c (s\<lparr>db_thread_states := w\<rparr>) = select_run c s"
  by (simp_all add: select_thread_def thread_revision_def select_run_def)

lemma thread_revision_nonneg: "store_inv s \<Longrightarrow> 0 \<le> thread_revision s a b"
  by (fastforce simp: thread_revision_def store_inv_def split: option.splits dest: select_thread_SomeD)

section \<open>The four primitive writes\<close>

subsection \<open>Appending an event\<close>

lemma next_sequence_ok:
  assumes "events_ok evs n"
  shows "next_sequence run_id evs = int (length (seqs run_id evs)) + 1"
proof (cases "seqs run_id evs")
  case Nil
  then show ?thesis by (simp add: next_sequence_def seqs_def)
next
  case (Cons x xs)
  from assms have "set (seqs run_id evs) = (\<lambda>i. int i + 1) ` {0..<length (seqs run_id evs)}"
    unfolding events_ok_def by (metis set_map set_upt)
  with Cons have "set (x # xs) = (\<lambda>i. int i + 1) ` {0..length xs}"
    by (simp add: atLeastLessThanSuc_atLeastAtMost)
  then have "foldr max xs x = int (length xs) + 1"
    by (intro foldr_max_eq) auto
  with Cons show ?thesis by (simp add: next_sequence_def seqs_def)
qed

lemma seqs_append [simp]:
  "seqs run_id (evs @ [e]) = seqs run_id evs @ (if e_run_id e = run_id then [e_sequence e] else [])"
  by (simp add: seqs_def)

lemma events_ok_append:
  assumes "events_ok evs n" and "e_event_id e = n"
    and "e_sequence e = int (length (seqs (e_run_id e) evs)) + 1"
  shows "events_ok (evs @ [e]) (n + 1)"
proof -
  have "sorted_wrt (<) (map e_event_id (evs @ [e]))"
    using assms by (auto simp: events_ok_def sorted_wrt_append)
  moreover have "seqs run_id (evs @ [e]) = map (\<lambda>i. int i + 1) [0..<length (seqs run_id (evs @ [e]))]" for run_id
    using assms by (auto simp: events_ok_def)
  ultimately show ?thesis using assms by (force simp: events_ok_def)
qed

lemma append_event_eq:
  "append_event_with_connection run_id event_type payload created_at s = Inr (e, t) \<Longrightarrow>
     select_run run_id s \<noteq> None \<and> e_event_id e = db_next_event_id s \<and> e_run_id e = run_id \<and>
     e_sequence e = next_sequence run_id (db_run_events s) \<and> e_event_type e = event_type \<and>
     e_payload_json e = Encoded (JObj payload) \<and> e_created_at e = created_at \<and>
     t = s\<lparr>db_run_events := db_run_events s @ [e], db_next_event_id := db_next_event_id s + 1\<rparr>"
  by (auto simp: append_event_with_connection_def Let_def split: if_splits)

lemma append_event_Inr:
  "select_run run_id s \<noteq> None \<Longrightarrow>
     \<exists>e t. append_event_with_connection run_id event_type payload created_at s = Inr (e, t)"
  by (auto simp: append_event_with_connection_def Let_def)

lemma append_event_ok:
  assumes "ok_step s0 s"
  shows "yields (\<lambda>e t. ok_step s0 t \<and> db_runs t = db_runs s \<and> db_thread_states t = db_thread_states s \<and>
            db_run_events t = db_run_events s @ [e])
          (append_event_with_connection run_id event_type payload created_at s)"
proof (cases "append_event_with_connection run_id event_type payload created_at s")
  case (Inr et)
  obtain e t where et: "et = (e, t)" by force
  from assms have inv: "store_inv s" by (rule ok_step_inv)
  note e = append_event_eq [OF Inr [unfolded et]]
  have "store_inv t"
    using inv e next_sequence_ok [of "db_run_events s"] events_ok_append [of "db_run_events s" _ e]
    by (auto simp: store_inv_def base_current_def dest: select_run_SomeD)
  moreover have "evolves s t"
    using e by (auto simp: evolves_def)
  ultimately show ?thesis
    using assms Inr et e by (auto simp: ok_step_def ledger_same_def intro: evolves_trans)
qed simp

subsection \<open>Updating one run\<close>

text \<open>The condition on an \<^verbatim>\<open>UPDATE runs\<close>: only live rows, each by an allowed change.\<close>

definition row_write :: "db \<Rightarrow> run_row \<Rightarrow> run_row \<Rightarrow> bool" where
  "row_write s r r' \<longleftrightarrow> row_evolves r r' \<and> row_ok r' \<and> base_current s r'"

lemma update_runs_eq:
  "update_runs p f s = Inr (n, t) \<Longrightarrow>
     n = rowcount p (db_runs s) \<and> t = s\<lparr>db_runs := sql_update p f (db_runs s)\<rparr> \<and>
     (run_constraints (db_runs s) \<longrightarrow> run_constraints (db_runs t))"
  by (auto simp: update_runs_def Let_def sql_update_none split: if_splits)

lemma select_run_update:
  assumes "\<And>r. p r \<Longrightarrow> r_run_id (f r) = r_run_id r"
  shows "select_run run_id (s\<lparr>db_runs := sql_update p f (db_runs s)\<rparr>) =
    map_option (\<lambda>r. if p r then f r else r) (select_run run_id s)"
proof -
  have "fetchone (\<lambda>r. r_run_id r = run_id) (sql_update p f rows) =
    map_option (\<lambda>r. if p r then f r else r) (fetchone (\<lambda>r. r_run_id r = run_id) rows)" for rows
    using assms by (induction rows) auto
  then show ?thesis by (simp add: select_run_def)
qed

lemma update_runs_ok:
  assumes "ok_step s0 s"
    and id: "\<And>r. p r \<Longrightarrow> r_run_id (f r) = r_run_id r"
    and wr: "\<And>r. r \<in> set (db_runs s) \<Longrightarrow> row_ok r \<Longrightarrow> base_current s r \<Longrightarrow> p r \<Longrightarrow> row_write s r (f r)"
  shows "yields (\<lambda>n t. ok_step s0 t \<and> n = rowcount p (db_runs s) \<and>
            t = s\<lparr>db_runs := sql_update p f (db_runs s)\<rparr>) (update_runs p f s)"
proof (cases "update_runs p f s")
  case (Inr nt)
  obtain n t where nt: "nt = (n, t)" by force
  from assms(1) have inv: "store_inv s" by (rule ok_step_inv)
  note t = update_runs_eq [OF Inr [unfolded nt]]
  have rows: "row_ok r \<and> base_current s r" if "r \<in> set (db_runs t)" for r
    using that t inv wr by (auto simp: set_sql_update store_inv_def row_write_def split: if_splits)
  have keys: "set (map r_run_id (db_runs t)) = set (map r_run_id (db_runs s))"
    using t map_key_sql_update [of p r_run_id f "db_runs s"] id by simp
  have "store_inv t"
    unfolding store_inv_def
  proof (intro conjI)
    have "e_run_id e \<in> set (map r_run_id (db_runs t))" if "e \<in> set (db_run_events t)" for e
      unfolding keys using that t inv by (force simp: store_inv_def)
    then show "\<forall>e\<in>set (db_run_events t). \<exists>r\<in>set (db_runs t). r_run_id r = e_run_id e"
      by fastforce
  qed (use t inv rows in \<open>auto simp: store_inv_def base_current_def\<close>)
  moreover have "evolves s t"
    using t inv wr select_run_update [of p f _ s] id
    by (auto simp: evolves_def row_write_def store_inv_def dest!: select_run_SomeD)
  ultimately show ?thesis
    using assms(1) Inr nt t by (auto simp: ok_step_def ledger_same_def intro: evolves_trans)
qed simp

subsection \<open>Inserting a run\<close>

lemma insert_run_ok:
  assumes "ok_step s0 s" and "row_ok row" and "base_current s row"
  shows "yields (\<lambda>_ t. ok_step s0 t \<and> t = s\<lparr>db_runs := db_runs s @ [row]\<rparr>) (insert_run row s)"
proof (cases "run_constraints (db_runs s @ [row])")
  case True
  let ?t = "s\<lparr>db_runs := db_runs s @ [row]\<rparr>"
  from assms(1) have inv: "store_inv s" by (rule ok_step_inv)
  have "store_inv ?t"
    using inv assms(2,3) True by (fastforce simp: store_inv_def base_current_def)
  moreover have "evolves s ?t"
    by (auto simp: evolves_def select_run_def fetchone_append)
  ultimately show ?thesis
    using assms(1) True by (auto simp: insert_run_def ok_step_def ledger_same_def intro: evolves_trans)
qed (simp add: insert_run_def)

subsection \<open>Upserting a checkpoint\<close>

definition upserted :: "string \<Rightarrow> string \<Rightarrow> string \<Rightarrow> string \<Rightarrow> state_json \<Rightarrow> string \<Rightarrow> db \<Rightarrow> thread_row" where
  "upserted tenant thread dm ver js at s = \<lparr>t_tenant_id = tenant, t_thread_id = thread, t_domain_id = dm,
     t_schema_version = ver, t_state_json = js, t_updated_at = at,
     t_revision = thread_revision s tenant thread + 1\<rparr>"

lemma thread_frame_upsert:
  assumes "upsert_checkpoint tenant thread dm ver js at observed s = (m, t)"
  shows "\<exists>ts. t = s\<lparr>db_thread_states := ts\<rparr>"
  using assms by (auto simp: upsert_checkpoint_def Let_def split: if_splits)

lemma upsert_select:
  assumes up: "upsert_checkpoint tenant thread dm ver js at observed s = (1, t)" and inv: "store_inv s"
  shows "select_thread a b t = (if (a, b) = (tenant, thread)
     then Some (upserted tenant thread dm ver js at s) else select_thread a b s)"
proof (cases "select_thread tenant thread s")
  case None
  with up have t: "db_thread_states t = db_thread_states s @ [upserted tenant thread dm ver js at s]"
    by (auto simp: upsert_checkpoint_def Let_def upserted_def thread_revision_def)
  show ?thesis
  proof (cases "(a, b) = (tenant, thread)")
    case True
    with None t show ?thesis by (auto simp: select_thread_def fetchone_append upserted_def)
  next
    case False
    with t show ?thesis by (auto simp: select_thread_def fetchone_append upserted_def split: option.splits)
  qed
next
  case (Some x)
  let ?p = "\<lambda>y. thread_row_key y = (tenant, thread) \<and> t_revision y = observed"
  let ?f = "\<lambda>y. y\<lparr>t_domain_id := dm, t_schema_version := ver, t_state_json := js,
      t_updated_at := at, t_revision := t_revision y + 1\<rparr>"
  from up Some have one: "rowcount ?p (db_thread_states s) = 1"
    and t: "db_thread_states t = sql_update ?p ?f (db_thread_states s)"
    by (auto simp: upsert_checkpoint_def Let_def thread_row_key_def)
  from inv have keys: "distinct (map thread_row_key (db_thread_states s))" by (simp add: store_inv_def)
  from one obtain y where y: "y \<in> set (db_thread_states s)" "?p y"
    by (auto dest!: rowcount_witness)
  from Some have x: "x \<in> set (db_thread_states s)" "thread_row_key x = (tenant, thread)"
    by (auto dest: select_thread_SomeD)
  from key_unique [OF keys y(1) x(1)] y x have [simp]: "y = x" by simp
  have "select_thread a b t = map_option (\<lambda>r. if ?p r then ?f r else r) (select_thread a b s)"
    unfolding select_thread_key t by (rule fetchone_sql_update_key) (simp add: thread_row_key_def)
  moreover have "?f x = upserted tenant thread dm ver js at s"
    using Some x(2) by (cases x) (simp add: upserted_def thread_row_key_def thread_revision_def)
  moreover have "\<not> ?p z" if "select_thread a b s = Some z" "(a, b) \<noteq> (tenant, thread)" for z
    using that by (auto dest: select_thread_SomeD)
  ultimately show ?thesis
    using Some y by (cases "select_thread a b s") auto
qed

lemma upsert_observed:
  assumes up: "upsert_checkpoint tenant thread dm ver js at observed s = (1, t)"
    and "select_thread tenant thread s = Some x" and "store_inv s"
  shows "t_revision x = observed"
proof -
  let ?p = "\<lambda>y. thread_row_key y = (tenant, thread) \<and> t_revision y = observed"
  from assms(1,2) have "rowcount ?p (db_thread_states s) = 1"
    by (auto simp: upsert_checkpoint_def Let_def thread_row_key_def)
  then obtain y where y: "y \<in> set (db_thread_states s)" "?p y"
    by (auto dest!: rowcount_witness)
  with assms(2,3) key_unique [of thread_row_key "db_thread_states s" y x] show ?thesis
    by (auto simp: store_inv_def dest: select_thread_SomeD)
qed

lemma upsert_tables:
  assumes up: "upsert_checkpoint tenant thread dm ver js at observed s = (1, t)" and inv: "store_inv s"
  shows "distinct (map thread_row_key (db_thread_states t))"
    and "\<forall>x\<in>set (db_thread_states t). 1 \<le> t_revision x"
proof -
  from inv have keys: "distinct (map thread_row_key (db_thread_states s))"
    and rev: "\<forall>x\<in>set (db_thread_states s). 1 \<le> t_revision x" by (auto simp: store_inv_def)
  show "distinct (map thread_row_key (db_thread_states t))"
  proof (cases "select_thread tenant thread s")
    case None
    then have "(tenant, thread) \<notin> set (map thread_row_key (db_thread_states s))"
      by (auto simp: select_thread_key fetchone_None_iff)
    with None keys up show ?thesis by (auto simp: upsert_checkpoint_def Let_def thread_row_key_def)
  next
    case (Some x)
    with up have "map thread_row_key (db_thread_states t) = map thread_row_key (db_thread_states s)"
      by (auto simp: upsert_checkpoint_def Let_def thread_row_key_def intro!: map_key_sql_update)
    with keys show ?thesis by simp
  qed
  show "\<forall>x\<in>set (db_thread_states t). 1 \<le> t_revision x"
    using up rev by (force simp: upsert_checkpoint_def Let_def set_sql_update split: if_splits)
qed

lemma upsert_checkpoint_ok:
  assumes s0: "ok_step s0 s" and up: "upsert_checkpoint tenant thread dm ver js at observed s = (1, t)"
    and avail: "assert_thread_schema_available s tenant thread dm ver = None"
  shows "ok_step s0 t"
proof -
  from s0 have inv: "store_inv s" by (rule ok_step_inv)
  from thread_frame_upsert [OF up] obtain ts where t: "t = s\<lparr>db_thread_states := ts\<rparr>" by blast
  note sel = upsert_select [OF up inv]
  have rev: "thread_revision s a b \<le> thread_revision t a b" for a b
    using sel [of a b] by (auto simp: thread_revision_def upserted_def)
  have base: "base_current t r" if "base_current s r" for r
    using that rev by (force simp: base_current_def intro: order_trans)
  have "store_inv t"
    using inv base upsert_tables [OF up inv] by (auto simp: store_inv_def t)
  moreover have "evolves s t"
    using sel avail select_thread_SomeD [of tenant thread s] by (auto simp: evolves_def t thread_evolves_def thread_row_key_def upserted_def
        assert_thread_schema_available_def thread_revision_def split: if_splits option.splits)
  ultimately show ?thesis using s0 by (auto simp: ok_step_def ledger_same_def t intro: evolves_trans)
qed

end
