(* ===== verification/Run_Safety.thy ===== *)
theory Run_Safety
  imports Run_Invariant
begin

text \<open>
  Every operation of the run store keeps the store's invariant and evolves its tables only in
  the allowed way. The first section lists the row changes the operations make; the second
  goes through the operations, each by the body calculus.
\<close>

section \<open>Allowed changes of one row\<close>

lemmas row_defs = row_write_def row_evolves_def row_ok_def base_current_def record_fields_valid_def
  thread_key_def clear_lease_def lease_cleared_def terminalize_def

lemma row_write_terminalize:
  "row_ok r \<Longrightarrow> r_status r = RUNNING \<Longrightarrow> is_terminal st \<Longrightarrow>
     row_write s r (terminalize st c e t r)"
  by (cases st) (simp_all add: row_defs)

lemma row_write_completed:
  "row_ok r \<Longrightarrow> r_status r = RUNNING \<Longrightarrow>
     row_write s r (terminalize COMPLETED None None t (r\<lparr>r_state_json := j, r_output_message := m,
       r_validation_errors := v\<rparr>))"
  by (simp add: row_defs)

lemma row_write_cancelled:
  "row_ok r \<Longrightarrow> \<not> is_terminal (r_status r) \<Longrightarrow> r_cancel_requested r \<Longrightarrow>
     row_write s r (clear_lease (r\<lparr>r_execution_authority := au, r_thread_id := th, r_agent_id := ai,
       r_agent_version := av, r_domain_id := dm, r_schema_version := ver, r_status := CANCELLED,
       r_input_message := im, r_input_json := ij, r_state_json := sj, r_output_message := om,
       r_validation_errors := ve, r_error_code := None, r_error := None, r_attempt := at,
       r_cancel_requested := True, r_client_request_id := cr, r_created_at := ca,
       r_updated_at := ua, r_started_at := sa, r_completed_at := Some c\<rparr>))"
  by (simp add: row_defs)

lemma row_write_finalize_cancel:
  "row_ok r \<Longrightarrow> r_status r = QUEUED \<Longrightarrow>
     row_write s r (clear_lease (r\<lparr>r_status := CANCELLED, r_error_code := None, r_error := None,
       r_completed_at := Some c, r_updated_at := u\<rparr>))"
  by (simp add: row_defs)

lemma row_write_lease:
  assumes "row_ok r" "base_current s r" "r_status r = RUNNING" "r_lease_token r = Some tok" "h \<le> e"
  shows "row_write s r (r\<lparr>r_lease_heartbeat_at := Some h, r_lease_expires_at := Some e, r_updated_at := u\<rparr>)"
  using assms by (simp add: row_defs lease_ok_def)

lemma row_write_cancel_flag:
  "row_ok r \<Longrightarrow> base_current s r \<Longrightarrow> \<not> is_terminal (r_status r) \<Longrightarrow>
     row_write s r (r\<lparr>r_cancel_requested := True, r_updated_at := u\<rparr>)"
  by (simp add: row_defs)

lemma row_write_pending:
  "row_ok r \<Longrightarrow> base_current s r \<Longrightarrow> r_status r = RUNNING \<Longrightarrow>
     row_write s r (r\<lparr>r_error_code := c, r_error := e, r_completed_at := None, r_updated_at := u\<rparr>)"
  by (simp add: row_defs)

lemma row_write_quarantine:
  "row_ok r \<Longrightarrow> base_current s r \<Longrightarrow> r_status r = RUNNING \<Longrightarrow>
     row_write s r (clear_lease (r\<lparr>r_error_code := c, r_error := e, r_completed_at := None, r_updated_at := u\<rparr>))"
  by (simp add: row_defs)

lemma row_write_seed:
  "row_ok r \<Longrightarrow> r_status r = QUEUED \<Longrightarrow> r_checkpoint_base_revision r = None \<Longrightarrow> store_inv s \<Longrightarrow>
     row_write s r (r\<lparr>r_checkpoint_base_revision := Some 0\<rparr>)"
  by (simp add: row_defs thread_revision_nonneg)

lemma not_terminal_iff: "\<not> is_terminal st \<longleftrightarrow> st \<in> {QUEUED, RUNNING}"
  by (cases st) auto

lemma row_write_claim:
  assumes "row_ok r" "base_current s r" "\<not> is_terminal (r_status r)" "store_inv s" "0 < dur"
  shows "row_write s r (claim_set clk token owner dur pend now_ms s r)"
proof -
  have "0 \<le> thread_revision s (r_tenant_id r) (r_thread_id r)"
    using assms(4) by (rule thread_revision_nonneg)
  with assms show ?thesis
    unfolding row_write_def
    by (intro conjI)
      (simp add: row_evolves_def claim_set_def thread_key_def split: option.splits,
       auto simp: not_terminal_iff row_ok_def record_fields_valid_def base_current_def claim_set_def split: option.splits)
qed

section \<open>Every operation keeps the invariant\<close>

lemma yields_Inl: "yields P (Inl e)" and yields_Inr: "P x t \<Longrightarrow> yields P (Inr (x, t))"
  by simp_all

lemma append_event_ok': "ok_step s0 s \<Longrightarrow>
   yields (\<lambda>_ t. ok_step s0 t) (append_event_with_connection run_id event_type payload created_at s)"
  by (rule yields_mono [OF append_event_ok]) auto

lemma update_runs_ok':
  assumes "ok_step s0 s"
    and "\<And>r. r \<in> set (db_runs s) \<Longrightarrow> row_ok r \<Longrightarrow> base_current s r \<Longrightarrow> p r \<Longrightarrow> row_write s r (f r)"
    and "\<And>r. p r \<Longrightarrow> r_run_id (f r) = r_run_id r"
  shows "yields (\<lambda>_ t. ok_step s0 t) (update_runs p f s)"
  using yields_mono [OF update_runs_ok [of s0 s p f]] assms by auto

lemma ok_transaction:
  "yields (\<lambda>_ t. ok_step s0 t) b \<Longrightarrow> ok_step s0 s \<Longrightarrow> ok_step s0 (snd (transaction s b))"
  by (rule snd_transaction)

lemmas ok_intros = ok_transaction append_event_ok' update_runs_ok' yields_bind yields_pure
  yields_if yields_option yields_Inl yields_Inr

lemmas row_ids = terminalize_def clear_lease_def claim_set_def

lemma commit_failed_run_ok:
  assumes inv: "store_inv s"
  shows "ok_step s (snd (commit_failed_run clk run tok code err tb allow now_ms s))"
  unfolding commit_failed_run_def
  by (assumption | rule ok_step_refl [OF inv] ok_intros row_write_terminalize | (simp add: row_ids; fail))+

lemma commit_cancelled_run_ok:
  assumes inv: "store_inv s"
  shows "ok_step s (snd (commit_cancelled_run clk run reason tok now_ms s))"
  unfolding commit_cancelled_run_def
  by (assumption | rule ok_step_refl [OF inv] ok_intros row_write_cancelled | (auto simp: row_ids; fail))+

lemma commit_reconciliation_pending_ok:
  assumes inv: "store_inv s"
  shows "ok_step s (snd (commit_reconciliation_pending clk run_id ten tok code err now_ms s))"
  unfolding commit_reconciliation_pending_def
  by (assumption | rule ok_step_refl [OF inv] ok_intros row_write_pending | (simp add: row_ids; fail))+

lemma fail_checkpoint_conflict_ok:
  assumes "ok_step s0 s"
  shows "yields (\<lambda>_ t. ok_step s0 t)
    (fail_checkpoint_conflict_with_connection clk run_id ten tok expected observed phase now_ms s)"
  unfolding fail_checkpoint_conflict_with_connection_def Let_def
  by (assumption | rule assms ok_intros row_write_terminalize | (simp add: row_ids; fail))+

lemma commit_checkpoint_conflict_ok:
  assumes inv: "store_inv s"
  shows "ok_step s (snd (commit_checkpoint_conflict clk run tok phase now_ms s))"
  unfolding commit_checkpoint_conflict_def
  by (assumption | rule ok_step_refl [OF inv] fail_checkpoint_conflict_ok ok_intros)+

lemma quarantine_checkpoint_conflict_ok:
  assumes inv: "store_inv s"
  shows "ok_step s (snd (quarantine_checkpoint_conflict_for_reconciliation clk run tok phase now_ms s))"
  unfolding quarantine_checkpoint_conflict_for_reconciliation_def Let_def
  by (assumption | rule ok_step_refl [OF inv] ok_intros row_write_quarantine | (simp add: row_ids; fail))+

lemma renew_run_lease_ok:
  assumes inv: "store_inv s"
  shows "ok_step s (snd (renew_run_lease clk run_id tok dur now_ms s))"
proof (cases "tok = [] \<or> dur \<le> 0")
  case True
  then show ?thesis using ok_step_refl [OF inv] by (auto simp: renew_run_lease_def)
next
  case False
  then show ?thesis
    unfolding renew_run_lease_def
    by simp (assumption | rule ok_step_refl [OF inv] ok_intros row_write_lease
        | (use False in \<open>simp add: current_lease_def\<close>; fail))+
qed

lemma expire_run_lease_ok:
  assumes inv: "store_inv s"
  shows "ok_step s (snd (expire_run_lease clk run_id tok now_ms s))"
proof (cases "tok = []")
  case False
  then show ?thesis
    unfolding expire_run_lease_def
    by simp (assumption | rule ok_step_refl [OF inv] ok_intros row_write_lease | (simp; fail))+
qed (simp add: expire_run_lease_def ok_step_refl inv)

lemma append_attempt_event_ok:
  assumes inv: "store_inv s"
  shows "ok_step s (snd (append_attempt_event clk run_id tok ty payload now_ms s))"
  unfolding append_attempt_event_def
  by (assumption | rule ok_step_refl [OF inv] ok_intros)+

lemma append_control_plane_event_ok:
  assumes inv: "store_inv s"
  shows "ok_step s (snd (append_control_plane_event clk run_id ten ty payload s))"
  unfolding append_control_plane_event_def
  by (simp add: ok_step_refl inv)
    (intro impI, (assumption | rule ok_step_refl [OF inv] ok_intros)+)

lemma finalize_next_queued_cancellation_ok:
  assumes inv: "store_inv s"
  shows "ok_step s (snd (finalize_next_queued_cancellation M clk s))"
  unfolding finalize_next_queued_cancellation_def
  by (assumption | rule ok_step_refl [OF inv] ok_intros row_write_finalize_cancel | (simp add: row_ids; fail))+

lemma claim_events_ok:
  assumes "ok_step s0 s"
  shows "yields (\<lambda>_ t. ok_step s0 t) (claim_events clk pend c run s)"
proof -
  have rec: "ok_step s0 s2" if "(case recovery_reason_of c of None \<Rightarrow> Inr s
      | Some reason \<Rightarrow> (case append_event_with_connection a b (g reason) d s of
          Inl e \<Rightarrow> Inl e | Inr (_, s2) \<Rightarrow> Inr s2)) = Inr s2" for a b g d s2
    using that assms append_event_ok' [OF assms, of a b _ d]
    by (fastforce simp: yields_def split: option.splits sum.splits)
  show ?thesis
    unfolding claim_events_def by (assumption | rule rec ok_intros)+
qed

lemma claim_where_not_terminal: "claim_where now_ms rows run_id r \<Longrightarrow> \<not> is_terminal (r_status r)"
  by (auto simp: claim_where_def claimable_expired_def)

lemma claim_next_run_ok:
  assumes inv: "store_inv s"
  shows "ok_step s (snd (claim_next_run M clk token owner dur pend now_ms s))"
proof (cases "owner = [] \<or> dur \<le> 0")
  case True
  then show ?thesis by (auto simp: claim_next_run_def ok_step_refl inv)
next
  case False
  have "row_write s r (claim_set clk token owner dur pend now_ms s r)"
    if "row_ok r" "base_current s r" "claim_where now_ms rows run_id r" for rows run_id r
    using that False inv claim_where_not_terminal by (intro row_write_claim) auto
  note wr = this
  show ?thesis
    using False unfolding claim_next_run_def
    by simp (assumption | rule ok_step_refl [OF inv] claim_events_ok ok_intros wr | (simp add: row_ids; fail))+
qed

lemma request_cancel_ok:
  assumes inv: "store_inv s"
  shows "ok_step s (snd (request_cancel_atomically M clk run_id ten s))"
proof -
  have split_snd: "snd (case m of (Inl e, t) \<Rightarrow> (Inl e, t) | (Inr row, t) \<Rightarrow> (g row, t)) = snd m" for m g
    by (cases m; cases "fst m") auto
  have wr: "row_write s r (r\<lparr>r_cancel_requested := True, r_updated_at := clk 0\<rparr>)"
    if "row_ok r" "base_current s r" "r_status r \<in> {QUEUED, RUNNING}" for r
    using that by (intro row_write_cancel_flag) auto
  show ?thesis
    unfolding request_cancel_atomically_def split_snd
    by (assumption | rule ok_step_refl [OF inv] ok_intros wr | (simp; fail))+
qed

lemma update_runs_frame:
  "yields (\<lambda>n t. t = s\<lparr>db_runs := sql_update p f (db_runs s)\<rparr>) (update_runs p f s)"
  by (auto simp: yields_def split: sum.splits dest: update_runs_eq)

lemma seed_ok:
  assumes s: "ok_step s0 s"
    and fresh: "\<And>r. r \<in> set (db_runs s) \<Longrightarrow> r_run_id r = r_run_id run \<Longrightarrow>
      r_status r = QUEUED \<and> r_checkpoint_base_revision r = None"
  shows "yields (\<lambda>_ t. ok_step s0 t) (prepare_client_state_seed run s)"
proof -
  have wr: "row_write s r (r\<lparr>r_checkpoint_base_revision := Some 0\<rparr>)"
    if "r \<in> set (db_runs s)" "row_ok r" "r_run_id r = r_run_id run" for r
    using that fresh ok_step_inv [OF s] by (intro row_write_seed) auto
  show ?thesis
    unfolding prepare_client_state_seed_def
    by (assumption | rule s ok_intros wr | (simp; fail))+
qed

lemma new_row_ok: "assert_new_queued_run run \<Longrightarrow> record_fields_valid run \<Longrightarrow>
    row_ok (run_values run) \<and> base_current s (run_values run)"
  by (auto simp: assert_new_queued_run_def row_ok_def base_current_def run_values_def lease_cleared_def
      record_fields_valid_def)

lemma insert_new_run_ok:
  assumes inv: "store_inv s" and new: "assert_new_queued_run run" "record_fields_valid run"
  shows "yields (\<lambda>_ t. ok_step s t \<and> (\<forall>r\<in>set (db_runs t). r_run_id r = r_run_id run \<longrightarrow>
      r_status r = QUEUED \<and> r_checkpoint_base_revision r = None)) (insert_run (run_values run) s)"
proof -
  have id: "r_run_id (run_values run) = r_run_id run" by (simp add: run_values_def)
  have "yields (\<lambda>_ t. run_constraints (db_runs t)) (insert_run (run_values run) s)"
    by (simp add: insert_run_def)
  moreover have "yields (\<lambda>_ t. ok_step s t \<and> t = s\<lparr>db_runs := db_runs s @ [run_values run]\<rparr>) (insert_run (run_values run) s)"
    using inv new new_row_ok by (intro insert_run_ok ok_step_refl) auto
  ultimately have "yields (\<lambda>_ t. run_constraints (db_runs t) \<and> ok_step s t \<and>
      t = s\<lparr>db_runs := db_runs s @ [run_values run]\<rparr>) (insert_run (run_values run) s)"
    by (simp add: yields_def split: sum.splits prod.splits)
  then show ?thesis
  proof (rule yields_mono, intro conjI ballI impI)
    fix t r assume t: "run_constraints (db_runs t) \<and> ok_step s t \<and> t = s\<lparr>db_runs := db_runs s @ [run_values run]\<rparr>"
      and r: "r \<in> set (db_runs t)" "r_run_id r = r_run_id run"
    then have "r = run_values run"
      using key_unique [of r_run_id "db_runs t" r "run_values run"] id by (auto simp: run_constraints_def)
    with new show "r_status r = QUEUED" "r_checkpoint_base_revision r = None"
      by (auto simp: run_values_def assert_new_queued_run_def)
  qed simp
qed

lemma insert_and_seed_ok:
  assumes inv: "store_inv s" and new: "assert_new_queued_run run" "record_fields_valid run"
    and rest: "\<And>x t. ok_step s t \<Longrightarrow> yields (\<lambda>_ t. ok_step s t) (g x t)"
  shows "yields (\<lambda>_ t. ok_step s t) (case insert_run (run_values run) s of Inl e \<Rightarrow> Inl e
    | Inr (_, s1) \<Rightarrow> (case prepare_client_state_seed run s1 of Inl e \<Rightarrow> Inl e | Inr (x, s2) \<Rightarrow> g x s2))"
  by (rule yields_bind [OF insert_new_run_ok [OF inv new]], rule yields_bind [OF seed_ok], blast, blast,
      rule rest)

lemma create_run_ok:
  assumes inv: "store_inv s" and valid: "record_fields_valid run"
  shows "ok_step s (snd (create_run run s))"
proof (cases "assert_new_queued_run run")
  case True
  have "yields (\<lambda>_ t. ok_step s t) (case insert_run (run_values run) s of Inl e \<Rightarrow> Inl e
      | Inr (_, s1) \<Rightarrow> prepare_client_state_seed run s1)"
    by (rule yields_bind [OF insert_new_run_ok [OF inv True valid]], rule seed_ok) blast+
  with True show ?thesis
    by (simp add: create_run_def ok_transaction ok_step_refl inv)
qed (simp add: create_run_def ok_step_refl inv)

lemma create_run_with_event_ok:
  assumes inv: "store_inv s" and valid: "record_fields_valid run"
  shows "ok_step s (snd (create_run_with_event clk run ty payload s))"
proof (cases "assert_new_queued_run run \<and> ty = ''run.queued''")
  case True
  then show ?thesis
    unfolding create_run_with_event_def
    by (simp del: append_event_ok')
      (intro ok_transaction insert_and_seed_ok ok_step_refl inv valid yields_bind [OF append_event_ok'] yields_Inr; simp)
qed (auto simp: create_run_with_event_def ok_step_refl inv)

lemma commit_completed_write_ok:
  assumes s: "ok_step s0 s"
  shows "yields (\<lambda>_ t. ok_step s0 t)
    (commit_completed_write M clk run st persisted observed tok now_ms s)"
proof -
  have up: "ok_step s0 s2"
    if "ok_step s0 s1 \<and> (\<exists>rows. s1 = s\<lparr>db_runs := rows\<rparr>)"
      and "assert_thread_schema_available s a b c d = None"
      and "upsert_checkpoint a b c d js at observed s1 = (m, s2)" and "\<not> m \<noteq> 1"
    for s1 s2 a b c d js at m
    using that by (intro upsert_checkpoint_ok [of s0 s1 a b c d js at observed s2])
      (auto simp: assert_thread_schema_available_def)
  have upd: "yields (\<lambda>n t. ok_step s0 t \<and> (\<exists>rows. t = s\<lparr>db_runs := rows\<rparr>)) (update_runs p f s)"
    if "\<And>r. p r \<Longrightarrow> r_status r = RUNNING" and "f = (\<lambda>r. terminalize COMPLETED None None t (r\<lparr>r_state_json := j,
       r_output_message := m, r_validation_errors := v\<rparr>))" for p f t j m v
    using that by (intro yields_mono [OF update_runs_ok [OF s]])
      (auto simp: row_write_completed, simp add: row_ids)
  show ?thesis
    unfolding commit_completed_write_def
  proof (rule yields_pure, rule yields_guard, rule yields_bind, rule upd [OF _ refl])
    fix cs n s1
    assume avail: "assert_thread_schema_available s (r_tenant_id run) (r_thread_id persisted)
        (r_domain_id persisted) (r_schema_version persisted) = None"
      and s1: "ok_step s0 s1 \<and> (\<exists>rows. s1 = s\<lparr>db_runs := rows\<rparr>)"
    obtain m s2 where m: "upsert_checkpoint (r_tenant_id run) (r_thread_id persisted)
        (r_domain_id persisted) (r_schema_version persisted) (model_dump cs) (clk 0) observed s1 = (m, s2)"
      by force
    note s2 = up [OF s1 avail m]
    show "yields (\<lambda>_ t. ok_step s0 t) (if n \<noteq> 1
        then classified (r_run_id run) (r_tenant_id run) tok now_ms run s1
        else case upsert_checkpoint (r_tenant_id run) (r_thread_id persisted) (r_domain_id persisted)
            (r_schema_version persisted) (model_dump cs) (clk 0) observed s1 of (m, s2) \<Rightarrow>
          if m \<noteq> 1 then Inl (RuntimeError ''Thread checkpoint CAS changed inside its write transaction'')
          else case append_event_with_connection x1 x2 (x3 cs) x4 s2 of Inl e \<Rightarrow> Inl e
            | Inr (_, s3) \<Rightarrow> case append_event_with_connection y1 y2 y3 y4 s3 of Inl e \<Rightarrow> Inl e
              | Inr (_, s4) \<Rightarrow> Inr (z, s4))" for x1 x2 x3 x4 y1 y2 y3 y4 z
      unfolding m prod.case
      by (rule yields_if, rule yields_pure, rule yields_Inr, use s1 in blast, rule yields_if, rule yields_Inl)
        (assumption | rule s2 ok_intros)+
  qed auto
qed

lemma commit_completed_run_ok:
  assumes inv: "store_inv s"
  shows "ok_step s (snd (commit_completed_run M clk run tok now_ms s))"
  unfolding commit_completed_run_def Let_def
  by (assumption | rule ok_step_refl [OF inv] fail_checkpoint_conflict_ok commit_completed_write_ok ok_intros)+

end
