(* ===== verification/Quarantine.thy ===== *)
theory Quarantine
  imports Run_Safety
begin

text \<open>
  Operator resolution of a quarantined run: \<^verbatim>\<open>runtime_service/quarantine.py\<close> (targets,
  commands, plans) and the plan, apply and verify operations of
  \<^verbatim>\<open>runtime_service/store.py\<close>. A plan is derived from one snapshot of the run, its
  checkpoint, its events and its external-action evidence; its id is a digest of that
  evidence, and applying it revalidates everything in one write transaction. SHA-256 and
  Pydantic's text of a checkpoint are arguments.
\<close>

section \<open>Canonical JSON text\<close>

definition json_escape :: "bool \<Rightarrow> char \<Rightarrow> string" where
  "json_escape ensure_ascii c = (let n = of_char c :: nat in
     if n = 34 then [CHR 0x5C, CHR 0x22] else if n = 92 then [CHR 0x5C, CHR 0x5C]
     else if n = 10 then [CHR 0x5C, CHR ''n''] else if n = 13 then [CHR 0x5C, CHR ''r'']
     else if n = 9 then [CHR 0x5C, CHR ''t''] else if n = 8 then [CHR 0x5C, CHR ''b'']
     else if n = 12 then [CHR 0x5C, CHR ''f'']
     else if n < 32 \<or> (ensure_ascii \<and> 126 < n)
     then CHR 0x5C # ''u00'' @ [hex_digit (n div 16), hex_digit (n mod 16)]
     else [c])"

definition json_string :: "bool \<Rightarrow> string \<Rightarrow> string" where
  "json_string ensure_ascii s = CHR 0x22 # concat (map (json_escape ensure_ascii) s) @ [CHR 0x22]"

text \<open>
  \<^verbatim>\<open>json.dumps\<close> as the store calls it: with the default separators for the text columns,
  and with sorted keys, compact separators and \<^verbatim>\<open>ensure_ascii=False\<close> for digests.
\<close>

fun json_dumps :: "json \<Rightarrow> string" where
  "json_dumps JNull = ''null''"
| "json_dumps (JBool b) = (if b then ''true'' else ''false'')"
| "json_dumps (JInt i) = show_int i"
| "json_dumps (JStr s) = json_string True s"
| "json_dumps (JList xs) = ''['' @ join '', '' (map json_dumps xs) @ '']''"
| "json_dumps (JObj kvs) = ''{'' @ join '', '' (map (\<lambda>(k, v). json_string True k @ '': '' @ json_dumps v) kvs) @ ''}''"

fun canonical_dumps :: "json \<Rightarrow> string" where
  "canonical_dumps JNull = ''null''"
| "canonical_dumps (JBool b) = (if b then ''true'' else ''false'')"
| "canonical_dumps (JInt i) = show_int i"
| "canonical_dumps (JStr s) = json_string False s"
| "canonical_dumps (JList xs) = ''['' @ join '','' (map canonical_dumps xs) @ '']''"
| "canonical_dumps (JObj kvs) = ''{'' @ join '','' (map (\<lambda>(k, v). json_string False k @ '':'' @ v)
     (sort_key fst (map (\<lambda>(k, v). (k, canonical_dumps v)) kvs))) @ ''}''"

fun json_text_of :: "json_text \<Rightarrow> string" where
  "json_text_of (Encoded j) = json_dumps j"
| "json_text_of (Garbled t) = t"

definition decode_json_object :: "json_text \<Rightarrow> (string \<times> json) list option" where
  "decode_json_object t = (case t of Encoded (JObj kvs) \<Rightarrow> Some kvs | _ \<Rightarrow> None)"

record digests =
  sha256_hex :: "string \<Rightarrow> string"
  state_text :: "state_json \<Rightarrow> string"

definition canonical_resolution_hash :: "digests \<Rightarrow> json \<Rightarrow> string" where
  "canonical_resolution_hash D payload = sha256_hex D (canonical_dumps payload)"

section \<open>Targets, commands, plans\<close>

datatype target_kind = RUN | ACTION

fun target_kind_value :: "target_kind \<Rightarrow> string" where
  "target_kind_value RUN = ''run''"
| "target_kind_value ACTION = ''action''"

record resolution_target =
  tgt_run_id :: "string option"
  tgt_action_id :: "string option"

definition id_field_valid :: "string option \<Rightarrow> bool" where
  "id_field_valid v \<longleftrightarrow> (case v of None \<Rightarrow> True | Some i \<Rightarrow> 1 \<le> length i \<and> length i \<le> 200)"

definition require_exactly_one_target :: "resolution_target \<Rightarrow> bool" where
  "require_exactly_one_target t \<longleftrightarrow> id_field_valid (tgt_run_id t) \<and> id_field_valid (tgt_action_id t) \<and>
     \<not> ((tgt_run_id t = None) = (tgt_action_id t = None))"

definition target_kind :: "resolution_target \<Rightarrow> target_kind" where
  "target_kind t = (if tgt_run_id t \<noteq> None then RUN else ACTION)"

definition target_identifier :: "resolution_target \<Rightarrow> string" where
  "target_identifier t = (case tgt_run_id t of Some i \<Rightarrow> i
     | None \<Rightarrow> (case tgt_action_id t of Some i \<Rightarrow> i | None \<Rightarrow> []))"

text \<open>The one resolution kind, \<^verbatim>\<open>terminalize_failed_preserving_checkpoint\<close>.\<close>

datatype resolution_kind = TERMINALIZE_FAILED_PRESERVING_CHECKPOINT

fun resolution_value :: "resolution_kind \<Rightarrow> string" where
  "resolution_value TERMINALIZE_FAILED_PRESERVING_CHECKPOINT = ''terminalize_failed_preserving_checkpoint''"

record action_summary =
  sm_total :: int
  sm_prepared :: int
  sm_dispatching :: int
  sm_succeeded :: int
  sm_failed :: int
  sm_outcome_unknown :: int
  sm_unrecognized :: int

definition summary_valid :: "action_summary \<Rightarrow> bool" where
  "summary_valid m \<longleftrightarrow> 0 \<le> sm_prepared m \<and> 0 \<le> sm_dispatching m \<and> 0 \<le> sm_succeeded m \<and> 0 \<le> sm_failed m
     \<and> 0 \<le> sm_outcome_unknown m \<and> 0 \<le> sm_unrecognized m
     \<and> sm_total m = sm_prepared m + sm_dispatching m + sm_succeeded m + sm_failed m
          + sm_outcome_unknown m + sm_unrecognized m"

record thread_reference =
  tr_tenant_id :: string
  tr_reference_kind :: string
  tr_reference :: string

record resolution_plan =
  p_target :: resolution_target
  p_resolution :: resolution_kind
  p_eligible :: bool
  p_plan_id :: "string option"
  p_thread :: thread_reference
  p_current_run_status :: run_status
  p_current_quarantine_code :: "string option"
  p_cancel_requested :: bool
  p_checkpoint_base_revision :: "int option"
  p_observed_checkpoint_revision :: int
  p_external_actions :: action_summary
  p_workflow_reconciliation_required :: bool
  p_planned_run_transition :: string
  p_new_audit_events :: "string list"
  p_thread_disposition :: string
  p_ineligibility_reasons :: "string list"

definition is_hex64 :: "string \<Rightarrow> bool" where
  "is_hex64 h \<longleftrightarrow> length h = 64 \<and> (\<forall>c\<in>set h. c \<in> set ''0123456789abcdef'')"

definition is_plan_id :: "string \<Rightarrow> bool" where
  "is_plan_id i \<longleftrightarrow> take 4 i = ''qrp_'' \<and> is_hex64 (drop 4 i)"

definition plan_valid :: "resolution_plan \<Rightarrow> bool" where
  "plan_valid p \<longleftrightarrow> (case p_plan_id p of None \<Rightarrow> True | Some i \<Rightarrow> is_plan_id i) \<and>
     (case p_checkpoint_base_revision p of None \<Rightarrow> True | Some b \<Rightarrow> 0 \<le> b) \<and>
     0 \<le> p_observed_checkpoint_revision p \<and> summary_valid (p_external_actions p) \<and>
     require_exactly_one_target (p_target p) \<and>
     tr_reference_kind (p_thread p) \<in> {''thread_id'', ''action_id''} \<and>
     (if p_eligible p then p_plan_id p \<noteq> None \<and> p_ineligibility_reasons p = [] else p_plan_id p = None)"

section \<open>Plans as JSON\<close>

definition target_json :: "resolution_target \<Rightarrow> json" where
  "target_json t = JObj [(''run_id'', jopt_str (tgt_run_id t)), (''action_id'', jopt_str (tgt_action_id t))]"

definition summary_json :: "action_summary \<Rightarrow> json" where
  "summary_json m = JObj [(''total'', JInt (sm_total m)), (''prepared'', JInt (sm_prepared m)),
     (''dispatching'', JInt (sm_dispatching m)), (''succeeded'', JInt (sm_succeeded m)),
     (''failed'', JInt (sm_failed m)), (''outcome_unknown'', JInt (sm_outcome_unknown m)),
     (''unrecognized'', JInt (sm_unrecognized m))]"

definition plan_json :: "resolution_plan \<Rightarrow> json" where
  "plan_json p = JObj [(''target'', target_json (p_target p)),
     (''resolution'', JStr (resolution_value (p_resolution p))),
     (''eligible'', JBool (p_eligible p)), (''plan_id'', jopt_str (p_plan_id p)),
     (''thread'', JObj [(''tenant_id'', JStr (tr_tenant_id (p_thread p))),
        (''reference_kind'', JStr (tr_reference_kind (p_thread p))),
        (''reference'', JStr (tr_reference (p_thread p)))]),
     (''current_run_status'', JStr (status_value (p_current_run_status p))),
     (''current_quarantine_code'', jopt_str (p_current_quarantine_code p)),
     (''cancel_requested'', JBool (p_cancel_requested p)),
     (''checkpoint_base_revision'', jopt_int (p_checkpoint_base_revision p)),
     (''observed_checkpoint_revision'', JInt (p_observed_checkpoint_revision p)),
     (''external_actions'', summary_json (p_external_actions p)),
     (''workflow_reconciliation_required'', JBool (p_workflow_reconciliation_required p)),
     (''planned_run_transition'', JStr (p_planned_run_transition p)),
     (''checkpoint_disposition'', JStr ''preserved''),
     (''external_evidence_disposition'', JStr ''preserved''), (''provider_calls'', JInt 0),
     (''new_audit_events'', JList (map JStr (p_new_audit_events p))),
     (''thread_disposition'', JStr (p_thread_disposition p)),
     (''ineligibility_reasons'', JList (map JStr (p_ineligibility_reasons p)))]"

text \<open>\<^verbatim>\<open>model_validate\<close> of such an object, on JSON values of the declared types.\<close>

fun as_int :: "json \<Rightarrow> int option" where
  "as_int (JInt i) = Some i" | "as_int _ = None"

fun as_str :: "json \<Rightarrow> string option" where
  "as_str (JStr s) = Some s" | "as_str _ = None"

fun as_bool :: "json \<Rightarrow> bool option" where
  "as_bool (JBool b) = Some b" | "as_bool _ = None"

fun as_obj :: "json \<Rightarrow> (string \<times> json) list option" where
  "as_obj (JObj kvs) = Some kvs" | "as_obj _ = None"

fun as_opt :: "(json \<Rightarrow> 'a option) \<Rightarrow> json \<Rightarrow> 'a option option" where
  "as_opt f JNull = Some None" | "as_opt f j = map_option Some (f j)"

fun as_strs :: "json \<Rightarrow> string list option" where
  "as_strs (JList xs) = those (map as_str xs)" | "as_strs _ = None"

fun as_status :: "json \<Rightarrow> run_status option" where
  "as_status (JStr s) = List.find (\<lambda>st. status_value st = s) [QUEUED, RUNNING, COMPLETED, FAILED, CANCELLED]"
| "as_status _ = None"

fun as_resolution :: "json \<Rightarrow> resolution_kind option" where
  "as_resolution (JStr s) = (if s = resolution_value TERMINALIZE_FAILED_PRESERVING_CHECKPOINT
     then Some TERMINALIZE_FAILED_PRESERVING_CHECKPOINT else None)"
| "as_resolution _ = None"

text \<open>
  The plan models forbid extra fields; a missing field takes its default, which is \<open>JNull\<close>
  where the source says nothing else and the type admits it.
\<close>

definition only_keys :: "string list \<Rightarrow> (string \<times> json) list \<Rightarrow> bool" where
  "only_keys ks kvs \<longleftrightarrow> list_all (\<lambda>kv. fst kv \<in> set ks) kvs"

definition field_or :: "(string \<times> json) list \<Rightarrow> string \<Rightarrow> json \<Rightarrow> json" where
  "field_or kvs k d = (case map_of kvs k of None \<Rightarrow> d | Some v \<Rightarrow> v)"

definition TARGET_FIELDS :: "string list" where
  "TARGET_FIELDS = [''run_id'', ''action_id'']"

definition SUMMARY_FIELDS :: "string list" where
  "SUMMARY_FIELDS = [''total'', ''prepared'', ''dispatching'', ''succeeded'', ''failed'', ''outcome_unknown'', ''unrecognized'']"

definition THREAD_FIELDS :: "string list" where
  "THREAD_FIELDS = [''tenant_id'', ''reference_kind'', ''reference'']"

definition PLAN_FIELDS :: "string list" where
  "PLAN_FIELDS = [''target'', ''resolution'', ''eligible'', ''plan_id'', ''thread'', ''current_run_status'', ''current_quarantine_code'',
     ''cancel_requested'', ''checkpoint_base_revision'', ''observed_checkpoint_revision'', ''external_actions'',
     ''workflow_reconciliation_required'', ''planned_run_transition'', ''checkpoint_disposition'', ''external_evidence_disposition'',
     ''provider_calls'', ''new_audit_events'', ''thread_disposition'', ''ineligibility_reasons'']"

definition model_obj :: "string list \<Rightarrow> json \<Rightarrow> (string \<times> json) list option" where
  "model_obj ks j = Option.bind (as_obj j) (\<lambda>kvs. if only_keys ks kvs then Some kvs else None)"

definition target_of_json :: "json \<Rightarrow> resolution_target option" where
  "target_of_json j = Option.bind (model_obj TARGET_FIELDS j) (\<lambda>kvs.
     Option.bind (as_opt as_str (py_get kvs ''run_id'')) (\<lambda>r.
     Option.bind (as_opt as_str (py_get kvs ''action_id'')) (\<lambda>a.
     Some \<lparr>tgt_run_id = r, tgt_action_id = a\<rparr>)))"

definition summary_of_json :: "json \<Rightarrow> action_summary option" where
  "summary_of_json j = Option.bind (model_obj SUMMARY_FIELDS j) (\<lambda>kvs.
     Option.bind (as_int (py_get kvs ''total'')) (\<lambda>t.
     Option.bind (as_int (py_get kvs ''prepared'')) (\<lambda>p.
     Option.bind (as_int (py_get kvs ''dispatching'')) (\<lambda>d.
     Option.bind (as_int (py_get kvs ''succeeded'')) (\<lambda>s.
     Option.bind (as_int (py_get kvs ''failed'')) (\<lambda>f.
     Option.bind (as_int (py_get kvs ''outcome_unknown'')) (\<lambda>u.
     Option.bind (as_int (py_get kvs ''unrecognized'')) (\<lambda>r.
     Some \<lparr>sm_total = t, sm_prepared = p, sm_dispatching = d, sm_succeeded = s, sm_failed = f,
       sm_outcome_unknown = u, sm_unrecognized = r\<rparr>))))))))"

definition thread_of_json :: "json \<Rightarrow> thread_reference option" where
  "thread_of_json j = Option.bind (model_obj THREAD_FIELDS j) (\<lambda>kvs.
     Option.bind (as_str (py_get kvs ''tenant_id'')) (\<lambda>t.
     Option.bind (as_str (py_get kvs ''reference_kind'')) (\<lambda>k.
     Option.bind (as_str (py_get kvs ''reference'')) (\<lambda>r.
     Some \<lparr>tr_tenant_id = t, tr_reference_kind = k, tr_reference = r\<rparr>))))"

definition plan_of_json :: "json \<Rightarrow> resolution_plan option" where
  "plan_of_json j = Option.bind (model_obj PLAN_FIELDS j) (\<lambda>kvs.
     Option.bind (target_of_json (py_get kvs ''target'')) (\<lambda>tgt.
     Option.bind (as_resolution (py_get kvs ''resolution'')) (\<lambda>res.
     Option.bind (as_bool (py_get kvs ''eligible'')) (\<lambda>el.
     Option.bind (as_opt as_str (py_get kvs ''plan_id'')) (\<lambda>pid.
     Option.bind (thread_of_json (py_get kvs ''thread'')) (\<lambda>thr.
     Option.bind (as_status (py_get kvs ''current_run_status'')) (\<lambda>st.
     Option.bind (as_opt as_str (py_get kvs ''current_quarantine_code'')) (\<lambda>code.
     Option.bind (as_bool (py_get kvs ''cancel_requested'')) (\<lambda>can.
     Option.bind (as_opt as_int (py_get kvs ''checkpoint_base_revision'')) (\<lambda>base.
     Option.bind (as_int (py_get kvs ''observed_checkpoint_revision'')) (\<lambda>obs.
     Option.bind (summary_of_json (py_get kvs ''external_actions'')) (\<lambda>sm.
     Option.bind (as_bool (py_get kvs ''workflow_reconciliation_required'')) (\<lambda>rec.
     Option.bind (as_str (py_get kvs ''planned_run_transition'')) (\<lambda>tra.
     Option.bind (as_strs (field_or kvs ''new_audit_events'' (JList []))) (\<lambda>evs.
     Option.bind (as_str (py_get kvs ''thread_disposition'')) (\<lambda>dis.
     Option.bind (as_strs (field_or kvs ''ineligibility_reasons'' (JList []))) (\<lambda>rea.
     let p = \<lparr>p_target = tgt, p_resolution = res, p_eligible = el, p_plan_id = pid, p_thread = thr,
        p_current_run_status = st, p_current_quarantine_code = code, p_cancel_requested = can,
        p_checkpoint_base_revision = base, p_observed_checkpoint_revision = obs,
        p_external_actions = sm, p_workflow_reconciliation_required = rec,
        p_planned_run_transition = tra, p_new_audit_events = evs, p_thread_disposition = dis,
        p_ineligibility_reasons = rea\<rparr>
     in if plan_valid p \<and> field_or kvs ''checkpoint_disposition'' (JStr ''preserved'') = JStr ''preserved''
          \<and> field_or kvs ''external_evidence_disposition'' (JStr ''preserved'') = JStr ''preserved''
          \<and> field_or kvs ''provider_calls'' (JInt 0) = JInt 0
        then Some p else None)))))))))))))))))"

lemma those_as_str [simp]: "those (map (as_str \<circ> JStr) xs) = Some xs"
  by (induction xs) auto

lemma as_opt_str [simp]: "as_opt as_str (jopt_str v) = Some v"
  by (cases v) (auto simp: jopt_str_def)

lemma as_opt_int [simp]: "as_opt as_int (jopt_int v) = Some v"
  by (cases v) (auto simp: jopt_int_def)

lemma as_status_value [simp]: "as_status (JStr (status_value st)) = Some st"
  by (cases st) auto

lemma target_roundtrip [simp]: "target_of_json (target_json t) = Some t"
  by (simp add: target_of_json_def target_json_def model_obj_def only_keys_def TARGET_FIELDS_def)

lemma summary_roundtrip [simp]: "summary_of_json (summary_json m) = Some m"
  by (simp add: summary_of_json_def summary_json_def model_obj_def only_keys_def SUMMARY_FIELDS_def)

lemma plan_roundtrip: "plan_valid p \<Longrightarrow> plan_of_json (plan_json p) = Some p"
  by (cases "p_resolution p") (simp add: plan_of_json_def plan_json_def thread_of_json_def Let_def plan_valid_def model_obj_def
    only_keys_def field_or_def PLAN_FIELDS_def THREAD_FIELDS_def del: as_status.simps(1))

section \<open>Evidence fingerprints\<close>

definition jopt_text :: "json_text option \<Rightarrow> json" where
  "jopt_text v = jopt_str (map_option json_text_of v)"

text \<open>\<^verbatim>\<open>_resolution_row_material\<close>: every column of the row.\<close>

definition execution_material :: "execution_row \<Rightarrow> json" where
  "execution_material x = JObj [(''run_id'', JStr (x_run_id x)), (''workflow_type'', JStr (x_workflow_type x)),
     (''input_hash'', JStr (x_input_hash x)), (''status'', JStr (x_status x)),
     (''result_json'', jopt_text (x_result_json x)), (''error_code'', jopt_str (x_error_code x)),
     (''created_at'', JStr (x_created_at x)), (''updated_at'', JStr (x_updated_at x)),
     (''completed_at'', jopt_str (x_completed_at x))]"

definition step_material :: "tool_row \<Rightarrow> json" where
  "step_material k = JObj [(''call_id'', JStr (k_call_id k)), (''run_id'', JStr (k_run_id k)),
     (''step_id'', JStr (k_step_id k)), (''tool_name'', JStr (k_tool_name k)),
     (''input_hash'', JStr (k_input_hash k)), (''status'', JStr (k_status k)),
     (''attempt_count'', JInt (k_attempt_count k)), (''attempt_token'', jopt_str (k_attempt_token k)),
     (''result_json'', jopt_text (k_result_json k)), (''error_code'', jopt_str (k_error_code k)),
     (''created_at'', JStr (k_created_at k)), (''updated_at'', JStr (k_updated_at k))]"

definition action_material :: "action_row \<Rightarrow> json" where
  "action_material a = JObj [(''action_id'', JStr (x_action_id a)), (''run_id'', JStr (xa_run_id a)),
     (''step_id'', JStr (xa_step_id a)), (''tenant_id'', JStr (xa_tenant_id a)),
     (''subject_id'', JStr (xa_subject_id a)), (''workflow_type'', JStr (xa_workflow_type a)),
     (''tool_name'', JStr (xa_tool_name a)), (''provider_name'', JStr (xa_provider_name a)),
     (''provider_identity'', JStr (xa_provider_identity a)), (''input_hash'', JStr (xa_input_hash a)),
     (''arguments_json'', JStr (json_text_of (xa_arguments_json a))), (''retry_mode'', JStr (xa_retry_mode a)),
     (''idempotency_key'', JStr (xa_idempotency_key a)), (''status'', JStr (xa_status a)),
     (''dispatch_count'', JInt (xa_dispatch_count a)), (''dispatch_token'', jopt_str (xa_dispatch_token a)),
     (''provider_reference'', jopt_str (xa_provider_reference a)),
     (''result_json'', jopt_text (xa_result_json a)), (''error_code'', jopt_str (xa_error_code a)),
     (''created_at'', JStr (xa_created_at a)), (''updated_at'', JStr (xa_updated_at a)),
     (''dispatched_at'', jopt_str (xa_dispatched_at a)), (''finalized_at'', jopt_str (xa_finalized_at a))]"

definition event_material :: "run_event \<Rightarrow> json" where
  "event_material e = JObj [(''event_id'', JInt (e_event_id e)), (''run_id'', JStr (e_run_id e)),
     (''sequence'', JInt (e_sequence e)), (''event_type'', JStr (e_event_type e)),
     (''payload_json'', JStr (json_text_of (e_payload_json e))), (''created_at'', JStr (e_created_at e))]"

definition workflow_evidence_fingerprint_from_rows ::
  "digests \<Rightarrow> execution_row option \<Rightarrow> tool_row list \<Rightarrow> action_row list \<Rightarrow> run_event list \<Rightarrow> string" where
  "workflow_evidence_fingerprint_from_rows D execution steps actions events =
     canonical_resolution_hash D (JObj [
       (''execution'', (case execution of None \<Rightarrow> JNull | Some x \<Rightarrow> execution_material x)),
       (''steps'', JList (map step_material steps)),
       (''actions'', JList (map action_material actions)),
       (''events'', JList (map event_material events))])"

definition run_execution :: "string \<Rightarrow> db \<Rightarrow> execution_row option" where
  "run_execution run_id s = fetchone (\<lambda>x. x_run_id x = run_id) (db_executions s)"

definition run_steps :: "string \<Rightarrow> db \<Rightarrow> tool_row list" where
  "run_steps run_id s = sort_key (\<lambda>k. (k_created_at k, k_call_id k))
     (filter (\<lambda>k. k_run_id k = run_id) (db_tool_calls s))"

definition run_actions :: "string \<Rightarrow> db \<Rightarrow> action_row list" where
  "run_actions run_id s = sort_key (\<lambda>a. (xa_created_at a, x_action_id a))
     (filter (\<lambda>a. xa_run_id a = run_id) (db_external_actions s))"

definition run_workflow_events :: "string \<Rightarrow> db \<Rightarrow> run_event list" where
  "run_workflow_events run_id s = sort_key e_sequence
     (filter (\<lambda>e. e_run_id e = run_id) (db_workflow_events s))"

definition workflow_evidence_fingerprint :: "digests \<Rightarrow> string \<Rightarrow> db \<Rightarrow> string" where
  "workflow_evidence_fingerprint D run_id s = workflow_evidence_fingerprint_from_rows D
     (run_execution run_id s) (run_steps run_id s) (run_actions run_id s) (run_workflow_events run_id s)"

definition checkpoint_evidence_fingerprint :: "digests \<Rightarrow> int \<Rightarrow> state_json option \<Rightarrow> string" where
  "checkpoint_evidence_fingerprint D revision js = canonical_resolution_hash D
     (JObj [(''revision'', JInt revision),
            (''state_fingerprint'', jopt_str (map_option (\<lambda>j. sha256_hex D (state_text D j)) js))])"

definition checkpoint_progress_is_valid :: "int \<Rightarrow> string \<Rightarrow> int \<Rightarrow> string \<Rightarrow> bool" where
  "checkpoint_progress_is_valid baseline_revision baseline_fingerprint observed_revision observed_fingerprint =
     (if observed_revision < baseline_revision then False
      else if observed_revision = baseline_revision then observed_fingerprint = baseline_fingerprint
      else True)"

section \<open>Terminal external-action evidence\<close>

fun decode_events :: "run_event list \<Rightarrow> (string \<times> (string \<times> json) list) list option" where
  "decode_events [] = Some []"
| "decode_events (e # es) = (case decode_json_object (e_payload_json e) of
      None \<Rightarrow> None
    | Some payload \<Rightarrow> map_option (\<lambda>ds. (e_event_type e, payload) # ds) (decode_events es))"

definition opt_truthy :: "string option \<Rightarrow> bool" where
  "opt_truthy v \<longleftrightarrow> v \<noteq> None \<and> v \<noteq> Some []"

definition action_row_consistent :: "action_row \<Rightarrow> tool_row \<Rightarrow> bool" where
  "action_row_consistent action step \<longleftrightarrow>
     (if xa_status action = ''succeeded''
      then opt_truthy (xa_provider_reference action) \<and>
        (case xa_result_json action of None \<Rightarrow> False | Some t \<Rightarrow> decode_json_object t \<noteq> None) \<and>
        xa_error_code action = None \<and> k_status step = ''completed'' \<and>
        k_result_json step = xa_result_json action \<and> k_error_code step = None
      else xa_result_json action = None \<and> opt_truthy (xa_error_code action) \<and>
        k_status step = ''failed'' \<and> k_result_json step = None \<and>
        k_error_code step = xa_error_code action)"

definition terminal_event_matches ::
  "(string \<times> (string \<times> json) list) list \<Rightarrow> action_row \<Rightarrow> bool" where
  "terminal_event_matches decoded action \<longleftrightarrow>
     (case filter (\<lambda>(ty, payload). ty \<in> {''external_action.succeeded'', ''external_action.failed'',
              ''external_action.outcome_unknown''} \<and> py_get payload ''action_id'' = JStr (x_action_id action)) decoded of
        [(ty, payload)] \<Rightarrow> ty = ''external_action.'' @ xa_status action \<and>
          py_get payload ''step_id'' = JStr (xa_step_id action) \<and>
          py_get payload ''tool_name'' = JStr (xa_tool_name action) \<and>
          py_get payload ''provider_name'' = JStr (xa_provider_name action) \<and>
          py_get payload ''status'' = JStr (xa_status action) \<and>
          py_get payload ''dispatch_count'' = JInt (xa_dispatch_count action) \<and>
          py_get payload ''provider_reference'' = jopt_str (xa_provider_reference action) \<and>
          py_get payload ''error_code'' = jopt_str (xa_error_code action)
      | _ \<Rightarrow> False)"

definition step_event_matches ::
  "(string \<times> (string \<times> json) list) list \<Rightarrow> action_row \<Rightarrow> tool_row \<Rightarrow> bool" where
  "step_event_matches decoded action step \<longleftrightarrow>
     (case filter (\<lambda>(ty, payload). ty \<in> {''step.completed'', ''step.failed''} \<and>
              py_get payload ''step_id'' = JStr (xa_step_id action)) decoded of
        [(ty, payload)] \<Rightarrow>
          ty = (if xa_status action = ''succeeded'' then ''step.completed'' else ''step.failed'') \<and>
          py_get payload ''tool_name'' = JStr (k_tool_name step) \<and>
          py_get payload ''attempt_count'' = JInt (k_attempt_count step) \<and>
          py_get payload ''error_code'' = jopt_str (k_error_code step) \<and>
          py_get payload ''outcome'' =
            JStr (if xa_status action = ''succeeded'' then ''completed'' else ''failed'')
      | _ \<Rightarrow> False)"

text \<open>A later row with the same step id wins, as in the dictionary the code builds.\<close>

definition step_of_action :: "tool_row list \<Rightarrow> action_row \<Rightarrow> tool_row option" where
  "step_of_action steps action =
     fetchone (\<lambda>k. k_run_id k = xa_run_id action \<and> k_step_id k = xa_step_id action) (rev steps)"

definition action_evidence_consistent ::
  "tool_row list \<Rightarrow> (string \<times> (string \<times> json) list) list \<Rightarrow> execution_row \<Rightarrow> string \<Rightarrow> action_row \<Rightarrow> bool" where
  "action_evidence_consistent steps decoded execution tenant_id action \<longleftrightarrow>
     xa_status action \<in> {''succeeded'', ''failed'', ''outcome_unknown''} \<and>
     xa_tenant_id action = tenant_id \<and> xa_workflow_type action = x_workflow_type execution \<and>
     xa_provider_name action \<noteq> [] \<and> xa_provider_identity action \<noteq> [] \<and>
     xa_idempotency_key action \<noteq> [] \<and> decode_json_object (xa_arguments_json action) \<noteq> None \<and>
     1 \<le> xa_dispatch_count action \<and> xa_dispatch_token action \<noteq> None \<and>
     (case step_of_action steps action of
        None \<Rightarrow> False
      | Some step \<Rightarrow> k_tool_name step = xa_tool_name action \<and> k_input_hash step = xa_input_hash action \<and>
          action_row_consistent action step \<and> terminal_event_matches decoded action \<and>
          step_event_matches decoded action step)"

definition terminal_external_action_evidence_is_consistent ::
  "action_row list \<Rightarrow> tool_row list \<Rightarrow> run_event list \<Rightarrow> execution_row option \<Rightarrow> string \<Rightarrow> bool" where
  "terminal_external_action_evidence_is_consistent actions steps events execution tenant_id =
     (case execution of
        None \<Rightarrow> False
      | Some x \<Rightarrow> (case decode_events events of
          None \<Rightarrow> False
        | Some decoded \<Rightarrow> list_all (action_evidence_consistent steps decoded x tenant_id) actions))"

section \<open>Deriving a plan\<close>

datatype quarantine_error_kind =
    StoreFault store_error
  | QuarantineResolutionStalePlanError resolution_plan
  | QuarantineResolutionEvidenceIncompleteError string
  | QuarantineTargetNotFoundError

record plan_snapshot =
  ps_plan :: resolution_plan
  ps_workflow_fingerprint :: string
  ps_checkpoint_fingerprint :: string

text \<open>The last event that put the run into quarantine, with its decoded payload.\<close>

fun last_quarantine_conflict ::
  "run_event list \<Rightarrow> (run_event \<times> (string \<times> json) list) option" where
  "last_quarantine_conflict [] = None"
| "last_quarantine_conflict (e # es) = (case last_quarantine_conflict es of
      Some c \<Rightarrow> Some c
    | None \<Rightarrow>
        if e_event_type e \<noteq> ''checkpoint.conflict'' then None
        else case decode_json_object (e_payload_json e) of
          None \<Rightarrow> None
        | Some payload \<Rightarrow>
            if py_get payload ''disposition'' = JStr ''external_action_reconciliation_quarantined''
            then Some (e, payload) else None)"

definition count_status :: "string \<Rightarrow> action_row list \<Rightarrow> int" where
  "count_status st actions = int (length (filter (\<lambda>a. xa_status a = st) actions))"

definition known_action_statuses :: "string list" where
  "known_action_statuses = [''prepared'', ''dispatching'', ''succeeded'', ''failed'', ''outcome_unknown'']"

definition summarize_actions :: "action_row list \<Rightarrow> action_summary" where
  "summarize_actions actions = \<lparr>sm_total = int (length actions),
     sm_prepared = count_status ''prepared'' actions,
     sm_dispatching = count_status ''dispatching'' actions,
     sm_succeeded = count_status ''succeeded'' actions,
     sm_failed = count_status ''failed'' actions,
     sm_outcome_unknown = count_status ''outcome_unknown'' actions,
     sm_unrecognized = int (length (filter (\<lambda>a. xa_status a \<notin> set known_action_statuses) actions))\<rparr>"

definition nonterminal_actions :: "action_summary \<Rightarrow> bool" where
  "nonterminal_actions m \<longleftrightarrow> sm_prepared m \<noteq> 0 \<or> sm_dispatching m \<noteq> 0 \<or> 0 < sm_unrecognized m"

text \<open>The reasons are tested in this order and each is added at most once.\<close>

definition ineligibility_reasons ::
  "run_row \<Rightarrow> int \<Rightarrow> (run_event \<times> (string \<times> json) list) option \<Rightarrow> execution_row option
     \<Rightarrow> action_row list \<Rightarrow> tool_row list \<Rightarrow> run_event list \<Rightarrow> string \<Rightarrow> string list" where
  "ineligibility_reasons run observed_revision conflict execution actions steps events tenant_id =
     (if r_status run \<noteq> RUNNING \<or> r_error_code run \<noteq> Some THREAD_CHECKPOINT_RECONCILIATION_BLOCKED_CODE
      then [''run_not_quarantined''] else []) @
     (if \<not> lease_cleared run then [''execution_authority_present''] else []) @
     (case conflict of
        None \<Rightarrow> [''checkpoint_conflict_event_missing'']
      | Some (_, payload) \<Rightarrow>
          if py_get payload ''expected_revision'' \<noteq> jopt_int (r_checkpoint_base_revision run)
             \<or> py_get payload ''observed_revision'' \<noteq> JInt observed_revision
          then [''checkpoint_conflict_event_mismatch''] else []) @
     (if r_checkpoint_base_revision run = Some observed_revision then [''checkpoint_revision_not_drifted''] else []) @
     (if execution = None then [''workflow_execution_missing''] else []) @
     (if actions = [] then [''external_action_evidence_missing''] else []) @
     (if nonterminal_actions (summarize_actions actions) then [''external_action_nonterminal''] else []) @
     (if actions \<noteq> [] \<and>
         \<not> terminal_external_action_evidence_is_consistent actions steps events execution tenant_id
      then [''external_action_evidence_inconsistent''] else [])"

definition plan_material ::
  "string \<Rightarrow> resolution_target \<Rightarrow> resolution_kind \<Rightarrow> run_row \<Rightarrow> int \<Rightarrow> string
     \<Rightarrow> (run_event \<times> (string \<times> json) list) option \<Rightarrow> string \<Rightarrow> action_summary \<Rightarrow> json" where
  "plan_material tenant_id target resolution run observed_revision checkpoint_fingerprint conflict
       workflow_fingerprint summary = JObj [
     (''contract'', JStr ''quarantine-resolution-plan-v1''), (''tenant_id'', JStr tenant_id),
     (''target'', target_json target), (''resolution'', JStr (resolution_value resolution)),
     (''run'', JObj [(''status'', JStr (status_value (r_status run))),
        (''error_code'', jopt_str (r_error_code run)), (''attempt'', JInt (r_attempt run)),
        (''cancel_requested'', JBool (r_cancel_requested run)),
        (''checkpoint_base_revision'', jopt_int (r_checkpoint_base_revision run)),
        (''updated_at'', JStr (r_updated_at run)), (''lease_cleared'', JBool (lease_cleared run))]),
     (''checkpoint'', JObj [(''revision'', JInt observed_revision),
        (''evidence_fingerprint'', JStr checkpoint_fingerprint)]),
     (''checkpoint_conflict'', (case conflict of None \<Rightarrow> JNull | Some (e, payload) \<Rightarrow>
        JObj [(''sequence'', JInt (e_sequence e)), (''created_at'', JStr (e_created_at e)),
          (''phase'', py_get payload ''phase''), (''expected_revision'', py_get payload ''expected_revision''),
          (''observed_revision'', py_get payload ''observed_revision''),
          (''disposition'', py_get payload ''disposition'')])),
     (''workflow_evidence_fingerprint'', JStr workflow_fingerprint),
     (''external_action_status_summary'', summary_json summary)]"

definition derive_quarantine_plan_with_connection ::
  "digests \<Rightarrow> string \<Rightarrow> string \<Rightarrow> resolution_target \<Rightarrow> resolution_kind \<Rightarrow> db \<Rightarrow> store_error + plan_snapshot" where
  "derive_quarantine_plan_with_connection D run_id tenant_id target resolution s =
     (if target_identifier target \<noteq> run_id
      then Inl (ValueError ''Quarantine target identity does not match run_id'')
      else case select_run_for_tenant run_id tenant_id s of
        None \<Rightarrow> Inl (KeyError (''Run not found: '' @ run_id))
      | Some run \<Rightarrow>
          let checkpoint = select_thread tenant_id (r_thread_id run) s;
              observed_revision = (case checkpoint of None \<Rightarrow> 0 | Some t \<Rightarrow> t_revision t);
              checkpoint_fingerprint =
                checkpoint_evidence_fingerprint D observed_revision (map_option t_state_json checkpoint);
              conflict = last_quarantine_conflict (sort_key e_sequence
                (filter (\<lambda>e. e_run_id e = run_id) (db_run_events s)));
              actions = run_actions run_id s; steps = run_steps run_id s;
              events = run_workflow_events run_id s; execution = run_execution run_id s;
              workflow_fingerprint = workflow_evidence_fingerprint_from_rows D execution steps actions events;
              summary = summarize_actions actions;
              reasons = ineligibility_reasons run observed_revision conflict execution actions steps events tenant_id;
              eligible = (reasons = []);
              plan = \<lparr>p_target = target, p_resolution = resolution, p_eligible = eligible,
                p_plan_id = (if eligible then Some (''qrp_'' @ canonical_resolution_hash D
                   (plan_material tenant_id target resolution run observed_revision checkpoint_fingerprint
                      conflict workflow_fingerprint summary)) else None),
                p_thread = \<lparr>tr_tenant_id = tenant_id,
                   tr_reference_kind = (if target_kind target = RUN then ''thread_id'' else ''action_id''),
                   tr_reference = (if target_kind target = RUN then r_thread_id run else target_identifier target)\<rparr>,
                p_current_run_status = r_status run, p_current_quarantine_code = r_error_code run,
                p_cancel_requested = r_cancel_requested run,
                p_checkpoint_base_revision = r_checkpoint_base_revision run,
                p_observed_checkpoint_revision = observed_revision, p_external_actions = summary,
                p_workflow_reconciliation_required = nonterminal_actions summary,
                p_planned_run_transition = (if eligible then ''running -> failed'' else ''no change''),
                p_new_audit_events = (if eligible then [''quarantine.resolution_applied'', ''run.failed''] else []),
                p_thread_disposition = (if eligible then ''released_after_atomic_commit'' else ''remains_blocked''),
                p_ineligibility_reasons = reasons\<rparr>
          in if \<not> plan_valid plan then Inl ValidationError
             else Inr \<lparr>ps_plan = plan, ps_workflow_fingerprint = workflow_fingerprint,
                        ps_checkpoint_fingerprint = checkpoint_fingerprint\<rparr>)"

definition plan_quarantine_resolution ::
  "digests \<Rightarrow> string \<Rightarrow> string \<Rightarrow> resolution_target \<Rightarrow> resolution_kind \<Rightarrow> db \<Rightarrow> store_error + resolution_plan" where
  "plan_quarantine_resolution D run_id tenant_id target resolution s =
     (case derive_quarantine_plan_with_connection D run_id tenant_id target resolution s of
        Inl e \<Rightarrow> Inl e | Inr snap \<Rightarrow> Inr (ps_plan snap))"

section \<open>Applying and verifying\<close>

record resolution_commit =
  rc_plan :: resolution_plan
  rc_reused :: bool
  rc_workflow_fingerprint :: string
  rc_checkpoint_fingerprint :: string

definition matching_events :: "string \<Rightarrow> string \<Rightarrow> string \<Rightarrow> db \<Rightarrow> run_event list" where
  "matching_events event_type run_id plan_id s =
     filter (\<lambda>e. case decode_json_object (e_payload_json e) of
         None \<Rightarrow> False | Some payload \<Rightarrow> py_get payload ''plan_id'' = JStr plan_id)
       (sort_key e_sequence (filter (\<lambda>e. e_run_id e = run_id \<and> e_event_type e = event_type) (db_run_events s)))"

definition matching_resolution_events :: "string \<Rightarrow> string \<Rightarrow> db \<Rightarrow> run_event list" where
  "matching_resolution_events = matching_events ''quarantine.resolution_applied''"

definition matching_resolution_failed_events :: "string \<Rightarrow> string \<Rightarrow> db \<Rightarrow> run_event list" where
  "matching_resolution_failed_events = matching_events ''run.failed''"

text \<open>
  \<^verbatim>\<open>str\<close> of a decoded value. The digests are strings; the text of a container is only ever
  compared with a digest, so it is rendered as JSON rather than as Python's repr.
\<close>

fun py_str :: "json \<Rightarrow> string" where
  "py_str (JStr s) = s"
| "py_str (JInt i) = show_int i"
| "py_str (JBool b) = (if b then ''True'' else ''False'')"
| "py_str JNull = ''None''"
| "py_str j = json_dumps j"

definition find_resolution_event_with_connection ::
  "string \<Rightarrow> string \<Rightarrow> db \<Rightarrow> quarantine_error_kind + (resolution_plan \<times> string \<times> string) option" where
  "find_resolution_event_with_connection run_id expected_plan_id s =
     (case matching_resolution_events run_id expected_plan_id s of
        [] \<Rightarrow> Inr None
      | [e] \<Rightarrow> (case decode_json_object (e_payload_json e) of
          None \<Rightarrow> Inl (QuarantineResolutionEvidenceIncompleteError ''Quarantine resolution audit evidence is invalid'')
        | Some payload \<Rightarrow> (case (plan_of_json (py_get payload ''plan''),
              map_of payload ''workflow_evidence_fingerprint'', map_of payload ''checkpoint_evidence_fingerprint'') of
            (Some plan, Some wfj, Some cpj) \<Rightarrow>
              if py_get payload ''resolution'' \<noteq> JStr (resolution_value (p_resolution plan))
                 \<or> py_get payload ''target_kind'' \<noteq> JStr (target_kind_value (target_kind (p_target plan)))
                 \<or> p_plan_id plan \<noteq> Some expected_plan_id
              then Inl (QuarantineResolutionEvidenceIncompleteError ''Quarantine resolution audit identity is inconsistent'')
              else Inr (Some (plan, py_str wfj, py_str cpj))
          | _ \<Rightarrow> Inl (QuarantineResolutionEvidenceIncompleteError ''Quarantine resolution audit evidence is invalid'')))
      | _ \<Rightarrow> Inl (QuarantineResolutionEvidenceIncompleteError ''Duplicate quarantine resolution audit evidence''))"

definition resolution_error :: string where
  "resolution_error = ''An operator terminalized an eligible quarantined Run while ''
     @ ''preserving the authoritative checkpoint and external-action evidence.''"

definition resolution_audit_payload ::
  "resolution_kind \<Rightarrow> string \<Rightarrow> resolution_target \<Rightarrow> plan_snapshot \<Rightarrow> string \<Rightarrow> string \<Rightarrow> (string \<times> json) list" where
  "resolution_audit_payload resolution plan_id target current subject_id credential_id =
     [(''resolution'', JStr (resolution_value resolution)), (''plan_id'', JStr plan_id),
      (''target_kind'', JStr (target_kind_value (target_kind target))),
      (''source_quarantine_code'', jopt_str (p_current_quarantine_code (ps_plan current))),
      (''checkpoint_base_revision'', jopt_int (p_checkpoint_base_revision (ps_plan current))),
      (''observed_checkpoint_revision'', JInt (p_observed_checkpoint_revision (ps_plan current))),
      (''checkpoint_disposition'', JStr ''preserved''), (''external_evidence_disposition'', JStr ''preserved''),
      (''provider_calls'', JInt 0), (''operator_subject_id'', JStr subject_id),
      (''operator_credential_id'', JStr credential_id),
      (''workflow_evidence_fingerprint'', JStr (ps_workflow_fingerprint current)),
      (''checkpoint_evidence_fingerprint'', JStr (ps_checkpoint_fingerprint current)),
      (''plan'', plan_json (ps_plan current))]"

definition quarantined_row :: "string \<Rightarrow> string \<Rightarrow> run_row \<Rightarrow> bool" where
  "quarantined_row run_id tenant_id r \<longleftrightarrow> r_run_id r = run_id \<and> r_tenant_id r = tenant_id \<and> r_status r = RUNNING
     \<and> r_error_code r = Some THREAD_CHECKPOINT_RECONCILIATION_BLOCKED_CODE \<and> lease_cleared r"

text \<open>The write of an application: the terminal update and the two audit events.\<close>

definition apply_resolution_write ::
  "(nat \<Rightarrow> string) \<Rightarrow> string \<Rightarrow> string \<Rightarrow> resolution_target \<Rightarrow> resolution_kind \<Rightarrow> string \<Rightarrow> string \<Rightarrow> string
     \<Rightarrow> plan_snapshot \<Rightarrow> db \<Rightarrow> (quarantine_error_kind, resolution_commit, db) body" where
  "apply_resolution_write clk run_id tenant_id target resolution plan_id subject_id credential_id current s =
     (case update_runs (quarantined_row run_id tenant_id)
         (terminalize FAILED (Some THREAD_CHECKPOINT_CONFLICT_CODE) (Some resolution_error) (clk 0)) s of
        Inl e \<Rightarrow> Inl (StoreFault e)
      | Inr (n, s1) \<Rightarrow>
          if n \<noteq> 1 then Inl (QuarantineResolutionStalePlanError (ps_plan current))
          else (case append_event_with_connection run_id ''quarantine.resolution_applied''
                (resolution_audit_payload resolution plan_id target current subject_id credential_id) (clk 1) s1 of
              Inl e \<Rightarrow> Inl (StoreFault e)
            | Inr (_, s2) \<Rightarrow> (case append_event_with_connection run_id ''run.failed''
                  [(''error_code'', JStr THREAD_CHECKPOINT_CONFLICT_CODE), (''error'', JStr resolution_error),
                   (''resolution'', JStr (resolution_value resolution)), (''plan_id'', JStr plan_id)] (clk 2) s2 of
                Inl e \<Rightarrow> Inl (StoreFault e)
              | Inr (_, s3) \<Rightarrow> Inr (\<lparr>rc_plan = ps_plan current, rc_reused = False,
                    rc_workflow_fingerprint = ps_workflow_fingerprint current,
                    rc_checkpoint_fingerprint = ps_checkpoint_fingerprint current\<rparr>, s3))))"

definition apply_quarantine_resolution ::
  "digests \<Rightarrow> (nat \<Rightarrow> string) \<Rightarrow> string \<Rightarrow> string \<Rightarrow> resolution_target \<Rightarrow> resolution_kind \<Rightarrow> string \<Rightarrow> string
     \<Rightarrow> string \<Rightarrow> db \<Rightarrow> (quarantine_error_kind, resolution_commit, db) outcome" where
  "apply_quarantine_resolution D clk run_id tenant_id target resolution expected_plan_id subject_id credential_id s =
     transaction s (case find_resolution_event_with_connection run_id expected_plan_id s of
        Inl e \<Rightarrow> Inl e
      | Inr existing \<Rightarrow> (case derive_quarantine_plan_with_connection D run_id tenant_id target resolution s of
          Inl e \<Rightarrow> Inl (StoreFault e)
        | Inr current \<Rightarrow> (case existing of
            Some (stored_plan, stored_wf, stored_cp) \<Rightarrow>
              if p_target stored_plan \<noteq> target \<or> p_resolution stored_plan \<noteq> resolution
                 \<or> stored_wf \<noteq> ps_workflow_fingerprint current
                 \<or> \<not> checkpoint_progress_is_valid (p_observed_checkpoint_revision stored_plan) stored_cp
                      (p_observed_checkpoint_revision (ps_plan current)) (ps_checkpoint_fingerprint current)
              then Inl (QuarantineResolutionEvidenceIncompleteError
                     ''Committed quarantine resolution evidence is inconsistent'')
              else if \<not> is_hex64 stored_wf \<or> \<not> is_hex64 stored_cp then Inl (StoreFault ValidationError)
              else Inr (\<lparr>rc_plan = stored_plan, rc_reused = True, rc_workflow_fingerprint = stored_wf,
                          rc_checkpoint_fingerprint = stored_cp\<rparr>, s)
          | None \<Rightarrow>
              if \<not> p_eligible (ps_plan current) \<or> p_plan_id (ps_plan current) \<noteq> Some expected_plan_id
              then Inl (QuarantineResolutionStalePlanError (ps_plan current))
              else apply_resolution_write clk run_id tenant_id target resolution expected_plan_id
                     subject_id credential_id current s)))"

definition verify_quarantine_resolution :: "digests \<Rightarrow> resolution_commit \<Rightarrow> db \<Rightarrow> quarantine_error_kind option" where
  "verify_quarantine_resolution D commit s =
     (case p_plan_id (rc_plan commit) of
        None \<Rightarrow> Some (QuarantineResolutionEvidenceIncompleteError ''Committed quarantine resolution lost its plan ID'')
      | Some plan_id \<Rightarrow>
          let plan = rc_plan commit; run_id = target_identifier (p_target plan) in
          (case select_run_for_tenant run_id (tr_tenant_id (p_thread plan)) s of
             None \<Rightarrow> Some (QuarantineResolutionEvidenceIncompleteError ''Resolved Run is not durably visible'')
           | Some run \<Rightarrow>
               let checkpoint = select_thread (r_tenant_id run) (r_thread_id run) s;
                   observed_revision = (case checkpoint of None \<Rightarrow> 0 | Some t \<Rightarrow> t_revision t);
                   checkpoint_fingerprint =
                     checkpoint_evidence_fingerprint D observed_revision (map_option t_state_json checkpoint)
               in if r_status run = FAILED \<and> r_error_code run = Some THREAD_CHECKPOINT_CONFLICT_CODE
                     \<and> lease_cleared run
                     \<and> checkpoint_progress_is_valid (p_observed_checkpoint_revision plan)
                          (rc_checkpoint_fingerprint commit) observed_revision checkpoint_fingerprint
                     \<and> workflow_evidence_fingerprint D run_id s = rc_workflow_fingerprint commit
                     \<and> length (matching_resolution_events run_id plan_id s) = 1
                     \<and> length (matching_resolution_failed_events run_id plan_id s) = 1
                  then None
                  else Some (QuarantineResolutionEvidenceIncompleteError
                         ''Quarantine resolution durable evidence is incomplete'')))"

end
