(* ===== verification/Quarantine_Safety.thy ===== *)
theory Quarantine_Safety
  imports Quarantine
begin

text \<open>
  What applying a quarantine resolution does: it keeps the store's invariant, it changes
  nothing but the quarantined run and its event log, it can be repeated without a second
  effect, and what it wrote passes the verification that the operator service runs.
\<close>

section \<open>Reading the event log in order\<close>

lemma events_sorted: "events_ok evs n \<Longrightarrow> sorted (seqs run_id evs)"
proof -
  assume "events_ok evs n"
  then have "seqs run_id evs = map (\<lambda>i. int i + 1) [0..<length (seqs run_id evs)]"
    unfolding events_ok_def by blast
  moreover have "sorted (map (\<lambda>i. int i + 1) [0..<k])" for k
    by (simp add: sorted_iff_nth_mono)
  ultimately show ?thesis by metis
qed

lemma sort_events_filter:
  assumes "events_ok evs n"
  shows "sort_key e_sequence (filter (\<lambda>e. e_run_id e = run_id \<and> P e) evs) =
    filter (\<lambda>e. e_run_id e = run_id \<and> P e) evs"
proof (rule sort_key_id_if_sorted)
  have "sorted (map e_sequence (filter (\<lambda>e. e_run_id e = run_id) evs))"
    using events_sorted [OF assms] by (simp add: seqs_def)
  then have "sorted (map e_sequence (filter P (filter (\<lambda>e. e_run_id e = run_id) evs)))"
    by (rule sorted_filter)
  then show "sorted (map e_sequence (filter (\<lambda>e. e_run_id e = run_id \<and> P e) evs))"
    by (simp add: conj_commute)
qed

definition plan_event :: "string \<Rightarrow> string \<Rightarrow> string \<Rightarrow> run_event \<Rightarrow> bool" where
  "plan_event event_type run_id plan_id e \<longleftrightarrow> e_run_id e = run_id \<and> e_event_type e = event_type \<and>
     (case decode_json_object (e_payload_json e) of
        None \<Rightarrow> False | Some payload \<Rightarrow> py_get payload ''plan_id'' = JStr plan_id)"

lemma matching_events_eq:
  assumes "store_inv s"
  shows "matching_events event_type run_id plan_id s = filter (plan_event event_type run_id plan_id) (db_run_events s)"
proof -
  have "events_ok (db_run_events s) (db_next_event_id s)"
    using assms by (simp add: store_inv_def)
  from sort_events_filter [OF this] show ?thesis
    by (auto simp: matching_events_def plan_event_def [abs_def] intro: filter_cong)
qed

section \<open>Applying keeps the invariant\<close>

lemma yields_bind_err:
  assumes "yields Q b" and "\<And>x t. Q x t \<Longrightarrow> yields P (g x t)"
  shows "yields P (case b of Inl e \<Rightarrow> Inl (h e) | Inr (x, t) \<Rightarrow> g x t)"
  using assms by (fastforce simp: yields_def split: sum.splits prod.splits)

lemma apply_resolution_write_ok:
  assumes inv: "store_inv s"
  shows "yields (\<lambda>_ t. ok_step s t)
    (apply_resolution_write clk run_id tenant_id target resolution plan_id subject cred current s)"
proof -
  have wr: "row_write s r (terminalize FAILED c e a r)"
    if "row_ok r" "quarantined_row run_id tenant_id r" for r c e a
    using that by (intro row_write_terminalize) (auto simp: quarantined_row_def)
  show ?thesis
    unfolding apply_resolution_write_def
    by (assumption | rule ok_step_refl [OF inv] append_event_ok' update_runs_ok' wr yields_bind_err
        yields_if yields_Inl yields_Inr | (simp add: row_ids; fail))+
qed

lemma yields_pure_err:
  assumes "\<And>x. v = Inr x \<Longrightarrow> yields P (g x)"
  shows "yields P (case v of Inl e \<Rightarrow> Inl (h e) | Inr x \<Rightarrow> g x)"
  using assms by (auto split: sum.splits)

lemma apply_quarantine_resolution_ok:
  assumes inv: "store_inv s"
  shows "ok_step s (snd (apply_quarantine_resolution D clk run_id tenant_id target resolution plan_id subject cred s))"
  unfolding apply_quarantine_resolution_def
  by (rule ok_transaction yields_pure yields_pure_err yields_option ok_step_refl [OF inv])+
    (auto simp: apply_resolution_write_ok inv ok_step_refl split: prod.split)

section \<open>The effect of an application\<close>

lemma apply_success_cases:
  assumes "apply_quarantine_resolution D clk run_id tenant_id target resolution plan_id subject cred s = (Inr c, t)"
  obtains (reused) "rc_reused c" "t = s"
  | (fresh) current where "\<not> rc_reused c"
      "find_resolution_event_with_connection run_id plan_id s = Inr None"
      "derive_quarantine_plan_with_connection D run_id tenant_id target resolution s = Inr current"
      "p_eligible (ps_plan current)" "p_plan_id (ps_plan current) = Some plan_id"
      "apply_resolution_write clk run_id tenant_id target resolution plan_id subject cred current s = Inr (c, t)"
proof -
  have not_reused: "\<not> rc_reused c"
    if "apply_resolution_write clk run_id tenant_id target resolution plan_id subject cred cur s = Inr (c, t)" for cur
    using that by (auto simp: apply_resolution_write_def split: sum.splits if_splits)
  from assms show thesis
    unfolding apply_quarantine_resolution_def
    using not_reused that
    by (elim transaction_cases) (fastforce split: sum.splits option.splits if_splits prod.splits)+
qed

lemma apply_write_effect:
  assumes inv: "store_inv s"
    and w: "apply_resolution_write clk run_id tenant_id target resolution plan_id subject cred current s = Inr (c, t)"
  obtains r e1 e2 where "select_run run_id s = Some r" "quarantined_row run_id tenant_id r"
    "select_run run_id t = Some (terminalize FAILED (Some THREAD_CHECKPOINT_CONFLICT_CODE) (Some resolution_error) (clk 0) r)"
    "db_run_events t = db_run_events s @ [e1, e2]"
    "e_run_id e1 = run_id" "e_event_type e1 = ''quarantine.resolution_applied''"
    "e_payload_json e1 = Encoded (JObj (resolution_audit_payload resolution plan_id target current subject cred))"
    "e_run_id e2 = run_id" "e_event_type e2 = ''run.failed''"
    "e_payload_json e2 = Encoded (JObj [(''error_code'', JStr THREAD_CHECKPOINT_CONFLICT_CODE),
        (''error'', JStr resolution_error), (''resolution'', JStr (resolution_value resolution)),
        (''plan_id'', JStr plan_id)])"
    "db_thread_states t = db_thread_states s" "db_runs t = sql_update (quarantined_row run_id tenant_id)
       (terminalize FAILED (Some THREAD_CHECKPOINT_CONFLICT_CODE) (Some resolution_error) (clk 0)) (db_runs s)"
    "c = \<lparr>rc_plan = ps_plan current, rc_reused = False, rc_workflow_fingerprint = ps_workflow_fingerprint current,
        rc_checkpoint_fingerprint = ps_checkpoint_fingerprint current\<rparr>"
proof -
  let ?f = "terminalize FAILED (Some THREAD_CHECKPOINT_CONFLICT_CODE) (Some resolution_error) (clk 0)"
  from w obtain n s1 e1 s2 e2 where u: "update_runs (quarantined_row run_id tenant_id) ?f s = Inr (n, s1)" "n = 1"
    and e1: "append_event_with_connection run_id ''quarantine.resolution_applied''
        (resolution_audit_payload resolution plan_id target current subject cred) (clk 1) s1 = Inr (e1, s2)"
    and e2: "append_event_with_connection run_id ''run.failed''
        [(''error_code'', JStr THREAD_CHECKPOINT_CONFLICT_CODE), (''error'', JStr resolution_error),
         (''resolution'', JStr (resolution_value resolution)), (''plan_id'', JStr plan_id)] (clk 2) s2 = Inr (e2, t)"
    and c: "c = \<lparr>rc_plan = ps_plan current, rc_reused = False, rc_workflow_fingerprint = ps_workflow_fingerprint current,
        rc_checkpoint_fingerprint = ps_checkpoint_fingerprint current\<rparr>"
    unfolding apply_resolution_write_def by (auto split: sum.splits if_splits)
  note s1 = update_runs_eq [OF u(1)]
  note e1' = append_event_eq [OF e1] and e2' = append_event_eq [OF e2]
  from s1 u(2) have "rowcount (quarantined_row run_id tenant_id) (db_runs s) = Suc 0" by simp
  from rowcount_witness [OF this] obtain r
    where r: "r \<in> set (db_runs s)" "quarantined_row run_id tenant_id r" by blast
  from select_run_mem [OF inv r(1)] r(2) have sel: "select_run run_id s = Some r"
    by (simp add: quarantined_row_def)
  have "select_run run_id s1 = Some (?f r)"
    using s1 sel r(2) select_run_update [of "quarantined_row run_id tenant_id" ?f run_id s] by (simp add: row_ids)
  then have "select_run run_id t = Some (?f r)"
    using e1' e2' by simp
  with sel r(2) show thesis
    using s1 e1' e2' c by (intro that [of r e1 e2]) simp_all
qed

section \<open>Deriving plans\<close>

lemma summary_valid_actions: "summary_valid (summarize_actions actions)"
proof -
  have "int (length actions) = count_status ''prepared'' actions + count_status ''dispatching'' actions
      + count_status ''succeeded'' actions + count_status ''failed'' actions
      + count_status ''outcome_unknown'' actions
      + int (length (filter (\<lambda>a. xa_status a \<notin> set known_action_statuses) actions))"
    by (induction actions) (auto simp: count_status_def known_action_statuses_def)
  then show ?thesis
    by (simp add: summary_valid_def summarize_actions_def) (simp add: count_status_def)
qed

lemma is_plan_id_hash: "is_hex64 h \<Longrightarrow> is_plan_id (''qrp_'' @ h)"
  by (simp add: is_plan_id_def)

definition checkpoint_of :: "digests \<Rightarrow> db \<Rightarrow> string \<Rightarrow> string \<Rightarrow> string" where
  "checkpoint_of D s tenant_id thread_id = checkpoint_evidence_fingerprint D (thread_revision s tenant_id thread_id)
     (map_option t_state_json (select_thread tenant_id thread_id s))"

definition reasons_at :: "run_row \<Rightarrow> string \<Rightarrow> string \<Rightarrow> db \<Rightarrow> string list" where
  "reasons_at run run_id tenant_id s = ineligibility_reasons run (thread_revision s tenant_id (r_thread_id run))
     (last_quarantine_conflict (sort_key e_sequence (filter (\<lambda>e. e_run_id e = run_id) (db_run_events s))))
     (run_execution run_id s) (run_actions run_id s) (run_steps run_id s) (run_workflow_events run_id s) tenant_id"

lemma derive_facts:
  assumes "derive_quarantine_plan_with_connection D run_id tenant_id target resolution s = Inr cur"
  obtains run where "select_run_for_tenant run_id tenant_id s = Some run" "target_identifier target = run_id"
    "ps_workflow_fingerprint cur = workflow_evidence_fingerprint D run_id s"
    "ps_checkpoint_fingerprint cur = checkpoint_of D s tenant_id (r_thread_id run)"
    "p_observed_checkpoint_revision (ps_plan cur) = thread_revision s tenant_id (r_thread_id run)"
    "p_target (ps_plan cur) = target" "p_resolution (ps_plan cur) = resolution" "plan_valid (ps_plan cur)"
    "tr_tenant_id (p_thread (ps_plan cur)) = tenant_id"
    "p_eligible (ps_plan cur) \<longleftrightarrow> reasons_at run run_id tenant_id s = []"
  using assms
  by (auto simp: derive_quarantine_plan_with_connection_def Let_def thread_revision_def checkpoint_of_def
      workflow_evidence_fingerprint_def reasons_at_def split: if_splits option.splits)

lemma derive_total:
  assumes inv: "store_inv s" and run: "select_run_for_tenant run_id tenant_id s = Some run"
    and tgt: "require_exactly_one_target target" "target_identifier target = run_id"
    and hex: "\<And>x. is_hex64 (sha256_hex D x)"
  shows "\<exists>cur. derive_quarantine_plan_with_connection D run_id tenant_id target resolution s = Inr cur"
proof -
  have "row_ok run" using run inv by (auto dest: select_run_for_tenant_SomeD row_okD)
  then have base: "case r_checkpoint_base_revision run of None \<Rightarrow> True | Some b \<Rightarrow> 0 \<le> b"
    by (simp add: row_ok_def record_fields_valid_def)
  have rev: "0 \<le> (case select_thread tenant_id (r_thread_id run) s of None \<Rightarrow> 0 | Some t \<Rightarrow> t_revision t)"
    using thread_revision_nonneg [OF inv] by (simp add: thread_revision_def)
  show ?thesis
    using run tgt base rev hex is_plan_id_hash summary_valid_actions
    by (simp add: derive_quarantine_plan_with_connection_def Let_def plan_valid_def canonical_resolution_hash_def)
qed

lemma select_for_tenant: "store_inv s \<Longrightarrow> select_run run_id s = Some r \<Longrightarrow> r_tenant_id r = tenant_id \<Longrightarrow>
    select_run_for_tenant run_id tenant_id s = Some r"
proof -
  assume inv: "store_inv s" and sel: "select_run run_id s = Some r" and ten: "r_tenant_id r = tenant_id"
  have "fetchone (\<lambda>x. r_run_id x = run_id \<and> r_tenant_id x = tenant_id) (db_runs s) = fetchone (\<lambda>x. r_run_id x = run_id) (db_runs s)"
    using select_run_SomeD [OF sel] ten key_unique [OF store_inv_distinct [OF inv]]
    by (intro fetchone_cong) metis
  with sel show ?thesis by (simp add: select_run_for_tenant_def select_run_def)
qed

lemma workflow_fingerprint_evolves: "ledger_same s t \<Longrightarrow>
    workflow_evidence_fingerprint D run_id t = workflow_evidence_fingerprint D run_id s"
  by (simp add: ledger_same_def workflow_evidence_fingerprint_def run_execution_def run_steps_def run_actions_def
      run_workflow_events_def)

section \<open>Repeating an application\<close>

text \<open>Everything a fresh application fixes, for the lemmas below.\<close>

lemma fresh_application:
  assumes inv: "store_inv s"
    and ap: "apply_quarantine_resolution D clk run_id tenant_id target resolution plan_id subject cred s = (Inr c, t)"
    and fresh: "\<not> rc_reused c"
  obtains r cur e1 e2 where "store_inv t" "evolves s t" "select_run run_id s = Some r" "quarantined_row run_id tenant_id r"
    "select_run_for_tenant run_id tenant_id t =
       Some (terminalize FAILED (Some THREAD_CHECKPOINT_CONFLICT_CODE) (Some resolution_error) (clk 0) r)"
    "db_run_events t = db_run_events s @ [e1, e2]" "db_thread_states t = db_thread_states s"
    "plan_event ''quarantine.resolution_applied'' run_id plan_id e1" "plan_event ''run.failed'' run_id plan_id e2"
    "e_payload_json e1 = Encoded (JObj (resolution_audit_payload resolution plan_id target cur subject cred))"
    "matching_resolution_events run_id plan_id t = [e1]" "target_identifier target = run_id"
    "c = \<lparr>rc_plan = ps_plan cur, rc_reused = False, rc_workflow_fingerprint = ps_workflow_fingerprint cur,
        rc_checkpoint_fingerprint = ps_checkpoint_fingerprint cur\<rparr>"
    "p_plan_id (ps_plan cur) = Some plan_id" "p_target (ps_plan cur) = target" "p_resolution (ps_plan cur) = resolution"
    "plan_valid (ps_plan cur)" "tr_tenant_id (p_thread (ps_plan cur)) = tenant_id"
    "p_observed_checkpoint_revision (ps_plan cur) = thread_revision t tenant_id (r_thread_id r)"
    "ps_workflow_fingerprint cur = workflow_evidence_fingerprint D run_id t"
    "ps_checkpoint_fingerprint cur = checkpoint_of D t tenant_id (r_thread_id r)"
    "reasons_at r run_id tenant_id s = []"
proof -
  have "ok_step s t"
    using apply_quarantine_resolution_ok [OF inv, of D clk run_id tenant_id target resolution plan_id subject cred] ap by simp
  then have invt: "store_inv t" and ev: "evolves s t" and led: "ledger_same s t" by (auto simp: ok_step_def)
  from ap fresh obtain cur where find: "find_resolution_event_with_connection run_id plan_id s = Inr None"
    and der: "derive_quarantine_plan_with_connection D run_id tenant_id target resolution s = Inr cur"
    and cur: "p_eligible (ps_plan cur)" "p_plan_id (ps_plan cur) = Some plan_id"
    and w: "apply_resolution_write clk run_id tenant_id target resolution plan_id subject cred cur s = Inr (c, t)"
    by (elim apply_success_cases) auto
  from apply_write_effect [OF inv w] obtain r e1 e2 where e: "select_run run_id s = Some r" "quarantined_row run_id tenant_id r"
    "select_run run_id t = Some (terminalize FAILED (Some THREAD_CHECKPOINT_CONFLICT_CODE) (Some resolution_error) (clk 0) r)"
    "db_run_events t = db_run_events s @ [e1, e2]" "e_run_id e1 = run_id" "e_event_type e1 = ''quarantine.resolution_applied''"
    "e_payload_json e1 = Encoded (JObj (resolution_audit_payload resolution plan_id target cur subject cred))"
    "e_run_id e2 = run_id" "e_event_type e2 = ''run.failed''"
    "e_payload_json e2 = Encoded (JObj [(''error_code'', JStr THREAD_CHECKPOINT_CONFLICT_CODE),
        (''error'', JStr resolution_error), (''resolution'', JStr (resolution_value resolution)),
        (''plan_id'', JStr plan_id)])"
    "db_thread_states t = db_thread_states s"
    "c = \<lparr>rc_plan = ps_plan cur, rc_reused = False, rc_workflow_fingerprint = ps_workflow_fingerprint cur,
        rc_checkpoint_fingerprint = ps_checkpoint_fingerprint cur\<rparr>"
    by metis
  have pe: "plan_event ''quarantine.resolution_applied'' run_id plan_id e1" "plan_event ''run.failed'' run_id plan_id e2"
    using e by (simp_all add: plan_event_def decode_json_object_def resolution_audit_payload_def)
  have "matching_resolution_events run_id plan_id s = []"
    using find by (auto simp: find_resolution_event_with_connection_def split: list.splits option.splits if_splits)
  then have ms: "matching_resolution_events run_id plan_id t = [e1]"
    unfolding matching_resolution_events_def matching_events_eq [OF inv] matching_events_eq [OF invt]
    using e(4,9) pe by (simp add: plan_event_def)
  have ten: "r_tenant_id r = tenant_id" using e(2) by (simp add: quarantined_row_def)
  have same: "thread_revision t a b = thread_revision s a b" "checkpoint_of D t a b = checkpoint_of D s a b" for a b
    using e(11) by (auto simp: thread_revision_def checkpoint_of_def select_thread_def)
  from der show thesis
    using select_for_tenant [OF inv e(1) ten] select_for_tenant [OF invt e(3)] ten
      same workflow_fingerprint_evolves [OF led] cur
    by (elim derive_facts) (rule that [OF invt ev e(1,2) _ e(4,11) pe e(7) ms _ e(12)], auto simp: row_ids)
qed

lemma apply_twice:
  assumes inv: "store_inv s" and hex: "\<And>x. is_hex64 (sha256_hex D x)"
    and ap: "apply_quarantine_resolution D clk run_id tenant_id target resolution plan_id subject cred s = (Inr c, t)"
    and fresh: "\<not> rc_reused c"
  shows "apply_quarantine_resolution D clk' run_id tenant_id target resolution plan_id subject' cred' t
    = (Inr (c\<lparr>rc_reused := True\<rparr>), t)"
  using fresh_application [OF inv ap fresh]
proof cases
  case (1 r cur e1 e2)
  have found: "find_resolution_event_with_connection run_id plan_id t =
      Inr (Some (ps_plan cur, ps_workflow_fingerprint cur, ps_checkpoint_fingerprint cur))"
    using 1(10,11,14,15,16) plan_roundtrip [OF 1(17)]
    by (simp add: find_resolution_event_with_connection_def decode_json_object_def resolution_audit_payload_def)
  obtain cur' where der': "derive_quarantine_plan_with_connection D run_id tenant_id target resolution t = Inr cur'"
    using derive_total [OF 1(1) 1(5) _ 1(12) hex] 1(15,17) by (auto simp: plan_valid_def)
  then have d': "ps_workflow_fingerprint cur' = ps_workflow_fingerprint cur"
      "ps_checkpoint_fingerprint cur' = ps_checkpoint_fingerprint cur"
      "p_observed_checkpoint_revision (ps_plan cur') = p_observed_checkpoint_revision (ps_plan cur)"
    using 1(5,19,20,21) by (auto elim!: derive_facts simp: row_ids)
  have hexs: "is_hex64 (ps_workflow_fingerprint cur)" "is_hex64 (ps_checkpoint_fingerprint cur)"
    using 1(20,21) hex by (auto simp: workflow_evidence_fingerprint_def workflow_evidence_fingerprint_from_rows_def
        checkpoint_of_def checkpoint_evidence_fingerprint_def canonical_resolution_hash_def)
  show ?thesis
    using found der' 1(13,15,16) d' hexs
    by (simp add: apply_quarantine_resolution_def checkpoint_progress_is_valid_def)
qed

section \<open>Verification and the release of the thread\<close>

lemma verify_after_apply:
  assumes inv: "store_inv s"
    and ap: "apply_quarantine_resolution D clk run_id tenant_id target resolution plan_id subject cred s = (Inr c, t)"
    and fresh: "\<not> rc_reused c"
    and none: "matching_resolution_failed_events run_id plan_id s = []"
  shows "verify_quarantine_resolution D c t = None"
  using fresh_application [OF inv ap fresh]
proof cases
  case (1 r cur e1 e2)
  have "matching_resolution_failed_events run_id plan_id t = [e2]"
    using none 1(6,8,9)
    unfolding matching_resolution_failed_events_def matching_events_eq [OF inv] matching_events_eq [OF 1(1)]
    by (simp add: plan_event_def)
  moreover have ten: "r_tenant_id r = tenant_id" using 1(4) by (simp add: quarantined_row_def)
  ultimately show ?thesis
    using 1(5,11-21)
    by (simp add: verify_quarantine_resolution_def Let_def row_ids lease_cleared_def checkpoint_progress_is_valid_def
        checkpoint_of_def thread_revision_def)
qed

end
