(* ===== verification/Workflow_Store.thy ===== *)
theory Workflow_Store
  imports Run_Leases
begin

text \<open>
  The durable workflow ledger, \<^verbatim>\<open>runtime_service/workflow_store.py\<close>: executions, tool-call
  steps, external actions and their event log, in the same SQLite file as the run store. One
  definition per operation of \<^verbatim>\<open>SQLiteWorkflowStore\<close>, in the order of the class. As in the
  run store an operation is one \<^verbatim>\<open>BEGIN IMMEDIATE\<close> transaction; the freshly drawn ids
  and tokens are arguments. A \<^verbatim>\<open>return\<close> after \<^verbatim>\<open>connection.rollback()\<close> yields
  the unchanged state.
\<close>

section \<open>Enumerations\<close>

datatype workflow_status = WF_PENDING | WF_RUNNING | WF_READY | WF_BLOCKED | WF_FAILED

fun workflow_value :: "workflow_status \<Rightarrow> string" where
  "workflow_value WF_PENDING = ''pending''"
| "workflow_value WF_RUNNING = ''running''"
| "workflow_value WF_READY = ''ready''"
| "workflow_value WF_BLOCKED = ''blocked''"
| "workflow_value WF_FAILED = ''failed''"

fun workflow_terminal :: "workflow_status \<Rightarrow> bool" where
  "workflow_terminal st \<longleftrightarrow> st \<in> {WF_READY, WF_BLOCKED, WF_FAILED}"

datatype tool_call_status = TC_PENDING | TC_RUNNING | TC_COMPLETED | TC_FAILED

fun tool_call_value :: "tool_call_status \<Rightarrow> string" where
  "tool_call_value TC_PENDING = ''pending''"
| "tool_call_value TC_RUNNING = ''running''"
| "tool_call_value TC_COMPLETED = ''completed''"
| "tool_call_value TC_FAILED = ''failed''"

datatype action_status = PREPARED | DISPATCHING | SUCCEEDED | ACTION_FAILED | OUTCOME_UNKNOWN

fun action_value :: "action_status \<Rightarrow> string" where
  "action_value PREPARED = ''prepared''"
| "action_value DISPATCHING = ''dispatching''"
| "action_value SUCCEEDED = ''succeeded''"
| "action_value ACTION_FAILED = ''failed''"
| "action_value OUTCOME_UNKNOWN = ''outcome_unknown''"

fun action_terminal :: "action_status \<Rightarrow> bool" where
  "action_terminal st \<longleftrightarrow> st \<in> {SUCCEEDED, ACTION_FAILED, OUTCOME_UNKNOWN}"

datatype retry_mode = SAFE | PROVIDER_IDEMPOTENT | UNSAFE

fun retry_value :: "retry_mode \<Rightarrow> string" where
  "retry_value SAFE = ''safe''"
| "retry_value PROVIDER_IDEMPOTENT = ''provider_idempotent''"
| "retry_value UNSAFE = ''unsafe''"

datatype claim_outcome =
  CLAIMED | CACHED | ALREADY_RUNNING | INPUT_MISMATCH | DEFINITION_MISMATCH | ATTEMPTS_EXHAUSTED

datatype execution_outcome = EX_CREATED | EX_EXISTING | EX_INPUT_MISMATCH | EX_WORKFLOW_TYPE_MISMATCH

datatype reuse_outcome = COPIED | RE_EXISTING | NOT_REUSABLE

datatype prepare_outcome = PR_CREATED | PR_EXISTING | PR_IDENTITY_MISMATCH | PR_TOOL_ATTEMPT_MISMATCH

datatype dispatch_outcome =
  DISPATCH_CLAIMED | RETRY_CLAIMED | ALREADY_DISPATCHING | RETRY_UNSAFE | NOT_DISPATCHING | RUN_CANCELLED | TERMINAL

record execution_claim =
  ec_outcome :: execution_outcome
  ec_execution :: execution_row

record claim_result =
  cl_outcome :: claim_outcome
  cl_step :: "tool_row option"
  cl_attempt_token :: "string option"

record reuse_result =
  ru_outcome :: reuse_outcome
  ru_step :: "tool_row option"

record prepare_result =
  pr_outcome :: prepare_outcome
  pr_action :: "action_row option"

record dispatch_result =
  dr_outcome :: dispatch_outcome
  dr_action :: action_row
  dr_dispatch_token :: "string option"

section \<open>Rows and records\<close>

text \<open>
  A record is its row once the status column is a member of the enumeration; constructing it
  from any other text raises.
\<close>

definition row_to_execution :: "execution_row \<Rightarrow> store_error + execution_row" where
  "row_to_execution row = (if x_status row \<in> workflow_value ` {WF_PENDING, WF_RUNNING, WF_READY, WF_BLOCKED, WF_FAILED}
     then Inr row else Inl (ValueError (py_repr (x_status row) @ '' is not a valid WorkflowStatus'')))"

definition row_to_step :: "tool_row \<Rightarrow> store_error + tool_row" where
  "row_to_step row = (if k_status row \<in> tool_call_value ` {TC_PENDING, TC_RUNNING, TC_COMPLETED, TC_FAILED}
     then Inr row else Inl (ValueError (py_repr (k_status row) @ '' is not a valid ToolCallStatus'')))"

definition row_to_external_action :: "action_row \<Rightarrow> store_error + action_row" where
  "row_to_external_action row =
     (if xa_retry_mode row \<notin> retry_value ` {SAFE, PROVIDER_IDEMPOTENT, UNSAFE}
      then Inl (ValueError (py_repr (xa_retry_mode row) @ '' is not a valid ToolRetryMode''))
      else if xa_status row \<in> action_value ` {PREPARED, DISPATCHING, SUCCEEDED, ACTION_FAILED, OUTCOME_UNKNOWN}
      then Inr row
      else Inl (ValueError (py_repr (xa_status row) @ '' is not a valid ExternalActionStatus'')))"

definition terminal_action_status :: "string \<Rightarrow> bool" where
  "terminal_action_status st \<longleftrightarrow> st \<in> action_value ` {SUCCEEDED, ACTION_FAILED, OUTCOME_UNKNOWN}"

definition select_execution :: "string \<Rightarrow> db \<Rightarrow> execution_row option" where
  "select_execution run_id s = fetchone (\<lambda>x. x_run_id x = run_id) (db_executions s)"

definition step_key :: "tool_row \<Rightarrow> string \<times> string" where
  "step_key k = (k_run_id k, k_step_id k)"

definition action_key :: "action_row \<Rightarrow> string \<times> string" where
  "action_key a = (xa_run_id a, xa_step_id a)"

definition select_step :: "string \<Rightarrow> string \<Rightarrow> db \<Rightarrow> tool_row option" where
  "select_step run_id step_id s = fetchone (\<lambda>k. step_key k = (run_id, step_id)) (db_tool_calls s)"

definition select_action :: "string \<Rightarrow> string \<Rightarrow> db \<Rightarrow> action_row option" where
  "select_action run_id step_id s = fetchone (\<lambda>a. action_key a = (run_id, step_id)) (db_external_actions s)"

section \<open>Checks and inserts\<close>

text \<open>
  Without a row in \<^verbatim>\<open>runs\<close> the ledger is standalone and only a call without a token passes;
  with one, the call must carry the current, unexpired token of the running run.
\<close>

definition assert_run_lease :: "string \<Rightarrow> string option \<Rightarrow> int \<Rightarrow> db \<Rightarrow> store_error option" where
  "assert_run_lease run_id lease_token now_ms s =
     (if select_run run_id s = None
      then (if lease_token = None then None
            else Some (RunLeaseLostError (''Run lease is not enforceable: '' @ run_id)))
      else case lease_token of
        None \<Rightarrow> Some (RunLeaseLostError (''Run lease is no longer current: '' @ run_id))
      | Some token \<Rightarrow>
          if fetchone (\<lambda>r. r_run_id r = run_id \<and> r_status r = RUNNING \<and> current_lease token now_ms r) (db_runs s) = None
          then Some (RunLeaseLostError (''Run lease is no longer current: '' @ run_id)) else None)"

definition fenced_body :: "string \<Rightarrow> string option \<Rightarrow> int \<Rightarrow> db \<Rightarrow> 'a store_body \<Rightarrow> 'a store_body" where
  "fenced_body run_id lease_token now_ms s body =
     (case assert_run_lease run_id lease_token now_ms s of Some e \<Rightarrow> Inl e | None \<Rightarrow> body)"

definition append_workflow_event_with_connection ::
  "string \<Rightarrow> string \<Rightarrow> (string \<times> json) list \<Rightarrow> string \<Rightarrow> db \<Rightarrow> run_event store_body" where
  "append_workflow_event_with_connection run_id event_type payload created_at s =
     (if select_execution run_id s = None then Inl IntegrityError
      else let event = \<lparr>e_event_id = db_next_workflow_event_id s, e_run_id = run_id,
                 e_sequence = next_sequence run_id (db_workflow_events s), e_event_type = event_type,
                 e_payload_json = Encoded (JObj payload), e_created_at = created_at\<rparr>
           in Inr (event, s\<lparr>db_workflow_events := db_workflow_events s @ [event],
                             db_next_workflow_event_id := db_next_workflow_event_id s + 1\<rparr>))"

text \<open>The primary key, \<^verbatim>\<open>UNIQUE(run_id, step_id)\<close> and the foreign key of \<^verbatim>\<open>tool_calls\<close>.\<close>

definition insert_step :: "tool_row \<Rightarrow> db \<Rightarrow> unit store_body" where
  "insert_step row s =
     (if select_execution (k_run_id row) s = None
         \<or> (\<exists>k\<in>set (db_tool_calls s). k_call_id k = k_call_id row \<or> step_key k = step_key row)
      then Inl IntegrityError else Inr ((), s\<lparr>db_tool_calls := db_tool_calls s @ [row]\<rparr>))"

definition insert_action :: "action_row \<Rightarrow> db \<Rightarrow> unit store_body" where
  "insert_action row s =
     (if select_step (xa_run_id row) (xa_step_id row) s = None
         \<or> (\<exists>a\<in>set (db_external_actions s). x_action_id a = x_action_id row \<or> action_key a = action_key row
              \<or> xa_idempotency_key a = xa_idempotency_key row)
      then Inl IntegrityError else Inr ((), s\<lparr>db_external_actions := db_external_actions s @ [row]\<rparr>))"

definition update_executions :: "(execution_row \<Rightarrow> bool) \<Rightarrow> (execution_row \<Rightarrow> execution_row) \<Rightarrow> db \<Rightarrow> nat \<times> db" where
  "update_executions p f s = (rowcount p (db_executions s), s\<lparr>db_executions := sql_update p f (db_executions s)\<rparr>)"

definition update_steps :: "(tool_row \<Rightarrow> bool) \<Rightarrow> (tool_row \<Rightarrow> tool_row) \<Rightarrow> db \<Rightarrow> nat \<times> db" where
  "update_steps p f s = (rowcount p (db_tool_calls s), s\<lparr>db_tool_calls := sql_update p f (db_tool_calls s)\<rparr>)"

definition update_actions :: "(action_row \<Rightarrow> bool) \<Rightarrow> (action_row \<Rightarrow> action_row) \<Rightarrow> db \<Rightarrow> nat \<times> db" where
  "update_actions p f s = (rowcount p (db_external_actions s), s\<lparr>db_external_actions := sql_update p f (db_external_actions s)\<rparr>)"

section \<open>Executions\<close>

definition resolve_execution_conflict :: "execution_row \<Rightarrow> string \<Rightarrow> string \<Rightarrow> store_error + execution_claim" where
  "resolve_execution_conflict row workflow_type input_hash = (case row_to_execution row of
      Inl e \<Rightarrow> Inl e
    | Inr rec \<Rightarrow> Inr \<lparr>ec_outcome = (if x_workflow_type rec \<noteq> workflow_type then EX_WORKFLOW_TYPE_MISMATCH
          else if x_input_hash rec \<noteq> input_hash then EX_INPUT_MISMATCH else EX_EXISTING), ec_execution = rec\<rparr>)"

definition create_or_get_execution ::
  "(nat \<Rightarrow> string) \<Rightarrow> string \<Rightarrow> string \<Rightarrow> string \<Rightarrow> string option \<Rightarrow> int \<Rightarrow> db \<Rightarrow> execution_claim store_outcome" where
  "create_or_get_execution clk run_id workflow_type input_hash lease_token now_ms s = transaction s
     (fenced_body run_id lease_token now_ms s (case select_execution run_id s of
        Some row \<Rightarrow> (case resolve_execution_conflict row workflow_type input_hash of
            Inl e \<Rightarrow> Inl e | Inr res \<Rightarrow> Inr (res, s))
      | None \<Rightarrow>
          let row = \<lparr>x_run_id = run_id, x_workflow_type = workflow_type, x_input_hash = input_hash,
                x_status = workflow_value WF_PENDING, x_result_json = None, x_error_code = None,
                x_created_at = clk 0, x_updated_at = clk 0, x_completed_at = None\<rparr>
          in Inr (\<lparr>ec_outcome = EX_CREATED, ec_execution = row\<rparr>, s\<lparr>db_executions := db_executions s @ [row]\<rparr>)))"

definition get_execution :: "string \<Rightarrow> db \<Rightarrow> store_error + execution_row option" where
  "get_execution run_id s = (case select_execution run_id s of None \<Rightarrow> Inr None
     | Some row \<Rightarrow> (case row_to_execution row of Inl e \<Rightarrow> Inl e | Inr rec \<Rightarrow> Inr (Some rec)))"

text \<open>The record of the two updates below is built after the transaction has committed.\<close>

definition after_commit :: "('a \<Rightarrow> store_error + 'b) \<Rightarrow> 'a store_outcome \<Rightarrow> 'b store_outcome" where
  "after_commit f res = (case res of (Inl e, t) \<Rightarrow> (Inl e, t) | (Inr x, t) \<Rightarrow> (f x, t))"

definition transition_execution ::
  "(nat \<Rightarrow> string) \<Rightarrow> string \<Rightarrow> workflow_status \<Rightarrow> (execution_row \<Rightarrow> execution_row) \<Rightarrow> string \<Rightarrow> (string \<times> json) list
     \<Rightarrow> string option \<Rightarrow> int \<Rightarrow> db \<Rightarrow> execution_row store_outcome" where
  "transition_execution clk run_id old f event_type payload lease_token now_ms s =
     after_commit row_to_execution (transaction s (fenced_body run_id lease_token now_ms s
       (case update_executions (\<lambda>x. x_run_id x = run_id \<and> x_status x = workflow_value old) f s of (n, s1) \<Rightarrow>
          (case select_execution run_id s1 of
             None \<Rightarrow> Inl (KeyError (''Execution not found: '' @ run_id))
           | Some row \<Rightarrow>
               if n = 1 then (case append_workflow_event_with_connection run_id event_type payload (clk 1) s1 of
                   Inl e \<Rightarrow> Inl e | Inr (_, s2) \<Rightarrow> Inr (row, s2))
               else Inr (row, s1)))))"

definition mark_running :: "(nat \<Rightarrow> string) \<Rightarrow> string \<Rightarrow> string option \<Rightarrow> int \<Rightarrow> db \<Rightarrow> execution_row store_outcome" where
  "mark_running clk run_id = transition_execution clk run_id WF_PENDING
     (\<lambda>x. x\<lparr>x_status := workflow_value WF_RUNNING, x_updated_at := clk 0\<rparr>) ''workflow.started'' []"

definition finalize_execution ::
  "(nat \<Rightarrow> string) \<Rightarrow> string \<Rightarrow> workflow_status \<Rightarrow> json_text option \<Rightarrow> string option \<Rightarrow> string
     \<Rightarrow> string option \<Rightarrow> int \<Rightarrow> db \<Rightarrow> execution_row store_outcome" where
  "finalize_execution clk run_id status result_json error_code event_type =
     transition_execution clk run_id WF_RUNNING
       (\<lambda>x. x\<lparr>x_status := workflow_value status, x_result_json := result_json, x_error_code := error_code,
               x_updated_at := clk 0, x_completed_at := Some (clk 0)\<rparr>)
       event_type [(''error_code'', jopt_str error_code)]"

definition finalize_ready ::
  "(nat \<Rightarrow> string) \<Rightarrow> string \<Rightarrow> json_text \<Rightarrow> string option \<Rightarrow> int \<Rightarrow> db \<Rightarrow> execution_row store_outcome" where
  "finalize_ready clk run_id result_json = finalize_execution clk run_id WF_READY (Some result_json) None ''workflow.ready''"

definition finalize_blocked ::
  "(nat \<Rightarrow> string) \<Rightarrow> string \<Rightarrow> json_text \<Rightarrow> string \<Rightarrow> string option \<Rightarrow> int \<Rightarrow> db \<Rightarrow> execution_row store_outcome" where
  "finalize_blocked clk run_id result_json error_code =
     finalize_execution clk run_id WF_BLOCKED (Some result_json) (Some error_code) ''workflow.blocked''"

definition finalize_failed ::
  "(nat \<Rightarrow> string) \<Rightarrow> string \<Rightarrow> string \<Rightarrow> string option \<Rightarrow> int \<Rightarrow> db \<Rightarrow> execution_row store_outcome" where
  "finalize_failed clk run_id error_code = finalize_execution clk run_id WF_FAILED None (Some error_code) ''workflow.failed''"

section \<open>Steps\<close>

definition step_reusable :: "string \<Rightarrow> string \<Rightarrow> tool_row \<Rightarrow> bool" where
  "step_reusable tool_name input_hash k \<longleftrightarrow> k_status k = tool_call_value TC_COMPLETED \<and> k_tool_name k = tool_name
     \<and> k_input_hash k = input_hash \<and> k_result_json k \<noteq> None"

text \<open>The copy itself, once source and target executions are accepted.\<close>

definition copy_completed_step ::
  "(nat \<Rightarrow> string) \<Rightarrow> string \<Rightarrow> string \<Rightarrow> string \<Rightarrow> string \<Rightarrow> string \<Rightarrow> string \<Rightarrow> db \<Rightarrow> reuse_result store_body" where
  "copy_completed_step clk call_id source_run_id target_run_id step_id tool_name input_hash s =
     (case select_step source_run_id step_id s of
        None \<Rightarrow> Inr (\<lparr>ru_outcome = NOT_REUSABLE, ru_step = None\<rparr>, s)
      | Some source_row \<Rightarrow> (case row_to_step source_row of
          Inl e \<Rightarrow> Inl e
        | Inr source_step \<Rightarrow>
            if \<not> step_reusable tool_name input_hash source_step
               \<or> select_action source_run_id step_id s \<noteq> None
            then Inr (\<lparr>ru_outcome = NOT_REUSABLE, ru_step = Some source_step\<rparr>, s)
            else (case select_step target_run_id step_id s of
                Some target_row \<Rightarrow> (case row_to_step target_row of
                  Inl e \<Rightarrow> Inl e
                | Inr target_step \<Rightarrow> Inr (\<lparr>ru_outcome = (if step_reusable tool_name input_hash target_step
                      then RE_EXISTING else NOT_REUSABLE), ru_step = Some target_step\<rparr>, s))
              | None \<Rightarrow>
                  let row = \<lparr>k_call_id = call_id, k_run_id = target_run_id, k_step_id = step_id,
                        k_tool_name = tool_name, k_input_hash = input_hash,
                        k_status = tool_call_value TC_COMPLETED, k_attempt_count = 0, k_attempt_token = None,
                        k_result_json = k_result_json source_step, k_error_code = None,
                        k_created_at = clk 0, k_updated_at = clk 0\<rparr>
                  in (case insert_step row s of
                      Inl e \<Rightarrow> Inl e
                    | Inr (_, s1) \<Rightarrow> (case append_workflow_event_with_connection target_run_id ''step.replay_reused''
                          [(''step_id'', JStr step_id), (''tool_name'', JStr tool_name),
                           (''source_run_id'', JStr source_run_id), (''attempt_count'', JInt 0),
                           (''outcome'', JStr ''reused'')] (clk 1) s1 of
                        Inl e \<Rightarrow> Inl e
                      | Inr (_, s2) \<Rightarrow> Inr (\<lparr>ru_outcome = COPIED, ru_step = Some row\<rparr>, s2))))))"

definition reuse_completed_step ::
  "(nat \<Rightarrow> string) \<Rightarrow> string \<Rightarrow> string \<Rightarrow> string \<Rightarrow> string \<Rightarrow> string \<Rightarrow> string \<Rightarrow> string option \<Rightarrow> int \<Rightarrow> db
     \<Rightarrow> reuse_result store_outcome" where
  "reuse_completed_step clk call_id source_run_id target_run_id step_id tool_name input_hash lease_token now_ms s =
     (if source_run_id = target_run_id
      then (Inl (ValueError ''selective replay requires a different target run_id''), s)
      else transaction s (fenced_body target_run_id lease_token now_ms s
        (case (select_execution source_run_id s, select_execution target_run_id s) of
           (None, _) \<Rightarrow> Inl (KeyError (''Source workflow execution not found: '' @ source_run_id))
         | (Some _, None) \<Rightarrow> Inl (KeyError (''Target workflow execution not found: '' @ target_run_id))
         | (Some source_row, Some target_row) \<Rightarrow> (case (row_to_execution source_row, row_to_execution target_row) of
             (Inl e, _) \<Rightarrow> Inl e
           | (Inr _, Inl e) \<Rightarrow> Inl e
           | (Inr source, Inr target) \<Rightarrow>
               if x_workflow_type source \<noteq> x_workflow_type target
               then Inl (ValueError (''source and target workflow types do not match: '' @ py_repr (x_workflow_type source)
                      @ '' != '' @ py_repr (x_workflow_type target)))
               else if x_status source \<notin> workflow_value ` {WF_READY, WF_BLOCKED}
               then Inl (ValueError (''source execution '' @ py_repr source_run_id @ '' is not replayable from status ''
                      @ py_repr (x_status source)))
               else if x_status target \<noteq> workflow_value WF_RUNNING
               then Inl (ValueError (''target execution '' @ py_repr target_run_id
                      @ '' must be RUNNING to accept replay evidence, not '' @ py_repr (x_status target)))
               else copy_completed_step clk call_id source_run_id target_run_id step_id tool_name input_hash s))))"

definition mismatch_outcome :: "string \<Rightarrow> string \<Rightarrow> tool_row \<Rightarrow> claim_outcome option" where
  "mismatch_outcome tool_name input_hash rec =
     (if k_tool_name rec \<noteq> tool_name then Some DEFINITION_MISMATCH
      else if k_input_hash rec \<noteq> input_hash then Some INPUT_MISMATCH else None)"

definition claimed_event ::
  "(nat \<Rightarrow> string) \<Rightarrow> string \<Rightarrow> string \<Rightarrow> string \<Rightarrow> int \<Rightarrow> string \<Rightarrow> db \<Rightarrow> claim_result store_body" where
  "claimed_event clk run_id step_id tool_name attempt_count token s =
     (case append_workflow_event_with_connection run_id ''step.claimed''
         [(''step_id'', JStr step_id), (''tool_name'', JStr tool_name), (''attempt_count'', JInt attempt_count)] (clk 1) s of
        Inl e \<Rightarrow> Inl e
      | Inr (_, s1) \<Rightarrow> (case select_step run_id step_id s1 of
          None \<Rightarrow> Inl (RuntimeError ''TypeError'')
        | Some row \<Rightarrow> (case row_to_step row of
            Inl e \<Rightarrow> Inl e
          | Inr rec \<Rightarrow> Inr (\<lparr>cl_outcome = CLAIMED, cl_step = Some rec, cl_attempt_token = Some token\<rparr>, s1))))"

definition claim_fresh ::
  "(nat \<Rightarrow> string) \<Rightarrow> string \<Rightarrow> string \<Rightarrow> string \<Rightarrow> string \<Rightarrow> string \<Rightarrow> string \<Rightarrow> db \<Rightarrow> claim_result store_body" where
  "claim_fresh clk call_id token run_id step_id tool_name input_hash s =
     (case insert_step \<lparr>k_call_id = call_id, k_run_id = run_id, k_step_id = step_id, k_tool_name = tool_name,
             k_input_hash = input_hash, k_status = tool_call_value TC_RUNNING, k_attempt_count = 1,
             k_attempt_token = Some token, k_result_json = None, k_error_code = None,
             k_created_at = clk 0, k_updated_at = clk 0\<rparr> s of
        Inr (_, s1) \<Rightarrow> claimed_event clk run_id step_id tool_name 1 token s1
      | Inl _ \<Rightarrow> (case select_step run_id step_id s of
          None \<Rightarrow> Inl (RuntimeError (''Unexpected IntegrityError claiming '' @ run_id @ ''/'' @ step_id @
             '' with no competing row found; expected a concurrent UNIQUE(run_id, step_id) claim''))
        | Some row \<Rightarrow> (case row_to_step row of
            Inl e \<Rightarrow> Inl e
          | Inr competing \<Rightarrow> Inr (\<lparr>cl_outcome = (case mismatch_outcome tool_name input_hash competing of
                  Some oc \<Rightarrow> oc | None \<Rightarrow> ALREADY_RUNNING), cl_step = Some competing, cl_attempt_token = None\<rparr>, s))))"

definition claim_retry ::
  "(nat \<Rightarrow> string) \<Rightarrow> string \<Rightarrow> string \<Rightarrow> string \<Rightarrow> string \<Rightarrow> tool_row \<Rightarrow> db \<Rightarrow> claim_result store_body" where
  "claim_retry clk token run_id step_id tool_name previous s =
     (case update_steps (\<lambda>k. step_key k = (run_id, step_id) \<and> k_status k = tool_call_value TC_FAILED)
         (\<lambda>k. k\<lparr>k_status := tool_call_value TC_RUNNING, k_attempt_count := k_attempt_count k + 1,
                 k_attempt_token := Some token, k_tool_name := tool_name, k_error_code := None,
                 k_updated_at := clk 0\<rparr>) s of (n, s1) \<Rightarrow>
        if n \<noteq> 1 then (case select_step run_id step_id s1 of
            None \<Rightarrow> Inl (RuntimeError ''TypeError'')
          | Some row \<Rightarrow> (case row_to_step row of
              Inl e \<Rightarrow> Inl e
            | Inr rec \<Rightarrow> Inr (\<lparr>cl_outcome = ALREADY_RUNNING, cl_step = Some rec, cl_attempt_token = None\<rparr>, s1)))
        else claimed_event clk run_id step_id tool_name (k_attempt_count previous + 1) token s1)"

definition claim_step ::
  "(nat \<Rightarrow> string) \<Rightarrow> string \<Rightarrow> string \<Rightarrow> string \<Rightarrow> string \<Rightarrow> string \<Rightarrow> string \<Rightarrow> int \<Rightarrow> string option \<Rightarrow> int \<Rightarrow> db
     \<Rightarrow> claim_result store_outcome" where
  "claim_step clk call_id token run_id step_id tool_name input_hash max_attempts lease_token now_ms s =
     (if max_attempts < 1 then (Inl (ValueError ''max_attempts must be at least 1''), s)
      else transaction s (fenced_body run_id lease_token now_ms s
        (if select_execution run_id s = None then Inl (KeyError (''Workflow execution not found: '' @ run_id))
         else case select_step run_id step_id s of
           None \<Rightarrow> claim_fresh clk call_id token run_id step_id tool_name input_hash s
         | Some row \<Rightarrow> (case row_to_step row of
             Inl e \<Rightarrow> Inl e
           | Inr rec \<Rightarrow>
               let done = (\<lambda>oc. Inr (\<lparr>cl_outcome = oc, cl_step = Some rec, cl_attempt_token = None\<rparr>, s)) in
               (case mismatch_outcome tool_name input_hash rec of
                  Some oc \<Rightarrow> done oc
                | None \<Rightarrow>
                    if k_status rec = tool_call_value TC_COMPLETED then done CACHED
                    else if k_status rec = tool_call_value TC_RUNNING then done ALREADY_RUNNING
                    else if max_attempts \<le> k_attempt_count rec then done ATTEMPTS_EXHAUSTED
                    else claim_retry clk token run_id step_id tool_name rec s)))))"

definition stale_attempt :: "string \<Rightarrow> string \<Rightarrow> store_error" where
  "stale_attempt run_id step_id = StaleAttemptError (''attempt_token does not currently hold '' @ run_id @ ''/'' @ step_id @
     ''; a newer attempt has already superseded it'')"

definition step_finished_payload :: "string \<Rightarrow> tool_row \<Rightarrow> string \<Rightarrow> (string \<times> json) list" where
  "step_finished_payload step_id rec outcome = [(''step_id'', JStr step_id), (''tool_name'', JStr (k_tool_name rec)),
     (''attempt_count'', JInt (k_attempt_count rec)), (''error_code'', jopt_str (k_error_code rec)), (''outcome'', JStr outcome)]"

definition finalize_step ::
  "(nat \<Rightarrow> string) \<Rightarrow> string \<Rightarrow> string \<Rightarrow> string \<Rightarrow> tool_call_status \<Rightarrow> json_text option \<Rightarrow> string option \<Rightarrow> string
     \<Rightarrow> string \<Rightarrow> string option \<Rightarrow> int \<Rightarrow> db \<Rightarrow> tool_row store_outcome" where
  "finalize_step clk run_id step_id attempt_token status result_json error_code event_type outcome lease_token now_ms s =
     transaction s (fenced_body run_id lease_token now_ms s
       (case update_steps (\<lambda>k. step_key k = (run_id, step_id) \<and> k_status k = tool_call_value TC_RUNNING
               \<and> sql_eq (k_attempt_token k) (Some attempt_token))
           (\<lambda>k. k\<lparr>k_status := tool_call_value status, k_result_json := result_json, k_error_code := error_code,
                   k_updated_at := clk 0\<rparr>) s of (n, s1) \<Rightarrow>
          if n \<noteq> 1 then Inl (stale_attempt run_id step_id)
          else (case select_step run_id step_id s1 of
              None \<Rightarrow> Inl (RuntimeError ''TypeError'')
            | Some row \<Rightarrow> (case row_to_step row of
                Inl e \<Rightarrow> Inl e
              | Inr rec \<Rightarrow> (case append_workflow_event_with_connection run_id event_type
                    (step_finished_payload step_id rec outcome) (clk 1) s1 of
                  Inl e \<Rightarrow> Inl e | Inr (_, s2) \<Rightarrow> Inr (rec, s2))))))"

definition complete_step ::
  "(nat \<Rightarrow> string) \<Rightarrow> string \<Rightarrow> string \<Rightarrow> string \<Rightarrow> json_text \<Rightarrow> string option \<Rightarrow> int \<Rightarrow> db \<Rightarrow> tool_row store_outcome" where
  "complete_step clk run_id step_id attempt_token result_json =
     finalize_step clk run_id step_id attempt_token TC_COMPLETED (Some result_json) None ''step.completed'' ''completed''"

definition fail_step ::
  "(nat \<Rightarrow> string) \<Rightarrow> string \<Rightarrow> string \<Rightarrow> string \<Rightarrow> string \<Rightarrow> string option \<Rightarrow> int \<Rightarrow> db \<Rightarrow> tool_row store_outcome" where
  "fail_step clk run_id step_id attempt_token error_code =
     finalize_step clk run_id step_id attempt_token TC_FAILED None (Some error_code) ''step.failed'' ''failed''"

definition recover_interrupted_step ::
  "(nat \<Rightarrow> string) \<Rightarrow> string \<Rightarrow> string \<Rightarrow> string option \<Rightarrow> int \<Rightarrow> db \<Rightarrow> tool_row store_outcome" where
  "recover_interrupted_step clk run_id step_id lease_token now_ms s =
     after_commit row_to_step (transaction s (fenced_body run_id lease_token now_ms s
       (case update_steps (\<lambda>k. step_key k = (run_id, step_id) \<and> k_status k = tool_call_value TC_RUNNING)
           (\<lambda>k. k\<lparr>k_status := tool_call_value TC_FAILED, k_error_code := Some ''interrupted'', k_updated_at := clk 0\<rparr>) s of
          (n, s1) \<Rightarrow> (case select_step run_id step_id s1 of
              None \<Rightarrow> Inl (KeyError (''Step not found: '' @ run_id @ ''/'' @ step_id))
            | Some row \<Rightarrow>
                if n = 1 then (case append_workflow_event_with_connection run_id ''step.interrupted_recovery''
                     [(''step_id'', JStr step_id)] (clk 1) s1 of
                    Inl e \<Rightarrow> Inl e | Inr (_, s2) \<Rightarrow> Inr (row, s2))
                else Inr (row, s1)))))"

fun rows_to_steps :: "tool_row list \<Rightarrow> store_error + tool_row list" where
  "rows_to_steps [] = Inr []"
| "rows_to_steps (r # rows) = (case row_to_step r of Inl e \<Rightarrow> Inl e
     | Inr rec \<Rightarrow> (case rows_to_steps rows of Inl e \<Rightarrow> Inl e | Inr recs \<Rightarrow> Inr (rec # recs)))"

definition get_step :: "string \<Rightarrow> string \<Rightarrow> db \<Rightarrow> store_error + tool_row option" where
  "get_step run_id step_id s = (case select_step run_id step_id s of None \<Rightarrow> Inr None
     | Some row \<Rightarrow> (case row_to_step row of Inl e \<Rightarrow> Inl e | Inr rec \<Rightarrow> Inr (Some rec)))"

definition list_steps :: "string \<Rightarrow> db \<Rightarrow> store_error + tool_row list" where
  "list_steps run_id s = rows_to_steps (sort_key k_created_at (filter (\<lambda>k. k_run_id k = run_id) (db_tool_calls s)))"

end
