(* ===== verification/External_Action_Store.thy ===== *)
theory External_Action_Store
  imports Workflow_Store
begin

text \<open>
  The external-action half of \<^verbatim>\<open>runtime_service/workflow_store.py\<close>: preparing an exact
  intent, claiming and rotating its dispatch, finalizing it together with its tool call, the
  annotation events and the compound reads. The provider's result reaches the store without a
  run lease: a dispatch token and an attempt token bind it instead.
\<close>

section \<open>Canonical arguments and error codes\<close>

text \<open>
  \<^verbatim>\<open>json.dumps(..., sort_keys=True)\<close>: two canonical texts are equal exactly when the
  values with all keys sorted are, so a canonical text is kept as that value.
\<close>

fun canonical_json :: "json \<Rightarrow> json" where
  "canonical_json (JList xs) = JList (map canonical_json xs)"
| "canonical_json (JObj kvs) = JObj (sort_key fst (map (\<lambda>(k, v). (k, canonical_json v)) kvs))"
| "canonical_json j = j"

definition canonical_json_object :: "json_text \<Rightarrow> store_error + json_text" where
  "canonical_json_object encoded = (case encoded of
      Garbled _ \<Rightarrow> Inl (ValueError ''External action JSON must be valid JSON'')
    | Encoded (JObj kvs) \<Rightarrow> Inr (Encoded (canonical_json (JObj kvs)))
    | Encoded _ \<Rightarrow> Inl (ValueError ''External action JSON must encode an object''))"

definition is_alpha :: "char \<Rightarrow> bool" where
  "is_alpha c = (let n = of_char c :: nat in (65 \<le> n \<and> n \<le> 90) \<or> (97 \<le> n \<and> n \<le> 122))"

definition is_alnum :: "char \<Rightarrow> bool" where
  "is_alnum c = (is_alpha c \<or> (let n = of_char c :: nat in 48 \<le> n \<and> n \<le> 57))"

definition validate_error_code :: "string \<Rightarrow> bool" where
  "validate_error_code error_code \<longleftrightarrow> \<not> (200 < length error_code \<or> \<not> is_alpha (hd error_code)
     \<or> (\<exists>c\<in>set error_code. \<not> (is_alnum c \<or> c \<in> set ''_.-'')))"

section \<open>Preparing\<close>

record action_intent =
  ai_run_id :: string
  ai_step_id :: string
  ai_tool_attempt_token :: string
  ai_tenant_id :: string
  ai_subject_id :: string
  ai_workflow_type :: string
  ai_tool_name :: string
  ai_provider_name :: string
  ai_provider_identity :: string
  ai_input_hash :: string
  ai_arguments_json :: json_text
  ai_retry_mode :: string
  ai_idempotency_key :: string

text \<open>\<^verbatim>\<open>_external_action_identity\<close> of a stored action against the values of the call.\<close>

definition external_action_identity :: "action_row \<Rightarrow> action_intent \<Rightarrow> json_text \<Rightarrow> bool" where
  "external_action_identity a i canonical_arguments \<longleftrightarrow>
     xa_tenant_id a = ai_tenant_id i \<and> xa_subject_id a = ai_subject_id i \<and> xa_workflow_type a = ai_workflow_type i
     \<and> xa_tool_name a = ai_tool_name i \<and> xa_provider_name a = ai_provider_name i
     \<and> xa_provider_identity a = ai_provider_identity i \<and> xa_input_hash a = ai_input_hash i
     \<and> xa_arguments_json a = canonical_arguments \<and> xa_retry_mode a = ai_retry_mode i
     \<and> xa_idempotency_key a = ai_idempotency_key i"

definition intent_fields_present :: "action_intent \<Rightarrow> bool" where
  "intent_fields_present i \<longleftrightarrow> (\<forall>v\<in>set [ai_run_id i, ai_step_id i, ai_tool_attempt_token i, ai_tenant_id i, ai_subject_id i,
     ai_workflow_type i, ai_tool_name i, ai_provider_name i, ai_provider_identity i, ai_input_hash i, ai_idempotency_key i].
     v \<noteq> [])"

definition new_action :: "(nat \<Rightarrow> string) \<Rightarrow> string \<Rightarrow> action_intent \<Rightarrow> json_text \<Rightarrow> action_row" where
  "new_action clk action_id i canonical_arguments = \<lparr>x_action_id = action_id, xa_run_id = ai_run_id i,
     xa_step_id = ai_step_id i, xa_tenant_id = ai_tenant_id i, xa_subject_id = ai_subject_id i,
     xa_workflow_type = ai_workflow_type i, xa_tool_name = ai_tool_name i, xa_provider_name = ai_provider_name i,
     xa_provider_identity = ai_provider_identity i, xa_input_hash = ai_input_hash i,
     xa_arguments_json = canonical_arguments, xa_retry_mode = ai_retry_mode i,
     xa_idempotency_key = ai_idempotency_key i, xa_status = action_value PREPARED, xa_dispatch_count = 0,
     xa_dispatch_token = None, xa_provider_reference = None, xa_result_json = None, xa_error_code = None,
     xa_created_at = clk 0, xa_updated_at = clk 0, xa_dispatched_at = None, xa_finalized_at = None\<rparr>"

definition authority_matches :: "run_row \<Rightarrow> action_intent \<Rightarrow> bool" where
  "authority_matches r i \<longleftrightarrow> r_tenant_id r = ai_tenant_id i \<and> (case r_execution_authority r of None \<Rightarrow> False
     | Some a \<Rightarrow> a_tenant_id a = ai_tenant_id i \<and> a_subject_id a = ai_subject_id i)"

text \<open>The insert of a new intent with its event, after every check.\<close>

definition create_action ::
  "(nat \<Rightarrow> string) \<Rightarrow> string \<Rightarrow> action_intent \<Rightarrow> json_text \<Rightarrow> db \<Rightarrow> prepare_result store_body" where
  "create_action clk action_id i canonical_arguments s =
     (let action = new_action clk action_id i canonical_arguments in
      case insert_action action s of
        Inl e \<Rightarrow> Inl e
      | Inr (_, s1) \<Rightarrow> (case append_workflow_event_with_connection (ai_run_id i) ''external_action.prepared''
            [(''evidence_id'', JStr (''action:'' @ action_id @ '':prepared'')), (''action_id'', JStr action_id),
             (''step_id'', JStr (ai_step_id i)), (''tool_name'', JStr (ai_tool_name i)),
             (''provider_name'', JStr (ai_provider_name i)), (''retry_mode'', JStr (ai_retry_mode i)),
             (''status'', JStr (xa_status action))] (clk 1) s1 of
          Inl e \<Rightarrow> Inl e
        | Inr (_, s2) \<Rightarrow> Inr (\<lparr>pr_outcome = PR_CREATED, pr_action = Some action\<rparr>, s2)))"

definition prepare_checked ::
  "(nat \<Rightarrow> string) \<Rightarrow> string \<Rightarrow> action_intent \<Rightarrow> json_text \<Rightarrow> db \<Rightarrow> prepare_result store_body" where
  "prepare_checked clk action_id i canonical_arguments s =
     (let result = (\<lambda>oc a. Inr (\<lparr>pr_outcome = oc, pr_action = a\<rparr>, s)) in
      case select_run (ai_run_id i) s of
        None \<Rightarrow> Inl (KeyError (''Run not found: '' @ ai_run_id i))
      | Some run \<Rightarrow>
          if \<not> authority_matches run i then result PR_IDENTITY_MISMATCH None
          else (case select_execution (ai_run_id i) s of
            None \<Rightarrow> Inl (KeyError (''Workflow execution not found: '' @ ai_run_id i))
          | Some execution \<Rightarrow> (case select_step (ai_run_id i) (ai_step_id i) s of
              None \<Rightarrow> Inl (KeyError (''Step not found: '' @ ai_run_id i @ ''/'' @ ai_step_id i))
            | Some step_row \<Rightarrow> (case row_to_step step_row of
                Inl e \<Rightarrow> Inl e
              | Inr step \<Rightarrow>
                  if x_workflow_type execution \<noteq> ai_workflow_type i \<or> k_tool_name step \<noteq> ai_tool_name i
                     \<or> k_input_hash step \<noteq> ai_input_hash i
                  then result PR_IDENTITY_MISMATCH None
                  else if k_status step \<noteq> tool_call_value TC_RUNNING
                     \<or> k_attempt_token step \<noteq> Some (ai_tool_attempt_token i)
                  then result PR_TOOL_ATTEMPT_MISMATCH None
                  else (case select_action (ai_run_id i) (ai_step_id i) s of
                      Some existing_row \<Rightarrow> (case row_to_external_action existing_row of
                        Inl e \<Rightarrow> Inl e
                      | Inr existing \<Rightarrow> result (if external_action_identity existing i canonical_arguments
                            then PR_EXISTING else PR_IDENTITY_MISMATCH) (Some existing))
                    | None \<Rightarrow>
                        if (\<exists>a\<in>set (db_external_actions s). xa_idempotency_key a = ai_idempotency_key i)
                        then result PR_IDENTITY_MISMATCH None
                        else create_action clk action_id i canonical_arguments s)))))"

definition prepare_external_action ::
  "(nat \<Rightarrow> string) \<Rightarrow> string \<Rightarrow> action_intent \<Rightarrow> string option \<Rightarrow> int \<Rightarrow> db \<Rightarrow> prepare_result store_outcome" where
  "prepare_external_action clk action_id i lease_token now_ms s =
     (if ai_retry_mode i \<notin> retry_value ` {SAFE, PROVIDER_IDEMPOTENT, UNSAFE}
      then (Inl (ValueError (py_repr (ai_retry_mode i) @ '' is not a valid ToolRetryMode'')), s)
      else case canonical_json_object (ai_arguments_json i) of
        Inl e \<Rightarrow> (Inl e, s)
      | Inr canonical_arguments \<Rightarrow>
          if \<not> intent_fields_present i
          then (Inl (ValueError ''External action identity fields must be non-empty strings''), s)
          else transaction s (fenced_body (ai_run_id i) lease_token now_ms s
                 (prepare_checked clk action_id i canonical_arguments s)))"

section \<open>Dispatching\<close>

definition require_external_action :: "string \<Rightarrow> string \<Rightarrow> db \<Rightarrow> store_error + action_row" where
  "require_external_action run_id step_id s = (case select_action run_id step_id s of
      None \<Rightarrow> Inl (KeyError (''External action not found: '' @ run_id @ ''/'' @ step_id))
    | Some row \<Rightarrow> row_to_external_action row)"

definition assert_current_tool_attempt :: "string \<Rightarrow> string \<Rightarrow> string \<Rightarrow> db \<Rightarrow> store_error + tool_row" where
  "assert_current_tool_attempt run_id step_id attempt_token s = (case select_step run_id step_id s of
      None \<Rightarrow> Inl (KeyError (''Step not found: '' @ run_id @ ''/'' @ step_id))
    | Some row \<Rightarrow> (case row_to_step row of
        Inl e \<Rightarrow> Inl e
      | Inr step \<Rightarrow>
          if k_status step \<noteq> tool_call_value TC_RUNNING \<or> k_attempt_token step \<noteq> Some attempt_token
          then Inl (stale_attempt run_id step_id) else Inr step))"

definition stale_dispatch :: "string \<Rightarrow> string \<Rightarrow> store_error" where
  "stale_dispatch run_id step_id = StaleDispatchError (''dispatch_token does not currently hold '' @ run_id @ ''/'' @ step_id)"

definition dispatch_payload :: "action_row \<Rightarrow> bool \<Rightarrow> (string \<times> json) list" where
  "dispatch_payload a retry = [(''evidence_id'', JStr (''action:'' @ x_action_id a @ '':dispatch:'' @ show_int (xa_dispatch_count a))),
     (''action_id'', JStr (x_action_id a)), (''step_id'', JStr (xa_step_id a)), (''tool_name'', JStr (xa_tool_name a)),
     (''provider_name'', JStr (xa_provider_name a)), (''status'', JStr (xa_status a)),
     (''dispatch_count'', JInt (xa_dispatch_count a)), (''retry'', JBool retry)]"

text \<open>The common tail of both dispatch claims: the guarded update, the re-read, the event.\<close>

definition claim_dispatch ::
  "(nat \<Rightarrow> string) \<Rightarrow> string \<Rightarrow> string \<Rightarrow> string \<Rightarrow> (action_row \<Rightarrow> bool) \<Rightarrow> bool \<Rightarrow> dispatch_outcome \<Rightarrow> store_error \<Rightarrow> db
     \<Rightarrow> dispatch_result store_body" where
  "claim_dispatch clk token run_id step_id guard retry oc lost s =
     (case update_actions (\<lambda>a. action_key a = (run_id, step_id) \<and> guard a)
         (\<lambda>a. a\<lparr>xa_status := action_value DISPATCHING, xa_dispatch_count := xa_dispatch_count a + 1,
                 xa_dispatch_token := Some token, xa_updated_at := clk 0, xa_dispatched_at := Some (clk 0)\<rparr>) s of (n, s1) \<Rightarrow>
        if n \<noteq> 1 then Inl lost
        else (case require_external_action run_id step_id s1 of
            Inl e \<Rightarrow> Inl e
          | Inr refreshed \<Rightarrow> (case append_workflow_event_with_connection (xa_run_id refreshed) ''external_action.dispatch_started''
                (dispatch_payload refreshed retry) (clk 1) s1 of
              Inl e \<Rightarrow> Inl e
            | Inr (_, s2) \<Rightarrow> Inr (\<lparr>dr_outcome = oc, dr_action = refreshed, dr_dispatch_token = Some token\<rparr>, s2))))"

definition begin_external_action_dispatch ::
  "(nat \<Rightarrow> string) \<Rightarrow> string \<Rightarrow> string \<Rightarrow> string \<Rightarrow> string \<Rightarrow> string option \<Rightarrow> int \<Rightarrow> db \<Rightarrow> dispatch_result store_outcome" where
  "begin_external_action_dispatch clk token run_id step_id tool_attempt_token lease_token now_ms s =
     transaction s (fenced_body run_id lease_token now_ms s (case require_external_action run_id step_id s of
        Inl e \<Rightarrow> Inl e
      | Inr action \<Rightarrow>
          if terminal_action_status (xa_status action)
          then Inr (\<lparr>dr_outcome = TERMINAL, dr_action = action, dr_dispatch_token = None\<rparr>, s)
          else if xa_status action = action_value DISPATCHING
          then Inr (\<lparr>dr_outcome = ALREADY_DISPATCHING, dr_action = action, dr_dispatch_token = xa_dispatch_token action\<rparr>, s)
          else (case select_run run_id s of
              None \<Rightarrow> Inl (KeyError (''Run not found: '' @ run_id))
            | Some run \<Rightarrow>
                if r_status run \<noteq> RUNNING \<or> r_cancel_requested run
                then Inr (\<lparr>dr_outcome = RUN_CANCELLED, dr_action = action, dr_dispatch_token = None\<rparr>, s)
                else (case assert_current_tool_attempt run_id step_id tool_attempt_token s of
                    Inl e \<Rightarrow> Inl e
                  | Inr _ \<Rightarrow> claim_dispatch clk token run_id step_id (\<lambda>a. xa_status a = action_value PREPARED) False
                      DISPATCH_CLAIMED (StaleDispatchError (''External action changed before dispatch: '' @ run_id @ ''/'' @ step_id)) s))))"

definition retry_external_action_dispatch ::
  "(nat \<Rightarrow> string) \<Rightarrow> string \<Rightarrow> string \<Rightarrow> string \<Rightarrow> string \<Rightarrow> string \<Rightarrow> string option \<Rightarrow> int \<Rightarrow> db \<Rightarrow> dispatch_result store_outcome" where
  "retry_external_action_dispatch clk token run_id step_id previous_dispatch_token tool_attempt_token lease_token now_ms s =
     transaction s (fenced_body run_id lease_token now_ms s (case require_external_action run_id step_id s of
        Inl e \<Rightarrow> Inl e
      | Inr action \<Rightarrow>
          if terminal_action_status (xa_status action)
          then Inr (\<lparr>dr_outcome = TERMINAL, dr_action = action, dr_dispatch_token = None\<rparr>, s)
          else if xa_status action \<noteq> action_value DISPATCHING
          then Inr (\<lparr>dr_outcome = NOT_DISPATCHING, dr_action = action, dr_dispatch_token = None\<rparr>, s)
          else if xa_retry_mode action = retry_value UNSAFE
          then Inr (\<lparr>dr_outcome = RETRY_UNSAFE, dr_action = action, dr_dispatch_token = xa_dispatch_token action\<rparr>, s)
          else if xa_dispatch_token action \<noteq> Some previous_dispatch_token then Inl (stale_dispatch run_id step_id)
          else (case assert_current_tool_attempt run_id step_id tool_attempt_token s of
              Inl e \<Rightarrow> Inl e
            | Inr _ \<Rightarrow> claim_dispatch clk token run_id step_id
                (\<lambda>a. xa_status a = action_value DISPATCHING \<and> sql_eq (xa_dispatch_token a) (Some previous_dispatch_token)) True
                RETRY_CLAIMED (stale_dispatch run_id step_id) s)))"

section \<open>Finalizing\<close>

record final_outcome =
  fo_action_status :: action_status
  fo_tool_status :: tool_call_status
  fo_result_json :: "json_text option"
  fo_provider_reference :: "string option"
  fo_error_code :: "string option"

text \<open>The checks before the transaction; the value is the canonical result.\<close>

definition check_final_outcome :: "final_outcome \<Rightarrow> store_error + json_text option" where
  "check_final_outcome fo =
     (if \<not> action_terminal (fo_action_status fo)
      then Inl (ValueError ''External action final status must be terminal'')
      else if fo_action_status fo = SUCCEEDED
      then (if fo_tool_status fo \<noteq> TC_COMPLETED \<or> fo_result_json fo = None
            then Inl (ValueError ''A succeeded external action requires a completed tool result'')
            else if fo_provider_reference fo = None \<or> fo_provider_reference fo = Some []
            then Inl (ValueError ''A succeeded external action requires a provider reference'')
            else if fo_error_code fo \<noteq> None
            then Inl (ValueError ''A succeeded external action cannot carry an error code'')
            else (case canonical_json_object (the (fo_result_json fo)) of Inl e \<Rightarrow> Inl e | Inr t \<Rightarrow> Inr (Some t)))
      else if fo_tool_status fo \<noteq> TC_FAILED \<or> fo_error_code fo = None \<or> fo_error_code fo = Some []
      then Inl (ValueError ''A failed or unknown external action requires an error code'')
      else if \<not> validate_error_code (the (fo_error_code fo))
      then Inl (ValueError ''External action error_code must be a stable machine code'')
      else Inr None)"

definition exact_duplicate :: "final_outcome \<Rightarrow> json_text option \<Rightarrow> string \<Rightarrow> string \<Rightarrow> action_row \<Rightarrow> tool_row \<Rightarrow> bool" where
  "exact_duplicate fo canonical_result dispatch_token tool_attempt_token action step \<longleftrightarrow>
     xa_status action = action_value (fo_action_status fo) \<and> xa_dispatch_token action = Some dispatch_token
     \<and> xa_provider_reference action = fo_provider_reference fo \<and> xa_result_json action = canonical_result
     \<and> xa_error_code action = fo_error_code fo \<and> k_status step = tool_call_value (fo_tool_status fo)
     \<and> k_attempt_token step = Some tool_attempt_token \<and> k_result_json step = canonical_result
     \<and> k_error_code step = fo_error_code fo"

definition outcome_payload :: "action_row \<Rightarrow> string \<Rightarrow> final_outcome \<Rightarrow> (string \<times> json) list" where
  "outcome_payload action step_id fo = [(''evidence_id'', JStr (''action:'' @ x_action_id action @ '':outcome'')),
     (''action_id'', JStr (x_action_id action)), (''step_id'', JStr step_id), (''tool_name'', JStr (xa_tool_name action)),
     (''provider_name'', JStr (xa_provider_name action)), (''status'', JStr (action_value (fo_action_status fo))),
     (''dispatch_count'', JInt (xa_dispatch_count action)), (''provider_reference'', jopt_str (fo_provider_reference fo)),
     (''error_code'', jopt_str (fo_error_code fo))]"

text \<open>The two guarded updates and the two events, in one transaction.\<close>

definition write_final_outcome ::
  "(nat \<Rightarrow> string) \<Rightarrow> string \<Rightarrow> string \<Rightarrow> string \<Rightarrow> string \<Rightarrow> final_outcome \<Rightarrow> json_text option \<Rightarrow> action_row \<Rightarrow> db
     \<Rightarrow> action_row store_body" where
  "write_final_outcome clk run_id step_id dispatch_token tool_attempt_token fo canonical_result action s =
     (case update_actions (\<lambda>a. action_key a = (run_id, step_id) \<and> xa_status a = action_value DISPATCHING
            \<and> sql_eq (xa_dispatch_token a) (Some dispatch_token))
         (\<lambda>a. a\<lparr>xa_status := action_value (fo_action_status fo), xa_provider_reference := fo_provider_reference fo,
                 xa_result_json := canonical_result, xa_error_code := fo_error_code fo,
                 xa_updated_at := clk 0, xa_finalized_at := Some (clk 0)\<rparr>) s of (n, s1) \<Rightarrow>
        if n \<noteq> 1 then Inl (stale_dispatch run_id step_id)
        else (case update_steps (\<lambda>k. step_key k = (run_id, step_id) \<and> k_status k = tool_call_value TC_RUNNING
               \<and> sql_eq (k_attempt_token k) (Some tool_attempt_token))
            (\<lambda>k. k\<lparr>k_status := tool_call_value (fo_tool_status fo), k_result_json := canonical_result,
                    k_error_code := fo_error_code fo, k_updated_at := clk 0\<rparr>) s1 of (m, s2) \<Rightarrow>
          if m \<noteq> 1 then Inl (stale_attempt run_id step_id)
          else (case require_external_action run_id step_id s2 of
              Inl e \<Rightarrow> Inl e
            | Inr refreshed_action \<Rightarrow> (case select_step run_id step_id s2 of
                None \<Rightarrow> Inl (RuntimeError ''TypeError'')
              | Some row \<Rightarrow> (case row_to_step row of
                  Inl e \<Rightarrow> Inl e
                | Inr step \<Rightarrow> (case append_workflow_event_with_connection run_id
                      (''external_action.'' @ action_value (fo_action_status fo)) (outcome_payload action step_id fo) (clk 1) s2 of
                    Inl e \<Rightarrow> Inl e
                  | Inr (_, s3) \<Rightarrow> (case append_workflow_event_with_connection run_id
                        (if fo_tool_status fo = TC_COMPLETED then ''step.completed'' else ''step.failed'')
                        (step_finished_payload step_id step
                           (if fo_tool_status fo = TC_COMPLETED then ''completed'' else ''failed'')) (clk 2) s3 of
                      Inl e \<Rightarrow> Inl e | Inr (_, s4) \<Rightarrow> Inr (refreshed_action, s4))))))))"

definition finalize_checked ::
  "(nat \<Rightarrow> string) \<Rightarrow> string \<Rightarrow> string \<Rightarrow> string \<Rightarrow> string \<Rightarrow> final_outcome \<Rightarrow> json_text option \<Rightarrow> retry_mode option \<Rightarrow> db
     \<Rightarrow> action_row store_body" where
  "finalize_checked clk run_id step_id dispatch_token tool_attempt_token fo canonical_result required s =
     (case require_external_action run_id step_id s of
        Inl e \<Rightarrow> Inl e
      | Inr action \<Rightarrow>
          if (case required of None \<Rightarrow> False | Some mode \<Rightarrow> xa_retry_mode action \<noteq> retry_value mode)
          then Inl (ValueError (''External action '' @ run_id @ ''/'' @ step_id @ '' has retry mode ''
                 @ py_repr (xa_retry_mode action) @ '', not '' @ py_repr (retry_value (the required))))
          else if terminal_action_status (xa_status action)
          then (case select_step run_id step_id s of
              None \<Rightarrow> Inl (RuntimeError ''Terminal external action lost its parent tool call'')
            | Some row \<Rightarrow> (case row_to_step row of
                Inl e \<Rightarrow> Inl e
              | Inr step \<Rightarrow>
                  if exact_duplicate fo canonical_result dispatch_token tool_attempt_token action step then Inr (action, s)
                  else Inl (StaleDispatchError (''External action '' @ run_id @ ''/'' @ step_id
                         @ '' already has a different terminal outcome''))))
          else if xa_status action \<noteq> action_value DISPATCHING \<or> xa_dispatch_token action \<noteq> Some dispatch_token
          then Inl (stale_dispatch run_id step_id)
          else (case assert_current_tool_attempt run_id step_id tool_attempt_token s of
              Inl e \<Rightarrow> Inl e
            | Inr _ \<Rightarrow> write_final_outcome clk run_id step_id dispatch_token tool_attempt_token fo canonical_result action s))"

definition finalize_external_action ::
  "(nat \<Rightarrow> string) \<Rightarrow> string \<Rightarrow> string \<Rightarrow> string \<Rightarrow> string \<Rightarrow> final_outcome \<Rightarrow> retry_mode option \<Rightarrow> string option \<Rightarrow> bool
     \<Rightarrow> int \<Rightarrow> db \<Rightarrow> action_row store_outcome" where
  "finalize_external_action clk run_id step_id dispatch_token tool_attempt_token fo required lease_token require_run_lease now_ms s =
     (case check_final_outcome fo of
        Inl e \<Rightarrow> (Inl e, s)
      | Inr canonical_result \<Rightarrow> transaction s
          (let body = finalize_checked clk run_id step_id dispatch_token tool_attempt_token fo canonical_result required s
           in if require_run_lease then fenced_body run_id lease_token now_ms s body else body))"

definition finalize_external_action_succeeded ::
  "(nat \<Rightarrow> string) \<Rightarrow> string \<Rightarrow> string \<Rightarrow> string \<Rightarrow> string \<Rightarrow> json_text \<Rightarrow> string \<Rightarrow> string option \<Rightarrow> int \<Rightarrow> db
     \<Rightarrow> action_row store_outcome" where
  "finalize_external_action_succeeded clk run_id step_id dispatch_token tool_attempt_token result_json provider_reference
       error_code now_ms = finalize_external_action clk run_id step_id dispatch_token tool_attempt_token
     \<lparr>fo_action_status = SUCCEEDED, fo_tool_status = TC_COMPLETED, fo_result_json = Some result_json,
       fo_provider_reference = Some provider_reference, fo_error_code = error_code\<rparr> None None False now_ms"

definition finalize_external_action_failed ::
  "(nat \<Rightarrow> string) \<Rightarrow> string \<Rightarrow> string \<Rightarrow> string \<Rightarrow> string \<Rightarrow> string \<Rightarrow> string option \<Rightarrow> int \<Rightarrow> db \<Rightarrow> action_row store_outcome" where
  "finalize_external_action_failed clk run_id step_id dispatch_token tool_attempt_token error_code provider_reference now_ms =
     finalize_external_action clk run_id step_id dispatch_token tool_attempt_token
     \<lparr>fo_action_status = ACTION_FAILED, fo_tool_status = TC_FAILED, fo_result_json = None,
       fo_provider_reference = provider_reference, fo_error_code = Some error_code\<rparr> None None False now_ms"

definition unknown_outcome :: "string \<Rightarrow> string option \<Rightarrow> final_outcome" where
  "unknown_outcome error_code provider_reference = \<lparr>fo_action_status = OUTCOME_UNKNOWN, fo_tool_status = TC_FAILED,
     fo_result_json = None, fo_provider_reference = provider_reference, fo_error_code = Some error_code\<rparr>"

definition finalize_external_action_outcome_unknown ::
  "(nat \<Rightarrow> string) \<Rightarrow> string \<Rightarrow> string \<Rightarrow> string \<Rightarrow> string \<Rightarrow> string \<Rightarrow> string option \<Rightarrow> int \<Rightarrow> db \<Rightarrow> action_row store_outcome" where
  "finalize_external_action_outcome_unknown clk run_id step_id dispatch_token tool_attempt_token error_code provider_reference now_ms =
     finalize_external_action clk run_id step_id dispatch_token tool_attempt_token
       (unknown_outcome error_code provider_reference) None None False now_ms"

definition finalize_external_action_reconciliation_unknown ::
  "(nat \<Rightarrow> string) \<Rightarrow> string \<Rightarrow> string \<Rightarrow> string \<Rightarrow> string \<Rightarrow> string \<Rightarrow> string option \<Rightarrow> string option \<Rightarrow> int \<Rightarrow> db
     \<Rightarrow> action_row store_outcome" where
  "finalize_external_action_reconciliation_unknown clk run_id step_id dispatch_token tool_attempt_token error_code
       provider_reference lease_token now_ms = finalize_external_action clk run_id step_id dispatch_token tool_attempt_token
     (unknown_outcome error_code provider_reference) None lease_token True now_ms"

definition finalize_unsafe_interrupted_action ::
  "(nat \<Rightarrow> string) \<Rightarrow> string \<Rightarrow> string \<Rightarrow> string \<Rightarrow> string \<Rightarrow> string \<Rightarrow> string option \<Rightarrow> int \<Rightarrow> db \<Rightarrow> action_row store_outcome" where
  "finalize_unsafe_interrupted_action clk run_id step_id dispatch_token tool_attempt_token error_code lease_token now_ms =
     finalize_external_action clk run_id step_id dispatch_token tool_attempt_token
     (unknown_outcome error_code None) (Some UNSAFE) lease_token True now_ms"

section \<open>Reads and annotations\<close>

fun rows_to_actions :: "action_row list \<Rightarrow> store_error + action_row list" where
  "rows_to_actions [] = Inr []"
| "rows_to_actions (r # rows) = (case row_to_external_action r of Inl e \<Rightarrow> Inl e
     | Inr rec \<Rightarrow> (case rows_to_actions rows of Inl e \<Rightarrow> Inl e | Inr recs \<Rightarrow> Inr (rec # recs)))"

definition get_external_action :: "string \<Rightarrow> string \<Rightarrow> db \<Rightarrow> store_error + action_row option" where
  "get_external_action run_id step_id s = (case select_action run_id step_id s of None \<Rightarrow> Inr None
     | Some row \<Rightarrow> (case row_to_external_action row of Inl e \<Rightarrow> Inl e | Inr rec \<Rightarrow> Inr (Some rec)))"

definition list_external_actions :: "string \<Rightarrow> db \<Rightarrow> store_error + action_row list" where
  "list_external_actions run_id s =
     rows_to_actions (sort_key xa_created_at (filter (\<lambda>a. xa_run_id a = run_id) (db_external_actions s)))"

definition has_external_action_requiring_reconciliation :: "string \<Rightarrow> db \<Rightarrow> bool" where
  "has_external_action_requiring_reconciliation run_id s =
     (fetchone (\<lambda>a. xa_run_id a = run_id \<and> 0 < xa_dispatch_count a) (db_external_actions s) \<noteq> None)"

definition append_workflow_event ::
  "(nat \<Rightarrow> string) \<Rightarrow> string \<Rightarrow> string \<Rightarrow> (string \<times> json) list \<Rightarrow> string option \<Rightarrow> int \<Rightarrow> db \<Rightarrow> run_event store_outcome" where
  "append_workflow_event clk run_id event_type payload lease_token now_ms s = transaction s
     (fenced_body run_id lease_token now_ms s (append_workflow_event_with_connection run_id event_type payload (clk 0) s))"

definition list_workflow_events :: "string \<Rightarrow> int \<Rightarrow> db \<Rightarrow> run_event list" where
  "list_workflow_events run_id after_sequence s = sort_key e_sequence
     (filter (\<lambda>e. e_run_id e = run_id \<and> after_sequence < e_sequence e) (db_workflow_events s))"

record workflow_snapshot =
  sn_execution :: "execution_row option"
  sn_steps :: "tool_row list"
  sn_external_actions :: "action_row list"
  sn_events :: "run_event list"

definition read_run_snapshot :: "string \<Rightarrow> int \<Rightarrow> db \<Rightarrow> store_error + workflow_snapshot" where
  "read_run_snapshot run_id after_sequence s = (case get_execution run_id s of
      Inl e \<Rightarrow> Inl e
    | Inr execution \<Rightarrow> (case list_steps run_id s of
        Inl e \<Rightarrow> Inl e
      | Inr steps \<Rightarrow> (case list_external_actions run_id s of
          Inl e \<Rightarrow> Inl e
        | Inr actions \<Rightarrow> Inr \<lparr>sn_execution = execution, sn_steps = steps, sn_external_actions = actions,
            sn_events = list_workflow_events run_id after_sequence s\<rparr>)))"

end
