(* ===== verification/Workflow_Invariant.thy ===== *)
theory Workflow_Invariant
  imports Run_Safety External_Action_Store
begin

text \<open>
  The invariant of the workflow ledger and the way its tables may evolve, proved for the
  primitive writes (append an event, insert an execution, a step or an action, update steps and
  actions) and lifted to the operations with the calculus of transaction bodies.
\<close>

section \<open>The invariant\<close>

definition execution_ok :: "execution_row \<Rightarrow> bool" where
  "execution_ok x \<longleftrightarrow> (\<exists>st. x_status x = workflow_value st \<and> (workflow_terminal st \<longleftrightarrow> x_completed_at x \<noteq> None))"

definition completed_step :: "tool_row \<Rightarrow> bool" where
  "completed_step k \<longleftrightarrow> k_status k = tool_call_value TC_COMPLETED"

definition step_ok :: "tool_row \<Rightarrow> bool" where
  "step_ok k \<longleftrightarrow> k_status k \<in> tool_call_value ` {TC_RUNNING, TC_COMPLETED, TC_FAILED} \<and> 0 \<le> k_attempt_count k \<and>
     (k_status k = tool_call_value TC_RUNNING \<longrightarrow> k_attempt_token k \<noteq> None \<and> 1 \<le> k_attempt_count k) \<and>
     (completed_step k \<longleftrightarrow> k_result_json k \<noteq> None) \<and>
     (k_status k = tool_call_value TC_FAILED \<longleftrightarrow> k_error_code k \<noteq> None)"

text \<open>
  An action counts its dispatches: none before the first, and never a second one when the tool
  is not retry-safe. A terminal action carries exactly the evidence its status calls for.
\<close>

definition action_ok :: "action_row \<Rightarrow> bool" where
  "action_ok a \<longleftrightarrow> xa_retry_mode a \<in> retry_value ` {SAFE, PROVIDER_IDEMPOTENT, UNSAFE} \<and>
     xa_status a \<in> action_value ` {PREPARED, DISPATCHING, SUCCEEDED, ACTION_FAILED, OUTCOME_UNKNOWN} \<and>
     0 \<le> xa_dispatch_count a \<and>
     (xa_status a = action_value PREPARED \<longleftrightarrow> xa_dispatch_count a = 0) \<and>
     (xa_dispatch_token a = None \<longleftrightarrow> xa_dispatch_count a = 0) \<and>
     (xa_retry_mode a = retry_value UNSAFE \<longrightarrow> xa_dispatch_count a \<le> 1) \<and>
     (terminal_action_status (xa_status a) \<longleftrightarrow> xa_finalized_at a \<noteq> None) \<and>
     (xa_status a = action_value SUCCEEDED \<longleftrightarrow> xa_result_json a \<noteq> None) \<and>
     (xa_status a \<in> {action_value ACTION_FAILED, action_value OUTCOME_UNKNOWN} \<longleftrightarrow> xa_error_code a \<noteq> None)"

text \<open>A succeeded action and its tool call hold the same result.\<close>

definition coherent :: "tool_row table \<Rightarrow> action_row \<Rightarrow> bool" where
  "coherent steps a \<longleftrightarrow> (\<exists>k\<in>set steps. step_key k = action_key a \<and> k_tool_name k = xa_tool_name a
     \<and> k_input_hash k = xa_input_hash a \<and>
     (xa_status a = action_value SUCCEEDED \<longrightarrow> completed_step k \<and> k_result_json k = xa_result_json a))"

definition wf_inv :: "db \<Rightarrow> bool" where
  "wf_inv s \<longleftrightarrow> distinct (map x_run_id (db_executions s)) \<and> (\<forall>x\<in>set (db_executions s). execution_ok x) \<and>
     distinct (map k_call_id (db_tool_calls s)) \<and> distinct (map step_key (db_tool_calls s)) \<and>
     (\<forall>k\<in>set (db_tool_calls s). step_ok k \<and> k_run_id k \<in> x_run_id ` set (db_executions s)) \<and>
     distinct (map x_action_id (db_external_actions s)) \<and> distinct (map action_key (db_external_actions s)) \<and>
     distinct (map xa_idempotency_key (db_external_actions s)) \<and>
     (\<forall>a\<in>set (db_external_actions s). action_ok a \<and> coherent (db_tool_calls s) a) \<and>
     events_ok (db_workflow_events s) (db_next_workflow_event_id s) \<and>
     (\<forall>e\<in>set (db_workflow_events s). e_run_id e \<in> x_run_id ` set (db_executions s))"

lemma wf_inv_empty: "wf_inv empty_db"
  by (simp add: wf_inv_def empty_db_def events_ok_def seqs_def)

section \<open>How the ledger evolves\<close>

definition execution_evolves :: "execution_row \<Rightarrow> execution_row \<Rightarrow> bool" where
  "execution_evolves x x' \<longleftrightarrow> x_run_id x' = x_run_id x \<and> x_workflow_type x' = x_workflow_type x \<and>
     x_input_hash x' = x_input_hash x \<and> (x_completed_at x \<noteq> None \<longrightarrow> x' = x)"

definition step_evolves :: "tool_row \<Rightarrow> tool_row \<Rightarrow> bool" where
  "step_evolves k k' \<longleftrightarrow> k_call_id k' = k_call_id k \<and> step_key k' = step_key k \<and> k_tool_name k' = k_tool_name k \<and>
     k_input_hash k' = k_input_hash k \<and> k_attempt_count k \<le> k_attempt_count k' \<and> (completed_step k \<longrightarrow> k' = k)"

definition same_identity :: "action_row \<Rightarrow> action_row \<Rightarrow> bool" where
  "same_identity a a' \<longleftrightarrow> x_action_id a' = x_action_id a \<and> action_key a' = action_key a \<and> xa_tenant_id a' = xa_tenant_id a \<and>
     xa_subject_id a' = xa_subject_id a \<and> xa_workflow_type a' = xa_workflow_type a \<and> xa_tool_name a' = xa_tool_name a \<and>
     xa_provider_name a' = xa_provider_name a \<and> xa_provider_identity a' = xa_provider_identity a \<and>
     xa_input_hash a' = xa_input_hash a \<and> xa_arguments_json a' = xa_arguments_json a \<and>
     xa_retry_mode a' = xa_retry_mode a \<and> xa_idempotency_key a' = xa_idempotency_key a"

definition action_evolves :: "action_row \<Rightarrow> action_row \<Rightarrow> bool" where
  "action_evolves a a' \<longleftrightarrow> same_identity a a' \<and> xa_dispatch_count a \<le> xa_dispatch_count a' \<and>
     (terminal_action_status (xa_status a) \<longrightarrow> a' = a)"

definition wf_evolves :: "db \<Rightarrow> db \<Rightarrow> bool" where
  "wf_evolves s t \<longleftrightarrow>
     (\<forall>i x. select_execution i s = Some x \<longrightarrow> (\<exists>x'. select_execution i t = Some x' \<and> execution_evolves x x')) \<and>
     (\<forall>i j k. select_step i j s = Some k \<longrightarrow> (\<exists>k'. select_step i j t = Some k' \<and> step_evolves k k')) \<and>
     (\<forall>i j a. select_action i j s = Some a \<longrightarrow> (\<exists>a'. select_action i j t = Some a' \<and> action_evolves a a')) \<and>
     (\<exists>evs. db_workflow_events t = db_workflow_events s @ evs)"

definition runs_same :: "db \<Rightarrow> db \<Rightarrow> bool" where
  "runs_same s t \<longleftrightarrow> db_runs t = db_runs s \<and> db_run_events t = db_run_events s \<and>
     db_thread_states t = db_thread_states s \<and> db_next_event_id t = db_next_event_id s \<and> db_memory t = db_memory s"

definition wf_step_ok :: "db \<Rightarrow> db \<Rightarrow> bool" where
  "wf_step_ok s t \<longleftrightarrow> wf_inv t \<and> wf_evolves s t \<and> runs_same s t"

lemma evolves_refls [simp]: "execution_evolves x x" "step_evolves k k" "action_evolves a a" "same_identity a a"
  by (simp_all add: execution_evolves_def step_evolves_def action_evolves_def same_identity_def)

lemma execution_evolves_trans: "execution_evolves a b \<Longrightarrow> execution_evolves b c \<Longrightarrow> execution_evolves a c"
  by (auto simp: execution_evolves_def)

lemma step_evolves_trans: "step_evolves a b \<Longrightarrow> step_evolves b c \<Longrightarrow> step_evolves a c"
  by (auto simp: step_evolves_def)

lemma same_identity_trans: "same_identity a b \<Longrightarrow> same_identity b c \<Longrightarrow> same_identity a c"
  by (simp add: same_identity_def)

lemma action_evolves_trans:
  assumes "action_evolves a b" "action_evolves b c" shows "action_evolves a c"
  using assms same_identity_trans [of a b c] unfolding action_evolves_def by (metis order_trans)

lemma wf_evolves_refl [simp]: "wf_evolves s s"
  by (auto simp: wf_evolves_def)

lemma wf_evolves_trans:
  assumes "wf_evolves s t" and "wf_evolves t u"
  shows "wf_evolves s u"
  unfolding wf_evolves_def
proof (intro conjI allI impI)
  fix i x assume "select_execution i s = Some x"
  with assms show "\<exists>x'. select_execution i u = Some x' \<and> execution_evolves x x'"
    unfolding wf_evolves_def by (meson execution_evolves_trans)
next
  fix i j k assume "select_step i j s = Some k"
  with assms show "\<exists>k'. select_step i j u = Some k' \<and> step_evolves k k'"
    unfolding wf_evolves_def by (meson step_evolves_trans)
next
  fix i j a assume "select_action i j s = Some a"
  with assms show "\<exists>a'. select_action i j u = Some a' \<and> action_evolves a a'"
    unfolding wf_evolves_def by (meson action_evolves_trans)
next
  from assms show "\<exists>evs. db_workflow_events u = db_workflow_events s @ evs"
    unfolding wf_evolves_def by (metis append_assoc)
qed

lemma runs_same_trans: "runs_same s t \<Longrightarrow> runs_same t u \<Longrightarrow> runs_same s u"
  by (simp add: runs_same_def)

lemma wf_step_ok_refl: "wf_inv s \<Longrightarrow> wf_step_ok s s"
  by (simp add: wf_step_ok_def runs_same_def)

lemma wf_step_ok_inv: "wf_step_ok s t \<Longrightarrow> wf_inv t"
  by (simp add: wf_step_ok_def)

lemma wf_step_ok_trans: "wf_step_ok s t \<Longrightarrow> wf_step_ok t u \<Longrightarrow> wf_step_ok s u"
  unfolding wf_step_ok_def by (meson wf_evolves_trans runs_same_trans)

section \<open>Lookups\<close>

lemma select_execution_SomeD: "select_execution i s = Some x \<Longrightarrow> x \<in> set (db_executions s) \<and> x_run_id x = i"
  by (auto simp: select_execution_def dest: fetchone_SomeD)

lemma select_step_SomeD: "select_step i j s = Some k \<Longrightarrow> k \<in> set (db_tool_calls s) \<and> step_key k = (i, j)"
  by (auto simp: select_step_def dest: fetchone_SomeD)

lemma select_action_SomeD: "select_action i j s = Some a \<Longrightarrow> a \<in> set (db_external_actions s) \<and> action_key a = (i, j)"
  by (auto simp: select_action_def dest: fetchone_SomeD)

lemma execution_mem: "select_execution i s \<noteq> None \<longleftrightarrow> i \<in> x_run_id ` set (db_executions s)"
  by (auto simp: select_execution_def fetchone_None_iff)

lemma wf_frames [simp]:
  "select_execution i (s\<lparr>db_workflow_events := e, db_next_workflow_event_id := n\<rparr>) = select_execution i s"
  "select_step i j (s\<lparr>db_workflow_events := e, db_next_workflow_event_id := n\<rparr>) = select_step i j s"
  "select_action i j (s\<lparr>db_workflow_events := e, db_next_workflow_event_id := n\<rparr>) = select_action i j s"
  "select_execution i (s\<lparr>db_tool_calls := k\<rparr>) = select_execution i s"
  "select_execution i (s\<lparr>db_external_actions := a\<rparr>) = select_execution i s"
  "select_step i j (s\<lparr>db_executions := x\<rparr>) = select_step i j s"
  "select_step i j (s\<lparr>db_external_actions := a\<rparr>) = select_step i j s"
  "select_action i j (s\<lparr>db_executions := x\<rparr>) = select_action i j s"
  "select_action i j (s\<lparr>db_tool_calls := k\<rparr>) = select_action i j s"
  by (simp_all add: select_execution_def select_step_def select_action_def)

lemma step_unique: "wf_inv s \<Longrightarrow> k \<in> set (db_tool_calls s) \<Longrightarrow> k' \<in> set (db_tool_calls s) \<Longrightarrow> step_key k = step_key k' \<Longrightarrow> k = k'"
  by (rule key_unique [of step_key]) (auto simp: wf_inv_def)

lemma select_step_mem: "wf_inv s \<Longrightarrow> k \<in> set (db_tool_calls s) \<Longrightarrow> step_key k = (i, j) \<Longrightarrow> select_step i j s = Some k"
  using fetchone_key [of step_key "db_tool_calls s" k] by (simp add: wf_inv_def select_step_def)

lemma action_unique: "wf_inv s \<Longrightarrow> a \<in> set (db_external_actions s) \<Longrightarrow> a' \<in> set (db_external_actions s) \<Longrightarrow>
   action_key a = action_key a' \<Longrightarrow> a = a'"
  by (rule key_unique [of action_key]) (auto simp: wf_inv_def)

lemma select_action_mem: "wf_inv s \<Longrightarrow> a \<in> set (db_external_actions s) \<Longrightarrow> action_key a = (i, j) \<Longrightarrow> select_action i j s = Some a"
  using fetchone_key [of action_key "db_external_actions s" a] by (simp add: wf_inv_def select_action_def)

lemma wf_invD:
  assumes "wf_inv s"
  shows "x \<in> set (db_executions s) \<Longrightarrow> execution_ok x" "k \<in> set (db_tool_calls s) \<Longrightarrow> step_ok k"
    "a \<in> set (db_external_actions s) \<Longrightarrow> action_ok a" "a \<in> set (db_external_actions s) \<Longrightarrow> coherent (db_tool_calls s) a"
  using assms by (simp_all add: wf_inv_def)

section \<open>The primitive writes\<close>

lemma append_wf_event_eq:
  "append_workflow_event_with_connection run_id event_type payload created_at s = Inr (e, t) \<Longrightarrow>
     select_execution run_id s \<noteq> None \<and> e_event_id e = db_next_workflow_event_id s \<and> e_run_id e = run_id \<and>
     e_sequence e = next_sequence run_id (db_workflow_events s) \<and> e_event_type e = event_type \<and>
     e_payload_json e = Encoded (JObj payload) \<and>
     t = s\<lparr>db_workflow_events := db_workflow_events s @ [e], db_next_workflow_event_id := db_next_workflow_event_id s + 1\<rparr>"
  by (auto simp: append_workflow_event_with_connection_def Let_def split: if_splits)

lemma append_wf_event_ok:
  assumes "wf_step_ok s0 s"
  shows "yields (\<lambda>_ t. wf_step_ok s0 t) (append_workflow_event_with_connection run_id event_type payload created_at s)"
proof (cases "append_workflow_event_with_connection run_id event_type payload created_at s")
  case (Inr et)
  obtain e t where et: "et = (e, t)" by force
  from assms have inv: "wf_inv s" by (rule wf_step_ok_inv)
  note e = append_wf_event_eq [OF Inr [unfolded et]]
  then have "run_id \<in> x_run_id ` set (db_executions s)" using execution_mem by blast
  with inv e have "wf_inv t"
    using next_sequence_ok [of "db_workflow_events s"] events_ok_append [of "db_workflow_events s" _ e]
    by (auto simp: wf_inv_def)
  moreover have "wf_evolves s t" "runs_same s t"
    using e by (auto simp: wf_evolves_def runs_same_def)
  ultimately have "wf_step_ok s t" by (simp add: wf_step_ok_def)
  with assms Inr et show ?thesis by (auto intro: wf_step_ok_trans)
qed simp

lemma insert_execution_ok:
  assumes "wf_step_ok s0 s" and "execution_ok row" and "select_execution (x_run_id row) s = None"
  shows "wf_step_ok s0 (s\<lparr>db_executions := db_executions s @ [row]\<rparr>)"
proof -
  let ?t = "s\<lparr>db_executions := db_executions s @ [row]\<rparr>"
  from assms(1) have inv: "wf_inv s" by (rule wf_step_ok_inv)
  from assms(3) have "x_run_id row \<notin> x_run_id ` set (db_executions s)" using execution_mem by blast
  with inv assms(2) have "wf_inv ?t" by (auto simp: wf_inv_def)
  moreover have "wf_evolves s ?t" "runs_same s ?t"
    by (auto simp: wf_evolves_def runs_same_def select_execution_def fetchone_append)
  ultimately show ?thesis using assms(1) by (auto simp: wf_step_ok_def intro: wf_evolves_trans runs_same_trans)
qed

lemma coherent_mono: "coherent steps a \<Longrightarrow> set steps \<subseteq> set steps' \<Longrightarrow> coherent steps' a"
  unfolding coherent_def by blast

lemma insert_step_ok:
  assumes "wf_step_ok s0 s" and "step_ok row"
  shows "yields (\<lambda>_ t. wf_step_ok s0 t \<and> t = s\<lparr>db_tool_calls := db_tool_calls s @ [row]\<rparr>) (insert_step row s)"
proof (cases "insert_step row s")
  case (Inr ut)
  let ?t = "s\<lparr>db_tool_calls := db_tool_calls s @ [row]\<rparr>"
  from assms(1) have inv: "wf_inv s" by (rule wf_step_ok_inv)
  from Inr have t: "ut = ((), ?t)" and ex: "select_execution (k_run_id row) s \<noteq> None"
    and fresh: "k_call_id row \<notin> k_call_id ` set (db_tool_calls s)" "step_key row \<notin> step_key ` set (db_tool_calls s)"
    by (auto simp: insert_step_def split: if_splits)
  have coh: "coherent (db_tool_calls ?t) a" if "a \<in> set (db_external_actions s)" for a
    using wf_invD(4) [OF inv that] by (rule coherent_mono) auto
  with inv assms(2) fresh ex have "wf_inv ?t" unfolding execution_mem by (auto simp: wf_inv_def)
  moreover have "wf_evolves s ?t" "runs_same s ?t"
    by (auto simp: wf_evolves_def runs_same_def select_step_def fetchone_append)
  ultimately show ?thesis
    using assms(1) Inr t by (auto simp: wf_step_ok_def intro: wf_evolves_trans runs_same_trans)
qed simp

lemma insert_action_ok:
  assumes "wf_step_ok s0 s" and "action_ok row" and "coherent (db_tool_calls s) row"
  shows "yields (\<lambda>_ t. wf_step_ok s0 t) (insert_action row s)"
proof (cases "insert_action row s")
  case (Inr ut)
  let ?t = "s\<lparr>db_external_actions := db_external_actions s @ [row]\<rparr>"
  from assms(1) have inv: "wf_inv s" by (rule wf_step_ok_inv)
  from Inr have t: "ut = ((), ?t)"
    and fresh: "x_action_id row \<notin> x_action_id ` set (db_external_actions s)" "action_key row \<notin> action_key ` set (db_external_actions s)"
      "xa_idempotency_key row \<notin> xa_idempotency_key ` set (db_external_actions s)"
    by (auto simp: insert_action_def split: if_splits)
  from inv assms(2,3) fresh have "wf_inv ?t" by (auto simp: wf_inv_def)
  moreover have "wf_evolves s ?t" "runs_same s ?t"
    by (auto simp: wf_evolves_def runs_same_def select_action_def fetchone_append)
  ultimately show ?thesis
    using assms(1) Inr t by (auto simp: wf_step_ok_def intro: wf_evolves_trans runs_same_trans)
qed simp

lemma select_execution_update:
  "select_execution i (s\<lparr>db_executions := sql_update p f (db_executions s)\<rparr>) =
     map_option (\<lambda>x. if p x then f x else x) (select_execution i s)" if "\<And>x. p x \<Longrightarrow> x_run_id (f x) = x_run_id x" for p f
proof -
  have "fetchone (\<lambda>x. x_run_id x = i) (sql_update p f rows) = map_option (\<lambda>x. if p x then f x else x) (fetchone (\<lambda>x. x_run_id x = i) rows)" for rows
    using that by (induction rows) auto
  then show ?thesis by (simp add: select_execution_def)
qed

lemma select_step_update:
  assumes "\<And>k. p k \<Longrightarrow> step_key (f k) = step_key k"
  shows "select_step i j (s\<lparr>db_tool_calls := sql_update p f (db_tool_calls s)\<rparr>) =
     map_option (\<lambda>k. if p k then f k else k) (select_step i j s)"
proof -
  have "fetchone (\<lambda>k. step_key k = (i, j)) (sql_update p f rows) =
      map_option (\<lambda>k. if p k then f k else k) (fetchone (\<lambda>k. step_key k = (i, j)) rows)" for rows
    using assms by (induction rows) auto
  then show ?thesis by (simp add: select_step_def)
qed

lemma select_action_update:
  assumes "\<And>a. p a \<Longrightarrow> action_key (f a) = action_key a"
  shows "select_action i j (s\<lparr>db_external_actions := sql_update p f (db_external_actions s)\<rparr>) =
     map_option (\<lambda>a. if p a then f a else a) (select_action i j s)"
proof -
  have "fetchone (\<lambda>a. action_key a = (i, j)) (sql_update p f rows) =
      map_option (\<lambda>a. if p a then f a else a) (fetchone (\<lambda>a. action_key a = (i, j)) rows)" for rows
    using assms by (induction rows) auto
  then show ?thesis by (simp add: select_action_def)
qed

lemma update_executions_ok:
  assumes "wf_step_ok s0 s"
    and "\<And>x. execution_ok x \<Longrightarrow> p x \<Longrightarrow> execution_ok (f x) \<and> execution_evolves x (f x)"
    and "\<And>x. x_run_id (f x) = x_run_id x"
  shows "wf_step_ok s0 (snd (update_executions p f s))"
proof -
  let ?t = "s\<lparr>db_executions := sql_update p f (db_executions s)\<rparr>"
  from assms(1) have inv: "wf_inv s" by (rule wf_step_ok_inv)
  have ids: "map x_run_id (sql_update p f (db_executions s)) = map x_run_id (db_executions s)"
    using assms(3) by (intro map_key_sql_update) simp
  then have ids': "x_run_id ` set (sql_update p f (db_executions s)) = x_run_id ` set (db_executions s)"
    by (metis set_map)
  have "execution_ok x" if "x \<in> set (sql_update p f (db_executions s))" for x
    using that inv assms(2) by (auto simp: set_sql_update wf_inv_def)
  with inv have "wf_inv ?t" unfolding wf_inv_def by (simp add: ids ids')
  moreover have "wf_evolves s ?t"
    using inv assms(2,3) by (auto simp: wf_evolves_def select_execution_update wf_inv_def dest: select_execution_SomeD)
  moreover have "runs_same s ?t" by (simp add: runs_same_def)
  ultimately show ?thesis
    using assms(1) by (auto simp: wf_step_ok_def update_executions_def intro: wf_evolves_trans runs_same_trans)
qed

text \<open>
  One transaction may update steps and actions together: a finalized action and its tool
  call become terminal at once, and in between the ledger is not coherent.
\<close>

definition step_write :: "tool_row \<Rightarrow> tool_row \<Rightarrow> bool" where
  "step_write k k' \<longleftrightarrow> step_ok k' \<and> step_evolves k k'"

definition action_write :: "action_row \<Rightarrow> action_row \<Rightarrow> bool" where
  "action_write a a' \<longleftrightarrow> action_ok a' \<and> action_evolves a a'"

lemma map_key_sql_update_mem:
  "(\<And>r. r \<in> set rows \<Longrightarrow> p r \<Longrightarrow> c (f r) = c r) \<Longrightarrow> map c (sql_update p f rows) = map c rows"
  by (induction rows) auto

lemma fetchone_update_mem:
  "(\<And>r. p r \<Longrightarrow> c (f r) = c r) \<Longrightarrow> fetchone (\<lambda>r. c r = i) (sql_update p f rows) =
     map_option (\<lambda>r. if p r then f r else r) (fetchone (\<lambda>r. c r = i) rows)"
  by (induction rows) auto

lemma coherent_update:
  assumes inv: "wf_inv s" and a: "a \<in> set (db_external_actions s)"
    and st: "\<And>k. k \<in> set (db_tool_calls s) \<Longrightarrow> p k \<Longrightarrow> step_evolves k (f k)"
    and ac: "q a \<Longrightarrow> action_evolves a (g a)"
    and both: "\<And>k. q a \<Longrightarrow> k \<in> set (db_tool_calls s) \<Longrightarrow> step_key k = action_key a \<Longrightarrow>
      xa_status (g a) = action_value SUCCEEDED \<Longrightarrow> p k \<and> completed_step (f k) \<and> k_result_json (f k) = xa_result_json (g a)"
  shows "coherent (sql_update p f (db_tool_calls s)) (if q a then g a else a)"
proof -
  let ?a = "if q a then g a else a"
  from wf_invD(4) [OF inv a] obtain k where k: "k \<in> set (db_tool_calls s)" "step_key k = action_key a"
    "k_tool_name k = xa_tool_name a" "k_input_hash k = xa_input_hash a"
    "xa_status a = action_value SUCCEEDED \<Longrightarrow> completed_step k \<and> k_result_json k = xa_result_json a"
    unfolding coherent_def by blast
  let ?k = "if p k then f k else k"
  have "?k \<in> set (sql_update p f (db_tool_calls s))" using k(1) by (simp add: set_sql_update)
  moreover have "step_key ?k = action_key ?a" "k_tool_name ?k = xa_tool_name ?a" "k_input_hash ?k = xa_input_hash ?a"
    using st [OF k(1)] ac k(2-4) by (auto simp: step_evolves_def action_evolves_def same_identity_def)
  moreover have "completed_step ?k \<and> k_result_json ?k = xa_result_json ?a" if "xa_status ?a = action_value SUCCEEDED"
  proof (cases "q a")
    case True
    with both [OF True k(1,2)] that show ?thesis by simp
  next
    case False
    with that k(5) have "completed_step k \<and> k_result_json k = xa_result_json a" by simp
    with st [OF k(1)] False show ?thesis by (auto simp: step_evolves_def)
  qed
  ultimately show ?thesis unfolding coherent_def by blast
qed

lemma update_both_ok:
  assumes s0: "wf_step_ok s0 s"
    and st: "\<And>k. k \<in> set (db_tool_calls s) \<Longrightarrow> step_ok k \<Longrightarrow> p k \<Longrightarrow> step_write k (f k)"
    and ac: "\<And>a. a \<in> set (db_external_actions s) \<Longrightarrow> action_ok a \<Longrightarrow> q a \<Longrightarrow> action_write a (g a)"
    and keys: "\<And>k. p k \<Longrightarrow> step_key (f k) = step_key k" "\<And>a. q a \<Longrightarrow> action_key (g a) = action_key a"
    and both: "\<And>a k. a \<in> set (db_external_actions s) \<Longrightarrow> q a \<Longrightarrow> k \<in> set (db_tool_calls s) \<Longrightarrow> step_key k = action_key a \<Longrightarrow>
      xa_status (g a) = action_value SUCCEEDED \<Longrightarrow> p k \<and> completed_step (f k) \<and> k_result_json (f k) = xa_result_json (g a)"
  defines "t \<equiv> s\<lparr>db_tool_calls := sql_update p f (db_tool_calls s), db_external_actions := sql_update q g (db_external_actions s)\<rparr>"
  shows "wf_step_ok s0 t"
proof -
  from s0 have inv: "wf_inv s" by (rule wf_step_ok_inv)
  have sw: "step_write k (f k)" if "k \<in> set (db_tool_calls s)" "p k" for k
    using st that wf_invD(2) [OF inv] by blast
  have aw: "action_write a (g a)" if "a \<in> set (db_external_actions s)" "q a" for a
    using ac that wf_invD(3) [OF inv] by blast
  have sk: "map k_call_id (sql_update p f (db_tool_calls s)) = map k_call_id (db_tool_calls s)"
    "map step_key (sql_update p f (db_tool_calls s)) = map step_key (db_tool_calls s)"
    using sw by (auto intro!: map_key_sql_update_mem simp: step_write_def step_evolves_def)
  have ak: "map x_action_id (sql_update q g (db_external_actions s)) = map x_action_id (db_external_actions s)"
    "map action_key (sql_update q g (db_external_actions s)) = map action_key (db_external_actions s)"
    "map xa_idempotency_key (sql_update q g (db_external_actions s)) = map xa_idempotency_key (db_external_actions s)"
    using aw by (auto intro!: map_key_sql_update_mem simp: action_write_def action_evolves_def same_identity_def)
  have dist: "distinct (map k_call_id (db_tool_calls t))" "distinct (map step_key (db_tool_calls t))"
    "distinct (map x_action_id (db_external_actions t))" "distinct (map action_key (db_external_actions t))"
    "distinct (map xa_idempotency_key (db_external_actions t))"
    using inv by (simp_all add: t_def wf_inv_def sk ak)
  have steps: "step_ok k \<and> k_run_id k \<in> x_run_id ` set (db_executions s)" if "k \<in> set (db_tool_calls t)" for k
    using that inv sw by (auto simp: t_def set_sql_update wf_inv_def step_write_def step_evolves_def step_key_def split: if_splits)
  have acts: "action_ok a \<and> coherent (db_tool_calls t) a" if "a \<in> set (db_external_actions t)" for a
  proof -
    from that obtain b where b: "b \<in> set (db_external_actions s)" "a = (if q b then g b else b)"
      by (auto simp: t_def set_sql_update)
    have "coherent (sql_update p f (db_tool_calls s)) (if q b then g b else b)"
      using sw aw b(1) both by (intro coherent_update [OF inv]) (auto simp: step_write_def action_write_def)
    with b aw wf_invD(3) [OF inv b(1)] show ?thesis by (auto simp: t_def action_write_def)
  qed
  from inv dist steps acts have "wf_inv t"
    unfolding wf_inv_def by (auto simp: t_def)
  moreover have "wf_evolves s t"
    unfolding wf_evolves_def t_def using sw aw keys
    by (auto simp: select_step_def select_action_def fetchone_update_mem step_write_def action_write_def
        select_execution_def dest!: fetchone_SomeD)
  moreover have "runs_same s t" by (simp add: runs_same_def t_def)
  ultimately show ?thesis
    using s0 unfolding wf_step_ok_def by (meson wf_evolves_trans runs_same_trans)
qed

end
