(* ===== verification/Workflow_Safety.thy ===== *)
theory Workflow_Safety
  imports Workflow_Invariant
begin

text \<open>
  Every operation of the workflow ledger keeps its invariant, evolves its tables only in the
  allowed way and leaves the run store's tables alone.
\<close>

section \<open>Updates of steps and of actions\<close>

lemma sql_update_False [simp]: "sql_update (\<lambda>_. False) f rows = rows"
  by (simp add: sql_update_def)

lemma update_steps_ok:
  assumes "wf_step_ok s0 s"
    and "\<And>k. k \<in> set (db_tool_calls s) \<Longrightarrow> step_ok k \<Longrightarrow> p k \<Longrightarrow> step_write k (f k)"
    and "\<And>k. p k \<Longrightarrow> step_key (f k) = step_key k"
  shows "wf_step_ok s0 (snd (update_steps p f s))"
  using update_both_ok [OF assms(1,2), where q = "\<lambda>_. False"] assms(3) by (simp add: update_steps_def)

lemma update_actions_ok:
  assumes "wf_step_ok s0 s"
    and "\<And>a. a \<in> set (db_external_actions s) \<Longrightarrow> action_ok a \<Longrightarrow> q a \<Longrightarrow> action_write a (g a)"
    and "\<And>a. q a \<Longrightarrow> action_key (g a) = action_key a"
    and "\<And>a. q a \<Longrightarrow> xa_status (g a) \<noteq> action_value SUCCEEDED"
  shows "wf_step_ok s0 (snd (update_actions q g s))"
  using update_both_ok [OF assms(1) _ assms(2), where p = "\<lambda>_. False" and q = q] assms(3,4) by (simp add: update_actions_def)

lemma yields_pair:
  assumes "wf_step_ok s0 (snd x)" and "\<And>n t. x = (n, t) \<Longrightarrow> wf_step_ok s0 t \<Longrightarrow> yields P (g n t)"
  shows "yields P (case x of (n, t) \<Rightarrow> g n t)"
  using assms by (cases x) auto

lemma yields_fenced: "yields P b \<Longrightarrow> yields P (fenced_body run_id lease_token now_ms s b)"
  by (simp add: fenced_body_def split: option.splits)

lemma snd_after_commit [simp]: "snd (after_commit f res) = snd res"
  by (auto simp: after_commit_def split: prod.splits sum.splits)

lemma wf_transaction: "yields (\<lambda>_ t. wf_step_ok s0 t) b \<Longrightarrow> wf_step_ok s0 s \<Longrightarrow> wf_step_ok s0 (snd (transaction s b))"
  by (rule snd_transaction)

lemmas wf_intros = wf_transaction append_wf_event_ok yields_fenced yields_bind yields_pure yields_if yields_option
  yields_Inl yields_Inr

lemmas step_simps = step_write_def step_ok_def step_evolves_def step_key_def completed_step_def
lemmas action_simps = action_write_def action_ok_def action_evolves_def same_identity_def action_key_def terminal_action_status_def

section \<open>Executions\<close>

lemma workflow_value_inj [simp]: "workflow_value a = workflow_value b \<longleftrightarrow> a = b"
  by (cases a; cases b) auto

lemma create_or_get_execution_ok:
  assumes inv: "wf_inv s"
  shows "wf_step_ok s (snd (create_or_get_execution clk run_id ty h tok now_ms s))"
proof -
  have ok: "execution_ok \<lparr>x_run_id = run_id, x_workflow_type = ty, x_input_hash = h, x_status = workflow_value WF_PENDING,
      x_result_json = None, x_error_code = None, x_created_at = c, x_updated_at = u, x_completed_at = None\<rparr>" for c u
    unfolding execution_ok_def by (rule exI [of _ WF_PENDING]) simp
  show ?thesis
    unfolding create_or_get_execution_def Let_def
    by (assumption | rule wf_step_ok_refl [OF inv] wf_intros insert_execution_ok ok | (simp; fail))+
qed

lemma transition_execution_ok:
  assumes inv: "wf_inv s"
    and f: "\<And>x. execution_ok x \<Longrightarrow> x_status x = workflow_value old \<Longrightarrow> execution_ok (f x) \<and> execution_evolves x (f x)"
    and id: "\<And>x. x_run_id (f x) = x_run_id x"
  shows "wf_step_ok s (snd (transition_execution clk run_id old f ty payload tok now_ms s))"
proof -
  have up: "wf_step_ok s (snd (update_executions (\<lambda>x. x_run_id x = run_id \<and> x_status x = workflow_value old) f s))"
    using f id by (intro update_executions_ok wf_step_ok_refl inv) auto
  show ?thesis
    unfolding transition_execution_def snd_after_commit
    by (assumption | rule wf_step_ok_refl [OF inv] yields_pair [OF up] wf_intros)+
qed

lemma mark_running_ok:
  assumes "wf_inv s" shows "wf_step_ok s (snd (mark_running clk run_id tok now_ms s))"
proof -
  have "execution_ok (x\<lparr>x_status := workflow_value WF_RUNNING, x_updated_at := u\<rparr>) \<and>
      execution_evolves x (x\<lparr>x_status := workflow_value WF_RUNNING, x_updated_at := u\<rparr>)"
    if "execution_ok x" "x_status x = workflow_value WF_PENDING" for x u
    using that by (auto simp: execution_ok_def execution_evolves_def intro!: exI [of _ WF_RUNNING])
  then show ?thesis unfolding mark_running_def by (intro transition_execution_ok assms) auto
qed

lemma finalize_execution_ok:
  assumes "wf_inv s" and "workflow_terminal st"
  shows "wf_step_ok s (snd (finalize_execution clk run_id st result err ty tok now_ms s))"
proof -
  have "execution_ok (x\<lparr>x_status := workflow_value st, x_result_json := r, x_error_code := e, x_updated_at := u, x_completed_at := Some u\<rparr>) \<and>
      execution_evolves x (x\<lparr>x_status := workflow_value st, x_result_json := r, x_error_code := e, x_updated_at := u, x_completed_at := Some u\<rparr>)"
    if "execution_ok x" "x_status x = workflow_value WF_RUNNING" for x r e u
    using that assms(2) by (auto simp: execution_ok_def execution_evolves_def intro!: exI [of _ st])
  then show ?thesis unfolding finalize_execution_def by (intro transition_execution_ok assms(1)) auto
qed

section \<open>Steps\<close>

lemma copy_completed_step_ok:
  assumes s: "wf_step_ok s0 s"
  shows "yields (\<lambda>_ t. wf_step_ok s0 t) (copy_completed_step clk call_id src tgt step tool h s)"
proof -
  have ok: "step_ok \<lparr>k_call_id = call_id, k_run_id = tgt, k_step_id = step, k_tool_name = tool, k_input_hash = h,
      k_status = tool_call_value TC_COMPLETED, k_attempt_count = 0, k_attempt_token = None,
      k_result_json = k_result_json src_step, k_error_code = None, k_created_at = c, k_updated_at = u\<rparr>"
    if "step_reusable tool h src_step" for src_step c u
    using that by (auto simp: step_reusable_def step_simps)
  have ins: "yields (\<lambda>_ t. wf_step_ok s0 t) (insert_step row s)" if "step_ok row" for row
    by (rule yields_mono [OF insert_step_ok [OF s that]]) simp
  show ?thesis
    unfolding copy_completed_step_def Let_def
    by (assumption | rule s ins ok wf_intros | (simp; fail))+
qed


lemma reuse_completed_step_ok:
  assumes inv: "wf_inv s"
  shows "wf_step_ok s (snd (reuse_completed_step clk call_id src tgt step tool h tok now_ms s))"
proof (cases "src = tgt")
  case False
  have split2: "yields P (case (a, b) of (None, _) \<Rightarrow> x | (Some _, None) \<Rightarrow> y | (Some c, Some d) \<Rightarrow> z c d)"
    if "yields P x" "yields P y" "\<And>c d. yields P (z c d)" for P a b x y z
    using that by (auto split: option.splits)
  have split3: "yields P (case (a, b) of (Inl e, _) \<Rightarrow> Inl e | (Inr _, Inl e) \<Rightarrow> Inl e | (Inr c, Inr d) \<Rightarrow> z c d)"
    if "\<And>c d. yields P (z c d)" for P a b z
    using that by (auto split: sum.splits)
  show ?thesis
    using False unfolding reuse_completed_step_def
    by simp (assumption | rule wf_step_ok_refl [OF inv] split2 split3 copy_completed_step_ok wf_intros)+
qed (simp add: reuse_completed_step_def wf_step_ok_refl inv)

lemma claimed_event_ok:
  assumes "wf_step_ok s0 s"
  shows "yields (\<lambda>_ t. wf_step_ok s0 t) (claimed_event clk run_id step_id tool n tok s)"
  unfolding claimed_event_def by (assumption | rule assms wf_intros)+

lemma claim_fresh_ok:
  assumes s: "wf_step_ok s0 s"
  shows "yields (\<lambda>_ t. wf_step_ok s0 t) (claim_fresh clk call_id tok run_id step_id tool h s)"
proof -
  have ins: "yields (\<lambda>_ t. wf_step_ok s0 t) (insert_step \<lparr>k_call_id = call_id, k_run_id = run_id, k_step_id = step_id,
      k_tool_name = tool, k_input_hash = h, k_status = tool_call_value TC_RUNNING, k_attempt_count = 1,
      k_attempt_token = Some tok, k_result_json = None, k_error_code = None, k_created_at = c, k_updated_at = c\<rparr> s)" for c
    by (rule yields_mono [OF insert_step_ok [OF s]]) (auto simp: step_simps)
  have catch: "yields P (case b of Inl _ \<Rightarrow> x | Inr (_, t) \<Rightarrow> g t)"
    if "yields (\<lambda>_ t. wf_step_ok s0 t) b" "yields P x" "\<And>t. wf_step_ok s0 t \<Longrightarrow> yields P (g t)" for P b x g
    using that(1,2) by (cases b) (auto intro: that(3))
  show ?thesis
    unfolding claim_fresh_def
    by (rule catch [OF ins]) (assumption | rule s claimed_event_ok wf_intros)+
qed

lemma claim_retry_ok:
  assumes s: "wf_step_ok s0 s" and tool: "\<And>k. k \<in> set (db_tool_calls s) \<Longrightarrow> step_key k = (run_id, step_id) \<Longrightarrow> k_tool_name k = tool"
  shows "yields (\<lambda>_ t. wf_step_ok s0 t) (claim_retry clk tok run_id step_id tool prev s)"
proof -
  have up: "wf_step_ok s0 (snd (update_steps (\<lambda>k. step_key k = (run_id, step_id) \<and> k_status k = tool_call_value TC_FAILED)
      (\<lambda>k. k\<lparr>k_status := tool_call_value TC_RUNNING, k_attempt_count := k_attempt_count k + 1, k_attempt_token := Some tok,
        k_tool_name := tool, k_error_code := None, k_updated_at := u\<rparr>) s))" for u
    using tool by (intro update_steps_ok s) (auto simp: step_simps)
  show ?thesis
    unfolding claim_retry_def
    by (rule yields_pair [OF up]) (assumption | rule claimed_event_ok wf_intros)+
qed

lemma claim_step_ok:
  assumes inv: "wf_inv s"
  shows "wf_step_ok s (snd (claim_step clk call_id tok run_id step_id tool h mx lease now_ms s))"
proof (cases "mx < 1")
  case False
  have retry: "yields (\<lambda>_ t. wf_step_ok s t) (claim_retry clk tok run_id step_id tool rec s)"
    if "select_step run_id step_id s = Some row" "row_to_step row = Inr rec" "mismatch_outcome tool h rec = None" for row rec
  proof (rule claim_retry_ok [OF wf_step_ok_refl [OF inv]])
    fix k assume "k \<in> set (db_tool_calls s)" "step_key k = (run_id, step_id)"
    with select_step_mem [OF inv this] that show "k_tool_name k = tool"
      by (auto simp: row_to_step_def mismatch_outcome_def split: if_splits)
  qed
  show ?thesis
    unfolding claim_step_def Let_def if_not_P [OF False]
    by (assumption | rule wf_step_ok_refl [OF inv] claim_fresh_ok retry wf_intros)+
qed (simp add: claim_step_def wf_step_ok_refl inv)

lemma finalize_step_ok:
  assumes inv: "wf_inv s" and st: "status = TC_COMPLETED \<and> result \<noteq> None \<and> err = None \<or> status = TC_FAILED \<and> result = None \<and> err \<noteq> None"
  shows "wf_step_ok s (snd (finalize_step clk run_id step_id tok status result err ty oc lease now_ms s))"
proof -
  have up: "wf_step_ok s (snd (update_steps (\<lambda>k. step_key k = (run_id, step_id) \<and> k_status k = tool_call_value TC_RUNNING
       \<and> sql_eq (k_attempt_token k) (Some tok))
      (\<lambda>k. k\<lparr>k_status := tool_call_value status, k_result_json := result, k_error_code := err, k_updated_at := u\<rparr>) s))" for u
    using st by (intro update_steps_ok wf_step_ok_refl inv) (auto simp: step_simps)
  show ?thesis
    unfolding finalize_step_def
    by (assumption | rule wf_step_ok_refl [OF inv] yields_pair [OF up] wf_intros)+
qed

lemma recover_interrupted_step_ok:
  assumes inv: "wf_inv s"
  shows "wf_step_ok s (snd (recover_interrupted_step clk run_id step_id lease now_ms s))"
proof -
  have up: "wf_step_ok s (snd (update_steps (\<lambda>k. step_key k = (run_id, step_id) \<and> k_status k = tool_call_value TC_RUNNING)
      (\<lambda>k. k\<lparr>k_status := tool_call_value TC_FAILED, k_error_code := Some ''interrupted'', k_updated_at := u\<rparr>) s))" for u
    by (intro update_steps_ok wf_step_ok_refl inv) (auto simp: step_simps)
  show ?thesis
    unfolding recover_interrupted_step_def snd_after_commit
    by (assumption | rule wf_step_ok_refl [OF inv] yields_pair [OF up] wf_intros)+
qed

section \<open>External actions\<close>

lemma create_action_ok:
  assumes s: "wf_step_ok s0 s" and retry: "ai_retry_mode i \<in> retry_value ` {SAFE, PROVIDER_IDEMPOTENT, UNSAFE}"
    and step: "select_step (ai_run_id i) (ai_step_id i) s = Some k" "k_tool_name k = ai_tool_name i" "k_input_hash k = ai_input_hash i"
  shows "yields (\<lambda>_ t. wf_step_ok s0 t) (create_action clk action_id i args s)"
proof -
  have ok: "action_ok (new_action clk action_id i args)"
    using retry by (auto simp: new_action_def action_simps)
  have coh: "coherent (db_tool_calls s) (new_action clk action_id i args)"
    using select_step_SomeD [OF step(1)] step(2,3) unfolding coherent_def
    by (intro bexI [of _ k]) (auto simp: new_action_def action_key_def)
  show ?thesis
    unfolding create_action_def Let_def
    by (rule yields_bind [OF insert_action_ok [OF s ok coh]]) (assumption | rule wf_intros)+
qed

lemma prepare_checked_ok:
  assumes inv: "wf_inv s" and retry: "ai_retry_mode i \<in> retry_value ` {SAFE, PROVIDER_IDEMPOTENT, UNSAFE}"
  shows "yields (\<lambda>_ t. wf_step_ok s t) (prepare_checked clk action_id i args s)"
proof -
  have create: "yields (\<lambda>_ t. wf_step_ok s t) (create_action clk action_id i args s)"
    if "select_step (ai_run_id i) (ai_step_id i) s = Some row" "row_to_step row = Inr k"
      "\<not> (ty \<noteq> ty' \<or> k_tool_name k \<noteq> ai_tool_name i \<or> k_input_hash k \<noteq> ai_input_hash i)" for row k ty ty' :: "_"
    using that by (intro create_action_ok [OF wf_step_ok_refl [OF inv] retry]) (auto simp: row_to_step_def split: if_splits)
  show ?thesis
    unfolding prepare_checked_def Let_def
    by (assumption | rule wf_step_ok_refl [OF inv] create wf_intros)+
qed

lemma prepare_external_action_ok:
  assumes inv: "wf_inv s"
  shows "wf_step_ok s (snd (prepare_external_action clk action_id i lease now_ms s))"
proof -
  note refl = wf_step_ok_refl [OF inv]
  have "wf_step_ok s (snd (transaction s (fenced_body (ai_run_id i) lease now_ms s (prepare_checked clk action_id i args s))))"
    if "ai_retry_mode i \<in> retry_value ` {SAFE, PROVIDER_IDEMPOTENT, UNSAFE}" for args
    by (assumption | rule that inv wf_transaction yields_fenced prepare_checked_ok refl)+
  with refl show ?thesis
    by (simp add: prepare_external_action_def split: sum.splits)
qed

lemma claim_dispatch_ok:
  assumes s: "wf_step_ok s0 s"
    and guard: "\<And>a. a \<in> set (db_external_actions s) \<Longrightarrow> action_key a = (run_id, step_id) \<Longrightarrow> guard a \<Longrightarrow>
      xa_status a = action_value PREPARED \<or> xa_status a = action_value DISPATCHING \<and> xa_retry_mode a \<noteq> retry_value UNSAFE"
  shows "yields (\<lambda>_ t. wf_step_ok s0 t) (claim_dispatch clk tok run_id step_id guard retry oc lost s)"
proof -
  have wr: "action_write a (a\<lparr>xa_status := action_value DISPATCHING, xa_dispatch_count := xa_dispatch_count a + 1,
      xa_dispatch_token := Some tok, xa_updated_at := u, xa_dispatched_at := Some u\<rparr>)"
    if "a \<in> set (db_external_actions s)" "action_ok a" "action_key a = (run_id, step_id) \<and> guard a" for a u
  proof -
    from that guard [OF that(1)] consider "xa_status a = action_value PREPARED"
      | "xa_status a = action_value DISPATCHING" "xa_retry_mode a \<noteq> retry_value UNSAFE" by blast
    then show ?thesis using that(2) by cases (simp_all add: action_simps)
  qed
  have up: "wf_step_ok s0 (snd (update_actions (\<lambda>a. action_key a = (run_id, step_id) \<and> guard a)
      (\<lambda>a. a\<lparr>xa_status := action_value DISPATCHING, xa_dispatch_count := xa_dispatch_count a + 1,
              xa_dispatch_token := Some tok, xa_updated_at := u, xa_dispatched_at := Some u\<rparr>) s))" for u
    using wr by (intro update_actions_ok s) (auto simp: action_key_def)
  show ?thesis
    unfolding claim_dispatch_def
    by (rule yields_pair [OF up]) (assumption | rule wf_intros)+
qed

lemma begin_dispatch_ok:
  assumes inv: "wf_inv s"
  shows "wf_step_ok s (snd (begin_external_action_dispatch clk tok run_id step_id att lease now_ms s))"
proof -
  have first: "yields (\<lambda>_ t. wf_step_ok s t) (claim_dispatch clk tok run_id step_id
      (\<lambda>a. xa_status a = action_value PREPARED) False DISPATCH_CLAIMED lost s)" for lost
    by (intro claim_dispatch_ok wf_step_ok_refl inv) simp
  show ?thesis
    unfolding begin_external_action_dispatch_def
    by (assumption | rule wf_step_ok_refl [OF inv] first wf_intros)+
qed

lemma require_action_SomeD:
  "require_external_action run_id step_id s = Inr a \<Longrightarrow> select_action run_id step_id s = Some a"
  by (auto simp: require_external_action_def row_to_external_action_def split: option.splits if_splits)

lemma retry_dispatch_ok:
  assumes inv: "wf_inv s"
  shows "wf_step_ok s (snd (retry_external_action_dispatch clk tok run_id step_id prev att lease now_ms s))"
proof -
  have safe: "yields (\<lambda>_ t. wf_step_ok s t) (claim_dispatch clk tok run_id step_id
      (\<lambda>a. xa_status a = action_value DISPATCHING \<and> sql_eq (xa_dispatch_token a) (Some prev)) True RETRY_CLAIMED lost s)"
    if "require_external_action run_id step_id s = Inr a" "xa_retry_mode a \<noteq> retry_value UNSAFE" for a lost
    using that select_action_mem [OF inv]
    by (intro claim_dispatch_ok wf_step_ok_refl inv) (auto dest!: require_action_SomeD)
  show ?thesis
    unfolding retry_external_action_dispatch_def
    by (assumption | rule wf_step_ok_refl [OF inv] safe wf_intros)+
qed

text \<open>Both halves of a finalization, as one update of the ledger.\<close>

lemma final_updates_ok:
  assumes inv: "wf_inv s" and chk: "check_final_outcome fo = Inr result"
    and one: "rowcount (\<lambda>k. step_key k = (run_id, step_id) \<and> k_status k = tool_call_value TC_RUNNING
        \<and> sql_eq (k_attempt_token k) (Some att)) (db_tool_calls s) = 1"
  shows "wf_step_ok s (s\<lparr>
      db_tool_calls := sql_update (\<lambda>k. step_key k = (run_id, step_id) \<and> k_status k = tool_call_value TC_RUNNING
          \<and> sql_eq (k_attempt_token k) (Some att))
        (\<lambda>k. k\<lparr>k_status := tool_call_value (fo_tool_status fo), k_result_json := result, k_error_code := fo_error_code fo,
            k_updated_at := u\<rparr>) (db_tool_calls s),
      db_external_actions := sql_update (\<lambda>a. action_key a = (run_id, step_id) \<and> xa_status a = action_value DISPATCHING
            \<and> sql_eq (xa_dispatch_token a) (Some disp))
         (\<lambda>a. a\<lparr>xa_status := action_value (fo_action_status fo), xa_provider_reference := fo_provider_reference fo,
                 xa_result_json := result, xa_error_code := fo_error_code fo, xa_updated_at := u,
                 xa_finalized_at := Some u\<rparr>) (db_external_actions s)\<rparr>)"
proof -
  from chk have fo: "fo_action_status fo = SUCCEEDED \<and> fo_tool_status fo = TC_COMPLETED \<and> result \<noteq> None \<and> fo_error_code fo = None \<or>
      fo_action_status fo \<in> {ACTION_FAILED, OUTCOME_UNKNOWN} \<and> fo_tool_status fo = TC_FAILED \<and> result = None \<and> fo_error_code fo \<noteq> None"
    by (auto simp: check_final_outcome_def split: if_splits sum.splits)
  from one obtain k0 where k0: "k0 \<in> set (db_tool_calls s)" "step_key k0 = (run_id, step_id)"
      "k_status k0 = tool_call_value TC_RUNNING" "sql_eq (k_attempt_token k0) (Some att)"
    by (auto dest!: rowcount_witness)
  have uniq: "k = k0" if "k \<in> set (db_tool_calls s)" "step_key k = (run_id, step_id)" for k
    using step_unique [OF inv that(1) k0(1)] that(2) k0(2) by simp
  show ?thesis
  proof (rule update_both_ok [OF wf_step_ok_refl [OF inv]])
    fix k assume "step_ok k" "step_key k = (run_id, step_id) \<and> k_status k = tool_call_value TC_RUNNING \<and> sql_eq (k_attempt_token k) (Some att)"
    with fo show "step_write k (k\<lparr>k_status := tool_call_value (fo_tool_status fo), k_result_json := result,
        k_error_code := fo_error_code fo, k_updated_at := u\<rparr>)"
      by (auto simp: step_simps)
  next
    fix a assume "action_ok a" "action_key a = (run_id, step_id) \<and> xa_status a = action_value DISPATCHING \<and> sql_eq (xa_dispatch_token a) (Some disp)"
    with fo show "action_write a (a\<lparr>xa_status := action_value (fo_action_status fo), xa_provider_reference := fo_provider_reference fo,
        xa_result_json := result, xa_error_code := fo_error_code fo, xa_updated_at := u, xa_finalized_at := Some u\<rparr>)"
      by (auto simp: action_simps)
  next
    fix a k assume "action_key a = (run_id, step_id) \<and> xa_status a = action_value DISPATCHING \<and> sql_eq (xa_dispatch_token a) (Some disp)"
      and "k \<in> set (db_tool_calls s)" "step_key k = action_key a"
      and "xa_status (a\<lparr>xa_status := action_value (fo_action_status fo), xa_provider_reference := fo_provider_reference fo,
        xa_result_json := result, xa_error_code := fo_error_code fo, xa_updated_at := u, xa_finalized_at := Some u\<rparr>) = action_value SUCCEEDED"
    with uniq k0 fo show "(step_key k = (run_id, step_id) \<and> k_status k = tool_call_value TC_RUNNING \<and> sql_eq (k_attempt_token k) (Some att)) \<and>
      completed_step (k\<lparr>k_status := tool_call_value (fo_tool_status fo), k_result_json := result, k_error_code := fo_error_code fo, k_updated_at := u\<rparr>) \<and>
      k_result_json (k\<lparr>k_status := tool_call_value (fo_tool_status fo), k_result_json := result, k_error_code := fo_error_code fo, k_updated_at := u\<rparr>) =
        xa_result_json (a\<lparr>xa_status := action_value (fo_action_status fo), xa_provider_reference := fo_provider_reference fo,
        xa_result_json := result, xa_error_code := fo_error_code fo, xa_updated_at := u, xa_finalized_at := Some u\<rparr>)"
      by (auto simp: completed_step_def)
  qed (simp_all add: step_key_def action_key_def)
qed

lemma write_final_outcome_ok:
  assumes inv: "wf_inv s" and chk: "check_final_outcome fo = Inr result"
  shows "yields (\<lambda>_ t. wf_step_ok s t) (write_final_outcome clk run_id step_id disp att fo result action s)"
proof -
  let ?q = "\<lambda>a. action_key a = (run_id, step_id) \<and> xa_status a = action_value DISPATCHING \<and> sql_eq (xa_dispatch_token a) (Some disp)"
  let ?g = "\<lambda>a. a\<lparr>xa_status := action_value (fo_action_status fo), xa_provider_reference := fo_provider_reference fo,
                 xa_result_json := result, xa_error_code := fo_error_code fo, xa_updated_at := clk 0, xa_finalized_at := Some (clk 0)\<rparr>"
  let ?p = "\<lambda>k. step_key k = (run_id, step_id) \<and> k_status k = tool_call_value TC_RUNNING \<and> sql_eq (k_attempt_token k) (Some att)"
  let ?f = "\<lambda>k. k\<lparr>k_status := tool_call_value (fo_tool_status fo), k_result_json := result, k_error_code := fo_error_code fo, k_updated_at := clk 0\<rparr>"
  have two: "wf_step_ok s s2" if "update_actions ?q ?g s = (n, s1)" "update_steps ?p ?f s1 = (m, s2)" "\<not> m \<noteq> 1" for n s1 m s2
  proof -
    from that have "s2 = s\<lparr>db_tool_calls := sql_update ?p ?f (db_tool_calls s), db_external_actions := sql_update ?q ?g (db_external_actions s)\<rparr>"
      and "rowcount ?p (db_tool_calls s) = 1" by (auto simp: update_actions_def update_steps_def)
    with final_updates_ok [OF inv chk, where run_id = run_id and step_id = step_id and att = att and u = "clk 0" and disp = disp] show ?thesis by simp
  qed
  have pair: "yields P (case x of (n, t) \<Rightarrow> g n t)" if "\<And>n t. x = (n, t) \<Longrightarrow> yields P (g n t)" for P g and x :: "nat \<times> db"
    using that by (cases x) auto
  show ?thesis
    unfolding write_final_outcome_def
    by (rule pair, rule yields_if, rule yields_Inl, rule pair, rule yields_if, rule yields_Inl)
      (assumption | rule two wf_intros)+
qed

lemma finalize_checked_ok:
  assumes inv: "wf_inv s" and chk: "check_final_outcome fo = Inr result"
  shows "yields (\<lambda>_ t. wf_step_ok s t) (finalize_checked clk run_id step_id disp att fo result required s)"
  unfolding finalize_checked_def
  by (assumption | rule wf_step_ok_refl [OF inv] write_final_outcome_ok [OF inv chk] wf_intros)+

lemma finalize_external_action_ok:
  assumes inv: "wf_inv s"
  shows "wf_step_ok s (snd (finalize_external_action clk run_id step_id disp att fo required lease need now_ms s))"
proof (cases "check_final_outcome fo")
  case (Inl e)
  then show ?thesis by (simp add: finalize_external_action_def wf_step_ok_refl inv)
next
  case (Inr result)
  then show ?thesis
    unfolding finalize_external_action_def Let_def
    by simp (intro conjI impI, (assumption | rule wf_step_ok_refl [OF inv] finalize_checked_ok [OF inv] wf_transaction yields_fenced)+)
qed

lemma append_workflow_event_ok:
  assumes inv: "wf_inv s"
  shows "wf_step_ok s (snd (append_workflow_event clk run_id ty payload lease now_ms s))"
  unfolding append_workflow_event_def
  by (assumption | rule wf_step_ok_refl [OF inv] wf_intros)+

section \<open>Transactions of the ledger\<close>

inductive workflow_step :: "db \<Rightarrow> db \<Rightarrow> bool" where
  wf_create: "workflow_step s (snd (create_or_get_execution clk run_id ty h lease now_ms s))"
| wf_running: "workflow_step s (snd (mark_running clk run_id lease now_ms s))"
| wf_ready: "workflow_step s (snd (finalize_ready clk run_id result lease now_ms s))"
| wf_blocked: "workflow_step s (snd (finalize_blocked clk run_id result err lease now_ms s))"
| wf_failed: "workflow_step s (snd (finalize_failed clk run_id err lease now_ms s))"
| wf_reuse: "workflow_step s (snd (reuse_completed_step clk call_id src tgt step_id tool h lease now_ms s))"
| wf_claim: "workflow_step s (snd (claim_step clk call_id tok run_id step_id tool h max_attempts lease now_ms s))"
| wf_complete: "workflow_step s (snd (complete_step clk run_id step_id tok json lease now_ms s))"
| wf_fail: "workflow_step s (snd (fail_step clk run_id step_id tok err lease now_ms s))"
| wf_recover: "workflow_step s (snd (recover_interrupted_step clk run_id step_id lease now_ms s))"
| wf_prepare: "workflow_step s (snd (prepare_external_action clk action_id intent lease now_ms s))"
| wf_begin: "workflow_step s (snd (begin_external_action_dispatch clk tok run_id step_id att lease now_ms s))"
| wf_retry: "workflow_step s (snd (retry_external_action_dispatch clk tok run_id step_id prev att lease now_ms s))"
| wf_outcome: "workflow_step s (snd (finalize_external_action clk run_id step_id disp att fo required lease need now_ms s))"
| wf_event: "workflow_step s (snd (append_workflow_event clk run_id ty payload lease now_ms s))"

text \<open>The five public finalizations are instances of the last but one rule.\<close>

lemma public_finalizations:
  "workflow_step s (snd (finalize_external_action_succeeded clk run_id step_id disp att json reff err_opt now_ms s))"
  "workflow_step s (snd (finalize_external_action_failed clk run_id step_id disp att err ref_opt now_ms s))"
  "workflow_step s (snd (finalize_external_action_outcome_unknown clk run_id step_id disp att err ref_opt now_ms s))"
  "workflow_step s (snd (finalize_external_action_reconciliation_unknown clk run_id step_id disp att err ref_opt lease now_ms s))"
  "workflow_step s (snd (finalize_unsafe_interrupted_action clk run_id step_id disp att err lease now_ms s))"
  unfolding finalize_external_action_succeeded_def finalize_external_action_failed_def
    finalize_external_action_outcome_unknown_def finalize_external_action_reconciliation_unknown_def
    finalize_unsafe_interrupted_action_def
  by (rule workflow_step.wf_outcome)+

lemma workflow_step_ok: "workflow_step s t \<Longrightarrow> wf_inv s \<Longrightarrow> wf_step_ok s t"
  by (erule workflow_step.cases)
    (simp_all add: create_or_get_execution_ok mark_running_ok finalize_ready_def finalize_blocked_def finalize_failed_def
      finalize_execution_ok reuse_completed_step_ok claim_step_ok complete_step_def fail_step_def finalize_step_ok
      recover_interrupted_step_ok prepare_external_action_ok begin_dispatch_ok retry_dispatch_ok
      finalize_external_action_ok append_workflow_event_ok)

end
