(* ===== verification/Memory_Store.thy ===== *)
theory Memory_Store
  imports External_Action_Store
begin

text \<open>
  The memory store, \<^verbatim>\<open>runtime_service/memory.py\<close>: versioned records per tenant, subject and
  domain, their audit events, and the sealed snapshot each run retrieves. One definition per
  operation, in the order of the class; an operation is one transaction on the database the
  stores share, \<open>clk\<close> its successive readings of \<^verbatim>\<open>utc_now\<close>, \<open>now_ms\<close> its reading of the
  lease clock and \<open>fresh\<close> the random part of a new identifier.
\<close>

section \<open>Validation\<close>

definition identity_text :: "string \<Rightarrow> bool" where
  "identity_text v \<longleftrightarrow> v \<noteq> [] \<and> length v \<le> 200"

definition validate_identity :: "string list \<Rightarrow> store_error option" where
  "validate_identity values = (if \<exists>v\<in>set values. \<not> identity_text v
     then Some (ValueError ''Memory identity fields must contain 1 to 200 characters'') else None)"

definition key_head :: "char \<Rightarrow> bool" where
  "key_head c = (let n = of_char c :: nat in 97 \<le> n \<and> n \<le> 122)"

definition key_tail :: "char \<Rightarrow> bool" where
  "key_tail c \<longleftrightarrow> key_head c \<or> (let n = of_char c :: nat in 48 \<le> n \<and> n \<le> 57) \<or> c \<in> {CHR ''_'', CHR ''.'', CHR ''-''}"

definition memory_key_valid :: "string \<Rightarrow> bool" where
  "memory_key_valid k \<longleftrightarrow> identity_text k \<and> key_head (hd k) \<and> list_all key_tail (tl k)"

fun unit_interval :: "py_float \<Rightarrow> bool" where
  "unit_interval (Binary m e) \<longleftrightarrow> 0 \<le> m \<and> (if 0 \<le> e then m * 2 ^ nat e \<le> 1 else m \<le> 2 ^ nat (- e))"
| "unit_interval NotFinite = False"

text \<open>What constructing a \<^verbatim>\<open>MemoryRecord\<close>, a \<^verbatim>\<open>RetrievedMemory\<close>, a \<^verbatim>\<open>MemorySnapshot\<close> or a \<^verbatim>\<open>MemoryEvent\<close> checks.\<close>

definition memory_record_valid :: "memory_row \<Rightarrow> bool" where
  "memory_record_valid r \<longleftrightarrow> identity_text (mm_memory_id r) \<and> identity_text (mm_tenant_id r) \<and> identity_text (mm_subject_id r)
     \<and> identity_text (mm_domain_id r) \<and> memory_key_valid (mm_key r) \<and> unit_interval (mm_confidence r) \<and> 1 \<le> mm_version r"

definition retrieved_valid :: "retrieved_memory \<Rightarrow> bool" where
  "retrieved_valid m \<longleftrightarrow> identity_text (rm_memory_id m) \<and> memory_key_valid (rm_key m) \<and> unit_interval (rm_confidence m) \<and> 1 \<le> rm_version m"

definition snapshot_valid :: "memory_snapshot \<Rightarrow> bool" where
  "snapshot_valid sn \<longleftrightarrow> identity_text (ms_run_id sn) \<and> identity_text (ms_tenant_id sn) \<and> identity_text (ms_subject_id sn)
     \<and> identity_text (ms_domain_id sn) \<and> list_all retrieved_valid (ms_memories sn)"

definition memory_event_valid :: "memory_event \<Rightarrow> bool" where
  "memory_event_valid e \<longleftrightarrow> identity_text (me_tenant_id e) \<and> identity_text (me_subject_id e) \<and> identity_text (me_actor_subject_id e)"

definition validated_rows :: "('r \<Rightarrow> bool) \<Rightarrow> 'r list \<Rightarrow> store_error + 'r list" where
  "validated_rows valid rows = (if list_all valid rows then Inr rows else Inl ValidationError)"

definition row_to_record :: "memory_row \<Rightarrow> store_error + memory_row" where
  "row_to_record row = (if memory_record_valid row then Inr row else Inl ValidationError)"

section \<open>Writes, mutations and the audit log\<close>

text \<open>A value is whatever the domain passes; \<open>Opaque\<close> is one that \<^verbatim>\<open>json.dumps\<close> refuses.\<close>

datatype memory_value = Jsonable json | Opaque

record memory_write =
  mw_kind :: memory_kind
  mw_key :: string
  mw_value :: memory_value
  mw_confidence :: py_float
  mw_expires_at :: "string option"

datatype mutation_action = MUT_CREATED | MUT_SUPERSEDED | MUT_UNCHANGED

record memory_mutation =
  mu_action :: mutation_action
  mu_record :: memory_row
  mu_superseded_record :: "memory_row option"

definition encode_json :: "memory_value \<Rightarrow> store_error + json" where
  "encode_json value = (case value of Jsonable j \<Rightarrow> Inr (canonical_json j)
     | Opaque \<Rightarrow> Inl (ValueError ''Memory value must be JSON serializable''))"

fun plain_value :: "memory_value \<Rightarrow> json" where
  "plain_value (Jsonable j) = j"
| "plain_value Opaque = JNull"

definition append_memory_event :: "memory_event \<Rightarrow> memory_tables \<Rightarrow> store_error + memory_tables" where
  "append_memory_event event m = (if \<not> memory_event_valid event then Inl ValidationError
     else Inr (m\<lparr>mt_events := mt_events m @ [event\<lparr>me_event_id := mt_next_event_id m, me_payload := sort_key fst (me_payload event)\<rparr>],
                 mt_next_event_id := mt_next_event_id m + 1\<rparr>))"

section \<open>Authority of a run\<close>

definition assert_run_identity :: "string \<Rightarrow> string \<Rightarrow> string \<Rightarrow> string \<Rightarrow> db \<Rightarrow> store_error option" where
  "assert_run_identity run_id tenant_id subject_id domain_id s = (case select_run run_id s of
      None \<Rightarrow> Some (ValueError ''Run identity does not match memory snapshot authority'')
    | Some row \<Rightarrow>
        if r_tenant_id row \<noteq> tenant_id \<or> r_domain_id row \<noteq> domain_id
        then Some (ValueError ''Run identity does not match memory snapshot authority'')
        else (case r_execution_authority row of
            None \<Rightarrow> Some (ValueError ''Run has no trusted authority for a memory snapshot'')
          | Some auth \<Rightarrow> if a_subject_id auth \<noteq> subject_id
              then Some (ValueError ''Run identity does not match memory snapshot authority'') else None))"

definition assert_memory_lease :: "string \<Rightarrow> string \<Rightarrow> int \<Rightarrow> db \<Rightarrow> store_error option" where
  "assert_memory_lease run_id lease_token now_ms s =
     (if fetchone (\<lambda>r. r_run_id r = run_id \<and> r_status r = RUNNING \<and> current_lease lease_token now_ms r) (db_runs s) = None
      then Some (RunLeaseLostError (''Run lease is no longer current: '' @ run_id)) else None)"

section \<open>Upsert\<close>

definition logical_key :: "memory_row \<Rightarrow> string \<times> string \<times> string \<times> memory_kind \<times> string" where
  "logical_key r = (mm_tenant_id r, mm_subject_id r, mm_domain_id r, mm_kind r, mm_key r)"

text \<open>The primary key and the unique index on active keys.\<close>

definition memory_constraints :: "memory_row table \<Rightarrow> bool" where
  "memory_constraints rows \<longleftrightarrow> distinct (map mm_memory_id rows) \<and>
     distinct (map logical_key (filter (\<lambda>r. mm_status r = MEM_ACTIVE) rows))"

definition next_version :: "string \<times> string \<times> string \<times> memory_kind \<times> string \<Rightarrow> memory_row table \<Rightarrow> int" where
  "next_version k rows = foldr max (map mm_version (filter (\<lambda>r. logical_key r = k) rows)) 0 + 1"

definition superseded_events :: "string \<Rightarrow> string \<Rightarrow> string \<Rightarrow> string \<Rightarrow> memory_row option \<Rightarrow> memory_row \<Rightarrow> memory_tables
    \<Rightarrow> store_error + memory_tables" where
  "superseded_events created_at tenant_id subject_id actor old record m = (case old of
      None \<Rightarrow> Inr m
    | Some superseded \<Rightarrow> append_memory_event \<lparr>me_event_id = 0, me_tenant_id = tenant_id, me_subject_id = subject_id,
        me_event_type = ''memory.superseded'', me_memory_id = Some (mm_memory_id superseded), me_actor_subject_id = actor,
        me_source_run_id = mm_source_run_id record,
        me_payload = [(''domain_id'', JStr (mm_domain_id record)), (''kind'', JStr (kind_value (mm_kind record))), (''key'', JStr (mm_key record)),
          (''version'', JInt (mm_version superseded)), (''replacement_memory_id'', JStr (mm_memory_id record)),
          (''replacement_version'', JInt (mm_version record))], me_created_at = created_at\<rparr> m)"

definition created_event :: "string \<Rightarrow> string \<Rightarrow> memory_row \<Rightarrow> memory_event" where
  "created_event created_at actor record = \<lparr>me_event_id = 0, me_tenant_id = mm_tenant_id record, me_subject_id = mm_subject_id record,
     me_event_type = ''memory.created'', me_memory_id = Some (mm_memory_id record), me_actor_subject_id = actor,
     me_source_run_id = mm_source_run_id record,
     me_payload = [(''domain_id'', JStr (mm_domain_id record)), (''kind'', JStr (kind_value (mm_kind record))),
       (''key'', JStr (mm_key record)), (''version'', JInt (mm_version record))], me_created_at = created_at\<rparr>"

text \<open>The new active version, after the old one was superseded in place.\<close>

definition insert_version :: "(nat \<Rightarrow> string) \<Rightarrow> string \<Rightarrow> memory_row option \<Rightarrow> memory_row \<Rightarrow> json \<Rightarrow> memory_tables
    \<Rightarrow> store_error + memory_mutation \<times> memory_tables" where
  "insert_version clk actor old record encoded m =
     (let rows = (case old of None \<Rightarrow> mt_records m
        | Some a \<Rightarrow> sql_update (\<lambda>r. mm_memory_id r = mm_memory_id a) (\<lambda>r. r\<lparr>mm_status := MEM_SUPERSEDED, mm_updated_at := clk 0\<rparr>) (mt_records m));
        new = record\<lparr>mm_version := next_version (logical_key record) rows\<rparr> in
      if \<not> memory_record_valid new then Inl ValidationError
      else if \<not> memory_constraints (rows @ [new\<lparr>mm_value := encoded\<rparr>]) then Inl IntegrityError
      else case superseded_events (clk 1) (mm_tenant_id new) (mm_subject_id new) actor old new (m\<lparr>mt_records := rows @ [new\<lparr>mm_value := encoded\<rparr>]\<rparr>) of
          Inl e \<Rightarrow> Inl e
        | Inr m1 \<Rightarrow> (case append_memory_event (created_event (if old = None then clk 1 else clk 2) actor new) m1 of
            Inl e \<Rightarrow> Inl e
          | Inr m2 \<Rightarrow> Inr (\<lparr>mu_action = (if old = None then MUT_CREATED else MUT_SUPERSEDED), mu_record = new,
              mu_superseded_record = map_option (\<lambda>a. a\<lparr>mm_status := MEM_SUPERSEDED, mm_updated_at := clk 0\<rparr>) old\<rparr>, m2)))"

definition select_active :: "string \<times> string \<times> string \<times> memory_kind \<times> string \<Rightarrow> memory_tables \<Rightarrow> memory_row option" where
  "select_active k m = fetchone (\<lambda>r. logical_key r = k \<and> mm_status r = MEM_ACTIVE) (mt_records m)"

definition draft_record :: "string \<Rightarrow> string \<Rightarrow> string \<Rightarrow> string \<Rightarrow> string \<Rightarrow> memory_write \<Rightarrow> string \<Rightarrow> string \<Rightarrow> memory_row" where
  "draft_record now fresh tenant_id subject_id domain_id write source_run_id source_thread_id =
     \<lparr>mm_memory_id = ''mem_'' @ fresh, mm_tenant_id = tenant_id, mm_subject_id = subject_id, mm_domain_id = domain_id,
      mm_kind = mw_kind write, mm_key = mw_key write, mm_value = plain_value (mw_value write), mm_status = MEM_ACTIVE,
      mm_source_run_id = Some source_run_id, mm_source_thread_id = Some source_thread_id, mm_confidence = mw_confidence write,
      mm_version = 0, mm_created_at = now, mm_updated_at = now, mm_expires_at = mw_expires_at write\<rparr>"

text \<open>The transaction's body; \<open>record\<close> has every column of the new record but its version.\<close>

definition write_version :: "(nat \<Rightarrow> string) \<Rightarrow> string \<Rightarrow> memory_row \<Rightarrow> json \<Rightarrow> memory_tables \<Rightarrow> store_error + memory_mutation \<times> memory_tables" where
  "write_version clk actor record encoded m = (case select_active (logical_key record) m of
      None \<Rightarrow> insert_version clk actor None record encoded m
    | Some active \<Rightarrow> (case row_to_record active of
        Inl e \<Rightarrow> Inl e
      | Inr old \<Rightarrow>
          if mm_value active = encoded \<and> mm_expires_at active = mm_expires_at record
          then Inr (\<lparr>mu_action = MUT_UNCHANGED, mu_record = old, mu_superseded_record = None\<rparr>, m)
          else insert_version clk actor (Some old) record encoded m))"

definition attempt_guard :: "string option \<Rightarrow> string \<Rightarrow> string \<Rightarrow> string \<Rightarrow> string \<Rightarrow> int \<Rightarrow> db \<Rightarrow> store_error option" where
  "attempt_guard lease_token run_id tenant_id subject_id domain_id now_ms s = (case lease_token of None \<Rightarrow> None
     | Some token \<Rightarrow> (case assert_run_identity run_id tenant_id subject_id domain_id s of
         Some e \<Rightarrow> Some e | None \<Rightarrow> assert_memory_lease run_id token now_ms s))"

definition upsert_memory :: "(nat \<Rightarrow> string) \<Rightarrow> string \<Rightarrow> string \<Rightarrow> string \<Rightarrow> string \<Rightarrow> memory_write \<Rightarrow> string \<Rightarrow> string \<Rightarrow> string
    \<Rightarrow> string option \<Rightarrow> int \<Rightarrow> db \<Rightarrow> memory_mutation store_outcome" where
  "upsert_memory clk fresh tenant_id subject_id domain_id write source_run_id source_thread_id actor lease_token now_ms s =
     (case validate_identity [tenant_id, subject_id, domain_id] of Some e \<Rightarrow> (Inl e, s) | None \<Rightarrow>
      (case encode_json (mw_value write) of Inl e \<Rightarrow> (Inl e, s) | Inr encoded \<Rightarrow>
       transaction s
        (case attempt_guard lease_token source_run_id tenant_id subject_id domain_id now_ms s of
          Some e \<Rightarrow> Inl e
        | None \<Rightarrow> (case write_version clk actor (draft_record (clk 0) fresh tenant_id subject_id domain_id write source_run_id source_thread_id)
              encoded (db_memory s) of
            Inl e \<Rightarrow> Inl e | Inr (result, m) \<Rightarrow> Inr (result, s\<lparr>db_memory := m\<rparr>)))))"

definition upsert_from_run :: "(nat \<Rightarrow> string) \<Rightarrow> string \<Rightarrow> string \<Rightarrow> string \<Rightarrow> string \<Rightarrow> memory_write \<Rightarrow> string \<Rightarrow> string \<Rightarrow> string
    \<Rightarrow> string \<Rightarrow> int \<Rightarrow> db \<Rightarrow> memory_mutation store_outcome" where
  "upsert_from_run clk fresh tenant_id subject_id domain_id write source_run_id source_thread_id actor lease_token now_ms s =
     (if lease_token = [] then (Inl (ValueError ''lease_token must not be empty''), s)
      else upsert_memory clk fresh tenant_id subject_id domain_id write source_run_id source_thread_id actor (Some lease_token) now_ms s)"

section \<open>Reading and forgetting\<close>

definition unexpired :: "string \<Rightarrow> memory_row \<Rightarrow> bool" where
  "unexpired now r = (case mm_expires_at r of None \<Rightarrow> True | Some e \<Rightarrow> now < e)"

definition list_memories :: "string \<Rightarrow> string \<Rightarrow> string \<Rightarrow> string option \<Rightarrow> memory_kind option \<Rightarrow> bool \<Rightarrow> db \<Rightarrow> store_error + memory_row list" where
  "list_memories now tenant_id subject_id domain_id kind include_inactive s =
     (case validate_identity [tenant_id, subject_id] of Some e \<Rightarrow> Inl e | None \<Rightarrow>
       validated_rows memory_record_valid
        (sort_key (\<lambda>r. (mm_domain_id r, kind_value (mm_kind r), mm_key r, - mm_version r))
          (filter (\<lambda>r. mm_tenant_id r = tenant_id \<and> mm_subject_id r = subject_id
             \<and> (domain_id = None \<or> domain_id = Some (mm_domain_id r)) \<and> (kind = None \<or> kind = Some (mm_kind r))
             \<and> (include_inactive \<or> mm_status r = MEM_ACTIVE \<and> unexpired now r)) (mt_records (db_memory s)))))"

definition select_memory :: "string \<Rightarrow> string \<Rightarrow> string \<Rightarrow> memory_tables \<Rightarrow> memory_row option" where
  "select_memory memory_id tenant_id subject_id m =
     fetchone (\<lambda>r. mm_memory_id r = memory_id \<and> mm_tenant_id r = tenant_id \<and> mm_subject_id r = subject_id) (mt_records m)"

definition get_memory_for_subject :: "string \<Rightarrow> string \<Rightarrow> string \<Rightarrow> db \<Rightarrow> store_error + memory_row option" where
  "get_memory_for_subject memory_id tenant_id subject_id s = (case select_memory memory_id tenant_id subject_id (db_memory s) of
      None \<Rightarrow> Inr None
    | Some row \<Rightarrow> (case row_to_record row of Inl e \<Rightarrow> Inl e | Inr r \<Rightarrow> Inr (Some r)))"

definition forget_rows :: "string \<Rightarrow> memory_row \<Rightarrow> string \<Rightarrow> string \<Rightarrow> memory_tables \<Rightarrow> store_error + memory_tables" where
  "forget_rows now target created_at actor m =
     (let p = (\<lambda>r. logical_key r = logical_key target \<and> mm_status r \<noteq> MEM_DELETED); n = rowcount p (mt_records m) in
      if n = 0 then Inr m
      else append_memory_event \<lparr>me_event_id = 0, me_tenant_id = mm_tenant_id target, me_subject_id = mm_subject_id target,
          me_event_type = ''memory.deleted'', me_memory_id = Some (mm_memory_id target), me_actor_subject_id = actor, me_source_run_id = None,
          me_payload = [(''domain_id'', JStr (mm_domain_id target)), (''kind'', JStr (kind_value (mm_kind target))),
            (''key'', JStr (mm_key target)), (''deleted_version_count'', JInt (int n))], me_created_at = created_at\<rparr>
        (m\<lparr>mt_records := sql_update p (\<lambda>r. r\<lparr>mm_status := MEM_DELETED, mm_value := JNull, mm_updated_at := now\<rparr>) (mt_records m)\<rparr>))"

text \<open>The returned record is built after the commit.\<close>

definition forget_memory :: "(nat \<Rightarrow> string) \<Rightarrow> string \<Rightarrow> string \<Rightarrow> string \<Rightarrow> string \<Rightarrow> db \<Rightarrow> memory_row store_outcome" where
  "forget_memory clk memory_id tenant_id subject_id actor s = (case select_memory memory_id tenant_id subject_id (db_memory s) of
      None \<Rightarrow> (Inl (KeyError ''Memory not found''), s)
    | Some target \<Rightarrow> (case forget_rows (clk 0) target (clk 1) actor (db_memory s) of
        Inl e \<Rightarrow> (Inl e, s)
      | Inr m \<Rightarrow> ((case fetchone (\<lambda>r. mm_memory_id r = memory_id) (mt_records m) of
            None \<Rightarrow> Inl (RuntimeError ''Deleted memory disappeared'') | Some row \<Rightarrow> row_to_record row), s\<lparr>db_memory := m\<rparr>)))"

section \<open>Sealed snapshots\<close>

definition from_record :: "memory_row \<Rightarrow> retrieved_memory" where
  "from_record r = \<lparr>rm_memory_id = mm_memory_id r, rm_kind = mm_kind r, rm_key = mm_key r, rm_value = mm_value r,
     rm_source_run_id = mm_source_run_id r, rm_source_thread_id = mm_source_thread_id r, rm_confidence = mm_confidence r,
     rm_version = mm_version r, rm_created_at = mm_created_at r, rm_expires_at = mm_expires_at r\<rparr>"

definition row_to_snapshot :: "(string \<times> string \<times> string) option \<Rightarrow> memory_snapshot \<Rightarrow> store_error + memory_snapshot" where
  "row_to_snapshot expected sn =
     (if expected \<noteq> None \<and> expected \<noteq> Some (ms_tenant_id sn, ms_subject_id sn, ms_domain_id sn)
      then Inl (ValueError ''Persisted memory snapshot identity does not match run authority'')
      else if snapshot_valid sn then Inr sn else Inl ValidationError)"

definition select_snapshot :: "string \<Rightarrow> memory_tables \<Rightarrow> memory_snapshot option" where
  "select_snapshot run_id m = fetchone (\<lambda>sn. ms_run_id sn = run_id) (mt_snapshots m)"

definition retrievable :: "string \<Rightarrow> string \<Rightarrow> string \<Rightarrow> string \<Rightarrow> string list option \<Rightarrow> memory_row \<Rightarrow> bool" where
  "retrievable now tenant_id subject_id domain_id allowed_keys r \<longleftrightarrow> mm_tenant_id r = tenant_id \<and> mm_subject_id r = subject_id
     \<and> mm_domain_id r = domain_id \<and> mm_status r = MEM_ACTIVE \<and> unexpired now r
     \<and> (case allowed_keys of None \<Rightarrow> True | Some keys \<Rightarrow> mm_key r \<in> set keys)"

definition seal_snapshot :: "string \<Rightarrow> string \<Rightarrow> string \<Rightarrow> string \<Rightarrow> string \<Rightarrow> string list option \<Rightarrow> memory_tables
    \<Rightarrow> store_error + memory_snapshot \<times> memory_tables" where
  "seal_snapshot now run_id tenant_id subject_id domain_id allowed_keys m =
     (let rows = sort_key (\<lambda>r. (kind_value (mm_kind r), mm_key r, mm_version r))
            (filter (retrievable now tenant_id subject_id domain_id allowed_keys) (mt_records m));
        sn = \<lparr>ms_run_id = run_id, ms_tenant_id = tenant_id, ms_subject_id = subject_id, ms_domain_id = domain_id,
          ms_memories = map from_record rows, ms_created_at = now\<rparr> in
      if \<not> list_all memory_record_valid rows \<or> \<not> snapshot_valid sn then Inl ValidationError
      else Inr (sn, m\<lparr>mt_snapshots := mt_snapshots m @ [sn]\<rparr>))"

definition get_or_create_run_snapshot :: "(nat \<Rightarrow> string) \<Rightarrow> string \<Rightarrow> string \<Rightarrow> string \<Rightarrow> string \<Rightarrow> string list option \<Rightarrow> string option
    \<Rightarrow> int \<Rightarrow> db \<Rightarrow> memory_snapshot store_outcome" where
  "get_or_create_run_snapshot clk run_id tenant_id subject_id domain_id allowed_keys lease_token now_ms s =
     (case validate_identity [tenant_id, subject_id, domain_id] of Some e \<Rightarrow> (Inl e, s) | None \<Rightarrow>
       transaction s
        (case assert_run_identity run_id tenant_id subject_id domain_id s of Some e \<Rightarrow> Inl e | None \<Rightarrow>
        (case (case lease_token of None \<Rightarrow> None | Some token \<Rightarrow> assert_memory_lease run_id token now_ms s) of
          Some e \<Rightarrow> Inl e
        | None \<Rightarrow> (case select_snapshot run_id (db_memory s) of
            Some existing \<Rightarrow> (case row_to_snapshot (Some (tenant_id, subject_id, domain_id)) existing of
              Inl e \<Rightarrow> Inl e | Inr sn \<Rightarrow> Inr (sn, s))
          | None \<Rightarrow> (case seal_snapshot (clk 0) run_id tenant_id subject_id domain_id allowed_keys (db_memory s) of
              Inl e \<Rightarrow> Inl e | Inr (sn, m) \<Rightarrow> Inr (sn, s\<lparr>db_memory := m\<rparr>))))))"

definition get_or_create_run_snapshot_for_run :: "(nat \<Rightarrow> string) \<Rightarrow> string \<Rightarrow> string \<Rightarrow> string \<Rightarrow> string \<Rightarrow> string list option \<Rightarrow> string
    \<Rightarrow> int \<Rightarrow> db \<Rightarrow> memory_snapshot store_outcome" where
  "get_or_create_run_snapshot_for_run clk run_id tenant_id subject_id domain_id allowed_keys lease_token now_ms s =
     (if lease_token = [] then (Inl (ValueError ''lease_token must not be empty''), s)
      else get_or_create_run_snapshot clk run_id tenant_id subject_id domain_id allowed_keys (Some lease_token) now_ms s)"

definition get_run_snapshot :: "string \<Rightarrow> db \<Rightarrow> store_error + memory_snapshot option" where
  "get_run_snapshot run_id s = (case select_snapshot run_id (db_memory s) of None \<Rightarrow> Inr None
     | Some row \<Rightarrow> (case row_to_snapshot None row of Inl e \<Rightarrow> Inl e | Inr sn \<Rightarrow> Inr (Some sn)))"

section \<open>The audit log\<close>

definition list_events_for_subject :: "string \<Rightarrow> string \<Rightarrow> db \<Rightarrow> store_error + memory_event list" where
  "list_events_for_subject tenant_id subject_id s = validated_rows memory_event_valid (sort_key me_event_id
     (filter (\<lambda>e. me_tenant_id e = tenant_id \<and> me_subject_id e = subject_id) (mt_events (db_memory s))))"

definition list_events_for_run :: "string \<Rightarrow> string \<Rightarrow> string \<Rightarrow> db \<Rightarrow> store_error + memory_event list" where
  "list_events_for_run run_id tenant_id subject_id s = validated_rows memory_event_valid (sort_key me_event_id
     (filter (\<lambda>e. me_source_run_id e = Some run_id \<and> me_tenant_id e = tenant_id \<and> me_subject_id e = subject_id)
       (mt_events (db_memory s))))"

section \<open>Transactions\<close>

inductive memory_step :: "db \<Rightarrow> db \<Rightarrow> bool" where
  upsert: "memory_step s (snd (upsert_memory clk fresh tenant_id subject_id domain_id write run_id thread_id actor lease_token now_ms s))"
| forget: "memory_step s (snd (forget_memory clk memory_id tenant_id subject_id actor s))"
| snapshot: "memory_step s (snd (get_or_create_run_snapshot clk run_id tenant_id subject_id domain_id allowed_keys lease_token now_ms s))"

end
