(* ===== verification/Memory_Safety.thy ===== *)
theory Memory_Safety
  imports Memory_Store
begin

text \<open>
  What the memory tables satisfy after any sequence of transactions, and how they may change:
  the versions of a logical key are numbered without gaps, at most the last one is active, a
  deleted record holds no value, the audit log only grows, and a sealed snapshot stays.
\<close>

section \<open>The invariant\<close>

definition versions_of :: "string \<times> string \<times> string \<times> memory_kind \<times> string \<Rightarrow> memory_row table \<Rightarrow> int list" where
  "versions_of k rows = map mm_version (filter (\<lambda>r. logical_key r = k) rows)"

definition numbered :: "int list \<Rightarrow> bool" where
  "numbered vs \<longleftrightarrow> vs = map int [1..<Suc (length vs)]"

definition records_ok :: "memory_row table \<Rightarrow> bool" where
  "records_ok rows \<longleftrightarrow> memory_constraints rows
     \<and> (\<forall>r\<in>set rows. memory_record_valid r \<and> (mm_status r = MEM_DELETED \<longrightarrow> mm_value r = JNull))
     \<and> (\<forall>k. numbered (versions_of k rows))
     \<and> (\<forall>r\<in>set rows. mm_status r = MEM_ACTIVE \<longrightarrow> mm_version r = int (length (versions_of (logical_key r) rows)))"

definition audit_ok :: "memory_tables \<Rightarrow> bool" where
  "audit_ok m \<longleftrightarrow> (\<forall>e\<in>set (mt_events m). memory_event_valid e \<and> me_event_id e < mt_next_event_id m)
     \<and> sorted_wrt (<) (map me_event_id (mt_events m))"

text \<open>A memory of a snapshot is a copy of a record of the same tenant, subject and domain.\<close>

definition copied_from :: "memory_snapshot \<Rightarrow> retrieved_memory \<Rightarrow> memory_row \<Rightarrow> bool" where
  "copied_from sn x r \<longleftrightarrow> mm_tenant_id r = ms_tenant_id sn \<and> mm_subject_id r = ms_subject_id sn \<and> mm_domain_id r = ms_domain_id sn
     \<and> mm_memory_id r = rm_memory_id x \<and> mm_kind r = rm_kind x \<and> mm_key r = rm_key x \<and> mm_version r = rm_version x
     \<and> (mm_value r = rm_value x \<or> mm_status r = MEM_DELETED)"

definition snapshots_ok :: "memory_tables \<Rightarrow> bool" where
  "snapshots_ok m \<longleftrightarrow> distinct (map ms_run_id (mt_snapshots m))
     \<and> (\<forall>sn\<in>set (mt_snapshots m). snapshot_valid sn \<and> (\<forall>x\<in>set (ms_memories sn). \<exists>r\<in>set (mt_records m). copied_from sn x r))"

definition mem_inv :: "memory_tables \<Rightarrow> bool" where
  "mem_inv m \<longleftrightarrow> records_ok (mt_records m) \<and> audit_ok m \<and> snapshots_ok m"

lemma mem_inv_empty: "mem_inv empty_memory"
  by (simp add: mem_inv_def empty_memory_def records_ok_def memory_constraints_def versions_of_def numbered_def audit_ok_def snapshots_ok_def)

section \<open>Change\<close>

fun status_rank :: "memory_status \<Rightarrow> nat" where
  "status_rank MEM_ACTIVE = 0"
| "status_rank MEM_SUPERSEDED = 1"
| "status_rank MEM_DELETED = 2"

text \<open>All of a record but the three columns that change.\<close>

definition fixed_part :: "memory_row \<Rightarrow> memory_row" where
  "fixed_part r = r\<lparr>mm_status := MEM_ACTIVE, mm_value := JNull, mm_updated_at := []\<rparr>"

definition record_evolves :: "memory_row \<Rightarrow> memory_row \<Rightarrow> bool" where
  "record_evolves r r' \<longleftrightarrow> fixed_part r' = fixed_part r \<and> status_rank (mm_status r) \<le> status_rank (mm_status r')
     \<and> (mm_status r = MEM_DELETED \<longrightarrow> r' = r) \<and> (mm_value r' = mm_value r \<or> mm_status r' = MEM_DELETED)"

definition mem_evolves :: "memory_tables \<Rightarrow> memory_tables \<Rightarrow> bool" where
  "mem_evolves m m' \<longleftrightarrow> (\<forall>r\<in>set (mt_records m). \<exists>r'\<in>set (mt_records m'). record_evolves r r')
     \<and> (\<forall>i sn. select_snapshot i m = Some sn \<longrightarrow> select_snapshot i m' = Some sn)
     \<and> (\<exists>es. mt_events m' = mt_events m @ es)"

lemma record_evolves_refl [simp]: "record_evolves r r"
  by (simp add: record_evolves_def)

lemma fixed_part_ids:
  assumes "fixed_part r' = fixed_part r"
  shows "mm_memory_id r' = mm_memory_id r" "logical_key r' = logical_key r" "mm_version r' = mm_version r"
    "mm_tenant_id r' = mm_tenant_id r" "mm_subject_id r' = mm_subject_id r" "mm_domain_id r' = mm_domain_id r"
    "mm_kind r' = mm_kind r" "mm_key r' = mm_key r" "mm_confidence r' = mm_confidence r"
  using arg_cong [OF assms, of mm_memory_id] arg_cong [OF assms, of logical_key] arg_cong [OF assms, of mm_version]
    arg_cong [OF assms, of mm_tenant_id] arg_cong [OF assms, of mm_subject_id] arg_cong [OF assms, of mm_domain_id]
    arg_cong [OF assms, of mm_kind] arg_cong [OF assms, of mm_key] arg_cong [OF assms, of mm_confidence]
  by (simp_all add: fixed_part_def logical_key_def)

lemmas record_evolves_ids = fixed_part_ids [OF conjunct1 [OF record_evolves_def [THEN iffD1]]]

lemma rank_deleted: "status_rank st = 2 \<longleftrightarrow> st = MEM_DELETED" "status_rank st \<le> 2"
  by (cases st; simp)+

lemma record_evolves_trans:
  assumes "record_evolves a b" and "record_evolves b c"
  shows "record_evolves a c"
proof (cases "mm_status b = MEM_DELETED")
  case True
  with assms(2) have "c = b" by (simp add: record_evolves_def)
  with assms(1) show ?thesis by simp
next
  case False
  with assms(1) have "mm_status a \<noteq> MEM_DELETED" by (auto simp: record_evolves_def)
  with False assms show ?thesis by (auto simp: record_evolves_def)
qed

lemma mem_evolves_refl [simp]: "mem_evolves m m"
  using record_evolves_refl by (auto simp: mem_evolves_def simp del: record_evolves_refl)

lemma mem_evolves_trans: "mem_evolves a b \<Longrightarrow> mem_evolves b c \<Longrightarrow> mem_evolves a c"
  unfolding mem_evolves_def using record_evolves_trans by (metis append_assoc)

section \<open>Retiring and adding versions\<close>

lemma fixed_part_update [simp]:
  "fixed_part (r\<lparr>mm_status := st, mm_updated_at := u\<rparr>) = fixed_part r"
  "fixed_part (r\<lparr>mm_status := st, mm_value := v, mm_updated_at := u\<rparr>) = fixed_part r"
  by (simp_all add: fixed_part_def)

lemma versions_of_update:
  assumes "\<And>r. fixed_part (f r) = fixed_part r"
  shows "versions_of k (sql_update p f rows) = versions_of k rows"
  by (induction rows) (auto simp: versions_of_def fixed_part_ids [OF assms])

lemma active_update:
  assumes "\<And>r. mm_status (f r) \<noteq> MEM_ACTIVE"
  shows "filter (\<lambda>r. mm_status r = MEM_ACTIVE) (sql_update p f rows) = filter (\<lambda>r. \<not> p r) (filter (\<lambda>r. mm_status r = MEM_ACTIVE) rows)"
  by (induction rows) (auto simp: assms)

lemma valid_fixed:
  assumes "fixed_part r' = fixed_part r"
  shows "memory_record_valid r' = memory_record_valid r"
  by (simp only: memory_record_valid_def fixed_part_ids [OF assms])

lemma records_okD:
  assumes "records_ok rows"
  shows "numbered (versions_of k rows)" and "distinct (map mm_memory_id rows)"
    and "distinct (map logical_key (filter (\<lambda>r. mm_status r = MEM_ACTIVE) rows))"
  using assms unfolding records_ok_def memory_constraints_def by blast+

lemma records_ok_retire:
  assumes ok: "records_ok rows" and fixed: "\<And>r. fixed_part (f r) = fixed_part r" and "\<And>r. mm_status (f r) \<noteq> MEM_ACTIVE"
    and null: "\<And>r. mm_status (f r) = MEM_DELETED \<Longrightarrow> mm_value (f r) = JNull"
  shows "records_ok (sql_update p f rows)"
proof -
  have "map mm_memory_id (sql_update p f rows) = map mm_memory_id rows"
    by (rule map_key_sql_update) (rule fixed_part_ids [OF fixed])
  then have 1: "memory_constraints (sql_update p f rows)"
    using records_okD(2,3) [OF ok] distinct_map_filter unfolding memory_constraints_def active_update [OF assms(3)] by metis
  from ok have 2: "\<forall>r\<in>set (sql_update p f rows). memory_record_valid r \<and> (mm_status r = MEM_DELETED \<longrightarrow> mm_value r = JNull)"
    by (auto simp: records_ok_def set_sql_update valid_fixed [OF fixed] null)
  from ok have 3: "\<forall>r\<in>set (sql_update p f rows). mm_status r = MEM_ACTIVE \<longrightarrow> mm_version r = int (length (versions_of (logical_key r) rows))"
    using assms(3) by (auto simp: records_ok_def set_sql_update)
  from 1 2 3 records_okD(1) [OF ok] show ?thesis unfolding records_ok_def versions_of_update [OF fixed] by blast
qed

lemma numbered_snoc: "numbered vs \<Longrightarrow> numbered (vs @ [int (length vs) + 1])"
  unfolding numbered_def by (metis (no_types, lifting) One_nat_def append_Nil2 int_Suc length_append_singleton le_add1 list.simps(8) list.simps(9) map_append plus_1_eq_Suc upt_Suc_append)

lemma numbered_max: "numbered vs \<Longrightarrow> foldr max vs 0 = int (length vs)"
proof (rule foldr_max_eq)
  assume n: "numbered vs"
  then have set: "set vs = int ` {1..<Suc (length vs)}" unfolding numbered_def by (metis set_map set_upt)
  then show "int (length vs) \<in> set (0 # vs)" by (cases "length vs = 0") (auto intro!: imageI simp: Suc_le_eq)
  from set show "\<forall>y\<in>set (0 # vs). y \<le> int (length vs)" by auto
qed

lemma next_version_eq: "records_ok rows \<Longrightarrow> next_version k rows = int (length (versions_of k rows)) + 1"
  using numbered_max [OF records_okD(1)] by (simp add: next_version_def versions_of_def)

lemma records_ok_append:
  assumes ok: "records_ok rows" and c: "memory_constraints (rows @ [n])" and valid: "memory_record_valid n"
    and active: "mm_status n = MEM_ACTIVE" and v: "mm_version n = next_version (logical_key n) rows"
  shows "records_ok (rows @ [n])"
proof -
  have "logical_key n \<notin> logical_key ` set (filter (\<lambda>r. mm_status r = MEM_ACTIVE) rows)"
    using c active by (simp add: memory_constraints_def)
  then have other: "logical_key r \<noteq> logical_key n" if "r \<in> set rows" "mm_status r = MEM_ACTIVE" for r
    using that by (simp add: image_iff) metis
  have ap: "versions_of k (rows @ [n]) = versions_of k rows @ (if logical_key n = k then [mm_version n] else [])" for k
    by (simp add: versions_of_def)
  have "numbered (versions_of k (rows @ [n]))" for k
    using numbered_snoc [OF records_okD(1) [OF ok, of k]] records_okD(1) [OF ok, of k] next_version_eq [OF ok, of k] v by (auto simp: ap)
  moreover have "mm_version r = int (length (versions_of (logical_key r) (rows @ [n])))" if "r \<in> set (rows @ [n])" "mm_status r = MEM_ACTIVE" for r
  proof (cases "r = n")
    case True
    with next_version_eq [OF ok] v show ?thesis by (simp add: ap)
  next
    case False
    with that have "r \<in> set rows" by simp
    with other [OF this that(2)] ok that(2) show ?thesis by (simp add: ap records_ok_def)
  qed
  ultimately show ?thesis using ok c valid active unfolding records_ok_def by auto
qed

section \<open>Every operation keeps the invariant\<close>

definition mem_ok :: "memory_tables \<Rightarrow> memory_tables \<Rightarrow> bool" where
  "mem_ok m m' \<longleftrightarrow> mem_inv m' \<and> mem_evolves m m'"

lemma mem_ok_trans: "mem_ok a b \<Longrightarrow> mem_ok b c \<Longrightarrow> mem_ok a c"
  using mem_evolves_trans by (auto simp: mem_ok_def)

lemma append_memory_event_ok:
  assumes "append_memory_event e m = Inr m'" and "mem_inv m"
  shows "mem_ok m m'" and "mt_records m' = mt_records m" and "mt_snapshots m' = mt_snapshots m"
proof -
  from assms(1) have m': "memory_event_valid e" "m' = m\<lparr>mt_events := mt_events m @ [e\<lparr>me_event_id := mt_next_event_id m, me_payload := sort_key fst (me_payload e)\<rparr>],
       mt_next_event_id := mt_next_event_id m + 1\<rparr>"
    by (auto simp: append_memory_event_def split: if_splits)
  with assms(2) have "audit_ok m'" by (auto simp: mem_inv_def audit_ok_def memory_event_valid_def sorted_wrt_append)
  with m'(2) assms(2) show "mem_ok m m'"
    using record_evolves_refl by (auto simp: mem_ok_def mem_inv_def snapshots_ok_def mem_evolves_def select_snapshot_def simp del: record_evolves_refl)
  from m'(2) show "mt_records m' = mt_records m" "mt_snapshots m' = mt_snapshots m" by simp_all
qed

text \<open>A change of the record table that lets every record evolve keeps the rest.\<close>

lemma copied_evolves: "copied_from sn x r \<Longrightarrow> record_evolves r r' \<Longrightarrow> copied_from sn x r'"
  unfolding copied_from_def by (auto simp: record_evolves_def dest: fixed_part_ids)

lemma records_change_ok:
  assumes "mem_inv m" and "records_ok rows" and ev: "\<And>r. r \<in> set (mt_records m) \<Longrightarrow> \<exists>r'\<in>set rows. record_evolves r r'"
  shows "mem_ok m (m\<lparr>mt_records := rows\<rparr>)"
proof -
  have "\<exists>r\<in>set rows. copied_from sn x r" if "sn \<in> set (mt_snapshots m)" "x \<in> set (ms_memories sn)" for sn x
  proof -
    from assms(1) that obtain r where r: "r \<in> set (mt_records m)" "copied_from sn x r" by (auto simp: mem_inv_def snapshots_ok_def)
    with ev obtain r' where "r' \<in> set rows" "record_evolves r r'" by blast
    with copied_evolves [OF r(2)] show ?thesis by blast
  qed
  with assms show ?thesis
    by (simp add: mem_ok_def mem_inv_def snapshots_ok_def audit_ok_def mem_evolves_def select_snapshot_def)
qed

lemma retire_evolves:
  assumes "\<And>r. r \<in> set rows \<Longrightarrow> p r \<Longrightarrow> record_evolves r (f r)" and "r \<in> set rows"
  shows "\<exists>r'\<in>set (sql_update p f rows @ rest). record_evolves r r'"
  using assms by (intro bexI [of _ "if p r then f r else r"]) (auto simp: set_sql_update)

definition superseded_rows :: "string \<Rightarrow> memory_row option \<Rightarrow> memory_row table \<Rightarrow> memory_row table" where
  "superseded_rows now old rows = (case old of None \<Rightarrow> rows
     | Some a \<Rightarrow> sql_update (\<lambda>r. mm_memory_id r = mm_memory_id a) (\<lambda>r. r\<lparr>mm_status := MEM_SUPERSEDED, mm_updated_at := now\<rparr>) rows)"

lemma superseded_rows_ok: "records_ok rows \<Longrightarrow> records_ok (superseded_rows now old rows)"
  by (auto simp: superseded_rows_def split: option.split intro: records_ok_retire)

lemma superseded_rows_evolve:
  assumes "records_ok rows" and "\<And>a. old = Some a \<Longrightarrow> a \<in> set rows \<and> mm_status a = MEM_ACTIVE" and "r \<in> set rows"
  shows "\<exists>r'\<in>set (superseded_rows now old rows @ rest). record_evolves r r'"
proof (cases old)
  case (Some a)
  have "record_evolves x (x\<lparr>mm_status := MEM_SUPERSEDED, mm_updated_at := now\<rparr>)" if "x \<in> set rows" "mm_memory_id x = mm_memory_id a" for x
  proof -
    have "x = a" using key_unique [OF records_okD(2) [OF assms(1)] that(1) _ that(2)] assms(2) [OF Some] by simp
    with assms(2) [OF Some] show ?thesis by (simp add: record_evolves_def)
  qed
  from retire_evolves [OF this assms(3)] show ?thesis unfolding superseded_rows_def Some option.case .
qed (use assms(3) in \<open>auto simp: superseded_rows_def intro: bexI [of _ r]\<close>)

lemma insert_version_ok:
  assumes "insert_version clk actor old record encoded m = Inr (res, m2)" and inv: "mem_inv m" and "mm_status record = MEM_ACTIVE"
    and old: "\<And>a. old = Some a \<Longrightarrow> a \<in> set (mt_records m) \<and> mm_status a = MEM_ACTIVE"
  defines "rows \<equiv> superseded_rows (clk 0) old (mt_records m)"
  defines "new \<equiv> record\<lparr>mm_version := next_version (logical_key record) rows\<rparr>"
  shows "mem_ok m m2" and "mt_records m2 = rows @ [new\<lparr>mm_value := encoded\<rparr>]" and "mu_record res = new"
    and "mu_action res = (if old = None then MUT_CREATED else MUT_SUPERSEDED)" and "mt_snapshots m2 = mt_snapshots m"
proof -
  let ?n = "new\<lparr>mm_value := encoded\<rparr>" and ?m = "m\<lparr>mt_records := rows @ [new\<lparr>mm_value := encoded\<rparr>]\<rparr>"
  from assms(1) obtain m1 where v: "memory_record_valid new" and c: "memory_constraints (rows @ [?n])"
    and m1: "superseded_events (clk 1) (mm_tenant_id new) (mm_subject_id new) actor old new ?m = Inr m1"
    and m2: "append_memory_event (created_event (if old = None then clk 1 else clk 2) actor new) m1 = Inr m2"
    and res: "mu_record res = new" "mu_action res = (if old = None then MUT_CREATED else MUT_SUPERSEDED)"
    unfolding insert_version_def Let_def superseded_rows_def [symmetric] rows_def [symmetric] new_def [symmetric]
    by (auto split: if_splits sum.splits)
  from inv have ok: "records_ok (mt_records m)" by (simp add: mem_inv_def)
  have "records_ok (rows @ [?n])"
  proof (rule records_ok_append [OF _ c])
    show "records_ok rows" unfolding rows_def by (rule superseded_rows_ok [OF ok])
    from v show "memory_record_valid ?n" by (simp add: memory_record_valid_def)
  qed (simp_all add: new_def assms(3) logical_key_def)
  then have 0: "mem_ok m ?m"
    by (rule records_change_ok [OF inv]) (unfold rows_def, rule superseded_rows_evolve [OF ok old])
  then have "mem_ok ?m m1 \<and> mt_records m1 = mt_records ?m \<and> mt_snapshots m1 = mt_snapshots ?m"
    using m1 append_memory_event_ok [of _ ?m m1] by (auto simp: superseded_events_def mem_ok_def split: option.splits)
  moreover from this have "mem_ok m1 m2" "mt_records m2 = mt_records m1" "mt_snapshots m2 = mt_snapshots m1"
    using append_memory_event_ok [OF m2] by (auto simp: mem_ok_def)
  ultimately show "mem_ok m m2" "mt_records m2 = rows @ [?n]" "mt_snapshots m2 = mt_snapshots m" using 0 by (auto intro: mem_ok_trans)
  from res show "mu_record res = new" "mu_action res = (if old = None then MUT_CREATED else MUT_SUPERSEDED)" by simp_all
qed

lemma select_active_SomeD: "select_active k m = Some a \<Longrightarrow> a \<in> set (mt_records m) \<and> logical_key a = k \<and> mm_status a = MEM_ACTIVE"
  by (auto simp: select_active_def dest: fetchone_SomeD)

lemma row_to_record_iff [simp]: "row_to_record row = Inr r \<longleftrightarrow> r = row \<and> memory_record_valid row"
  by (auto simp: row_to_record_def)

lemma write_version_cases:
  assumes "write_version clk actor record encoded m = Inr (res, m')"
  obtains (unchanged) a where "select_active (logical_key record) m = Some a" "mm_value a = encoded" "mm_expires_at a = mm_expires_at record"
      "m' = m" "res = \<lparr>mu_action = MUT_UNCHANGED, mu_record = a, mu_superseded_record = None\<rparr>"
  | (written) "insert_version clk actor (select_active (logical_key record) m) record encoded m = Inr (res, m')"
      "\<And>a. select_active (logical_key record) m = Some a \<Longrightarrow> \<not> (mm_value a = encoded \<and> mm_expires_at a = mm_expires_at record)"
proof (cases "select_active (logical_key record) m")
  case None
  with assms written show ?thesis by (simp add: write_version_def)
next
  case (Some a)
  then show ?thesis using assms unchanged [OF Some] written
    by (cases "mm_value a = encoded \<and> mm_expires_at a = mm_expires_at record") (simp_all add: write_version_def row_to_record_def split: if_splits)
qed

lemma write_version_ok:
  assumes "write_version clk actor record encoded m = Inr (res, m')" and "mem_inv m" and "mm_status record = MEM_ACTIVE"
  shows "mem_ok m m'"
  using assms(1)
proof (cases rule: write_version_cases)
  case written
  from insert_version_ok(1) [OF written(1) assms(2,3)] select_active_SomeD show ?thesis by blast
qed (use assms(2) in \<open>simp add: mem_ok_def\<close>)

lemma draft_active [simp]: "mm_status (draft_record now fresh tenant_id subject_id domain_id write run_id thread_id) = MEM_ACTIVE"
  by (simp add: draft_record_def)

lemma upsert_memory_cases:
  obtains (refused) e where "upsert_memory clk fresh tenant_id subject_id domain_id write run_id thread_id actor lease_token now_ms s = (Inl e, s)"
  | (applied) encoded res m where
      "upsert_memory clk fresh tenant_id subject_id domain_id write run_id thread_id actor lease_token now_ms s = (Inr res, s\<lparr>db_memory := m\<rparr>)"
      "encode_json (mw_value write) = Inr encoded" "attempt_guard lease_token run_id tenant_id subject_id domain_id now_ms s = None"
      "write_version clk actor (draft_record (clk 0) fresh tenant_id subject_id domain_id write run_id thread_id) encoded (db_memory s) = Inr (res, m)"
proof (cases "validate_identity [tenant_id, subject_id, domain_id]")
  case None
  note v = None
  show ?thesis
  proof (cases "encode_json (mw_value write)")
    case (Inr encoded)
    let ?b = "write_version clk actor (draft_record (clk 0) fresh tenant_id subject_id domain_id write run_id thread_id) encoded (db_memory s)"
    show ?thesis
    proof (cases "attempt_guard lease_token run_id tenant_id subject_id domain_id now_ms s")
      case None
      with v Inr show ?thesis by (cases ?b) (auto simp: upsert_memory_def intro: refused applied)
    qed (auto simp: upsert_memory_def v Inr intro: refused)
  qed (auto simp: upsert_memory_def v intro: refused)
qed (auto simp: upsert_memory_def intro: refused)

lemma upsert_memory_form:
  obtains m where "snd (upsert_memory clk fresh tenant_id subject_id domain_id write run_id thread_id actor lease_token now_ms s) = s\<lparr>db_memory := m\<rparr>"
    "mem_inv (db_memory s) \<Longrightarrow> mem_ok (db_memory s) m"
proof (cases rule: upsert_memory_cases
    [of clk fresh tenant_id subject_id domain_id "write" run_id thread_id actor lease_token now_ms s])
  case (refused e)
  then show ?thesis by (intro that [of "db_memory s"]) (simp_all add: mem_ok_def)
next
  case (applied encoded res m)
  then show ?thesis by (intro that [of m]) (simp_all add: write_version_ok [OF applied(4)])
qed

lemma forget_rows_ok:
  assumes "forget_rows now target created actor m = Inr m'" and inv: "mem_inv m"
  shows "mem_ok m m'"
    and "mt_records m' = sql_update (\<lambda>r. logical_key r = logical_key target \<and> mm_status r \<noteq> MEM_DELETED)
       (\<lambda>r. r\<lparr>mm_status := MEM_DELETED, mm_value := JNull, mm_updated_at := now\<rparr>) (mt_records m)"
    and "mt_snapshots m' = mt_snapshots m"
proof -
  let ?p = "\<lambda>r. logical_key r = logical_key target \<and> mm_status r \<noteq> MEM_DELETED"
  let ?f = "\<lambda>r. r\<lparr>mm_status := MEM_DELETED, mm_value := JNull, mm_updated_at := now\<rparr>"
  let ?m = "m\<lparr>mt_records := sql_update ?p ?f (mt_records m)\<rparr>"
  from inv have "records_ok (sql_update ?p ?f (mt_records m))" by (auto simp: mem_inv_def intro: records_ok_retire)
  then have 1: "mem_ok m ?m"
  proof (rule records_change_ok [OF inv])
    fix r assume "r \<in> set (mt_records m)"
    from retire_evolves [OF _ this, of ?p ?f "[]"] show "\<exists>r'\<in>set (sql_update ?p ?f (mt_records m)). record_evolves r r'"
      by (simp add: record_evolves_def rank_deleted)
  qed
  have "mem_ok m m' \<and> mt_records m' = sql_update ?p ?f (mt_records m) \<and> mt_snapshots m' = mt_snapshots m"
  proof (cases "rowcount ?p (mt_records m) = 0")
    case True
    with assms(1) have "m' = m" by (simp add: forget_rows_def Let_def)
    with True inv show ?thesis by (simp add: mem_ok_def sql_update_none)
  next
    case False
    with assms(1) obtain e where "append_memory_event e ?m = Inr m'" by (auto simp: forget_rows_def Let_def)
    with append_memory_event_ok [OF this] 1 show ?thesis by (auto simp: mem_ok_def intro: mem_evolves_trans)
  qed
  then show "mem_ok m m'" "mt_records m' = sql_update ?p ?f (mt_records m)" "mt_snapshots m' = mt_snapshots m" by blast+
qed

lemma forget_memory_form:
  obtains m where "snd (forget_memory clk memory_id tenant_id subject_id actor s) = s\<lparr>db_memory := m\<rparr>"
    "mem_inv (db_memory s) \<Longrightarrow> mem_ok (db_memory s) m"
proof (cases "snd (forget_memory clk memory_id tenant_id subject_id actor s) = s")
  case True
  then show ?thesis by (intro that [of "db_memory s"]) (simp_all add: mem_ok_def)
next
  case False
  then obtain target m where "snd (forget_memory clk memory_id tenant_id subject_id actor s) = s\<lparr>db_memory := m\<rparr>"
    "forget_rows (clk 0) target (clk 1) actor (db_memory s) = Inr m"
    unfolding forget_memory_def by (auto split: option.splits sum.splits)
  with that forget_rows_ok(1) show ?thesis by blast
qed

lemma snapshot_cases:
  obtains (refused) e where "get_or_create_run_snapshot clk run_id tenant_id subject_id domain_id allowed_keys lease_token now_ms s = (Inl e, s)"
  | (reused) sn where "get_or_create_run_snapshot clk run_id tenant_id subject_id domain_id allowed_keys lease_token now_ms s = (Inr sn, s)"
      "assert_run_identity run_id tenant_id subject_id domain_id s = None" "select_snapshot run_id (db_memory s) = Some sn"
      "(ms_tenant_id sn, ms_subject_id sn, ms_domain_id sn) = (tenant_id, subject_id, domain_id)"
  | (sealed) sn m where
      "get_or_create_run_snapshot clk run_id tenant_id subject_id domain_id allowed_keys lease_token now_ms s = (Inr sn, s\<lparr>db_memory := m\<rparr>)"
      "assert_run_identity run_id tenant_id subject_id domain_id s = None" "select_snapshot run_id (db_memory s) = None"
      "seal_snapshot (clk 0) run_id tenant_id subject_id domain_id allowed_keys (db_memory s) = Inr (sn, m)"
proof (cases "validate_identity [tenant_id, subject_id, domain_id]")
  case None
  note v = None
  show ?thesis
  proof (cases "assert_run_identity run_id tenant_id subject_id domain_id s")
    case None
    note i = None
    show ?thesis
    proof (cases "case lease_token of None \<Rightarrow> None | Some token \<Rightarrow> assert_memory_lease run_id token now_ms s")
      case None
      note l = None
      show ?thesis
      proof (cases "select_snapshot run_id (db_memory s)")
        case None
        with v i l show ?thesis
          by (cases "seal_snapshot (clk 0) run_id tenant_id subject_id domain_id allowed_keys (db_memory s)")
            (auto simp: get_or_create_run_snapshot_def intro: refused sealed)
      next
        case (Some sn)
        with v i l show ?thesis
          by (cases "row_to_snapshot (Some (tenant_id, subject_id, domain_id)) sn")
            (auto simp: get_or_create_run_snapshot_def row_to_snapshot_def intro: refused reused split: if_splits)
      qed
    qed (auto simp: get_or_create_run_snapshot_def v i intro: refused)
  qed (auto simp: get_or_create_run_snapshot_def v intro: refused)
qed (auto simp: get_or_create_run_snapshot_def intro: refused)

lemma seal_snapshotD:
  assumes "seal_snapshot now run_id tenant_id subject_id domain_id allowed_keys m = Inr (sn, m')"
  shows "m' = m\<lparr>mt_snapshots := mt_snapshots m @ [sn]\<rparr>" and "snapshot_valid sn" and "ms_run_id sn = run_id"
    and "(ms_tenant_id sn, ms_subject_id sn, ms_domain_id sn) = (tenant_id, subject_id, domain_id)"
    and "set (ms_memories sn) = from_record ` {r \<in> set (mt_records m). retrievable now tenant_id subject_id domain_id allowed_keys r}"
  using assms by (auto simp: seal_snapshot_def Let_def split: if_splits)

lemma seal_snapshot_ok:
  assumes "seal_snapshot now run_id tenant_id subject_id domain_id allowed_keys m = Inr (sn, m')"
    and inv: "mem_inv m" and new: "select_snapshot run_id m = None"
  shows "mem_ok m m'"
proof -
  note sn = seal_snapshotD [OF assms(1)]
  have "\<exists>r\<in>set (mt_records m). copied_from sn x r" if "x \<in> set (ms_memories sn)" for x
    using that sn(4,5) by (auto simp: copied_from_def from_record_def retrievable_def)
  moreover have "ms_run_id sn \<notin> ms_run_id ` set (mt_snapshots m)"
    using new by (auto simp: select_snapshot_def fetchone_None_iff sn(3))
  ultimately have "snapshots_ok m'" using inv sn(2) by (auto simp: mem_inv_def snapshots_ok_def sn(1))
  moreover have "mem_evolves m m'"
    using record_evolves_refl by (auto simp: mem_evolves_def select_snapshot_def fetchone_append sn(1) simp del: record_evolves_refl)
  ultimately show ?thesis using inv by (auto simp: mem_ok_def mem_inv_def audit_ok_def sn(1))
qed

lemma snapshot_form:
  obtains m where "snd (get_or_create_run_snapshot clk run_id tenant_id subject_id domain_id allowed_keys lease_token now_ms s) = s\<lparr>db_memory := m\<rparr>"
    "mem_inv (db_memory s) \<Longrightarrow> mem_ok (db_memory s) m"
proof (cases rule: snapshot_cases [of clk run_id tenant_id subject_id domain_id allowed_keys lease_token now_ms s])
  case (refused e)
  then show ?thesis by (intro that [of "db_memory s"]) (simp_all add: mem_ok_def)
next
  case (reused sn)
  then show ?thesis by (intro that [of "db_memory s"]) (simp_all add: mem_ok_def)
next
  case (sealed sn m)
  then show ?thesis by (intro that [of m]) (simp_all add: seal_snapshot_ok [OF sealed(4) _ sealed(3)])
qed

text \<open>A transaction of the memory store changes the memory tables only.\<close>

lemma memory_step_form:
  assumes "memory_step s t"
  obtains m where "t = s\<lparr>db_memory := m\<rparr>" "mem_inv (db_memory s) \<Longrightarrow> mem_ok (db_memory s) m"
  using assms
proof cases
  case upsert
  then show ?thesis by (metis upsert_memory_form that)
next
  case forget
  then show ?thesis by (metis forget_memory_form that)
next
  case snapshot
  then show ?thesis by (metis snapshot_form that)
qed

end
