(* ===== verification/Run_Lifecycle.thy ===== *)
theory Run_Lifecycle
  imports Quarantine_Safety Workflow_Safety Memory_Safety
begin

text \<open>
  The database as a state machine. A step is one transaction of the run store, of the
  workflow ledger or of the memory store by any manager, worker, request handler or operator, with any arguments and
  any clock reading; the interface \<^verbatim>\<open>RunStore\<close> of
  \<^verbatim>\<open>runtime_service/run_store.py\<close> lists the first kind and
  \<^verbatim>\<open>WorkflowStore\<close> of \<^verbatim>\<open>runtime_service/workflow_store.py\<close> the second.
  The theory interprets the transactional interface on it and the fencing interface on every
  commit of an attempt.
\<close>

section \<open>Transactions\<close>

inductive store_step :: "db \<Rightarrow> db \<Rightarrow> bool" where
  create: "record_fields_valid run \<Longrightarrow> store_step s (snd (create_run run s))"
| create_with_event: "record_fields_valid run \<Longrightarrow>
     store_step s (snd (create_run_with_event clk run event_type payload s))"
| claim: "store_step s (snd (claim_next_run M clk token owner dur pend now_ms s))"
| renew: "store_step s (snd (renew_run_lease clk run_id tok dur now_ms s))"
| expire: "store_step s (snd (expire_run_lease clk run_id tok now_ms s))"
| attempt_event: "store_step s (snd (append_attempt_event clk run_id tok_opt event_type payload now_ms s))"
| control_event: "store_step s (snd (append_control_plane_event clk run_id tenant_id event_type payload s))"
| request_cancel: "store_step s (snd (request_cancel_atomically M clk run_id tenant_id s))"
| finalize_cancel: "store_step s (snd (finalize_next_queued_cancellation M clk s))"
| completed: "store_step s (snd (commit_completed_run M clk run tok now_ms s))"
| failed: "store_step s (snd (commit_failed_run clk run tok code err tb allow now_ms s))"
| cancelled: "store_step s (snd (commit_cancelled_run clk run reason tok now_ms s))"
| pending: "store_step s (snd (commit_reconciliation_pending clk run_id tenant_id tok code err now_ms s))"
| conflict: "store_step s (snd (commit_checkpoint_conflict clk run tok phase now_ms s))"
| quarantine: "store_step s (snd (quarantine_checkpoint_conflict_for_reconciliation clk run tok phase now_ms s))"
| resolve: "store_step s (snd (apply_quarantine_resolution D clk run_id tenant_id target resolution plan_id subject cred s))"

inductive system_step :: "db \<Rightarrow> db \<Rightarrow> bool" where
  run_store: "store_step s t \<Longrightarrow> system_step s t"
| ledger: "workflow_step s t \<Longrightarrow> system_step s t"
| memory: "memory_step s t \<Longrightarrow> system_step s t"

lemmas operations_ok = create_run_ok create_run_with_event_ok claim_next_run_ok renew_run_lease_ok
  expire_run_lease_ok append_attempt_event_ok append_control_plane_event_ok request_cancel_ok
  finalize_next_queued_cancellation_ok commit_completed_run_ok commit_failed_run_ok commit_cancelled_run_ok
  commit_reconciliation_pending_ok commit_checkpoint_conflict_ok quarantine_checkpoint_conflict_ok
  apply_quarantine_resolution_ok

lemma store_step_ok: "store_inv s \<Longrightarrow> store_step s t \<Longrightarrow> ok_step s t"
  by (erule store_step.cases) (simp_all only: operations_ok)

lemma store_inv_empty: "store_inv empty_db"
  by (simp add: store_inv_def empty_db_def run_constraints_def events_ok_def seqs_def)

text \<open>The stores share one database: each keeps the invariants of the others' tables.\<close>

definition system_inv :: "db \<Rightarrow> bool" where
  "system_inv s \<longleftrightarrow> store_inv s \<and> wf_inv s \<and> mem_inv (db_memory s)"

lemma wf_frame: "ledger_same s t \<Longrightarrow> wf_inv s \<Longrightarrow> wf_inv t \<and> wf_evolves s t"
  by (simp add: ledger_same_def wf_inv_def wf_evolves_def select_execution_def select_step_def select_action_def)

lemma run_frame: "runs_same s t \<Longrightarrow> store_inv s \<Longrightarrow> store_inv t \<and> evolves s t"
  by (simp add: runs_same_def store_inv_def evolves_def select_run_def select_thread_def base_current_def thread_revision_def)

lemma memory_frame: "store_inv (s\<lparr>db_memory := m\<rparr>) = store_inv s" "evolves s (s\<lparr>db_memory := m\<rparr>) = evolves s s"
  "wf_inv (s\<lparr>db_memory := m\<rparr>) = wf_inv s" "wf_evolves s (s\<lparr>db_memory := m\<rparr>) = wf_evolves s s"
  by (simp_all add: store_inv_def evolves_def select_run_def select_thread_def base_current_def thread_revision_def
      wf_inv_def wf_evolves_def select_execution_def select_step_def select_action_def)

lemma system_step_ok:
  assumes "system_inv s" and "system_step s t"
  shows "system_inv t \<and> evolves s t \<and> wf_evolves s t \<and> mem_evolves (db_memory s) (db_memory t)"
  using assms(2)
proof cases
  case run_store
  with assms(1) store_step_ok [of s t] have "ok_step s t" by (simp add: system_inv_def)
  with assms(1) wf_frame [of s t] show ?thesis by (simp add: system_inv_def ok_step_def ledger_same_def)
next
  case ledger
  with assms(1) workflow_step_ok [of s t] have "wf_step_ok s t" by (simp add: system_inv_def)
  with assms(1) run_frame [of s t] show ?thesis by (simp add: system_inv_def wf_step_ok_def runs_same_def)
next
  case memory
  then obtain m where "t = s\<lparr>db_memory := m\<rparr>" "mem_inv (db_memory s) \<Longrightarrow> mem_ok (db_memory s) m"
    by (blast elim: memory_step_form)
  with assms(1) show ?thesis
    by (simp add: system_inv_def memory_frame mem_ok_def evolves_refl wf_evolves_refl)
qed

interpretation sys: transactional empty_db system_step system_inv
proof
  show "system_inv empty_db" by (simp add: system_inv_def store_inv_empty wf_inv_empty) (simp add: empty_db_def mem_inv_empty)
qed (simp add: system_step_ok)

abbreviation store_reachable :: "db \<Rightarrow> bool" where
  "store_reachable \<equiv> tx_reachable empty_db system_step"

abbreviation later :: "db \<Rightarrow> db \<Rightarrow> bool" where
  "later s t \<equiv> tx_reachable s system_step t"

lemma reachable_inv: "store_reachable s \<Longrightarrow> store_inv s"
  using sys.reachable_invar by (simp add: system_inv_def)

lemma reachable_wf_inv: "store_reachable s \<Longrightarrow> wf_inv s"
  using sys.reachable_invar by (simp add: system_inv_def)

lemma reachable_mem_inv: "store_reachable s \<Longrightarrow> mem_inv (db_memory s)"
  using sys.reachable_invar by (simp add: system_inv_def)

lemma reachable_later:
  assumes "later s t" and "store_reachable s"
  shows "store_reachable t"
  using assms by (induction rule: tx_reachable.induct) (auto intro: tx_step)

lemma later_evolves: "later s t \<Longrightarrow> store_reachable s \<Longrightarrow> evolves s t"
  by (rule sys.reachable_monotone) (auto intro: evolves_trans sys.reachable_invar dest: system_step_ok)

lemma later_wf_evolves: "later s t \<Longrightarrow> store_reachable s \<Longrightarrow> wf_evolves s t"
  by (rule sys.reachable_monotone) (auto intro: wf_evolves_trans sys.reachable_invar dest: system_step_ok)

lemma later_mem_evolves:
  assumes "later s t" and "store_reachable s"
  shows "mem_evolves (db_memory s) (db_memory t)"
  by (rule sys.reachable_monotone [OF assms(1) sys.reachable_invar [OF assms(2)]])
    (auto intro: mem_evolves_trans dest: system_step_ok)

lemma later_one: "system_step s t \<Longrightarrow> later s t"
  by (rule tx_step [OF tx_start])

lemma store_tx: "later s t \<Longrightarrow> store_step t u \<Longrightarrow> later s u"
  by (blast intro: tx_step system_step.run_store)

lemma ledger_tx: "later s t \<Longrightarrow> workflow_step t u \<Longrightarrow> later s u"
  by (blast intro: tx_step system_step.ledger)

section \<open>Fencing\<close>

text \<open>
  The interface a worker relies on when it writes with its lease token: unless the run is
  running and the token is current at the store's clock, the call changes nothing and does
  not report success. What follows for a worker that lost its lease is proved once here.
\<close>

definition holds_lease :: "string \<Rightarrow> string \<Rightarrow> int \<Rightarrow> db \<Rightarrow> bool" where
  "holds_lease run_id token now_ms s \<longleftrightarrow>
     (case select_run run_id s of None \<Rightarrow> False
      | Some r \<Rightarrow> r_status r = RUNNING \<and> current_lease token now_ms r)"

lemma holds_lease_iff: "holds_lease run_id token now_ms s \<longleftrightarrow>
   (\<exists>r. select_run run_id s = Some r \<and> r_status r = RUNNING \<and> current_lease token now_ms r)"
  by (auto simp: holds_lease_def split: option.splits)

locale fenced =
  fixes op :: "string \<Rightarrow> int \<Rightarrow> db \<Rightarrow> ('e + 'o) \<times> db"
    and run_id :: string
    and success :: "'o \<Rightarrow> bool"
  assumes stale: "store_inv s \<Longrightarrow> \<not> holds_lease run_id token now_ms s \<Longrightarrow>
      snd (op token now_ms s) = s \<and> (\<forall>x. fst (op token now_ms s) = Inr x \<longrightarrow> \<not> success x)"
begin

lemma stale_state: "store_inv s \<Longrightarrow> \<not> holds_lease run_id token now_ms s \<Longrightarrow> op token now_ms s = (r, t) \<Longrightarrow> t = s"
  using stale [of s token now_ms] by simp

lemma success_holds: "store_inv s \<Longrightarrow> op token now_ms s = (Inr x, t) \<Longrightarrow> success x \<Longrightarrow> holds_lease run_id token now_ms s"
  using stale [of s token now_ms] by (metis fst_conv)

text \<open>After the run is terminal no later attempt-owned write has an effect.\<close>

lemma terminal_fenced:
  assumes "store_inv s" and "select_run run_id s = Some r" and "is_terminal (r_status r)" and "evolves s t" and "store_inv t"
  shows "snd (op token now_ms t) = t"
proof -
  from assms(2-4) have "select_run run_id t = Some r"
    unfolding evolves_def row_evolves_def by metis
  with assms(3) have "\<not> holds_lease run_id token now_ms t" by (auto simp: holds_lease_iff)
  with assms(5) show ?thesis using stale by blast
qed

text \<open>A worker whose token was replaced or cleared writes nothing, at any later clock reading.\<close>

lemma replaced_fenced:
  assumes "store_inv s" and "select_run run_id s = Some r" and "r_lease_token r \<noteq> Some token"
  shows "snd (op token now_ms s) = s"
  using assms stale [of s token now_ms] by (auto simp: holds_lease_iff current_lease_def)

end

lemma update_stale:
  assumes "\<And>r. r \<in> set (db_runs s) \<Longrightarrow> \<not> p r"
  shows "update_runs p f s = Inr (0, s)"
  using assms by (simp add: update_runs_def rowcount_0_iff)

lemma not_holds_row:
  assumes inv: "store_inv s" and "\<not> holds_lease run_id token now_ms s" and "r \<in> set (db_runs s)" "r_run_id r = run_id"
  shows "\<not> (r_status r = RUNNING \<and> current_lease token now_ms r)"
    and "\<not> (r_status r = QUEUED \<and> current_lease token now_ms r)"
proof -
  from select_run_mem [OF inv assms(3)] assms(2,4) show "\<not> (r_status r = RUNNING \<and> current_lease token now_ms r)"
    by (auto simp: holds_lease_iff)
  from row_okD [OF inv assms(3)] show "\<not> (r_status r = QUEUED \<and> current_lease token now_ms r)"
    by (auto simp: row_ok_def lease_cleared_def current_lease_def)
qed

lemma classified_success:
  "classify_commit_outcome run_id tenant_id token now_ms s = Inr oc \<Longrightarrow> oc \<noteq> COMMITTED \<and> oc \<noteq> CHECKPOINT_CONFLICT"
  by (auto simp: classify_commit_outcome_def split: option.splits if_splits)

definition commit_success :: "commit_outcome \<times> run_record \<Rightarrow> bool" where
  "commit_success x \<longleftrightarrow> fst x \<in> {COMMITTED, CHECKPOINT_CONFLICT}"

text \<open>The commits that start with a guarded update write no row without the lease.\<close>

lemma guarded_update_stale:
  assumes "store_inv s" and "\<not> holds_lease run_id token now_ms s"
    and "\<And>r. p r \<Longrightarrow> r_run_id r = run_id \<and> r_status r \<in> {QUEUED, RUNNING} \<and> current_lease token now_ms r"
  shows "update_runs p f s = Inr (0, s)"
  using not_holds_row [OF assms(1,2)] assms(3) by (intro update_stale) blast

lemma classified_fenced:
  "snd (transaction s (classified run_id tenant_id token now_ms run s)) = s"
  "fst (transaction s (classified run_id tenant_id token now_ms run s)) = Inr x \<Longrightarrow> \<not> commit_success x"
  by (auto simp: commit_success_def split: sum.splits dest: classified_success)

lemma not_lease_persisted:
  assumes "store_inv s" and "\<not> holds_lease run_id token now_ms s"
    and "select_run_for_tenant run_id tenant_id s = Some r"
  shows "r_status r \<noteq> RUNNING \<or> \<not> current_lease token now_ms r"
  using not_holds_row(1) [OF assms(1,2)] assms(3) by (auto dest: select_run_for_tenant_SomeD)

interpretation completed: fenced "commit_completed_run M clk run" "r_run_id run" commit_success
  for M clk run
proof
  fix s token now_ms assume a: "store_inv s" "\<not> holds_lease (r_run_id run) token now_ms s"
  show "snd (commit_completed_run M clk run token now_ms s) = s \<and>
     (\<forall>x. fst (commit_completed_run M clk run token now_ms s) = Inr x \<longrightarrow> \<not> commit_success x)"
    using not_lease_persisted [OF a, of "r_tenant_id run"] classified_fenced
    by (cases "select_run_for_tenant (r_run_id run) (r_tenant_id run) s") (auto simp: commit_completed_run_def)
qed

interpretation failed: fenced "\<lambda>tok now_ms. commit_failed_run clk run tok code err tb allow now_ms" "r_run_id run" commit_success
  for clk run code err tb allow
proof
  fix s token now_ms assume a: "store_inv s" "\<not> holds_lease (r_run_id run) token now_ms s"
  have "commit_failed_run clk run token code err tb allow now_ms s =
    transaction s (classified (r_run_id run) (r_tenant_id run) token now_ms run s)"
    unfolding commit_failed_run_def by (subst guarded_update_stale [OF a]) auto
  then show "snd (commit_failed_run clk run token code err tb allow now_ms s) = s \<and>
     (\<forall>x. fst (commit_failed_run clk run token code err tb allow now_ms s) = Inr x \<longrightarrow> \<not> commit_success x)"
    using classified_fenced by metis
qed

interpretation cancelled: fenced "commit_cancelled_run clk run reason" "r_run_id run" commit_success
  for clk run reason
proof
  fix s token now_ms assume a: "store_inv s" "\<not> holds_lease (r_run_id run) token now_ms s"
  have "commit_cancelled_run clk run reason token now_ms s =
    transaction s (classified (r_run_id run) (r_tenant_id run) token now_ms run s)"
    unfolding commit_cancelled_run_def by (subst guarded_update_stale [OF a]) auto
  then show "snd (commit_cancelled_run clk run reason token now_ms s) = s \<and>
     (\<forall>x. fst (commit_cancelled_run clk run reason token now_ms s) = Inr x \<longrightarrow> \<not> commit_success x)"
    using classified_fenced by metis
qed

interpretation pending: fenced "\<lambda>tok. commit_reconciliation_pending clk run_id tenant_id tok code err" run_id
    "\<lambda>oc. oc = COMMITTED"
  for clk run_id tenant_id code err
proof
  fix s token now_ms assume a: "store_inv s" "\<not> holds_lease run_id token now_ms s"
  show "snd (commit_reconciliation_pending clk run_id tenant_id token code err now_ms s) = s \<and>
     (\<forall>x. fst (commit_reconciliation_pending clk run_id tenant_id token code err now_ms s) = Inr x \<longrightarrow> \<not> x = COMMITTED)"
    unfolding commit_reconciliation_pending_def by (subst (1 2) guarded_update_stale [OF a])
      (auto split: sum.splits dest: classified_success)
qed

interpretation conflict: fenced "\<lambda>tok. commit_checkpoint_conflict clk run tok phase" "r_run_id run" commit_success
  for clk run phase
proof
  fix s token now_ms assume a: "store_inv s" "\<not> holds_lease (r_run_id run) token now_ms s"
  show "snd (commit_checkpoint_conflict clk run token phase now_ms s) = s \<and>
     (\<forall>x. fst (commit_checkpoint_conflict clk run token phase now_ms s) = Inr x \<longrightarrow> \<not> commit_success x)"
    using not_lease_persisted [OF a, of "r_tenant_id run"] classified_fenced
    by (cases "select_run_for_tenant (r_run_id run) (r_tenant_id run) s") (auto simp: commit_checkpoint_conflict_def)
qed

interpretation quarantined: fenced "\<lambda>tok. quarantine_checkpoint_conflict_for_reconciliation clk run tok phase"
    "r_run_id run" commit_success
  for clk run phase
proof
  fix s token now_ms assume a: "store_inv s" "\<not> holds_lease (r_run_id run) token now_ms s"
  show "snd (quarantine_checkpoint_conflict_for_reconciliation clk run token phase now_ms s) = s \<and>
     (\<forall>x. fst (quarantine_checkpoint_conflict_for_reconciliation clk run token phase now_ms s) = Inr x \<longrightarrow>
       \<not> commit_success x)"
    using not_lease_persisted [OF a, of "r_tenant_id run"] classified_fenced
    by (cases "select_run_for_tenant (r_run_id run) (r_tenant_id run) s")
      (auto simp: quarantine_checkpoint_conflict_for_reconciliation_def)
qed

interpretation renewed: fenced "\<lambda>tok. renew_run_lease clk run_id tok dur" run_id "\<lambda>renewed. renewed"
  for clk run_id dur
proof
  fix s token now_ms assume a: "store_inv s" "\<not> holds_lease run_id token now_ms s"
  show "snd (renew_run_lease clk run_id token dur now_ms s) = s \<and>
     (\<forall>x. fst (renew_run_lease clk run_id token dur now_ms s) = Inr x \<longrightarrow> \<not> x)"
    unfolding renew_run_lease_def by (subst (1 2) guarded_update_stale [OF a]) auto
qed

interpretation attempt_event: fenced "\<lambda>tok. append_attempt_event clk run_id (Some tok) event_type payload" run_id
    "\<lambda>_. True"
  for clk run_id event_type payload
proof
  fix s token now_ms assume a: "store_inv s" "\<not> holds_lease run_id token now_ms s"
  from not_holds_row(1) [OF a] show "snd (append_attempt_event clk run_id (Some token) event_type payload now_ms s) = s \<and>
     (\<forall>x. fst (append_attempt_event clk run_id (Some token) event_type payload now_ms s) = Inr x \<longrightarrow> \<not> True)"
    by (auto simp: append_attempt_event_def assert_current_run_lease_def fetchone_None_iff)
qed

end
