(* ===== verification/Run_Effects.thy ===== *)
theory Run_Effects
  imports Run_Lifecycle
begin

text \<open>
  What the operations of the run store do to the row they are about: when a guarded update
  succeeds, which row a claim selects, and the effect of each commit on the run, the thread's
  checkpoint and the event log.
\<close>

section \<open>Updates of one row\<close>

lemma unique_index_iff:
  assumes "distinct (map i rows)"
  shows "distinct (map k (filter q rows)) \<longleftrightarrow>
    (\<forall>x\<in>set rows. \<forall>y\<in>set rows. q x \<and> q y \<and> k x = k y \<longrightarrow> x = y)"
  using assms by (auto simp: distinct_map inj_on_def)

lemma run_constraints_iff:
  "run_constraints rows \<longleftrightarrow> distinct (map r_run_id rows) \<and>
     (\<forall>x\<in>set rows. \<forall>y\<in>set rows. r_status x = RUNNING \<and> r_status y = RUNNING \<and> thread_key x = thread_key y \<longrightarrow> x = y) \<and>
     (\<forall>x\<in>set rows. \<forall>y\<in>set rows. r_client_request_id x \<noteq> None \<and> r_client_request_id y \<noteq> None \<and>
        client_key x = client_key y \<longrightarrow> x = y)"
  unfolding run_constraints_def by (auto simp: unique_index_iff)

lemma unique_replace:
  assumes "\<forall>x\<in>A. \<forall>y\<in>A. q x \<and> q y \<and> k x = k y \<longrightarrow> x = y"
    and "\<forall>x\<in>A. q x \<and> q g \<and> k x = k g \<longrightarrow> x = r"
    and "B = (\<lambda>x. if x = r then g else x) ` A"
  shows "\<forall>x\<in>B. \<forall>y\<in>B. q x \<and> q y \<and> k x = k y \<longrightarrow> x = y"
  unfolding assms(3) ball_simps
proof (intro ballI impI)
  fix x y assume xy: "x \<in> A" "y \<in> A"
    and "q (if x = r then g else x) \<and> q (if y = r then g else y) \<and> k (if x = r then g else x) = k (if y = r then g else y)"
  then have "x = r \<or> y = r \<or> q x \<and> q y \<and> k x = k y" "x = r \<Longrightarrow> y \<noteq> r \<Longrightarrow> q g \<and> q y \<and> k y = k g"
    "x \<noteq> r \<Longrightarrow> y = r \<Longrightarrow> q x \<and> q g \<and> k x = k g"
    by (auto split: if_splits)
  with xy assms(1,2) show "(if x = r then g else x) = (if y = r then g else y)"
    by metis
qed

lemma client_key_none: "client_key x = client_key y \<Longrightarrow> r_client_request_id x = r_client_request_id y"
  by (simp add: client_key_def)

text \<open>
  An update that concerns one row, keeps its keys, and makes it running only if its thread
  has no other running run, meets every constraint.
\<close>

lemma update_one:
  assumes inv: "store_inv s" and r: "r \<in> set (db_runs s)" "p r"
    and only: "\<And>x. p x \<Longrightarrow> r_run_id x = r_run_id r"
    and keys: "r_run_id (f r) = r_run_id r" "thread_key (f r) = thread_key r" "client_key (f r) = client_key r"
    and excl: "\<And>x. r_status (f r) = RUNNING \<Longrightarrow> x \<in> set (db_runs s) \<Longrightarrow> r_status x = RUNNING \<Longrightarrow>
      thread_key x = thread_key r \<Longrightarrow> x = r"
  shows "update_runs p f s = Inr (1, s\<lparr>db_runs := sql_update p f (db_runs s)\<rparr>)"
proof -
  note dist = store_inv_distinct [OF inv]
  have eq: "x = r" if "x \<in> set (db_runs s)" "p x" for x
    using key_unique [OF dist] that r only by blast
  have upd: "sql_update p f (db_runs s) = map (\<lambda>x. if x = r then f r else x) (db_runs s)"
    unfolding sql_update_def using eq r(2) by (intro map_cong refl) metis
  have one: "rowcount p (db_runs s) = 1"
    using rowcount_key_eq_1 [OF dist, of p "r_run_id r"] only r by blast
  from inv have con: "run_constraints (db_runs s)" by (simp add: store_inv_def)
  have ids: "map r_run_id (sql_update p f (db_runs s)) = map r_run_id (db_runs s)"
    unfolding upd using keys(1) by simp
  have set: "set (sql_update p f (db_runs s)) = (\<lambda>x. if x = r then f r else x) ` set (db_runs s)"
    unfolding upd by simp
  have "run_constraints (sql_update p f (db_runs s))"
    unfolding run_constraints_iff ids using dist con [unfolded run_constraints_iff] excl keys r
      client_key_none [OF keys(3)]
    by (intro conjI unique_replace [OF _ _ set]) metis+
  with one show ?thesis by (simp add: update_runs_def)
qed

lemma thread_running_unique:
  assumes "store_inv s" "x \<in> set (db_runs s)" "y \<in> set (db_runs s)" "r_status x = RUNNING" "r_status y = RUNNING"
    "thread_key x = thread_key y"
  shows "x = y"
  using assms by (auto simp: store_inv_def run_constraints_iff)

text \<open>For a row that is already running nothing more is needed.\<close>

lemma update_running:
  assumes "store_inv s" "r \<in> set (db_runs s)" "p r" "r_status r = RUNNING"
    and "\<And>x. p x \<Longrightarrow> r_run_id x = r_run_id r"
    and "r_run_id (f r) = r_run_id r" "thread_key (f r) = thread_key r" "client_key (f r) = client_key r"
  shows "update_runs p f s = Inr (1, s\<lparr>db_runs := sql_update p f (db_runs s)\<rparr>)"
  using assms thread_running_unique by (intro update_one) blast+

lemma select_update_hit:
  assumes "\<And>x. p x \<Longrightarrow> r_run_id (f x) = r_run_id x" and "select_run run_id s = Some r" "p r"
  shows "select_run run_id (s\<lparr>db_runs := sql_update p f (db_runs s)\<rparr>) = Some (f r)"
  using assms by (simp add: select_run_update)

lemma select_update_miss:
  assumes "\<And>x. p x \<Longrightarrow> r_run_id (f x) = r_run_id x" and "\<And>x. p x \<Longrightarrow> r_run_id x = run_id" and "other \<noteq> run_id"
  shows "select_run other (s\<lparr>db_runs := sql_update p f (db_runs s)\<rparr>) = select_run other s"
  using assms by (cases "select_run other s") (auto simp: select_run_update dest: select_run_SomeD)


section \<open>Emitted events\<close>

definition event_view :: "run_event \<Rightarrow> string \<times> string \<times> json_text" where
  "event_view e = (e_run_id e, e_event_type e, e_payload_json e)"

text \<open>Between two states exactly these events were appended, in this order.\<close>

definition emits :: "(string \<times> string \<times> json_text) list \<Rightarrow> db \<Rightarrow> db \<Rightarrow> bool" where
  "emits l s t \<longleftrightarrow> (\<exists>evs. db_run_events t = db_run_events s @ evs \<and> map event_view evs = l)"

lemma emits_Nil [simp]: "emits [] s t \<longleftrightarrow> db_run_events t = db_run_events s"
  by (auto simp: emits_def)

lemma emits_refl: "db_run_events t = db_run_events s \<Longrightarrow> emits [] s t"
  by simp

lemma emits_trans: "emits l s t \<Longrightarrow> emits m t u \<Longrightarrow> emits (l @ m) s u"
  by (auto simp: emits_def)

text \<open>An append to the log of an existing run succeeds; the event and the state it gives.\<close>

definition new_event :: "string \<Rightarrow> string \<Rightarrow> (string \<times> json) list \<Rightarrow> string \<Rightarrow> db \<Rightarrow> run_event" where
  "new_event run_id event_type payload created_at s = \<lparr>e_event_id = db_next_event_id s, e_run_id = run_id,
     e_sequence = next_sequence run_id (db_run_events s), e_event_type = event_type,
     e_payload_json = Encoded (JObj payload), e_created_at = created_at\<rparr>"

definition add_event :: "string \<Rightarrow> string \<Rightarrow> (string \<times> json) list \<Rightarrow> string \<Rightarrow> db \<Rightarrow> db" where
  "add_event run_id event_type payload created_at s = s\<lparr>db_run_events := db_run_events s @
     [new_event run_id event_type payload created_at s], db_next_event_id := db_next_event_id s + 1\<rparr>"

lemma append_event_Some [simp]:
  "select_run run_id s = Some r \<Longrightarrow> append_event_with_connection run_id event_type payload created_at s =
     Inr (new_event run_id event_type payload created_at s, add_event run_id event_type payload created_at s)"
  by (simp add: append_event_with_connection_def new_event_def add_event_def Let_def)

lemma event_view_new [simp]:
  "event_view (new_event run_id event_type payload created_at s) = (run_id, event_type, Encoded (JObj payload))"
  by (simp add: event_view_def new_event_def)

lemma add_event_frame [simp]:
  "db_runs (add_event a b c d s) = db_runs s"
  "db_thread_states (add_event a b c d s) = db_thread_states s"
  "db_run_events (add_event a b c d s) = db_run_events s @ [new_event a b c d s]"
  "select_run i (add_event a b c d s) = select_run i s"
  "select_run_for_tenant i j (add_event a b c d s) = select_run_for_tenant i j s"
  "select_thread i j (add_event a b c d s) = select_thread i j s"
  "thread_revision (add_event a b c d s) i j = thread_revision s i j"
  by (simp_all add: add_event_def select_run_def select_run_for_tenant_def select_thread_def thread_revision_def)

lemma emits_add: "emits l s t \<Longrightarrow> emits (l @ [(a, b, Encoded (JObj c))]) s (add_event a b c d t)"
  by (auto simp: emits_def)

lemma emits_runs_update [simp]: "emits l (s\<lparr>db_runs := rows\<rparr>) t = emits l s t"
  by (simp add: emits_def)

lemma same_runs: "db_runs t = db_runs s \<Longrightarrow> select_run run_id t = select_run run_id s"
  by (simp add: select_run_def)

lemma same_threads: "db_thread_states t = db_thread_states s \<Longrightarrow> select_thread a b t = select_thread a b s"
  by (simp add: select_thread_def)

section \<open>Claims\<close>

abbreviation eligible :: "int \<Rightarrow> db \<Rightarrow> run_row \<Rightarrow> bool" where
  "eligible now_ms s c \<equiv> claimable_queued (db_runs s) c \<or> claimable_expired now_ms (db_runs s) c"

lemma eligible_not_live: "eligible now_ms s c \<Longrightarrow> \<not> live_lease now_ms c"
  by (auto simp: claimable_queued_def claimable_expired_def live_lease_def dest: sql_le_not_gt)

lemma claim_set_keys [simp]:
  "r_run_id (claim_set clk token owner dur pend now_ms s r) = r_run_id r"
  "thread_key (claim_set clk token owner dur pend now_ms s r) = thread_key r"
  "client_key (claim_set clk token owner dur pend now_ms s r) = client_key r"
  by (simp_all add: claim_set_def thread_key_def client_key_def)

lemma claim_update:
  fixes clk token owner dur pend
  assumes inv: "store_inv s" and c: "c \<in> set (db_runs s)" "eligible now_ms s c"
  defines "p \<equiv> claim_where now_ms (db_runs s) (r_run_id c)" and "f \<equiv> claim_set clk token owner dur pend now_ms s"
  shows "update_runs p f s = Inr (1, s\<lparr>db_runs := sql_update p f (db_runs s)\<rparr>)"
    and "select_run (r_run_id c) (s\<lparr>db_runs := sql_update p f (db_runs s)\<rparr>) = Some (f c)"
    and "other \<noteq> r_run_id c \<Longrightarrow> select_run other (s\<lparr>db_runs := sql_update p f (db_runs s)\<rparr>) = select_run other s"
proof -
  from c have pc: "p c" unfolding p_def claim_where_def claimable_queued_def by blast
  have only: "r_run_id x = r_run_id c" if "p x" for x using that by (simp add: p_def claim_where_def)
  have excl: "x = c" if "x \<in> set (db_runs s)" "r_status x = RUNNING" "thread_key x = thread_key c" for x
    using that c thread_running_unique [OF inv that(1) c(1)]
    by (auto simp: claimable_queued_def claimable_expired_def)
  show "update_runs p f s = Inr (1, s\<lparr>db_runs := sql_update p f (db_runs s)\<rparr>)"
    using only excl by (intro update_one [where r = c, OF inv c(1)] pc) (simp_all add: f_def)
  show "select_run (r_run_id c) (s\<lparr>db_runs := sql_update p f (db_runs s)\<rparr>) = Some (f c)"
    using pc select_run_mem [OF inv c(1)] by (intro select_update_hit) (simp_all add: f_def)
  show "select_run other (s\<lparr>db_runs := sql_update p f (db_runs s)\<rparr>) = select_run other s" if "other \<noteq> r_run_id c"
    using only that by (intro select_update_miss) (simp_all add: f_def)
qed

definition claim_log :: "string option \<Rightarrow> run_row \<Rightarrow> run_record \<Rightarrow> (string \<times> string \<times> json_text) list" where
  "claim_log pend c run =
     (case recovery_reason_of c of None \<Rightarrow> [] | Some reason \<Rightarrow> [(r_run_id run, ''run.recovered'',
        Encoded (JObj [(''reason'', JStr (if pend \<noteq> None \<and> r_error_code c = pend then the pend
                                          else recovery_value reason))]))]) @
     [(r_run_id run, ''run.started'', Encoded (JObj [(''attempt'', JInt (r_attempt run)),
        (''recovered'', JBool (recovery_reason_of c \<noteq> None)),
        (''checkpoint_base_revision'', jopt_int (r_checkpoint_base_revision run))]))]"

definition claim_done :: "(nat \<Rightarrow> string) \<Rightarrow> string option \<Rightarrow> run_row \<Rightarrow> run_record \<Rightarrow> db \<Rightarrow> db" where
  "claim_done clk pend c run s = (case claim_events clk pend c run s of Inl _ \<Rightarrow> s | Inr (_, t) \<Rightarrow> t)"

lemma claim_events_Some:
  assumes "select_run (r_run_id run) s = Some r"
  shows "claim_events clk pend c run s = Inr ((), claim_done clk pend c run s)"
    and "db_runs (claim_done clk pend c run s) = db_runs s"
    and "db_thread_states (claim_done clk pend c run s) = db_thread_states s"
    and "emits (claim_log pend c run) s (claim_done clk pend c run s)"
  using assms
  by (simp_all add: claim_done_def claim_events_def claim_log_def emits_def split: option.splits)

text \<open>The three results of a claim.\<close>

lemma claim_next_run_cases:
  assumes inv: "store_inv s" and args: "owner \<noteq> []" "0 < dur"
  shows "claim_candidate now_ms s = None \<Longrightarrow>
      claim_next_run M clk token owner dur pend now_ms s = (Inr None, s)"
    and "claim_candidate now_ms s = Some c \<Longrightarrow> row_to_run M (claim_set clk token owner dur pend now_ms s c) = Inl e \<Longrightarrow>
      claim_next_run M clk token owner dur pend now_ms s = (Inl e, s)"
    and "claim_candidate now_ms s = Some c \<Longrightarrow> row_to_run M (claim_set clk token owner dur pend now_ms s c) = Inr run \<Longrightarrow>
      claim_next_run M clk token owner dur pend now_ms s =
        (Inr (Some \<lparr>c_run = run, c_owner_id = owner, c_lease_token = token, c_recovery_reason = recovery_reason_of c\<rparr>),
         claim_done clk pend c run (s\<lparr>db_runs := sql_update (claim_where now_ms (db_runs s) (r_run_id c))
            (claim_set clk token owner dur pend now_ms s) (db_runs s)\<rparr>))"
proof -
  show "claim_candidate now_ms s = None \<Longrightarrow>
      claim_next_run M clk token owner dur pend now_ms s = (Inr None, s)"
    using args by (simp add: claim_next_run_def)
  assume c: "claim_candidate now_ms s = Some c"
  then have mem: "c \<in> set (db_runs s)" "eligible now_ms s c"
    by (auto simp: claim_candidate_def dest: select_first_SomeD(1,2))
  note upd = claim_update(1,2) [OF inv mem, of clk token owner dur pend]
  show "claim_next_run M clk token owner dur pend now_ms s = (Inl e, s)"
    if "row_to_run M (claim_set clk token owner dur pend now_ms s c) = Inl e"
    using args c upd that by (simp add: claim_next_run_def)
  assume run: "row_to_run M (claim_set clk token owner dur pend now_ms s c) = Inr run"
  then have "r_run_id run = r_run_id c"
    by (auto simp: row_to_run_def claim_set_def split: sum.splits if_splits)
  with args c upd run claim_events_Some(1) show "claim_next_run M clk token owner dur pend now_ms s =
      (Inr (Some \<lparr>c_run = run, c_owner_id = owner, c_lease_token = token, c_recovery_reason = recovery_reason_of c\<rparr>),
         claim_done clk pend c run (s\<lparr>db_runs := sql_update (claim_where now_ms (db_runs s) (r_run_id c))
            (claim_set clk token owner dur pend now_ms s) (db_runs s)\<rparr>))"
    by (simp add: claim_next_run_def)
qed

lemma claim_done_effect:
  fixes clk token owner dur pend
  assumes inv: "store_inv s" and c: "c \<in> set (db_runs s)" "eligible now_ms s c"
    and run: "row_to_run M (claim_set clk token owner dur pend now_ms s c) = Inr run"
  defines "t \<equiv> claim_done clk pend c run (s\<lparr>db_runs := sql_update (claim_where now_ms (db_runs s) (r_run_id c))
            (claim_set clk token owner dur pend now_ms s) (db_runs s)\<rparr>)"
  shows "select_run (r_run_id c) t = Some (claim_set clk token owner dur pend now_ms s c)"
    and "\<And>other. other \<noteq> r_run_id c \<Longrightarrow> select_run other t = select_run other s"
    and "db_thread_states t = db_thread_states s" and "emits (claim_log pend c run) s t"
proof -
  let ?s1 = "s\<lparr>db_runs := sql_update (claim_where now_ms (db_runs s) (r_run_id c))
            (claim_set clk token owner dur pend now_ms s) (db_runs s)\<rparr>"
  note upd = claim_update(2,3) [OF inv c, where clk = clk and token = token and owner = owner and dur = dur and pend = pend]
  from run have "r_run_id run = r_run_id c"
    by (auto simp: row_to_run_def claim_set_def split: sum.splits if_splits)
  with upd(1) have "select_run (r_run_id run) ?s1 = Some (claim_set clk token owner dur pend now_ms s c)" by simp
  note ev = claim_events_Some(2-4) [OF this, where clk = clk and pend = pend and c = c, folded t_def]
  then have "select_run i t = select_run i ?s1" for i by (simp add: select_run_def)
  with upd ev show "select_run (r_run_id c) t = Some (claim_set clk token owner dur pend now_ms s c)"
    and "\<And>other. other \<noteq> r_run_id c \<Longrightarrow> select_run other t = select_run other s"
    and "db_thread_states t = db_thread_states s" and "emits (claim_log pend c run) s t"
    by simp_all
qed

text \<open>A claim fails only when the stored state of the candidate no longer validates.\<close>

lemma claim_row_to_run:
  assumes inv: "store_inv s" and c: "c \<in> set (db_runs s)" "eligible now_ms s c" and "0 < dur"
    and "deserialize_state M c = Inr st"
  shows "\<exists>run. row_to_run M (claim_set clk token owner dur pend now_ms s c) = Inr run"
proof -
  have "\<not> is_terminal (r_status c)" using c(2) by (auto simp: claimable_queued_def claimable_expired_def)
  then have "record_fields_valid (claim_set clk token owner dur pend now_ms s c)"
    using row_write_claim [of c s dur clk token owner pend now_ms] row_okD [OF inv c(1)] base_currentD [OF inv c(1)] inv assms(4)
    by (simp add: row_write_def row_ok_def)
  moreover have "deserialize_state M (claim_set clk token owner dur pend now_ms s c) = deserialize_state M c"
    by (cases "r_state_json c") (simp_all add: deserialize_state_def claim_set_def)
  ultimately show ?thesis using assms(5) by (simp add: row_to_run_def)
qed

section \<open>Event logs\<close>

text \<open>
  The interface of a per-run event log: the events of a well-formed state are numbered without
  gaps and a reader asks for those after a sequence number. The run store and the workflow
  ledger both provide it.
\<close>

lemma seq_range:
  assumes "map f xs = map (\<lambda>i. int i + 1) [m..<k]" and "x \<in> set xs"
  shows "int m < f x \<and> f x \<le> int k"
proof -
  from assms(2) have "f x \<in> set (map f xs)" by simp
  then show ?thesis unfolding assms(1) by auto
qed

locale event_log =
  fixes good :: "db \<Rightarrow> bool"
    and log :: "db \<Rightarrow> run_event list"
    and next_id :: "db \<Rightarrow> int"
    and read :: "string \<Rightarrow> int \<Rightarrow> db \<Rightarrow> run_event list"
  assumes numbered: "good s \<Longrightarrow> events_ok (log s) (next_id s)"
    and ordered: "read run_id k s = sort_key e_sequence (filter (\<lambda>e. e_run_id e = run_id \<and> k < e_sequence e) (log s))"
begin

lemma read_filter: "good s \<Longrightarrow> read run_id k s = filter (\<lambda>e. e_run_id e = run_id \<and> k < e_sequence e) (log s)"
  unfolding ordered by (rule sort_events_filter [OF numbered])

lemma read_all:
  assumes good: "good s"
  shows "read run_id 0 s = filter (\<lambda>e. e_run_id e = run_id) (log s)"
    and "map e_sequence (read run_id 0 s) = map (\<lambda>i. int i + 1) [0..<length (read run_id 0 s)]"
proof -
  let ?l = "filter (\<lambda>e. e_run_id e = run_id) (log s)"
  from numbered [OF good] have seq: "map e_sequence ?l = map (\<lambda>i. int i + 1) [0..<length ?l]"
    by (auto simp: events_ok_def seqs_def)
  then have "0 < e_sequence e" if "e \<in> set ?l" for e
    using seq_range [OF seq that] by simp
  then show eq: "read run_id 0 s = ?l"
    unfolding read_filter [OF good] by (auto intro: filter_cong)
  show "map e_sequence (read run_id 0 s) = map (\<lambda>i. int i + 1) [0..<length (read run_id 0 s)]"
    unfolding eq by (rule seq)
qed

text \<open>Reading after the last sequence number seen gives exactly what was appended since.\<close>

lemma read_resumes:
  assumes s: "good s" and t: "good t" and evs: "log t = log s @ evs"
  shows "read run_id 0 t = read run_id 0 s @ read run_id (int (length (read run_id 0 s))) t"
proof -
  let ?mine = "\<lambda>e. e_run_id e = run_id" and ?n = "length (read run_id 0 s)"
  note all_s = read_all [OF s, of run_id] and all_t = read_all [OF t, of run_id]
  have split: "filter ?mine (log t) = filter ?mine (log s) @ filter ?mine evs" by (simp add: evs)
  have n: "length (filter ?mine (log s)) = ?n" by (simp add: all_s(1))
  from all_t(2) have seq: "map e_sequence (filter ?mine (log s)) @ map e_sequence (filter ?mine evs) =
      map (\<lambda>i. int i + 1) [0..<?n] @ map (\<lambda>i. int i + 1) [?n..<?n + length (filter ?mine evs)]"
    unfolding all_t(1) split map_append length_append n upt_add_eq_append [OF le0] .
  then have old: "map e_sequence (filter ?mine (log s)) = map (\<lambda>i. int i + 1) [0..<?n]"
    and new: "map e_sequence (filter ?mine evs) = map (\<lambda>i. int i + 1) [?n..<?n + length (filter ?mine evs)]"
    using n by (simp_all add: append_eq_append_conv)
  have "\<not> int ?n < e_sequence e" if "e \<in> set (filter ?mine (log s))" for e
    using seq_range [OF old that] by simp
  moreover have "int ?n < e_sequence e" if "e \<in> set (filter ?mine evs)" for e
    using seq_range [OF new that] by simp
  ultimately have "filter (\<lambda>e. int ?n < e_sequence e) (filter ?mine (log t)) = filter ?mine evs"
    unfolding split filter_append by (auto simp: filter_empty_conv intro: filter_cong)
  then have "read run_id (int ?n) t = filter ?mine evs"
    by (simp add: read_filter [OF t])
  then show ?thesis
    by (simp only: all_t(1) split all_s(1) [symmetric])
qed

end

interpretation run_log: event_log store_inv db_run_events db_next_event_id list_events
  by unfold_locales (simp_all add: store_inv_def list_events_def)

interpretation workflow_log: event_log wf_inv db_workflow_events db_next_workflow_event_id list_workflow_events
  by unfold_locales (simp_all add: wf_inv_def list_workflow_events_def)

end
