(* ===== verification/Commit_Effects.thy ===== *)
theory Commit_Effects
  imports Run_Effects
begin

text \<open>
  The effect of the commits of an attempt: when a completion commits and what it writes, the
  checkpoint conflict, the cancellation that wins over a completion, and renewal.
\<close>

section \<open>The checkpoint upsert\<close>

lemma upsert_runs:
  "upsert_checkpoint a b c d js at observed (s\<lparr>db_runs := rows\<rparr>) =
     (fst (upsert_checkpoint a b c d js at observed s), (snd (upsert_checkpoint a b c d js at observed s))\<lparr>db_runs := rows\<rparr>)"
  by (simp add: upsert_checkpoint_def Let_def)

lemma upsert_current:
  assumes "store_inv s"
  shows "fst (upsert_checkpoint a b c d js at (thread_revision s a b) s) = 1"
proof (cases "select_thread a b s")
  case None
  then show ?thesis by (simp add: upsert_checkpoint_def Let_def)
next
  case (Some x)
  let ?p = "\<lambda>y. thread_row_key y = (a, b) \<and> t_revision y = t_revision x"
  from Some have "x \<in> set (db_thread_states s)" "?p x" by (auto dest: select_thread_SomeD)
  with assms have "rowcount ?p (db_thread_states s) = 1"
    by (subst rowcount_key_eq_1 [where k = thread_row_key and a = "(a, b)"]) (auto simp: store_inv_def)
  with Some show ?thesis
    by (simp add: upsert_checkpoint_def Let_def thread_revision_def thread_row_key_def)
qed

section \<open>Completion\<close>

text \<open>Every condition under which a completion commits.\<close>

definition ready_to_complete ::
  "models \<Rightarrow> run_record \<Rightarrow> string \<Rightarrow> int \<Rightarrow> db \<Rightarrow> run_row \<Rightarrow> rt_state \<Rightarrow> rt_state \<Rightarrow> bool" where
  "ready_to_complete M run token now_ms s r st projected \<longleftrightarrow>
     select_run_for_tenant (r_run_id run) (r_tenant_id run) s = Some r \<and>
     r_status r = RUNNING \<and> \<not> r_cancel_requested r \<and> current_lease token now_ms r \<and>
     r_state run = Some st \<and>
     r_checkpoint_base_revision r = Some (thread_revision s (r_tenant_id r) (r_thread_id r)) \<and>
     (r_thread_id run, r_domain_id run, r_schema_version run) = (r_thread_id r, r_domain_id r, r_schema_version r) \<and>
     (st_thread_id st, st_domain_id st, st_schema_version st) = (r_thread_id r, r_domain_id r, r_schema_version r) \<and>
     project_thread_checkpoint_state M st = Inr projected \<and>
     assert_thread_schema_available s (r_tenant_id r) (r_thread_id r) (r_domain_id r) (r_schema_version r) = None"

definition completed_row :: "string \<Rightarrow> run_record \<Rightarrow> rt_state \<Rightarrow> run_row \<Rightarrow> run_row" where
  "completed_row at run st r = terminalize COMPLETED None None at (r\<lparr>r_state_json := Some (model_dump st),
     r_output_message := r_output_message run, r_validation_errors := r_validation_errors run\<rparr>)"

definition completion_log :: "run_record \<Rightarrow> rt_state \<Rightarrow> rt_state \<Rightarrow> int \<Rightarrow> (string \<times> string \<times> json_text) list" where
  "completion_log run st projected revision =
     [(r_run_id run, ''checkpoint.saved'', Encoded (JObj [(''thread_id'', JStr (r_thread_id run)),
         (''trace_events'', JInt (int (length (st_execution_trace projected)))),
         (''run_trace_events'', JInt (int (length (st_execution_trace st)))),
         (''projection'', JStr ''execution_trace_reset''),
         (''base_revision'', JInt revision), (''revision'', JInt (revision + 1))])),
      (r_run_id run, ''run.completed'',
         Encoded (JObj [(''validation_errors'', JList (map JStr (r_validation_errors run)))]))]"

lemma select_tenant_run:
  assumes "store_inv s" "select_run_for_tenant run_id tenant_id s = Some r"
  shows "select_run run_id s = Some r"
  using assms by (auto dest: select_run_for_tenant_SomeD select_run_mem)

text \<open>The state a completion commits.\<close>

definition completed_state ::
  "(nat \<Rightarrow> string) \<Rightarrow> run_record \<Rightarrow> string \<Rightarrow> int \<Rightarrow> db \<Rightarrow> run_row \<Rightarrow> rt_state \<Rightarrow> rt_state \<Rightarrow> db" where
  "completed_state clk run token now_ms s r st projected =
     (let rev = thread_revision s (r_tenant_id r) (r_thread_id r);
          p = (\<lambda>x. r_run_id x = r_run_id run \<and> r_tenant_id x = r_tenant_id run \<and> r_status x = RUNNING
                 \<and> \<not> r_cancel_requested x \<and> current_lease token now_ms x);
          s1 = s\<lparr>db_runs := sql_update p (completed_row (clk 0) run st) (db_runs s)\<rparr>;
          s2 = snd (upsert_checkpoint (r_tenant_id r) (r_thread_id r) (r_domain_id r) (r_schema_version r)
                 (model_dump projected) (clk 0) rev s1)
      in add_event (r_run_id run) ''run.completed'' [(''validation_errors'', JList (map JStr (r_validation_errors run)))]
           (clk 2) (add_event (r_run_id run) ''checkpoint.saved'' [(''thread_id'', JStr (r_thread_id run)),
         (''trace_events'', JInt (int (length (st_execution_trace projected)))),
         (''run_trace_events'', JInt (int (length (st_execution_trace st)))),
         (''projection'', JStr ''execution_trace_reset''),
         (''base_revision'', JInt rev), (''revision'', JInt (rev + 1))] (clk 1) s2))"

lemma completed_row_keys [simp]:
  "r_run_id (completed_row at run st r) = r_run_id r"
  "thread_key (completed_row at run st r) = thread_key r"
  "client_key (completed_row at run st r) = client_key r"
  by (simp_all add: completed_row_def terminalize_def clear_lease_def thread_key_def client_key_def)

text \<open>The two writes inside the transaction: the run's row, then the checkpoint.\<close>

abbreviation commit_where :: "run_record \<Rightarrow> string \<Rightarrow> int \<Rightarrow> run_row \<Rightarrow> bool" where
  "commit_where run token now_ms x \<equiv> r_run_id x = r_run_id run \<and> r_tenant_id x = r_tenant_id run \<and>
     r_status x = RUNNING \<and> \<not> r_cancel_requested x \<and> current_lease token now_ms x"

lemma completion_writes:
  fixes clk
  assumes inv: "store_inv s" and rdy: "ready_to_complete M run token now_ms s r st projected"
  defines "s1 \<equiv> s\<lparr>db_runs := sql_update (commit_where run token now_ms) (completed_row (clk 0) run st) (db_runs s)\<rparr>"
  obtains ts where
    "update_runs (commit_where run token now_ms) (completed_row (clk 0) run st) s = Inr (1, s1)"
    and "select_run (r_run_id run) s1 = Some (completed_row (clk 0) run st r)"
    and "upsert_checkpoint (r_tenant_id r) (r_thread_id r) (r_domain_id r) (r_schema_version r) (model_dump projected)
      (clk 0) (thread_revision s (r_tenant_id r) (r_thread_id r)) s = (1, s\<lparr>db_thread_states := ts\<rparr>)"
    and "upsert_checkpoint (r_tenant_id r) (r_thread_id r) (r_domain_id r) (r_schema_version r) (model_dump projected)
      (clk 0) (thread_revision s (r_tenant_id r) (r_thread_id r)) s1 = (1, s1\<lparr>db_thread_states := ts\<rparr>)"
proof -
  let ?p = "commit_where run token now_ms" and ?f = "completed_row (clk 0) run st"
  let ?up = "upsert_checkpoint (r_tenant_id r) (r_thread_id r) (r_domain_id r) (r_schema_version r)
      (model_dump projected) (clk 0) (thread_revision s (r_tenant_id r) (r_thread_id r))"
  obtain s2 where "?up s = (1, s2)"
    using upsert_current [OF inv] by (metis prod.collapse)
  with thread_frame_upsert obtain ts where up: "?up s = (1, s\<lparr>db_thread_states := ts\<rparr>)" by blast
  have r: "r \<in> set (db_runs s)" "r_run_id r = r_run_id run" "?p r"
    using rdy by (auto simp: ready_to_complete_def dest: select_run_for_tenant_SomeD)
  have "update_runs ?p ?f s = Inr (1, s1)"
    unfolding s1_def using rdy r by (intro update_running [where r = r] inv) (auto simp: ready_to_complete_def)
  moreover have "select_run (r_run_id run) s1 = Some (?f r)"
    unfolding s1_def using select_run_mem [OF inv r(1)] r(2,3) by (intro select_update_hit) auto
  moreover have "?up s1 = (1, s1\<lparr>db_thread_states := ts\<rparr>)"
    unfolding s1_def using up by (simp add: upsert_runs)
  ultimately show ?thesis using that up by blast
qed

lemma completed_state_effect:
  fixes clk
  assumes inv: "store_inv s" and rdy: "ready_to_complete M run token now_ms s r st projected"
  defines "t \<equiv> completed_state clk run token now_ms s r st projected"
  shows "select_run (r_run_id run) t = Some (completed_row (clk 0) run st r)"
    and "\<And>other. other \<noteq> r_run_id run \<Longrightarrow> select_run other t = select_run other s"
    and "\<And>a b. select_thread a b t = (if (a, b) = thread_key r
      then Some (upserted (r_tenant_id r) (r_thread_id r) (r_domain_id r) (r_schema_version r) (model_dump projected) (clk 0) s)
      else select_thread a b s)"
    and "emits (completion_log run st projected (thread_revision s (r_tenant_id r) (r_thread_id r))) s t"
proof -
  let ?p = "commit_where run token now_ms" and ?f = "completed_row (clk 0) run st"
  obtain ts where w: "select_run (r_run_id run) (s\<lparr>db_runs := sql_update ?p ?f (db_runs s)\<rparr>) = Some (?f r)"
    "upsert_checkpoint (r_tenant_id r) (r_thread_id r) (r_domain_id r) (r_schema_version r) (model_dump projected)
      (clk 0) (thread_revision s (r_tenant_id r) (r_thread_id r)) s = (1, s\<lparr>db_thread_states := ts\<rparr>)"
    "upsert_checkpoint (r_tenant_id r) (r_thread_id r) (r_domain_id r) (r_schema_version r) (model_dump projected)
      (clk 0) (thread_revision s (r_tenant_id r) (r_thread_id r)) (s\<lparr>db_runs := sql_update ?p ?f (db_runs s)\<rparr>) =
        (1, s\<lparr>db_runs := sql_update ?p ?f (db_runs s), db_thread_states := ts\<rparr>)"
    by (rule completion_writes [OF inv rdy, of clk])
  note t = t_def completed_state_def Let_def
  from w show "select_run (r_run_id run) t = Some (?f r)"
    by (simp add: t select_run_def)
  show "select_run other t = select_run other s" if "other \<noteq> r_run_id run" for other
    using select_update_miss [of ?p ?f "r_run_id run" other s] that w by (simp add: t select_run_def)
  show "select_thread a b t = (if (a, b) = thread_key r
      then Some (upserted (r_tenant_id r) (r_thread_id r) (r_domain_id r) (r_schema_version r) (model_dump projected) (clk 0) s)
      else select_thread a b s)" for a b
    using upsert_select [OF w(2) inv, of a b] w(3) by (simp add: t thread_key_def select_thread_def)
  show "emits (completion_log run st projected (thread_revision s (r_tenant_id r) (r_thread_id r))) s t"
    using w(3) by (simp add: t emits_def completion_log_def)
qed

lemma commit_completed_commits:
  assumes inv: "store_inv s" and rdy: "ready_to_complete M run token now_ms s r st projected"
  shows "commit_completed_run M clk run token now_ms s =
      (Inr (COMMITTED, terminalize COMPLETED None None (clk 0) run), completed_state clk run token now_ms s r st projected)"
proof -
  let ?p = "commit_where run token now_ms" and ?f = "completed_row (clk 0) run st"
  let ?s1 = "s\<lparr>db_runs := sql_update ?p ?f (db_runs s)\<rparr>"
  obtain ts where w: "update_runs ?p ?f s = Inr (1, ?s1)" "select_run (r_run_id run) ?s1 = Some (?f r)"
    "upsert_checkpoint (r_tenant_id r) (r_thread_id r) (r_domain_id r) (r_schema_version r) (model_dump projected)
      (clk 0) (thread_revision s (r_tenant_id r) (r_thread_id r)) ?s1 = (1, ?s1\<lparr>db_thread_states := ts\<rparr>)"
    by (rule completion_writes [OF inv rdy, of clk])
  have tenant: "r_tenant_id r = r_tenant_id run"
    using rdy by (auto simp: ready_to_complete_def dest: select_run_for_tenant_SomeD)
  have sel: "select_run (r_run_id run) (?s1\<lparr>db_thread_states := ts\<rparr>) = Some (?f r)"
    using w(2) by (simp add: select_run_def)
  have "commit_completed_run M clk run token now_ms s = transaction s (commit_completed_write M clk run st r
      (thread_revision s (r_tenant_id r) (r_thread_id r)) token now_ms s)"
    using rdy tenant by (simp add: commit_completed_run_def ready_to_complete_def)
  also have "commit_completed_write M clk run st r (thread_revision s (r_tenant_id r) (r_thread_id r)) token now_ms s =
      Inr ((COMMITTED, terminalize COMPLETED None None (clk 0) run), completed_state clk run token now_ms s r st projected)"
    using rdy w [unfolded completed_row_def] sel [unfolded completed_row_def] tenant
    by (simp add: commit_completed_write_def ready_to_complete_def completed_state_def
        completed_row_def [abs_def] Let_def)
  finally show ?thesis by simp
qed


lemma write_committed:
  assumes "commit_completed_write M clk run st r observed token now_ms s = Inr ((COMMITTED, x), t)"
  shows "\<exists>projected. project_thread_checkpoint_state M st = Inr projected"
    and "assert_thread_schema_available s (r_tenant_id run) (r_thread_id r) (r_domain_id r) (r_schema_version r) = None"
  using assms by (auto simp: commit_completed_write_def split: sum.splits option.splits)

lemma commit_completed_needs:
  assumes "commit_completed_run M clk run token now_ms s = (Inr (COMMITTED, x), t)"
  shows "\<exists>r st projected. ready_to_complete M run token now_ms s r st projected"
proof -
  from assms obtain r st where r: "select_run_for_tenant (r_run_id run) (r_tenant_id run) s = Some r"
      "r_status r = RUNNING" "\<not> r_cancel_requested r" "current_lease token now_ms r" "r_state run = Some st"
      "r_checkpoint_base_revision r = Some (thread_revision s (r_tenant_id run) (r_thread_id r))"
      "(r_thread_id run, r_domain_id run, r_schema_version run) = (r_thread_id r, r_domain_id r, r_schema_version r)"
      "(st_thread_id st, st_domain_id st, st_schema_version st) = (r_thread_id r, r_domain_id r, r_schema_version r)"
    and w: "commit_completed_write M clk run st r (thread_revision s (r_tenant_id run) (r_thread_id r)) token now_ms s
        = Inr ((COMMITTED, x), t)"
    by (auto simp: commit_completed_run_def transaction_def Let_def split: option.splits if_splits sum.splits
        dest: classified_success)
  moreover from r(1) have "r_tenant_id r = r_tenant_id run" by (auto dest: select_run_for_tenant_SomeD)
  ultimately show ?thesis
    using write_committed [OF w] unfolding ready_to_complete_def by force
qed

lemma completion_revision:
  assumes inv: "store_inv s" and eq: "commit_completed_run M clk run token now_ms s = (Inr (COMMITTED, x), t)"
  shows "thread_revision t (r_tenant_id run) (r_thread_id run) = thread_revision s (r_tenant_id run) (r_thread_id run) + 1"
    and "\<exists>r. select_run (r_run_id run) s = Some r \<and>
      r_checkpoint_base_revision r = Some (thread_revision s (r_tenant_id run) (r_thread_id run))"
proof -
  from commit_completed_needs [OF eq] obtain r st projected
    where rdy: "ready_to_complete M run token now_ms s r st projected" by blast
  from rdy have r: "thread_key r = thread_key run" "select_run_for_tenant (r_run_id run) (r_tenant_id run) s = Some r"
    "r_checkpoint_base_revision r = Some (thread_revision s (r_tenant_id r) (r_thread_id r))"
    by (auto simp: ready_to_complete_def thread_key_def dest: select_run_for_tenant_SomeD)
  from commit_completed_commits [OF inv rdy, of clk] eq have t: "t = completed_state clk run token now_ms s r st projected" by simp
  show "thread_revision t (r_tenant_id run) (r_thread_id run) = thread_revision s (r_tenant_id run) (r_thread_id run) + 1"
    using completed_state_effect(3) [OF inv rdy, where clk = clk and a = "r_tenant_id run" and b = "r_thread_id run"] r(1)
    by (simp add: t thread_revision_def upserted_def thread_key_def)
  from select_tenant_run [OF inv r(2)] r(1,3) show "\<exists>r. select_run (r_run_id run) s = Some r \<and>
      r_checkpoint_base_revision r = Some (thread_revision s (r_tenant_id run) (r_thread_id run))"
    by (auto simp: thread_key_def)
qed

lemma thread_revision_mono:
  assumes "evolves t u" and "store_inv u"
  shows "thread_revision t a b \<le> thread_revision u a b"
proof (cases "select_thread a b t")
  case None
  then show ?thesis using thread_revision_nonneg [OF assms(2)] by (simp add: thread_revision_def)
next
  case (Some x)
  with assms(1) obtain x' where "select_thread a b u = Some x'" "thread_evolves x x'"
    unfolding evolves_def by blast
  with Some show ?thesis by (simp add: thread_revision_def thread_evolves_def)
qed

section \<open>Conflict\<close>

definition conflict_row :: "int option \<Rightarrow> int \<Rightarrow> string \<Rightarrow> run_row \<Rightarrow> run_row" where
  "conflict_row expected observed at r = terminalize FAILED (Some THREAD_CHECKPOINT_CONFLICT_CODE)
     (Some (checkpoint_conflict_error expected observed)) at r"

definition conflict_log :: "string \<Rightarrow> string \<Rightarrow> int option \<Rightarrow> int \<Rightarrow> (string \<times> string \<times> json_text) list" where
  "conflict_log run_id phase expected observed =
     [(run_id, ''checkpoint.conflict'', Encoded (JObj [(''phase'', JStr phase),
        (''expected_revision'', jopt_int expected), (''observed_revision'', JInt observed)])),
      (run_id, ''run.failed'', Encoded (JObj [(''error_code'', JStr THREAD_CHECKPOINT_CONFLICT_CODE),
        (''error'', JStr (checkpoint_conflict_error expected observed))]))]"

lemma terminalize_keys [simp]:
  "r_run_id (terminalize st c e at r) = r_run_id r"
  "thread_key (terminalize st c e at r) = thread_key r"
  "client_key (terminalize st c e at r) = client_key r"
  by (simp_all add: terminalize_def clear_lease_def thread_key_def client_key_def)

lemma fail_conflict_effect:
  fixes run :: run_record
  assumes inv: "store_inv s" and sel: "select_run_for_tenant (r_run_id run) (r_tenant_id run) s = Some r"
    and r: "r_status r = RUNNING" "\<not> r_cancel_requested r" "current_lease token now_ms r"
  obtains t where "fail_checkpoint_conflict_with_connection clk (r_run_id run) (r_tenant_id run) token expected
      observed phase now_ms s = Inr (checkpoint_conflict_error expected observed, t)"
    and "select_run (r_run_id run) t = Some (conflict_row expected observed (clk 0) r)"
    and "\<And>other. other \<noteq> r_run_id run \<Longrightarrow> select_run other t = select_run other s"
    and "db_thread_states t = db_thread_states s"
    and "emits (conflict_log (r_run_id run) phase expected observed) s t"
proof -
  let ?p = "commit_where run token now_ms" and ?f = "conflict_row expected observed (clk 0)"
  let ?s1 = "s\<lparr>db_runs := sql_update ?p ?f (db_runs s)\<rparr>"
  from sel have mem: "r \<in> set (db_runs s)" "r_run_id r = r_run_id run" "?p r"
    using r by (auto dest: select_run_for_tenant_SomeD)
  have upd: "update_runs ?p ?f s = Inr (1, ?s1)"
    using mem r by (intro update_running [where r = r] inv) (auto simp: conflict_row_def)
  have hit: "select_run (r_run_id run) ?s1 = Some (?f r)"
    using select_run_mem [OF inv mem(1)] mem by (intro select_update_hit) (auto simp: conflict_row_def)
  have miss: "select_run other ?s1 = select_run other s" if "other \<noteq> r_run_id run" for other
    using that by (intro select_update_miss [where run_id = "r_run_id run"]) (auto simp: conflict_row_def)
  show ?thesis
    using upd hit miss unfolding conflict_row_def [abs_def]
    by (rule_tac that, simp add: fail_checkpoint_conflict_with_connection_def Let_def)
      (simp_all add: conflict_row_def conflict_log_def emits_def)
qed


lemma commit_completed_conflict:
  assumes inv: "store_inv s" and sel: "select_run_for_tenant (r_run_id run) (r_tenant_id run) s = Some r"
    and r: "r_status r = RUNNING" "\<not> r_cancel_requested r" "current_lease token now_ms r" "r_state run = Some st"
    and rev: "r_checkpoint_base_revision r \<noteq> Some (thread_revision s (r_tenant_id r) (r_thread_id r))"
  obtains t where "commit_completed_run M clk run token now_ms s = (Inr (CHECKPOINT_CONFLICT,
        terminalize FAILED (Some THREAD_CHECKPOINT_CONFLICT_CODE) (Some (checkpoint_conflict_error
          (r_checkpoint_base_revision r) (thread_revision s (r_tenant_id r) (r_thread_id r)))) (clk 0) run), t)"
    and "select_run (r_run_id run) t = Some (conflict_row (r_checkpoint_base_revision r)
        (thread_revision s (r_tenant_id r) (r_thread_id r)) (clk 0) r)"
    and "\<And>other. other \<noteq> r_run_id run \<Longrightarrow> select_run other t = select_run other s"
    and "db_thread_states t = db_thread_states s"
    and "emits (conflict_log (r_run_id run) ''completion'' (r_checkpoint_base_revision r)
        (thread_revision s (r_tenant_id r) (r_thread_id r))) s t"
proof -
  have tenant: "r_tenant_id r = r_tenant_id run" using sel by (auto dest: select_run_for_tenant_SomeD)
  obtain t where t: "fail_checkpoint_conflict_with_connection clk (r_run_id run) (r_tenant_id run) token
      (r_checkpoint_base_revision r) (thread_revision s (r_tenant_id r) (r_thread_id r)) ''completion'' now_ms s =
      Inr (checkpoint_conflict_error (r_checkpoint_base_revision r) (thread_revision s (r_tenant_id r) (r_thread_id r)), t)"
    "select_run (r_run_id run) t = Some (conflict_row (r_checkpoint_base_revision r)
        (thread_revision s (r_tenant_id r) (r_thread_id r)) (clk 0) r)"
    "\<And>other. other \<noteq> r_run_id run \<Longrightarrow> select_run other t = select_run other s"
    "db_thread_states t = db_thread_states s"
    "emits (conflict_log (r_run_id run) ''completion'' (r_checkpoint_base_revision r)
        (thread_revision s (r_tenant_id r) (r_thread_id r))) s t"
    by (rule fail_conflict_effect [OF inv sel r(1-3), where clk = clk and expected = "r_checkpoint_base_revision r"
        and observed = "thread_revision s (r_tenant_id r) (r_thread_id r)" and phase = "''completion''"])
      (rule that)
  show ?thesis
    using sel r rev t tenant
    by (intro that [OF _ t(2-5)]) (simp add: commit_completed_run_def Let_def apply_checkpoint_conflict_to_run_def)
qed

section \<open>Renewal\<close>

lemma renew_effect:
  assumes inv: "store_inv s" and sel: "select_run run_id s = Some r" "r_status r = RUNNING" "current_lease token now_ms r"
    and args: "token \<noteq> []" "0 < dur"
  obtains t where "renew_run_lease clk run_id token dur now_ms s = (Inr True, t)"
    and "select_run run_id t = Some (r\<lparr>r_lease_heartbeat_at := Some now_ms,
      r_lease_expires_at := Some (now_ms + dur * 1000), r_updated_at := clk 0\<rparr>)"
    and "\<And>other. other \<noteq> run_id \<Longrightarrow> select_run other t = select_run other s"
    and "db_thread_states t = db_thread_states s" and "db_run_events t = db_run_events s"
proof -
  let ?p = "\<lambda>r. r_run_id r = run_id \<and> r_status r = RUNNING \<and> current_lease token now_ms r"
  let ?f = "\<lambda>r. r\<lparr>r_lease_heartbeat_at := Some now_ms,
      r_lease_expires_at := Some (now_ms + dur * 1000), r_updated_at := clk 0\<rparr>"
  from sel have mem: "r \<in> set (db_runs s)" "r_run_id r = run_id" "?p r" by (auto dest: select_run_SomeD)
  have upd: "update_runs ?p ?f s = Inr (1, s\<lparr>db_runs := sql_update ?p ?f (db_runs s)\<rparr>)"
    using mem by (intro update_running [where r = r] inv) (auto simp: thread_key_def client_key_def)
  have hit: "select_run run_id (s\<lparr>db_runs := sql_update ?p ?f (db_runs s)\<rparr>) = Some (?f r)"
    using sel mem by (intro select_update_hit) auto
  have miss: "select_run other (s\<lparr>db_runs := sql_update ?p ?f (db_runs s)\<rparr>) = select_run other s"
    if "other \<noteq> run_id" for other
    using that by (intro select_update_miss [where run_id = run_id]) auto
  show ?thesis
    using upd hit miss args by (rule_tac that, simp add: renew_run_lease_def) simp_all
qed


section \<open>Cancellation\<close>

lemma unique_tenant_row:
  assumes "store_inv s" "select_run_for_tenant run_id tenant_id s = Some r" "x \<in> set (db_runs s)" "r_run_id x = run_id"
  shows "x = r"
  using assms key_unique [OF store_inv_distinct] by (auto dest!: select_run_for_tenant_SomeD)

lemma select_tenant_update_hit:
  assumes "\<And>x. p x \<Longrightarrow> r_run_id (f x) = r_run_id x \<and> r_tenant_id (f x) = r_tenant_id x"
  shows "select_run_for_tenant run_id tenant_id (s\<lparr>db_runs := sql_update p f (db_runs s)\<rparr>) =
    map_option (\<lambda>r. if p r then f r else r) (select_run_for_tenant run_id tenant_id s)"
proof -
  have "fetchone (\<lambda>r. r_run_id r = run_id \<and> r_tenant_id r = tenant_id) (sql_update p f rows) =
    map_option (\<lambda>r. if p r then f r else r) (fetchone (\<lambda>r. r_run_id r = run_id \<and> r_tenant_id r = tenant_id) rows)" for rows
    using assms by (induction rows) auto
  then show ?thesis by (simp add: select_run_for_tenant_def)
qed

lemma request_cancel_unknown:
  assumes "select_run_for_tenant run_id tenant_id s = None"
  shows "request_cancel_atomically M clk run_id tenant_id s = (Inl (KeyError (''Run not found: '' @ run_id)), s)"
proof -
  have "update_runs (\<lambda>r. r_run_id r = run_id \<and> r_tenant_id r = tenant_id \<and> r_status r \<in> {QUEUED, RUNNING}
      \<and> \<not> r_cancel_requested r) f s = Inr (0, s)" for f
    using assms by (intro update_stale) (auto simp: select_run_for_tenant_def fetchone_None_iff)
  with assms show ?thesis by (simp add: request_cancel_atomically_def)
qed

lemma request_cancel_noop:
  assumes "store_inv s" "select_run_for_tenant run_id tenant_id s = Some r"
    and "is_terminal (r_status r) \<or> r_cancel_requested r"
  shows "request_cancel_atomically M clk run_id tenant_id s = (row_to_run M r, s)"
proof -
  have no: "\<not> (r_run_id x = run_id \<and> r_tenant_id x = tenant_id \<and> r_status x \<in> {QUEUED, RUNNING} \<and> \<not> r_cancel_requested x)"
    if "x \<in> set (db_runs s)" for x
    using unique_tenant_row [OF assms(1,2) that] assms(3) not_terminal_iff by blast
  have "update_runs (\<lambda>r. r_run_id r = run_id \<and> r_tenant_id r = tenant_id \<and> r_status r \<in> {QUEUED, RUNNING}
      \<and> \<not> r_cancel_requested r) f s = Inr (0, s)" for f
    using no by (rule update_stale)
  with assms show ?thesis by (simp add: request_cancel_atomically_def)
qed

lemma request_cancel_effect:
  fixes clk
  assumes inv: "store_inv s" and sel: "select_run_for_tenant run_id tenant_id s = Some r"
    and r: "\<not> is_terminal (r_status r)" "\<not> r_cancel_requested r"
  defines "r' \<equiv> r\<lparr>r_cancel_requested := True, r_updated_at := clk 0\<rparr>"
  obtains t where "request_cancel_atomically M clk run_id tenant_id s = (row_to_run M r', t)"
    and "select_run_for_tenant run_id tenant_id t = Some r'"
    and "\<And>other. other \<noteq> run_id \<Longrightarrow> select_run other t = select_run other s"
    and "db_thread_states t = db_thread_states s"
    and "emits [(run_id, ''run.cancel_requested'', Encoded (JObj [(''status'', JStr (status_value (r_status r)))]))] s t"
proof -
  let ?p = "\<lambda>r. r_run_id r = run_id \<and> r_tenant_id r = tenant_id \<and> (r_status r = QUEUED \<or> r_status r = RUNNING)
      \<and> \<not> r_cancel_requested r"
  let ?f = "\<lambda>r. r\<lparr>r_cancel_requested := True, r_updated_at := clk 0\<rparr>"
  let ?s1 = "s\<lparr>db_runs := sql_update ?p ?f (db_runs s)\<rparr>"
  from sel r have mem: "r \<in> set (db_runs s)" "r_run_id r = run_id" "?p r"
    by (auto simp: not_terminal_iff dest: select_run_for_tenant_SomeD)
  have "update_runs ?p ?f s = Inr (1, ?s1)"
    using mem thread_running_unique [OF inv _ mem(1)]
    by (intro update_one [where r = r] inv) (auto simp: thread_key_def client_key_def)
  moreover have "select_run run_id ?s1 = Some r'"
    unfolding r'_def using select_run_mem [OF inv mem(1)] mem(2,3) by (intro select_update_hit) auto
  moreover have "select_run_for_tenant run_id tenant_id ?s1 = Some r'"
    using sel mem(3) by (subst select_tenant_update_hit) (auto simp: r'_def)
  moreover have "select_run other ?s1 = select_run other s" if "other \<noteq> run_id" for other
    using that by (intro select_update_miss [where run_id = run_id]) auto
  ultimately show ?thesis
    by (rule_tac that, simp add: request_cancel_atomically_def) (simp_all add: emits_def r'_def)
qed

lemma completion_after_cancel:
  assumes "select_run_for_tenant (r_run_id run) (r_tenant_id run) s = Some r" "r_status r = RUNNING"
    and "r_cancel_requested r" "current_lease token now_ms r"
  shows "commit_completed_run M clk run token now_ms s = (Inr (CANCEL_REQUESTED, run), s)"
  using assms by (simp add: commit_completed_run_def classify_commit_outcome_def)

lemma commit_cancelled_effect:
  assumes inv: "store_inv s" and sel: "select_run_for_tenant (r_run_id run) (r_tenant_id run) s = Some r"
    and r: "r_status r = RUNNING" "r_cancel_requested r" "current_lease token now_ms r"
    and same: "r_thread_id run = r_thread_id r" "r_client_request_id run = r_client_request_id r"
  obtains t r' where "commit_cancelled_run clk run reason token now_ms s =
        (Inr (COMMITTED, (terminalize CANCELLED None None (clk 0) run)\<lparr>r_cancel_requested := True\<rparr>), t)"
    and "select_run (r_run_id run) t = Some r'" and "r_status r' = CANCELLED" and "lease_cleared r'"
    and "db_thread_states t = db_thread_states s"
    and "emits [(r_run_id run, ''run.cancelled'', Encoded (JObj [(''reason'', JStr reason)]))] s t"
proof -
  let ?p = "\<lambda>r. r_run_id r = r_run_id run \<and> r_tenant_id r = r_tenant_id run
            \<and> (r_status r = QUEUED \<or> r_status r = RUNNING) \<and> r_cancel_requested r \<and> current_lease token now_ms r"
  let ?f = "\<lambda>r::run_row. clear_lease (r\<lparr>r_execution_authority := r_execution_authority run,
             r_thread_id := r_thread_id run, r_agent_id := r_agent_id run,
             r_agent_version := r_agent_version run, r_domain_id := r_domain_id run,
             r_schema_version := r_schema_version run, r_status := CANCELLED,
             r_input_message := legacy_input_message (r_input run), r_input_json := Some (r_input run),
             r_state_json := map_option model_dump (r_state run),
             r_output_message := r_output_message run,
             r_validation_errors := r_validation_errors run, r_error_code := None, r_error := None,
             r_attempt := r_attempt run, r_cancel_requested := True,
             r_client_request_id := r_client_request_id run, r_created_at := r_created_at run,
             r_updated_at := clk 0, r_started_at := r_started_at run, r_completed_at := Some (clk 0)\<rparr>)"
  let ?s1 = "s\<lparr>db_runs := sql_update ?p ?f (db_runs s)\<rparr>"
  from sel r have mem: "r \<in> set (db_runs s)" "r_run_id r = r_run_id run" "?p r"
    by (auto dest: select_run_for_tenant_SomeD)
  have "update_runs ?p ?f s = Inr (1, ?s1)"
    using mem same by (intro update_one [where r = r] inv) (auto simp: thread_key_def client_key_def clear_lease_def)
  moreover have "select_run (r_run_id run) ?s1 = Some (?f r)"
    using select_run_mem [OF inv mem(1)] mem(2,3) by (intro select_update_hit) (auto simp: clear_lease_def)
  ultimately show ?thesis
    by (rule_tac that, simp add: commit_cancelled_run_def, simp) (simp_all add: emits_def clear_lease_def lease_cleared_def)
qed

end
