(* ===== verification/Run_Examples.thy ===== *)
theory Run_Examples
  imports Commit_Effects
begin

text \<open>
  A small execution of the run store, evaluated inside the logic: a run is created, claimed,
  cancelled or completed, and a second run follows it on the same thread. The states are the
  concrete inputs at which the properties are applied.
\<close>

definition ex_models :: models where
  "ex_models = \<lparr>m_registered = (\<lambda>_ _. True), m_validate = (\<lambda>d v j. Some \<lparr>st_domain_id = d, st_schema_version = v,
     st_thread_id = sj_thread_id j, st_execution_trace = sj_execution_trace j, st_fields = sj_fields j\<rparr>)\<rparr>"

definition ex_clk :: "nat \<Rightarrow> string" where
  "ex_clk n = ''t''"

definition ex_run :: "string \<Rightarrow> string \<Rightarrow> run_record" where
  "ex_run run_id created_at = \<lparr>r_run_id = run_id, r_tenant_id = ''T'', r_execution_authority = None, r_thread_id = ''th'',
     r_agent_id = ''a'', r_agent_version = ''1'', r_domain_id = ''d'', r_schema_version = ''v'', r_status = QUEUED,
     r_output_message = None, r_validation_errors = [], r_error_code = None, r_error = None, r_attempt = 0,
     r_cancel_requested = False, r_client_request_id = Some run_id, r_created_at = created_at, r_updated_at = created_at,
     r_started_at = None, r_completed_at = None, r_lease_owner_id = None, r_lease_token = None,
     r_lease_heartbeat_at = None, r_lease_expires_at = None, r_checkpoint_base_revision = None,
     r_input = [], r_state = None\<rparr>"

definition ex_state :: rt_state where
  "ex_state = \<lparr>st_domain_id = ''d'', st_schema_version = ''v'', st_thread_id = ''th'',
     st_execution_trace = [\<lparr>te_event = ''e'', te_reason = '''', te_payload = JNull, te_timestamp = ''t''\<rparr>], st_fields = []\<rparr>"

definition ex_queued :: db where
  "ex_queued = snd (create_run_with_event ex_clk (ex_run ''r1'' ''1'') ''run.queued'' [] empty_db)"

definition ex_two :: db where
  "ex_two = snd (create_run_with_event ex_clk (ex_run ''r2'' ''2'') ''run.queued'' [] ex_queued)"

definition ex_running :: db where
  "ex_running = snd (claim_next_run ex_models ex_clk ''tok'' ''w'' 30 None 1000 ex_two)"

definition ex_result :: "string \<Rightarrow> run_record" where
  "ex_result run_id = (ex_run run_id ''1'')\<lparr>r_state := Some ex_state, r_output_message := Some ''ok''\<rparr>"

definition ex_done :: db where
  "ex_done = snd (commit_completed_run ex_models ex_clk (ex_result ''r1'') ''tok'' 2000 ex_running)"

definition ex_cancelling :: db where
  "ex_cancelling = snd (request_cancel_atomically ex_models ex_clk ''r1'' ''T'' ex_running)"

definition ex_second :: db where
  "ex_second = snd (claim_next_run ex_models ex_clk ''tok2'' ''w'' 30 None 3000 ex_done)"

definition is_committed :: "(commit_outcome \<times> 'r) store_outcome \<Rightarrow> bool" where
  "is_committed res \<longleftrightarrow> (case fst res of Inr (COMMITTED, x) \<Rightarrow> True | _ \<Rightarrow> False)"

lemma is_committed_iff: "is_committed res \<longleftrightarrow> (\<exists>x. res = (Inr (COMMITTED, x), snd res))"
  by (cases res) (auto simp: is_committed_def split: sum.splits commit_outcome.splits)

lemma ex_reachable:
  "store_reachable ex_queued" "store_reachable ex_two" "store_reachable ex_running" "store_reachable ex_done"
  "store_reachable ex_cancelling"
proof -
  have valid: "record_fields_valid (ex_run a b)" for a b
    by (simp add: record_fields_valid_def ex_run_def)
  show q: "store_reachable ex_queued"
    unfolding ex_queued_def by (intro store_tx [OF tx_start] store_step.create_with_event valid)
  show two: "store_reachable ex_two"
    unfolding ex_two_def by (intro store_tx [OF q] store_step.create_with_event valid)
  show run: "store_reachable ex_running"
    unfolding ex_running_def by (intro store_tx [OF two] store_step.claim)
  show "store_reachable ex_done"
    unfolding ex_done_def by (intro store_tx [OF run] store_step.completed)
  show "store_reachable ex_cancelling"
    unfolding ex_cancelling_def by (intro store_tx [OF run] store_step.request_cancel)
qed

lemma ex_later_second: "later ex_done ex_second"
  unfolding ex_second_def by (intro later_one system_step.run_store store_step.claim)


text \<open>
  A seeded run that an older run of the same thread overtakes: when it is claimed its base
  revision 0 is behind the thread's revision 1.
\<close>

definition ex_seeded :: db where
  "ex_seeded = snd (create_run_with_event ex_clk ((ex_run ''r3'' ''9'')\<lparr>r_state := Some ex_state\<rparr>) ''run.queued'' [] empty_db)"

definition ex_overtaken :: db where
  "ex_overtaken = snd (claim_next_run ex_models ex_clk ''tok2'' ''w'' 30 None 3000
     (snd (commit_completed_run ex_models ex_clk (ex_result ''r1'') ''tok'' 2000
       (snd (claim_next_run ex_models ex_clk ''tok'' ''w'' 30 None 1000
         (snd (create_run_with_event ex_clk (ex_run ''r1'' ''1'') ''run.queued'' [] ex_seeded)))))))"

lemma ex_overtaken_reachable: "store_reachable ex_overtaken"
proof -
  have valid: "record_fields_valid (ex_run a b)" "record_fields_valid ((ex_run a b)\<lparr>r_state := x\<rparr>)" for a b x
    by (simp_all add: record_fields_valid_def ex_run_def)
  show ?thesis
    unfolding ex_overtaken_def ex_seeded_def
    by (rule store_tx, rule store_tx, rule store_tx, rule store_tx, rule store_tx, rule tx_start)
      (rule store_step.create_with_event store_step.claim store_step.completed valid)+
qed

end
