(* ===== verification/Run_Properties.thy ===== *)
theory Run_Properties
  imports Run_Examples
begin

text \<open>
  The correctness properties of the run store: its invariant along every execution, exclusive
  ownership of a thread, lease fencing, what claims, renewals, commits and cancellations do on
  every branch, and the event log. Each property with hypotheses is applied to a state of
  the example execution.
\<close>

section \<open>Invariant and ownership\<close>

text \<open>
  C1. Invariant. After any sequence of transactions by any number of managers, request handlers
  and operators, in any order and at any clock readings, the tables are well formed: keys are
  unique, lease columns are set together and only on running runs, a running run has a base
  revision not beyond its thread's revision, a run has a completion time exactly when it is
  terminal, and every run's events are numbered 1, 2, 3, ... without a gap.
\<close>

theorem reachable_store_inv: "store_reachable s \<Longrightarrow> store_inv s"
  by (rule reachable_inv)

theorem reachable_store_inv_witness: "store_inv ex_done"
  by (rule reachable_store_inv) (rule ex_reachable)

section \<open>Fencing\<close>

text \<open>
  C2. Fencing. A worker whose token is not the current, unexpired lease token of a running run
  changes nothing: completion, failure, cancellation, the reconciliation marker, both
  dispositions of a checkpoint conflict, renewal and attempt events all leave the database as
  it is, and none of them reports success: no commit comes back as committed (nor as a recorded
  checkpoint conflict), the renewal is refused and the event append raises.
\<close>

theorem stale_attempt_writes_nothing:
  assumes "store_reachable s" and "\<not> holds_lease (r_run_id run) token now_ms s"
  shows "snd (commit_completed_run M clk run token now_ms s) = s
    \<and> snd (commit_failed_run clk run token code err tb allow now_ms s) = s
    \<and> snd (commit_cancelled_run clk run reason token now_ms s) = s
    \<and> snd (commit_reconciliation_pending clk (r_run_id run) tenant_id token code err now_ms s) = s
    \<and> snd (commit_checkpoint_conflict clk run token phase now_ms s) = s
    \<and> snd (quarantine_checkpoint_conflict_for_reconciliation clk run token phase now_ms s) = s
    \<and> snd (renew_run_lease clk (r_run_id run) token dur now_ms s) = s
    \<and> snd (append_attempt_event clk (r_run_id run) (Some token) event_type payload now_ms s) = s
    \<and> (\<forall>x. fst (commit_completed_run M clk run token now_ms s) = Inr x \<longrightarrow> \<not> commit_success x)
    \<and> (\<forall>x. fst (commit_failed_run clk run token code err tb allow now_ms s) = Inr x \<longrightarrow> \<not> commit_success x)
    \<and> (\<forall>x. fst (commit_cancelled_run clk run reason token now_ms s) = Inr x \<longrightarrow> \<not> commit_success x)
    \<and> fst (commit_reconciliation_pending clk (r_run_id run) tenant_id token code err now_ms s) \<noteq> Inr COMMITTED
    \<and> (\<forall>x. fst (commit_checkpoint_conflict clk run token phase now_ms s) = Inr x \<longrightarrow> \<not> commit_success x)
    \<and> (\<forall>x. fst (quarantine_checkpoint_conflict_for_reconciliation clk run token phase now_ms s) = Inr x \<longrightarrow> \<not> commit_success x)
    \<and> fst (renew_run_lease clk (r_run_id run) token dur now_ms s) \<noteq> Inr True
    \<and> (\<forall>e. fst (append_attempt_event clk (r_run_id run) (Some token) event_type payload now_ms s) \<noteq> Inr e)"
  using assms reachable_inv [of s] completed.stale failed.stale cancelled.stale pending.stale conflict.stale
    quarantined.stale renewed.stale attempt_event.stale
  by (intro conjI) metis+

theorem stale_attempt_writes_nothing_witness:
  "snd (commit_completed_run ex_models ex_clk (ex_result ''r1'') ''old'' 2000 ex_running) = ex_running"
proof -
  have "\<not> holds_lease (r_run_id (ex_result ''r1'')) ''old'' 2000 ex_running" by code_simp
  with stale_attempt_writes_nothing [OF ex_reachable(3)] show ?thesis by blast
qed

text \<open>
  C25. Terminal runs are final. Once a run is completed, failed or cancelled its row is never
  changed again by any later transaction of any worker, operator or client.
\<close>

theorem terminal_run_is_final:
  assumes "store_reachable s" and "select_run run_id s = Some r" and "is_terminal (r_status r)" and "later s t"
  shows "select_run run_id t = Some r"
proof -
  from assms(1,4) have "evolves s t" by (meson later_evolves)
  with assms(2,3) show ?thesis unfolding evolves_def row_evolves_def by metis
qed

theorem terminal_run_is_final_witness:
  "select_run ''r1'' (snd (request_cancel_atomically ex_models ex_clk ''r1'' ''T'' ex_done)) = select_run ''r1'' ex_done"
proof -
  have "select_run ''r1'' ex_done = Some (hd (db_runs ex_done))" "is_terminal (r_status (hd (db_runs ex_done)))"
    by code_simp+
  with terminal_run_is_final [OF ex_reachable(4) _ _ later_one [OF system_step.run_store [OF store_step.request_cancel]]]
  show ?thesis by metis
qed

section \<open>Claims\<close>

text \<open>
  C15. Progress of claims. A claim comes back empty exactly when no run is eligible; when some
  run is eligible and the stored states still parse, the claim succeeds. In particular the
  claim never violates the one-running-run-per-thread index.
\<close>

theorem claim_progress:
  assumes "store_reachable s" and "owner \<noteq> []" and "0 < dur"
    and "\<forall>r\<in>set (db_runs s). \<exists>st. deserialize_state M r = Inr st"
  shows "claim_next_run M clk token owner dur pend now_ms s = (Inr None, s) \<and> (\<forall>r\<in>set (db_runs s). \<not> eligible now_ms s r)
    \<or> (\<exists>c t. claim_next_run M clk token owner dur pend now_ms s = (Inr (Some c), t)) \<and> (\<exists>r\<in>set (db_runs s). eligible now_ms s r)"
proof (cases "claim_candidate now_ms s")
  case None
  then have "\<forall>r\<in>set (db_runs s). \<not> eligible now_ms s r"
    by (simp add: claim_candidate_def select_first_None_iff)
  with None show ?thesis
    using claim_next_run_cases(1) [OF reachable_inv [OF assms(1)] assms(2,3)] by blast
next
  case (Some r)
  then have r: "r \<in> set (db_runs s)" "eligible now_ms s r"
    by (auto simp: claim_candidate_def dest: select_first_SomeD(1,2))
  with assms(4) obtain st where "deserialize_state M r = Inr st" by blast
  from claim_row_to_run [OF reachable_inv [OF assms(1)] r assms(3) this]
  obtain run where "row_to_run M (claim_set clk token owner dur pend now_ms s r) = Inr run" by blast
  from claim_next_run_cases(3) [OF reachable_inv [OF assms(1)] assms(2,3) Some this] r show ?thesis by blast
qed

theorem claim_progress_witness:
  "\<exists>c t. claim_next_run ex_models ex_clk ''tok'' ''w'' 30 None 1000 ex_two = (Inr (Some c), t)"
proof -
  have "list_all (\<lambda>r. r_state_json r = None) (db_runs ex_two)" by code_simp
  then have "\<forall>r\<in>set (db_runs ex_two). \<exists>st. deserialize_state ex_models r = Inr st"
    by (auto simp: list_all_iff deserialize_state_def)
  moreover have "\<not> list_all (\<lambda>r. \<not> eligible 1000 ex_two r) (db_runs ex_two)" by code_simp
  ultimately show ?thesis
    using claim_progress [OF ex_reachable(2), of "''w''" 30 ex_models ex_clk "''tok''" None 1000]
    by (auto simp: list_all_iff)
qed

text \<open>
  Renewal. Renewal succeeds exactly when the token is non-empty, the duration positive and
  the lease still current; it moves the deadline to the store's clock plus the duration and
  writes nothing else but the heartbeat and the update time. An expired lease is never revived.
\<close>

theorem renew_exactly_current_leases:
  assumes "store_reachable s"
  shows "(fst (renew_run_lease clk run_id token dur now_ms s) = Inr True \<longleftrightarrow>
       token \<noteq> [] \<and> 0 < dur \<and> holds_lease run_id token now_ms s)
    \<and> (\<forall>r. token \<noteq> [] \<and> 0 < dur \<and> holds_lease run_id token now_ms s \<and> select_run run_id s = Some r \<longrightarrow>
       select_run run_id (snd (renew_run_lease clk run_id token dur now_ms s)) = Some (r\<lparr>r_lease_heartbeat_at := Some now_ms,
         r_lease_expires_at := Some (now_ms + dur * 1000), r_updated_at := clk 0\<rparr>))
    \<and> (\<not> holds_lease run_id token now_ms s \<longrightarrow> snd (renew_run_lease clk run_id token dur now_ms s) = s)"
proof -
  from assms have inv: "store_inv s" by (rule reachable_inv)
  have eff: "fst (renew_run_lease clk run_id token dur now_ms s) = Inr True \<and>
      select_run run_id (snd (renew_run_lease clk run_id token dur now_ms s)) = Some (r\<lparr>r_lease_heartbeat_at := Some now_ms,
         r_lease_expires_at := Some (now_ms + dur * 1000), r_updated_at := clk 0\<rparr>)"
    if "token \<noteq> [] \<and> 0 < dur \<and> holds_lease run_id token now_ms s" "select_run run_id s = Some r" for r
  proof -
    from that have "r_status r = RUNNING" "current_lease token now_ms r" by (simp_all add: holds_lease_def)
    from renew_effect [OF inv that(2) this, of dur clk] that(1) show ?thesis by (metis fst_conv snd_conv)
  qed
  have "token \<noteq> [] \<and> 0 < dur" if "fst (renew_run_lease clk run_id token dur now_ms s) = Inr True"
    using that by (auto simp: renew_run_lease_def split: if_splits)
  moreover have "holds_lease run_id token now_ms s" if "fst (renew_run_lease clk run_id token dur now_ms s) = Inr True"
    using that renewed.stale [OF inv] by blast
  moreover have "\<exists>r. select_run run_id s = Some r" if "holds_lease run_id token now_ms s"
    using that by (auto simp: holds_lease_iff)
  ultimately show ?thesis
    using eff renewed.stale [OF inv, of run_id token now_ms clk dur] by blast
qed

theorem renew_exactly_current_leases_witness:
  "fst (renew_run_lease ex_clk ''r1'' ''tok'' 30 2000 ex_running) = Inr True"
proof -
  have "holds_lease ''r1'' ''tok'' 2000 ex_running" by code_simp
  with renew_exactly_current_leases [OF ex_reachable(3), of ex_clk "''r1''" "''tok''" 30 2000] show ?thesis by simp
qed

section \<open>Checkpoints\<close>

text \<open>
  C3. Completion. A completion commits exactly when the caller holds the current lease of a
  running run without a cancellation request, brings a state whose thread, domain and schema
  are the persisted ones, the thread's revision is still the run's base revision, the thread is
  bound to no other schema and the projected state validates. It then, in one transaction,
  completes the run with the full state and no lease, installs the projected checkpoint
  under the next revision, touches no other run or thread, and logs both events.
\<close>

theorem completion_commits_exactly_when_ready:
  assumes "store_reachable s"
  shows "((\<exists>x t. commit_completed_run M clk run token now_ms s = (Inr (COMMITTED, x), t)) \<longleftrightarrow>
       (\<exists>r st projected. ready_to_complete M run token now_ms s r st projected))
    \<and> (\<forall>r st projected x t. ready_to_complete M run token now_ms s r st projected \<longrightarrow>
         commit_completed_run M clk run token now_ms s = (x, t) \<longrightarrow>
         select_run (r_run_id run) t = Some (completed_row (clk 0) run st r)
         \<and> (\<forall>other. other \<noteq> r_run_id run \<longrightarrow> select_run other t = select_run other s)
         \<and> (\<forall>a b. select_thread a b t = (if (a, b) = thread_key r
              then Some (upserted (r_tenant_id r) (r_thread_id r) (r_domain_id r) (r_schema_version r)
                (model_dump projected) (clk 0) s) else select_thread a b s))
         \<and> emits (completion_log run st projected (thread_revision s (r_tenant_id r) (r_thread_id r))) s t)"
proof -
  from assms have inv: "store_inv s" by (rule reachable_inv)
  show ?thesis
    using commit_completed_needs commit_completed_commits [OF inv] completed_state_effect [OF inv]
    by (intro conjI allI impI iffI) (fastforce | blast)+
qed


theorem completion_commits_exactly_when_ready_witness:
  "\<exists>x t. commit_completed_run ex_models ex_clk (ex_result ''r1'') ''tok'' 2000 ex_running = (Inr (COMMITTED, x), t)"
proof -
  have "ready_to_complete ex_models (ex_result ''r1'') ''tok'' 2000 ex_running (hd (db_runs ex_running)) ex_state
      (ex_state\<lparr>st_execution_trace := []\<rparr>)"
    by code_simp
  with completion_commits_exactly_when_ready [OF ex_reachable(3), of ex_models ex_clk "ex_result ''r1''" "''tok''" 2000]
  show ?thesis by blast
qed

text \<open>
  C14. No lost update. If one completion commits on a thread and another commits on the same
  thread at any later time, the second run's base revision is the thread's revision at its own
  commit and at least the revision the first one installed: the later checkpoint was computed
  from a state that already contains the earlier one, never from the state before it.
\<close>

theorem completions_never_lose_updates:
  assumes "store_reachable s" and "commit_completed_run M clk run token now_ms s = (Inr (COMMITTED, x), t)"
    and "later t u" and "commit_completed_run M' clk' run' token' now_ms' u = (Inr (COMMITTED, x'), v)"
    and "thread_key run' = thread_key run"
  shows "thread_revision t (r_tenant_id run) (r_thread_id run) = thread_revision s (r_tenant_id run) (r_thread_id run) + 1
    \<and> thread_revision v (r_tenant_id run) (r_thread_id run) = thread_revision u (r_tenant_id run) (r_thread_id run) + 1
    \<and> (\<exists>r' b. select_run (r_run_id run') u = Some r' \<and> r_checkpoint_base_revision r' = Some b
         \<and> thread_revision t (r_tenant_id run) (r_thread_id run) \<le> b
         \<and> b = thread_revision u (r_tenant_id run) (r_thread_id run))"
proof -
  from assms(1) have s: "store_inv s" by (rule reachable_inv)
  have "store_step s t" using store_step.completed [of s M clk run token now_ms] assms(2) by simp
  then have t: "store_reachable t" by (rule store_tx [OF assms(1)])
  with assms(3) have u: "store_inv u" and ev: "evolves t u"
    by (auto intro: reachable_inv reachable_later later_evolves)
  note first = completion_revision [OF s assms(2)] and second = completion_revision [OF u assms(4)]
  have "thread_revision t (r_tenant_id run) (r_thread_id run) \<le> thread_revision u (r_tenant_id run) (r_thread_id run)"
    by (rule thread_revision_mono [OF ev u])
  with first second assms(5) show ?thesis by (auto simp: thread_key_def)
qed


theorem completions_never_lose_updates_witness:
  "thread_revision ex_done ''T'' ''th'' = thread_revision ex_running ''T'' ''th'' + 1"
proof -
  have "is_committed (commit_completed_run ex_models ex_clk (ex_result ''r1'') ''tok'' 2000 ex_running)"
    "is_committed (commit_completed_run ex_models ex_clk (ex_result ''r2'') ''tok2'' 4000 ex_second)" by code_simp+
  then obtain x x' v where "commit_completed_run ex_models ex_clk (ex_result ''r1'') ''tok'' 2000 ex_running = (Inr (COMMITTED, x), ex_done)"
    "commit_completed_run ex_models ex_clk (ex_result ''r2'') ''tok2'' 4000 ex_second = (Inr (COMMITTED, x'), v)"
    unfolding is_committed_iff ex_done_def by auto
  from completions_never_lose_updates [OF ex_reachable(3) this(1) ex_later_second this(2)] show ?thesis
    by (simp add: thread_key_def ex_result_def ex_run_def)
qed

text \<open>
  Checkpoint conflicts. When the thread's revision is no longer the run's base revision, a
  completion by the lease holder does not write the checkpoint: it fails the run with the
  conflict code and the expected and observed revisions, clears its lease, changes no other run
  and no thread, and logs the conflict and the failure.
\<close>

theorem stale_base_revision_fails_the_run:
  assumes "store_reachable s" and "select_run_for_tenant (r_run_id run) (r_tenant_id run) s = Some r"
    and "r_status r = RUNNING" and "\<not> r_cancel_requested r" and "current_lease token now_ms r"
    and "r_state run = Some st"
    and "r_checkpoint_base_revision r \<noteq> Some (thread_revision s (r_tenant_id r) (r_thread_id r))"
  shows "\<exists>x t. commit_completed_run M clk run token now_ms s = (Inr (CHECKPOINT_CONFLICT, x), t)
    \<and> select_run (r_run_id run) t = Some (conflict_row (r_checkpoint_base_revision r)
        (thread_revision s (r_tenant_id r) (r_thread_id r)) (clk 0) r)
    \<and> (\<forall>other. other \<noteq> r_run_id run \<longrightarrow> select_run other t = select_run other s)
    \<and> db_thread_states t = db_thread_states s
    \<and> emits (conflict_log (r_run_id run) ''completion'' (r_checkpoint_base_revision r)
        (thread_revision s (r_tenant_id r) (r_thread_id r))) s t"
  by (rule commit_completed_conflict [OF reachable_inv [OF assms(1)] assms(2-7), where M = M and clk = clk]) blast


theorem stale_base_revision_fails_the_run_witness:
  "\<exists>x t. commit_completed_run ex_models ex_clk (ex_result ''r3'') ''tok2'' 4000 ex_overtaken = (Inr (CHECKPOINT_CONFLICT, x), t)"
proof -
  let ?r = "hd (db_runs ex_overtaken)"
  have "select_run_for_tenant (r_run_id (ex_result ''r3'')) (r_tenant_id (ex_result ''r3'')) ex_overtaken = Some ?r"
    "r_status ?r = RUNNING" "\<not> r_cancel_requested ?r" "current_lease ''tok2'' 4000 ?r" "r_state (ex_result ''r3'') = Some ex_state"
    "r_checkpoint_base_revision ?r \<noteq> Some (thread_revision ex_overtaken (r_tenant_id ?r) (r_thread_id ?r))"
    by code_simp+
  from stale_base_revision_fails_the_run [OF ex_overtaken_reachable this] show ?thesis by blast
qed

section \<open>Cancellation\<close>

text \<open>
  Cancellation requests. For an unknown run or another tenant's run the request raises and
  changes nothing; on a terminal run or a repeated request it changes nothing; otherwise it
  sets the flag and logs one event with the status it found. Repeating a request is therefore
  harmless: the second call leaves the state the first one made.
\<close>

theorem cancel_request_is_idempotent:
  assumes "store_reachable s"
  shows "(select_run_for_tenant run_id tenant_id s = None \<longrightarrow>
       request_cancel_atomically M clk run_id tenant_id s = (Inl (KeyError (''Run not found: '' @ run_id)), s))
    \<and> (\<forall>r. select_run_for_tenant run_id tenant_id s = Some r \<and> (is_terminal (r_status r) \<or> r_cancel_requested r) \<longrightarrow>
       request_cancel_atomically M clk run_id tenant_id s = (row_to_run M r, s))
    \<and> (\<forall>r t. select_run_for_tenant run_id tenant_id s = Some r \<and> \<not> is_terminal (r_status r) \<and> \<not> r_cancel_requested r \<and>
         t = snd (request_cancel_atomically M clk run_id tenant_id s) \<longrightarrow>
       select_run_for_tenant run_id tenant_id t = Some (r\<lparr>r_cancel_requested := True, r_updated_at := clk 0\<rparr>)
       \<and> db_thread_states t = db_thread_states s
       \<and> emits [(run_id, ''run.cancel_requested'', Encoded (JObj [(''status'', JStr (status_value (r_status r)))]))] s t)
    \<and> snd (request_cancel_atomically M' clk' run_id tenant_id (snd (request_cancel_atomically M clk run_id tenant_id s)))
       = snd (request_cancel_atomically M clk run_id tenant_id s)"
proof -
  let ?t = "snd (request_cancel_atomically M clk run_id tenant_id s)"
  from assms have inv: "store_inv s" by (rule reachable_inv)
  have eff: "select_run_for_tenant run_id tenant_id ?t = Some (r\<lparr>r_cancel_requested := True, r_updated_at := clk 0\<rparr>)
       \<and> db_thread_states ?t = db_thread_states s
       \<and> emits [(run_id, ''run.cancel_requested'', Encoded (JObj [(''status'', JStr (status_value (r_status r)))]))] s ?t"
    if "select_run_for_tenant run_id tenant_id s = Some r" "\<not> is_terminal (r_status r)" "\<not> r_cancel_requested r" for r
    by (rule request_cancel_effect [OF inv that, where M = M and clk = clk]) simp
  have t: "store_inv ?t" using request_cancel_ok [OF inv] ok_step_inv by blast
  have again: "snd (request_cancel_atomically M' clk' run_id tenant_id ?t) = ?t"
  proof (cases "select_run_for_tenant run_id tenant_id s")
    case None
    then show ?thesis by (simp add: request_cancel_unknown)
  next
    case (Some r)
    show ?thesis
    proof (cases "is_terminal (r_status r) \<or> r_cancel_requested r")
      case True
      then show ?thesis using request_cancel_noop [OF inv Some] by simp
    next
      case False
      with eff [OF Some] have "select_run_for_tenant run_id tenant_id ?t = Some (r\<lparr>r_cancel_requested := True, r_updated_at := clk 0\<rparr>)"
        by blast
      from request_cancel_noop [OF t this] show ?thesis by simp
    qed
  qed
  show ?thesis
    using request_cancel_unknown [of run_id tenant_id s M clk] request_cancel_noop [OF inv, of run_id tenant_id _ M clk] eff again
    by blast
qed


theorem cancel_request_is_idempotent_witness:
  "snd (request_cancel_atomically ex_models ex_clk ''r1'' ''T'' (snd (request_cancel_atomically ex_models ex_clk ''r1'' ''T'' ex_running)))
     = ex_cancelling"
  using cancel_request_is_idempotent [OF ex_reachable(3)] unfolding ex_cancelling_def by blast

text \<open>
  C16. Cancellation wins. Once a cancellation request is on a running run, the lease holder's
  completion is refused with the outcome CANCEL_REQUESTED and changes nothing, whatever result
  it brings; its cancellation commit then succeeds, makes the run CANCELLED without a lease,
  leaves every checkpoint as it was and logs the reason.
\<close>

theorem cancellation_beats_completion:
  assumes "store_reachable s" and "select_run_for_tenant (r_run_id run) (r_tenant_id run) s = Some r"
    and "r_status r = RUNNING" and "r_cancel_requested r" and "current_lease token now_ms r"
    and "r_thread_id run = r_thread_id r" and "r_client_request_id run = r_client_request_id r"
  shows "commit_completed_run M clk run token now_ms s = (Inr (CANCEL_REQUESTED, run), s)
    \<and> (\<exists>x t r'. commit_cancelled_run clk run reason token now_ms s = (Inr (COMMITTED, x), t)
         \<and> select_run (r_run_id run) t = Some r' \<and> r_status r' = CANCELLED \<and> lease_cleared r'
         \<and> db_thread_states t = db_thread_states s
         \<and> emits [(r_run_id run, ''run.cancelled'', Encoded (JObj [(''reason'', JStr reason)]))] s t)"
proof
  show "commit_completed_run M clk run token now_ms s = (Inr (CANCEL_REQUESTED, run), s)"
    using assms(2-5) by (rule completion_after_cancel)
  show "\<exists>x t r'. commit_cancelled_run clk run reason token now_ms s = (Inr (COMMITTED, x), t)
         \<and> select_run (r_run_id run) t = Some r' \<and> r_status r' = CANCELLED \<and> lease_cleared r'
         \<and> db_thread_states t = db_thread_states s
         \<and> emits [(r_run_id run, ''run.cancelled'', Encoded (JObj [(''reason'', JStr reason)]))] s t"
    by (rule commit_cancelled_effect [OF reachable_inv [OF assms(1)] assms(2-7), where clk = clk and reason = reason]) blast
qed

theorem cancellation_beats_completion_witness:
  "commit_completed_run ex_models ex_clk (ex_result ''r1'') ''tok'' 2000 ex_cancelling
     = (Inr (CANCEL_REQUESTED, ex_result ''r1''), ex_cancelling)"
proof -
  let ?r = "hd (db_runs ex_cancelling)" and ?run = "ex_result ''r1''"
  have "select_run_for_tenant (r_run_id ?run) (r_tenant_id ?run) ex_cancelling = Some ?r" "r_status ?r = RUNNING"
    "r_cancel_requested ?r" "current_lease ''tok'' 2000 ?r" "r_thread_id ?run = r_thread_id ?r"
    "r_client_request_id ?run = r_client_request_id ?r"
    by code_simp+
  from cancellation_beats_completion [OF ex_reachable(5) this] show ?thesis by blast
qed

section \<open>Events and tenants\<close>

text \<open>
  The event log. The events of a run are numbered 1, 2, 3, ... in the order they were
  appended; a log only grows, and a reader that asks for what follows the last sequence number
  it saw gets exactly the events appended since, none twice and none missed.
\<close>

theorem event_log_resumes_without_gaps:
  assumes "store_reachable s" and "later s t"
  shows "map e_sequence (list_events run_id 0 s) = map (\<lambda>i. int i + 1) [0..<length (list_events run_id 0 s)]
    \<and> list_events run_id 0 t = list_events run_id 0 s @ list_events run_id (int (length (list_events run_id 0 s))) t"
proof -
  from assms(1) have s: "store_inv s" by (rule reachable_inv)
  from assms have t: "store_inv t" and ev: "evolves s t" by (auto intro: reachable_inv reachable_later later_evolves)
  from ev obtain evs where evs: "db_run_events t = db_run_events s @ evs" by (auto simp: evolves_def)
  show ?thesis using run_log.read_all(2) [OF s] run_log.read_resumes [OF s t evs] by blast
qed

theorem event_log_resumes_without_gaps_witness:
  "list_events ''r1'' 0 ex_second = list_events ''r1'' 0 ex_done @ list_events ''r1'' (int (length (list_events ''r1'' 0 ex_done))) ex_second"
  using event_log_resumes_without_gaps [OF ex_reachable(4) ex_later_second] by blast

end
