(* ===== verification/Workflow_Fencing.thy ===== *)
theory Workflow_Fencing
  imports Run_Lifecycle
begin

text \<open>
  The fencing interface, interpreted on the ledger: every operation that a worker calls with
  its lease token writes nothing and reports no value once the lease is gone.
\<close>

lemma lease_lost:
  assumes "store_inv s" and "\<not> holds_lease run_id token now_ms s"
  shows "fenced_body run_id (Some token) now_ms s b = Inl (RunLeaseLostError (if select_run run_id s = None
    then ''Run lease is not enforceable: '' @ run_id else ''Run lease is no longer current: '' @ run_id))"
proof (cases "select_run run_id s")
  case (Some r)
  from not_holds_row(1) [OF assms] have "fetchone (\<lambda>r. r_run_id r = run_id \<and> r_status r = RUNNING \<and> current_lease token now_ms r) (db_runs s) = None"
    unfolding fetchone_None_iff by blast
  with Some show ?thesis by (simp add: fenced_body_def assert_run_lease_def)
qed (simp add: fenced_body_def assert_run_lease_def)

lemma fenced_transaction:
  assumes "store_inv s" and "\<not> holds_lease run_id token now_ms s"
  shows "snd (transaction s (fenced_body run_id (Some token) now_ms s b)) = s"
    and "fst (transaction s (fenced_body run_id (Some token) now_ms s b)) \<noteq> Inr x"
  by (simp_all add: lease_lost [OF assms])

lemma fenced_after_commit:
  assumes "store_inv s" and "\<not> holds_lease run_id token now_ms s"
  shows "snd (after_commit f (transaction s (fenced_body run_id (Some token) now_ms s b))) = s"
    and "fst (after_commit f (transaction s (fenced_body run_id (Some token) now_ms s b))) \<noteq> Inr x"
  by (simp_all add: lease_lost [OF assms] after_commit_def)

lemmas fence_simps = fenced_transaction fenced_after_commit

text \<open>A call without a token passes only where no run owns the ledger.\<close>

lemma tokenless_call:
  "select_run run_id s \<noteq> None \<Longrightarrow>
     fenced_body run_id None now_ms s b = Inl (RunLeaseLostError (''Run lease is no longer current: '' @ run_id))"
  by (auto simp: fenced_body_def assert_run_lease_def)

lemma tokenless_transaction:
  assumes "select_run run_id s \<noteq> None"
  shows "snd (transaction s (fenced_body run_id None now_ms s b)) = s"
    and "fst (transaction s (fenced_body run_id None now_ms s b)) \<noteq> Inr x"
    and "snd (after_commit f (transaction s (fenced_body run_id None now_ms s b))) = s"
  by (simp_all add: tokenless_call [OF assms] after_commit_def)

lemma lease_held: "holds_lease run_id token now_ms s \<Longrightarrow> fenced_body run_id (Some token) now_ms s b = b"
  by (auto simp: holds_lease_iff fenced_body_def assert_run_lease_def select_run_def fetchone_None_iff
      split: option.splits dest!: fetchone_SomeD)

interpretation created_execution: fenced "\<lambda>tok. create_or_get_execution clk run_id ty h (Some tok)" run_id "\<lambda>_. True"
  for clk run_id ty h
  by unfold_locales (simp add: create_or_get_execution_def fence_simps)

interpretation started_execution: fenced "\<lambda>tok. mark_running clk run_id (Some tok)" run_id "\<lambda>_. True"
  for clk run_id
  by unfold_locales (simp add: mark_running_def transition_execution_def fence_simps)

interpretation finished_execution: fenced "\<lambda>tok. finalize_execution clk run_id st result err ty (Some tok)" run_id "\<lambda>_. True"
  for clk run_id st result err ty
  by unfold_locales (simp add: finalize_execution_def transition_execution_def fence_simps)

interpretation reused_step: fenced "\<lambda>tok. reuse_completed_step clk call_id src run_id step_id tool h (Some tok)" run_id "\<lambda>_. True"
  for clk call_id src run_id step_id tool h
  by unfold_locales (simp add: reuse_completed_step_def fence_simps)

interpretation claimed_step: fenced "\<lambda>tok. claim_step clk call_id att run_id step_id tool h mx (Some tok)" run_id "\<lambda>_. True"
  for clk call_id att run_id step_id tool h mx
  by unfold_locales (simp add: claim_step_def fence_simps)

interpretation finished_step: fenced "\<lambda>tok. finalize_step clk run_id step_id att st result err ty oc (Some tok)" run_id "\<lambda>_. True"
  for clk run_id step_id att st result err ty oc
  by unfold_locales (simp add: finalize_step_def fence_simps)

interpretation recovered_step: fenced "\<lambda>tok. recover_interrupted_step clk run_id step_id (Some tok)" run_id "\<lambda>_. True"
  for clk run_id step_id
  by unfold_locales (simp add: recover_interrupted_step_def fence_simps)

interpretation prepared_action: fenced "\<lambda>tok. prepare_external_action clk action_id i (Some tok)" "ai_run_id i" "\<lambda>_. True"
  for clk action_id i
  by unfold_locales (simp add: prepare_external_action_def fence_simps split: sum.splits)

interpretation begun_dispatch: fenced "\<lambda>tok. begin_external_action_dispatch clk disp run_id step_id att (Some tok)" run_id "\<lambda>_. True"
  for clk disp run_id step_id att
  by unfold_locales (simp add: begin_external_action_dispatch_def fence_simps)

interpretation retried_dispatch: fenced "\<lambda>tok. retry_external_action_dispatch clk disp run_id step_id prev att (Some tok)" run_id "\<lambda>_. True"
  for clk disp run_id step_id prev att
  by unfold_locales (simp add: retry_external_action_dispatch_def fence_simps)

interpretation leased_outcome: fenced "\<lambda>tok. finalize_external_action clk run_id step_id disp att fo required (Some tok) True" run_id "\<lambda>_. True"
  for clk run_id step_id disp att fo required
  by unfold_locales (simp add: finalize_external_action_def fence_simps split: sum.splits)

interpretation annotated: fenced "\<lambda>tok. append_workflow_event clk run_id ty payload (Some tok)" run_id "\<lambda>_. True"
  for clk run_id ty payload
  by unfold_locales (simp add: append_workflow_event_def fence_simps)

end
