(* ===== verification/Workflow_Effects.thy ===== *)
theory Workflow_Effects
  imports Workflow_Fencing
begin

text \<open>
  What the operations of the ledger do, branch by branch: the guarded updates hit exactly the
  row they name, a step claim is exclusive and bounded, an attempt is fenced by its token, a
  dispatch is claimed at most as often as its retry mode allows and a final outcome is written
  to the action and its tool call together, once.
\<close>

section \<open>Guarded updates by key\<close>

lemma action_value_inj [simp]: "action_value a = action_value b \<longleftrightarrow> a = b"
  by (cases a; cases b) auto

lemma keyed_update:
  assumes "distinct (map key rows)" and "fetchone (\<lambda>r. key r = a) rows = Some r"
  shows "rowcount (\<lambda>r. key r = a \<and> p r) rows = (if p r then 1 else 0)"
    and "\<not> p r \<Longrightarrow> sql_update (\<lambda>r. key r = a \<and> p r) f rows = rows"
proof -
  from assms(2) have r: "r \<in> set rows" "key r = a" by (auto dest: fetchone_SomeD)
  with assms(1) have uniq: "x = r" if "x \<in> set rows" "key x = a" for x
    using that key_unique [of key rows x r] by simp
  show count: "rowcount (\<lambda>r. key r = a \<and> p r) rows = (if p r then 1 else 0)"
  proof (cases "p r")
    case True
    with r rowcount_key_eq_1 [OF assms(1), of "\<lambda>r. key r = a \<and> p r" a] show ?thesis by auto
  next
    case False
    with uniq have "\<forall>x\<in>set rows. \<not> (key x = a \<and> p x)" by metis
    with False show ?thesis by (simp add: rowcount_0_iff)
  qed
  then show "\<not> p r \<Longrightarrow> sql_update (\<lambda>r. key r = a \<and> p r) f rows = rows" by (simp add: sql_update_none)
qed

lemma update_steps_hit:
  assumes "wf_inv s" and "select_step i j s = Some k" and "p k" and "\<And>k. step_key (f k) = step_key k"
  shows "\<exists>t. update_steps (\<lambda>k. step_key k = (i, j) \<and> p k) f s = (1, t) \<and> select_step i j t = Some (f k)
    \<and> t = s\<lparr>db_tool_calls := db_tool_calls t\<rparr> \<and> (\<forall>i' j'. (i', j') \<noteq> (i, j) \<longrightarrow> select_step i' j' t = select_step i' j' s)"
proof -
  have d: "distinct (map step_key (db_tool_calls s))" using assms(1) by (simp add: wf_inv_def)
  let ?t = "s\<lparr>db_tool_calls := sql_update (\<lambda>k. step_key k = (i, j) \<and> p k) f (db_tool_calls s)\<rparr>"
  have key: "k \<in> set (db_tool_calls s)" "step_key k = (i, j)" using select_step_SomeD [OF assms(2)] by auto
  have "select_step i' j' ?t = map_option (\<lambda>k. if step_key k = (i, j) \<and> p k then f k else k) (select_step i' j' s)" for i' j'
    unfolding select_step_def using fetchone_sql_update_key [where k = step_key, OF assms(4)] by simp
  then have "select_step i j ?t = Some (f k)" "\<forall>i' j'. (i', j') \<noteq> (i, j) \<longrightarrow> select_step i' j' ?t = select_step i' j' s"
    using assms(2,3) key by (auto simp: map_option_case split: option.splits dest!: select_step_SomeD)
  then show ?thesis
    using keyed_update(1) [OF d assms(2) [unfolded select_step_def], of p] assms(3) by (auto simp: update_steps_def)
qed

lemma update_steps_miss:
  assumes "wf_inv s" and "select_step i j s = Some k" and "\<not> p k"
  shows "update_steps (\<lambda>k. step_key k = (i, j) \<and> p k) f s = (0, s)"
proof -
  have d: "distinct (map step_key (db_tool_calls s))" using assms(1) by (simp add: wf_inv_def)
  from keyed_update [OF d assms(2) [unfolded select_step_def], of p] assms(3) show ?thesis
    by (simp add: update_steps_def)
qed

lemma update_actions_hit:
  assumes "wf_inv s" and "select_action i j s = Some k" and "p k" and "\<And>k. action_key (f k) = action_key k"
  shows "\<exists>t. update_actions (\<lambda>k. action_key k = (i, j) \<and> p k) f s = (1, t) \<and> select_action i j t = Some (f k)
    \<and> t = s\<lparr>db_external_actions := db_external_actions t\<rparr> \<and> (\<forall>i' j'. (i', j') \<noteq> (i, j) \<longrightarrow> select_action i' j' t = select_action i' j' s)"
proof -
  have d: "distinct (map action_key (db_external_actions s))" using assms(1) by (simp add: wf_inv_def)
  let ?t = "s\<lparr>db_external_actions := sql_update (\<lambda>k. action_key k = (i, j) \<and> p k) f (db_external_actions s)\<rparr>"
  have key: "k \<in> set (db_external_actions s)" "action_key k = (i, j)" using select_action_SomeD [OF assms(2)] by auto
  have "select_action i' j' ?t = map_option (\<lambda>k. if action_key k = (i, j) \<and> p k then f k else k) (select_action i' j' s)" for i' j'
    unfolding select_action_def using fetchone_sql_update_key [where k = action_key, OF assms(4)] by simp
  then have "select_action i j ?t = Some (f k)" "\<forall>i' j'. (i', j') \<noteq> (i, j) \<longrightarrow> select_action i' j' ?t = select_action i' j' s"
    using assms(2,3) key by (auto simp: map_option_case split: option.splits dest!: select_action_SomeD)
  then show ?thesis
    using keyed_update(1) [OF d assms(2) [unfolded select_action_def], of p] assms(3) by (auto simp: update_actions_def)
qed

section \<open>Records of well-formed rows\<close>

lemma transaction_InrD: "transaction s b = (Inr x, t) \<Longrightarrow> b = Inr (x, t)"
  by (auto elim!: transaction_cases)

lemma fenced_InrD: "fenced_body run_id lease now_ms s b = Inr y \<Longrightarrow> b = Inr y"
  by (simp add: fenced_body_def split: option.splits)

lemma row_to_step_ok: "wf_inv s \<Longrightarrow> select_step i j s = Some k \<Longrightarrow> row_to_step k = Inr k"
  using wf_invD(2) [of s k] by (auto simp: row_to_step_def step_ok_def dest!: select_step_SomeD)

lemma row_to_action_ok: "wf_inv s \<Longrightarrow> select_action i j s = Some a \<Longrightarrow> row_to_external_action a = Inr a"
  using wf_invD(3) [of s a] by (auto simp: row_to_external_action_def action_ok_def dest!: select_action_SomeD)

lemma require_action_eq: "wf_inv s \<Longrightarrow> select_action i j s = Some a \<Longrightarrow> require_external_action i j s = Inr a"
  by (simp add: require_external_action_def row_to_action_ok)

lemma step_execution: "wf_inv s \<Longrightarrow> select_step i j s = Some k \<Longrightarrow> select_execution i s \<noteq> None"
  unfolding execution_mem by (auto simp: wf_inv_def step_key_def dest!: select_step_SomeD)

text \<open>Every action belongs to a step with the same definition and input.\<close>

lemma action_step:
  assumes "wf_inv s" and "select_action i j s = Some a"
  obtains k where "select_step i j s = Some k" "k_tool_name k = xa_tool_name a" "k_input_hash k = xa_input_hash a"
    "xa_status a = action_value SUCCEEDED \<Longrightarrow> completed_step k \<and> k_result_json k = xa_result_json a"
proof -
  from select_action_SomeD [OF assms(2)] have a: "a \<in> set (db_external_actions s)" "action_key a = (i, j)" by auto
  from wf_invD(4) [OF assms(1) a(1)] obtain k where k: "k \<in> set (db_tool_calls s)" "step_key k = action_key a"
    "k_tool_name k = xa_tool_name a" "k_input_hash k = xa_input_hash a"
    "xa_status a = action_value SUCCEEDED \<longrightarrow> completed_step k \<and> k_result_json k = xa_result_json a"
    unfolding coherent_def by blast
  from select_step_mem [OF assms(1) k(1)] k a(2) that show thesis by simp
qed

lemma event_appended: "select_execution run_id s \<noteq> None \<Longrightarrow>
   \<exists>e t. append_workflow_event_with_connection run_id ty payload c s = Inr (e, t)"
  by (simp add: append_workflow_event_with_connection_def Let_def)

lemma event_frame:
  assumes "append_workflow_event_with_connection run_id ty payload c s = Inr (e, t)"
  shows "select_step i j t = select_step i j s" and "select_action i j t = select_action i j s"
    and "select_execution i t = select_execution i s"
  using assms by (auto simp: append_workflow_event_with_connection_def Let_def split: if_splits)

section \<open>Claiming a step\<close>

lemma row_to_step_InrD: "row_to_step row = Inr rec \<Longrightarrow> rec = row"
  by (simp add: row_to_step_def split: if_splits)

lemma row_to_action_InrD: "row_to_external_action row = Inr rec \<Longrightarrow> rec = row"
  by (simp add: row_to_external_action_def split: if_splits)

definition step_claimed :: "string \<Rightarrow> string \<Rightarrow> string \<Rightarrow> string \<Rightarrow> string \<Rightarrow> int \<Rightarrow> claim_result \<Rightarrow> db \<Rightarrow> bool" where
  "step_claimed run_id step_id tool h token n c t \<longleftrightarrow> cl_outcome c = CLAIMED \<and> cl_attempt_token c = Some token \<and>
     (\<exists>k. cl_step c = Some k \<and> select_step run_id step_id t = Some k \<and> k_status k = tool_call_value TC_RUNNING \<and>
        k_attempt_token k = Some token \<and> k_attempt_count k = n \<and> k_tool_name k = tool \<and> k_input_hash k = h)"

lemma claimed_event_effect:
  assumes "claimed_event clk run_id step_id tool n token s = Inr (c, t)" and "select_step run_id step_id s = Some k"
  shows "cl_outcome c = CLAIMED \<and> cl_attempt_token c = Some token \<and> cl_step c = Some k \<and> select_step run_id step_id t = Some k"
proof -
  from assms(1) obtain e where e: "append_workflow_event_with_connection run_id ''step.claimed''
      [(''step_id'', JStr step_id), (''tool_name'', JStr tool), (''attempt_count'', JInt n)] (clk 1) s = Inr (e, t)"
    by (auto simp: claimed_event_def split: sum.splits option.splits)
  with assms event_frame [OF e] show ?thesis
    by (auto simp: claimed_event_def split: sum.splits dest: row_to_step_InrD)
qed

lemma claim_fresh_effect:
  assumes "claim_fresh clk call_id token run_id step_id tool h s = Inr (c, t)" and "select_step run_id step_id s = None"
  shows "step_claimed run_id step_id tool h token 1 c t"
proof -
  let ?k = "\<lparr>k_call_id = call_id, k_run_id = run_id, k_step_id = step_id, k_tool_name = tool,
             k_input_hash = h, k_status = tool_call_value TC_RUNNING, k_attempt_count = 1,
             k_attempt_token = Some token, k_result_json = None, k_error_code = None,
             k_created_at = clk 0, k_updated_at = clk 0\<rparr>"
  from assms obtain s1 where s1: "insert_step ?k s = Inr ((), s1)" "claimed_event clk run_id step_id tool 1 token s1 = Inr (c, t)"
    by (auto simp: claim_fresh_def split: sum.splits option.splits)
  from s1(1) assms(2) have "select_step run_id step_id s1 = Some ?k"
    by (auto simp: insert_step_def select_step_def fetchone_append step_key_def split: if_splits)
  from claimed_event_effect [OF s1(2) this] show ?thesis by (simp add: step_claimed_def)
qed

lemma claim_retry_effect:
  assumes inv: "wf_inv s" and "claim_retry clk token run_id step_id tool k s = Inr (c, t)"
    and k: "select_step run_id step_id s = Some k" and failed: "k_status k = tool_call_value TC_FAILED"
  shows "step_claimed run_id step_id tool (k_input_hash k) token (k_attempt_count k + 1) c t"
proof -
  let ?f = "\<lambda>k. k\<lparr>k_status := tool_call_value TC_RUNNING, k_attempt_count := k_attempt_count k + 1,
                 k_attempt_token := Some token, k_tool_name := tool, k_error_code := None, k_updated_at := clk 0\<rparr>"
  from update_steps_hit [OF inv k, of "\<lambda>k. k_status k = tool_call_value TC_FAILED" ?f] failed
  obtain s1 where s1: "update_steps (\<lambda>k. step_key k = (run_id, step_id) \<and> k_status k = tool_call_value TC_FAILED) ?f s = (1, s1)"
    "select_step run_id step_id s1 = Some (?f k)" by (auto simp: step_key_def)
  from assms(2) have "claimed_event clk run_id step_id tool (k_attempt_count k + 1) token s1 = Inr (c, t)"
    by (simp only: claim_retry_def s1(1)) simp
  from claimed_event_effect [OF this s1(2)] show ?thesis by (simp add: step_claimed_def)
qed

lemma claim_step_effect:
  assumes inv: "wf_inv s" and "claim_step clk call_id token run_id step_id tool h mx lease now_ms s = (Inr c, t)"
  shows "select_step run_id step_id s = None \<and> step_claimed run_id step_id tool h token 1 c t \<or>
    (\<exists>k. select_step run_id step_id s = Some k \<and>
      (if k_tool_name k = tool \<and> k_input_hash k = h \<and> k_status k = tool_call_value TC_FAILED \<and> k_attempt_count k < mx
       then step_claimed run_id step_id tool h token (k_attempt_count k + 1) c t
       else t = s \<and> cl_step c = Some k \<and> cl_attempt_token c = None \<and> cl_outcome c =
         (if k_tool_name k \<noteq> tool then DEFINITION_MISMATCH else if k_input_hash k \<noteq> h then INPUT_MISMATCH
          else if completed_step k then CACHED else if k_status k = tool_call_value TC_RUNNING then ALREADY_RUNNING
          else ATTEMPTS_EXHAUSTED)))"
proof -
  from assms(2) have body: "(if select_execution run_id s = None then Inl (KeyError (''Workflow execution not found: '' @ run_id))
     else case select_step run_id step_id s of
           None \<Rightarrow> claim_fresh clk call_id token run_id step_id tool h s
         | Some row \<Rightarrow> (case row_to_step row of
             Inl e \<Rightarrow> Inl e
           | Inr rec \<Rightarrow> (case mismatch_outcome tool h rec of
                  Some oc \<Rightarrow> Inr (\<lparr>cl_outcome = oc, cl_step = Some rec, cl_attempt_token = None\<rparr>, s)
                | None \<Rightarrow>
                    if k_status rec = tool_call_value TC_COMPLETED then Inr (\<lparr>cl_outcome = CACHED, cl_step = Some rec, cl_attempt_token = None\<rparr>, s)
                    else if k_status rec = tool_call_value TC_RUNNING then Inr (\<lparr>cl_outcome = ALREADY_RUNNING, cl_step = Some rec, cl_attempt_token = None\<rparr>, s)
                    else if mx \<le> k_attempt_count rec then Inr (\<lparr>cl_outcome = ATTEMPTS_EXHAUSTED, cl_step = Some rec, cl_attempt_token = None\<rparr>, s)
                    else claim_retry clk token run_id step_id tool rec s))) = Inr (c, t)"
    unfolding claim_step_def fenced_body_def Let_def by (auto split: if_splits option.splits elim!: transaction_cases)
  show ?thesis
  proof (cases "select_step run_id step_id s")
    case None
    with body claim_fresh_effect [of clk call_id token run_id step_id tool h s c t] show ?thesis by (auto split: if_splits)
  next
    case (Some k)
    have "k_status k \<in> tool_call_value ` {TC_RUNNING, TC_COMPLETED, TC_FAILED}"
      using wf_invD(2) [OF inv] select_step_SomeD [OF Some] by (auto simp: step_ok_def)
    with Some body row_to_step_ok [OF inv Some] claim_retry_effect [OF inv _ Some, of clk token tool c t] show ?thesis
      by (auto simp: mismatch_outcome_def completed_step_def split: if_splits)
  qed
qed

section \<open>Finishing an attempt\<close>

lemma finalize_step_stale:
  assumes "wf_inv s" and "\<not> (\<exists>k. select_step run_id step_id s = Some k \<and> k_status k = tool_call_value TC_RUNNING \<and> k_attempt_token k = Some att)"
    and "holds_lease run_id lease now_ms s"
  shows "finalize_step clk run_id step_id att st result err ty oc (Some lease) now_ms s = (Inl (stale_attempt run_id step_id), s)"
proof -
  have "k_status k \<noteq> tool_call_value TC_RUNNING \<or> k_attempt_token k \<noteq> Some att"
    if "k \<in> set (db_tool_calls s)" "step_key k = (run_id, step_id)" for k
    using select_step_mem [OF assms(1) that] assms(2) by auto
  then have "rowcount (\<lambda>k. step_key k = (run_id, step_id) \<and> k_status k = tool_call_value TC_RUNNING \<and> sql_eq (k_attempt_token k) (Some att)) (db_tool_calls s) = 0"
    unfolding rowcount_0_iff by auto
  then show ?thesis by (simp add: finalize_step_def lease_held [OF assms(3)] update_steps_def)
qed

lemma finalize_step_effect:
  fixes clk :: "nat \<Rightarrow> string" and st :: tool_call_status and result :: "json_text option" and err :: "string option"
  assumes inv: "wf_inv s" and k: "select_step run_id step_id s = Some k" "k_status k = tool_call_value TC_RUNNING" "k_attempt_token k = Some att"
    and "holds_lease run_id lease now_ms s"
  defines "k' \<equiv> k\<lparr>k_status := tool_call_value st, k_result_json := result, k_error_code := err, k_updated_at := clk 0\<rparr>"
  shows "\<exists>t. finalize_step clk run_id step_id att st result err ty oc (Some lease) now_ms s = (Inr k', t)
    \<and> select_step run_id step_id t = Some k'
    \<and> (\<forall>i j. (i, j) \<noteq> (run_id, step_id) \<longrightarrow> select_step i j t = select_step i j s) \<and> db_external_actions t = db_external_actions s"
proof -
  let ?f = "\<lambda>k. k\<lparr>k_status := tool_call_value st, k_result_json := result, k_error_code := err, k_updated_at := clk 0\<rparr>"
  from update_steps_hit [OF inv k(1), of "\<lambda>k. k_status k = tool_call_value TC_RUNNING \<and> sql_eq (k_attempt_token k) (Some att)" ?f] k
  obtain s1 where s1: "update_steps (\<lambda>k. step_key k = (run_id, step_id) \<and> k_status k = tool_call_value TC_RUNNING \<and> sql_eq (k_attempt_token k) (Some att)) ?f s = (1, s1)"
    "select_step run_id step_id s1 = Some k'" "s1 = s\<lparr>db_tool_calls := db_tool_calls s1\<rparr>"
    "\<forall>i' j'. (i', j') \<noteq> (run_id, step_id) \<longrightarrow> select_step i' j' s1 = select_step i' j' s"
    by (auto simp: step_key_def k'_def)
  have rec: "row_to_step k' = Inr k'" by (cases st) (simp_all add: k'_def row_to_step_def)
  have "select_execution run_id s1 \<noteq> None"
    using step_execution [OF inv k(1)] by (subst s1(3)) simp
  from event_appended [OF this] obtain e t where e: "append_workflow_event_with_connection run_id ty (step_finished_payload step_id k' oc) (clk 1) s1 = Inr (e, t)"
    by blast
  have ext: "db_external_actions s1 = db_external_actions s" by (subst s1(3)) simp
  have "finalize_step clk run_id step_id att st result err ty oc (Some lease) now_ms s = (Inr k', t)"
    unfolding finalize_step_def lease_held [OF assms(5)] s1(1) using e by (simp add: s1(2) rec)
  with s1(2,4) ext event_frame [OF e] append_wf_event_eq [OF e] show ?thesis by auto
qed

section \<open>Dispatching an action\<close>

definition dispatched :: "(nat \<Rightarrow> string) \<Rightarrow> string \<Rightarrow> action_row \<Rightarrow> action_row" where
  "dispatched clk token a = a\<lparr>xa_status := action_value DISPATCHING, xa_dispatch_count := xa_dispatch_count a + 1,
     xa_dispatch_token := Some token, xa_updated_at := clk 0, xa_dispatched_at := Some (clk 0)\<rparr>"

definition current_attempt :: "string \<Rightarrow> string \<Rightarrow> string \<Rightarrow> db \<Rightarrow> bool" where
  "current_attempt run_id step_id att s \<longleftrightarrow> (case select_step run_id step_id s of None \<Rightarrow> False
     | Some k \<Rightarrow> k_status k = tool_call_value TC_RUNNING \<and> k_attempt_token k = Some att)"

lemma assert_attempt: "(\<exists>k. assert_current_tool_attempt run_id step_id att s = Inr k) \<Longrightarrow> current_attempt run_id step_id att s"
  by (auto simp: assert_current_tool_attempt_def current_attempt_def split: option.splits sum.splits if_splits dest: row_to_step_InrD)

lemma claim_dispatch_effect:
  assumes inv: "wf_inv s" and a: "select_action run_id step_id s = Some a" "guard a"
    and "claim_dispatch clk token run_id step_id guard retry oc lost s = Inr (c, t)"
  shows "c = \<lparr>dr_outcome = oc, dr_action = dispatched clk token a, dr_dispatch_token = Some token\<rparr>
    \<and> select_action run_id step_id t = Some (dispatched clk token a)"
proof -
  from update_actions_hit [where f = "dispatched clk token" and p = guard, OF inv a]
  obtain s1 where s1: "update_actions (\<lambda>a. action_key a = (run_id, step_id) \<and> guard a) (dispatched clk token) s = (1, s1)"
    "select_action run_id step_id s1 = Some (dispatched clk token a)" by (auto simp: dispatched_def action_key_def)
  have "require_external_action run_id step_id s1 = Inr r \<Longrightarrow> r = dispatched clk token a" for r
    using s1(2) by (simp add: require_external_action_def row_to_external_action_def split: if_splits)
  moreover have "claim_dispatch clk token run_id step_id guard retry oc lost s =
      (case update_actions (\<lambda>a. action_key a = (run_id, step_id) \<and> guard a) (dispatched clk token) s of (n, s1) \<Rightarrow>
        if n \<noteq> 1 then Inl lost
        else (case require_external_action run_id step_id s1 of
            Inl e \<Rightarrow> Inl e
          | Inr refreshed \<Rightarrow> (case append_workflow_event_with_connection (xa_run_id refreshed) ''external_action.dispatch_started''
                (dispatch_payload refreshed retry) (clk 1) s1 of
              Inl e \<Rightarrow> Inl e
            | Inr (_, s2) \<Rightarrow> Inr (\<lparr>dr_outcome = oc, dr_action = refreshed, dr_dispatch_token = Some token\<rparr>, s2))))"
    unfolding claim_dispatch_def dispatched_def ..
  ultimately obtain e where "c = \<lparr>dr_outcome = oc, dr_action = dispatched clk token a, dr_dispatch_token = Some token\<rparr>"
    and e: "append_workflow_event_with_connection (xa_run_id (dispatched clk token a)) ''external_action.dispatch_started''
      (dispatch_payload (dispatched clk token a) retry) (clk 1) s1 = Inr (e, t)"
    using assms(4) s1 by (auto split: sum.splits)
  then show ?thesis using s1(2) event_frame(2) [OF e] by simp
qed

lemma begin_dispatch_effect:
  assumes inv: "wf_inv s" and "begin_external_action_dispatch clk token run_id step_id att lease now_ms s = (Inr c, t)"
  shows "\<exists>a. select_action run_id step_id s = Some a \<and>
    (if dr_outcome c = DISPATCH_CLAIMED
     then xa_status a = action_value PREPARED \<and> dr_action c = dispatched clk token a \<and> dr_dispatch_token c = Some token
       \<and> select_action run_id step_id t = Some (dispatched clk token a) \<and> current_attempt run_id step_id att s
       \<and> (\<exists>r. select_run run_id s = Some r \<and> r_status r = RUNNING \<and> \<not> r_cancel_requested r)
     else t = s \<and> dr_action c = a \<and> dr_outcome c = (if terminal_action_status (xa_status a) then TERMINAL
       else if xa_status a = action_value DISPATCHING then ALREADY_DISPATCHING else RUN_CANCELLED))"
proof -
  let ?guard = "\<lambda>a. xa_status a = action_value PREPARED"
  let ?lost = "StaleDispatchError (''External action changed before dispatch: '' @ run_id @ ''/'' @ step_id)"
  from assms(2) obtain a where a: "select_action run_id step_id s = Some a"
    by (auto simp: begin_external_action_dispatch_def fenced_body_def require_external_action_def
        split: option.splits elim!: transaction_cases)
  have ok: "xa_status a \<in> action_value ` {PREPARED, DISPATCHING, SUCCEEDED, ACTION_FAILED, OUTCOME_UNKNOWN}"
    using wf_invD(3) [OF inv] select_action_SomeD [OF a] by (auto simp: action_ok_def)
  from claim_dispatch_effect [OF inv a, of ?guard clk token False DISPATCH_CLAIMED _ c t]
  have eff: "?guard a \<Longrightarrow> claim_dispatch clk token run_id step_id ?guard False DISPATCH_CLAIMED lost s = Inr (c, t) \<Longrightarrow>
     c = \<lparr>dr_outcome = DISPATCH_CLAIMED, dr_action = dispatched clk token a, dr_dispatch_token = Some token\<rparr>
    \<and> select_action run_id step_id t = Some (dispatched clk token a)" for lost by blast
  have req: "require_external_action run_id step_id s = Inr a" by (rule require_action_eq [OF inv a])
  from ok consider (final) "terminal_action_status (xa_status a)" | (current) "xa_status a = action_value DISPATCHING"
      "\<not> terminal_action_status (xa_status a)" | (fresh) "xa_status a = action_value PREPARED" "\<not> terminal_action_status (xa_status a)"
    by (auto simp: terminal_action_status_def)
  then show ?thesis
  proof cases
    case fresh
    from assms(2) fresh req have body: "(case select_run run_id s of
              None \<Rightarrow> Inl (KeyError (''Run not found: '' @ run_id))
            | Some run \<Rightarrow>
                if r_status run \<noteq> RUNNING \<or> r_cancel_requested run
                then Inr (\<lparr>dr_outcome = RUN_CANCELLED, dr_action = a, dr_dispatch_token = None\<rparr>, s)
                else (case assert_current_tool_attempt run_id step_id att s of
                    Inl e \<Rightarrow> Inl e
                  | Inr _ \<Rightarrow> claim_dispatch clk token run_id step_id ?guard False DISPATCH_CLAIMED ?lost s)) = Inr (c, t)"
      unfolding begin_external_action_dispatch_def by (auto dest!: transaction_InrD fenced_InrD)
    with fresh a assert_attempt [of run_id step_id att s] eff [of ?lost] show ?thesis
      by (auto split: option.splits sum.splits if_splits)
  qed (use assms(2) a req in \<open>auto simp: begin_external_action_dispatch_def fenced_body_def split: option.splits\<close>)
qed

lemma retry_dispatch_effect:
  assumes inv: "wf_inv s" and "retry_external_action_dispatch clk token run_id step_id prev att lease now_ms s = (Inr c, t)"
  shows "\<exists>a. select_action run_id step_id s = Some a \<and>
    (if dr_outcome c = RETRY_CLAIMED
     then xa_status a = action_value DISPATCHING \<and> xa_dispatch_token a = Some prev \<and> xa_retry_mode a \<noteq> retry_value UNSAFE
       \<and> dr_action c = dispatched clk token a \<and> dr_dispatch_token c = Some token
       \<and> select_action run_id step_id t = Some (dispatched clk token a) \<and> current_attempt run_id step_id att s
     else t = s \<and> dr_action c = a \<and> dr_outcome c = (if terminal_action_status (xa_status a) then TERMINAL
       else if xa_status a \<noteq> action_value DISPATCHING then NOT_DISPATCHING else RETRY_UNSAFE))"
proof -
  let ?guard = "\<lambda>a. xa_status a = action_value DISPATCHING \<and> sql_eq (xa_dispatch_token a) (Some prev)"
  from assms(2) obtain a where a: "select_action run_id step_id s = Some a"
    by (auto simp: retry_external_action_dispatch_def fenced_body_def require_external_action_def
        split: option.splits elim!: transaction_cases)
  from claim_dispatch_effect [OF inv a, of ?guard clk token True RETRY_CLAIMED _ c t]
  have eff: "?guard a \<Longrightarrow> claim_dispatch clk token run_id step_id ?guard True RETRY_CLAIMED lost s = Inr (c, t) \<Longrightarrow>
     c = \<lparr>dr_outcome = RETRY_CLAIMED, dr_action = dispatched clk token a, dr_dispatch_token = Some token\<rparr>
    \<and> select_action run_id step_id t = Some (dispatched clk token a)" for lost by blast
  from assms(2) a require_action_eq [OF inv a] assert_attempt [of run_id step_id att s]
    eff [of "stale_dispatch run_id step_id"] show ?thesis
    by (auto simp: retry_external_action_dispatch_def fenced_body_def 
        split: option.splits sum.splits if_splits elim!: transaction_cases)
qed

section \<open>Finalizing an action\<close>

definition finalized :: "(nat \<Rightarrow> string) \<Rightarrow> final_outcome \<Rightarrow> json_text option \<Rightarrow> action_row \<Rightarrow> action_row" where
  "finalized clk fo result a = a\<lparr>xa_status := action_value (fo_action_status fo), xa_provider_reference := fo_provider_reference fo,
     xa_result_json := result, xa_error_code := fo_error_code fo, xa_updated_at := clk 0, xa_finalized_at := Some (clk 0)\<rparr>"

lemma check_outcome_terminal: "check_final_outcome fo = Inr result \<Longrightarrow> terminal_action_status (action_value (fo_action_status fo))"
  by (auto simp: check_final_outcome_def terminal_action_status_def split: if_splits)

lemma write_final_outcome_duplicate:
  assumes inv: "wf_inv s" and a: "select_action run_id step_id s = Some a" "xa_status a = action_value DISPATCHING" "xa_dispatch_token a = Some disp"
    and k: "select_step run_id step_id s = Some k" "k_status k = tool_call_value TC_RUNNING" "k_attempt_token k = Some att"
    and w: "write_final_outcome clk run_id step_id disp att fo result act s = Inr (x, t)"
  shows "x = finalized clk fo result a \<and> select_action run_id step_id t = Some x
    \<and> (\<exists>k'. select_step run_id step_id t = Some k' \<and> exact_duplicate fo result disp att x k')"
proof -
  let ?p = "\<lambda>a. xa_status a = action_value DISPATCHING \<and> sql_eq (xa_dispatch_token a) (Some disp)"
  let ?q = "\<lambda>k. k_status k = tool_call_value TC_RUNNING \<and> sql_eq (k_attempt_token k) (Some att)"
  let ?g = "\<lambda>k. k\<lparr>k_status := tool_call_value (fo_tool_status fo), k_result_json := result, k_error_code := fo_error_code fo, k_updated_at := clk 0\<rparr>"
  from update_actions_hit [OF inv a(1), of ?p "finalized clk fo result"] a
  obtain s1 where s1: "update_actions (\<lambda>a. action_key a = (run_id, step_id) \<and> ?p a) (finalized clk fo result) s = (1, s1)"
    "select_action run_id step_id s1 = Some (finalized clk fo result a)" "s1 = s\<lparr>db_external_actions := db_external_actions s1\<rparr>"
    by (auto simp: finalized_def action_key_def)
  from update_steps_hit [OF inv k(1), of ?q ?g] k
  obtain s2 where s2: "update_steps (\<lambda>k. step_key k = (run_id, step_id) \<and> ?q k) ?g s = (1, s2)" "select_step run_id step_id s2 = Some (?g k)"
    by (auto simp: step_key_def)
  let ?u = "s2\<lparr>db_external_actions := db_external_actions s1\<rparr>"
  have up: "update_steps (\<lambda>k. step_key k = (run_id, step_id) \<and> ?q k) ?g s1 = (1, ?u)"
    using s2(1) by (subst s1(3)) (auto simp: update_steps_def)
  have sel: "select_action run_id step_id ?u = Some (finalized clk fo result a)" "select_step run_id step_id ?u = Some (?g k)"
    using s1(2) s2(2) by (simp_all add: select_action_def)
  from sel(1) have x: "require_external_action run_id step_id ?u = Inr r \<Longrightarrow> r = finalized clk fo result a" for r
    by (simp add: require_external_action_def row_to_external_action_def split: if_splits)
  from w [unfolded write_final_outcome_def, folded finalized_def, unfolded s1(1)] up x sel
  obtain e1 s3 e2 where "x = finalized clk fo result a"
    and e1: "append_workflow_event_with_connection run_id (''external_action.'' @ action_value (fo_action_status fo)) (outcome_payload act step_id fo) (clk 1) ?u = Inr (e1, s3)"
    and e2: "append_workflow_event_with_connection run_id (if fo_tool_status fo = TC_COMPLETED then ''step.completed'' else ''step.failed'')
      (step_finished_payload step_id (?g k) (if fo_tool_status fo = TC_COMPLETED then ''completed'' else ''failed'')) (clk 2) s3 = Inr (e2, t)"
    by (auto split: sum.splits option.splits dest!: row_to_step_InrD)
  then show ?thesis
    using event_frame(1,2) [OF e1, of run_id step_id] event_frame(1,2) [OF e2, of run_id step_id] sel k(3) a(3)
    by (simp add: exact_duplicate_def finalized_def)
qed

text \<open>Whatever finalization returns is the stored terminal outcome, and the two rows agree on it.\<close>

lemma finalize_effect:
  assumes inv: "wf_inv s" and "finalize_external_action clk run_id step_id disp att fo required lease need now_ms s = (Inr a, t)"
  obtains result k where "check_final_outcome fo = Inr result" "select_action run_id step_id t = Some a"
    "select_step run_id step_id t = Some k" "exact_duplicate fo result disp att a k" "terminal_action_status (xa_status a)"
    "\<And>mode. required = Some mode \<Longrightarrow> xa_retry_mode a = retry_value mode"
proof -
  from assms(2) obtain result where res: "check_final_outcome fo = Inr result"
    and body: "finalize_checked clk run_id step_id disp att fo result required s = Inr (a, t)"
    by (auto simp: finalize_external_action_def Let_def fenced_body_def split: sum.splits if_splits option.splits elim!: transaction_cases)
  from body obtain act where act: "require_external_action run_id step_id s = Inr act"
    by (auto simp: finalize_checked_def split: sum.splits)
  then have a: "select_action run_id step_id s = Some act" by (rule require_action_SomeD)
  have mode: "xa_retry_mode act = retry_value mode" if "required = Some mode" for mode
    using body act that by (auto simp: finalize_checked_def split: if_splits)
  show thesis
  proof (cases "terminal_action_status (xa_status act)")
    case True
    obtain k where sel: "select_step run_id step_id s = Some k" by (rule action_step [OF inv a])
    from body act True sel row_to_step_ok [OF inv sel]
    have k: "select_step run_id step_id s = Some k" "exact_duplicate fo result disp att act k" "a = act" "t = s"
      by (auto simp: finalize_checked_def split: if_splits)
    show ?thesis by (rule that [OF res, of k]) (use k a True mode in simp_all)
  next
    case False
    from body act False obtain k where k: "xa_status act = action_value DISPATCHING" "xa_dispatch_token act = Some disp"
      "assert_current_tool_attempt run_id step_id att s = Inr k"
      "write_final_outcome clk run_id step_id disp att fo result act s = Inr (a, t)"
      by (auto simp: finalize_checked_def split: if_splits sum.splits)
    from k(3) have "current_attempt run_id step_id att s" by (blast intro: assert_attempt)
    then obtain k0 where k0: "select_step run_id step_id s = Some k0" "k_status k0 = tool_call_value TC_RUNNING" "k_attempt_token k0 = Some att"
      by (auto simp only: current_attempt_def split: option.splits)
    from write_final_outcome_duplicate [OF inv a k(1,2) k0 k(4)] obtain k' where
      "a = finalized clk fo result act" "select_action run_id step_id t = Some a" "select_step run_id step_id t = Some k'" "exact_duplicate fo result disp att a k'"
      by blast
    then show ?thesis
      using check_outcome_terminal [OF res] mode
      by (intro that [OF res, of k']) (auto simp: finalized_def)
  qed
qed

text \<open>After a terminal outcome a finalization changes nothing and at most repeats that outcome.\<close>

lemma finalize_after_terminal:
  assumes inv: "wf_inv s" and a: "select_action run_id step_id s = Some a" "terminal_action_status (xa_status a)"
  shows "snd (finalize_external_action clk run_id step_id disp att fo required lease need now_ms s) = s"
    and "fst (finalize_external_action clk run_id step_id disp att fo required lease need now_ms s) = Inr x \<Longrightarrow>
       x = a \<and> xa_status a = action_value (fo_action_status fo) \<and> xa_dispatch_token a = Some disp
       \<and> xa_provider_reference a = fo_provider_reference fo \<and> xa_error_code a = fo_error_code fo"
proof -
  obtain k where k: "select_step run_id step_id s = Some k" by (rule action_step [OF inv a(1)])
  have body: "finalize_checked clk run_id step_id disp att fo result required s = Inr (a, s) \<and> exact_duplicate fo result disp att a k
    \<or> (\<exists>e. finalize_checked clk run_id step_id disp att fo result required s = Inl e)" for result
    using a(2) k row_to_step_ok [OF inv k] require_action_eq [OF inv a(1)] by (simp add: finalize_checked_def)
  have op: "(\<exists>result. finalize_external_action clk run_id step_id disp att fo required lease need now_ms s = (Inr a, s)
      \<and> exact_duplicate fo result disp att a k)
    \<or> (\<exists>e. finalize_external_action clk run_id step_id disp att fo required lease need now_ms s = (Inl e, s))"
  proof (cases "check_final_outcome fo")
    case (Inr result)
    with body [of result] show ?thesis
      by (auto simp: finalize_external_action_def Let_def fenced_body_def split: option.splits)
  qed (simp add: finalize_external_action_def)
  then show "snd (finalize_external_action clk run_id step_id disp att fo required lease need now_ms s) = s" by auto
  from op show "fst (finalize_external_action clk run_id step_id disp att fo required lease need now_ms s) = Inr x \<Longrightarrow>
       x = a \<and> xa_status a = action_value (fo_action_status fo) \<and> xa_dispatch_token a = Some disp
       \<and> xa_provider_reference a = fo_provider_reference fo \<and> xa_error_code a = fo_error_code fo"
    by (auto simp: exact_duplicate_def)
qed

lemma finalize_repeat:
  assumes inv: "wf_inv s" and a: "select_action run_id step_id s = Some a" "terminal_action_status (xa_status a)"
    and k: "select_step run_id step_id s = Some k" and res: "check_final_outcome fo = Inr result"
    and dup: "exact_duplicate fo result disp att a k" and mode: "\<And>m. required = Some m \<Longrightarrow> xa_retry_mode a = retry_value m"
  shows "finalize_external_action clk run_id step_id disp att fo required lease False now_ms s = (Inr a, s)"
  using a(2) k row_to_step_ok [OF inv k] require_action_eq [OF inv a(1)] res dup mode
  by (auto simp: finalize_external_action_def finalize_checked_def split: option.splits)

end
