(* ===== verification/Workflow_Examples.thy ===== *)
theory Workflow_Examples
  imports Workflow_Effects Run_Examples
begin

text \<open>
  An execution of the ledger evaluated inside the logic: the worker that holds the lease of a
  run creates the workflow execution, claims a step, prepares an unsafe external action,
  dispatches it and records the provider's success.
\<close>

definition wx_owned :: db where
  "wx_owned = snd (claim_next_run ex_models ex_clk ''tok'' ''w'' 30 None 1000
     (snd (create_run_with_event ex_clk ((ex_run ''r1'' ''1'')\<lparr>r_execution_authority := Some \<lparr>a_tenant_id = ''T'', a_subject_id = ''u'', a_permissions = []\<rparr>\<rparr>) ''run.queued'' [] empty_db)))"

definition wx_started :: db where
  "wx_started = snd (mark_running ex_clk ''r1'' (Some ''tok'') 2000
     (snd (create_or_get_execution ex_clk ''r1'' ''wf'' ''h'' (Some ''tok'') 2000 wx_owned)))"

definition wx_step :: db where
  "wx_step = snd (claim_step ex_clk ''c1'' ''att'' ''r1'' ''s1'' ''pay'' ''ih'' 3 (Some ''tok'') 2000 wx_started)"

definition wx_intent :: action_intent where
  "wx_intent = \<lparr>ai_run_id = ''r1'', ai_step_id = ''s1'', ai_tool_attempt_token = ''att'', ai_tenant_id = ''T'', ai_subject_id = ''u'',
     ai_workflow_type = ''wf'', ai_tool_name = ''pay'', ai_provider_name = ''p'', ai_provider_identity = ''p/1'', ai_input_hash = ''ih'',
     ai_arguments_json = Encoded (JObj []), ai_retry_mode = ''unsafe'', ai_idempotency_key = ''key''\<rparr>"

definition wx_prepared :: db where
  "wx_prepared = snd (prepare_external_action ex_clk ''x1'' wx_intent (Some ''tok'') 2000 wx_step)"

definition wx_dispatching :: db where
  "wx_dispatching = snd (begin_external_action_dispatch ex_clk ''d1'' ''r1'' ''s1'' ''att'' (Some ''tok'') 2000 wx_prepared)"

definition wx_cancelling :: db where
  "wx_cancelling = snd (request_cancel_atomically ex_models ex_clk ''r1'' ''T'' wx_prepared)"

definition wx_success :: final_outcome where
  "wx_success = \<lparr>fo_action_status = SUCCEEDED, fo_tool_status = TC_COMPLETED, fo_result_json = Some (Encoded (JObj [])),
     fo_provider_reference = Some ''ref'', fo_error_code = None\<rparr>"

definition wx_done :: db where
  "wx_done = snd (finalize_external_action ex_clk ''r1'' ''s1'' ''d1'' ''att'' wx_success None None False 2000 wx_dispatching)"

lemma wx_reachable:
  "store_reachable wx_owned" "store_reachable wx_started" "store_reachable wx_step" "store_reachable wx_prepared"
  "store_reachable wx_dispatching" "store_reachable wx_cancelling" "store_reachable wx_done"
proof -
  show o: "store_reachable wx_owned"
    unfolding wx_owned_def
    by (rule store_tx [OF store_tx [OF tx_start store_step.create_with_event] store_step.claim])
      (simp add: record_fields_valid_def ex_run_def)
  show st: "store_reachable wx_started"
    unfolding wx_started_def by (rule ledger_tx, rule ledger_tx, rule o) (rule workflow_step.wf_create workflow_step.wf_running)+
  show k: "store_reachable wx_step"
    unfolding wx_step_def by (rule ledger_tx [OF st]) (rule workflow_step.wf_claim)
  show p: "store_reachable wx_prepared"
    unfolding wx_prepared_def by (rule ledger_tx [OF k]) (rule workflow_step.wf_prepare)
  show d: "store_reachable wx_dispatching"
    unfolding wx_dispatching_def by (rule ledger_tx [OF p]) (rule workflow_step.wf_begin)
  show "store_reachable wx_cancelling"
    unfolding wx_cancelling_def by (rule store_tx [OF p]) (rule store_step.request_cancel)
  show "store_reachable wx_done"
    unfolding wx_done_def
    by (rule ledger_tx [OF d]) (rule workflow_step.wf_outcome)
qed

end
