(* ===== verification/Workflow_Properties.thy ===== *)
theory Workflow_Properties
  imports Workflow_Examples
begin

text \<open>
  The correctness properties of the workflow ledger: its invariant, the fencing of its writes,
  exclusive and bounded step attempts, at most one dispatch of an action that must not be
  repeated, one final outcome per action shared with its tool call, and replay.
\<close>

section \<open>Invariant\<close>

text \<open>
  C26. Ledger invariant. After any interleaving of run-store and ledger transactions every step
  belongs to an execution and every action to a step with its tool and input; a running step
  has an attempt token, a completed step a result and a failed one an error code; an action
  counts its dispatches, holds a dispatch token exactly when it was dispatched, has a final time
  exactly when it is terminal and a result exactly when it succeeded; keys are unique and the
  events of every execution are numbered without gaps.
\<close>

theorem reachable_ledger_inv: "store_reachable s \<Longrightarrow> wf_inv s"
  by (rule reachable_wf_inv)

theorem reachable_ledger_inv_witness: "wf_inv wx_done"
  by (rule reachable_ledger_inv) (rule wx_reachable)

section \<open>External actions\<close>

text \<open>
  At most one dispatch of an unsafe action. An action whose tool is not retry-safe is never
  dispatched twice: its count never exceeds one, and once it was dispatched no worker, with any
  lease, attempt or dispatch token, at any later time, gets a dispatch claim for it again.
\<close>

theorem unsafe_action_dispatched_at_most_once:
  assumes "store_reachable s" and "select_action run_id step_id s = Some a" and "xa_retry_mode a = retry_value UNSAFE"
  shows "xa_dispatch_count a \<le> 1 \<and> (xa_dispatch_count a = 1 \<longrightarrow> (\<forall>t clk token prev att lease now_ms c u. later s t \<longrightarrow>
       (begin_external_action_dispatch clk token run_id step_id att lease now_ms t = (Inr c, u) \<longrightarrow>
          dr_outcome c \<noteq> DISPATCH_CLAIMED \<and> u = t) \<and>
       (retry_external_action_dispatch clk token run_id step_id prev att lease now_ms t = (Inr c, u) \<longrightarrow>
          dr_outcome c \<noteq> RETRY_CLAIMED \<and> u = t)))"
proof (intro conjI impI allI)
  from reachable_wf_inv [OF assms(1)] assms(2,3) show "xa_dispatch_count a \<le> 1"
    by (auto simp: action_ok_def dest!: select_action_SomeD wf_invD(3))
next
  fix t clk token prev att lease now_ms c u
  assume one: "xa_dispatch_count a = 1" and t: "later s t"
  have inv: "wf_inv t" by (rule reachable_wf_inv [OF reachable_later [OF t assms(1)]])
  from later_wf_evolves [OF t assms(1)] assms(2) obtain b where b: "select_action run_id step_id t = Some b" "action_evolves a b"
    unfolding wf_evolves_def by blast
  then have mode: "xa_retry_mode b = retry_value UNSAFE" "xa_dispatch_count b \<noteq> 0"
    using one assms(3) by (auto simp: action_evolves_def same_identity_def)
  then have "xa_status b \<noteq> action_value PREPARED"
    using wf_invD(3) [OF inv] select_action_SomeD [OF b(1)] by (auto simp: action_ok_def)
  with begin_dispatch_effect [OF inv] b(1)
  show "dr_outcome c \<noteq> DISPATCH_CLAIMED" "u = t"
    if "begin_external_action_dispatch clk token run_id step_id att lease now_ms t = (Inr c, u)"
    using that by (metis option.inject)+
  from mode retry_dispatch_effect [OF inv] b(1)
  show "dr_outcome c \<noteq> RETRY_CLAIMED" "u = t"
    if "retry_external_action_dispatch clk token run_id step_id prev att lease now_ms t = (Inr c, u)"
    using that by (metis option.inject)+
qed

theorem unsafe_action_dispatched_at_most_once_witness:
  "xa_dispatch_count (hd (db_external_actions wx_dispatching)) \<le> 1"
proof -
  have "select_action ''r1'' ''s1'' wx_dispatching = Some (hd (db_external_actions wx_dispatching))"
    "xa_retry_mode (hd (db_external_actions wx_dispatching)) = retry_value UNSAFE" by code_simp+
  from unsafe_action_dispatched_at_most_once [OF wx_reachable(5) this] show ?thesis by blast
qed

text \<open>
  C27. Cancellation stops dispatches. Once a cancellation request is on a run, no external action
  of that run is dispatched for the first time any more: at every later time the dispatch call
  leaves the database unchanged.
\<close>

theorem cancel_request_stops_first_dispatch:
  assumes "store_reachable s" and "select_run run_id s = Some r" and "r_cancel_requested r" and "later s t"
  shows "snd (begin_external_action_dispatch clk token run_id step_id att lease now_ms t) = t"
proof -
  let ?op = "begin_external_action_dispatch clk token run_id step_id att lease now_ms t"
  have inv: "wf_inv t" by (rule reachable_wf_inv [OF reachable_later [OF assms(4,1)]])
  from later_evolves [OF assms(4,1)] assms(2,3) have "\<exists>r'. select_run run_id t = Some r' \<and> r_cancel_requested r'"
    unfolding evolves_def row_evolves_def by metis
  then have "dr_outcome c \<noteq> DISPATCH_CLAIMED" if "?op = (Inr c, u)" for c u
    using begin_dispatch_effect [OF inv that] by (metis option.inject)
  then have "u = t" if "?op = (Inr c, u)" for c u
    using begin_dispatch_effect [OF inv that] that by metis
  moreover have "u = t" if "?op = (Inl e, u)" for e u
    using that by (auto simp: begin_external_action_dispatch_def elim: transaction_cases)
  ultimately show ?thesis by (cases ?op; cases "fst ?op") auto
qed

theorem cancel_request_stops_first_dispatch_witness:
  "snd (begin_external_action_dispatch ex_clk ''d1'' ''r1'' ''s1'' ''att'' (Some ''tok'') 2000 wx_cancelling) = wx_cancelling"
proof -
  have "select_run ''r1'' wx_cancelling = Some (hd (db_runs wx_cancelling))" "r_cancel_requested (hd (db_runs wx_cancelling))"
    by code_simp+
  from cancel_request_stops_first_dispatch [OF wx_reachable(6) this tx_start] show ?thesis .
qed

text \<open>
  C28. The first outcome wins. When a finalization returns, the action and its tool call hold the
  reported outcome together: status, provider reference, result and error code. From then on
  the action never changes; every finalization, by any caller with any outcome, leaves the
  database as it is and returns at most the recorded action, never one with another outcome;
  and the same call repeated while the tool call is untouched returns the same action.
\<close>

theorem first_outcome_wins:
  assumes "store_reachable s" and "finalize_external_action clk run_id step_id disp att fo required lease need now_ms s = (Inr a, t)"
    and "later t u"
  shows "(\<exists>k. select_action run_id step_id t = Some a \<and> select_step run_id step_id t = Some k
      \<and> xa_status a = action_value (fo_action_status fo) \<and> k_status k = tool_call_value (fo_tool_status fo)
      \<and> xa_provider_reference a = fo_provider_reference fo \<and> xa_error_code a = fo_error_code fo
      \<and> k_result_json k = xa_result_json a \<and> k_error_code k = fo_error_code fo)
    \<and> select_action run_id step_id u = Some a
    \<and> (\<forall>clk' disp' att' fo' required' lease' need' now'.
         snd (finalize_external_action clk' run_id step_id disp' att' fo' required' lease' need' now' u) = u
         \<and> (\<forall>x. fst (finalize_external_action clk' run_id step_id disp' att' fo' required' lease' need' now' u) = Inr x \<longrightarrow>
              x = a \<and> fo_action_status fo' = fo_action_status fo \<and> disp' = disp
              \<and> fo_provider_reference fo' = fo_provider_reference fo \<and> fo_error_code fo' = fo_error_code fo))
    \<and> (select_step run_id step_id u = select_step run_id step_id t \<longrightarrow>
         finalize_external_action clk' run_id step_id disp att fo required lease False now' u = (Inr a, u))"
proof -
  have rt: "store_reachable t"
    using ledger_tx [OF assms(1) workflow_step.wf_outcome [of s clk run_id step_id disp att fo required lease need now_ms]] assms(2) by simp
  obtain result k where t: "check_final_outcome fo = Inr result" "select_action run_id step_id t = Some a"
    "select_step run_id step_id t = Some k" "exact_duplicate fo result disp att a k" "terminal_action_status (xa_status a)"
    and mode: "\<And>m. required = Some m \<Longrightarrow> xa_retry_mode a = retry_value m"
    by (rule finalize_effect [OF reachable_wf_inv [OF assms(1)] assms(2)]) (rule that)
  have inv: "wf_inv u" by (rule reachable_wf_inv [OF reachable_later [OF assms(3) rt]])
  have u: "select_action run_id step_id u = Some a"
    using later_wf_evolves [OF assms(3) rt] t(2,5) unfolding wf_evolves_def action_evolves_def by metis
  note dup = t(4) [unfolded exact_duplicate_def]
  have "snd (finalize_external_action clk' run_id step_id disp' att' fo' required' lease' need' now' u) = u
         \<and> (\<forall>x. fst (finalize_external_action clk' run_id step_id disp' att' fo' required' lease' need' now' u) = Inr x \<longrightarrow>
              x = a \<and> fo_action_status fo' = fo_action_status fo \<and> disp' = disp
              \<and> fo_provider_reference fo' = fo_provider_reference fo \<and> fo_error_code fo' = fo_error_code fo)"
    for clk' disp' att' fo' required' lease' need' now'
    using finalize_after_terminal [OF inv u t(5), of clk' disp' att' fo' required' lease' need' now'] dup
    by (metis action_value_inj option.inject)
  moreover have "finalize_external_action clk' run_id step_id disp att fo required lease False now' u = (Inr a, u)"
    if "select_step run_id step_id u = select_step run_id step_id t"
    by (rule finalize_repeat [OF inv u t(5) _ t(1,4)]) (use that t(3) mode in simp_all)
  ultimately show ?thesis using t(2,3) u dup by simp
qed

theorem first_outcome_wins_witness:
  "finalize_external_action ex_clk ''r1'' ''s1'' ''d1'' ''att'' wx_success None None False 9000 wx_done
     = (Inr (hd (db_external_actions wx_done)), wx_done)"
proof -
  let ?res = "finalize_external_action ex_clk ''r1'' ''s1'' ''d1'' ''att'' wx_success None None False 2000 wx_dispatching"
  have "fst ?res = Inr (hd (db_external_actions (snd ?res)))" by code_simp
  then have "?res = (Inr (hd (db_external_actions wx_done)), wx_done)"
    unfolding wx_done_def by (metis prod.collapse)
  from first_outcome_wins [OF wx_reachable(5) this tx_start] show ?thesis by blast
qed

text \<open>
  C29. Final evidence. A terminal execution, a completed step and a terminal action are never
  changed again; an action keeps its identity, arguments, retry mode and idempotency key for
  ever, and two actions never share an idempotency key.
\<close>

theorem ledger_evidence_is_final:
  assumes "store_reachable s" and "later s t"
  shows "(\<forall>x. select_execution run_id s = Some x \<and> x_completed_at x \<noteq> None \<longrightarrow> select_execution run_id t = Some x)
    \<and> (\<forall>k. select_step run_id step_id s = Some k \<and> completed_step k \<longrightarrow> select_step run_id step_id t = Some k)
    \<and> (\<forall>a. select_action run_id step_id s = Some a \<longrightarrow> (\<exists>a'. select_action run_id step_id t = Some a' \<and> same_identity a a'
          \<and> (terminal_action_status (xa_status a) \<longrightarrow> a' = a)))
    \<and> (\<forall>a\<in>set (db_external_actions s). \<forall>b\<in>set (db_external_actions s). xa_idempotency_key a = xa_idempotency_key b \<longrightarrow> a = b)"
proof (intro conjI allI ballI impI)
  note ev = later_wf_evolves [OF assms(2,1), unfolded wf_evolves_def]
  from ev show "select_execution run_id t = Some x" if "select_execution run_id s = Some x \<and> x_completed_at x \<noteq> None" for x
    using that unfolding execution_evolves_def by metis
  from ev show "select_step run_id step_id t = Some k" if "select_step run_id step_id s = Some k \<and> completed_step k" for k
    using that unfolding step_evolves_def by metis
  from ev show "\<exists>a'. select_action run_id step_id t = Some a' \<and> same_identity a a' \<and> (terminal_action_status (xa_status a) \<longrightarrow> a' = a)"
    if "select_action run_id step_id s = Some a" for a
    using that unfolding action_evolves_def by blast
  show "a = b" if "a \<in> set (db_external_actions s)" "b \<in> set (db_external_actions s)" "xa_idempotency_key a = xa_idempotency_key b" for a b
    using reachable_wf_inv [OF assms(1)] that key_unique [of xa_idempotency_key "db_external_actions s" a b] by (simp add: wf_inv_def)
qed

theorem ledger_evidence_is_final_witness:
  "select_step ''r1'' ''s1'' (snd (claim_step ex_clk ''c2'' ''att2'' ''r1'' ''s1'' ''pay'' ''ih'' 3 (Some ''tok'') 3000 wx_done))
     = select_step ''r1'' ''s1'' wx_done"
proof -
  have "select_step ''r1'' ''s1'' wx_done = Some (hd (db_tool_calls wx_done))" "completed_step (hd (db_tool_calls wx_done))"
    by code_simp+
  moreover have "later wx_done (snd (claim_step ex_clk ''c2'' ''att2'' ''r1'' ''s1'' ''pay'' ''ih'' 3 (Some ''tok'') 3000 wx_done))"
    by (rule ledger_tx [OF tx_start workflow_step.wf_claim])
  ultimately show ?thesis
    using ledger_evidence_is_final [OF wx_reachable(7), where run_id = "''r1''" and step_id = "''s1''"] by presburger
qed

section \<open>Steps\<close>

text \<open>
  C30. Step claims. A successful claim of a step that does not exist yet starts attempt 1 under
  the new token. Of an existing step, a claim is granted exactly when tool and input are the
  stored ones, the step has failed and attempts are left; it then starts the next attempt. In
  every other case nothing changes and the outcome says why: another tool, another input, a
  cached result, an attempt in progress, or no attempts left. So at most one attempt holds a
  step at a time and the attempts of a step never exceed the bound of the claim.
\<close>

theorem claim_step_is_exclusive_and_bounded:
  assumes "store_reachable s" and "claim_step clk call_id token run_id step_id tool h mx lease now_ms s = (Inr c, t)"
  shows "(cl_outcome c = CLAIMED \<longleftrightarrow> select_step run_id step_id s = None \<or> (\<exists>k. select_step run_id step_id s = Some k
        \<and> k_tool_name k = tool \<and> k_input_hash k = h \<and> k_status k = tool_call_value TC_FAILED \<and> k_attempt_count k < mx))
    \<and> (cl_outcome c = CLAIMED \<longrightarrow> (\<exists>k. select_step run_id step_id t = Some k \<and> cl_step c = Some k
        \<and> k_status k = tool_call_value TC_RUNNING \<and> k_attempt_token k = Some token \<and> 1 \<le> k_attempt_count k \<and> k_attempt_count k \<le> mx
        \<and> k_attempt_count k = 1 + (case select_step run_id step_id s of None \<Rightarrow> 0 | Some k0 \<Rightarrow> k_attempt_count k0)))
    \<and> (cl_outcome c \<noteq> CLAIMED \<longrightarrow> t = s \<and> cl_attempt_token c = None \<and> (\<exists>k. select_step run_id step_id s = Some k \<and> cl_step c = Some k \<and>
        cl_outcome c = (if k_tool_name k \<noteq> tool then DEFINITION_MISMATCH else if k_input_hash k \<noteq> h then INPUT_MISMATCH
          else if completed_step k then CACHED else if k_status k = tool_call_value TC_RUNNING then ALREADY_RUNNING
          else ATTEMPTS_EXHAUSTED)))"
proof -
  have inv: "wf_inv s" by (rule reachable_wf_inv [OF assms(1)])
  from assms(2) have mx: "1 \<le> mx" by (auto simp: claim_step_def split: if_splits)
  have pos: "0 \<le> k_attempt_count k" if "select_step run_id step_id s = Some k" for k
    using wf_invD(2) [OF inv] select_step_SomeD [OF that] by (auto simp: step_ok_def)
  from claim_step_effect [OF inv assms(2)] show ?thesis
  proof (elim disjE exE conjE)
    assume "select_step run_id step_id s = None" "step_claimed run_id step_id tool h token 1 c t"
    with mx show ?thesis by (auto simp: step_claimed_def)
  next
    fix k assume k: "select_step run_id step_id s = Some k" and eff: "if k_tool_name k = tool \<and> k_input_hash k = h
        \<and> k_status k = tool_call_value TC_FAILED \<and> k_attempt_count k < mx
       then step_claimed run_id step_id tool h token (k_attempt_count k + 1) c t
       else t = s \<and> cl_step c = Some k \<and> cl_attempt_token c = None \<and> cl_outcome c =
         (if k_tool_name k \<noteq> tool then DEFINITION_MISMATCH else if k_input_hash k \<noteq> h then INPUT_MISMATCH
          else if completed_step k then CACHED else if k_status k = tool_call_value TC_RUNNING then ALREADY_RUNNING
          else ATTEMPTS_EXHAUSTED)"
    show ?thesis
    proof (cases "k_tool_name k = tool \<and> k_input_hash k = h \<and> k_status k = tool_call_value TC_FAILED \<and> k_attempt_count k < mx")
      case True
      with eff k pos [OF k] show ?thesis by (auto simp: step_claimed_def)
    next
      case False
      with eff k show ?thesis by simp
    qed
  qed
qed

theorem claim_step_is_exclusive_and_bounded_witness:
  "fst (claim_step ex_clk ''c2'' ''att2'' ''r1'' ''s1'' ''pay'' ''ih'' 3 (Some ''tok'') 3000 wx_step) =
     Inr \<lparr>cl_outcome = ALREADY_RUNNING, cl_step = Some (hd (db_tool_calls wx_step)), cl_attempt_token = None\<rparr>"
proof -
  let ?res = "claim_step ex_clk ''c2'' ''att2'' ''r1'' ''s1'' ''pay'' ''ih'' 3 (Some ''tok'') 3000 wx_step"
  have "(case fst ?res of Inr c \<Rightarrow> True | Inl e \<Rightarrow> False)" by code_simp
  then obtain c where c: "?res = (Inr c, snd ?res)" by (cases ?res) (auto split: sum.splits)
  have "select_step ''r1'' ''s1'' wx_step = Some (hd (db_tool_calls wx_step))" "k_status (hd (db_tool_calls wx_step)) = tool_call_value TC_RUNNING"
    "k_tool_name (hd (db_tool_calls wx_step)) = ''pay''" "k_input_hash (hd (db_tool_calls wx_step)) = ''ih''"
    "\<not> completed_step (hd (db_tool_calls wx_step))" by code_simp+
  with claim_step_is_exclusive_and_bounded [OF wx_reachable(3) c] c show ?thesis
    by (cases c) (auto split: if_splits)
qed

text \<open>
  C31. Attempts are fenced by their token. The lease holder finishes a step exactly with the
  token of the attempt in progress: with that token the step takes the reported status, result
  and error code and no other step or action changes; with any other token the call raises
  StaleAttemptError and the database is as before, so a superseded attempt never overwrites a
  newer one.
\<close>

theorem attempt_token_fences_step:
  assumes "store_reachable s" and "holds_lease run_id lease now_ms s"
  shows "(if current_attempt run_id step_id att s
     then (\<exists>k k' t. select_step run_id step_id s = Some k \<and> k' = k\<lparr>k_status := tool_call_value TC_COMPLETED, k_result_json := Some json,
              k_error_code := None, k_updated_at := clk 0\<rparr>
          \<and> complete_step clk run_id step_id att json (Some lease) now_ms s = (Inr k', t) \<and> select_step run_id step_id t = Some k'
          \<and> (\<forall>i j. (i, j) \<noteq> (run_id, step_id) \<longrightarrow> select_step i j t = select_step i j s) \<and> db_external_actions t = db_external_actions s)
       \<and> (\<exists>k k' t. select_step run_id step_id s = Some k \<and> k' = k\<lparr>k_status := tool_call_value TC_FAILED, k_result_json := None,
              k_error_code := Some err, k_updated_at := clk 0\<rparr>
          \<and> fail_step clk run_id step_id att err (Some lease) now_ms s = (Inr k', t) \<and> select_step run_id step_id t = Some k'
          \<and> (\<forall>i j. (i, j) \<noteq> (run_id, step_id) \<longrightarrow> select_step i j t = select_step i j s) \<and> db_external_actions t = db_external_actions s)
     else complete_step clk run_id step_id att json (Some lease) now_ms s = (Inl (stale_attempt run_id step_id), s)
       \<and> fail_step clk run_id step_id att err (Some lease) now_ms s = (Inl (stale_attempt run_id step_id), s))"
proof (cases "current_attempt run_id step_id att s")
  case True
  then obtain k where "select_step run_id step_id s = Some k" "k_status k = tool_call_value TC_RUNNING" "k_attempt_token k = Some att"
    by (auto simp only: current_attempt_def split: option.splits)
  note eff = finalize_step_effect [OF reachable_wf_inv [OF assms(1)] this assms(2)]
  show ?thesis
    using True eff [of clk TC_COMPLETED "Some json" None "''step.completed''" "''completed''"]
      eff [of clk TC_FAILED None "Some err" "''step.failed''" "''failed''"] \<open>select_step run_id step_id s = Some k\<close>
    unfolding complete_step_def fail_step_def by auto
next
  case False
  then have "\<not> (\<exists>k. select_step run_id step_id s = Some k \<and> k_status k = tool_call_value TC_RUNNING \<and> k_attempt_token k = Some att)"
    by (auto simp: current_attempt_def)
  from finalize_step_stale [OF reachable_wf_inv [OF assms(1)] this assms(2)] False show ?thesis
    by (simp add: complete_step_def fail_step_def)
qed

theorem attempt_token_fences_step_witness:
  "complete_step ex_clk ''r1'' ''s1'' ''old'' (Encoded JNull) (Some ''tok'') 3000 wx_step = (Inl (stale_attempt ''r1'' ''s1''), wx_step)"
proof -
  have "holds_lease ''r1'' ''tok'' 3000 wx_step" "\<not> current_attempt ''r1'' ''s1'' ''old'' wx_step" by code_simp+
  with attempt_token_fences_step [OF wx_reachable(3)] show ?thesis by auto
qed

section \<open>Fencing\<close>

text \<open>
  C32. Ledger writes are fenced. A worker that does not hold the current, unexpired lease of the
  running run changes nothing in the ledger and gets no value back: creating, starting and
  finishing the execution, reusing, claiming, finishing and recovering steps, preparing and
  dispatching actions, the two lease-bound action outcomes and annotation events. A call
  without a token is refused as soon as the run exists.
\<close>

theorem ledger_writes_are_fenced:
  assumes "store_reachable s"
    and "lease = None \<and> select_run run_id s \<noteq> None \<or> (\<exists>token. lease = Some token \<and> \<not> holds_lease run_id token now_ms s)"
    and "run_id = ai_run_id i"
  shows "snd (create_or_get_execution clk run_id ty h lease now_ms s) = s
    \<and> snd (mark_running clk run_id lease now_ms s) = s
    \<and> snd (finalize_execution clk run_id st result err_opt ty lease now_ms s) = s
    \<and> snd (reuse_completed_step clk call_id src run_id step_id tool h lease now_ms s) = s
    \<and> snd (claim_step clk call_id att run_id step_id tool h mx lease now_ms s) = s
    \<and> snd (finalize_step clk run_id step_id att tst json_opt err_opt ty oc lease now_ms s) = s
    \<and> snd (recover_interrupted_step clk run_id step_id lease now_ms s) = s
    \<and> snd (prepare_external_action clk action_id i lease now_ms s) = s
    \<and> snd (begin_external_action_dispatch clk disp run_id step_id att lease now_ms s) = s
    \<and> snd (retry_external_action_dispatch clk disp run_id step_id prev att lease now_ms s) = s
    \<and> snd (finalize_external_action_reconciliation_unknown clk run_id step_id disp att err ref_opt lease now_ms s) = s
    \<and> snd (finalize_unsafe_interrupted_action clk run_id step_id disp att err lease now_ms s) = s
    \<and> snd (append_workflow_event clk run_id ty payload lease now_ms s) = s
    \<and> (\<forall>c. fst (claim_step clk call_id att run_id step_id tool h mx lease now_ms s) \<noteq> Inr c)
    \<and> (\<forall>c. fst (begin_external_action_dispatch clk disp run_id step_id att lease now_ms s) \<noteq> Inr c)"
  using assms(2)
proof (elim disjE conjE exE)
  fix token assume "lease = Some token" "\<not> holds_lease run_id token now_ms s"
  with reachable_inv [OF assms(1)] show ?thesis
    unfolding finalize_external_action_reconciliation_unknown_def finalize_unsafe_interrupted_action_def
    using created_execution.stale started_execution.stale finished_execution.stale reused_step.stale claimed_step.stale
      finished_step.stale recovered_step.stale prepared_action.stale [of s i] begun_dispatch.stale retried_dispatch.stale
      leased_outcome.stale annotated.stale assms(3)
    by (intro conjI) metis+
next
  assume "lease = None" "select_run run_id s \<noteq> None"
  then show ?thesis
    unfolding create_or_get_execution_def mark_running_def transition_execution_def finalize_execution_def
        reuse_completed_step_def claim_step_def finalize_step_def recover_interrupted_step_def prepare_external_action_def
        begin_external_action_dispatch_def retry_external_action_dispatch_def finalize_external_action_reconciliation_unknown_def
        finalize_unsafe_interrupted_action_def finalize_external_action_def append_workflow_event_def
    using assms(3) by (simp add: tokenless_transaction split: sum.splits)
qed

theorem ledger_writes_are_fenced_witness:
  "snd (claim_step ex_clk ''c2'' ''att2'' ''r1'' ''s2'' ''pay'' ''ih'' 3 (Some ''old'') 3000 wx_step) = wx_step"
proof -
  have id: "''r1'' = ai_run_id wx_intent" and lost: "\<not> holds_lease ''r1'' ''old'' 3000 wx_step" by code_simp+
  from lost have "Some ''old'' = None \<and> select_run ''r1'' wx_step \<noteq> None
      \<or> (\<exists>token. Some ''old'' = Some token \<and> \<not> holds_lease ''r1'' token 3000 wx_step)" by blast
  from ledger_writes_are_fenced [OF wx_reachable(3) this id, where clk = ex_clk and call_id = "''c2''" and att = "''att2''"
      and step_id = "''s2''" and tool = "''pay''" and h = "''ih''" and mx = 3]
  show ?thesis by simp
qed

text \<open>
  The workflow log. The events of an execution are numbered 1, 2, 3, ...; the log only grows,
  and a reader that resumes after the last number it saw gets exactly the events appended since.
\<close>

theorem workflow_log_resumes_without_gaps:
  assumes "store_reachable s" and "later s t"
  shows "map e_sequence (list_workflow_events run_id 0 s) = map (\<lambda>i. int i + 1) [0..<length (list_workflow_events run_id 0 s)]
    \<and> list_workflow_events run_id 0 t =
        list_workflow_events run_id 0 s @ list_workflow_events run_id (int (length (list_workflow_events run_id 0 s))) t"
proof -
  from assms have s: "wf_inv s" and t: "wf_inv t" by (auto intro: reachable_wf_inv reachable_later)
  from later_wf_evolves [OF assms(2,1)] obtain evs where evs: "db_workflow_events t = db_workflow_events s @ evs"
    by (auto simp: wf_evolves_def)
  show ?thesis using workflow_log.read_all(2) [OF s] workflow_log.read_resumes [OF s t evs] by blast
qed

theorem workflow_log_resumes_without_gaps_witness:
  "map e_sequence (list_workflow_events ''r1'' 0 wx_done) = map (\<lambda>i. int i + 1) [0..<length (list_workflow_events ''r1'' 0 wx_done)]"
  using workflow_log_resumes_without_gaps [OF wx_reachable(7) tx_start] by blast

end
