(* ===== verification/Quarantine_Properties.thy ===== *)
theory Quarantine_Properties
  imports Workflow_Properties
begin

text \<open>
  The correctness properties of quarantine: a run whose checkpoint conflict meets unresolved
  external effects blocks its thread until an operator applies exactly the plan that was
  reviewed; applying is atomic, preserves the checkpoint and all evidence, is verifiable and
  can be repeated. The example quarantines a seeded run that was overtaken after it performed
  an external action.
\<close>

section \<open>A quarantined run\<close>

definition qx_authority :: authority where
  "qx_authority = \<lparr>a_tenant_id = ''T'', a_subject_id = ''u'', a_permissions = []\<rparr>"

definition qx_run :: run_record where
  "qx_run = (ex_run ''r3'' ''0'')\<lparr>r_state := Some ex_state, r_execution_authority := Some qx_authority\<rparr>"

definition qx_overtaken :: db where
  "qx_overtaken = snd (claim_next_run ex_models ex_clk ''tok3'' ''w'' 30 None 3000
     (snd (commit_completed_run ex_models ex_clk (ex_result ''r1'') ''tok'' 2000
       (snd (claim_next_run ex_models ex_clk ''tok'' ''w'' 30 None 1000
         (snd (create_run_with_event ex_clk (ex_run ''r1'' ''0'') ''run.queued'' []
           (snd (create_run_with_event ex_clk qx_run ''run.queued'' [] empty_db)))))))))"

definition qx_intent :: action_intent where
  "qx_intent = wx_intent\<lparr>ai_run_id := ''r3''\<rparr>"

definition qx_acted :: db where
  "qx_acted = snd (finalize_external_action ex_clk ''r3'' ''s1'' ''d1'' ''att'' wx_success None None False 4000
     (snd (begin_external_action_dispatch ex_clk ''d1'' ''r3'' ''s1'' ''att'' (Some ''tok3'') 4000
     (snd (prepare_external_action ex_clk ''x1'' qx_intent (Some ''tok3'') 4000
     (snd (claim_step ex_clk ''c1'' ''att'' ''r3'' ''s1'' ''pay'' ''ih'' 3 (Some ''tok3'') 4000
     (snd (mark_running ex_clk ''r3'' (Some ''tok3'') 4000
     (snd (create_or_get_execution ex_clk ''r3'' ''wf'' ''h'' (Some ''tok3'') 4000 qx_overtaken)))))))))))"

definition qx_quarantined :: db where
  "qx_quarantined = snd (quarantine_checkpoint_conflict_for_reconciliation ex_clk qx_run ''tok3'' ''commit'' 5000 qx_acted)"

definition qx_waiting :: db where
  "qx_waiting = snd (create_run_with_event ex_clk (ex_run ''r4'' ''5'') ''run.queued'' [] qx_quarantined)"

definition qx_digests :: digests where
  "qx_digests = \<lparr>sha256_hex = (\<lambda>_. replicate 64 (CHR ''a'')), state_text = (\<lambda>_. [])\<rparr>"

definition qx_target :: resolution_target where
  "qx_target = \<lparr>tgt_run_id = Some ''r3'', tgt_action_id = None\<rparr>"

definition qx_plan_id :: string where
  "qx_plan_id = ''qrp_'' @ replicate 64 (CHR ''a'')"

definition qx_resolved :: db where
  "qx_resolved = snd (apply_quarantine_resolution qx_digests ex_clk ''r3'' ''T'' qx_target
     TERMINALIZE_FAILED_PRESERVING_CHECKPOINT qx_plan_id ''op'' ''cred'' qx_waiting)"

lemma qx_reachable: "store_reachable qx_waiting" "store_reachable qx_resolved"
proof -
  have valid: "record_fields_valid (ex_run a b)" "record_fields_valid qx_run" for a b
    by (simp_all add: record_fields_valid_def ex_run_def qx_run_def)
  have o: "store_reachable qx_overtaken"
    unfolding qx_overtaken_def
    by (rule store_tx [OF store_tx [OF store_tx [OF store_tx [OF store_tx [OF tx_start store_step.create_with_event]
      store_step.create_with_event] store_step.claim] store_step.completed] store_step.claim]) (rule valid)+
  have a: "store_reachable qx_acted"
    unfolding qx_acted_def
    by (rule ledger_tx [OF ledger_tx [OF ledger_tx [OF ledger_tx [OF ledger_tx [OF ledger_tx [OF o workflow_step.wf_create]
      workflow_step.wf_running] workflow_step.wf_claim] workflow_step.wf_prepare] workflow_step.wf_begin] workflow_step.wf_outcome])
  show w: "store_reachable qx_waiting"
    unfolding qx_waiting_def qx_quarantined_def
    by (rule store_tx [OF store_tx [OF a store_step.quarantine] store_step.create_with_event]) (rule valid)
  show "store_reachable qx_resolved"
    unfolding qx_resolved_def by (rule store_tx [OF w store_step.resolve])
qed

section \<open>Applying a plan\<close>

lemma eligible_plan_row:
  assumes "store_inv s" and "derive_quarantine_plan_with_connection D run_id tenant_id target resolution s = Inr cur"
    and "p_eligible (ps_plan cur)"
  obtains r where "select_run run_id s = Some r" "r \<in> set (db_runs s)" "quarantined_row run_id tenant_id r"
proof -
  from assms(2) obtain r where r: "select_run_for_tenant run_id tenant_id s = Some r"
    "p_eligible (ps_plan cur) \<longleftrightarrow> reasons_at r run_id tenant_id s = []" by (rule derive_facts)
  with assms(3) have "r_status r = RUNNING" "r_error_code r = Some THREAD_CHECKPOINT_RECONCILIATION_BLOCKED_CODE" "lease_cleared r"
    by (auto simp: reasons_at_def ineligibility_reasons_def split: if_splits)
  moreover from r(1) have "r \<in> set (db_runs s)" "r_run_id r = run_id" "r_tenant_id r = tenant_id"
    by (auto dest: select_run_for_tenant_SomeD)
  ultimately show thesis
    using that [of r] select_run_mem [OF assms(1), of r] by (simp add: quarantined_row_def)
qed

lemma apply_write_progress:
  assumes inv: "store_inv s" and r: "select_run run_id s = Some r" "r \<in> set (db_runs s)" "quarantined_row run_id tenant_id r"
  shows "\<exists>c t. apply_resolution_write clk run_id tenant_id target resolution plan_id subject cred cur s = Inr (c, t)"
proof -
  let ?f = "terminalize FAILED (Some THREAD_CHECKPOINT_CONFLICT_CODE) (Some resolution_error) (clk 0)"
  have "update_runs (quarantined_row run_id tenant_id) ?f s =
      Inr (1, s\<lparr>db_runs := sql_update (quarantined_row run_id tenant_id) ?f (db_runs s)\<rparr>)"
    by (rule update_running [OF inv r(2)]) (use r(3) in \<open>auto simp: quarantined_row_def row_ids thread_key_def client_key_def\<close>)
  moreover have "select_run run_id (s\<lparr>db_runs := sql_update (quarantined_row run_id tenant_id) ?f (db_runs s)\<rparr>) = Some (?f r)"
    by (rule select_update_hit [where p = "quarantined_row run_id tenant_id" and r = r]) (simp_all add: row_ids r)
  ultimately show ?thesis by (simp add: apply_resolution_write_def)
qed

text \<open>
  C33. Only the reviewed plan is applied. When the current evidence makes the run eligible and
  still hashes to the plan the operator reviewed, and that plan was not applied before, the
  application succeeds: it fails the quarantined run with a cleared lease and the conflict code,
  and appends the audit event and the failure event. Every other run, every checkpoint and the
  whole workflow ledger stay as they are. When the run is not eligible or the evidence hashes to
  another plan, the call raises the stale-plan error with the current plan and changes nothing.
\<close>

theorem only_the_reviewed_plan_is_applied:
  assumes "store_reachable s" and "plan_quarantine_resolution D run_id tenant_id target resolution s = Inr p"
    and "matching_resolution_events run_id plan_id s = []"
  shows "(p_eligible p \<and> p_plan_id p = Some plan_id \<longrightarrow>
       (\<exists>c t r e1 e2. apply_quarantine_resolution D clk run_id tenant_id target resolution plan_id subject cred s = (Inr c, t)
          \<and> rc_plan c = p \<and> \<not> rc_reused c \<and> select_run run_id s = Some r \<and> quarantined_row run_id tenant_id r
          \<and> select_run run_id t = Some (terminalize FAILED (Some THREAD_CHECKPOINT_CONFLICT_CODE) (Some resolution_error) (clk 0) r)
          \<and> (\<forall>other. other \<noteq> run_id \<longrightarrow> select_run other t = select_run other s)
          \<and> db_thread_states t = db_thread_states s \<and> ledger_same s t
          \<and> db_run_events t = db_run_events s @ [e1, e2] \<and> e_event_type e1 = ''quarantine.resolution_applied''
          \<and> e_event_type e2 = ''run.failed'' \<and> e_run_id e1 = run_id \<and> e_run_id e2 = run_id))
    \<and> (\<not> (p_eligible p \<and> p_plan_id p = Some plan_id) \<longrightarrow>
         apply_quarantine_resolution D clk run_id tenant_id target resolution plan_id subject cred s
           = (Inl (QuarantineResolutionStalePlanError p), s))"
proof -
  have inv: "store_inv s" by (rule reachable_inv [OF assms(1)])
  from assms(2) obtain cur where cur: "derive_quarantine_plan_with_connection D run_id tenant_id target resolution s = Inr cur" "p = ps_plan cur"
    by (auto simp: plan_quarantine_resolution_def split: sum.splits)
  have find: "find_resolution_event_with_connection run_id plan_id s = Inr None"
    using assms(3) by (simp add: find_resolution_event_with_connection_def)
  show ?thesis
  proof (cases "p_eligible p \<and> p_plan_id p = Some plan_id")
    case True
    from True cur(2) obtain r where r: "select_run run_id s = Some r" "r \<in> set (db_runs s)" "quarantined_row run_id tenant_id r"
      by (auto intro: eligible_plan_row [OF inv cur(1)])
    obtain c t where w: "apply_resolution_write clk run_id tenant_id target resolution plan_id subject cred cur s = Inr (c, t)"
      using apply_write_progress [OF inv r] by blast
    with True cur find have ap: "apply_quarantine_resolution D clk run_id tenant_id target resolution plan_id subject cred s = (Inr c, t)"
      by (simp add: apply_quarantine_resolution_def)
    from apply_quarantine_resolution_ok [OF inv, of D clk run_id tenant_id target resolution plan_id subject cred] ap
    have "ledger_same s t" by (simp add: ok_step_def)
    moreover obtain r' e1 e2 where e: "select_run run_id s = Some r'" "quarantined_row run_id tenant_id r'"
      "select_run run_id t = Some (terminalize FAILED (Some THREAD_CHECKPOINT_CONFLICT_CODE) (Some resolution_error) (clk 0) r')"
      "db_run_events t = db_run_events s @ [e1, e2]" "e_run_id e1 = run_id" "e_event_type e1 = ''quarantine.resolution_applied''"
      "e_run_id e2 = run_id" "e_event_type e2 = ''run.failed''" "db_thread_states t = db_thread_states s"
      "db_runs t = sql_update (quarantined_row run_id tenant_id)
         (terminalize FAILED (Some THREAD_CHECKPOINT_CONFLICT_CODE) (Some resolution_error) (clk 0)) (db_runs s)"
      "c = \<lparr>rc_plan = ps_plan cur, rc_reused = False, rc_workflow_fingerprint = ps_workflow_fingerprint cur,
        rc_checkpoint_fingerprint = ps_checkpoint_fingerprint cur\<rparr>"
      by (rule apply_write_effect [OF inv w]) (rule that)
    moreover have "select_run other t = select_run other s" if "other \<noteq> run_id" for other
      using select_update_miss [where p = "quarantined_row run_id tenant_id" and run_id = run_id and s = s, OF _ _ that] e(10)
      by (simp add: row_ids quarantined_row_def select_run_def)
    ultimately show ?thesis using True ap cur(2) by simp
  next
    case False
    with cur find have "apply_quarantine_resolution D clk run_id tenant_id target resolution plan_id subject cred s
        = (Inl (QuarantineResolutionStalePlanError p), s)"
      by (auto simp: apply_quarantine_resolution_def)
    with False show ?thesis by blast
  qed
qed

lemma derive_plan_id:
  "derive_quarantine_plan_with_connection D run_id tenant_id target resolution s = Inr cur \<Longrightarrow> p_eligible (ps_plan cur) \<Longrightarrow>
     \<exists>m. p_plan_id (ps_plan cur) = Some (''qrp_'' @ canonical_resolution_hash D m)"
  by (auto simp: derive_quarantine_plan_with_connection_def Let_def split: if_splits option.splits)

lemma qx_hex: "is_hex64 (sha256_hex qx_digests x)"
  by (simp add: qx_digests_def is_hex64_def)

lemma qx_plan:
  obtains cur where "derive_quarantine_plan_with_connection qx_digests ''r3'' ''T'' qx_target
     TERMINALIZE_FAILED_PRESERVING_CHECKPOINT qx_waiting = Inr cur" "p_eligible (ps_plan cur)" "p_plan_id (ps_plan cur) = Some qx_plan_id"
proof -
  have "select_run_for_tenant ''r3'' ''T'' qx_waiting = Some (hd (db_runs qx_waiting))" "require_exactly_one_target qx_target"
    "target_identifier qx_target = ''r3''" by code_simp+
  from derive_total [OF reachable_inv [OF qx_reachable(1)] this qx_hex] obtain cur
    where cur: "derive_quarantine_plan_with_connection qx_digests ''r3'' ''T'' qx_target
     TERMINALIZE_FAILED_PRESERVING_CHECKPOINT qx_waiting = Inr cur" by blast
  have "reasons_at (hd (db_runs qx_waiting)) ''r3'' ''T'' qx_waiting = []" by code_simp
  with \<open>select_run_for_tenant ''r3'' ''T'' qx_waiting = _\<close> have el: "p_eligible (ps_plan cur)"
    by (metis derive_facts [OF cur] option.inject)
  have "canonical_resolution_hash qx_digests m = replicate 64 (CHR ''a'')" for m
    by (simp add: canonical_resolution_hash_def qx_digests_def)
  with derive_plan_id [OF cur el] have "p_plan_id (ps_plan cur) = Some qx_plan_id"
    unfolding qx_plan_id_def by metis
  with cur el that show thesis by blast
qed

lemma qx_applied:
  obtains c where "apply_quarantine_resolution qx_digests ex_clk ''r3'' ''T'' qx_target
     TERMINALIZE_FAILED_PRESERVING_CHECKPOINT qx_plan_id ''op'' ''cred'' qx_waiting = (Inr c, qx_resolved)" "\<not> rc_reused c"
    "db_runs qx_resolved = sql_update (quarantined_row ''r3'' ''T'')
         (terminalize FAILED (Some THREAD_CHECKPOINT_CONFLICT_CODE) (Some resolution_error) (ex_clk 0)) (db_runs qx_waiting)"
proof -
  obtain cur where cur: "derive_quarantine_plan_with_connection qx_digests ''r3'' ''T'' qx_target
     TERMINALIZE_FAILED_PRESERVING_CHECKPOINT qx_waiting = Inr cur" "p_eligible (ps_plan cur)" "p_plan_id (ps_plan cur) = Some qx_plan_id"
    by (rule qx_plan)
  have "matching_resolution_events ''r3'' qx_plan_id qx_waiting = []" by code_simp
  then have find: "find_resolution_event_with_connection ''r3'' qx_plan_id qx_waiting = Inr None"
    by (simp add: find_resolution_event_with_connection_def)
  note inv = reachable_inv [OF qx_reachable(1)]
  obtain r where "select_run ''r3'' qx_waiting = Some r" "r \<in> set (db_runs qx_waiting)" "quarantined_row ''r3'' ''T'' r"
    by (rule eligible_plan_row [OF inv cur(1,2)])
  from apply_write_progress [OF inv this] obtain c t where
    w: "apply_resolution_write ex_clk ''r3'' ''T'' qx_target TERMINALIZE_FAILED_PRESERVING_CHECKPOINT qx_plan_id ''op'' ''cred'' cur qx_waiting = Inr (c, t)"
    by blast
  with cur find have ap: "apply_quarantine_resolution qx_digests ex_clk ''r3'' ''T'' qx_target
     TERMINALIZE_FAILED_PRESERVING_CHECKPOINT qx_plan_id ''op'' ''cred'' qx_waiting = (Inr c, t)"
    by (simp add: apply_quarantine_resolution_def)
  then have t: "qx_resolved = t" by (simp add: qx_resolved_def)
  have "\<not> rc_reused c" "db_runs t = sql_update (quarantined_row ''r3'' ''T'')
         (terminalize FAILED (Some THREAD_CHECKPOINT_CONFLICT_CODE) (Some resolution_error) (ex_clk 0)) (db_runs qx_waiting)"
    by (rule apply_write_effect [OF inv w], simp)+
  with ap t that show thesis by simp
qed

theorem only_the_reviewed_plan_is_applied_witness:
  "\<exists>r. select_run ''r3'' qx_waiting = Some r \<and> quarantined_row ''r3'' ''T'' r"
proof -
  obtain cur where cur: "derive_quarantine_plan_with_connection qx_digests ''r3'' ''T'' qx_target
     TERMINALIZE_FAILED_PRESERVING_CHECKPOINT qx_waiting = Inr cur" "p_eligible (ps_plan cur)" "p_plan_id (ps_plan cur) = Some qx_plan_id"
    by (rule qx_plan)
  then have p: "plan_quarantine_resolution qx_digests ''r3'' ''T'' qx_target TERMINALIZE_FAILED_PRESERVING_CHECKPOINT qx_waiting
      = Inr (ps_plan cur)" by (simp add: plan_quarantine_resolution_def)
  have none: "matching_resolution_events ''r3'' qx_plan_id qx_waiting = []" by code_simp
  from only_the_reviewed_plan_is_applied [OF qx_reachable(1) p none] cur(2,3) show ?thesis by blast
qed

text \<open>
  C34. A resolution can be repeated and verified. After a fresh application the same command,
  by any operator at any time, returns the same commit marked as reused and writes nothing, and
  the durable verification of the commit passes. The digest is assumed to print 64 lowercase
  hexadecimal digits; no failure event of the plan exists before.
\<close>

theorem resolution_is_repeatable_and_verifiable:
  assumes "store_reachable s" and "\<forall>x. is_hex64 (sha256_hex D x)"
    and "apply_quarantine_resolution D clk run_id tenant_id target resolution plan_id subject cred s = (Inr c, t)"
    and "\<not> rc_reused c" and "matching_resolution_failed_events run_id plan_id s = []"
  shows "apply_quarantine_resolution D clk' run_id tenant_id target resolution plan_id subject' cred' t = (Inr (c\<lparr>rc_reused := True\<rparr>), t)
    \<and> verify_quarantine_resolution D c t = None"
  using apply_twice [OF reachable_inv [OF assms(1)] _ assms(3,4)] verify_after_apply [OF reachable_inv [OF assms(1)] assms(3-5)] assms(2)
  by blast

theorem resolution_is_repeatable_and_verifiable_witness:
  "snd (apply_quarantine_resolution qx_digests ex_clk ''r3'' ''T'' qx_target
     TERMINALIZE_FAILED_PRESERVING_CHECKPOINT qx_plan_id ''op2'' ''cred2'' qx_resolved) = qx_resolved"
proof -
  have hex: "\<forall>x. is_hex64 (sha256_hex qx_digests x)" by (simp add: qx_hex)
  have none: "matching_resolution_failed_events ''r3'' qx_plan_id qx_waiting = []" by code_simp
  obtain c where c: "apply_quarantine_resolution qx_digests ex_clk ''r3'' ''T'' qx_target
     TERMINALIZE_FAILED_PRESERVING_CHECKPOINT qx_plan_id ''op'' ''cred'' qx_waiting = (Inr c, qx_resolved)" "\<not> rc_reused c"
    by (rule qx_applied)
  from resolution_is_repeatable_and_verifiable [OF qx_reachable(1) hex c none] show ?thesis by simp
qed

text \<open>
  C35. Quarantine blocks the thread until it is resolved. While a run is quarantined no run of
  its thread, itself included, can be claimed at any clock reading; a fresh resolution releases
  the thread: afterwards every queued run of it without a cancellation request is eligible.
\<close>

theorem quarantine_blocks_thread_until_resolved:
  assumes "store_reachable s" and "r \<in> set (db_runs s)" and "quarantined_row run_id tenant_id r"
  shows "(\<forall>now_ms. \<forall>x\<in>set (db_runs s). thread_key x = thread_key r \<longrightarrow> \<not> eligible now_ms s x)
    \<and> (\<forall>D clk target resolution plan_id subject cred c t.
         apply_quarantine_resolution D clk run_id tenant_id target resolution plan_id subject cred s = (Inr c, t) \<and> \<not> rc_reused c \<longrightarrow>
         (\<forall>now_ms. \<forall>x\<in>set (db_runs t). thread_key x = thread_key r \<and> r_status x = QUEUED \<and> \<not> r_cancel_requested x \<longrightarrow> eligible now_ms t x))"
proof -
  have inv: "store_inv s" by (rule reachable_inv [OF assms(1)])
  have q: "r_status r = RUNNING" "r_error_code r = Some THREAD_CHECKPOINT_RECONCILIATION_BLOCKED_CODE" "r_run_id r = run_id"
    using assms(3) by (simp_all add: quarantined_row_def)
  have "\<not> eligible now_ms s x" if "x \<in> set (db_runs s)" "thread_key x = thread_key r" for now_ms x
  proof (cases "r_status x = RUNNING")
    case True
    then have "x = r" by (rule thread_running_unique [OF inv that(1) assms(2) _ q(1) that(2)])
    with q show ?thesis by (simp add: claimable_queued_def claimable_expired_def)
  next
    case False
    with that(2) assms(2) q(1) show ?thesis by (auto simp: claimable_queued_def claimable_expired_def)
  qed
  moreover have "eligible now_ms t x"
    if ap: "apply_quarantine_resolution D clk run_id tenant_id target resolution plan_id subject cred s = (Inr c, t)" "\<not> rc_reused c"
      and x: "x \<in> set (db_runs t)" "thread_key x = thread_key r" "r_status x = QUEUED" "\<not> r_cancel_requested x"
    for D clk target resolution plan_id subject cred c t now_ms x
  proof -
    from ap obtain cur where w: "apply_resolution_write clk run_id tenant_id target resolution plan_id subject cred cur s = Inr (c, t)"
      by (elim apply_success_cases) auto
    have runs: "db_runs t = sql_update (quarantined_row run_id tenant_id)
         (terminalize FAILED (Some THREAD_CHECKPOINT_CONFLICT_CODE) (Some resolution_error) (clk 0)) (db_runs s)"
      by (rule apply_write_effect [OF inv w])
    have "r_status y \<noteq> RUNNING" if y: "y \<in> set (db_runs t)" "thread_key y = thread_key r" for y
    proof
      assume run: "r_status y = RUNNING"
      from y(1) obtain y0 where y0: "y0 \<in> set (db_runs s)" "y = (if quarantined_row run_id tenant_id y0
          then terminalize FAILED (Some THREAD_CHECKPOINT_CONFLICT_CODE) (Some resolution_error) (clk 0) y0 else y0)"
        unfolding runs set_sql_update by blast
      with run have "\<not> quarantined_row run_id tenant_id y0" by (auto simp: terminalize_def clear_lease_def)
      with y0 run y(2) q thread_running_unique [OF inv y0(1) assms(2)] assms(3) show False by auto
    qed
    with x show ?thesis by (auto simp: claimable_queued_def)
  qed
  ultimately show ?thesis by blast
qed

theorem quarantine_blocks_thread_until_resolved_witness:
  "\<not> eligible 9000 qx_waiting (db_runs qx_waiting ! 2) \<and> eligible 9000 qx_resolved (db_runs qx_resolved ! 2)"
proof -
  let ?r = "hd (db_runs qx_waiting)"
  let ?runs = "sql_update (quarantined_row ''r3'' ''T'')
         (terminalize FAILED (Some THREAD_CHECKPOINT_CONFLICT_CODE) (Some resolution_error) (ex_clk 0)) (db_runs qx_waiting)"
  have r: "?r \<in> set (db_runs qx_waiting)" "quarantined_row ''r3'' ''T'' ?r" by code_simp+
  obtain c where c: "apply_quarantine_resolution qx_digests ex_clk ''r3'' ''T'' qx_target
     TERMINALIZE_FAILED_PRESERVING_CHECKPOINT qx_plan_id ''op'' ''cred'' qx_waiting = (Inr c, qx_resolved)" "\<not> rc_reused c"
    and runs: "db_runs qx_resolved = ?runs"
    by (rule qx_applied)
  have wait: "db_runs qx_waiting ! 2 \<in> set (db_runs qx_waiting)" "thread_key (db_runs qx_waiting ! 2) = thread_key ?r" by code_simp+
  have "?runs ! 2 \<in> set ?runs" "thread_key (?runs ! 2) = thread_key ?r" "r_status (?runs ! 2) = QUEUED"
    "\<not> r_cancel_requested (?runs ! 2)" by code_simp+
  note free = this [folded runs]
  from quarantine_blocks_thread_until_resolved [OF qx_reachable(1) r] wait free c show ?thesis by blast
qed

end
