(* ===== verification/Workflow_Dag.thy ===== *)
theory Workflow_Dag
  imports Runtime_Prelude
begin

text \<open>
  Workflow topology, \<^verbatim>\<open>runtime_service/dag.py\<close>: the validation of a declared graph,
  the deterministic topological order (Kahn's algorithm over a heap ordered by declaration
  position) and the closure of descendants. The code iterates over Python sets, whose order is
  not specified: the argument \<^verbatim>\<open>rank\<close> gives the order in which the members of
  each set are visited, and the results are shown not to depend on it. The heap is the sorted
  list of its entries; \<^verbatim>\<open>heappop\<close> takes the least and \<^verbatim>\<open>heappush\<close> inserts.
\<close>

section \<open>The code\<close>

record workflow_node =
  node_id :: string
  dependencies :: "string list"

datatype graph_error = WorkflowGraphError string

record workflow_dag =
  dag_nodes :: "workflow_node list"
  dag_topological_order :: "string list"

definition node_ids :: "workflow_node list \<Rightarrow> string list" where
  "node_ids nodes = map node_id nodes"

fun check_nodes :: "string list \<Rightarrow> workflow_node list \<Rightarrow> graph_error option" where
  "check_nodes seen [] = None"
| "check_nodes seen (node # nodes) =
     (if node_id node = [] then Some (WorkflowGraphError ''workflow node_id must not be empty'')
      else if node_id node \<in> set seen
      then Some (WorkflowGraphError (''duplicate workflow node_id: '' @ py_repr (node_id node)))
      else if length (remdups (dependencies node)) \<noteq> length (dependencies node)
      then Some (WorkflowGraphError (''node '' @ py_repr (node_id node) @ '' declares duplicate dependencies''))
      else check_nodes (node_id node # seen) nodes)"

fun check_dependencies :: "string list \<Rightarrow> workflow_node list \<Rightarrow> graph_error option" where
  "check_dependencies known [] = None"
| "check_dependencies known (node # nodes) =
     (if node_id node \<in> set (dependencies node)
      then Some (WorkflowGraphError (''node '' @ py_repr (node_id node) @ '' cannot depend on itself''))
      else if \<not> set (dependencies node) \<subseteq> set known
      then Some (WorkflowGraphError (''node '' @ py_repr (node_id node) @ '' has unknown dependencies: ''
        @ py_repr_list (sort (remdups (filter (\<lambda>d. d \<notin> set known) (dependencies node))))))
      else check_dependencies known nodes)"

fun position :: "workflow_node list \<Rightarrow> string \<Rightarrow> nat" where
  "position [] n = 0"
| "position (node # nodes) n = (if node_id node = n then 0 else Suc (position nodes n))"

fun dependencies_of :: "workflow_node list \<Rightarrow> string \<Rightarrow> string list" where
  "dependencies_of [] n = []"
| "dependencies_of (node # nodes) n = (if node_id node = n then dependencies node else dependencies_of nodes n)"

definition dependents :: "workflow_node list \<Rightarrow> string \<Rightarrow> string list" where
  "dependents nodes n = map node_id (filter (\<lambda>m. n \<in> set (dependencies m)) nodes)"

definition decrement :: "string \<Rightarrow> (string \<times> int) list \<Rightarrow> (string \<times> int) list" where
  "decrement d remaining = map (\<lambda>(k, c). if k = d then (k, c - 1) else (k, c)) remaining"

text \<open>The inner loop of \<^verbatim>\<open>_build_topological_order\<close>.\<close>

fun relax :: "(string \<Rightarrow> nat) \<Rightarrow> string list \<Rightarrow> (nat \<times> string) list \<Rightarrow> (string \<times> int) list
     \<Rightarrow> (nat \<times> string) list \<times> (string \<times> int) list" where
  "relax pos [] ready remaining = (ready, remaining)"
| "relax pos (d # ds) ready remaining =
     (let remaining' = decrement d remaining
      in relax pos ds (if map_of remaining' d = Some 0 then insort (pos d, d) ready else ready) remaining')"

definition positives :: "(string \<times> int) list \<Rightarrow> nat" where
  "positives remaining = length (filter (\<lambda>(k, c). 0 < c) remaining)"

lemma decrement_simps [simp]:
  "decrement d [] = []" "decrement d ((k, c) # xs) = (k, if k = d then c - 1 else c) # decrement d xs"
  by (simp_all add: decrement_def)

lemma positives_simps [simp]:
  "positives [] = 0" "positives ((k, c) # xs) = (if 0 < c then Suc (positives xs) else positives xs)"
  by (simp_all add: positives_def)

lemma positives_decrement: "positives (decrement d remaining) \<le> positives remaining"
  by (induction remaining) (auto simp: le_Suc_eq)

lemma positives_decrement_hit:
  "map_of (decrement d remaining) d = Some 0 \<Longrightarrow> positives (decrement d remaining) < positives remaining"
proof (induction remaining)
  case (Cons x xs)
  with positives_decrement [of d xs] show ?case by (cases x) (auto split: if_splits)
qed simp

lemma relax_measure:
  "relax pos ds ready remaining = (ready', remaining') \<Longrightarrow> length ready' + positives remaining' \<le> length ready + positives remaining"
proof (induction ds arbitrary: ready remaining)
  case (Cons d ds)
  define ready1 where "ready1 = (if map_of (decrement d remaining) d = Some 0 then insort (pos d, d) ready else ready)"
  have "length ready1 + positives (decrement d remaining) \<le> length ready + positives remaining"
    using positives_decrement [of d remaining] positives_decrement_hit [of d remaining] by (auto simp: ready1_def Suc_le_eq)
  moreover from Cons.prems have "relax pos ds ready1 (decrement d remaining) = (ready', remaining')"
    by (simp add: Let_def ready1_def)
  ultimately show ?case using Cons.IH by (meson order_trans)
qed simp

function build_loop :: "(string \<Rightarrow> string list) \<Rightarrow> (string \<Rightarrow> nat) \<Rightarrow> (nat \<times> string) list \<Rightarrow> (string \<times> int) list
     \<Rightarrow> string list \<Rightarrow> string list \<times> (string \<times> int) list" where
  "build_loop succs pos [] remaining ordered = (ordered, remaining)"
| "build_loop succs pos ((p, n) # ready) remaining ordered =
     (case relax pos (succs n) ready remaining of (ready', remaining') \<Rightarrow>
        build_loop succs pos ready' remaining' (ordered @ [n]))"
  by pat_completeness auto
termination
  by (relation "measure (\<lambda>(succs, pos, ready, remaining, ordered). length ready + positives remaining)")
    (auto dest!: relax_measure [OF sym])

definition build_topological_order :: "(string \<Rightarrow> string \<Rightarrow> nat) \<Rightarrow> workflow_node list \<Rightarrow> graph_error + string list" where
  "build_topological_order rank nodes =
     (let remaining = map (\<lambda>node. (node_id node, int (length (remdups (dependencies node))))) nodes;
          ready = sort (map (\<lambda>(n, c). (position nodes n, n)) (filter (\<lambda>(n, c). c = 0) remaining))
      in case build_loop (\<lambda>n. sort_key (rank n) (dependents nodes n)) (position nodes) ready remaining [] of
           (ordered, remaining') \<Rightarrow>
             if length ordered \<noteq> length nodes
             then Inl (WorkflowGraphError (''workflow graph contains a cycle: ''
                    @ py_repr_list (sort (map fst (filter (\<lambda>(n, c). 0 < c) remaining')))))
             else Inr ordered)"

definition make_dag :: "(string \<Rightarrow> string \<Rightarrow> nat) \<Rightarrow> workflow_node list \<Rightarrow> graph_error + workflow_dag" where
  "make_dag rank nodes =
     (if nodes = [] then Inl (WorkflowGraphError ''workflow graph must contain at least one node'')
      else case check_nodes [] nodes of Some e \<Rightarrow> Inl e
      | None \<Rightarrow> (case check_dependencies (node_ids nodes) nodes of Some e \<Rightarrow> Inl e
        | None \<Rightarrow> (case build_topological_order rank nodes of Inl e \<Rightarrow> Inl e
          | Inr order \<Rightarrow> Inr \<lparr>dag_nodes = nodes, dag_topological_order = order\<rparr>)))"

definition require_known :: "workflow_node list \<Rightarrow> string list \<Rightarrow> graph_error option" where
  "require_known nodes ids = (case filter (\<lambda>n. n \<notin> set (node_ids nodes)) ids of
      [] \<Rightarrow> None
    | unknown \<Rightarrow> Some (WorkflowGraphError (''unknown workflow node ids: '' @ py_repr_list (sort (remdups unknown)))))"

definition dependencies_for :: "workflow_dag \<Rightarrow> string \<Rightarrow> graph_error + string set" where
  "dependencies_for dag n = (case require_known (dag_nodes dag) [n] of Some e \<Rightarrow> Inl e
     | None \<Rightarrow> Inr (set (dependencies_of (dag_nodes dag) n)))"

text \<open>The stack of \<^verbatim>\<open>descendants\<close> has its top first.\<close>

fun discover :: "string list \<Rightarrow> string set \<Rightarrow> string list \<Rightarrow> string set \<times> string list" where
  "discover [] discovered pending = (discovered, pending)"
| "discover (d # ds) discovered pending =
     (if d \<in> discovered then discover ds discovered pending else discover ds (insert d discovered) (d # pending))"

partial_function (option) descend ::
  "(string \<Rightarrow> string list) \<Rightarrow> string set \<Rightarrow> string list \<Rightarrow> string set option" where
  "descend succs discovered pending = (case pending of
      [] \<Rightarrow> Some discovered
    | current # rest \<Rightarrow> (case discover (succs current) discovered rest of
        (discovered', pending') \<Rightarrow> descend succs discovered' pending'))"

definition descendants ::
  "(string \<Rightarrow> string \<Rightarrow> nat) \<Rightarrow> (string \<Rightarrow> nat) \<Rightarrow> workflow_dag \<Rightarrow> string list \<Rightarrow> bool \<Rightarrow> (graph_error + string set) option" where
  "descendants rank root_rank dag ids include_roots =
     (case require_known (dag_nodes dag) ids of
        Some e \<Rightarrow> Some (Inl e)
      | None \<Rightarrow> map_option (\<lambda>discovered. Inr (if include_roots then discovered else discovered - set ids))
          (descend (\<lambda>n. sort_key (rank n) (dependents (dag_nodes dag) n)) (set ids)
             (rev (sort_key root_rank (remdups ids)))))"

section \<open>Validation\<close>

lemma length_remdups_distinct: "length (remdups xs) = length xs \<longleftrightarrow> distinct xs"
  by (metis length_remdups_card_conv card_distinct distinct_card)

definition well_declared :: "workflow_node list \<Rightarrow> bool" where
  "well_declared nodes \<longleftrightarrow> distinct (node_ids nodes) \<and> [] \<notin> set (node_ids nodes) \<and>
     (\<forall>node\<in>set nodes. distinct (dependencies node) \<and> node_id node \<notin> set (dependencies node)
        \<and> set (dependencies node) \<subseteq> set (node_ids nodes))"

lemma check_nodes_None:
  "check_nodes seen nodes = None \<longleftrightarrow> distinct (node_ids nodes) \<and> [] \<notin> set (node_ids nodes)
     \<and> set (node_ids nodes) \<inter> set seen = {} \<and> (\<forall>node\<in>set nodes. distinct (dependencies node))"
  by (induction seen nodes rule: check_nodes.induct)
    (auto simp: node_ids_def length_remdups_distinct simp del: length_remdups_leq)

lemma check_dependencies_None:
  "check_dependencies known nodes = None \<longleftrightarrow>
     (\<forall>node\<in>set nodes. node_id node \<notin> set (dependencies node) \<and> set (dependencies node) \<subseteq> set known)"
  by (induction nodes) auto

lemma checks_iff: "check_nodes [] nodes = None \<and> check_dependencies (node_ids nodes) nodes = None \<longleftrightarrow> well_declared nodes"
  by (auto simp: check_nodes_None check_dependencies_None well_declared_def)

section \<open>The graph\<close>

lemma node_unique: "well_declared nodes \<Longrightarrow> m \<in> set nodes \<Longrightarrow> m' \<in> set nodes \<Longrightarrow> node_id m = node_id m' \<Longrightarrow> m = m'"
  unfolding well_declared_def node_ids_def by (metis distinct_map inj_onD)

lemma dependencies_of_mem:
  "distinct (node_ids nodes) \<Longrightarrow> m \<in> set nodes \<Longrightarrow> dependencies_of nodes (node_id m) = dependencies m"
  by (induction nodes) (auto simp: node_ids_def)

lemma position_less: "n \<in> set (node_ids nodes) \<Longrightarrow> position nodes n < length nodes \<and> node_ids nodes ! position nodes n = n"
  by (induction nodes) (auto simp: node_ids_def)

lemma position_inj: "m \<in> set (node_ids nodes) \<Longrightarrow> n \<in> set (node_ids nodes) \<Longrightarrow> position nodes m = position nodes n \<Longrightarrow> m = n"
  by (metis position_less)

definition deps :: "workflow_node list \<Rightarrow> string \<Rightarrow> string set" where
  "deps nodes n = set (dependencies_of nodes n)"

lemma set_dependents:
  "well_declared nodes \<Longrightarrow> set (dependents nodes n) = {m \<in> set (node_ids nodes). n \<in> deps nodes m}"
  using dependencies_of_mem [of nodes]
  by (auto simp: dependents_def deps_def node_ids_def well_declared_def)

lemma distinct_dependents: "well_declared nodes \<Longrightarrow> distinct (dependents nodes n)"
  unfolding dependents_def well_declared_def node_ids_def by (simp add: distinct_map_filter)

lemma deps_known: "well_declared nodes \<Longrightarrow> n \<in> set (node_ids nodes) \<Longrightarrow> deps nodes n \<subseteq> set (node_ids nodes)"
proof -
  assume w: "well_declared nodes" and "n \<in> set (node_ids nodes)"
  then obtain m where "m \<in> set nodes" "n = node_id m" by (auto simp: node_ids_def)
  with w show ?thesis using dependencies_of_mem [of nodes m] by (simp add: deps_def well_declared_def)
qed

lemma dependencies_of_distinct: "well_declared nodes \<Longrightarrow> distinct (dependencies_of nodes n)"
proof (cases "n \<in> set (node_ids nodes)")
  case False
  then have "dependencies_of nodes n = []" by (induction nodes) (auto simp: node_ids_def)
  then show ?thesis by simp
qed (auto simp: node_ids_def well_declared_def dependencies_of_mem [unfolded node_ids_def])

definition dep_edges :: "workflow_node list \<Rightarrow> (string \<times> string) set" where
  "dep_edges nodes = {(d, n). n \<in> set (node_ids nodes) \<and> d \<in> deps nodes n}"

section \<open>The schedule\<close>

text \<open>
  What the schedule promises: every node comes when all its dependencies have come, and among
  the nodes that could come it is the one declared first.
\<close>

definition enabled :: "workflow_node list \<Rightarrow> string list \<Rightarrow> string \<Rightarrow> bool" where
  "enabled nodes done n \<longleftrightarrow> n \<in> set (node_ids nodes) \<and> n \<notin> set done \<and> deps nodes n \<subseteq> set done"

definition greedy :: "workflow_node list \<Rightarrow> string list \<Rightarrow> bool" where
  "greedy nodes xs \<longleftrightarrow> (\<forall>i<length xs. enabled nodes (take i xs) (xs ! i) \<and>
     (\<forall>m. enabled nodes (take i xs) m \<longrightarrow> position nodes (xs ! i) \<le> position nodes m))"

lemma greedy_Nil [simp]: "greedy nodes []"
  by (simp add: greedy_def)

lemma greedy_snoc: "greedy nodes (xs @ [n]) \<longleftrightarrow> greedy nodes xs \<and> enabled nodes xs n \<and>
    (\<forall>m. enabled nodes xs m \<longrightarrow> position nodes n \<le> position nodes m)"
  by (auto simp: greedy_def nth_append less_Suc_eq)

lemma greedy_mem: "greedy nodes xs \<Longrightarrow> distinct xs \<and> set xs \<subseteq> set (node_ids nodes)"
  by (induction xs rule: rev_induct) (auto simp: greedy_snoc enabled_def)

lemma greedy_unique: "greedy nodes xs \<Longrightarrow> greedy nodes ys \<Longrightarrow> length xs = length ys \<Longrightarrow> xs = ys"
proof (induction xs arbitrary: ys rule: rev_induct)
  case (snoc x xs)
  then obtain zs z where ys: "ys = zs @ [z]" by (cases ys rule: rev_cases) auto
  with snoc have eq: "xs = zs" by (auto simp: greedy_snoc)
  have x: "enabled nodes xs x" "\<And>m. enabled nodes xs m \<Longrightarrow> position nodes x \<le> position nodes m"
    using snoc.prems(1) by (auto simp: greedy_snoc)
  have z: "enabled nodes xs z" "\<And>m. enabled nodes xs m \<Longrightarrow> position nodes z \<le> position nodes m"
    using snoc.prems(2) by (auto simp: greedy_snoc ys eq)
  have "position nodes x = position nodes z" using x z by (intro antisym) auto
  with x(1) z(1) have "x = z" by (auto simp: enabled_def intro: position_inj)
  with ys eq show ?case by simp
qed simp

lemma greedy_deps: "greedy nodes xs \<Longrightarrow> m \<in> set xs \<Longrightarrow> deps nodes m \<subseteq> set xs"
  by (induction xs rule: rev_induct) (auto simp: greedy_snoc enabled_def)

section \<open>The loop\<close>

definition counts :: "string list \<Rightarrow> (string \<Rightarrow> int) \<Rightarrow> (string \<times> int) list" where
  "counts N f = map (\<lambda>n. (n, f n)) N"

lemma decrement_counts: "decrement d (counts N f) = counts N (f(d := f d - 1))"
  by (simp add: decrement_def counts_def)

lemma map_of_counts: "map_of (counts N f) d = (if d \<in> set N then Some (f d) else None)"
  by (simp add: counts_def map_of_map_restrict restrict_map_def)

lemma counts_cong: "(\<And>n. n \<in> set N \<Longrightarrow> f n = g n) \<Longrightarrow> counts N f = counts N g"
  by (simp add: counts_def)

lemma relax_effect:
  assumes "distinct ds" and "set ds \<subseteq> set N" and "sorted ready" and "distinct ready"
    and "\<And>d. d \<in> set ds \<Longrightarrow> f d = 1 \<Longrightarrow> (pos d, d) \<notin> set ready"
  shows "\<exists>ready'. relax pos ds ready (counts N f) = (ready', counts N (\<lambda>n. if n \<in> set ds then f n - 1 else f n))
    \<and> sorted ready' \<and> distinct ready' \<and> set ready' = set ready \<union> {(pos d, d) |d. d \<in> set ds \<and> f d = 1}"
  using assms
proof (induction ds arbitrary: ready f)
  case (Cons d ds)
  let ?f = "f(d := f d - 1)"
  define ready1 where "ready1 = (if f d = 1 then insort (pos d, d) ready else ready)"
  have push: "relax pos (d # ds) ready (counts N f) = relax pos ds ready1 (counts N ?f)"
    using Cons.prems(2) by (simp add: Let_def decrement_counts map_of_counts ready1_def)
  have r1: "sorted ready1" "distinct ready1" "set ready1 = set ready \<union> {(pos x, x) |x. x = d \<and> f d = 1}"
    using Cons.prems by (auto simp: ready1_def sorted_insort distinct_insort set_insort_key)
  have fresh: "\<And>x. x \<in> set ds \<Longrightarrow> ?f x = 1 \<Longrightarrow> (pos x, x) \<notin> set ready1"
    using Cons.prems(1,5) by (auto simp: r1(3) split: if_splits)
  have sub: "distinct ds" "set ds \<subseteq> set N" using Cons.prems(1,2) by auto
  from Cons.IH [of ready1 ?f, OF sub r1(1,2) fresh] obtain ready' where
    "relax pos ds ready1 (counts N ?f) = (ready', counts N (\<lambda>n. if n \<in> set ds then ?f n - 1 else ?f n))"
    "sorted ready'" "distinct ready'" "set ready' = set ready1 \<union> {(pos x, x) |x. x \<in> set ds \<and> ?f x = 1}"
    by blast
  moreover have "counts N (\<lambda>n. if n \<in> set ds then ?f n - 1 else ?f n) = counts N (\<lambda>n. if n \<in> set (d # ds) then f n - 1 else f n)"
    using Cons.prems(1) by (intro counts_cong) auto
  moreover have "set ready1 \<union> {(pos x, x) |x. x \<in> set ds \<and> ?f x = 1} = set ready \<union> {(pos x, x) |x. x \<in> set (d # ds) \<and> f x = 1}"
    using Cons.prems(1) by (auto simp: r1(3))
  ultimately show ?case using push by (intro exI [of _ ready']) simp
qed simp

definition open_deps :: "workflow_node list \<Rightarrow> string list \<Rightarrow> string \<Rightarrow> int" where
  "open_deps nodes done n = int (card (deps nodes n - set done))"

definition loop_inv :: "workflow_node list \<Rightarrow> (nat \<times> string) list \<Rightarrow> string list \<Rightarrow> bool" where
  "loop_inv nodes ready ordered \<longleftrightarrow> sorted ready \<and> distinct ready \<and> greedy nodes ordered \<and>
     set ready = {(position nodes n, n) |n. enabled nodes ordered n}"

lemma finite_deps [simp]: "finite (deps nodes n)"
  by (simp add: deps_def)

lemma open_deps_snoc:
  "n \<notin> set done \<Longrightarrow> open_deps nodes (done @ [n]) m = (if n \<in> deps nodes m then open_deps nodes done m - 1 else open_deps nodes done m)"
proof -
  assume n: "n \<notin> set done"
  have "deps nodes m - set (done @ [n]) = (deps nodes m - set done) - {n}" by auto
  moreover have "0 < card (deps nodes m - set done)" if "n \<in> deps nodes m" using n that by (auto simp: card_gt_0_iff)
  ultimately show ?thesis using n
    by (cases "n \<in> deps nodes m") (simp_all add: open_deps_def card_Diff_singleton of_nat_diff)
qed

lemma open_deps_0: "open_deps nodes done n = 0 \<longleftrightarrow> deps nodes n \<subseteq> set done"
  by (simp add: open_deps_def)

lemma loop_step:
  assumes w: "well_declared nodes" and inv: "loop_inv nodes ((p, n) # ready) ordered"
  shows "\<exists>ready'. relax (position nodes) (sort_key r (dependents nodes n)) ready (counts (node_ids nodes) (open_deps nodes ordered))
      = (ready', counts (node_ids nodes) (open_deps nodes (ordered @ [n]))) \<and> loop_inv nodes ready' (ordered @ [n])"
proof -
  let ?ds = "sort_key r (dependents nodes n)" and ?f = "open_deps nodes ordered"
  from inv have so: "sorted ready" "distinct ready" "(p, n) \<notin> set ready" "\<forall>x\<in>set ready. (p, n) \<le> x"
    and g: "greedy nodes ordered" and set: "insert (p, n) (set ready) = {(position nodes m, m) |m. enabled nodes ordered m}"
    by (auto simp: loop_inv_def)
  from set have n: "enabled nodes ordered n" "p = position nodes n" by auto
  then have n': "n \<in> set (node_ids nodes)" "n \<notin> set ordered" "deps nodes n \<subseteq> set ordered" by (auto simp: enabled_def)
  have rest: "set ready = {(position nodes m, m) |m. enabled nodes ordered m \<and> m \<noteq> n}"
    using set so(3) n(2) by auto
  have min: "position nodes n \<le> position nodes m" if "enabled nodes ordered m" for m
  proof -
    from that set have "(position nodes m, m) \<in> insert (p, n) (set ready)" by auto
    with so(4) n(2) show ?thesis by (auto simp: less_eq_prod_def)
  qed
  have ds: "set ?ds = {m \<in> set (node_ids nodes). n \<in> deps nodes m}" "distinct ?ds"
    using set_dependents [OF w] distinct_dependents [OF w] by auto
  have "\<And>d. d \<in> set ?ds \<Longrightarrow> ?f d = 1 \<Longrightarrow> (position nodes d, d) \<notin> set ready"
    using ds(1) n'(2) unfolding rest enabled_def by auto
  note fresh = this
  have sub: "set ?ds \<subseteq> set (node_ids nodes)" using ds(1) by blast
  from relax_effect [where N = "node_ids nodes" and f = ?f, OF ds(2) sub so(1,2) fresh] obtain ready' where
    r: "relax (position nodes) ?ds ready (counts (node_ids nodes) ?f) =
      (ready', counts (node_ids nodes) (\<lambda>m. if m \<in> set ?ds then ?f m - 1 else ?f m))"
    "sorted ready'" "distinct ready'"
    "set ready' = set ready \<union> {(position nodes d, d) |d. d \<in> set ?ds \<and> ?f d = 1}" by blast
  have "counts (node_ids nodes) (\<lambda>m. if m \<in> set ?ds then ?f m - 1 else ?f m) = counts (node_ids nodes) (open_deps nodes (ordered @ [n]))"
    unfolding open_deps_snoc [OF n'(2)] ds(1) by (rule counts_cong) simp
  moreover have "enabled nodes (ordered @ [n]) m \<longleftrightarrow> enabled nodes ordered m \<and> m \<noteq> n \<or> m \<in> set ?ds \<and> ?f m = 1" for m
  proof -
    have one: "?f m = 1 \<longleftrightarrow> deps nodes m - set ordered = {n}" if "n \<in> deps nodes m"
    proof -
      have "n \<in> deps nodes m - set ordered" using that n'(2) by blast
      then show ?thesis unfolding open_deps_def by (metis card_1_singletonE is_singletonI is_singleton_altdef of_nat_eq_1_iff singletonD)
    qed
    have "m \<notin> set ordered" if "n \<in> deps nodes m"
      using greedy_deps [OF g, of m] that n'(2) by blast
    moreover have "m \<noteq> n" if "n \<in> deps nodes m" using that n'(2,3) by blast
    ultimately show ?thesis using one ds(1) by (auto simp: enabled_def)
  qed
  ultimately have "loop_inv nodes ready' (ordered @ [n])"
    using r(2,3) g n(1) min unfolding loop_inv_def greedy_snoc r(4) rest by auto
  with r(1) \<open>counts _ _ = _\<close> show ?thesis by auto
qed

lemma build_loop_result:
  assumes "well_declared nodes" and "loop_inv nodes ready ordered"
  shows "\<exists>ordered'. build_loop (\<lambda>n. sort_key (rank n) (dependents nodes n)) (position nodes) ready
       (counts (node_ids nodes) (open_deps nodes ordered)) ordered
     = (ordered', counts (node_ids nodes) (open_deps nodes ordered')) \<and> loop_inv nodes [] ordered'"
proof -
  have "loop_inv nodes ready ordered \<Longrightarrow> remaining = counts (node_ids nodes) (open_deps nodes ordered) \<Longrightarrow>
    \<exists>ordered'. build_loop (\<lambda>n. sort_key (rank n) (dependents nodes n)) (position nodes) ready remaining ordered
     = (ordered', counts (node_ids nodes) (open_deps nodes ordered')) \<and> loop_inv nodes [] ordered'" for remaining
  proof (induction "\<lambda>n. sort_key (rank n) (dependents nodes n)" "position nodes" ready remaining ordered rule: build_loop.induct)
    case (2 p n ready remaining ordered)
    from loop_step [OF assms(1) 2(2), of "rank n"] obtain ready' where
      "relax (position nodes) (sort_key (rank n) (dependents nodes n)) ready remaining
        = (ready', counts (node_ids nodes) (open_deps nodes (ordered @ [n])))" "loop_inv nodes ready' (ordered @ [n])"
      unfolding 2(3) by blast
    with 2(1) show ?case by simp
  qed auto
  with assms(2) show ?thesis by blast
qed

lemma initial_inv:
  assumes w: "well_declared nodes"
  shows "map (\<lambda>node. (node_id node, int (length (remdups (dependencies node))))) nodes = counts (node_ids nodes) (open_deps nodes [])"
    and "loop_inv nodes (sort (map (\<lambda>(n, c). (position nodes n, n)) (filter (\<lambda>(n, c). c = 0) (counts (node_ids nodes) (open_deps nodes []))))) []"
proof -
  have "open_deps nodes [] (node_id m) = int (length (remdups (dependencies m)))" if "m \<in> set nodes" for m
    using that w dependencies_of_mem [of nodes m] by (simp add: open_deps_def deps_def well_declared_def length_remdups_card_conv)
  then show "map (\<lambda>node. (node_id node, int (length (remdups (dependencies node))))) nodes = counts (node_ids nodes) (open_deps nodes [])"
    by (simp add: counts_def node_ids_def)
  have eq: "map (\<lambda>(n, c). (position nodes n, n)) (filter (\<lambda>(n, c). c = 0) (counts N f)) =
      map (\<lambda>n. (position nodes n, n)) (filter (\<lambda>n. f n = 0) N)" for N and f :: "string \<Rightarrow> int"
    by (induction N) (auto simp: counts_def)
  have "distinct (map (\<lambda>n. (position nodes n, n)) (filter q (node_ids nodes)))" for q
    using w by (auto simp: distinct_map well_declared_def inj_on_def)
  then show "loop_inv nodes (sort (map (\<lambda>(n, c). (position nodes n, n)) (filter (\<lambda>(n, c). c = 0) (counts (node_ids nodes) (open_deps nodes []))))) []"
    unfolding loop_inv_def eq by (auto simp: enabled_def open_deps_0)
qed

lemma build_spec:
  assumes w: "well_declared nodes"
  obtains ordered where "greedy nodes ordered" "\<And>n. \<not> enabled nodes ordered n"
    "build_topological_order rank nodes = (if length ordered \<noteq> length nodes
       then Inl (WorkflowGraphError (''workflow graph contains a cycle: ''
          @ py_repr_list (sort (map fst (filter (\<lambda>(n, c). 0 < c) (counts (node_ids nodes) (open_deps nodes ordered)))))))
       else Inr ordered)"
proof -
  from build_loop_result [OF w initial_inv(2) [OF w], of rank] obtain ordered where
    o: "build_loop (\<lambda>n. sort_key (rank n) (dependents nodes n)) (position nodes)
      (sort (map (\<lambda>(n, c). (position nodes n, n)) (filter (\<lambda>(n, c). c = 0) (counts (node_ids nodes) (open_deps nodes [])))))
      (counts (node_ids nodes) (open_deps nodes [])) [] = (ordered, counts (node_ids nodes) (open_deps nodes ordered))"
    "loop_inv nodes [] ordered" by blast
  from o(2) have "greedy nodes ordered" "\<And>n. \<not> enabled nodes ordered n" by (auto simp: loop_inv_def)
  then show thesis
    by (rule that) (simp add: build_topological_order_def Let_def initial_inv(1) [OF w] o(1))
qed

lemma takeWhile_found: "n \<in> set xs \<Longrightarrow> length (takeWhile (\<lambda>y. y \<noteq> n) xs) < length xs"
  by (induction xs) auto

lemma greedy_precedes:
  assumes g: "greedy nodes xs" and all: "set xs = set (node_ids nodes)"
  shows "dep_edges nodes \<subseteq> measure (\<lambda>x. length (takeWhile (\<lambda>y. y \<noteq> x) xs))"
proof
  let ?idx = "\<lambda>x. length (takeWhile (\<lambda>y. y \<noteq> x) xs)"
  fix e assume "e \<in> dep_edges nodes"
  then obtain d n where e: "e = (d, n)" "n \<in> set xs" "d \<in> deps nodes n" by (auto simp: dep_edges_def all)
  have before: "takeWhile (\<lambda>y. y \<noteq> n) xs = take (?idx n) xs" by (rule takeWhile_eq_take)
  have i: "?idx n < length xs" "xs ! ?idx n = n"
    using takeWhile_found [OF e(2)] nth_length_takeWhile [of "\<lambda>y. y \<noteq> n" xs] by auto
  with g have "enabled nodes (take (?idx n) xs) n" unfolding greedy_def by metis
  with e(3) have "d \<in> set (take (?idx n) xs)" unfolding enabled_def by blast
  then have "d \<in> set (takeWhile (\<lambda>y. y \<noteq> n) xs)" by (simp only: before [symmetric])
  then have "?idx d < ?idx n"
  proof -
    assume d: "d \<in> set (takeWhile (\<lambda>y. y \<noteq> n) xs)"
    then obtain ys zs where yz: "takeWhile (\<lambda>y. y \<noteq> n) xs = ys @ d # zs" "d \<notin> set ys" by (auto dest: split_list_first)
    have "\<exists>rest. takeWhile (\<lambda>y. y \<noteq> n) xs @ dropWhile (\<lambda>y. y \<noteq> n) xs = ys @ d # rest" unfolding yz(1) by simp
    then obtain rest where "xs = ys @ d # rest" unfolding takeWhile_dropWhile_id by (rule exE)
    then have "takeWhile (\<lambda>y. y \<noteq> d) xs = takeWhile (\<lambda>y. y \<noteq> d) (ys @ d # rest)" by (rule arg_cong)
    also have "\<dots> = ys" using yz(2) by (subst takeWhile_append2) auto
    finally have "takeWhile (\<lambda>y. y \<noteq> d) xs = ys" .
    with yz(1) show ?thesis by simp
  qed
  with e(1) show "e \<in> measure ?idx" by simp
qed

lemma complete_iff_acyclic:
  assumes w: "well_declared nodes" and g: "greedy nodes xs" and stuck: "\<And>n. \<not> enabled nodes xs n"
  shows "length xs = length nodes \<longleftrightarrow> acyclic (dep_edges nodes)"
proof
  from w have N: "card (set (node_ids nodes)) = length nodes"
    by (simp add: well_declared_def distinct_card) (simp add: node_ids_def)
  note mem = greedy_mem [OF g]
  { assume "length xs = length nodes"
    then have "set xs = set (node_ids nodes)" using mem N by (metis card_subset_eq distinct_card finite_set)
    then have "wf (dep_edges nodes)" by (rule wf_subset [OF wf_measure greedy_precedes [OF g]])
    then show "acyclic (dep_edges nodes)" by (rule wf_acyclic) }
  { assume ac: "acyclic (dep_edges nodes)"
    have "dep_edges nodes \<subseteq> set (node_ids nodes) \<times> set (node_ids nodes)" using deps_known [OF w] by (auto simp: dep_edges_def)
    then have "finite (dep_edges nodes)" by (rule finite_subset) simp
    then have wf: "wf (dep_edges nodes)" using ac by (rule finite_acyclic_wf)
    have "set (node_ids nodes) \<subseteq> set xs"
    proof (rule ccontr)
      assume "\<not> set (node_ids nodes) \<subseteq> set xs"
      then obtain m where "m \<in> set (node_ids nodes) - set xs" "\<And>d. (d, m) \<in> dep_edges nodes \<Longrightarrow> d \<notin> set (node_ids nodes) - set xs"
        using wfE_min' [OF wf, of "set (node_ids nodes) - set xs"] by blast
      with deps_known [OF w, of m] have "enabled nodes xs m" by (auto simp: enabled_def dep_edges_def)
      with stuck show False by blast
    qed
    with mem have "set xs = set (node_ids nodes)" by blast
    with mem N show "length xs = length nodes" by (metis distinct_card) }
qed

section \<open>Descendants\<close>

lemma discover_eq:
  "\<exists>new. discover ds discovered pending = (discovered \<union> set ds, new @ pending) \<and> set new = set ds - discovered
     \<and> length new = card (set ds - discovered)"
proof (induction ds arbitrary: discovered pending)
  case (Cons d ds)
  show ?case
  proof (cases "d \<in> discovered")
    case True
    with Cons [of discovered pending] show ?thesis by (auto simp: insert_absorb)
  next
    case False
    from Cons [of "insert d discovered" "d # pending"] obtain new where
      new: "discover ds (insert d discovered) (d # pending) = (insert d discovered \<union> set ds, new @ d # pending)"
      "set new = set ds - insert d discovered" "length new = card (set ds - insert d discovered)" by blast
    have "set (d # ds) - discovered = insert d (set ds - insert d discovered)" using False by auto
    with new False show ?thesis by (intro exI [of _ "new @ [d]"]) auto
  qed
qed simp

lemma descend_closure:
  assumes "finite N" and "\<And>x. set (succs x) \<subseteq> N" and "discovered \<subseteq> N"
    and "set pending \<subseteq> discovered" and "\<And>x. x \<in> discovered \<Longrightarrow> x \<notin> set pending \<Longrightarrow> set (succs x) \<subseteq> discovered"
  shows "descend succs discovered pending = Some ({(x, y). y \<in> set (succs x)}\<^sup>* `` discovered)"
  using assms(3-5)
proof (induction "length pending + card (N - discovered)" arbitrary: discovered pending rule: less_induct)
  case less
  let ?E = "{(x, y). y \<in> set (succs x)}"
  show ?case
  proof (cases pending)
    case Nil
    then have "?E `` discovered \<subseteq> discovered" using less.prems(3) by auto
    then have "?E\<^sup>* `` discovered = discovered" by (rule Image_closed_trancl)
    with Nil show ?thesis by (simp add: descend.simps)
  next
    case (Cons current rest)
    from discover_eq [of "succs current" discovered rest] obtain new where
      new: "discover (succs current) discovered rest = (discovered \<union> set (succs current), new @ rest)"
      "set new = set (succs current) - discovered" "length new = card (set (succs current) - discovered)" by blast
    let ?d = "discovered \<union> set (succs current)"
    have "card (N - discovered) = card (N - ?d) + length new"
    proof -
      have "N - discovered = (N - ?d) \<union> (set (succs current) - discovered)" using assms(2) by blast
      then have "card (N - discovered) = card ((N - ?d) \<union> (set (succs current) - discovered))" by (rule arg_cong)
      also have "\<dots> = card (N - ?d) + card (set (succs current) - discovered)"
        by (rule card_Un_disjoint) (use assms(1) in auto)
      finally show ?thesis unfolding new(3) .
    qed
    then have "length (new @ rest) + card (N - ?d) < length pending + card (N - discovered)" by (simp add: Cons)
    moreover have "?d \<subseteq> N" using less.prems(1) assms(2) by blast
    moreover have "set (new @ rest) \<subseteq> ?d" using new(2) less.prems(2) Cons by auto
    moreover have "set (succs x) \<subseteq> ?d" if "x \<in> ?d" "x \<notin> set (new @ rest)" for x
      using that new(2) less.prems(3) [of x] Cons by (cases "x = current") auto
    ultimately have "descend succs ?d (new @ rest) = Some (?E\<^sup>* `` ?d)" by (rule less.hyps)
    moreover have "?E\<^sup>* `` ?d = ?E\<^sup>* `` discovered"
      using less.prems(2) Cons by (auto intro: converse_rtrancl_into_rtrancl)
    ultimately show ?thesis using new(1) Cons by (simp add: descend.simps [of succs discovered "current # rest"])
  qed
qed

section \<open>Properties\<close>

lemma build_complete:
  assumes w: "well_declared nodes"
  shows "(\<exists>order. build_topological_order rank nodes = Inr order) \<longleftrightarrow> acyclic (dep_edges nodes)"
    and "build_topological_order rank nodes = Inr order \<Longrightarrow> greedy nodes order \<and> length order = length nodes"
proof -
  obtain xs where xs: "greedy nodes xs" "\<And>n. \<not> enabled nodes xs n" and
    b: "build_topological_order rank nodes = (if length xs \<noteq> length nodes
       then Inl (WorkflowGraphError (''workflow graph contains a cycle: ''
          @ py_repr_list (sort (map fst (filter (\<lambda>(n, c). 0 < c) (counts (node_ids nodes) (open_deps nodes xs)))))))
       else Inr xs)"
    by (rule build_spec [OF w, of rank]) (rule that)
  from complete_iff_acyclic [OF w xs] b
  show "(\<exists>order. build_topological_order rank nodes = Inr order) \<longleftrightarrow> acyclic (dep_edges nodes)" by auto
  from b xs(1) show "build_topological_order rank nodes = Inr order \<Longrightarrow> greedy nodes order \<and> length order = length nodes"
    by (auto split: if_splits)
qed

lemma make_dag_cases:
  "make_dag rank nodes = Inr dag \<longleftrightarrow> nodes \<noteq> [] \<and> well_declared nodes \<and>
     (\<exists>order. build_topological_order rank nodes = Inr order \<and> dag = \<lparr>dag_nodes = nodes, dag_topological_order = order\<rparr>)"
  unfolding checks_iff [symmetric] by (auto simp: make_dag_def split: option.splits sum.splits)

text \<open>
  C36. Exactly the acyclic graphs are accepted. A declared graph is accepted exactly when it has a
  node, its node ids are distinct and non-empty, every node lists distinct known dependencies
  other than itself, and the dependencies have no cycle, whatever order sets are visited in.
\<close>

theorem dag_accepts_exactly_acyclic_graphs:
  "(\<exists>dag. make_dag rank nodes = Inr dag) \<longleftrightarrow> nodes \<noteq> [] \<and> well_declared nodes \<and> acyclic (dep_edges nodes)"
  unfolding make_dag_cases using build_complete(1) [of nodes rank] by auto

text \<open>
  C37. The schedule. The topological order of an accepted graph lists every node exactly once,
  each after all its dependencies, and at each position it has the first declared of the nodes
  that could come there. It is the only such order: the same declaration gives the same schedule
  however the sets are visited.
\<close>

theorem dag_schedule_is_deterministic:
  assumes "make_dag rank nodes = Inr dag"
  shows "distinct (dag_topological_order dag) \<and> set (dag_topological_order dag) = set (node_ids nodes)
    \<and> greedy nodes (dag_topological_order dag)
    \<and> (\<forall>i<length nodes. deps nodes (dag_topological_order dag ! i) \<subseteq> set (take i (dag_topological_order dag)))
    \<and> make_dag rank' nodes = Inr dag"
proof -
  from assms have w: "nodes \<noteq> []" "well_declared nodes" and ac: "acyclic (dep_edges nodes)"
    using build_complete(1) [of nodes rank] by (auto simp: make_dag_cases)
  obtain xs ys where xs: "build_topological_order rank nodes = Inr xs" "greedy nodes xs" "length xs = length nodes"
    and ys: "build_topological_order rank' nodes = Inr ys" "greedy nodes ys" "length ys = length nodes"
    using build_complete [OF w(2)] ac by metis
  have "ys = xs" using greedy_unique [OF ys(2) xs(2)] ys(3) xs(3) by simp
  from assms xs(1) have dag: "dag = \<lparr>dag_nodes = nodes, dag_topological_order = xs\<rparr>" by (auto simp: make_dag_cases)
  have "card (set (node_ids nodes)) = length nodes" using w(2) by (simp add: well_declared_def distinct_card) (simp add: node_ids_def)
  with greedy_mem [OF xs(2)] xs(3) have "set xs = set (node_ids nodes)" by (metis card_subset_eq distinct_card finite_set)
  then show ?thesis
    using greedy_mem [OF xs(2)] xs ys(1) \<open>ys = xs\<close> w dag by (auto simp: make_dag_cases greedy_def enabled_def)
qed

definition dx_nodes :: "workflow_node list" where
  "dx_nodes = [\<lparr>node_id = ''c'', dependencies = [''a'', ''b'']\<rparr>, \<lparr>node_id = ''b'', dependencies = []\<rparr>,
     \<lparr>node_id = ''a'', dependencies = []\<rparr>]"

definition dx_dag :: workflow_dag where
  "dx_dag = \<lparr>dag_nodes = dx_nodes, dag_topological_order = [''b'', ''a'', ''c'']\<rparr>"

theorem dag_schedule_is_deterministic_witness: "make_dag (\<lambda>_ n. length n) dx_nodes = Inr dx_dag"
proof -
  have "make_dag (\<lambda>_ _. 0) dx_nodes = Inr dx_dag" by code_simp
  from dag_schedule_is_deterministic [OF this] show ?thesis by blast
qed

lemma descendants_closure:
  assumes "make_dag order nodes = Inr dag"
  shows "(if set ids \<subseteq> set (node_ids nodes)
     then descendants rank root_rank dag ids include_roots =
        Some (Inr ((dep_edges nodes)\<^sup>* `` set ids - (if include_roots then {} else set ids)))
     else \<exists>e. descendants rank root_rank dag ids include_roots = Some (Inl e))"
proof -
  from assms have w: "well_declared nodes" and dag: "dag_nodes dag = nodes" by (auto simp: make_dag_cases)
  have known: "require_known nodes ids = None \<longleftrightarrow> set ids \<subseteq> set (node_ids nodes)"
  proof -
    have "require_known nodes ids = None \<longleftrightarrow> filter (\<lambda>n. n \<notin> set (node_ids nodes)) ids = []"
      by (simp add: require_known_def split: list.splits)
    then show ?thesis by (auto simp: filter_empty_conv)
  qed
  let ?s = "\<lambda>n. sort_key (rank n) (dependents nodes n)"
  have E: "{(x, y). y \<in> set (?s x)} = dep_edges nodes" using set_dependents [OF w] by (auto simp: dep_edges_def)
  show ?thesis
  proof (cases "set ids \<subseteq> set (node_ids nodes)")
    case True
    have "descend ?s (set ids) (rev (sort_key root_rank (remdups ids))) = Some ({(x, y). y \<in> set (?s x)}\<^sup>* `` set ids)"
      by (rule descend_closure [where N = "set (node_ids nodes)"]) (use True set_dependents [OF w] in auto)
    with True known show ?thesis unfolding E by (simp add: descendants_def dag)
  next
    case False
    with known obtain e where "require_known nodes ids = Some e" by blast
    with False show ?thesis by (simp add: descendants_def dag)
  qed
qed

text \<open>
  C38. Descendants. The traversal always ends. It fails exactly when a given id is unknown, and
  otherwise returns the given nodes and everything that depends on them directly or indirectly,
  less the given nodes themselves when those are excluded, in whatever order sets are visited.
\<close>

theorem descendants_are_the_dependency_closure:
  assumes "make_dag order nodes = Inr dag"
  shows "(if set ids \<subseteq> set (node_ids nodes)
     then descendants rank root_rank dag ids include_roots =
        Some (Inr ((dep_edges nodes)\<^sup>* `` set ids - (if include_roots then {} else set ids)))
     else \<exists>e. descendants rank root_rank dag ids include_roots = Some (Inl e))"
  by (rule descendants_closure [OF assms])

theorem descendants_are_the_dependency_closure_witness:
  "\<exists>D. descendants (\<lambda>_ _. 0) (\<lambda>_. 0) dx_dag [''a''] True = Some (Inr D) \<and> ''a'' \<in> D"
proof -
  have dag: "make_dag (\<lambda>_ _. 0) dx_nodes = Inr dx_dag" and known: "set [''a''] \<subseteq> set (node_ids dx_nodes)" by code_simp+
  from descendants_are_the_dependency_closure [OF dag, of "[''a'']" "\<lambda>_ _. 0" "\<lambda>_. 0" True] known show ?thesis by auto
qed

end
