(* ===== verification/Runtime_Auth.thy ===== *)
theory Runtime_Auth
  imports Runtime_Database
begin

text \<open>
  Authentication and authorization, \<^verbatim>\<open>runtime_service/auth.py\<close>: static API keys
  compared by digest, the viewer and operator roles, and the permission snapshot a run
  carries as its execution authority. The SHA-256 digest is an argument. Field lengths are
  checked by Pydantic when a credential is loaded and are not repeated here.
\<close>

section \<open>Roles and permissions\<close>

datatype auth_error = AuthenticationError string | AuthorizationError string | CredentialValueError string

datatype runtime_role = VIEWER | OPERATOR

datatype runtime_permission =
    AGENTS_READ | TOOLS_READ | TOOLS_EXECUTE | EXTERNAL_ACTIONS_EXECUTE | AGENT_MESSAGE_EXECUTE
  | RUNS_CREATE | RUNS_READ | RUNS_CANCEL | RUN_EVENTS_READ | QUARANTINE_RESOLVE
  | THREAD_STATE_READ | MEMORY_READ | MEMORY_WRITE | MEMORY_DELETE

fun permission_value :: "runtime_permission \<Rightarrow> string" where
  "permission_value AGENTS_READ = ''agents:read''"
| "permission_value TOOLS_READ = ''tools:read''"
| "permission_value TOOLS_EXECUTE = ''tools:execute''"
| "permission_value EXTERNAL_ACTIONS_EXECUTE = ''external-actions:execute''"
| "permission_value AGENT_MESSAGE_EXECUTE = ''agent-message:execute''"
| "permission_value RUNS_CREATE = ''runs:create''"
| "permission_value RUNS_READ = ''runs:read''"
| "permission_value RUNS_CANCEL = ''runs:cancel''"
| "permission_value RUN_EVENTS_READ = ''run-events:read''"
| "permission_value QUARANTINE_RESOLVE = ''quarantine:resolve''"
| "permission_value THREAD_STATE_READ = ''thread-state:read''"
| "permission_value MEMORY_READ = ''memory:read''"
| "permission_value MEMORY_WRITE = ''memory:write''"
| "permission_value MEMORY_DELETE = ''memory:delete''"

text \<open>Iterating over the enumeration visits its members in declaration order.\<close>

definition all_permissions :: "runtime_permission list" where
  "all_permissions = [AGENTS_READ, TOOLS_READ, TOOLS_EXECUTE, EXTERNAL_ACTIONS_EXECUTE, AGENT_MESSAGE_EXECUTE,
     RUNS_CREATE, RUNS_READ, RUNS_CANCEL, RUN_EVENTS_READ, QUARANTINE_RESOLVE, THREAD_STATE_READ,
     MEMORY_READ, MEMORY_WRITE, MEMORY_DELETE]"

definition viewer_permissions :: "runtime_permission set" where
  "viewer_permissions = {AGENTS_READ, TOOLS_READ, RUNS_READ, RUN_EVENTS_READ, THREAD_STATE_READ, MEMORY_READ}"

definition operator_permissions :: "runtime_permission set" where
  "operator_permissions = viewer_permissions \<union> {TOOLS_EXECUTE, EXTERNAL_ACTIONS_EXECUTE, AGENT_MESSAGE_EXECUTE,
     RUNS_CREATE, RUNS_CANCEL, QUARANTINE_RESOLVE, MEMORY_WRITE, MEMORY_DELETE}"

fun permissions_by_role :: "runtime_role \<Rightarrow> runtime_permission set" where
  "permissions_by_role VIEWER = viewer_permissions"
| "permissions_by_role OPERATOR = operator_permissions"

record principal =
  pr_subject_id :: string
  pr_tenant_id :: string
  pr_credential_id :: string
  pr_role :: runtime_role

record tenant_context =
  tc_tenant_id :: string
  tc_subject_id :: string
  tc_permissions :: "string list"

definition principal_tenant_context :: "principal \<Rightarrow> tenant_context" where
  "principal_tenant_context p = \<lparr>tc_tenant_id = pr_tenant_id p, tc_subject_id = pr_subject_id p, tc_permissions = []\<rparr>"

text \<open>The validator of \<^verbatim>\<open>RuntimeExecutionAuthority\<close> sorts the permissions and drops duplicates.\<close>

definition normalize_permissions :: "string list \<Rightarrow> string list" where
  "normalize_permissions permissions = sort (remdups permissions)"

definition context_execution_authority :: "tenant_context \<Rightarrow> authority" where
  "context_execution_authority c = \<lparr>a_tenant_id = tc_tenant_id c, a_subject_id = tc_subject_id c,
     a_permissions = normalize_permissions (tc_permissions c)\<rparr>"

definition role_authorize :: "principal \<Rightarrow> runtime_permission \<Rightarrow> auth_error + unit" where
  "role_authorize p permission = (if permission \<notin> permissions_by_role (pr_role p)
     then Inl (AuthorizationError ''Operation not permitted'') else Inr ())"

text \<open>Only an authorization error is caught; any other exception of the authorizer propagates.\<close>

fun allowed_permissions :: "(runtime_permission \<Rightarrow> auth_error + unit) \<Rightarrow> runtime_permission list \<Rightarrow> auth_error + string list" where
  "allowed_permissions authorize [] = Inr []"
| "allowed_permissions authorize (p # ps) = (case authorize p of
      Inr _ \<Rightarrow> (case allowed_permissions authorize ps of Inl e \<Rightarrow> Inl e | Inr xs \<Rightarrow> Inr (permission_value p # xs))
    | Inl (AuthorizationError _) \<Rightarrow> allowed_permissions authorize ps
    | Inl e \<Rightarrow> Inl e)"

definition effective_execution_authority ::
  "principal \<Rightarrow> (principal \<Rightarrow> runtime_permission \<Rightarrow> auth_error + unit) \<Rightarrow> auth_error + authority" where
  "effective_execution_authority p authorize = (case allowed_permissions (authorize p) all_permissions of
      Inl e \<Rightarrow> Inl e
    | Inr allowed \<Rightarrow> Inr \<lparr>a_tenant_id = pr_tenant_id p, a_subject_id = pr_subject_id p,
        a_permissions = normalize_permissions allowed\<rparr>)"

section \<open>API keys\<close>

record api_key_credential =
  ak_credential_id :: string
  ak_api_key :: string
  ak_tenant_id :: string
  ak_subject_id :: string
  ak_role :: runtime_role

definition credential_principal :: "api_key_credential \<Rightarrow> principal" where
  "credential_principal c = \<lparr>pr_subject_id = ak_subject_id c, pr_tenant_id = ak_tenant_id c,
     pr_credential_id = ak_credential_id c, pr_role = ak_role c\<rparr>"

text \<open>The dictionary of principals by digest, in insertion order.\<close>

fun load_credentials :: "(string \<Rightarrow> string) \<Rightarrow> string list \<Rightarrow> (string \<times> principal) list \<Rightarrow> api_key_credential list
     \<Rightarrow> auth_error + (string \<times> principal) list" where
  "load_credentials digest ids table [] = Inr table"
| "load_credentials digest ids table (c # cs) =
     (if ak_credential_id c \<in> set ids
      then Inl (CredentialValueError (''Duplicate API credential id: '' @ ak_credential_id c))
      else if digest (ak_api_key c) \<in> set (map fst table)
      then Inl (CredentialValueError ''Duplicate API key material'')
      else load_credentials digest (ak_credential_id c # ids)
             (table @ [(digest (ak_api_key c), credential_principal c)]) cs)"

definition static_authenticator :: "(string \<Rightarrow> string) \<Rightarrow> api_key_credential list \<Rightarrow> auth_error + (string \<times> principal) list" where
  "static_authenticator digest credentials = load_credentials digest [] [] credentials"

definition authenticate :: "(string \<Rightarrow> string) \<Rightarrow> (string \<times> principal) list \<Rightarrow> string option \<Rightarrow> auth_error + principal" where
  "authenticate digest table api_key = (case api_key of
      None \<Rightarrow> Inl (AuthenticationError ''Invalid or missing API key'')
    | Some key \<Rightarrow> if key = [] then Inl (AuthenticationError ''Invalid or missing API key'')
        else (case List.find (\<lambda>(d, p). digest key = d) table of
            Some (_, p) \<Rightarrow> Inr p
          | None \<Rightarrow> Inl (AuthenticationError ''Invalid or missing API key'')))"

section \<open>Properties\<close>

lemma load_credentials_table:
  "load_credentials digest ids table cs = Inr t \<Longrightarrow> t = table @ map (\<lambda>c. (digest (ak_api_key c), credential_principal c)) cs"
  by (induction digest ids table cs rule: load_credentials.induct) (auto split: if_splits)

lemma load_credentials_distinct:
  "load_credentials digest ids table cs = Inr t \<Longrightarrow> distinct (map fst table) \<Longrightarrow> distinct (map fst t)"
  by (induction digest ids table cs rule: load_credentials.induct) (auto split: if_splits)

lemma all_permissions_complete: "set all_permissions = UNIV"
proof -
  have "p \<in> set all_permissions" for p by (cases p) (simp_all add: all_permissions_def)
  then show ?thesis by auto
qed

lemma allowed_by_role:
  "allowed_permissions (role_authorize p) ps = Inr (map permission_value (filter (\<lambda>q. q \<in> permissions_by_role (pr_role p)) ps))"
  by (induction ps) (auto simp: role_authorize_def)

text \<open>
  C39. Authentication accepts exactly the configured keys. When the configured digests load, a
  request authenticates exactly when its key is non-empty and is the key of a configured
  credential, and it then acts as that credential's tenant, subject and role and no other. The
  digest is assumed not to map the presented key and a different configured key to one value.
\<close>

theorem authentication_is_exact:
  assumes "static_authenticator digest cs = Inr table" and "inj_on digest (insert key (ak_api_key ` set cs))"
  shows "(authenticate digest table (Some key) = Inr p \<longleftrightarrow> key \<noteq> [] \<and> (\<exists>c\<in>set cs. ak_api_key c = key \<and> p = credential_principal c))
    \<and> authenticate digest table None = Inl (AuthenticationError ''Invalid or missing API key'')"
proof
  have table: "table = map (\<lambda>c. (digest (ak_api_key c), credential_principal c)) cs" and dist: "distinct (map fst table)"
    using load_credentials_table load_credentials_distinct assms(1) unfolding static_authenticator_def by fastforce+
  have same: "digest key = digest (ak_api_key c) \<longleftrightarrow> ak_api_key c = key" if "c \<in> set cs" for c
    using inj_on_eq_iff [OF assms(2), of key "ak_api_key c"] that by auto
  have uniq: "credential_principal c' = credential_principal c"
    if "c \<in> set cs" "c' \<in> set cs" "ak_api_key c = key" "ak_api_key c' = key" for c c'
    using that dist unfolding table by (metis (no_types, lifting) eq_key_imp_eq_value image_eqI set_map)
  show "authenticate digest table None = Inl (AuthenticationError ''Invalid or missing API key'')" by (simp add: authenticate_def)
  show "authenticate digest table (Some key) = Inr p \<longleftrightarrow> key \<noteq> [] \<and> (\<exists>c\<in>set cs. ak_api_key c = key \<and> p = credential_principal c)"
  proof (cases "List.find (\<lambda>(d, p). digest key = d) table")
    case None
    then have "\<not> (\<exists>c\<in>set cs. ak_api_key c = key)" using same by (auto simp: find_None_iff table)
    with None show ?thesis by (auto simp: authenticate_def)
  next
    case (Some x)
    then have "x \<in> set table \<and> digest key = fst x" by (auto simp: find_Some_iff) (metis nth_mem)
    then obtain c where c: "c \<in> set cs" "x = (digest (ak_api_key c), credential_principal c)" "digest key = digest (ak_api_key c)"
      by (auto simp: table)
    with same have key: "ak_api_key c = key" by blast
    have "(\<exists>c\<in>set cs. ak_api_key c = key \<and> p = credential_principal c) \<longleftrightarrow> p = credential_principal c"
      using c(1) key uniq by metis
    with Some c(2) show ?thesis by (simp add: authenticate_def) blast
  qed
qed

definition ax_credential :: api_key_credential where
  "ax_credential = \<lparr>ak_credential_id = ''c1'', ak_api_key = ''secret'', ak_tenant_id = ''T'', ak_subject_id = ''u'', ak_role = VIEWER\<rparr>"

theorem authentication_is_exact_witness:
  "\<exists>table. static_authenticator (\<lambda>k. k) [ax_credential] = Inr table
     \<and> authenticate (\<lambda>k. k) table (Some ''secret'') = Inr (credential_principal ax_credential)"
proof -
  have load: "static_authenticator (\<lambda>k. k) [ax_credential] = Inr [(''secret'', credential_principal ax_credential)]"
    by (simp add: static_authenticator_def ax_credential_def)
  from authentication_is_exact [OF load, of "''secret''" "credential_principal ax_credential"] load
  show ?thesis by (simp add: ax_credential_def)
qed

text \<open>
  Authority snapshots are exact. The execution authority recorded for a principal has the
  principal's own tenant and subject and lists, sorted and without duplicates, exactly the
  permissions the role grants; a viewer never gets one that executes, creates, cancels, resolves, writes or
  deletes, and an operator has every permission of a viewer.
\<close>

theorem authority_snapshot_is_exact:
  "effective_execution_authority p role_authorize = Inr \<lparr>a_tenant_id = pr_tenant_id p, a_subject_id = pr_subject_id p,
       a_permissions = normalize_permissions (map permission_value (filter (\<lambda>q. q \<in> permissions_by_role (pr_role p)) all_permissions))\<rparr>
    \<and> (\<forall>q. q \<in> set all_permissions \<and> (role_authorize p q = Inr () \<longleftrightarrow> q \<in> permissions_by_role (pr_role p)))
    \<and> permissions_by_role VIEWER \<subseteq> permissions_by_role OPERATOR
    \<and> permissions_by_role VIEWER \<inter> {TOOLS_EXECUTE, EXTERNAL_ACTIONS_EXECUTE, AGENT_MESSAGE_EXECUTE, RUNS_CREATE, RUNS_CANCEL,
         QUARANTINE_RESOLVE, MEMORY_WRITE, MEMORY_DELETE} = {}"
  by (auto simp: effective_execution_authority_def allowed_by_role all_permissions_complete role_authorize_def
      viewer_permissions_def operator_permissions_def)

end
