(* ===== verification/External_Actions.thy ===== *)
theory External_Actions
  imports External_Action_Store
begin

text \<open>
  The provider boundary of \<^verbatim>\<open>runtime_service/external_actions.py\<close>: the immutable request
  a provider receives, the registry that maps a name to a server-owned provider, and how the
  dispatcher classifies what came back. A provider is code outside the runtime; a registered one
  is known by its identity and by whether it deduplicates on the idempotency key, and one call of
  it by its reply.
\<close>

section \<open>Requests and results\<close>

record action_request =
  q_action_id :: string
  q_run_id :: string
  q_step_id :: string
  q_tenant_id :: string
  q_subject_id :: string
  q_workflow_type :: string
  q_tool_name :: string
  q_arguments :: "(string \<times> json) list"
  q_idempotency_key :: string

definition bounded_text :: "nat \<Rightarrow> string \<Rightarrow> bool" where
  "bounded_text n s \<longleftrightarrow> 1 \<le> length s \<and> length s \<le> n"

definition request_valid :: "action_request \<Rightarrow> bool" where
  "request_valid q \<longleftrightarrow> bounded_text 200 (q_action_id q) \<and> bounded_text 200 (q_run_id q) \<and> bounded_text 200 (q_step_id q)
     \<and> bounded_text 200 (q_tenant_id q) \<and> bounded_text 200 (q_subject_id q) \<and> bounded_text 500 (q_workflow_type q)
     \<and> bounded_text 200 (q_tool_name q) \<and> bounded_text 255 (q_idempotency_key q)"

record provider_result =
  rs_provider_reference :: string
  rs_result :: "(string \<times> json) list"

definition result_valid :: "provider_result \<Rightarrow> bool" where
  "result_valid r \<longleftrightarrow> bounded_text 500 (rs_provider_reference r)"

text \<open>
  \<open>Definitive\<close>: the action is known not to have completed. \<open>Ambiguous\<close>: it may have. A provider
  returns a candidate result or something of another shape, or raises one of the two classified
  errors or anything else.
\<close>

datatype provider_error = Definitive | Ambiguous

datatype provider_reply = Returns provider_result | ReturnsOther | RaisesClassified provider_error | RaisesOther

section \<open>The provider registry\<close>

record provider =
  pv_identity :: string
  pv_supports_idempotency :: bool

text \<open>What \<^verbatim>\<open>register\<close> inspects; \<open>None\<close> is an attribute that is missing or of another type.\<close>

record provider_candidate =
  pc_identity :: "string option"
  pc_supports_idempotency :: "bool option"
  pc_has_execute :: bool

type_synonym provider_registry = "(string \<times> provider) list"

definition is_space :: "char \<Rightarrow> bool" where
  "is_space c = (let n = of_char c :: nat in (9 \<le> n \<and> n \<le> 13) \<or> (28 \<le> n \<and> n \<le> 32) \<or> n = 133 \<or> n = 160)"

definition py_strip :: "string \<Rightarrow> string" where
  "py_strip s = rev (dropWhile is_space (rev (dropWhile is_space s)))"

definition identity_valid :: "string \<Rightarrow> bool" where
  "identity_valid i \<longleftrightarrow> i \<noteq> [] \<and> length i \<le> 200 \<and> i = py_strip i"

definition register_provider :: "string \<Rightarrow> provider_candidate \<Rightarrow> provider_registry \<Rightarrow> store_error + provider_registry" where
  "register_provider name c registry =
     (if name = [] \<or> py_strip name = [] then Inl (ValueError ''provider_name must not be empty'')
      else if 200 < length name then Inl (ValueError ''provider_name must contain at most 200 characters'')
      else if map_of registry name \<noteq> None
      then Inl (ValueError (''External action provider already registered: '' @ name))
      else (case pc_identity c of
          Some i \<Rightarrow> if \<not> identity_valid i
            then Inl (ValueError (''external action provider must declare provider_identity ''
                   @ ''as a non-empty string of at most 200 characters''))
            else (case pc_supports_idempotency c of
                None \<Rightarrow> Inl (ValueError ''external action provider must declare supports_idempotency as bool'')
              | Some b \<Rightarrow>
                  if \<not> pc_has_execute c then Inl (ValueError ''external action provider must define execute(request)'')
                  else Inr (registry @ [(name, \<lparr>pv_identity = i, pv_supports_idempotency = b\<rparr>)]))
        | None \<Rightarrow> Inl (ValueError (''external action provider must declare provider_identity ''
                   @ ''as a non-empty string of at most 200 characters''))))"

definition resolve_provider :: "provider_registry \<Rightarrow> string \<Rightarrow> provider option" where
  "resolve_provider registry name = map_of registry name"

text \<open>The adapter of deployments that permit no external write.\<close>

definition disabled_provider :: "string \<Rightarrow> store_error + provider" where
  "disabled_provider i =
     (if identity_valid i then Inr \<lparr>pv_identity = i, pv_supports_idempotency = False\<rparr>
      else Inl (ValueError ''provider_identity must be a non-empty string of at most 200 characters''))"

definition disabled_reply :: "action_request \<Rightarrow> provider_reply" where
  "disabled_reply q = RaisesClassified Definitive"

section \<open>Dispatch\<close>

text \<open>The checks before provider code is entered, and the classification of what it did.\<close>

definition dispatch_refused :: "provider option \<Rightarrow> retry_mode \<Rightarrow> bool" where
  "dispatch_refused p mode = (case p of None \<Rightarrow> True
     | Some pv \<Rightarrow> mode = PROVIDER_IDEMPOTENT \<and> \<not> pv_supports_idempotency pv)"

definition classify_reply :: "provider_reply \<Rightarrow> provider_error + provider_result" where
  "classify_reply reply = (case reply of
      RaisesClassified e \<Rightarrow> Inl e
    | RaisesOther \<Rightarrow> Inl Ambiguous
    | Returns r \<Rightarrow> if result_valid r then Inr r else Inl Ambiguous
    | ReturnsOther \<Rightarrow> Inl Ambiguous)"

text \<open>A registered name keeps its provider, whatever is registered later.\<close>

lemma register_provider_keeps:
  assumes "register_provider name c registry = Inr registry'"
  shows "resolve_provider registry name = None \<and> resolve_provider registry' name \<noteq> None \<and>
    (\<forall>n. resolve_provider registry n \<noteq> None \<longrightarrow> resolve_provider registry' n = resolve_provider registry n)"
  using assms
  by (auto simp: register_provider_def resolve_provider_def map_add_def split: if_splits option.splits)

end
