(* ===== verification/Worker_Programs.thy ===== *)
theory Worker_Programs
  imports External_Actions Run_Lifecycle
begin

text \<open>
  What a worker does between two transactions is local, but other workers, request handlers and
  operators use the same database meanwhile, storage can fail before or after a commit, and a
  provider can answer anything. A worker program therefore runs against a schedule: entry \<open>n\<close>
  of it says what the others did before the worker's \<open>n\<close>-th call, the clock and identifier
  values that call draws, whether the call fails, which providers are configured and what a
  provider replies. The world records the requests that reached a provider. Programs raise
  Python's exceptions as values.
\<close>

section \<open>Exceptions\<close>

text \<open>
  \<open>OperationalError\<close> is any exception of the storage driver, \<open>ReconciliationPendingError\<close> the
  subclass of \<^verbatim>\<open>RuntimeExecutionError\<close> that keeps a run recoverable, \<open>DomainError\<close> an exception
  class of a domain's own, by name, with its message. \<open>OutOfFuel\<close> is no
  exception of the code: it marks a loop that was cut off, and no handler catches it.
\<close>

datatype exn =
    StoreExn store_error
  | OperationalError
  | ProviderExn provider_error
  | ExecutionError string string
  | ReconciliationPendingError
  | AssertionError
  | TypeError
  | DomainError string string
  | OutOfFuel

definition PENDING_CODE :: string where
  "PENDING_CODE = ''external_action_reconciliation_pending''"

text \<open>\<^verbatim>\<open>isinstance(exc, RuntimeExecutionError)\<close> with its stable code.\<close>

fun execution_code :: "exn \<Rightarrow> string option" where
  "execution_code (ExecutionError code _) = Some code"
| "execution_code ReconciliationPendingError = Some PENDING_CODE"
| "execution_code _ = None"

section \<open>Schedules and programs\<close>

datatype fault = Completes | Fails_Before | Fails_After

record tick =
  tk_env :: "db \<Rightarrow> db"
  tk_clk :: "nat \<Rightarrow> string"
  tk_now :: int
  tk_token :: string
  tk_id :: string
  tk_fault :: fault
  tk_registry :: provider_registry
  tk_reply :: provider_reply

record world =
  w_db :: db
  w_ticks :: "nat \<Rightarrow> tick"
  w_time :: nat
  w_calls :: "action_request list"

type_synonym 'a prog = "world \<Rightarrow> (exn + 'a) \<times> world"

definition ret :: "'a \<Rightarrow> 'a prog" where
  "ret x w = (Inr x, w)"

definition raise :: "exn \<Rightarrow> 'a prog" where
  "raise e w = (Inl e, w)"

definition andThen :: "'a prog \<Rightarrow> ('a \<Rightarrow> 'b prog) \<Rightarrow> 'b prog" where
  "andThen m f w = (case m w of (Inl e, w') \<Rightarrow> (Inl e, w') | (Inr x, w') \<Rightarrow> f x w')"

definition catch :: "'a prog \<Rightarrow> (exn \<Rightarrow> 'a prog) \<Rightarrow> 'a prog" where
  "catch m h w = (case m w of
      (Inl e, w') \<Rightarrow> if e = OutOfFuel then (Inl e, w') else h e w'
    | (Inr x, w') \<Rightarrow> (Inr x, w'))"

text \<open>\<^verbatim>\<open>try ... except ... else\<close>: the exception becomes a value.\<close>

definition attempt :: "'a prog \<Rightarrow> (exn + 'a) prog" where
  "attempt m w = (case m w of
      (Inl e, w') \<Rightarrow> if e = OutOfFuel then (Inl e, w') else (Inr (Inl e), w')
    | (Inr x, w') \<Rightarrow> (Inr (Inr x), w'))"

definition lift :: "exn + 'a \<Rightarrow> 'a prog" where
  "lift r = (case r of Inl e \<Rightarrow> raise e | Inr x \<Rightarrow> ret x)"

text \<open>A transaction, a read, and a look at the configured providers.\<close>

definition call :: "(tick \<Rightarrow> db \<Rightarrow> 'a store_outcome) \<Rightarrow> 'a prog" where
  "call op w = (let t = w_ticks w (w_time w); s = tk_env t (w_db w); w' = w\<lparr>w_time := Suc (w_time w), w_db := s\<rparr> in
     if tk_fault t = Fails_Before then (Inl OperationalError, w')
     else case op t s of (r, s') \<Rightarrow>
       ((if tk_fault t = Fails_After then Inl OperationalError else case r of Inl e \<Rightarrow> Inl (StoreExn e) | Inr x \<Rightarrow> Inr x),
        w'\<lparr>w_db := s'\<rparr>))"

definition read :: "(db \<Rightarrow> store_error + 'a) \<Rightarrow> 'a prog" where
  "read f = call (\<lambda>t s. (f s, s))"

definition configured :: "string \<Rightarrow> provider option prog" where
  "configured name w = (Inr (resolve_provider (tk_registry (w_ticks w (w_time w))) name), w\<lparr>w_time := Suc (w_time w)\<rparr>)"

text \<open>\<^verbatim>\<open>ExternalActionDispatcher.dispatch\<close>; entering provider code leaves a trace.\<close>

definition dispatch :: "string \<Rightarrow> retry_mode \<Rightarrow> action_request \<Rightarrow> provider_result prog" where
  "dispatch provider_name mode request = andThen (configured provider_name) (\<lambda>p.
     if dispatch_refused p mode then raise (ProviderExn Definitive)
     else (\<lambda>w. case classify_reply (tk_reply (w_ticks w (w_time w))) of
         Inl e \<Rightarrow> (Inl (ProviderExn e), w\<lparr>w_time := Suc (w_time w), w_calls := w_calls w @ [request]\<rparr>)
       | Inr r \<Rightarrow> (Inr r, w\<lparr>w_time := Suc (w_time w), w_calls := w_calls w @ [request]\<rparr>)))"

section \<open>Interference\<close>

text \<open>
  A schedule is fair when the others only run transactions. A program is quiet when all it does
  is run transactions itself, and it ends: it calls no provider, the database after it is a later
  one, and no loop was cut off.
\<close>

definition fair :: "world \<Rightarrow> bool" where
  "fair w \<longleftrightarrow> (\<forall>n s. store_reachable s \<longrightarrow> later s (tk_env (w_ticks w n) s))"

definition sound :: "world \<Rightarrow> bool" where
  "sound w \<longleftrightarrow> fair w \<and> store_reachable (w_db w)"

definition follows :: "world \<Rightarrow> world \<Rightarrow> bool" where
  "follows w w' \<longleftrightarrow> later (w_db w) (w_db w') \<and> w_ticks w' = w_ticks w"

definition quiet :: "'a prog \<Rightarrow> bool" where
  "quiet m \<longleftrightarrow> (\<forall>w. sound w \<longrightarrow> follows w (snd (m w)) \<and> w_calls (snd (m w)) = w_calls w \<and> fst (m w) \<noteq> Inl OutOfFuel)"

lemma later_trans: "later t u \<Longrightarrow> later s t \<Longrightarrow> later s u"
  by (induction rule: tx_reachable.induct) (auto intro: tx_step)

lemma follows_refl: "follows w w"
  by (simp add: follows_def tx_start)

lemma follows_trans: "follows w w' \<Longrightarrow> follows w' w'' \<Longrightarrow> follows w w''"
  using later_trans by (auto simp: follows_def)

lemma follows_sound: "follows w w' \<Longrightarrow> sound w \<Longrightarrow> sound w'"
  by (auto simp: follows_def sound_def fair_def intro: reachable_later)

lemma quietD:
  assumes "quiet m" and "m w = (r, w')" and "sound w"
  shows "follows w w'" and "w_calls w' = w_calls w" and "sound w'" and "r \<noteq> Inl OutOfFuel"
  using assms by (auto simp: quiet_def intro: follows_sound dest!: spec [of _ w])

named_theorems quiet_rules

lemma quiet_ret [quiet_rules]: "quiet (ret x)"
  by (simp add: quiet_def ret_def follows_refl)

lemma quiet_raise [quiet_rules]: "e \<noteq> OutOfFuel \<Longrightarrow> quiet (raise e)"
  by (simp add: quiet_def raise_def follows_refl)

lemma quiet_andThen [quiet_rules]:
  assumes m: "quiet m" and f: "\<And>x. quiet (f x)"
  shows "quiet (andThen m f)"
  unfolding quiet_def
proof (intro allI impI)
  fix w assume w: "sound w"
  obtain r w1 where r: "m w = (r, w1)" by fastforce
  note q = quietD [OF m r w]
  show "follows w (snd (andThen m f w)) \<and> w_calls (snd (andThen m f w)) = w_calls w \<and> fst (andThen m f w) \<noteq> Inl OutOfFuel"
  proof (cases r)
    case (Inl e)
    with r q show ?thesis by (simp add: andThen_def)
  next
    case (Inr x)
    obtain r2 w2 where r2: "f x w1 = (r2, w2)" by fastforce
    note q2 = quietD [OF f r2 q(3)]
    from r r2 Inr q q2 show ?thesis by (auto simp: andThen_def intro: follows_trans)
  qed
qed

lemma quiet_catch [quiet_rules]:
  assumes m: "quiet m" and h: "\<And>e. e \<noteq> OutOfFuel \<Longrightarrow> quiet (h e)"
  shows "quiet (catch m h)"
  unfolding quiet_def
proof (intro allI impI)
  fix w assume w: "sound w"
  obtain r w1 where r: "m w = (r, w1)" by fastforce
  note q = quietD [OF m r w]
  show "follows w (snd (catch m h w)) \<and> w_calls (snd (catch m h w)) = w_calls w \<and> fst (catch m h w) \<noteq> Inl OutOfFuel"
  proof (cases r)
    case (Inl e)
    obtain r2 w2 where r2: "h e w1 = (r2, w2)" by fastforce
    from Inl q(4) have e: "e \<noteq> OutOfFuel" by simp
    note q2 = quietD [OF h [OF e] r2 q(3)]
    from r r2 Inl q q2 e show ?thesis by (auto simp: catch_def intro: follows_trans)
  next
    case (Inr x)
    with r q show ?thesis by (simp add: catch_def)
  qed
qed

lemma quiet_attempt [quiet_rules]: "quiet m \<Longrightarrow> quiet (attempt m)"
  by (auto simp: quiet_def attempt_def split: prod.split sum.split)

lemma quiet_lift [quiet_rules]: "r \<noteq> Inl OutOfFuel \<Longrightarrow> quiet (lift r)"
  by (auto simp: lift_def split: sum.splits intro: quiet_rules)

lemma quiet_if [quiet_rules]: "quiet m \<Longrightarrow> quiet m' \<Longrightarrow> quiet (if b then m else m')"
  by simp

lemma quiet_sum [quiet_rules]: "(\<And>x. v = Inl x \<Longrightarrow> quiet (f x)) \<Longrightarrow> (\<And>x. v = Inr x \<Longrightarrow> quiet (g x)) \<Longrightarrow> quiet (case v of Inl x \<Rightarrow> f x | Inr x \<Rightarrow> g x)"
  by (cases v) auto

lemma quiet_option [quiet_rules]: "quiet m \<Longrightarrow> (\<And>x. quiet (f x)) \<Longrightarrow> quiet (case v of None \<Rightarrow> m | Some x \<Rightarrow> f x)"
  by (cases v) auto

lemma quiet_call:
  assumes "\<And>t s. store_reachable s \<Longrightarrow> later s (snd (op t s))"
  shows "quiet (call op)"
  unfolding quiet_def
proof (intro allI impI)
  fix w assume w: "sound w"
  define t where "t = w_ticks w (w_time w)"
  define s where "s = tk_env t (w_db w)"
  from w have l: "later (w_db w) s" and r: "store_reachable s"
    by (auto simp: sound_def fair_def s_def t_def intro: reachable_later)
  have "later (w_db w) (snd (op t s))" by (rule later_trans [OF assms [OF r] l])
  with l show "follows w (snd (call op w)) \<and> w_calls (snd (call op w)) = w_calls w \<and> fst (call op w) \<noteq> Inl OutOfFuel"
    by (auto simp: call_def Let_def follows_def t_def [symmetric] s_def [symmetric] split: prod.splits sum.splits)
qed

lemma quiet_read [quiet_rules]: "quiet (read f)"
  unfolding read_def by (rule quiet_call) (simp add: tx_start)

lemma quiet_configured [quiet_rules]: "quiet (configured name)"
  by (simp add: quiet_def configured_def follows_def tx_start)

lemma quiet_store_call: "(\<And>t s. store_step s (snd (op t s))) \<Longrightarrow> quiet (call op)"
  by (blast intro: quiet_call later_one system_step.run_store)

lemma quiet_ledger_call: "(\<And>t s. workflow_step s (snd (op t s))) \<Longrightarrow> quiet (call op)"
  by (blast intro: quiet_call later_one system_step.ledger)

section \<open>Inverting a run\<close>

lemma andThenE:
  assumes "andThen m f w = (r, w')"
  obtains (raises) e where "m w = (Inl e, w')" "r = Inl e" | (continues) x w1 where "m w = (Inr x, w1)" "f x w1 = (r, w')"
  using assms by (auto simp: andThen_def split: prod.splits sum.splits)

lemma catchE:
  assumes "catch m h w = (r, w')"
  obtains (returns) x where "m w = (Inr x, w')" "r = Inr x" | (cut) "m w = (Inl OutOfFuel, w')" "r = Inl OutOfFuel"
  | (handled) e w1 where "m w = (Inl e, w1)" "e \<noteq> OutOfFuel" "h e w1 = (r, w')"
  using assms by (auto simp: catch_def split: prod.splits sum.splits if_splits)

lemma attemptE:
  assumes "attempt m w = (r, w')"
  obtains (returns) x where "m w = (Inr x, w')" "r = Inr (Inr x)" | (cut) "m w = (Inl OutOfFuel, w')" "r = Inl OutOfFuel"
  | (caught) e where "m w = (Inl e, w')" "e \<noteq> OutOfFuel" "r = Inr (Inl e)"
  using assms by (auto simp: attempt_def split: prod.splits sum.splits if_splits)

lemma run_simps [simp]: "ret x w = (r, w') \<longleftrightarrow> r = Inr x \<and> w' = w" "raise e w = (r, w') \<longleftrightarrow> r = Inl e \<and> w' = w"
  by (auto simp: ret_def raise_def)

lemma call_InrE:
  assumes "call op w = (Inr x, w')" and "sound w"
  obtains s where "later (w_db w) s" "store_reachable s" "op (w_ticks w (w_time w)) s = (Inr x, w_db w')"
    "w_calls w' = w_calls w" "w_ticks w' = w_ticks w"
proof
  let ?t = "w_ticks w (w_time w)" and ?s = "tk_env (w_ticks w (w_time w)) (w_db w)"
  from assms(2) show "later (w_db w) ?s" "store_reachable ?s"
    by (auto simp: sound_def fair_def intro: reachable_later)
  from assms(1) show "op ?t ?s = (Inr x, w_db w')" "w_calls w' = w_calls w" "w_ticks w' = w_ticks w"
    by (auto simp: call_def Let_def split: if_splits prod.splits sum.splits)
qed

lemma read_InrE:
  assumes "read f w = (Inr x, w')" and "sound w"
  obtains "f (w_db w') = Inr x" "later (w_db w) (w_db w')" "w_calls w' = w_calls w" "w_ticks w' = w_ticks w"
  using assms unfolding read_def by (auto elim!: call_InrE)

lemma dispatchD:
  assumes "dispatch name mode q w = (r, w')"
  shows "w_db w' = w_db w" and "w_ticks w' = w_ticks w" and "w_calls w' = w_calls w \<or> w_calls w' = w_calls w @ [q]"
    and "r \<noteq> Inl OutOfFuel"
  using assms
  by (auto simp: dispatch_def configured_def elim!: andThenE split: if_splits sum.splits)

section \<open>Programs that do not return\<close>

definition noreturn :: "'a prog \<Rightarrow> bool" where
  "noreturn m \<longleftrightarrow> (\<forall>w x w'. m w \<noteq> (Inr x, w'))"

named_theorems noreturn_rules

lemma noreturn_raise [noreturn_rules]: "noreturn (raise e)"
  by (simp add: noreturn_def)

lemma noreturn_andThen [noreturn_rules]: "(\<And>x. noreturn (f x)) \<Longrightarrow> noreturn (andThen m f)"
  by (auto simp: noreturn_def elim!: andThenE)

lemma noreturn_if [noreturn_rules]: "noreturn m \<Longrightarrow> noreturn m' \<Longrightarrow> noreturn (if b then m else m')"
  by simp

lemma noreturn_option [noreturn_rules]:
  "noreturn m \<Longrightarrow> (\<And>x. noreturn (f x)) \<Longrightarrow> noreturn (case v of None \<Rightarrow> m | Some x \<Rightarrow> f x)"
  by (cases v) auto

lemma noreturnD: "noreturn m \<Longrightarrow> m w = (Inr x, w') \<Longrightarrow> P"
  by (simp add: noreturn_def)

end
