(* ===== verification/Evidence_Projector.thy ===== *)
theory Evidence_Projector
  imports Worker_Programs
begin

text \<open>
  \<^verbatim>\<open>runtime_service/evidence.py\<close>: workflow events are written first and are authoritative;
  the projector copies those that carry an evidence id into the public event log of the run, and
  repairs the copy after a crash between the two writes. The sink is the run store, so a copy is
  bound to the run's lease. The digest helpers of \<^verbatim>\<open>runtime_service/canonical.py\<close> are here
  too.
\<close>

section \<open>Canonical identity\<close>

definition stable_hash :: "digests \<Rightarrow> (string \<times> json) list \<Rightarrow> string" where
  "stable_hash D payload = sha256_hex D (canonical_dumps (JObj payload))"

definition canonical_text :: "(string \<times> json) list \<Rightarrow> json_text" where
  "canonical_text payload = Encoded (canonical_json (JObj payload))"

definition decode_tool_result :: "tool_row \<Rightarrow> exn + (string \<times> json) list" where
  "decode_tool_result step = (case k_result_json step of
      None \<Rightarrow> Inl (ExecutionError ''tool_execution_failed''
        (''Completed tool step '' @ k_step_id step @ '' is missing its result.''))
    | Some (Garbled _) \<Rightarrow> Inl (ExecutionError ''tool_execution_failed''
        (''Tool step '' @ k_step_id step @ '' persisted invalid JSON.''))
    | Some (Encoded (JObj kvs)) \<Rightarrow> Inr kvs
    | Some (Encoded _) \<Rightarrow> Inl (ExecutionError ''tool_execution_failed''
        (''Tool step '' @ k_step_id step @ '' did not persist an object result.'')))"

lemma decode_tool_result_Inl: "decode_tool_result step = Inl e \<Longrightarrow> \<exists>code message. e = ExecutionError code message"
  by (auto simp: decode_tool_result_def split: option.splits json_text.splits json.splits)

text \<open>Python's equality of decoded values: keys in any order, and a truth value is the integer it stands for.\<close>

fun py_value :: "json \<Rightarrow> json" where
  "py_value (JBool b) = JInt (if b then 1 else 0)"
| "py_value (JList xs) = JList (map py_value xs)"
| "py_value (JObj kvs) = JObj (sort_key fst (map (\<lambda>(k, v). (k, py_value v)) kvs))"
| "py_value j = j"

definition json_equal :: "json \<Rightarrow> json \<Rightarrow> bool" where
  "json_equal a b \<longleftrightarrow> py_value a = py_value b"

section \<open>The projector\<close>

definition MIRRORED_EVENT_TYPES :: "string list" where
  "MIRRORED_EVENT_TYPES = [''planner.decision'', ''policy.decision'', ''tool.result'', ''loop.outcome'']"

definition mirrored_type :: "string \<Rightarrow> bool" where
  "mirrored_type ty \<longleftrightarrow> take (length ''external_action.'') ty = ''external_action.'' \<or> ty \<in> set MIRRORED_EVENT_TYPES"

definition decoded_events :: "run_event list \<Rightarrow> store_error + (string \<times> (string \<times> json) list) list" where
  "decoded_events es = (case decode_events es of None \<Rightarrow> Inl ValidationError | Some ds \<Rightarrow> Inr ds)"

definition workflow_events :: "string \<Rightarrow> (string \<times> (string \<times> json) list) list prog" where
  "workflow_events run_id = read (\<lambda>s. decoded_events (list_workflow_events run_id 0 s))"

definition run_events :: "string \<Rightarrow> (string \<times> (string \<times> json) list) list prog" where
  "run_events run_id = read (\<lambda>s. decoded_events (list_events run_id 0 s))"

definition append_run_event :: "string \<Rightarrow> string \<Rightarrow> (string \<times> json) list \<Rightarrow> string option \<Rightarrow> unit prog" where
  "append_run_event run_id ty payload lease_token =
     andThen (call (\<lambda>t. append_attempt_event (tk_clk t) run_id lease_token ty payload (tk_now t))) (\<lambda>_. ret ())"

definition append_ledger_event :: "string \<Rightarrow> string \<Rightarrow> (string \<times> json) list \<Rightarrow> string option \<Rightarrow> unit prog" where
  "append_ledger_event run_id ty payload lease_token =
     andThen (call (\<lambda>t. append_workflow_event (tk_clk t) run_id ty payload lease_token (tk_now t))) (\<lambda>_. ret ())"

text \<open>The first event of the type whose payload has the evidence id.\<close>

definition find_evidence :: "string \<Rightarrow> json \<Rightarrow> (string \<times> (string \<times> json) list) list \<Rightarrow> (string \<times> json) list option" where
  "find_evidence ty i events = map_option snd
     (List.find (\<lambda>(t, p). t = ty \<and> json_equal (py_get p ''evidence_id'') i) events)"

definition workflow_evidence :: "string \<Rightarrow> string \<Rightarrow> string \<Rightarrow> (string \<times> json) list option prog" where
  "workflow_evidence run_id ty evidence_id =
     andThen (workflow_events run_id) (\<lambda>events. ret (find_evidence ty (JStr evidence_id) events))"

definition ensure_run_evidence :: "string \<Rightarrow> string \<Rightarrow> (string \<times> json) list \<Rightarrow> string option \<Rightarrow> unit prog" where
  "ensure_run_evidence run_id ty payload lease_token = andThen (run_events run_id) (\<lambda>events.
     if find_evidence ty (py_get payload ''evidence_id'') events \<noteq> None then ret ()
     else append_run_event run_id ty payload lease_token)"

definition run_evidence_index :: "string \<Rightarrow> (string \<times> string) list prog" where
  "run_evidence_index run_id = andThen (run_events run_id) (\<lambda>events.
     ret (concat (map (\<lambda>(ty, p). case py_get p ''evidence_id'' of JStr i \<Rightarrow> [(ty, i)] | _ \<Rightarrow> []) events)))"

fun mirror_loop :: "string \<Rightarrow> string option \<Rightarrow> (string \<times> (string \<times> json) list) list \<Rightarrow> (string \<times> string) list option \<Rightarrow> unit prog" where
  "mirror_loop run_id lease_token [] mirrored = ret ()"
| "mirror_loop run_id lease_token ((ty, payload) # events) mirrored =
     (if \<not> mirrored_type ty then mirror_loop run_id lease_token events mirrored
      else case map_of payload ''evidence_id'' of
        None \<Rightarrow> mirror_loop run_id lease_token events mirrored
      | Some i \<Rightarrow> (case i of
          JStr evidence_id \<Rightarrow> andThen (case mirrored of None \<Rightarrow> run_evidence_index run_id | Some index \<Rightarrow> ret index) (\<lambda>index.
            if (ty, evidence_id) \<in> set index then mirror_loop run_id lease_token events (Some index)
            else andThen (append_run_event run_id ty payload lease_token) (\<lambda>_.
              mirror_loop run_id lease_token events (Some ((ty, evidence_id) # index))))
        | _ \<Rightarrow> andThen (ensure_run_evidence run_id ty payload lease_token) (\<lambda>_.
            mirror_loop run_id lease_token events mirrored)))"

definition mirror :: "string \<Rightarrow> string option \<Rightarrow> unit prog" where
  "mirror run_id lease_token = andThen (workflow_events run_id) (\<lambda>events. mirror_loop run_id lease_token events None)"

definition record_evidence :: "string \<Rightarrow> string \<Rightarrow> (string \<times> json) list \<Rightarrow> string option \<Rightarrow> unit prog" where
  "record_evidence run_id ty payload lease_token = (case map_of payload ''evidence_id'' of
      None \<Rightarrow> raise (StoreExn (KeyError ''evidence_id''))
    | Some i \<Rightarrow> let evidence_id = py_str i in
        andThen (workflow_evidence run_id ty evidence_id) (\<lambda>existing. case existing of
            None \<Rightarrow> andThen (append_ledger_event run_id ty payload lease_token) (\<lambda>_.
              ensure_run_evidence run_id ty payload lease_token)
          | Some stored \<Rightarrow>
              if \<not> json_equal (JObj stored) (JObj payload)
              then raise (ExecutionError ''invalid_planner_decision'' (''Durable evidence mismatch for '' @ evidence_id @ ''.''))
              else ensure_run_evidence run_id ty stored lease_token))"

definition tool_result_payload :: "string \<Rightarrow> string \<Rightarrow> string \<Rightarrow> json \<Rightarrow> json \<Rightarrow> (string \<times> json) list" where
  "tool_result_payload step_id tool_name status result error_code =
     [(''evidence_id'', JStr (''tool-result:'' @ step_id)), (''step_id'', JStr step_id), (''tool_name'', JStr tool_name),
      (''status'', JStr status), (''result'', result), (''error_code'', error_code)]"

definition record_tool_success :: "string \<Rightarrow> string \<Rightarrow> string \<Rightarrow> (string \<times> json) list \<Rightarrow> string option \<Rightarrow> unit prog" where
  "record_tool_success run_id step_id tool_name result lease_token = record_evidence run_id ''tool.result''
     (tool_result_payload step_id tool_name ''completed'' (JObj result) JNull) lease_token"

definition record_tool_failure :: "string \<Rightarrow> string \<Rightarrow> string \<Rightarrow> string \<Rightarrow> string option \<Rightarrow> unit prog" where
  "record_tool_failure run_id step_id tool_name error_code lease_token = record_evidence run_id ''tool.result''
     (tool_result_payload step_id tool_name ''failed'' JNull (JStr error_code)) lease_token"

section \<open>Projecting is quiet\<close>

lemma quiet_json: "(\<And>x. quiet (f x)) \<Longrightarrow> quiet m \<Longrightarrow> quiet (case i of JStr x \<Rightarrow> f x | _ \<Rightarrow> m)"
  by (cases i) auto

lemma quiet_append_run_event [quiet_rules]: "quiet (append_run_event run_id ty payload lease_token)"
  unfolding append_run_event_def
  by (intro quiet_rules quiet_store_call) (rule store_step.attempt_event)

lemma quiet_append_ledger_event [quiet_rules]: "quiet (append_ledger_event run_id ty payload lease_token)"
  unfolding append_ledger_event_def
  by (intro quiet_rules quiet_ledger_call) (rule workflow_step.wf_event)

lemma quiet_reads [quiet_rules]:
  "quiet (workflow_events run_id)" "quiet (run_events run_id)" "quiet (workflow_evidence run_id ty i)"
  "quiet (run_evidence_index run_id)"
  unfolding workflow_events_def run_events_def workflow_evidence_def run_evidence_index_def by (intro quiet_rules; simp)+

lemma quiet_ensure_run_evidence [quiet_rules]: "quiet (ensure_run_evidence run_id ty payload lease_token)"
  unfolding ensure_run_evidence_def by (intro quiet_rules; simp)

lemma quiet_mirror_loop: "quiet (mirror_loop run_id lease_token events mirrored)"
proof (induction events arbitrary: mirrored)
  case (Cons e events)
  obtain ty payload where e: "e = (ty, payload)" by fastforce
  show ?case unfolding e mirror_loop.simps by (intro quiet_rules quiet_json Cons.IH; simp)
qed (simp add: quiet_ret)

lemma quiet_mirror [quiet_rules]: "quiet (mirror run_id lease_token)"
  unfolding mirror_def by (intro quiet_rules quiet_mirror_loop; simp)

lemma quiet_record_evidence [quiet_rules]: "quiet (record_evidence run_id ty payload lease_token)"
  unfolding record_evidence_def Let_def by (intro quiet_rules; simp)

lemma quiet_record_tool [quiet_rules]:
  "quiet (record_tool_success run_id step_id tool_name result lease_token)"
  "quiet (record_tool_failure run_id step_id tool_name error_code lease_token)"
  unfolding record_tool_success_def record_tool_failure_def by (intro quiet_rules; simp)+

end
