(* ===== verification/Action_Gateway.thy ===== *)
theory Action_Gateway
  imports Evidence_Projector
begin

text \<open>
  \<^verbatim>\<open>runtime_service/action_gateway.py\<close>: the public contract of one durable webhook action.
  The validators of its models, the identities the gateway derives from a caller's idempotency
  key, and the decoding of the input a run persisted. A text is a list of characters below
  U+0100, so its UTF-8 form needs one or two bytes a character.
\<close>

section \<open>Constants and enumerations\<close>

definition ACTION_AGENT_ID :: string where "ACTION_AGENT_ID = ''durable-action-gateway''"
definition ACTION_AGENT_VERSION :: string where "ACTION_AGENT_VERSION = ''1.0.0''"
definition ACTION_CONTRACT :: string where "ACTION_CONTRACT = ''durable-action:1''"
definition ACTION_DOMAIN_ID :: string where "ACTION_DOMAIN_ID = ''durable-action''"
definition ACTION_SCHEMA_VERSION :: string where "ACTION_SCHEMA_VERSION = ''1''"
definition ACTION_WORKFLOW_TYPE :: string where "ACTION_WORKFLOW_TYPE = ''durable-action:webhook.send:1''"
definition ACTION_STEP_ID :: string where "ACTION_STEP_ID = ''dispatch''"
definition MAX_ACTION_PAYLOAD_BYTES :: nat where "MAX_ACTION_PAYLOAD_BYTES = 32768"
definition MAX_ACTION_PAYLOAD_DEPTH :: nat where "MAX_ACTION_PAYLOAD_DEPTH = 16"

abbreviation WEBHOOK_SEND :: string where
  "WEBHOOK_SEND \<equiv> ''webhook.send''"

datatype gateway_status =
  GW_QUEUED | GW_RUNNING | GW_RECONCILING | GW_SUCCEEDED | GW_FAILED | GW_CANCELLED | GW_OUTCOME_UNKNOWN

fun gateway_terminal :: "gateway_status \<Rightarrow> bool" where
  "gateway_terminal GW_SUCCEEDED = True"
| "gateway_terminal GW_FAILED = True"
| "gateway_terminal GW_CANCELLED = True"
| "gateway_terminal GW_OUTCOME_UNKNOWN = True"
| "gateway_terminal _ = False"

datatype evidence_status = EV_PREPARED | EV_DISPATCHING | EV_SUCCEEDED | EV_FAILED | EV_OUTCOME_UNKNOWN

fun evidence_value :: "evidence_status \<Rightarrow> string" where
  "evidence_value EV_PREPARED = ''prepared''"
| "evidence_value EV_DISPATCHING = ''dispatching''"
| "evidence_value EV_SUCCEEDED = ''succeeded''"
| "evidence_value EV_FAILED = ''failed''"
| "evidence_value EV_OUTCOME_UNKNOWN = ''outcome_unknown''"

section \<open>Payloads\<close>

text \<open>A decoded JSON value has text keys and no other kinds of value, so only the depth can be wrong.\<close>

fun validate_json_value :: "nat \<Rightarrow> json \<Rightarrow> bool" where
  "validate_json_value depth (JList xs) \<longleftrightarrow>
     depth \<le> MAX_ACTION_PAYLOAD_DEPTH \<and> (\<forall>x\<in>set xs. validate_json_value (Suc depth) x)"
| "validate_json_value depth (JObj kvs) \<longleftrightarrow>
     depth \<le> MAX_ACTION_PAYLOAD_DEPTH \<and> (\<forall>kv\<in>set kvs. validate_json_value (Suc depth) (snd kv))"
| "validate_json_value depth _ \<longleftrightarrow> depth \<le> MAX_ACTION_PAYLOAD_DEPTH"

fun utf8_width :: "char \<Rightarrow> nat" where
  "utf8_width c = (if (of_char c :: nat) < 128 then 1 else 2)"

definition utf8_length :: "string \<Rightarrow> nat" where
  "utf8_length s = sum_list (map utf8_width s)"

definition canonical_action_json :: "json \<Rightarrow> string" where
  "canonical_action_json value = canonical_dumps value"

definition validate_payload :: "json \<Rightarrow> store_error + (string \<times> json) list" where
  "validate_payload value = (case value of
      JObj kvs \<Rightarrow>
        if \<not> validate_json_value 1 value then Inl (ValueError ''payload must not exceed 16 levels of nesting'')
        else if MAX_ACTION_PAYLOAD_BYTES < utf8_length (canonical_action_json value)
        then Inl (ValueError ''payload must contain at most 32768 UTF-8 bytes'')
        else Inr kvs
    | _ \<Rightarrow> Inl (ValueError ''payload must be a JSON object''))"

section \<open>Models\<close>

definition alias_head :: "char \<Rightarrow> bool" where
  "alias_head c = (let n = of_char c :: nat in (48 \<le> n \<and> n \<le> 57) \<or> (65 \<le> n \<and> n \<le> 90) \<or> (97 \<le> n \<and> n \<le> 122))"

definition alias_tail :: "char \<Rightarrow> bool" where
  "alias_tail c \<longleftrightarrow> alias_head c \<or> c \<in> {CHR ''.'', CHR ''_'', CHR ''-''}"

text \<open>\<^verbatim>\<open>^[A-Za-z0-9][A-Za-z0-9._-]{0,199}$\<close>, and the same with a colon for provider references.\<close>

definition destination_valid :: "string \<Rightarrow> bool" where
  "destination_valid s \<longleftrightarrow> bounded_text 200 s \<and> alias_head (hd s) \<and> list_all alias_tail (tl s)"

definition reference_valid :: "string \<Rightarrow> bool" where
  "reference_valid s \<longleftrightarrow> bounded_text 200 s \<and> alias_head (hd s) \<and> list_all (\<lambda>c. alias_tail c \<or> c = CHR '':'') (tl s)"

text \<open>\<^verbatim>\<open>WebhookSendOutput.model_validate\<close>; the model has the one field.\<close>

definition webhook_output :: "json \<Rightarrow> string option" where
  "webhook_output value = (case value of
      JObj kvs \<Rightarrow> if \<not> only_keys [''provider_reference''] kvs then None
        else (case map_of kvs ''provider_reference'' of
            Some (JStr s) \<Rightarrow> if reference_valid s then Some s else None | _ \<Rightarrow> None)
    | _ \<Rightarrow> None)"

definition dump_output :: "string \<Rightarrow> (string \<times> json) list" where
  "dump_output reference = [(''provider_reference'', JStr reference)]"

record create_request =
  cr_action_type :: string
  cr_destination :: string
  cr_idempotency_key :: string
  cr_payload :: "(string \<times> json) list"

definition create_request_valid :: "create_request \<Rightarrow> bool" where
  "create_request_valid q \<longleftrightarrow> bounded_text 100 (cr_action_type q) \<and> destination_valid (cr_destination q)
     \<and> bounded_text 200 (cr_idempotency_key q) \<and> validate_payload (JObj (cr_payload q)) = Inr (cr_payload q)"

text \<open>The fields \<^verbatim>\<open>contract\<close> and \<^verbatim>\<open>action_type\<close> are literals of one value.\<close>

record durable_input =
  di_destination :: string
  di_idempotency_key :: string
  di_payload :: "(string \<times> json) list"

definition webhook_input :: "json \<Rightarrow> (string \<times> json) list option" where
  "webhook_input value = (case value of
      JObj kvs \<Rightarrow> if \<not> only_keys [''payload''] kvs then None
        else (case map_of kvs ''payload'' of None \<Rightarrow> Some []
          | Some p \<Rightarrow> (case validate_payload p of Inl _ \<Rightarrow> None | Inr payload \<Rightarrow> Some payload))
    | _ \<Rightarrow> None)"

definition literal_field :: "string \<Rightarrow> string \<Rightarrow> (string \<times> json) list \<Rightarrow> bool" where
  "literal_field k v kvs \<longleftrightarrow> (case map_of kvs k of None \<Rightarrow> True | Some j \<Rightarrow> j = JStr v)"

definition validate_durable_input :: "(string \<times> json) list \<Rightarrow> store_error + durable_input" where
  "validate_durable_input kvs =
     (if only_keys [''contract'', ''action_type'', ''destination'', ''idempotency_key'', ''input''] kvs
        \<and> literal_field ''contract'' ACTION_CONTRACT kvs \<and> literal_field ''action_type'' WEBHOOK_SEND kvs
      then case (map_of kvs ''destination'', map_of kvs ''idempotency_key'', map_option webhook_input (map_of kvs ''input'')) of
          (Some (JStr d), Some (JStr k), Some (Some p)) \<Rightarrow>
            if destination_valid d \<and> bounded_text 200 k
            then Inr \<lparr>di_destination = d, di_idempotency_key = k, di_payload = p\<rparr> else Inl ValidationError
        | _ \<Rightarrow> Inl ValidationError
      else Inl ValidationError)"

definition dump_webhook_input :: "durable_input \<Rightarrow> (string \<times> json) list" where
  "dump_webhook_input i = [(''payload'', JObj (di_payload i))]"

definition dump_durable_input :: "durable_input \<Rightarrow> (string \<times> json) list" where
  "dump_durable_input i =
     [(''contract'', JStr ACTION_CONTRACT), (''action_type'', JStr WEBHOOK_SEND), (''destination'', JStr (di_destination i)),
      (''idempotency_key'', JStr (di_idempotency_key i)), (''input'', JObj (dump_webhook_input i))]"

definition to_durable_action_input :: "create_request \<Rightarrow> durable_input" where
  "to_durable_action_input q =
     \<lparr>di_destination = cr_destination q, di_idempotency_key = cr_idempotency_key q, di_payload = cr_payload q\<rparr>"

section \<open>Identities\<close>

definition action_fingerprint :: "digests \<Rightarrow> durable_input \<Rightarrow> string" where
  "action_fingerprint D i = sha256_hex D (canonical_action_json (JObj
     [(''contract'', JStr ACTION_CONTRACT), (''action_type'', JStr WEBHOOK_SEND), (''destination'', JStr (di_destination i)),
      (''input'', JObj (dump_webhook_input i))]))"

definition action_client_request_id :: "digests \<Rightarrow> string \<Rightarrow> string" where
  "action_client_request_id D key = ''action-request:v1:'' @ sha256_hex D key"

definition action_thread_id :: "digests \<Rightarrow> string \<Rightarrow> string \<Rightarrow> string \<Rightarrow> string" where
  "action_thread_id D tenant_id action_type key = ''action_thread_v1_'' @ sha256_hex D (canonical_action_json
     (JList [JStr ''action-thread-v1'', JStr tenant_id, JStr action_type, JStr key]))"

definition persisted_action_input :: "run_record \<Rightarrow> store_error + durable_input" where
  "persisted_action_input run = validate_durable_input (r_input run)"

definition is_action_run :: "run_record \<Rightarrow> bool" where
  "is_action_run run \<longleftrightarrow> r_agent_id run = ACTION_AGENT_ID \<and> r_agent_version run = ACTION_AGENT_VERSION
     \<and> r_domain_id run = ACTION_DOMAIN_ID \<and> r_schema_version run = ACTION_SCHEMA_VERSION"

section \<open>Round trip of the persisted input\<close>

lemma validate_payload_id: "validate_payload (JObj kvs) = Inr p \<Longrightarrow> p = kvs"
  by (auto simp: validate_payload_def split: option.splits if_splits)

lemma request_round_trip:
  assumes "create_request_valid q"
  shows "validate_durable_input (dump_durable_input (to_durable_action_input q)) = Inr (to_durable_action_input q)"
  using assms
  by (simp add: validate_durable_input_def dump_durable_input_def to_durable_action_input_def create_request_valid_def
      only_keys_def literal_field_def webhook_input_def dump_webhook_input_def)

lemma validated_input:
  assumes "validate_durable_input kvs = Inr i"
  shows "destination_valid (di_destination i)" and "bounded_text 200 (di_idempotency_key i)"
  using assms by (auto simp: validate_durable_input_def split: if_splits option.splits json.splits)

end
