(* ===== verification/Action_Coordinator.thy ===== *)
theory Action_Coordinator
  imports Evidence_Projector
begin

text \<open>
  \<^verbatim>\<open>runtime_service/external_action_coordinator.py\<close>: how a worker takes one external action
  through the durable ledger, calls the provider, and recovers an action whose worker died. The
  coordinator owns no state; each of its methods is a worker program, in the order of the file
  as far as the definitions allow. The hook \<^verbatim>\<open>fail\<close>, with which the host terminalizes
  its workflow, is part of the configuration and always raises.
\<close>

section \<open>Configuration\<close>

record exec_context =
  cx_run_id :: string
  cx_thread_id :: string
  cx_recovered_after_restart :: bool
  cx_authority :: authority
  cx_lease_token :: "string option"

text \<open>The output model validates a result against the arguments and dumps it.\<close>

record tool_spec =
  ts_provider_name :: "string option"
  ts_retry_mode :: retry_mode
  ts_output_model :: "((string \<times> json) list \<Rightarrow> (string \<times> json) list \<Rightarrow> (string \<times> json) list option) option"

record observation =
  ob_step_id :: string
  ob_tool_name :: string
  ob_arguments :: "(string \<times> json) list"
  ob_result :: "(string \<times> json) list"
  ob_cached :: bool

record coordinator =
  co_dispatcher :: bool
  co_workflow_type :: string
  co_failure_messages :: "(string \<times> string) list"
  co_max_dispatches :: int
  co_digests :: digests
  co_fail :: "exec_context \<Rightarrow> string \<Rightarrow> string \<Rightarrow> world \<Rightarrow> exn \<times> world"

text \<open>One call with everything that stays fixed during it.\<close>

record action_call =
  ac_co :: coordinator
  ac_context :: exec_context
  ac_tool_name :: string
  ac_spec :: tool_spec
  ac_step_id :: string
  ac_arguments :: "(string \<times> json) list"

definition DEFAULT_FAILURE_MESSAGES :: "(string \<times> string) list" where
  "DEFAULT_FAILURE_MESSAGES =
     [(''external_action_failed'', ''External action failed definitively.''),
      (''external_action_outcome_unknown'', ''External action outcome is unknown and was not retried again.''),
      (''external_action_evidence_incomplete'', ''External action completed, but durable run evidence is incomplete.''),
      (''run_cancel_requested'', ''Run cancellation was requested before external action dispatch.'')]"

definition failure_message :: "coordinator \<Rightarrow> string \<Rightarrow> string" where
  "failure_message co code = (case map_of (co_failure_messages co) code of
      Some m \<Rightarrow> m
    | None \<Rightarrow> (case map_of DEFAULT_FAILURE_MESSAGES code of Some m \<Rightarrow> m | None \<Rightarrow> ''External action failed.''))"

definition reconcile_priority :: "string \<Rightarrow> nat option" where
  "reconcile_priority status = map_of
     [(action_value DISPATCHING, 0), (action_value OUTCOME_UNKNOWN, 1), (action_value SUCCEEDED, 2),
      (action_value ACTION_FAILED, 3), (action_value PREPARED, 4)] status"

fun claim_value :: "claim_outcome \<Rightarrow> string" where
  "claim_value CLAIMED = ''claimed''"
| "claim_value CACHED = ''cached''"
| "claim_value ALREADY_RUNNING = ''already_running''"
| "claim_value INPUT_MISMATCH = ''input_mismatch''"
| "claim_value DEFINITION_MISMATCH = ''definition_mismatch''"
| "claim_value ATTEMPTS_EXHAUSTED = ''attempts_exhausted''"

fun dispatch_value :: "dispatch_outcome \<Rightarrow> string" where
  "dispatch_value DISPATCH_CLAIMED = ''claimed''"
| "dispatch_value RETRY_CLAIMED = ''retry_claimed''"
| "dispatch_value ALREADY_DISPATCHING = ''already_dispatching''"
| "dispatch_value RETRY_UNSAFE = ''retry_unsafe''"
| "dispatch_value NOT_DISPATCHING = ''not_dispatching''"
| "dispatch_value RUN_CANCELLED = ''run_cancelled''"
| "dispatch_value TERMINAL = ''terminal''"

abbreviation UNKNOWN_CODE :: string where
  "UNKNOWN_CODE \<equiv> ''external_action_outcome_unknown''"

abbreviation FAILED_CODE :: string where
  "FAILED_CODE \<equiv> ''external_action_failed''"

abbreviation INCOMPLETE_CODE :: string where
  "INCOMPLETE_CODE \<equiv> ''external_action_evidence_incomplete''"

abbreviation INVALID_CODE :: string where
  "INVALID_CODE \<equiv> ''invalid_planner_decision''"

section \<open>Hooks, identity and requests\<close>

definition fail :: "coordinator \<Rightarrow> exec_context \<Rightarrow> string \<Rightarrow> string \<Rightarrow> 'a prog" where
  "fail co cx code detail w = (case co_fail co cx code detail w of (e, w') \<Rightarrow> (Inl e, w'))"

definition mirror_evidence :: "exec_context \<Rightarrow> unit prog" where
  "mirror_evidence cx = mirror (cx_run_id cx) (cx_lease_token cx)"

text \<open>Fail through the hook, and raise the code itself when the hook raised anything else.\<close>

definition fail_as :: "coordinator \<Rightarrow> exec_context \<Rightarrow> string \<Rightarrow> string \<Rightarrow> 'a prog" where
  "fail_as co cx code detail = andThen
     (catch (fail co cx code detail) (\<lambda>e. if execution_code e = Some code then raise e else ret ()))
     (\<lambda>_. raise (ExecutionError code (failure_message co code)))"

definition action_identity :: "action_row \<Rightarrow> string list \<times> json_text" where
  "action_identity a = ([x_action_id a, xa_run_id a, xa_step_id a, xa_tenant_id a, xa_subject_id a, xa_workflow_type a,
     xa_tool_name a, xa_provider_name a, xa_provider_identity a, xa_input_hash a, xa_retry_mode a, xa_idempotency_key a],
     xa_arguments_json a)"

definition idempotency_key :: "coordinator \<Rightarrow> exec_context \<Rightarrow> string \<Rightarrow> string \<Rightarrow> string \<Rightarrow> string" where
  "idempotency_key co cx step_id tool_name input_hash = ''external_action_'' @ stable_hash (co_digests co)
     [(''tenant_id'', JStr (a_tenant_id (cx_authority cx))), (''run_id'', JStr (cx_run_id cx)),
      (''workflow_type'', JStr (co_workflow_type co)), (''step_id'', JStr step_id), (''tool_name'', JStr tool_name),
      (''input_hash'', JStr input_hash)]"

definition ac_input_hash :: "action_call \<Rightarrow> string" where
  "ac_input_hash ac = stable_hash (co_digests (ac_co ac)) (ac_arguments ac)"

definition ac_key :: "action_call \<Rightarrow> string" where
  "ac_key ac = idempotency_key (ac_co ac) (ac_context ac) (ac_step_id ac) (ac_tool_name ac) (ac_input_hash ac)"

definition external_action_request :: "action_row \<Rightarrow> exn + action_request" where
  "external_action_request a = (case xa_arguments_json a of
      Garbled _ \<Rightarrow> Inl (StoreExn (ValueError ''JSONDecodeError''))
    | Encoded (JObj arguments) \<Rightarrow>
        let q = \<lparr>q_action_id = x_action_id a, q_run_id = xa_run_id a, q_step_id = xa_step_id a,
          q_tenant_id = xa_tenant_id a, q_subject_id = xa_subject_id a, q_workflow_type = xa_workflow_type a,
          q_tool_name = xa_tool_name a, q_arguments = arguments, q_idempotency_key = xa_idempotency_key a\<rparr>
        in if request_valid q then Inr q else Inl (StoreExn ValidationError)
    | Encoded _ \<Rightarrow> Inl (ExecutionError INVALID_CODE ''External action arguments are not an object.''))"

definition contains_text :: "string \<Rightarrow> string \<Rightarrow> bool" where
  "contains_text p s \<longleftrightarrow> (\<exists>i\<in>set [0..<Suc (length s)]. take (length p) (drop i s) = p)"

fun contains_sensitive_text :: "json \<Rightarrow> string \<Rightarrow> bool" where
  "contains_sensitive_text (JStr s) text = contains_text text s"
| "contains_sensitive_text (JList xs) text = (\<exists>x\<in>set xs. contains_sensitive_text x text)"
| "contains_sensitive_text (JObj kvs) text =
     (\<exists>kv\<in>set kvs. contains_text text (fst kv) \<or> contains_sensitive_text (snd kv) text)"
| "contains_sensitive_text _ text = False"

section \<open>Unknown outcomes\<close>

text \<open>The two rows that prove or disprove a terminal commit; a failed read proves nothing.\<close>

definition read_back :: "exec_context \<Rightarrow> tool_row \<Rightarrow> (action_row \<times> tool_row) option prog" where
  "read_back cx step = catch
     (andThen (read (get_external_action (cx_run_id cx) (k_step_id step))) (\<lambda>a.
      andThen (read (get_step (cx_run_id cx) (k_step_id step))) (\<lambda>k.
      ret (case (a, k) of (Some a, Some k) \<Rightarrow> Some (a, k) | _ \<Rightarrow> None))))
     (\<lambda>_. ret None)"

definition external_success_was_committed ::
  "exec_context \<Rightarrow> tool_row \<Rightarrow> action_row \<Rightarrow> string \<Rightarrow> json_text \<Rightarrow> string \<Rightarrow> bool prog" where
  "external_success_was_committed cx step expected dispatch_token result_json provider_reference =
     andThen (read_back cx step) (\<lambda>rb. ret (case rb of None \<Rightarrow> False | Some (a, k) \<Rightarrow>
       action_identity a = action_identity expected \<and> xa_status a = action_value SUCCEEDED
       \<and> xa_dispatch_token a = Some dispatch_token \<and> xa_provider_reference a = Some provider_reference
       \<and> xa_result_json a = Some result_json \<and> xa_error_code a = None
       \<and> k_status k = tool_call_value TC_COMPLETED \<and> k_attempt_token k = k_attempt_token step
       \<and> k_result_json k = Some result_json \<and> k_error_code k = None))"

definition external_failure_was_committed :: "exec_context \<Rightarrow> tool_row \<Rightarrow> action_row \<Rightarrow> string \<Rightarrow> bool prog" where
  "external_failure_was_committed cx step expected dispatch_token =
     andThen (read_back cx step) (\<lambda>rb. ret (case rb of None \<Rightarrow> False | Some (a, k) \<Rightarrow>
       action_identity a = action_identity expected \<and> xa_status a = action_value ACTION_FAILED
       \<and> xa_dispatch_token a = Some dispatch_token \<and> xa_provider_reference a = None
       \<and> xa_result_json a = None \<and> xa_error_code a = Some FAILED_CODE
       \<and> k_status k = tool_call_value TC_FAILED \<and> k_attempt_token k = k_attempt_token step
       \<and> k_result_json k = None \<and> k_error_code k = Some FAILED_CODE))"

definition external_outcome_unknown_was_committed :: "exec_context \<Rightarrow> tool_row \<Rightarrow> string \<Rightarrow> string \<Rightarrow> bool prog" where
  "external_outcome_unknown_was_committed cx step dispatch_token attempt_token =
     andThen (read_back cx step) (\<lambda>rb. ret (case rb of None \<Rightarrow> False | Some (a, k) \<Rightarrow>
       xa_run_id a = cx_run_id cx \<and> xa_step_id a = k_step_id step \<and> xa_tool_name a = k_tool_name step
       \<and> xa_input_hash a = k_input_hash step \<and> xa_status a = action_value OUTCOME_UNKNOWN
       \<and> xa_dispatch_token a = Some dispatch_token \<and> xa_provider_reference a = None
       \<and> xa_result_json a = None \<and> xa_error_code a = Some UNKNOWN_CODE
       \<and> k_run_id k = cx_run_id cx \<and> k_step_id k = k_step_id step \<and> k_tool_name k = k_tool_name step
       \<and> k_input_hash k = k_input_hash step \<and> k_status k = tool_call_value TC_FAILED
       \<and> k_attempt_token k = Some attempt_token \<and> k_result_json k = None \<and> k_error_code k = Some UNKNOWN_CODE))"

definition raise_external_outcome_unknown ::
  "coordinator \<Rightarrow> exec_context \<Rightarrow> tool_row \<Rightarrow> string \<Rightarrow> string \<Rightarrow> action_row prog \<Rightarrow> 'a prog" where
  "raise_external_outcome_unknown co cx step dispatch_token attempt_token finalizer =
     andThen (catch (andThen finalizer (\<lambda>_. ret ())) (\<lambda>e. case e of
         StoreExn (RunLeaseLostError m) \<Rightarrow> raise e
       | _ \<Rightarrow> andThen (external_outcome_unknown_was_committed cx step dispatch_token attempt_token) (\<lambda>committed.
           if committed then ret () else raise ReconciliationPendingError))) (\<lambda>_.
     andThen (catch
         (andThen (mirror_evidence cx) (\<lambda>_.
            record_tool_failure (cx_run_id cx) (k_step_id step) (k_tool_name step) UNKNOWN_CODE (cx_lease_token cx)))
         (\<lambda>_. ret ())) (\<lambda>_.
     fail_as co cx UNKNOWN_CODE ''External action outcome could not be durably proven.''))"

definition finalize_provider_unknown :: "coordinator \<Rightarrow> exec_context \<Rightarrow> tool_row \<Rightarrow> string \<Rightarrow> string \<Rightarrow> 'a prog" where
  "finalize_provider_unknown co cx step dispatch_token attempt_token =
     raise_external_outcome_unknown co cx step dispatch_token attempt_token
       (call (\<lambda>t. finalize_external_action_outcome_unknown (tk_clk t) (cx_run_id cx) (k_step_id step)
          dispatch_token attempt_token UNKNOWN_CODE None (tk_now t)))"

definition finalize_reconciliation_unknown :: "coordinator \<Rightarrow> exec_context \<Rightarrow> tool_row \<Rightarrow> string \<Rightarrow> string \<Rightarrow> 'a prog" where
  "finalize_reconciliation_unknown co cx step dispatch_token attempt_token =
     raise_external_outcome_unknown co cx step dispatch_token attempt_token
       (call (\<lambda>t. finalize_external_action_reconciliation_unknown (tk_clk t) (cx_run_id cx) (k_step_id step)
          dispatch_token attempt_token UNKNOWN_CODE None (cx_lease_token cx) (tk_now t)))"

definition finalize_unsafe_unknown :: "coordinator \<Rightarrow> exec_context \<Rightarrow> tool_row \<Rightarrow> string \<Rightarrow> string \<Rightarrow> 'a prog" where
  "finalize_unsafe_unknown co cx step dispatch_token attempt_token =
     raise_external_outcome_unknown co cx step dispatch_token attempt_token
       (call (\<lambda>t. finalize_unsafe_interrupted_action (tk_clk t) (cx_run_id cx) (k_step_id step)
          dispatch_token attempt_token UNKNOWN_CODE (cx_lease_token cx) (tk_now t)))"

definition fail_external_dispatch_binding :: "coordinator \<Rightarrow> exec_context \<Rightarrow> tool_row \<Rightarrow> action_row \<Rightarrow> 'a prog" where
  "fail_external_dispatch_binding co cx step action =
     (case (xa_dispatch_token action, k_attempt_token step) of
        (Some dispatch_token, Some attempt_token) \<Rightarrow> finalize_reconciliation_unknown co cx step dispatch_token attempt_token
      | _ \<Rightarrow> raise ReconciliationPendingError)"

section \<open>Reconciliation\<close>

definition provider_for :: "coordinator \<Rightarrow> tool_spec \<Rightarrow> provider option prog" where
  "provider_for co spec = (case ts_provider_name spec of
      None \<Rightarrow> ret None
    | Some provider_name \<Rightarrow> if co_dispatcher co then configured provider_name else ret None)"

definition dispatched_action :: "string \<Rightarrow> string \<Rightarrow> action_row option prog" where
  "dispatched_action run_id step_id = andThen (read (get_external_action run_id step_id)) (\<lambda>action. ret
     (case action of None \<Rightarrow> None | Some a \<Rightarrow> if xa_dispatch_count a < 1 then None else Some a))"

definition blocks_reconciliation :: "action_row \<Rightarrow> bool" where
  "blocks_reconciliation a \<longleftrightarrow> reconcile_priority (xa_status a) = None \<or> xa_status a = action_value PREPARED"

text \<open>\<open>None\<close> stands for an outcome nothing in the ledger proves.\<close>

definition reconcile_chosen :: "coordinator \<Rightarrow> exec_context \<Rightarrow> action_row option \<Rightarrow> 'a prog" where
  "reconcile_chosen co cx chosen =
     andThen (catch (mirror_evidence cx) (\<lambda>e. case e of StoreExn (RunLeaseLostError m) \<Rightarrow> raise e | _ \<Rightarrow> ret ())) (\<lambda>_.
     case chosen of
       None \<Rightarrow> raise ReconciliationPendingError
     | Some action \<Rightarrow>
         if xa_status action = action_value DISPATCHING
         then andThen (read (get_step (cx_run_id cx) (xa_step_id action))) (\<lambda>step. case step of
             None \<Rightarrow> raise ReconciliationPendingError
           | Some k \<Rightarrow> fail_external_dispatch_binding co cx k action)
         else if xa_status action = action_value OUTCOME_UNKNOWN
         then fail_as co cx UNKNOWN_CODE ''Dispatched external action could not be reconciled.''
         else if xa_status action = action_value SUCCEEDED
         then fail_as co cx INCOMPLETE_CODE ''Dispatched external action could not be reconciled.''
         else if xa_status action = action_value ACTION_FAILED
         then fail_as co cx FAILED_CODE ''Dispatched external action could not be reconciled.''
         else raise ReconciliationPendingError)"

definition reconcile_action :: "coordinator \<Rightarrow> exec_context \<Rightarrow> action_row \<Rightarrow> bool \<Rightarrow> unit prog" where
  "reconcile_action co cx action include_terminal =
     (if blocks_reconciliation action then reconcile_chosen co cx None
      else if terminal_action_status (xa_status action) \<and> \<not> include_terminal then ret ()
      else reconcile_chosen co cx (Some action))"

definition reconcile_dispatched_action :: "coordinator \<Rightarrow> exec_context \<Rightarrow> bool \<Rightarrow> unit prog" where
  "reconcile_dispatched_action co cx include_terminal =
     andThen (read (list_external_actions (cx_run_id cx))) (\<lambda>candidates.
       let dispatched_actions = filter (\<lambda>a. 0 < xa_dispatch_count a) candidates in
       if dispatched_actions = [] then ret ()
       else if (\<exists>a\<in>set dispatched_actions. blocks_reconciliation a) then reconcile_chosen co cx None
       else let actions = filter (\<lambda>a. include_terminal \<or> \<not> terminal_action_status (xa_status a)) dispatched_actions in
         if actions = [] then ret ()
         else reconcile_chosen co cx (Some (hd (sort_key (\<lambda>a. the (reconcile_priority (xa_status a))) actions))))"

section \<open>Evidence and terminal outcomes\<close>

definition record_external_success_evidence ::
  "coordinator \<Rightarrow> exec_context \<Rightarrow> tool_row \<Rightarrow> (string \<times> json) list \<Rightarrow> unit prog" where
  "record_external_success_evidence co cx step result =
     (let once = andThen (mirror_evidence cx) (\<lambda>_.
        record_tool_success (cx_run_id cx) (k_step_id step) (k_tool_name step) result (cx_lease_token cx))
      in catch once (\<lambda>_. catch once (\<lambda>_. raise (ExecutionError INCOMPLETE_CODE (failure_message co INCOMPLETE_CODE)))))"

definition raise_external_terminal_failure :: "coordinator \<Rightarrow> exec_context \<Rightarrow> tool_row \<Rightarrow> string \<Rightarrow> 'a prog" where
  "raise_external_terminal_failure co cx step error_code =
     (let once = andThen (mirror_evidence cx) (\<lambda>_.
        record_tool_failure (cx_run_id cx) (k_step_id step) (k_tool_name step) error_code (cx_lease_token cx))
      in andThen (catch once (\<lambda>_. catch once (\<lambda>_. ret ()))) (\<lambda>_.
         fail_as co cx error_code ''Persisted external action failed.''))"

definition fail_restored_step :: "coordinator \<Rightarrow> exec_context \<Rightarrow> action_row \<Rightarrow> string \<Rightarrow> string \<Rightarrow> 'a prog" where
  "fail_restored_step co cx action code detail =
     andThen (if 0 < xa_dispatch_count action then reconcile_action co cx action True else ret ()) (\<lambda>_.
     fail co cx code detail)"

definition binding_matches :: "action_call \<Rightarrow> tool_row \<Rightarrow> action_row \<Rightarrow> string option \<Rightarrow> bool" where
  "binding_matches ac step action provider_identity \<longleftrightarrow>
     xa_run_id action = cx_run_id (ac_context ac) \<and> xa_step_id action = k_step_id step
     \<and> xa_tenant_id action = a_tenant_id (cx_authority (ac_context ac))
     \<and> xa_subject_id action = a_subject_id (cx_authority (ac_context ac))
     \<and> xa_workflow_type action = co_workflow_type (ac_co ac) \<and> xa_tool_name action = k_tool_name step
     \<and> Some (xa_provider_name action) = ts_provider_name (ac_spec ac)
     \<and> xa_provider_identity action =
         (case provider_identity of None \<Rightarrow> xa_provider_identity action
          | Some i \<Rightarrow> if i = [] then xa_provider_identity action else i)
     \<and> xa_input_hash action = ac_input_hash ac \<and> xa_arguments_json action = canonical_text (ac_arguments ac)
     \<and> xa_retry_mode action = retry_value (ts_retry_mode (ac_spec ac)) \<and> xa_idempotency_key action = ac_key ac
     \<and> k_run_id step = cx_run_id (ac_context ac) \<and> k_tool_name step = xa_tool_name action
     \<and> k_input_hash step = ac_input_hash ac \<and> x_action_id action \<noteq> [] \<and> length (x_action_id action) \<le> 200"

definition dispatch_state_valid :: "action_row \<Rightarrow> bool" where
  "dispatch_state_valid a \<longleftrightarrow> (if xa_status a = action_value PREPARED
     then xa_dispatch_count a = 0 \<and> xa_dispatch_token a = None
     else 1 \<le> xa_dispatch_count a \<and> xa_dispatch_token a \<noteq> None)"

definition validate_external_action_binding :: "action_call \<Rightarrow> tool_row \<Rightarrow> action_row \<Rightarrow> string option \<Rightarrow> unit prog" where
  "validate_external_action_binding ac step action provider_identity =
     (let co = ac_co ac; cx = ac_context ac in
      andThen (if binding_matches ac step action provider_identity then ret ()
        else if xa_status action = action_value DISPATCHING then fail_external_dispatch_binding co cx step action
        else andThen (if 0 < xa_dispatch_count action then reconcile_action co cx action True else ret ()) (\<lambda>_.
          fail co cx INVALID_CODE ''Durable external action binding does not match the execution context.'')) (\<lambda>_.
      if dispatch_state_valid action then ret ()
      else if xa_status action = action_value DISPATCHING then fail_external_dispatch_binding co cx step action
      else fail co cx INVALID_CODE ''Durable external action dispatch state is invalid.''))"

definition restored_result_problem ::
  "action_call \<Rightarrow> action_row \<Rightarrow> (string \<times> json) list \<Rightarrow> string option" where
  "restored_result_problem ac action result =
     (case ts_output_model (ac_spec ac) of
        None \<Rightarrow> Some ''External-write tool has no output schema.''
      | Some validate \<Rightarrow> (case validate (ac_arguments ac) result of
          None \<Rightarrow> Some ''Persisted external action result no longer passes output validation.''
        | Some normalized \<Rightarrow>
            if \<not> json_equal (JObj normalized) (JObj result)
            then Some ''Persisted external action result is not canonical.''
            else if contains_sensitive_text (JObj result) (ac_key ac)
            then Some ''Persisted external action result contains its idempotency key.''
            else if xa_result_json action \<noteq> Some (canonical_text result)
            then Some ''External action result does not match its completed tool step.''
            else if py_get result ''provider_reference'' \<noteq> jopt_str (xa_provider_reference action)
            then Some ''External action result has an untrusted provider reference.''
            else None))"

definition restore_success :: "action_call \<Rightarrow> tool_row \<Rightarrow> observation prog" where
  "restore_success ac step =
     (let co = ac_co ac; cx = ac_context ac in
      andThen (read (get_external_action (cx_run_id cx) (k_step_id step))) (\<lambda>found. case found of
        None \<Rightarrow> fail co cx INVALID_CODE ''Completed external-write step has no durable action.''
      | Some action \<Rightarrow>
          andThen (validate_external_action_binding ac step action None) (\<lambda>_.
          if k_status step \<noteq> tool_call_value TC_COMPLETED \<or> xa_status action \<noteq> action_value SUCCEEDED
             \<or> \<not> opt_truthy (xa_provider_reference action) \<or> xa_error_code action \<noteq> None
          then fail_restored_step co cx action INVALID_CODE ''Completed external-write step has an invalid action outcome.''
          else (case decode_tool_result step of
              Inl e \<Rightarrow> (case e of
                  ExecutionError code message \<Rightarrow> fail_restored_step co cx action code message
                | _ \<Rightarrow> raise e)
            | Inr result \<Rightarrow> (case restored_result_problem ac action result of
                Some problem \<Rightarrow> fail_restored_step co cx action INVALID_CODE problem
              | None \<Rightarrow> andThen (record_external_success_evidence co cx step result) (\<lambda>_.
                  ret \<lparr>ob_step_id = k_step_id step, ob_tool_name = k_tool_name step, ob_arguments = ac_arguments ac,
                        ob_result = result, ob_cached = True\<rparr>))))))"

definition expected_failure_code :: "action_row \<Rightarrow> string option" where
  "expected_failure_code a = (if xa_status a = action_value ACTION_FAILED then Some FAILED_CODE
     else if xa_status a = action_value OUTCOME_UNKNOWN then Some UNKNOWN_CODE else None)"

definition restore_failure :: "action_call \<Rightarrow> tool_row \<Rightarrow> 'a prog" where
  "restore_failure ac step =
     (let co = ac_co ac; cx = ac_context ac in
      andThen (read (get_external_action (cx_run_id cx) (k_step_id step))) (\<lambda>found. case found of
        None \<Rightarrow> fail co cx INVALID_CODE ''Failed external-write step has no durable action.''
      | Some action \<Rightarrow>
          andThen (validate_external_action_binding ac step action None) (\<lambda>_.
          case expected_failure_code action of
            None \<Rightarrow> fail_restored_step co cx action INVALID_CODE ''Failed external-write step has an invalid action outcome.''
          | Some code \<Rightarrow>
              if k_status step \<noteq> tool_call_value TC_FAILED \<or> k_error_code step \<noteq> Some code
                 \<or> xa_error_code action \<noteq> Some code \<or> xa_result_json action \<noteq> None \<or> k_result_json step \<noteq> None
              then fail_restored_step co cx action INVALID_CODE ''Failed external-write step has an invalid action outcome.''
              else raise_external_terminal_failure co cx step code)))"

definition handle_external_terminal :: "action_call \<Rightarrow> tool_row \<Rightarrow> action_row \<Rightarrow> observation prog" where
  "handle_external_terminal ac step action =
     (let co = ac_co ac; cx = ac_context ac in
      andThen (read (get_step (cx_run_id cx) (k_step_id step))) (\<lambda>found. case found of
        None \<Rightarrow> fail co cx INVALID_CODE ''Terminal external action lost its tool step.''
      | Some current_step \<Rightarrow>
          if xa_status action = action_value SUCCEEDED then restore_success ac current_step
          else if xa_status action = action_value ACTION_FAILED \<or> xa_status action = action_value OUTCOME_UNKNOWN
          then restore_failure ac current_step
          else fail co cx INVALID_CODE ''External action was reported terminal with a non-terminal status.''))"

section \<open>Dispatching\<close>

definition retry_call :: "action_call \<Rightarrow> tool_row \<Rightarrow> string \<Rightarrow> string \<Rightarrow> dispatch_result prog" where
  "retry_call ac step dispatch_token attempt_token = call (\<lambda>t. retry_external_action_dispatch (tk_clk t) (tk_token t)
     (cx_run_id (ac_context ac)) (k_step_id step) dispatch_token attempt_token (cx_lease_token (ac_context ac)) (tk_now t))"

definition retry_after_ambiguous_result ::
  "action_call \<Rightarrow> tool_row \<Rightarrow> action_row \<Rightarrow> string \<Rightarrow> string \<Rightarrow> (action_row \<times> string) option prog" where
  "retry_after_ambiguous_result ac step action dispatch_token attempt_token =
     (let co = ac_co ac; cx = ac_context ac in
      if ts_retry_mode (ac_spec ac) = UNSAFE \<or> co_max_dispatches co \<le> xa_dispatch_count action then ret None
      else andThen (retry_call ac step dispatch_token attempt_token) (\<lambda>retry.
        andThen (mirror_evidence cx) (\<lambda>_.
        case (dr_outcome retry, dr_dispatch_token retry) of
          (RETRY_CLAIMED, Some token) \<Rightarrow> ret (Some (dr_action retry, token))
        | (TERMINAL, _) \<Rightarrow> fail co cx INVALID_CODE ''External action became terminal during an ambiguous retry.''
        | (RETRY_UNSAFE, _) \<Rightarrow> ret None
        | (oc, _) \<Rightarrow> fail co cx INVALID_CODE (''External action retry state is invalid: '' @ dispatch_value oc @ ''.''))))"

text \<open>The provider's result with its reference, validated and free of the key; \<open>None\<close> when it cannot be trusted.\<close>

definition dict_put :: "string \<Rightarrow> json \<Rightarrow> (string \<times> json) list \<Rightarrow> (string \<times> json) list" where
  "dict_put k v kvs = (if map_of kvs k = None then kvs @ [(k, v)] else map (\<lambda>(k', v'). (k', if k' = k then v else v')) kvs)"

definition trusted_result :: "action_call \<Rightarrow> ((string \<times> json) list \<Rightarrow> (string \<times> json) list \<Rightarrow> (string \<times> json) list option)
     \<Rightarrow> provider_result \<Rightarrow> (string \<times> json) list option" where
  "trusted_result ac validate r =
     (let raw = dict_put ''provider_reference'' (JStr (rs_provider_reference r)) (rs_result r) in
      if contains_sensitive_text (JObj raw) (ac_key ac) then None
      else case validate (ac_arguments ac) raw of
          None \<Rightarrow> None
        | Some normalized \<Rightarrow> if contains_sensitive_text (JObj normalized) (ac_key ac) then None else Some normalized)"

definition settle_failure :: "action_call \<Rightarrow> tool_row \<Rightarrow> action_row \<Rightarrow> string \<Rightarrow> string \<Rightarrow> 'a prog" where
  "settle_failure ac step action dispatch_token attempt_token =
     (let co = ac_co ac; cx = ac_context ac in
      andThen (catch
        (andThen (call (\<lambda>t. finalize_external_action_failed (tk_clk t) (cx_run_id cx) (k_step_id step)
           dispatch_token attempt_token FAILED_CODE None (tk_now t))) (\<lambda>_. ret ()))
        (\<lambda>_. andThen (external_failure_was_committed cx step action dispatch_token) (\<lambda>committed.
           if committed then ret () else finalize_provider_unknown co cx step dispatch_token attempt_token))) (\<lambda>_.
      raise_external_terminal_failure co cx step FAILED_CODE))"

definition settle_success :: "action_call \<Rightarrow> tool_row \<Rightarrow> action_row \<Rightarrow> string \<Rightarrow> string \<Rightarrow> (string \<times> json) list \<Rightarrow> string \<Rightarrow> observation prog" where
  "settle_success ac step action dispatch_token attempt_token result provider_reference =
     (let co = ac_co ac; cx = ac_context ac in
      andThen (catch
        (andThen (call (\<lambda>t. finalize_external_action_succeeded (tk_clk t) (cx_run_id cx) (k_step_id step)
           dispatch_token attempt_token (canonical_text result) provider_reference None (tk_now t))) (\<lambda>_. ret ()))
        (\<lambda>_. andThen (external_success_was_committed cx step action dispatch_token (canonical_text result) provider_reference)
           (\<lambda>committed. if committed then ret () else finalize_provider_unknown co cx step dispatch_token attempt_token))) (\<lambda>_.
      andThen (record_external_success_evidence co cx step result) (\<lambda>_.
      ret \<lparr>ob_step_id = k_step_id step, ob_tool_name = k_tool_name step, ob_arguments = ac_arguments ac,
            ob_result = result, ob_cached = False\<rparr>)))"

text \<open>One provider call and what follows from its outcome; \<open>again\<close> is the rest of the loop.\<close>

definition send_request ::
  "action_call \<Rightarrow> tool_row \<Rightarrow> string \<Rightarrow> action_row \<Rightarrow> string \<Rightarrow> string \<Rightarrow> observation prog \<Rightarrow> observation prog" where
  "send_request ac step attempt_token action dispatch_token provider_name again =
     andThen (lift (external_action_request action)) (\<lambda>request.
     andThen (attempt (dispatch provider_name (ts_retry_mode (ac_spec ac)) request)) (\<lambda>outcome. case outcome of
         Inl e \<Rightarrow> if e = ProviderExn Definitive then settle_failure ac step action dispatch_token attempt_token else again
       | Inr r \<Rightarrow> (case ts_output_model (ac_spec ac) of
           None \<Rightarrow> raise AssertionError
         | Some validate \<Rightarrow> (case trusted_result ac validate r of
             None \<Rightarrow> again
           | Some result \<Rightarrow> settle_success ac step action dispatch_token attempt_token result (rs_provider_reference r)))))"

fun dispatch_external_action :: "nat \<Rightarrow> action_call \<Rightarrow> tool_row \<Rightarrow> string \<Rightarrow> action_row \<Rightarrow> string \<Rightarrow> observation prog" where
  "dispatch_external_action 0 ac step attempt_token action dispatch_token = raise OutOfFuel"
| "dispatch_external_action (Suc n) ac step attempt_token action dispatch_token =
     (case ts_provider_name (ac_spec ac) of
        None \<Rightarrow> raise AssertionError
      | Some provider_name \<Rightarrow>
          if \<not> co_dispatcher (ac_co ac) then raise AssertionError
          else andThen (configured provider_name) (\<lambda>provider.
            if map_option pv_identity provider \<noteq> Some (xa_provider_identity action)
            then finalize_reconciliation_unknown (ac_co ac) (ac_context ac) step dispatch_token attempt_token
            else send_request ac step attempt_token action dispatch_token provider_name
              (andThen (retry_after_ambiguous_result ac step action dispatch_token attempt_token) (\<lambda>retry. case retry of
                 None \<Rightarrow> finalize_provider_unknown (ac_co ac) (ac_context ac) step dispatch_token attempt_token
               | Some (action', token') \<Rightarrow> dispatch_external_action n ac step attempt_token action' token'))))"

definition dispatch_fuel :: "action_call \<Rightarrow> nat" where
  "dispatch_fuel ac = Suc (nat (co_max_dispatches (ac_co ac)))"

definition recover_external_dispatch :: "action_call \<Rightarrow> tool_row \<Rightarrow> string \<Rightarrow> action_row \<Rightarrow> observation prog" where
  "recover_external_dispatch ac step attempt_token action =
     (let co = ac_co ac; cx = ac_context ac in
      case xa_dispatch_token action of
        None \<Rightarrow> raise ReconciliationPendingError
      | Some dispatch_token \<Rightarrow>
          if ts_retry_mode (ac_spec ac) = UNSAFE then finalize_unsafe_unknown co cx step dispatch_token attempt_token
          else if co_max_dispatches co \<le> xa_dispatch_count action
          then finalize_reconciliation_unknown co cx step dispatch_token attempt_token
          else andThen (retry_call ac step dispatch_token attempt_token) (\<lambda>retry.
            andThen (mirror_evidence cx) (\<lambda>_.
            if dr_outcome retry = TERMINAL then handle_external_terminal ac step (dr_action retry)
            else case (dr_outcome retry, dr_dispatch_token retry) of
                (RETRY_CLAIMED, Some token) \<Rightarrow>
                  dispatch_external_action (dispatch_fuel ac) ac step attempt_token (dr_action retry) token
              | (oc, _) \<Rightarrow> fail co cx INVALID_CODE
                  (''Persisted external action could not be safely recovered: '' @ dispatch_value oc @ ''.''))))"

section \<open>Executing one action\<close>

definition action_intent_of :: "action_call \<Rightarrow> string \<Rightarrow> string \<Rightarrow> string \<Rightarrow> action_intent" where
  "action_intent_of ac provider_name provider_identity attempt_token =
     \<lparr>ai_run_id = cx_run_id (ac_context ac), ai_step_id = ac_step_id ac, ai_tool_attempt_token = attempt_token,
      ai_tenant_id = a_tenant_id (cx_authority (ac_context ac)), ai_subject_id = a_subject_id (cx_authority (ac_context ac)),
      ai_workflow_type = co_workflow_type (ac_co ac), ai_tool_name = ac_tool_name ac, ai_provider_name = provider_name,
      ai_provider_identity = provider_identity, ai_input_hash = ac_input_hash ac,
      ai_arguments_json = canonical_text (ac_arguments ac), ai_retry_mode = retry_value (ts_retry_mode (ac_spec ac)),
      ai_idempotency_key = ac_key ac\<rparr>"

text \<open>Claim the step, or take over the one an earlier attempt left running; \<open>Inl\<close> is a final observation.\<close>

definition claim_action_step :: "action_call \<Rightarrow> (observation + tool_row \<times> string \<times> bool) prog" where
  "claim_action_step ac =
     (let co = ac_co ac; cx = ac_context ac in
      andThen (call (\<lambda>t. claim_step (tk_clk t) (tk_id t) (tk_token t) (cx_run_id cx) (ac_step_id ac) (ac_tool_name ac)
         (ac_input_hash ac) 1 (cx_lease_token cx) (tk_now t))) (\<lambda>claim.
      if cl_outcome claim = CACHED
      then (case cl_step claim of None \<Rightarrow> raise AssertionError
        | Some step \<Rightarrow> andThen (restore_success ac step) (\<lambda>ob. ret (Inl ob)))
      else if cl_outcome claim = INPUT_MISMATCH \<or> cl_outcome claim = DEFINITION_MISMATCH
      then fail co cx INVALID_CODE ''Persisted external action identity does not match the decision.''
      else if cl_outcome claim = ALREADY_RUNNING \<or> cl_outcome claim = ATTEMPTS_EXHAUSTED
      then fail co cx ''tool_execution_failed''
        (''External action step could not be claimed: '' @ claim_value (cl_outcome claim) @ ''.'')
      else (case (cl_step claim, cl_attempt_token claim) of
          (Some step, Some attempt_token) \<Rightarrow> ret (Inr (step, attempt_token, False))
        | _ \<Rightarrow> raise AssertionError)))"

definition acquire_step :: "action_call \<Rightarrow> (observation + tool_row \<times> string \<times> bool) prog" where
  "acquire_step ac =
     (let co = ac_co ac; cx = ac_context ac in
      andThen (read (get_step (cx_run_id cx) (ac_step_id ac))) (\<lambda>existing. case existing of
          None \<Rightarrow> claim_action_step ac
        | Some step \<Rightarrow>
            if k_status step = tool_call_value TC_COMPLETED
            then andThen (restore_success ac step) (\<lambda>ob. ret (Inl ob))
            else if k_status step = tool_call_value TC_FAILED then restore_failure ac step
            else if k_status step = tool_call_value TC_RUNNING
            then (if \<not> cx_recovered_after_restart cx
                  then fail co cx ''tool_execution_failed'' ''External action is already running without a recovery boundary.''
                  else (case k_attempt_token step of
                      None \<Rightarrow> raise ReconciliationPendingError
                    | Some attempt_token \<Rightarrow> ret (Inr (step, attempt_token, True))))
            else claim_action_step ac))"

definition prepare_action :: "action_call \<Rightarrow> string \<Rightarrow> string \<Rightarrow> tool_row \<Rightarrow> string \<Rightarrow> bool \<Rightarrow> action_row prog" where
  "prepare_action ac provider_name provider_identity step attempt_token recovered_dispatch =
     (let co = ac_co ac; cx = ac_context ac in
      andThen (catch
        (call (\<lambda>t. prepare_external_action (tk_clk t) (tk_id t)
           (action_intent_of ac provider_name provider_identity attempt_token) (cx_lease_token cx) (tk_now t)))
        (\<lambda>_. if recovered_dispatch then raise ReconciliationPendingError
              else fail co cx INVALID_CODE ''External action preparation failed before dispatch.'')) (\<lambda>prepared.
      andThen (mirror_evidence cx) (\<lambda>_.
      if pr_outcome prepared = PR_IDENTITY_MISMATCH \<or> pr_outcome prepared = PR_TOOL_ATTEMPT_MISMATCH
      then andThen (case pr_action prepared of
             Some a \<Rightarrow> ret (Some a)
           | None \<Rightarrow> catch (read (get_external_action (cx_run_id cx) (ac_step_id ac))) (\<lambda>_. ret None)) (\<lambda>mismatched.
           case mismatched of
             Some a \<Rightarrow> if xa_status a = action_value DISPATCHING then fail_external_dispatch_binding co cx step a
               else fail co cx INVALID_CODE ''Persisted external action binding does not match this execution.''
           | None \<Rightarrow> fail co cx INVALID_CODE ''Persisted external action binding does not match this execution.'')
      else case pr_action prepared of
          None \<Rightarrow> raise AssertionError
        | Some action \<Rightarrow>
            andThen (validate_external_action_binding ac step action (Some provider_identity)) (\<lambda>_.
            case external_action_request action of
              Inr _ \<Rightarrow> ret action
            | Inl _ \<Rightarrow>
                if xa_status action = action_value DISPATCHING then fail_external_dispatch_binding co cx step action
                else fail co cx INVALID_CODE ''Prepared external action cannot form a provider request.''))))"

definition begin_and_dispatch :: "action_call \<Rightarrow> tool_row \<Rightarrow> string \<Rightarrow> observation prog" where
  "begin_and_dispatch ac step attempt_token =
     (let co = ac_co ac; cx = ac_context ac in
      andThen (call (\<lambda>t. begin_external_action_dispatch (tk_clk t) (tk_token t) (cx_run_id cx) (ac_step_id ac)
         attempt_token (cx_lease_token cx) (tk_now t))) (\<lambda>d.
      andThen (mirror_evidence cx) (\<lambda>_.
      if dr_outcome d = RUN_CANCELLED
      then raise (ExecutionError ''run_cancel_requested'' (failure_message co ''run_cancel_requested''))
      else if dr_outcome d = TERMINAL then handle_external_terminal ac step (dr_action d)
      else if dr_outcome d \<noteq> DISPATCH_CLAIMED
      then fail co cx ''tool_execution_failed''
        (''External action dispatch could not be claimed: '' @ dispatch_value (dr_outcome d) @ ''.'')
      else case dr_dispatch_token d of
          None \<Rightarrow> fail co cx INVALID_CODE ''Claimed external action dispatch has no token.''
        | Some token \<Rightarrow> dispatch_external_action (dispatch_fuel ac) ac step attempt_token (dr_action d) token)))"

definition advance_action :: "action_call \<Rightarrow> string \<Rightarrow> provider \<Rightarrow> tool_row \<Rightarrow> string \<Rightarrow> bool \<Rightarrow> observation prog" where
  "advance_action ac provider_name provider step attempt_token recovered_dispatch =
     andThen (prepare_action ac provider_name (pv_identity provider) step attempt_token recovered_dispatch) (\<lambda>action.
       if xa_status action = action_value PREPARED then begin_and_dispatch ac step attempt_token
       else if xa_status action = action_value DISPATCHING
       then (if \<not> recovered_dispatch
             then fail (ac_co ac) (ac_context ac) ''tool_execution_failed'' ''External action dispatch is already in progress.''
             else recover_external_dispatch ac step attempt_token action)
       else handle_external_terminal ac step action)"

definition execute_action :: "action_call \<Rightarrow> observation prog" where
  "execute_action ac =
     (let unconfigured = fail (ac_co ac) (ac_context ac) ''external_action_not_configured''
        ''External action provider is not configured.'' in
      case ts_provider_name (ac_spec ac) of
        None \<Rightarrow> unconfigured
      | Some provider_name \<Rightarrow>
          if \<not> co_dispatcher (ac_co ac) then unconfigured
          else andThen (configured provider_name) (\<lambda>found. case found of
            None \<Rightarrow> unconfigured
          | Some provider \<Rightarrow> andThen (acquire_step ac) (\<lambda>acquired. case acquired of
              Inl ob \<Rightarrow> ret ob
            | Inr (step, attempt_token, recovered_dispatch) \<Rightarrow>
                advance_action ac provider_name provider step attempt_token recovered_dispatch)))"

end
