(* ===== verification/Coordinator_Safety.thy ===== *)
theory Coordinator_Safety
  imports Action_Coordinator Workflow_Effects
begin

text \<open>
  What the coordinator's programs keep under interference and faults. Every method except the
  dispatch loop is quiet; the loop calls a provider only after a dispatch claim of its own, so
  the durable dispatch count pays for every call.
\<close>

section \<open>Quiet methods\<close>

definition quiet_hook :: "coordinator \<Rightarrow> bool" where
  "quiet_hook co \<longleftrightarrow> (\<forall>cx code detail w. sound w \<longrightarrow> follows w (snd (co_fail co cx code detail w))
     \<and> w_calls (snd (co_fail co cx code detail w)) = w_calls w \<and> fst (co_fail co cx code detail w) \<noteq> OutOfFuel)"

lemma quiet_lease_case [quiet_rules]:
  "(\<And>m. e = StoreExn (RunLeaseLostError m) \<Longrightarrow> quiet (f m)) \<Longrightarrow> quiet h \<Longrightarrow> quiet (case e of StoreExn (RunLeaseLostError m) \<Rightarrow> f m | _ \<Rightarrow> h)"
  by (auto split: exn.split store_error.split)

lemma quiet_pair_option [quiet_rules]:
  "(\<And>a b. quiet (f a b)) \<Longrightarrow> quiet h \<Longrightarrow> quiet (case (x, y) of (Some a, Some b) \<Rightarrow> f a b | _ \<Rightarrow> h)"
  by (auto split: option.split)

lemma quiet_prod [quiet_rules]: "(\<And>a b. quiet (f a b)) \<Longrightarrow> quiet (case p of (a, b) \<Rightarrow> f a b)"
  by (cases p) auto

lemma quiet_finalizers [quiet_rules]:
  "quiet (call (\<lambda>t. finalize_external_action_succeeded (clk t) run_id step_id disp att json reff err_opt (now t)))"
  "quiet (call (\<lambda>t. finalize_external_action_failed (clk t) run_id step_id disp att err ref_opt (now t)))"
  "quiet (call (\<lambda>t. finalize_external_action_outcome_unknown (clk t) run_id step_id disp att err ref_opt (now t)))"
  "quiet (call (\<lambda>t. finalize_external_action_reconciliation_unknown (clk t) run_id step_id disp att err ref_opt lease (now t)))"
  "quiet (call (\<lambda>t. finalize_unsafe_interrupted_action (clk t) run_id step_id disp att err lease (now t)))"
  by (intro quiet_ledger_call public_finalizations)+

lemma quiet_claims [quiet_rules]:
  "quiet (call (\<lambda>t. claim_step (clk t) (cid t) (tok t) run_id step_id tool h n lease (now t)))"
  "quiet (call (\<lambda>t. prepare_external_action (clk t) (cid t) intent lease (now t)))"
  "quiet (call (\<lambda>t. begin_external_action_dispatch (clk t) (tok t) run_id step_id att lease (now t)))"
  "quiet (call (\<lambda>t. retry_external_action_dispatch (clk t) (tok t) run_id step_id prev att lease (now t)))"
  by (intro quiet_ledger_call workflow_step.intros)+

lemma quiet_read_back [quiet_rules]:
  "quiet (read_back cx step)" "quiet (mirror_evidence cx)" "quiet (retry_call ac step disp att)"
  "quiet (external_success_was_committed cx step expected disp result reff)"
  "quiet (external_failure_was_committed cx step expected disp)"
  "quiet (external_outcome_unknown_was_committed cx step disp att)"
  unfolding read_back_def mirror_evidence_def external_success_was_committed_def external_failure_was_committed_def
    external_outcome_unknown_was_committed_def retry_call_def by (intro quiet_rules; simp)+

section \<open>Methods that always raise\<close>

lemma noreturn_fail [noreturn_rules]: "noreturn (fail co cx code detail)"
  by (auto simp: noreturn_def fail_def split: prod.splits)

lemma noreturn_outcomes [noreturn_rules]:
  "noreturn (fail_as co cx code detail)" "noreturn (raise_external_outcome_unknown co cx step disp att finalizer)"
  "noreturn (raise_external_terminal_failure co cx step code)" "noreturn (fail_restored_step co cx action code detail)"
  unfolding fail_as_def raise_external_outcome_unknown_def raise_external_terminal_failure_def fail_restored_step_def Let_def
  by (intro noreturn_rules)+

lemma noreturn_unknown [noreturn_rules]:
  "noreturn (finalize_provider_unknown co cx step disp att)" "noreturn (finalize_reconciliation_unknown co cx step disp att)"
  "noreturn (finalize_unsafe_unknown co cx step disp att)"
  unfolding finalize_provider_unknown_def finalize_reconciliation_unknown_def finalize_unsafe_unknown_def
  by (rule noreturn_outcomes)+

lemma noreturn_binding [noreturn_rules]: "noreturn (fail_external_dispatch_binding co cx step action)"
  by (auto simp: fail_external_dispatch_binding_def intro: noreturn_rules split: option.split)

lemma noreturn_reconcile_chosen [noreturn_rules]: "noreturn (reconcile_chosen co cx chosen)"
  unfolding reconcile_chosen_def by (intro noreturn_rules)

lemma noreturn_restore_failure [noreturn_rules]: "noreturn (restore_failure ac step)"
  unfolding restore_failure_def Let_def by (intro noreturn_rules)

lemma noreturn_settle_failure [noreturn_rules]: "noreturn (settle_failure ac step action disp att)"
  unfolding settle_failure_def Let_def by (intro noreturn_rules)

section \<open>Quiet under a quiet hook\<close>

locale hosted =
  fixes co :: coordinator
  assumes hook: "quiet_hook co"
begin

lemma quiet_fail [quiet_rules]: "quiet (fail co cx code detail)"
  using hook by (simp add: quiet_def quiet_hook_def fail_def case_prod_unfold)

lemma quiet_fail_as [quiet_rules]: "quiet (fail_as co cx code detail)"
  unfolding fail_as_def by (intro quiet_rules; simp)

lemma quiet_raise_unknown [quiet_rules]:
  "quiet finalizer \<Longrightarrow> quiet (raise_external_outcome_unknown co cx step disp att finalizer)"
  unfolding raise_external_outcome_unknown_def by (intro quiet_rules; simp)

lemma quiet_finalize_unknown [quiet_rules]:
  "quiet (finalize_provider_unknown co cx step disp att)"
  "quiet (finalize_reconciliation_unknown co cx step disp att)"
  "quiet (finalize_unsafe_unknown co cx step disp att)"
  unfolding finalize_provider_unknown_def finalize_reconciliation_unknown_def finalize_unsafe_unknown_def
  by (intro quiet_rules; simp)+

lemma quiet_fail_binding [quiet_rules]: "quiet (fail_external_dispatch_binding co cx step action)"
  unfolding fail_external_dispatch_binding_def by (intro quiet_rules; simp)

lemma quiet_reconcile_chosen [quiet_rules]: "quiet (reconcile_chosen co cx chosen)"
  unfolding reconcile_chosen_def by (intro quiet_rules; simp)

lemma quiet_reconcile [quiet_rules]:
  "quiet (reconcile_action co cx action include_terminal)"
  "quiet (reconcile_dispatched_action co cx include_terminal)"
  unfolding reconcile_action_def reconcile_dispatched_action_def Let_def by (intro quiet_rules; simp)+

lemma quiet_evidence [quiet_rules]:
  "quiet (record_external_success_evidence co cx step result)"
  "quiet (raise_external_terminal_failure co cx step code)"
  "quiet (fail_restored_step co cx action code detail)"
  unfolding record_external_success_evidence_def raise_external_terminal_failure_def fail_restored_step_def Let_def
  by (intro quiet_rules; simp)+

lemma quiet_restores [quiet_rules]:
  assumes [simp]: "ac_co ac = co"
  shows "quiet (validate_external_action_binding ac step action ident)" "quiet (restore_success ac step)"
    "quiet (restore_failure ac step)"
proof -
  show v: "quiet (validate_external_action_binding ac step action ident)" for step action ident
    unfolding validate_external_action_binding_def Let_def assms by (intro quiet_rules; simp)
  show "quiet (restore_success ac step)"
    unfolding restore_success_def Let_def assms
    by (intro quiet_rules v) (auto split: exn.split intro!: quiet_rules dest: decode_tool_result_Inl)
  show "quiet (restore_failure ac step)"
    unfolding restore_failure_def Let_def assms by (intro quiet_rules v; simp)
qed

lemma quiet_terminal [quiet_rules]:
  assumes "ac_co ac = co"
  shows "quiet (handle_external_terminal ac step action)"
  unfolding handle_external_terminal_def Let_def assms by (intro quiet_rules assms; simp)

lemma quiet_retry_after [quiet_rules]:
  assumes "ac_co ac = co"
  shows "quiet (retry_after_ambiguous_result ac step action disp att)"
  unfolding retry_after_ambiguous_result_def Let_def assms
  by (intro quiet_rules) (auto split: dispatch_outcome.split option.split intro: quiet_rules)

lemma quiet_settle [quiet_rules]:
  assumes "ac_co ac = co"
  shows "quiet (settle_failure ac step action disp att)" "quiet (settle_success ac step action disp att result reff)"
  unfolding settle_failure_def settle_success_def Let_def assms by (intro quiet_rules; simp)+

lemma quiet_acquire [quiet_rules]:
  assumes "ac_co ac = co"
  shows "quiet (claim_action_step ac)" "quiet (acquire_step ac)"
proof -
  show c: "quiet (claim_action_step ac)"
    unfolding claim_action_step_def Let_def assms by (intro quiet_rules assms; simp)
  show "quiet (acquire_step ac)"
    unfolding acquire_step_def Let_def assms by (intro quiet_rules assms c; simp)
qed

lemma quiet_prepare [quiet_rules]:
  assumes "ac_co ac = co"
  shows "quiet (prepare_action ac name ident step att recovered)"
  unfolding prepare_action_def Let_def assms by (intro quiet_rules assms; simp)

end

end
