(* ===== verification/Action_Projector.thy ===== *)
theory Action_Projector
  imports Action_Gateway Coordinator_Safety
begin

text \<open>
  The projection half of \<^verbatim>\<open>runtime_service/action_gateway_service.py\<close>: how the public
  Action resource and its event list are derived from a run record and one snapshot of the
  ledger. The run record was read before the snapshot, so it may be older. Evidence that does
  not fit together is an error before a dispatch and an unknown outcome after one.
\<close>

section \<open>Resources\<close>

datatype gateway_error =
    ActionTypeNotRegistered | DestinationNotRegistered | IdempotencyKeyReused
  | EvidenceIncomplete string | StorageRaised store_error

record action_resource =
  ar_action_id :: string
  ar_destination :: string
  ar_idempotency_key :: string
  ar_status :: gateway_status
  ar_result :: "string option"
  ar_error_code :: "string option"
  ar_error_message :: "string option"
  ar_created_at :: string
  ar_updated_at :: string
  ar_completed_at :: "string option"

record action_event =
  av_sequence :: int
  av_event_type :: string
  av_status :: evidence_status
  av_destination :: string
  av_dispatch_count :: int
  av_retry_mode :: string
  av_provider_reference :: "string option"
  av_error_code :: "string option"
  av_created_at :: string

definition PROJECTION_MESSAGES :: "(string \<times> string) list" where
  "PROJECTION_MESSAGES =
     [(''external_action_failed'', ''The external action failed definitively.''),
      (''external_action_outcome_unknown'', ''The external action outcome is unknown; do not retry with a new key.''),
      (''action_cancelled'', ''The Action was cancelled before dispatch.''),
      (''action_execution_failed'', ''The Action failed before a provider outcome existed.'')]"

definition EVENT_STATUSES :: "(string \<times> evidence_status) list" where
  "EVENT_STATUSES =
     [(''external_action.prepared'', EV_PREPARED), (''external_action.dispatch_started'', EV_DISPATCHING),
      (''external_action.succeeded'', EV_SUCCEEDED), (''external_action.failed'', EV_FAILED),
      (''external_action.outcome_unknown'', EV_OUTCOME_UNKNOWN)]"

definition resource ::
  "run_record \<Rightarrow> durable_input \<Rightarrow> gateway_status \<Rightarrow> action_row option \<Rightarrow> string option \<Rightarrow> string option \<Rightarrow> action_resource" where
  "resource run i status action result error_code =
     \<lparr>ar_action_id = r_run_id run, ar_destination = di_destination i, ar_idempotency_key = di_idempotency_key i,
      ar_status = status, ar_result = (if status = GW_SUCCEEDED then result else None), ar_error_code = error_code,
      ar_error_message = (case error_code of None \<Rightarrow> None | Some code \<Rightarrow> map_of PROJECTION_MESSAGES code),
      ar_created_at = r_created_at run,
      ar_updated_at = (case action of None \<Rightarrow> r_updated_at run | Some a \<Rightarrow> max (r_updated_at run) (xa_updated_at a)),
      ar_completed_at = (if \<not> gateway_terminal status then None
        else case action of None \<Rightarrow> r_completed_at run
          | Some a \<Rightarrow> (case xa_finalized_at a of Some t \<Rightarrow> Some t | None \<Rightarrow> r_completed_at run))\<rparr>"

section \<open>Bindings\<close>

definition validated_identity :: "digests \<Rightarrow> run_record \<Rightarrow> gateway_error + durable_input" where
  "validated_identity D run =
     (if \<not> is_action_run run then Inl (EvidenceIncomplete ''Run is not an Action resource'')
      else case persisted_action_input run of
          Inl _ \<Rightarrow> Inl (EvidenceIncomplete ''Persisted Action input is invalid'')
        | Inr i \<Rightarrow>
            if r_client_request_id run \<noteq> Some (action_client_request_id D (di_idempotency_key i))
               \<or> r_thread_id run \<noteq> action_thread_id D (r_tenant_id run) WEBHOOK_SEND (di_idempotency_key i)
            then Inl (EvidenceIncomplete ''Persisted Action identity is invalid'') else Inr i)"

definition execution_binding_matches :: "digests \<Rightarrow> run_record \<Rightarrow> durable_input \<Rightarrow> execution_row \<Rightarrow> bool" where
  "execution_binding_matches D run i x \<longleftrightarrow> x_run_id x = r_run_id run \<and> x_workflow_type x = ACTION_WORKFLOW_TYPE
     \<and> x_input_hash x = action_fingerprint D i"

definition provider_key :: "digests \<Rightarrow> run_record \<Rightarrow> string \<Rightarrow> string" where
  "provider_key D run input_hash = ''external_action_'' @ stable_hash D
     [(''tenant_id'', JStr (r_tenant_id run)), (''run_id'', JStr (r_run_id run)),
      (''workflow_type'', JStr ACTION_WORKFLOW_TYPE), (''step_id'', JStr ACTION_STEP_ID), (''tool_name'', JStr WEBHOOK_SEND),
      (''input_hash'', JStr input_hash)]"

definition action_binding_matches :: "digests \<Rightarrow> run_record \<Rightarrow> durable_input \<Rightarrow> action_row \<Rightarrow> bool" where
  "action_binding_matches D run i a =
     (let arguments = dump_webhook_input i; input_hash = stable_hash D arguments in
      case r_execution_authority run of None \<Rightarrow> False
      | Some auth \<Rightarrow> xa_run_id a = r_run_id run \<and> xa_step_id a = ACTION_STEP_ID \<and> xa_tenant_id a = r_tenant_id run
          \<and> a_tenant_id auth = r_tenant_id run
          \<and> ''tools:execute'' \<in> set (a_permissions auth) \<and> ''external-actions:execute'' \<in> set (a_permissions auth)
          \<and> xa_subject_id a = a_subject_id auth \<and> xa_workflow_type a = ACTION_WORKFLOW_TYPE
          \<and> xa_tool_name a = WEBHOOK_SEND \<and> xa_provider_name a = di_destination i \<and> identity_valid (xa_provider_identity a)
          \<and> xa_input_hash a = input_hash \<and> xa_idempotency_key a = provider_key D run input_hash
          \<and> xa_retry_mode a \<in> {retry_value PROVIDER_IDEMPOTENT, retry_value UNSAFE}
          \<and> xa_arguments_json a = canonical_text arguments)"

definition step_binding_matches :: "action_row \<Rightarrow> tool_row \<Rightarrow> bool" where
  "step_binding_matches a k \<longleftrightarrow> k_run_id k = xa_run_id a \<and> k_step_id k = xa_step_id a \<and> k_tool_name k = xa_tool_name a
     \<and> k_input_hash k = xa_input_hash a"

definition validated_success :: "action_row \<Rightarrow> tool_row option \<Rightarrow> gateway_error + string" where
  "validated_success a step =
     (if xa_dispatch_count a < 1 \<or> xa_dispatch_token a = None \<or> \<not> opt_truthy (xa_provider_reference a)
         \<or> xa_result_json a = None \<or> xa_error_code a \<noteq> None
      then Inl (EvidenceIncomplete ''Succeeded Action evidence is incomplete'')
      else case (case xa_result_json a of Some (Encoded j) \<Rightarrow> webhook_output j | _ \<Rightarrow> None) of
          None \<Rightarrow> Inl (EvidenceIncomplete ''Succeeded Action result is invalid'')
        | Some reference \<Rightarrow>
            if Some reference \<noteq> xa_provider_reference a
            then Inl (EvidenceIncomplete ''Succeeded Action provider reference is inconsistent'')
            else if (case step of None \<Rightarrow> False | Some k \<Rightarrow> \<not> step_binding_matches a k
                \<or> k_status k \<noteq> tool_call_value TC_COMPLETED \<or> k_result_json k \<noteq> xa_result_json a \<or> k_error_code k \<noteq> None)
            then Inl (EvidenceIncomplete ''Succeeded Action tool evidence is inconsistent'')
            else Inr reference)"

definition valid_failed_action :: "action_row \<Rightarrow> tool_row option \<Rightarrow> bool" where
  "valid_failed_action a step \<longleftrightarrow> 1 \<le> xa_dispatch_count a \<and> xa_dispatch_token a \<noteq> None \<and> xa_result_json a = None
     \<and> xa_error_code a = Some FAILED_CODE
     \<and> (case step of None \<Rightarrow> False | Some k \<Rightarrow> step_binding_matches a k \<and> k_status k = tool_call_value TC_FAILED
          \<and> k_result_json k = None \<and> k_error_code k = Some FAILED_CODE)"

section \<open>Projection\<close>

definition execution_terminal :: "execution_row option \<Rightarrow> bool" where
  "execution_terminal x \<longleftrightarrow> (case x of None \<Rightarrow> False
     | Some x \<Rightarrow> x_status x \<in> {workflow_value WF_READY, workflow_value WF_BLOCKED, workflow_value WF_FAILED})"

definition reconciliation_marker :: "run_record \<Rightarrow> bool" where
  "reconciliation_marker run \<longleftrightarrow> r_error_code run \<in> {Some PENDING_CODE, Some THREAD_CHECKPOINT_RECONCILIATION_BLOCKED_CODE}"

definition project_without_action ::
  "run_record \<Rightarrow> durable_input \<Rightarrow> execution_row option \<Rightarrow> gateway_error + action_resource" where
  "project_without_action run i execution = (case r_status run of
      QUEUED \<Rightarrow> Inr (resource run i GW_QUEUED None None None)
    | RUNNING \<Rightarrow> if execution_terminal execution
        then Inl (EvidenceIncomplete ''Terminal Action workflow has no external-action ledger row'')
        else Inr (resource run i GW_RUNNING None None None)
    | CANCELLED \<Rightarrow> Inr (resource run i GW_CANCELLED None None (Some ''action_cancelled''))
    | FAILED \<Rightarrow> Inr (resource run i GW_FAILED None None (Some ''action_execution_failed''))
    | COMPLETED \<Rightarrow> Inl (EvidenceIncomplete ''Completed Run has no external-action ledger row''))"

definition unknown_resource :: "run_record \<Rightarrow> durable_input \<Rightarrow> action_row option \<Rightarrow> gateway_error + action_resource" where
  "unknown_resource run i action = Inr (resource run i GW_OUTCOME_UNKNOWN action None (Some UNKNOWN_CODE))"

definition project_prepared ::
  "run_record \<Rightarrow> durable_input \<Rightarrow> action_row \<Rightarrow> tool_row option \<Rightarrow> gateway_error + action_resource" where
  "project_prepared run i a step =
     (if xa_dispatch_count a \<noteq> 0 \<or> xa_dispatch_token a \<noteq> None then unknown_resource run i (Some a)
      else if (case step of None \<Rightarrow> True | Some k \<Rightarrow> \<not> step_binding_matches a k \<or> k_status k \<noteq> tool_call_value TC_RUNNING)
      then Inl (EvidenceIncomplete ''Prepared Action tool evidence is inconsistent'')
      else case r_status run of
          CANCELLED \<Rightarrow> Inr (resource run i GW_CANCELLED (Some a) None (Some ''action_cancelled''))
        | FAILED \<Rightarrow> Inr (resource run i GW_FAILED (Some a) None (Some ''action_execution_failed''))
        | COMPLETED \<Rightarrow> Inl (EvidenceIncomplete ''Completed Run has only a prepared external action'')
        | _ \<Rightarrow> Inr (resource run i GW_RUNNING (Some a) None None))"

definition project_action ::
  "run_record \<Rightarrow> durable_input \<Rightarrow> execution_row option \<Rightarrow> action_row \<Rightarrow> tool_row option \<Rightarrow> gateway_error + action_resource" where
  "project_action run i execution a step =
     (if xa_status a = action_value SUCCEEDED
      then (case validated_success a step of Inl e \<Rightarrow> Inl e
        | Inr reference \<Rightarrow> Inr (resource run i GW_SUCCEEDED (Some a) (Some reference) None))
      else if xa_status a = action_value ACTION_FAILED
      then (if valid_failed_action a step then Inr (resource run i GW_FAILED (Some a) None (Some FAILED_CODE))
            else unknown_resource run i (Some a))
      else if xa_status a = action_value DISPATCHING
      then (if xa_dispatch_count a < 1 \<or> xa_dispatch_token a = None
               \<or> (case step of None \<Rightarrow> True | Some k \<Rightarrow> k_status k \<noteq> tool_call_value TC_RUNNING)
               \<or> is_terminal (r_status run) \<or> execution_terminal execution
            then unknown_resource run i (Some a)
            else Inr (resource run i (if reconciliation_marker run then GW_RECONCILING else GW_RUNNING) (Some a) None None))
      else if xa_status a \<noteq> action_value PREPARED
      then (if 0 < xa_dispatch_count a then unknown_resource run i (Some a)
            else Inl (EvidenceIncomplete ''Action ledger has an unknown status''))
      else project_prepared run i a step)"

text \<open>The checks on the whole snapshot, before the state of the one action decides.\<close>

definition project_snapshot ::
  "digests \<Rightarrow> run_record \<Rightarrow> durable_input \<Rightarrow> workflow_snapshot \<Rightarrow> gateway_error + action_resource" where
  "project_snapshot D run i sn =
     (let execution = sn_execution sn; actions = sn_external_actions sn in
      if 1 < length actions
      then (if \<exists>a\<in>set actions. 0 < xa_dispatch_count a then unknown_resource run i None
            else Inl (EvidenceIncomplete ''Action has multiple pre-dispatch ledger rows''))
      else let action = (case actions of [] \<Rightarrow> None | a # _ \<Rightarrow> Some a); sent = (case action of None \<Rightarrow> False | Some a \<Rightarrow> 0 < xa_dispatch_count a) in
        if execution = None \<and> action \<noteq> None
           \<or> (case execution of None \<Rightarrow> False | Some x \<Rightarrow> \<not> execution_binding_matches D run i x)
        then (if sent then unknown_resource run i action
              else Inl (EvidenceIncomplete ''Action workflow identity is inconsistent''))
        else if (case action of None \<Rightarrow> False | Some a \<Rightarrow> \<not> action_binding_matches D run i a)
        then (if sent then unknown_resource run i action
              else Inl (EvidenceIncomplete ''Prepared Action binding is inconsistent''))
        else if map_option xa_status action = Some (action_value OUTCOME_UNKNOWN) \<or> r_error_code run = Some UNKNOWN_CODE
        then unknown_resource run i action
        else case action of
            None \<Rightarrow> if reconciliation_marker run
              then Inl (EvidenceIncomplete ''Reconciliation marker has no external-action ledger row'')
              else project_without_action run i execution
          | Some a \<Rightarrow> project_action run i execution a (List.find (\<lambda>k. k_step_id k = xa_step_id a) (sn_steps sn)))"

definition project :: "digests \<Rightarrow> run_record \<Rightarrow> db \<Rightarrow> gateway_error + action_resource" where
  "project D run s = (case validated_identity D run of Inl e \<Rightarrow> Inl e
     | Inr i \<Rightarrow> (case read_run_snapshot (r_run_id run) 0 s of
         Inl e \<Rightarrow> Inl (StorageRaised e)
       | Inr sn \<Rightarrow> project_snapshot D run i sn))"

section \<open>Events\<close>

definition event_count :: "action_row \<Rightarrow> string \<Rightarrow> evidence_status \<Rightarrow> (string \<times> json) list \<Rightarrow> gateway_error + int" where
  "event_count a event_type status payload =
     (if event_type = ''external_action.prepared''
      then (if py_get payload ''retry_mode'' \<noteq> JStr (xa_retry_mode a)
            then Inl (EvidenceIncomplete ''Action prepare event retry mode is inconsistent'') else Inr 0)
      else if event_type = ''external_action.dispatch_started''
      then (case py_get payload ''dispatch_count'' of
          JInt n \<Rightarrow> if 1 \<le> n \<and> n \<le> xa_dispatch_count a then Inr n
            else Inl (EvidenceIncomplete ''Action dispatch event count is inconsistent'')
        | _ \<Rightarrow> Inl (EvidenceIncomplete ''Action dispatch event count is inconsistent''))
      else if py_get payload ''dispatch_count'' \<noteq> JInt (xa_dispatch_count a) \<or> xa_status a \<noteq> evidence_value status
      then Inl (EvidenceIncomplete ''Action outcome event is inconsistent'')
      else Inr (xa_dispatch_count a))"

definition event_outcome :: "action_row \<Rightarrow> tool_row option \<Rightarrow> evidence_status \<Rightarrow> gateway_error + string option \<times> string option" where
  "event_outcome a step status = (case status of
      EV_SUCCEEDED \<Rightarrow> (case validated_success a step of Inl e \<Rightarrow> Inl e | Inr reference \<Rightarrow> Inr (Some reference, None))
    | EV_FAILED \<Rightarrow> if valid_failed_action a step then Inr (None, Some FAILED_CODE)
        else Inl (EvidenceIncomplete ''Failed Action event has inconsistent ledger evidence'')
    | EV_OUTCOME_UNKNOWN \<Rightarrow> Inr (None, Some UNKNOWN_CODE)
    | _ \<Rightarrow> Inr (None, None))"

definition project_event ::
  "durable_input \<Rightarrow> action_row \<Rightarrow> tool_row option \<Rightarrow> run_event \<Rightarrow> evidence_status \<Rightarrow> (string \<times> json) list \<Rightarrow> gateway_error + action_event" where
  "project_event i a step e status payload =
     (if py_get payload ''action_id'' \<noteq> JStr (x_action_id a) \<or> py_get payload ''step_id'' \<noteq> JStr (xa_step_id a)
         \<or> py_get payload ''tool_name'' \<noteq> JStr (xa_tool_name a) \<or> py_get payload ''provider_name'' \<noteq> JStr (xa_provider_name a)
         \<or> py_get payload ''status'' \<noteq> JStr (evidence_value status)
      then Inl (EvidenceIncomplete ''Action event identity is inconsistent'')
      else case event_count a (e_event_type e) status payload of
          Inl err \<Rightarrow> Inl err
        | Inr n \<Rightarrow> (case event_outcome a step status of
            Inl err \<Rightarrow> Inl err
          | Inr (reference, error_code) \<Rightarrow>
              if e_event_type e \<notin> {''external_action.prepared'', ''external_action.dispatch_started''}
                 \<and> (py_get payload ''provider_reference'' \<noteq> jopt_str reference \<or> py_get payload ''error_code'' \<noteq> jopt_str error_code)
              then Inl (EvidenceIncomplete ''Action outcome event payload is inconsistent'')
              else Inr \<lparr>av_sequence = e_sequence e, av_event_type = e_event_type e, av_status = status,
                av_destination = di_destination i, av_dispatch_count = n, av_retry_mode = xa_retry_mode a,
                av_provider_reference = reference, av_error_code = error_code, av_created_at = e_created_at e\<rparr>))"

fun project_events ::
  "durable_input \<Rightarrow> action_row \<Rightarrow> tool_row option \<Rightarrow> run_event list \<Rightarrow> gateway_error + action_event list" where
  "project_events i a step [] = Inr []"
| "project_events i a step (e # es) = (case map_of EVENT_STATUSES (e_event_type e) of
      None \<Rightarrow> project_events i a step es
    | Some status \<Rightarrow> (case decode_json_object (e_payload_json e) of
        None \<Rightarrow> Inl (StorageRaised ValidationError)
      | Some payload \<Rightarrow> (case project_event i a step e status payload of
          Inl err \<Rightarrow> Inl err
        | Inr ev \<Rightarrow> (case project_events i a step es of Inl err \<Rightarrow> Inl err | Inr evs \<Rightarrow> Inr (ev # evs)))))"

definition list_action_events :: "digests \<Rightarrow> run_record \<Rightarrow> int \<Rightarrow> db \<Rightarrow> gateway_error + action_event list" where
  "list_action_events D run after_sequence s = (case validated_identity D run of Inl e \<Rightarrow> Inl e
     | Inr i \<Rightarrow> (case read_run_snapshot (r_run_id run) after_sequence s of
         Inl e \<Rightarrow> Inl (StorageRaised e)
       | Inr sn \<Rightarrow> (case sn_external_actions sn of
           [] \<Rightarrow> Inr []
         | [a] \<Rightarrow>
             if (case sn_execution sn of None \<Rightarrow> True | Some x \<Rightarrow> \<not> execution_binding_matches D run i x)
             then Inl (EvidenceIncomplete ''Action event workflow is inconsistent'')
             else if \<not> action_binding_matches D run i a
             then Inl (EvidenceIncomplete ''Action event binding is inconsistent'')
             else project_events i a (List.find (\<lambda>k. k_step_id k = xa_step_id a) (sn_steps sn)) (sn_events sn)
         | _ \<Rightarrow> Inl (EvidenceIncomplete ''Action event ledger is not single-step''))))"

end
