(* ===== verification/Coordinator_Dispatch.thy ===== *)
theory Coordinator_Dispatch
  imports Coordinator_Safety
begin

text \<open>
  The dispatch loop: every provider call is paid for by an increment of the durable dispatch
  count, all calls carry the request of the stored intent, and the loop ends within the bound
  the configuration sets.
\<close>

section \<open>Durable counts and snapshots\<close>

definition dispatches :: "string \<Rightarrow> string \<Rightarrow> db \<Rightarrow> int" where
  "dispatches run_id step_id s = (case select_action run_id step_id s of None \<Rightarrow> 0 | Some a \<Rightarrow> xa_dispatch_count a)"

text \<open>A row a worker read earlier: the stored one has evolved from it.\<close>

definition snapshot :: "string \<Rightarrow> string \<Rightarrow> action_row \<Rightarrow> db \<Rightarrow> bool" where
  "snapshot run_id step_id a s \<longleftrightarrow> (\<exists>a'. select_action run_id step_id s = Some a' \<and> action_evolves a a')"

lemma later_action:
  assumes "later s t" and "store_reachable s" and "select_action run_id step_id s = Some a"
  obtains a' where "select_action run_id step_id t = Some a'" "action_evolves a a'"
  using later_wf_evolves [OF assms(1,2)] assms(3) unfolding wf_evolves_def by blast

lemma action_count_nonneg: "store_reachable s \<Longrightarrow> select_action run_id step_id s = Some a \<Longrightarrow> 0 \<le> xa_dispatch_count a"
  by (auto dest!: reachable_wf_inv select_action_SomeD simp: wf_inv_def action_ok_def)

lemma dispatches_later:
  assumes "later s t" and "store_reachable s"
  shows "dispatches run_id step_id s \<le> dispatches run_id step_id t"
proof (cases "select_action run_id step_id s")
  case None
  then show ?thesis using action_count_nonneg [OF reachable_later [OF assms]] by (simp add: dispatches_def split: option.split)
next
  case (Some a)
  from later_action [OF assms Some] obtain a' where "select_action run_id step_id t = Some a'" "action_evolves a a'" .
  with Some show ?thesis by (simp add: dispatches_def action_evolves_def)
qed

lemma snapshot_later: "snapshot run_id step_id a s \<Longrightarrow> later s t \<Longrightarrow> store_reachable s \<Longrightarrow> snapshot run_id step_id a t"
  unfolding snapshot_def by (blast elim: later_action intro: action_evolves_trans)

lemma dispatches_follows: "follows w w' \<Longrightarrow> sound w \<Longrightarrow> dispatches run_id step_id (w_db w) \<le> dispatches run_id step_id (w_db w')"
  by (simp add: follows_def sound_def dispatches_later)

lemma snapshot_follows: "snapshot run_id step_id a (w_db w) \<Longrightarrow> follows w w' \<Longrightarrow> sound w \<Longrightarrow> snapshot run_id step_id a (w_db w')"
  by (simp add: follows_def sound_def snapshot_later)

lemma dispatched_evolves: "\<not> terminal_action_status (xa_status a) \<Longrightarrow> action_evolves a (dispatched clk token a)"
  by (simp add: action_evolves_def same_identity_def dispatched_def action_key_def)

lemma request_identity: "same_identity a a' \<Longrightarrow> external_action_request a' = external_action_request a"
  unfolding same_identity_def action_key_def
  by (elim conjE) (simp add: external_action_request_def Let_def split: json_text.split json.split)

lemma action_value_nonterminal [simp]:
  "\<not> terminal_action_status (action_value DISPATCHING)" "\<not> terminal_action_status (action_value PREPARED)"
  by (simp_all add: terminal_action_status_def)

section \<open>Claims\<close>

lemma retry_claimed:
  assumes "retry_call ac step disp att w = (Inr d, w')" and w: "sound w" and "dr_outcome d = RETRY_CLAIMED"
  shows "dispatches (cx_run_id (ac_context ac)) (k_step_id step) (w_db w) + 1
      \<le> dispatches (cx_run_id (ac_context ac)) (k_step_id step) (w_db w')"
    and "select_action (cx_run_id (ac_context ac)) (k_step_id step) (w_db w') = Some (dr_action d)"
    and "snapshot (cx_run_id (ac_context ac)) (k_step_id step) action (w_db w) \<Longrightarrow>
      same_identity action (dr_action d) \<and> xa_dispatch_count action + 1 \<le> xa_dispatch_count (dr_action d)"
proof -
  let ?run = "cx_run_id (ac_context ac)" and ?sid = "k_step_id step"
  from assms(1) obtain s where s: "later (w_db w) s" "store_reachable s"
    and op: "retry_external_action_dispatch (tk_clk (w_ticks w (w_time w))) (tk_token (w_ticks w (w_time w))) ?run ?sid disp att
       (cx_lease_token (ac_context ac)) (tk_now (w_ticks w (w_time w))) s = (Inr d, w_db w')"
    unfolding retry_call_def by (rule call_InrE [OF _ w])
  from retry_dispatch_effect [OF reachable_wf_inv [OF s(2)] op] assms(3)
  obtain a where a: "select_action ?run ?sid s = Some a" "xa_status a = action_value DISPATCHING"
    and d: "dr_action d = dispatched (tk_clk (w_ticks w (w_time w))) (tk_token (w_ticks w (w_time w))) a"
    and after: "select_action ?run ?sid (w_db w') = Some (dr_action d)" by auto
  show "select_action ?run ?sid (w_db w') = Some (dr_action d)" by (fact after)
  from dispatches_later [OF s(1), of ?run ?sid] w a(1) d after
  show "dispatches ?run ?sid (w_db w) + 1 \<le> dispatches ?run ?sid (w_db w')"
    by (simp add: dispatches_def dispatched_def sound_def)
  show "same_identity action (dr_action d) \<and> xa_dispatch_count action + 1 \<le> xa_dispatch_count (dr_action d)"
    if snap: "snapshot ?run ?sid action (w_db w)"
  proof -
    from snapshot_later [OF snap s(1)] w a(1) have ev: "action_evolves action a" by (auto simp: snapshot_def sound_def)
    have "same_identity a (dr_action d)" by (simp add: d same_identity_def dispatched_def action_key_def)
    with ev show ?thesis unfolding action_evolves_def by (auto simp: d dispatched_def intro: same_identity_trans)
  qed
qed

lemma begin_claimed:
  assumes "call (\<lambda>t. begin_external_action_dispatch (clk t) (tok t) run_id step_id att lease (now t)) w = (Inr d, w')"
    and w: "sound w" and "dr_outcome d = DISPATCH_CLAIMED"
  shows "dispatches run_id step_id (w_db w) + 1 \<le> dispatches run_id step_id (w_db w')"
    and "select_action run_id step_id (w_db w') = Some (dr_action d)"
proof -
  from assms(1) obtain s t where s: "later (w_db w) s" "store_reachable s"
    and op: "begin_external_action_dispatch (clk t) (tok t) run_id step_id att lease (now t) s = (Inr d, w_db w')"
    by (rule call_InrE [OF _ w]) auto
  from begin_dispatch_effect [OF reachable_wf_inv [OF s(2)] op] assms(3)
  obtain a where a: "select_action run_id step_id s = Some a" and d: "dr_action d = dispatched (clk t) (tok t) a"
    and after: "select_action run_id step_id (w_db w') = Some (dr_action d)" by auto
  show "select_action run_id step_id (w_db w') = Some (dr_action d)" by (fact after)
  from dispatches_later [OF s(1), of run_id step_id] w a(1) d after
  show "dispatches run_id step_id (w_db w) + 1 \<le> dispatches run_id step_id (w_db w')"
    by (simp add: dispatches_def dispatched_def sound_def)
qed

section \<open>The dispatch loop\<close>

text \<open>
  From one world to another a worker made calls, all with the request of the action, and at most
  \<open>n\<close> more than it claimed dispatches meanwhile.
\<close>

definition paid :: "string \<Rightarrow> string \<Rightarrow> action_row \<Rightarrow> int \<Rightarrow> world \<Rightarrow> world \<Rightarrow> bool" where
  "paid run_id step_id action n w w' \<longleftrightarrow> follows w w' \<and> (\<exists>calls. w_calls w' = w_calls w @ calls
     \<and> int (length calls) \<le> n + dispatches run_id step_id (w_db w') - dispatches run_id step_id (w_db w)
     \<and> (\<forall>q\<in>set calls. external_action_request action = Inr q))"

lemma paid_quiet: "quiet m \<Longrightarrow> m w = (r, w') \<Longrightarrow> sound w \<Longrightarrow> 0 \<le> n \<Longrightarrow> paid run_id step_id action n w w'"
  using quietD [of m w r w'] dispatches_follows [of w w' run_id step_id] by (fastforce simp: paid_def)

lemma paid_trans:
  assumes "paid run_id step_id action n w w'" and "paid run_id step_id action' k w' w''"
    and "external_action_request action' = external_action_request action"
  shows "paid run_id step_id action (n + k) w w''"
proof -
  from assms(1) obtain c where c: "follows w w'" "w_calls w' = w_calls w @ c"
    "int (length c) \<le> n + dispatches run_id step_id (w_db w') - dispatches run_id step_id (w_db w)"
    "\<forall>q\<in>set c. external_action_request action = Inr q" by (auto simp: paid_def)
  from assms(2,3) obtain c' where c': "follows w' w''" "w_calls w'' = w_calls w' @ c'"
    "int (length c') \<le> k + dispatches run_id step_id (w_db w'') - dispatches run_id step_id (w_db w')"
    "\<forall>q\<in>set c'. external_action_request action = Inr q" by (auto simp: paid_def)
  from follows_trans [OF c(1) c'(1)] c c' show ?thesis
    unfolding paid_def by (intro conjI exI [of _ "c @ c'"]) auto
qed

lemma paid_sound: "paid run_id step_id action n w w' \<Longrightarrow> sound w \<Longrightarrow> sound w'"
  by (auto simp: paid_def intro: follows_sound)

lemma paid_snapshot: "paid run_id step_id action n w w' \<Longrightarrow> sound w \<Longrightarrow> snapshot i j a (w_db w) \<Longrightarrow> snapshot i j a (w_db w')"
  by (auto simp: paid_def intro: snapshot_follows)

lemma paid_mono: "paid run_id step_id action n w w' \<Longrightarrow> n \<le> k \<Longrightarrow> paid run_id step_id action k w w'"
  unfolding paid_def by force

lemma paid_claim:
  "quiet m \<Longrightarrow> m w = (r, w') \<Longrightarrow> sound w \<Longrightarrow> dispatches run_id step_id (w_db w) + 1 \<le> dispatches run_id step_id (w_db w')
    \<Longrightarrow> paid run_id step_id action (- 1) w w'"
  using quietD [of m w r w'] by (auto simp: paid_def)

lemma paid_dispatch:
  assumes "dispatch name mode q w = (r, w')" and "external_action_request action = Inr q"
  shows "paid run_id step_id action 1 w w'"
  using dispatchD [OF assms(1)] assms(2) by (auto simp: paid_def follows_def tx_start)

context hosted
begin

lemma retry_after_claims:
  assumes ac: "ac_co ac = co" and "retry_after_ambiguous_result ac step action disp att w = (Inr (Some (a', tok)), w')"
    and w: "sound w" and "snapshot (cx_run_id (ac_context ac)) (k_step_id step) action (w_db w)"
  shows "dispatches (cx_run_id (ac_context ac)) (k_step_id step) (w_db w) + 1
      \<le> dispatches (cx_run_id (ac_context ac)) (k_step_id step) (w_db w')"
    and "snapshot (cx_run_id (ac_context ac)) (k_step_id step) a' (w_db w')"
    and "same_identity action a'" and "xa_dispatch_count action + 1 \<le> xa_dispatch_count a'"
    and "xa_dispatch_count action < co_max_dispatches co"
proof -
  let ?run = "cx_run_id (ac_context ac)" and ?sid = "k_step_id step"
  from assms(2) obtain d w1 w2 where max: "xa_dispatch_count action < co_max_dispatches co"
    and d: "retry_call ac step disp att w = (Inr d, w1)" and m: "mirror_evidence (ac_context ac) w1 = (Inr (), w2)"
    and k: "(case (dr_outcome d, dr_dispatch_token d) of
          (RETRY_CLAIMED, Some token) \<Rightarrow> ret (Some (dr_action d, token))
        | (TERMINAL, _) \<Rightarrow> fail co (ac_context ac) INVALID_CODE ''External action became terminal during an ambiguous retry.''
        | (RETRY_UNSAFE, _) \<Rightarrow> ret None
        | (oc, _) \<Rightarrow> fail co (ac_context ac) INVALID_CODE (''External action retry state is invalid: '' @ dispatch_value oc @ ''.'')) w2
       = (Inr (Some (a', tok)), w')"
    by (auto simp: retry_after_ambiguous_result_def Let_def ac elim!: andThenE split: if_splits)
  from k have oc: "dr_outcome d = RETRY_CLAIMED" "dr_action d = a'" "w' = w2"
    by (auto simp: fail_def split: dispatch_outcome.splits option.splits prod.splits)
  have w1: "sound w1" by (rule quietD(3) [OF quiet_read_back(3) d w])
  have f: "follows w1 w'" using quietD(1) [OF quiet_read_back(2) m w1] oc by simp
  note c = retry_claimed(1,2) [OF d w oc(1)] and c' = retry_claimed(3) [OF d w oc(1) assms(4)]
  from c(1) dispatches_follows [OF f w1, of ?run ?sid] show "dispatches ?run ?sid (w_db w) + 1 \<le> dispatches ?run ?sid (w_db w')"
    by simp
  from c(2) oc(2) have "snapshot ?run ?sid a' (w_db w1)" by (simp add: snapshot_def)
  from snapshot_follows [OF this f w1] show "snapshot ?run ?sid a' (w_db w')" .
  from c' oc(2) show "same_identity action a'" "xa_dispatch_count action + 1 \<le> xa_dispatch_count a'" by simp_all
  from max show "xa_dispatch_count action < co_max_dispatches co" .
qed

lemma again_paid:
  assumes ac: "ac_co ac = co" and w: "sound w"
    and snap: "snapshot (cx_run_id (ac_context ac)) (k_step_id step) action (w_db w)"
    and run: "andThen (retry_after_ambiguous_result ac step action disp att) (\<lambda>retry. case retry of
        None \<Rightarrow> finalize_provider_unknown co (ac_context ac) step disp att
      | Some (action', token') \<Rightarrow> loop action' token') w = (r, w')"
    and loop: "\<And>action' token' w1. sound w1 \<Longrightarrow> snapshot (cx_run_id (ac_context ac)) (k_step_id step) action' (w_db w1) \<Longrightarrow>
        xa_dispatch_count action + 1 \<le> xa_dispatch_count action' \<Longrightarrow> xa_dispatch_count action < co_max_dispatches co \<Longrightarrow>
        loop action' token' w1 = (r, w') \<Longrightarrow>
        paid (cx_run_id (ac_context ac)) (k_step_id step) action' 1 w1 w' \<and> r \<noteq> Inl OutOfFuel"
  shows "paid (cx_run_id (ac_context ac)) (k_step_id step) action 0 w w' \<and> r \<noteq> Inl OutOfFuel"
  using run
proof (cases rule: andThenE)
  case (raises e)
  with quietD(4) [OF quiet_retry_after [OF ac] raises(1) w] show ?thesis
    by (auto intro: paid_quiet [OF quiet_retry_after [OF ac] _ w])
next
  case (continues retry w1)
  have w1: "sound w1" by (rule quietD(3) [OF quiet_retry_after [OF ac] continues(1) w])
  show ?thesis
  proof (cases retry)
    case None
    with continues(2) have k: "finalize_provider_unknown co (ac_context ac) step disp att w1 = (r, w')" by simp
    from paid_trans [OF paid_quiet [OF quiet_retry_after [OF ac] continues(1) w, of 0] paid_quiet [OF quiet_finalize_unknown(1) k w1, of 0]]
      quietD(4) [OF quiet_finalize_unknown(1) k w1]
    show ?thesis by simp
  next
    case (Some p)
    obtain a' tok where p: "p = (a', tok)" by fastforce
    with Some continues have r1: "retry_after_ambiguous_result ac step action disp att w = (Inr (Some (a', tok)), w1)"
      and r2: "loop a' tok w1 = (r, w')" by simp_all
    note c = retry_after_claims [OF ac r1 w snap]
    from paid_claim [OF quiet_retry_after [OF ac] r1 w c(1), where action = action]
    have 1: "paid (cx_run_id (ac_context ac)) (k_step_id step) action (- 1) w w1" .
    from loop [OF w1 c(2,4,5) r2] have 2: "paid (cx_run_id (ac_context ac)) (k_step_id step) a' 1 w1 w'" "r \<noteq> Inl OutOfFuel"
      by simp_all
    from paid_trans [OF 1 2(1) request_identity [OF c(3)]] 2(2) show ?thesis by simp
  qed
qed

lemma send_request_paid:
  assumes ac: "ac_co ac = co" and w: "sound w"
    and run: "send_request ac step att action disp name again w = (r, w')"
    and rest: "\<And>w1. sound w1 \<Longrightarrow> (\<And>i j a. snapshot i j a (w_db w) \<Longrightarrow> snapshot i j a (w_db w1)) \<Longrightarrow> again w1 = (r, w') \<Longrightarrow>
       paid run_id step_id action 0 w1 w' \<and> r \<noteq> Inl OutOfFuel"
  shows "paid run_id step_id action 1 w w' \<and> r \<noteq> Inl OutOfFuel"
proof (cases "external_action_request action")
  case (Inl e)
  with run have "r = Inl e" "w' = w" by (simp_all add: send_request_def andThen_def lift_def raise_def)
  moreover have "e \<noteq> OutOfFuel" using Inl
    by (auto simp: external_action_request_def Let_def split: json_text.splits json.splits if_splits)
  ultimately show ?thesis by (simp add: paid_def follows_refl)
next
  case (Inr q)
  obtain outcome w2 where d: "dispatch name (ts_retry_mode (ac_spec ac)) q w = (outcome, w2)" by fastforce
  have pd: "paid run_id step_id action 1 w w2" by (rule paid_dispatch [OF d Inr])
  note w2 = paid_sound [OF pd w] and snap = paid_snapshot [OF pd w]
  have att: "attempt (dispatch name (ts_retry_mode (ac_spec ac)) q) w = (Inr outcome, w2)"
    using d dispatchD(4) [OF d] by (auto simp: attempt_def split: sum.split)
  have fin: ?thesis if "quiet m" "m w2 = (r, w')" for m :: "observation prog"
    using paid_trans [OF pd paid_quiet [OF that w2, of 0]] quietD(4) [OF that w2] by simp
  have more: ?thesis if "again w2 = (r, w')"
    using rest [OF w2 snap that] paid_trans [OF pd, of action 0 w'] by simp
  from run Inr att
  have "(case outcome of
      Inl e \<Rightarrow> if e = ProviderExn Definitive then settle_failure ac step action disp att else again
    | Inr x \<Rightarrow> (case ts_output_model (ac_spec ac) of
        None \<Rightarrow> raise AssertionError
      | Some validate \<Rightarrow> (case trusted_result ac validate x of
          None \<Rightarrow> again
        | Some result \<Rightarrow> settle_success ac step action disp att result (rs_provider_reference x)))) w2 = (r, w')"
    by (simp add: send_request_def andThen_def lift_def ret_def)
  then show ?thesis
    using fin [OF quiet_settle(1) [OF ac]] fin [OF quiet_settle(2) [OF ac]] fin [OF quiet_raise [of AssertionError]] more
    by (auto split: sum.splits option.splits if_splits)
qed

lemma dispatch_round:
  assumes ac: "ac_co ac = co" and w: "sound w"
    and snap: "snapshot (cx_run_id (ac_context ac)) (k_step_id step) action (w_db w)"
    and run: "dispatch_external_action (Suc n) ac step att action disp w = (r, w')"
    and loop: "\<And>action' token' w1. sound w1 \<Longrightarrow> snapshot (cx_run_id (ac_context ac)) (k_step_id step) action' (w_db w1) \<Longrightarrow>
        xa_dispatch_count action + 1 \<le> xa_dispatch_count action' \<Longrightarrow> xa_dispatch_count action < co_max_dispatches co \<Longrightarrow>
        dispatch_external_action n ac step att action' token' w1 = (r, w') \<Longrightarrow>
        paid (cx_run_id (ac_context ac)) (k_step_id step) action' 1 w1 w' \<and> r \<noteq> Inl OutOfFuel"
  shows "paid (cx_run_id (ac_context ac)) (k_step_id step) action 1 w w' \<and> r \<noteq> Inl OutOfFuel" (is "?paid 1 w w' \<and> _")
proof -
  have fin: ?thesis if "quiet m" "m w = (r, w')" for m :: "observation prog"
    using paid_quiet [OF that w, of 1] quietD(4) [OF that w] by simp
  consider (off) "ts_provider_name (ac_spec ac) = None \<or> \<not> co_dispatcher co"
    | (on) name where "ts_provider_name (ac_spec ac) = Some name" "co_dispatcher co" by fastforce
  then show ?thesis
  proof cases
    case off
    with run ac have "raise AssertionError w = (r, w')" by (auto split: option.splits)
    from fin [OF quiet_raise this] show ?thesis by simp
  next
    case (on name)
    obtain provider w1 where p: "configured name w = (Inr provider, w1)" by (simp add: configured_def)
    note w1 = quietD(3) [OF quiet_configured p w]
    have pc: "?paid 0 w w1" by (rule paid_quiet [OF quiet_configured p w]) simp
    show ?thesis
    proof (cases "map_option pv_identity provider = Some (xa_provider_identity action)")
      case False
      with run on ac p have k: "finalize_reconciliation_unknown co (ac_context ac) step disp att w1 = (r, w')"
        by (simp add: andThen_def)
      from paid_trans [OF pc paid_quiet [OF quiet_finalize_unknown(2) k w1, of 1]] quietD(4) [OF quiet_finalize_unknown(2) k w1]
      show ?thesis by simp
    next
      case True
      with run on ac p have k: "send_request ac step att action disp name
          (andThen (retry_after_ambiguous_result ac step action disp att) (\<lambda>retry. case retry of
             None \<Rightarrow> finalize_provider_unknown co (ac_context ac) step disp att
           | Some (action', token') \<Rightarrow> dispatch_external_action n ac step att action' token')) w1 = (r, w')"
        by (auto simp: andThen_def)
      have "?paid 1 w1 w' \<and> r \<noteq> Inl OutOfFuel"
        by (rule send_request_paid [OF ac w1 k]) (rule again_paid [OF ac _ _ _ loop], auto intro: paid_snapshot [OF pc w snap])
      with paid_trans [OF pc, of action 1 w'] show ?thesis by simp
    qed
  qed
qed

lemma dispatch_loop:
  assumes ac: "ac_co ac = co"
  shows "sound w \<Longrightarrow> snapshot (cx_run_id (ac_context ac)) (k_step_id step) action (w_db w) \<Longrightarrow>
    co_max_dispatches co \<le> xa_dispatch_count action + int n \<Longrightarrow>
    dispatch_external_action (Suc n) ac step att action disp w = (r, w') \<Longrightarrow>
    paid (cx_run_id (ac_context ac)) (k_step_id step) action 1 w w' \<and> r \<noteq> Inl OutOfFuel"
proof (induction n arbitrary: action disp w)
  case (0 action disp w)
  from 0(3) show ?case by (intro dispatch_round [OF ac 0(1,2,4)]) simp
next
  case (Suc n action disp w)
  show ?case by (rule dispatch_round [OF ac Suc.prems(1,2,4)]) (rule Suc.IH, use Suc.prems(3) in auto)
qed

end

section \<open>One execution\<close>

text \<open>
  What an execution leaves behind: at most as many provider calls as dispatches were claimed,
  each with the request of the action as it is stored at the end.
\<close>

definition accounted :: "string \<Rightarrow> string \<Rightarrow> world \<Rightarrow> world \<Rightarrow> bool" where
  "accounted run_id step_id w w' \<longleftrightarrow> follows w w' \<and> (\<exists>calls. w_calls w' = w_calls w @ calls
     \<and> int (length calls) \<le> dispatches run_id step_id (w_db w') - dispatches run_id step_id (w_db w)
     \<and> (\<forall>q\<in>set calls. \<exists>a. select_action run_id step_id (w_db w') = Some a \<and> external_action_request a = Inr q))"

lemma paid_accounted:
  assumes "paid run_id step_id action 0 w w'" and "snapshot run_id step_id action (w_db w')"
  shows "accounted run_id step_id w w'"
proof -
  from assms(2) obtain a where "select_action run_id step_id (w_db w') = Some a" "external_action_request a = external_action_request action"
    by (auto simp: snapshot_def action_evolves_def dest: request_identity)
  with assms(1) show ?thesis by (fastforce simp: paid_def accounted_def)
qed

lemma accounted_quiet: "quiet m \<Longrightarrow> m w = (r, w') \<Longrightarrow> sound w \<Longrightarrow> accounted run_id step_id w w'"
  using quietD [of m w r w'] dispatches_follows [of w w' run_id step_id] by (fastforce simp: accounted_def)

lemma accounted_after:
  assumes "quiet m" and "m w = (x, w1)" and "sound w" and "accounted run_id step_id w1 w'"
  shows "accounted run_id step_id w w'"
  using quietD [OF assms(1-3)] assms(4) dispatches_follows [of w w1 run_id step_id] assms(3)
  by (fastforce simp: accounted_def intro: follows_trans)

text \<open>A quiet program first, then a continuation that accounts for itself.\<close>

lemma accounted_andThen:
  assumes "quiet m" and "sound w" and "andThen m f w = (r, w')"
    and "\<And>x w1. m w = (Inr x, w1) \<Longrightarrow> sound w1 \<Longrightarrow> f x w1 = (r, w') \<Longrightarrow> accounted run_id step_id w1 w' \<and> r \<noteq> Inl OutOfFuel"
  shows "accounted run_id step_id w w' \<and> r \<noteq> Inl OutOfFuel"
  using assms(3)
proof (cases rule: andThenE)
  case (raises e)
  with accounted_quiet [OF assms(1) raises(1) assms(2)] quietD(4) [OF assms(1) raises(1) assms(2)] show ?thesis by simp
next
  case (continues x w1)
  from assms(4) [OF continues(1) quietD(3) [OF assms(1) continues(1) assms(2)] continues(2)]
  show ?thesis using accounted_after [OF assms(1) continues(1) assms(2)] by blast
qed

lemma get_step_key: "get_step run_id step_id s = Inr (Some k) \<Longrightarrow> k_run_id k = run_id \<and> k_step_id k = step_id"
  by (auto simp: get_step_def step_key_def split: option.splits sum.splits dest!: select_step_SomeD row_to_step_InrD)

lemma claimed_step_key:
  assumes "call (\<lambda>t. claim_step (clk t) (cid t) (tok t) run_id step_id tool h n lease (now t)) w = (Inr c, w')" and "sound w"
    and "cl_step c = Some k"
  shows "k_run_id k = run_id \<and> k_step_id k = step_id"
proof -
  from assms(1) obtain s t where s: "store_reachable s"
    and op: "claim_step (clk t) (cid t) (tok t) run_id step_id tool h n lease (now t) s = (Inr c, w_db w')"
    by (rule call_InrE [OF _ assms(2)]) auto
  from claim_step_effect [OF reachable_wf_inv [OF s] op] assms(3) show ?thesis
    by (auto simp: step_claimed_def step_key_def split: if_splits dest!: select_step_SomeD)
qed

lemma claimed_key:
  assumes "claim_action_step ac w = (Inr (Inr (step, att, recovered)), w')" and w: "sound w"
  shows "k_run_id step = cx_run_id (ac_context ac) \<and> k_step_id step = ac_step_id ac"
  using assms(1) unfolding claim_action_step_def Let_def
proof (cases rule: andThenE)
  case (continues claim w1)
  from continues(2) have "cl_step claim = Some step"
    by (auto split: option.splits if_splits elim!: andThenE noreturnD [OF noreturn_fail])
  with claimed_step_key [OF continues(1) w] show ?thesis by simp
qed simp

lemma acquired_key:
  assumes "acquire_step ac w = (Inr (Inr (step, att, recovered)), w')" and w: "sound w"
  shows "k_run_id step = cx_run_id (ac_context ac) \<and> k_step_id step = ac_step_id ac"
  using assms(1) unfolding acquire_step_def Let_def
proof (cases rule: andThenE)
  case (continues existing w1)
  have w1: "sound w1" by (rule quietD(3) [OF quiet_read continues(1) w])
  from continues(1) have ex: "get_step (cx_run_id (ac_context ac)) (ac_step_id ac) (w_db w1) = Inr existing"
    by (rule read_InrE [OF _ w])
  from continues(2) consider "claim_action_step ac w1 = (Inr (Inr (step, att, recovered)), w')" | "existing = Some step"
    by (auto split: option.splits if_splits elim!: andThenE noreturnD [OF noreturn_fail] noreturnD [OF noreturn_restore_failure])
  then show ?thesis
  proof cases
    case 1
    then show ?thesis by (rule claimed_key [OF _ w1])
  next
    case 2
    with ex show ?thesis by (simp add: get_step_key)
  qed
qed simp

context hosted
begin

lemma dispatch_accounted:
  assumes ac: "ac_co ac = co" and "quiet m" and "m w = (x, w1)" and w: "sound w"
    and claim: "dispatches (cx_run_id (ac_context ac)) (k_step_id step) (w_db w) + 1
        \<le> dispatches (cx_run_id (ac_context ac)) (k_step_id step) (w_db w1)"
    and a: "select_action (cx_run_id (ac_context ac)) (k_step_id step) (w_db w1) = Some action"
    and "quiet m'" and "m' w1 = (y, w2)" and "dispatch_external_action (dispatch_fuel ac) ac step att action disp w2 = (r, w')"
  shows "accounted (cx_run_id (ac_context ac)) (k_step_id step) w w' \<and> r \<noteq> Inl OutOfFuel"
proof -
  let ?run = "cx_run_id (ac_context ac)" and ?sid = "k_step_id step"
  note q1 = quietD [OF assms(2,3) w]
  note q2 = quietD [OF assms(7,8) q1(3)]
  have 1: "paid ?run ?sid action (- 1) w w1" by (rule paid_claim [OF assms(2,3) w claim])
  have 2: "paid ?run ?sid action 0 w1 w2" by (rule paid_quiet [OF assms(7,8) q1(3)]) simp
  have snap: "snapshot ?run ?sid action (w_db w1)" using a by (simp add: snapshot_def)
  have "0 \<le> xa_dispatch_count action" using action_count_nonneg [OF _ a] q1(3) by (simp add: sound_def)
  then have fuel: "co_max_dispatches co \<le> xa_dispatch_count action + int (nat (co_max_dispatches co))" by simp
  from dispatch_loop [OF ac q2(3) snapshot_follows [OF snap q2(1) q1(3)] fuel] assms(9) ac
  have 3: "paid ?run ?sid action 1 w2 w'" "r \<noteq> Inl OutOfFuel" by (auto simp: dispatch_fuel_def)
  have "paid ?run ?sid action 0 w w'" using paid_trans [OF paid_trans [OF 1 2] 3(1)] by simp
  moreover have "snapshot ?run ?sid action (w_db w')"
    using paid_snapshot [OF 3(1) q2(3) snapshot_follows [OF snap q2(1) q1(3)]] .
  ultimately show ?thesis using paid_accounted 3(2) by blast
qed

lemma accounted_done: "quiet m \<Longrightarrow> m w = (r, w') \<Longrightarrow> sound w \<Longrightarrow> accounted run_id step_id w w' \<and> r \<noteq> Inl OutOfFuel"
  using accounted_quiet quietD(4) by blast

lemma begin_accounted:
  assumes ac: "ac_co ac = co" and sid: "k_step_id step = ac_step_id ac" and w: "sound w"
    and "begin_and_dispatch ac step att w = (r, w')"
  shows "accounted (cx_run_id (ac_context ac)) (ac_step_id ac) w w' \<and> r \<noteq> Inl OutOfFuel"
  using assms(4) unfolding begin_and_dispatch_def Let_def ac
proof (cases rule: andThenE)
  case (raises e)
  from accounted_done [OF quiet_claims(3) raises(1) w] raises(2) show ?thesis by simp
next
  case (continues d w1)
  note w1 = quietD(3) [OF quiet_claims(3) continues(1) w]
  from continues(2) show ?thesis
  proof (cases rule: andThenE)
    case (raises e)
    from accounted_after [OF quiet_claims(3) continues(1) w] accounted_done [OF quiet_read_back(2) raises(1) w1] raises(2)
    show ?thesis by simp
  next
    case 2: (continues u w2)
    note w2 = quietD(3) [OF quiet_read_back(2) 2(1) w1]
    show ?thesis
    proof (cases "dr_outcome d = DISPATCH_CLAIMED \<and> dr_dispatch_token d \<noteq> None")
      case True
      then obtain token where t: "dr_outcome d = DISPATCH_CLAIMED" "dr_dispatch_token d = Some token" by auto
      with 2(2) have run: "dispatch_external_action (dispatch_fuel ac) ac step att (dr_action d) token w2 = (r, w')" by simp
      note c = begin_claimed [OF continues(1) w t(1)]
      from dispatch_accounted [OF ac quiet_claims(3) continues(1) w _ _ quiet_read_back(2) 2(1) run] c sid show ?thesis by simp
    next
      case False
      with 2(2) have "(if dr_outcome d = RUN_CANCELLED
          then raise (ExecutionError ''run_cancel_requested'' (failure_message co ''run_cancel_requested''))
          else if dr_outcome d = TERMINAL then handle_external_terminal ac step (dr_action d)
          else if dr_outcome d \<noteq> DISPATCH_CLAIMED
          then fail co (ac_context ac) ''tool_execution_failed''
            (''External action dispatch could not be claimed: '' @ dispatch_value (dr_outcome d) @ ''.'')
          else fail co (ac_context ac) INVALID_CODE ''Claimed external action dispatch has no token.'') w2 = (r, w')"
        by (auto split: if_splits option.splits)
      moreover have "quiet (if dr_outcome d = RUN_CANCELLED
          then raise (ExecutionError ''run_cancel_requested'' (failure_message co ''run_cancel_requested''))
          else if dr_outcome d = TERMINAL then handle_external_terminal ac step (dr_action d)
          else if dr_outcome d \<noteq> DISPATCH_CLAIMED
          then fail co (ac_context ac) ''tool_execution_failed''
            (''External action dispatch could not be claimed: '' @ dispatch_value (dr_outcome d) @ ''.'')
          else fail co (ac_context ac) INVALID_CODE ''Claimed external action dispatch has no token.'')"
        by (intro quiet_rules ac; simp)
      ultimately have "accounted (cx_run_id (ac_context ac)) (ac_step_id ac) w2 w' \<and> r \<noteq> Inl OutOfFuel"
        by (intro accounted_done [OF _ _ w2])
      with accounted_after [OF quiet_claims(3) continues(1) w] accounted_after [OF quiet_read_back(2) 2(1) w1]
      show ?thesis by blast
    qed
  qed
qed

lemma recover_accounted:
  assumes ac: "ac_co ac = co" and w: "sound w" and "recover_external_dispatch ac step att action w = (r, w')"
  shows "accounted (cx_run_id (ac_context ac)) (k_step_id step) w w' \<and> r \<noteq> Inl OutOfFuel"
proof (cases "xa_dispatch_token action = None \<or> ts_retry_mode (ac_spec ac) = UNSAFE \<or> co_max_dispatches co \<le> xa_dispatch_count action")
  case True
  have "quiet (recover_external_dispatch ac step att action)"
    unfolding recover_external_dispatch_def Let_def ac using True
    by (cases "xa_dispatch_token action") (auto intro!: quiet_rules)
  then show ?thesis using assms(3) w by (rule accounted_done)
next
  case False
  then obtain disp where disp: "xa_dispatch_token action = Some disp" by auto
  with assms(3) False ac obtain P where P: "andThen (retry_call ac step disp att) P w = (r, w')"
    and P_def: "P = (\<lambda>retry. andThen (mirror_evidence (ac_context ac)) (\<lambda>_.
            if dr_outcome retry = TERMINAL then handle_external_terminal ac step (dr_action retry)
            else case (dr_outcome retry, dr_dispatch_token retry) of
                (RETRY_CLAIMED, Some token) \<Rightarrow>
                  dispatch_external_action (dispatch_fuel ac) ac step att (dr_action retry) token
              | (oc, _) \<Rightarrow> fail co (ac_context ac) INVALID_CODE
                  (''Persisted external action could not be safely recovered: '' @ dispatch_value oc @ ''.'')))"
    by (simp add: recover_external_dispatch_def Let_def)
  from P show ?thesis
  proof (cases rule: andThenE)
    case (raises e)
    from accounted_done [OF quiet_read_back(3) raises(1) w] raises(2) show ?thesis by simp
  next
    case (continues d w1)
    note w1 = quietD(3) [OF quiet_read_back(3) continues(1) w]
    show ?thesis
    proof (cases "dr_outcome d = RETRY_CLAIMED \<and> dr_dispatch_token d \<noteq> None")
      case True
      then obtain token where t: "dr_outcome d = RETRY_CLAIMED" "dr_dispatch_token d = Some token" by auto
      from continues(2) have "andThen (mirror_evidence (ac_context ac)) (\<lambda>_.
          dispatch_external_action (dispatch_fuel ac) ac step att (dr_action d) token) w1 = (r, w')"
        by (simp add: P_def t)
      then show ?thesis
      proof (cases rule: andThenE)
        case (raises e)
        from accounted_after [OF quiet_read_back(3) continues(1) w] accounted_done [OF quiet_read_back(2) raises(1) w1] raises(2)
        show ?thesis by simp
      next
        case 2: (continues u w2)
        note c = retry_claimed(1,2) [OF continues(1) w t(1)]
        show ?thesis by (rule dispatch_accounted [OF ac quiet_read_back(3) continues(1) w c quiet_read_back(2) 2])
      qed
    next
      case False
      have "quiet (P d)" unfolding P_def using False
        by (intro quiet_andThen quiet_read_back; cases "dr_outcome d"; cases "dr_dispatch_token d") (auto intro!: quiet_rules ac)
      from accounted_done [OF this continues(2) w1] accounted_after [OF quiet_read_back(3) continues(1) w] show ?thesis by blast
    qed
  qed
qed

lemma advance_accounted:
  assumes ac: "ac_co ac = co" and sid: "k_step_id step = ac_step_id ac" and w: "sound w"
    and run: "advance_action ac name provider step att recovered w = (r, w')"
  shows "accounted (cx_run_id (ac_context ac)) (ac_step_id ac) w w' \<and> r \<noteq> Inl OutOfFuel"
proof (rule accounted_andThen [OF quiet_prepare [OF ac] w run [unfolded advance_action_def ac]])
  fix action w1
  assume w1: "sound w1" and "(if xa_status action = action_value PREPARED then begin_and_dispatch ac step att
       else if xa_status action = action_value DISPATCHING
       then (if \<not> recovered
             then fail co (ac_context ac) ''tool_execution_failed'' ''External action dispatch is already in progress.''
             else recover_external_dispatch ac step att action)
       else handle_external_terminal ac step action) w1 = (r, w')"
  with begin_accounted [OF ac sid w1, of att r w'] recover_accounted [OF ac w1, of step att action r w'] sid
    accounted_done [OF quiet_terminal [OF ac] _ w1, of step action r w'] accounted_done [OF quiet_fail _ w1, of _ _ _ r w']
  show "accounted (cx_run_id (ac_context ac)) (ac_step_id ac) w1 w' \<and> r \<noteq> Inl OutOfFuel"
    by (auto split: if_splits)
qed

lemma execute_accounted:
  assumes ac: "ac_co ac = co" and w: "sound w" and run: "execute_action ac w = (r, w')"
  shows "accounted (cx_run_id (ac_context ac)) (ac_step_id ac) w w' \<and> r \<noteq> Inl OutOfFuel"
proof (cases "ts_provider_name (ac_spec ac) = None \<or> \<not> co_dispatcher co")
  case True
  have "quiet (execute_action ac)"
    unfolding execute_action_def Let_def ac using True by (auto intro!: quiet_rules split: option.split)
  then show ?thesis using run w by (rule accounted_done)
next
  case False
  then obtain name where name: "ts_provider_name (ac_spec ac) = Some name" "co_dispatcher co" by auto
  define body where "body = (\<lambda>provider. andThen (acquire_step ac) (\<lambda>acquired. case acquired of
      Inl ob \<Rightarrow> ret ob | Inr (step, att, recovered) \<Rightarrow> advance_action ac name provider step att recovered))"
  have body: "accounted (cx_run_id (ac_context ac)) (ac_step_id ac) w1 w' \<and> r \<noteq> Inl OutOfFuel"
    if w1: "sound w1" and b: "body provider w1 = (r, w')" for provider w1
  proof (rule accounted_andThen [OF quiet_acquire(2) [OF ac] w1 b [unfolded body_def]])
    fix acquired w2
    assume a: "acquire_step ac w1 = (Inr acquired, w2)" and w2: "sound w2" and k: "(case acquired of
      Inl ob \<Rightarrow> ret ob | Inr (step, att, recovered) \<Rightarrow> advance_action ac name provider step att recovered) w2 = (r, w')"
    show "accounted (cx_run_id (ac_context ac)) (ac_step_id ac) w2 w' \<and> r \<noteq> Inl OutOfFuel"
    proof (cases acquired)
      case (Inl ob)
      with k have "ret ob w2 = (r, w')" by simp
      then show ?thesis by (rule accounted_done [OF quiet_ret _ w2])
    next
      case (Inr p)
      obtain step att recovered where p: "p = (step, att, recovered)" by (cases p) auto
      from a Inr p have sid: "k_step_id step = ac_step_id ac" using acquired_key [OF _ w1] by blast
      from k Inr p have "advance_action ac name provider step att recovered w2 = (r, w')" by simp
      then show ?thesis by (rule advance_accounted [OF ac sid w2])
    qed
  qed
  from run name ac have "andThen (configured name) (\<lambda>found. case found of
      None \<Rightarrow> fail co (ac_context ac) ''external_action_not_configured'' ''External action provider is not configured.''
    | Some provider \<Rightarrow> body provider) w = (r, w')" unfolding body_def by (simp add: execute_action_def)
  then show ?thesis
    by (rule accounted_andThen [OF quiet_configured w])
      (auto split: option.splits dest!: body accounted_done [OF quiet_fail])
qed

end

end
