(* ===== verification/Coordinator_Truth.thy ===== *)
theory Coordinator_Truth
  imports Coordinator_Dispatch
begin

text \<open>
  What the coordinator tells its caller is true of the ledger: an observation is returned only
  when the action is durably recorded as succeeded with that very result, whichever path led to
  it and whatever other workers did meanwhile.
\<close>

section \<open>Canonical text is stable\<close>

lemma canonical_json_idem: "canonical_json (canonical_json j) = canonical_json j"
proof (induction j rule: canonical_json.induct)
  case (2 kvs)
  let ?g = "\<lambda>(k, v). (k, canonical_json v)"
  have "map ?g (sort_key fst (map ?g kvs)) = sort_key fst (map ?g kvs)"
  proof (rule map_idI)
    fix p assume "p \<in> set (sort_key fst (map ?g kvs))"
    then obtain k v where "(k, v) \<in> set kvs" "p = (k, canonical_json v)" by auto
    with 2 show "?g p = p" by auto
  qed
  then show ?case by (simp add: sort_key_id_if_sorted)
qed auto

lemma canonical_text_object: "canonical_json_object (canonical_text result) = Inr (canonical_text result)"
  using canonical_json_idem [of "JObj result"] by (simp add: canonical_text_def canonical_json_object_def)

section \<open>Truthful programs\<close>

definition proves :: "string \<Rightarrow> string \<Rightarrow> observation \<Rightarrow> db \<Rightarrow> bool" where
  "proves run_id step_id ob s \<longleftrightarrow> (\<exists>a. select_action run_id step_id s = Some a \<and> xa_status a = action_value SUCCEEDED
     \<and> xa_result_json a = Some (canonical_text (ob_result ob)))"

definition truthful :: "string \<Rightarrow> string \<Rightarrow> observation prog \<Rightarrow> bool" where
  "truthful run_id step_id m \<longleftrightarrow> (\<forall>w ob w'. sound w \<longrightarrow> m w = (Inr ob, w') \<longrightarrow> proves run_id step_id ob (w_db w'))"

lemma proves_later: "proves run_id step_id ob s \<Longrightarrow> later s t \<Longrightarrow> store_reachable s \<Longrightarrow> proves run_id step_id ob t"
  unfolding proves_def by (elim exE conjE, erule (2) later_action) (auto simp: action_evolves_def terminal_action_status_def)

lemma truthful_noreturn: "noreturn m \<Longrightarrow> truthful run_id step_id m"
  by (simp add: truthful_def noreturn_def)

lemma truthful_andThen:
  assumes "\<And>w. sound w \<Longrightarrow> sound (snd (m w))" and "\<And>w x w1. sound w \<Longrightarrow> m w = (Inr x, w1) \<Longrightarrow> truthful run_id step_id (f x)"
  shows "truthful run_id step_id (andThen m f)"
  unfolding truthful_def
proof (intro allI impI)
  fix w ob w' assume w: "sound w" and "andThen m f w = (Inr ob, w')"
  from this(2) show "proves run_id step_id ob (w_db w')"
  proof (cases rule: andThenE)
    case (continues x w1)
    with assms(1) [OF w] assms(2) [OF w continues(1)] show ?thesis by (auto simp: truthful_def)
  qed simp
qed

lemma quiet_sound: "quiet m \<Longrightarrow> sound w \<Longrightarrow> sound (snd (m w))"
  using quietD(3) [of m w "fst (m w)" "snd (m w)"] by simp

lemma truthful_quiet:
  "quiet m \<Longrightarrow> (\<And>w x w1. sound w \<Longrightarrow> m w = (Inr x, w1) \<Longrightarrow> truthful run_id step_id (f x)) \<Longrightarrow> truthful run_id step_id (andThen m f)"
  by (rule truthful_andThen) (rule quiet_sound)

lemma truthfulI_after:
  assumes "quiet m" and "\<And>w x w1. sound w \<Longrightarrow> m w = (Inr x, w1) \<Longrightarrow> P w1"
    and stable: "\<And>w1 w2. P w1 \<Longrightarrow> follows w1 w2 \<Longrightarrow> sound w1 \<Longrightarrow> P w2"
    and "quiet m'" and ob: "\<And>w2. P w2 \<Longrightarrow> proves run_id step_id ob (w_db w2)"
  shows "truthful run_id step_id (andThen m (\<lambda>_. andThen m' (\<lambda>_. ret ob)))"
  unfolding truthful_def
proof (intro allI impI)
  fix w ob' w' assume w: "sound w" and "andThen m (\<lambda>_. andThen m' (\<lambda>_. ret ob)) w = (Inr ob', w')"
  then obtain x w1 y where 1: "m w = (Inr x, w1)" and 2: "m' w1 = (Inr y, w')" and [simp]: "ob' = ob"
    by (auto elim!: andThenE)
  note w1 = quietD(3) [OF assms(1) 1 w]
  from stable [OF assms(2) [OF w 1] quietD(1) [OF assms(4) 2 w1] w1] ob show "proves run_id step_id ob' (w_db w')" by simp
qed

lemma get_action_select:
  "get_external_action run_id step_id s = Inr (Some a) \<Longrightarrow> select_action run_id step_id s = Some a"
  by (auto simp: get_external_action_def split: option.splits sum.splits dest: row_to_action_InrD)

lemma proves_follows: "proves run_id step_id ob (w_db w) \<Longrightarrow> follows w w' \<Longrightarrow> sound w \<Longrightarrow> proves run_id step_id ob (w_db w')"
  by (simp add: follows_def sound_def proves_later)

lemmas truthful_raises =
  truthful_noreturn [OF noreturn_raise] truthful_noreturn [OF noreturn_fail]
  truthful_noreturn [OF noreturn_outcomes(1)] truthful_noreturn [OF noreturn_outcomes(2)]
  truthful_noreturn [OF noreturn_outcomes(3)] truthful_noreturn [OF noreturn_outcomes(4)]
  truthful_noreturn [OF noreturn_unknown(1)] truthful_noreturn [OF noreturn_unknown(2)]
  truthful_noreturn [OF noreturn_unknown(3)] truthful_noreturn [OF noreturn_binding]
  truthful_noreturn [OF noreturn_restore_failure] truthful_noreturn [OF noreturn_settle_failure]

section \<open>Recorded successes\<close>

lemma finalized_success:
  assumes "call (\<lambda>t. finalize_external_action_succeeded (clk t) run_id step_id disp att (canonical_text result) reff None (now t)) w
      = (Inr x, w')" and "sound w" and "ob_result ob = result"
  shows "proves run_id step_id ob (w_db w')"
proof -
  from assms(1) obtain s t where s: "store_reachable s"
    and op: "finalize_external_action_succeeded (clk t) run_id step_id disp att (canonical_text result) reff None (now t) s = (Inr x, w_db w')"
    by (rule call_InrE [OF _ assms(2)]) auto
  from finalize_effect [OF reachable_wf_inv [OF s] op [unfolded finalize_external_action_succeeded_def]]
  obtain res k where "check_final_outcome \<lparr>fo_action_status = SUCCEEDED, fo_tool_status = TC_COMPLETED,
       fo_result_json = Some (canonical_text result), fo_provider_reference = Some reff, fo_error_code = None\<rparr> = Inr res"
    and a: "select_action run_id step_id (w_db w') = Some x"
    and dup: "exact_duplicate \<lparr>fo_action_status = SUCCEEDED, fo_tool_status = TC_COMPLETED,
       fo_result_json = Some (canonical_text result), fo_provider_reference = Some reff, fo_error_code = None\<rparr> res disp att x k"
    by metis
  then have "res = Some (canonical_text result)"
    by (auto simp: check_final_outcome_def canonical_text_object split: if_splits)
  with a dup assms(3) show ?thesis by (auto simp: proves_def exact_duplicate_def)
qed

lemma read_back_select:
  assumes "read_back cx step w = (Inr (Some (a, k)), w')" and w: "sound w"
  shows "snapshot (cx_run_id cx) (k_step_id step) a (w_db w')"
proof -
  from assms(1) obtain a' w1 where 1: "read (get_external_action (cx_run_id cx) (k_step_id step)) w = (Inr a', w1)"
    and 2: "read (get_step (cx_run_id cx) (k_step_id step)) w1 = (Inr (Some k), w')" and a': "a' = Some a"
    by (auto simp: read_back_def elim!: catchE andThenE split: option.splits)
  note w1 = quietD(3) [OF quiet_read 1 w]
  from 1 a' have "select_action (cx_run_id cx) (k_step_id step) (w_db w1) = Some a"
    by (auto elim: read_InrE [OF _ w] dest: get_action_select)
  then have "snapshot (cx_run_id cx) (k_step_id step) a (w_db w1)" by (simp add: snapshot_def)
  from snapshot_follows [OF this quietD(1) [OF quiet_read 2 w1] w1] show ?thesis .
qed

context hosted
begin

lemma truthful_settle_success:
  assumes ac: "ac_co ac = co"
  shows "truthful (cx_run_id (ac_context ac)) (k_step_id step) (settle_success ac step action disp att result reff)"
  unfolding settle_success_def Let_def ac
proof (rule truthfulI_after [where P = "\<lambda>w. \<forall>ob. ob_result ob = result \<longrightarrow> proves (cx_run_id (ac_context ac)) (k_step_id step) ob (w_db w)"])
  let ?fin = "call (\<lambda>t. finalize_external_action_succeeded (tk_clk t) (cx_run_id (ac_context ac)) (k_step_id step)
           disp att (canonical_text result) reff None (tk_now t))"
  let ?cb = "external_success_was_committed (ac_context ac) step action disp (canonical_text result) reff"
  let ?m = "catch (andThen ?fin (\<lambda>_. ret ())) (\<lambda>_. andThen ?cb (\<lambda>committed.
      if committed then ret () else finalize_provider_unknown co (ac_context ac) step disp att))"
  show "quiet ?m" by (intro quiet_rules; simp)
  show "quiet (record_external_success_evidence co (ac_context ac) step result)" by (intro quiet_rules)
  fix w x w1 assume w: "sound w" and "?m w = (Inr x, w1)"
  from this(2) show "\<forall>ob. ob_result ob = result \<longrightarrow> proves (cx_run_id (ac_context ac)) (k_step_id step) ob (w_db w1)"
  proof (cases rule: catchE)
    case (returns y)
    then show ?thesis using finalized_success [OF _ w] by (auto elim!: andThenE)
  next
    case (handled e w2)
    have "quiet (andThen ?fin (\<lambda>_. ret ()))" by (intro quiet_rules)
    then have w2: "sound w2" using handled(1) w by (rule quietD(3))
    from handled(3) have "?cb w2 = (Inr True, w1)"
      by (auto elim!: andThenE noreturnD [OF noreturn_unknown(1)] split: if_splits)
    then obtain a k where rb: "read_back (ac_context ac) step w2 = (Inr (Some (a, k)), w1)"
      and a: "xa_status a = action_value SUCCEEDED" "xa_result_json a = Some (canonical_text result)"
      by (auto simp: external_success_was_committed_def elim!: andThenE split: option.splits)
    from read_back_select [OF rb w2] a show ?thesis
      by (auto simp: snapshot_def proves_def action_evolves_def terminal_action_status_def)
  qed simp
qed (auto intro: proves_follows)

lemma truthful_restore_success:
  assumes ac: "ac_co ac = co"
  shows "truthful (cx_run_id (ac_context ac)) (k_step_id step) (restore_success ac step)"
  unfolding truthful_def
proof (intro allI impI)
  fix w ob w' assume w: "sound w" and "restore_success ac step w = (Inr ob, w')"
  from this(2) show "proves (cx_run_id (ac_context ac)) (k_step_id step) ob (w_db w')"
    unfolding restore_success_def Let_def ac
  proof (cases rule: andThenE)
    case (continues found w1)
    note w1 = quietD(3) [OF quiet_read continues(1) w]
    from continues(2) obtain action w2 result u w3 where found: "found = Some action"
      and v: "validate_external_action_binding ac step action None w1 = (Inr u, w2)"
      and st: "xa_status action = action_value SUCCEEDED" and ok: "restored_result_problem ac action result = None"
      and rec: "record_external_success_evidence co (ac_context ac) step result w2 = (Inr w3, w')"
      and ob: "ob_result ob = result"
      by (auto split: option.splits sum.splits if_splits exn.splits
          elim!: andThenE noreturnD [OF noreturn_fail] noreturnD [OF noreturn_outcomes(4)])
    note w2 = quietD(3) [OF quiet_restores(1) [OF ac] v w1]
    from continues(1) found have sel: "select_action (cx_run_id (ac_context ac)) (k_step_id step) (w_db w1) = Some action"
      by (auto elim: read_InrE [OF _ w] dest: get_action_select)
    from ok have "xa_result_json action = Some (canonical_text result)"
      by (auto simp: restored_result_problem_def split: option.splits if_splits)
    with sel st ob have "proves (cx_run_id (ac_context ac)) (k_step_id step) ob (w_db w1)" by (auto simp: proves_def)
    from proves_follows [OF this quietD(1) [OF quiet_restores(1) [OF ac] v w1] w1]
    show ?thesis using proves_follows [OF _ quietD(1) [OF quiet_evidence(1) rec w2] w2] by blast
  qed simp
qed

lemma truthful_terminal:
  assumes ac: "ac_co ac = co"
  shows "truthful (cx_run_id (ac_context ac)) (k_step_id step) (handle_external_terminal ac step action)"
  unfolding handle_external_terminal_def Let_def ac
proof (rule truthful_quiet [OF quiet_read])
  fix w found w1
  assume w: "sound w" and "read (get_step (cx_run_id (ac_context ac)) (k_step_id step)) w = (Inr found, w1)"
  then have "get_step (cx_run_id (ac_context ac)) (k_step_id step) (w_db w1) = Inr found" by (auto elim: read_InrE)
  then show "truthful (cx_run_id (ac_context ac)) (k_step_id step) (case found of
        None \<Rightarrow> fail co (ac_context ac) INVALID_CODE ''Terminal external action lost its tool step.''
      | Some current_step \<Rightarrow>
          if xa_status action = action_value SUCCEEDED then restore_success ac current_step
          else if xa_status action = action_value ACTION_FAILED \<or> xa_status action = action_value OUTCOME_UNKNOWN
          then restore_failure ac current_step
          else fail co (ac_context ac) INVALID_CODE ''External action was reported terminal with a non-terminal status.'')"
    using truthful_restore_success [OF ac] get_step_key
    by (cases found) (auto intro!: truthful_raises simp del: action_value.simps, metis)
qed

lemma truthful_send_request:
  assumes ac: "ac_co ac = co" and again: "truthful (cx_run_id (ac_context ac)) (k_step_id step) again"
  shows "truthful (cx_run_id (ac_context ac)) (k_step_id step) (send_request ac step att action disp name again)"
  unfolding send_request_def
proof (intro truthful_andThen)
  show "sound (snd (lift (external_action_request action) w))" if "sound w" for w
    using that by (auto simp: lift_def ret_def raise_def split: sum.split)
  show "sound (snd (attempt (dispatch name (ts_retry_mode (ac_spec ac)) q) w))" if "sound w" for q w
  proof -
    obtain r w1 where d: "dispatch name (ts_retry_mode (ac_spec ac)) q w = (r, w1)" by fastforce
    with dispatchD [OF d] that show ?thesis by (auto simp: attempt_def sound_def fair_def split: sum.split)
  qed
qed (auto split: sum.split option.split intro!: truthful_noreturn noreturn_rules again truthful_settle_success [OF ac])

lemma truthful_dispatch:
  assumes ac: "ac_co ac = co"
  shows "truthful (cx_run_id (ac_context ac)) (k_step_id step) (dispatch_external_action n ac step att action disp)"
proof (induction n arbitrary: action disp)
  case 0
  show ?case by (simp add: truthful_noreturn noreturn_raise)
next
  case (Suc n)
  have "truthful (cx_run_id (ac_context ac)) (k_step_id step)
     (andThen (retry_after_ambiguous_result ac step action disp att) (\<lambda>retry. case retry of
        None \<Rightarrow> finalize_provider_unknown co (ac_context ac) step disp att
      | Some (action', token') \<Rightarrow> dispatch_external_action n ac step att action' token'))"
    by (rule truthful_quiet [OF quiet_retry_after [OF ac]])
      (auto split: option.split intro: Suc.IH intro!: truthful_raises)
  from truthful_send_request [OF ac this] show ?case unfolding dispatch_external_action.simps ac
    by (auto split: option.split intro!: truthful_quiet [OF quiet_configured] intro!: truthful_raises)
qed

lemma truthful_recover:
  assumes ac: "ac_co ac = co"
  shows "truthful (cx_run_id (ac_context ac)) (k_step_id step) (recover_external_dispatch ac step att action)"
  unfolding recover_external_dispatch_def Let_def ac
  using truthful_dispatch [OF ac] truthful_terminal [OF ac]
  by (auto split: option.split dispatch_outcome.split intro!: truthful_quiet [OF quiet_read_back(3)] truthful_quiet [OF quiet_read_back(2)]
      intro!: truthful_raises)

lemma truthful_begin:
  assumes ac: "ac_co ac = co"
  shows "truthful (cx_run_id (ac_context ac)) (k_step_id step) (begin_and_dispatch ac step att)"
  unfolding begin_and_dispatch_def Let_def ac
  using truthful_dispatch [OF ac] truthful_terminal [OF ac]
  by (auto split: option.split intro!: truthful_quiet [OF quiet_claims(3)] truthful_quiet [OF quiet_read_back(2)]
      intro!: truthful_raises)

lemma truthful_advance:
  assumes ac: "ac_co ac = co"
  shows "truthful (cx_run_id (ac_context ac)) (k_step_id step) (advance_action ac name provider step att recovered)"
  unfolding advance_action_def ac
  using truthful_begin [OF ac] truthful_recover [OF ac] truthful_terminal [OF ac]
  by (auto intro!: truthful_quiet [OF quiet_prepare [OF ac]] intro!: truthful_raises)

lemma acquired_observation:
  assumes ac: "ac_co ac = co" and w: "sound w" and "acquire_step ac w = (Inr (Inl ob), w')"
  shows "proves (cx_run_id (ac_context ac)) (ac_step_id ac) ob (w_db w')"
proof -
  have restored: "proves (cx_run_id (ac_context ac)) (ac_step_id ac) ob (w_db w')"
    if "sound w1" "k_step_id step = ac_step_id ac" "restore_success ac step w1 = (Inr ob, w')" for step w1
    using truthful_restore_success [OF ac, of step] that by (auto simp: truthful_def)
  have claim: ?thesis if w1: "sound w1" and "claim_action_step ac w1 = (Inr (Inl ob), w')" for w1
    using that(2) unfolding claim_action_step_def Let_def
  proof (cases rule: andThenE)
    case (continues claim w2)
    note w2 = quietD(3) [OF quiet_claims(1) continues(1) w1]
    from continues(2) claimed_step_key [OF continues(1) w1] show ?thesis
      by (auto split: option.splits if_splits elim!: andThenE noreturnD [OF noreturn_fail] intro: restored [OF w2])
  qed simp
  from assms(3) show ?thesis unfolding acquire_step_def Let_def
  proof (cases rule: andThenE)
    case (continues existing w1)
    note w1 = quietD(3) [OF quiet_read continues(1) w]
    from continues(1) have "get_step (cx_run_id (ac_context ac)) (ac_step_id ac) (w_db w1) = Inr existing"
      by (rule read_InrE [OF _ w])
    with continues(2) show ?thesis
      by (auto split: option.splits if_splits dest!: get_step_key
          elim!: andThenE noreturnD [OF noreturn_fail] noreturnD [OF noreturn_restore_failure] intro: claim [OF w1] restored [OF w1])
  qed simp
qed

lemma truthful_execute:
  assumes ac: "ac_co ac = co"
  shows "truthful (cx_run_id (ac_context ac)) (ac_step_id ac) (execute_action ac)"
proof -
  have inner: "truthful (cx_run_id (ac_context ac)) (ac_step_id ac) (andThen (acquire_step ac) (\<lambda>acquired. case acquired of
      Inl ob \<Rightarrow> ret ob | Inr (step, att, recovered) \<Rightarrow> advance_action ac name provider step att recovered))" for name provider
    unfolding truthful_def
  proof (intro allI impI)
    fix w ob w' assume w: "sound w" and "andThen (acquire_step ac) (\<lambda>acquired. case acquired of
      Inl ob \<Rightarrow> ret ob | Inr (step, att, recovered) \<Rightarrow> advance_action ac name provider step att recovered) w = (Inr ob, w')"
    from this(2) show "proves (cx_run_id (ac_context ac)) (ac_step_id ac) ob (w_db w')"
    proof (cases rule: andThenE)
      case (continues acquired w1)
      note w1 = quietD(3) [OF quiet_acquire(2) [OF ac] continues(1) w]
      show ?thesis
      proof (cases acquired)
        case (Inl ob')
        with continues acquired_observation [OF ac w, of ob' w1] show ?thesis by simp
      next
        case (Inr p)
        obtain step att recovered where p: "p = (step, att, recovered)" by (cases p) auto
        from continues(1) Inr p have sid: "k_step_id step = ac_step_id ac" using acquired_key [OF _ w] by blast
        from continues(2) Inr p truthful_advance [OF ac, of step name provider att recovered] w1 sid
        show ?thesis by (auto simp: truthful_def)
      qed
    qed simp
  qed
  show ?thesis unfolding execute_action_def Let_def ac
    by (auto split: option.split intro!: truthful_quiet [OF quiet_configured] inner intro!: truthful_raises)
qed

end

end
