(* ===== verification/Program_Tracking.thy ===== *)
theory Program_Tracking
  imports Worker_Programs
begin

text \<open>
  A way to reason about worker programs by what they leave behind: a relation between the world
  before and the world after that every quiet step satisfies and that composes. A program tracks
  the relation when every run of it, however it ends, satisfies it and no loop was cut off. The
  rules for the combinators are proved once, for any such relation.
\<close>

definition tracks :: "(world \<Rightarrow> world \<Rightarrow> bool) \<Rightarrow> 'a prog \<Rightarrow> bool" where
  "tracks R m \<longleftrightarrow> (\<forall>w r w'. sound w \<longrightarrow> m w = (r, w') \<longrightarrow> R w w' \<and> r \<noteq> Inl OutOfFuel)"

lemma tracksD: "tracks R m \<Longrightarrow> m w = (r, w') \<Longrightarrow> sound w \<Longrightarrow> R w w' \<and> r \<noteq> Inl OutOfFuel"
  by (simp add: tracks_def)

lemma tracks_if: "tracks R m \<Longrightarrow> tracks R m' \<Longrightarrow> tracks R (if b then m else m')"
  by simp

lemma tracks_option: "tracks R m \<Longrightarrow> (\<And>x. v = Some x \<Longrightarrow> tracks R (f x)) \<Longrightarrow> tracks R (case v of None \<Rightarrow> m | Some x \<Rightarrow> f x)"
  by (cases v) auto

locale tracked =
  fixes R :: "world \<Rightarrow> world \<Rightarrow> bool"
  assumes silent: "follows w w' \<Longrightarrow> w_calls w' = w_calls w \<Longrightarrow> sound w \<Longrightarrow> R w w'"
    and sequence: "R w w1 \<Longrightarrow> R w1 w' \<Longrightarrow> sound w \<Longrightarrow> R w w'"
    and follows: "R w w' \<Longrightarrow> follows w w'"
begin

lemma stays_sound: "R w w' \<Longrightarrow> sound w \<Longrightarrow> sound w'"
  by (rule follows_sound [OF follows])

lemma tracks_quiet: "quiet m \<Longrightarrow> tracks R m"
  unfolding tracks_def using quietD silent by blast

text \<open>The continuation may assume what the first program is known to return.\<close>

lemma tracks_andThen_returns:
  assumes m: "tracks R m" and f: "\<And>w x w1. sound w \<Longrightarrow> m w = (Inr x, w1) \<Longrightarrow> tracks R (f x)"
  shows "tracks R (andThen m f)"
  unfolding tracks_def
proof (intro allI impI)
  fix w r w' assume w: "sound w" and "andThen m f w = (r, w')"
  from this(2) show "R w w' \<and> r \<noteq> Inl OutOfFuel"
  proof (cases rule: andThenE)
    case (raises e)
    with tracksD [OF m raises(1) w] show ?thesis by auto
  next
    case (continues x w1)
    note a = conjunct1 [OF tracksD [OF m continues(1) w]]
    note b = tracksD [OF f [OF w continues(1)] continues(2) stays_sound [OF a w]]
    from b sequence [OF a conjunct1 [OF b] w] show ?thesis by simp
  qed
qed

lemma tracks_andThen: "tracks R m \<Longrightarrow> (\<And>x. tracks R (f x)) \<Longrightarrow> tracks R (andThen m f)"
  by (rule tracks_andThen_returns)

lemma tracks_catch:
  assumes m: "tracks R m" and h: "\<And>e. e \<noteq> OutOfFuel \<Longrightarrow> tracks R (h e)"
  shows "tracks R (catch m h)"
  unfolding tracks_def
proof (intro allI impI)
  fix w r w' assume w: "sound w" and "catch m h w = (r, w')"
  from this(2) show "R w w' \<and> r \<noteq> Inl OutOfFuel"
  proof (cases rule: catchE)
    case (returns x)
    with tracksD [OF m returns(1) w] show ?thesis by auto
  next
    case cut
    with tracksD [OF m cut(1) w] show ?thesis by auto
  next
    case (handled e w1)
    note a = conjunct1 [OF tracksD [OF m handled(1) w]]
    note b = tracksD [OF h [OF handled(2)] handled(3) stays_sound [OF a w]]
    from b sequence [OF a conjunct1 [OF b] w] show ?thesis by simp
  qed
qed

end

text \<open>Calling no provider at all is such a relation, and tracking it is being quiet.\<close>

definition untouched :: "world \<Rightarrow> world \<Rightarrow> bool" where
  "untouched w w' \<longleftrightarrow> follows w w' \<and> w_calls w' = w_calls w"

interpretation no_calls: tracked untouched
  by unfold_locales (auto simp: untouched_def intro: follows_trans)

lemma tracks_untouched: "tracks untouched m \<longleftrightarrow> quiet m"
proof
  assume m: "tracks untouched m"
  show "quiet m" unfolding quiet_def
  proof (intro allI impI)
    fix w assume "sound w"
    with m show "follows w (snd (m w)) \<and> w_calls (snd (m w)) = w_calls w \<and> fst (m w) \<noteq> Inl OutOfFuel"
      using tracksD [OF m, of w "fst (m w)" "snd (m w)"] by (simp add: untouched_def)
  qed
qed (rule no_calls.tracks_quiet)

end
