(* ===== verification/Durable_Action.thy ===== *)
theory Durable_Action
  imports Action_Gateway Coordinator_Truth Program_Tracking
begin

text \<open>
  \<^verbatim>\<open>domains/durable_action/runtime.py\<close>: the built-in one-step domain behind the action
  gateway. It owns one workflow of one webhook call and hosts the coordinator with a hook that
  finalizes that workflow as failed. The programs below are its methods; the laws the
  coordinator asks of its host are discharged for the hook.
\<close>

section \<open>The runtime\<close>

record response =
  rp_message :: string
  rp_state :: rt_state
  rp_validation_errors :: "string list"

definition durable_initial_state :: "string \<Rightarrow> rt_state" where
  "durable_initial_state thread_id = \<lparr>st_domain_id = ACTION_DOMAIN_ID, st_schema_version = ACTION_SCHEMA_VERSION,
     st_thread_id = thread_id, st_execution_trace = [], st_fields = [(''result'', JNull)]\<rparr>"

definition DURABLE_FAILURE_MESSAGES :: "(string \<times> string) list" where
  "DURABLE_FAILURE_MESSAGES =
     [(''external_action_not_configured'', ''The Action destination is not configured.''),
      (''external_action_permission_denied'', ''Execution authority does not allow external actions.''),
      (''tool_permission_denied'', ''Execution authority does not allow tool execution.''),
      (''external_action_failed'', ''The external action failed definitively.''),
      (''external_action_outcome_unknown'', ''The external action outcome is unknown and was not retried again.''),
      (''external_action_evidence_incomplete'', ''Durable external-action evidence is incomplete.''),
      (''run_cancel_requested'', ''The Action was cancelled before dispatch.'')]"

definition safe_message :: "string \<Rightarrow> string" where
  "safe_message code = (case map_of DURABLE_FAILURE_MESSAGES code of
      Some m \<Rightarrow> m | None \<Rightarrow> ''The Action could not be completed.'')"

definition durable_fail :: "exec_context \<Rightarrow> string \<Rightarrow> string \<Rightarrow> 'a prog" where
  "durable_fail cx code detail =
     andThen (read (get_execution (cx_run_id cx))) (\<lambda>execution.
     andThen (if map_option x_status execution = Some (workflow_value WF_RUNNING)
       then andThen (call (\<lambda>t. finalize_failed (tk_clk t) (cx_run_id cx) code (cx_lease_token cx) (tk_now t))) (\<lambda>_. ret ())
       else ret ()) (\<lambda>_.
     raise (ExecutionError code (safe_message code))))"

text \<open>The hook as the coordinator sees it: a call that never returns a value.\<close>

definition hook_of :: "unit prog \<Rightarrow> world \<Rightarrow> exn \<times> world" where
  "hook_of m w = (case m w of (Inl e, w') \<Rightarrow> (e, w') | (Inr _, w') \<Rightarrow> (AssertionError, w'))"

definition durable_coordinator :: "digests \<Rightarrow> coordinator" where
  "durable_coordinator D = \<lparr>co_dispatcher = True, co_workflow_type = ACTION_WORKFLOW_TYPE,
     co_failure_messages = DURABLE_FAILURE_MESSAGES, co_max_dispatches = 2, co_digests = D,
     co_fail = (\<lambda>cx code detail. hook_of (durable_fail cx code detail))\<rparr>"

definition action_completed :: "rt_state \<Rightarrow> string \<Rightarrow> response" where
  "action_completed state reference = \<lparr>rp_message = ''Action completed.'',
     rp_state = state\<lparr>st_fields := dict_put ''result'' (JObj (dump_output reference)) (st_fields state)\<rparr>,
     rp_validation_errors = []\<rparr>"

definition restore_ready :: "rt_state \<Rightarrow> json_text option \<Rightarrow> response prog" where
  "restore_ready state result_json =
     (case (case result_json of Some (Encoded j) \<Rightarrow> webhook_output j | _ \<Rightarrow> None) of
        None \<Rightarrow> raise (ExecutionError INCOMPLETE_CODE (safe_message INCOMPLETE_CODE))
      | Some reference \<Rightarrow> ret (action_completed state reference))"

definition allows :: "authority \<Rightarrow> string \<Rightarrow> bool" where
  "allows auth permission \<longleftrightarrow> permission \<in> set (a_permissions auth)"

definition webhook_spec :: "string \<Rightarrow> provider \<Rightarrow> tool_spec" where
  "webhook_spec destination provider = \<lparr>ts_provider_name = Some destination,
     ts_retry_mode = (if pv_supports_idempotency provider then PROVIDER_IDEMPOTENT else UNSAFE),
     ts_output_model = Some (\<lambda>_ result. map_option dump_output (webhook_output (JObj result)))\<rparr>"

definition webhook_call :: "digests \<Rightarrow> durable_input \<Rightarrow> exec_context \<Rightarrow> provider \<Rightarrow> action_call" where
  "webhook_call D i cx provider = \<lparr>ac_co = durable_coordinator D, ac_context = cx, ac_tool_name = WEBHOOK_SEND,
     ac_spec = webhook_spec (di_destination i) provider, ac_step_id = ACTION_STEP_ID, ac_arguments = dump_webhook_input i\<rparr>"

text \<open>From the observation to a finalized workflow.\<close>

definition finish_ready :: "digests \<Rightarrow> rt_state \<Rightarrow> exec_context \<Rightarrow> observation \<Rightarrow> response prog" where
  "finish_ready D state cx ob = (case webhook_output (JObj (ob_result ob)) of
      None \<Rightarrow> durable_fail cx INCOMPLETE_CODE ''Completed provider evidence failed the Action output contract.''
    | Some reference \<Rightarrow>
        andThen (call (\<lambda>t. finalize_ready (tk_clk t) (cx_run_id cx) (canonical_text (dump_output reference))
           (cx_lease_token cx) (tk_now t))) (\<lambda>row.
        if x_status row \<noteq> workflow_value WF_READY
        then andThen (reconcile_dispatched_action (durable_coordinator D) cx True) (\<lambda>_.
          durable_fail cx INCOMPLETE_CODE ''Action workflow finalization did not preserve the provider outcome.'')
        else ret (action_completed state reference)))"

definition run_webhook :: "digests \<Rightarrow> rt_state \<Rightarrow> durable_input \<Rightarrow> exec_context \<Rightarrow> response prog" where
  "run_webhook D state i cx =
     (if \<not> allows (cx_authority cx) ''tools:execute''
      then durable_fail cx ''tool_permission_denied'' ''The persisted authority does not include tools:execute.''
      else if \<not> allows (cx_authority cx) ''external-actions:execute''
      then durable_fail cx ''external_action_permission_denied''
        ''The persisted authority does not include external-actions:execute.''
      else andThen (configured (di_destination i)) (\<lambda>found. case found of
          None \<Rightarrow> andThen (reconcile_dispatched_action (durable_coordinator D) cx True) (\<lambda>_.
            durable_fail cx ''external_action_not_configured'' ''The destination alias has no registered provider.'')
        | Some provider \<Rightarrow> andThen (execute_action (webhook_call D i cx provider)) (finish_ready D state cx)))"

definition durable_execute_impl :: "digests \<Rightarrow> rt_state \<Rightarrow> durable_input \<Rightarrow> exec_context \<Rightarrow> response prog" where
  "durable_execute_impl D state i cx =
     andThen (call (\<lambda>t. create_or_get_execution (tk_clk t) (cx_run_id cx) ACTION_WORKFLOW_TYPE (action_fingerprint D i)
        (cx_lease_token cx) (tk_now t))) (\<lambda>claim.
     if ec_outcome claim = EX_INPUT_MISMATCH \<or> ec_outcome claim = EX_WORKFLOW_TYPE_MISMATCH
     then andThen (reconcile_dispatched_action (durable_coordinator D) cx True) (\<lambda>_.
       durable_fail cx INCOMPLETE_CODE ''Persisted Action workflow identity does not match its Run input.'')
     else let execution = ec_execution claim in
       if x_status execution = workflow_value WF_READY then restore_ready state (x_result_json execution)
       else if x_status execution = workflow_value WF_BLOCKED \<or> x_status execution = workflow_value WF_FAILED
       then andThen (reconcile_dispatched_action (durable_coordinator D) cx True) (\<lambda>_.
         let code = (if opt_truthy (x_error_code execution) then the (x_error_code execution) else INCOMPLETE_CODE)
         in raise (ExecutionError code (safe_message code)))
       else andThen (if x_status execution = workflow_value WF_PENDING
           then andThen (call (\<lambda>t. mark_running (tk_clk t) (cx_run_id cx) (cx_lease_token cx) (tk_now t))) (\<lambda>_. ret ())
           else ret ()) (\<lambda>_. run_webhook D state i cx))"

definition durable_execute :: "digests \<Rightarrow> rt_state \<Rightarrow> durable_input \<Rightarrow> exec_context \<Rightarrow> response prog" where
  "durable_execute D state i cx = catch (durable_execute_impl D state i cx) (\<lambda>e. case e of
      ReconciliationPendingError \<Rightarrow> raise e
    | ExecutionError code message \<Rightarrow> andThen (reconcile_dispatched_action (durable_coordinator D) cx False) (\<lambda>_. raise e)
    | _ \<Rightarrow> andThen (reconcile_dispatched_action (durable_coordinator D) cx False) (\<lambda>_.
        durable_fail cx INCOMPLETE_CODE ''The private Action workflow failed outside a proven provider outcome.''))"

section \<open>The runtime hosts the coordinator\<close>

lemma quiet_executions [quiet_rules]:
  "quiet (call (\<lambda>t. create_or_get_execution (clk t) run_id wt h lease (now t)))"
  "quiet (call (\<lambda>t. mark_running (clk t) run_id lease (now t)))"
  "quiet (call (\<lambda>t. finalize_ready (clk t) run_id json lease (now t)))"
  "quiet (call (\<lambda>t. finalize_failed (clk t) run_id code lease (now t)))"
  by (intro quiet_ledger_call workflow_step.intros)+

lemma quiet_durable_fail [quiet_rules]: "quiet (durable_fail cx code detail)"
  unfolding durable_fail_def by (intro quiet_rules; simp)

lemma hook_of_quiet: "quiet m \<Longrightarrow> sound w \<Longrightarrow> follows w (snd (hook_of m w)) \<and> w_calls (snd (hook_of m w)) = w_calls w
     \<and> fst (hook_of m w) \<noteq> OutOfFuel"
  using quietD [of m w "fst (m w)" "snd (m w)"] by (auto simp: hook_of_def split: prod.split sum.split)

lemma durable_hook: "quiet_hook (durable_coordinator D)"
  unfolding quiet_hook_def durable_coordinator_def by (auto dest: hook_of_quiet [OF quiet_durable_fail])

interpretation durable: hosted "durable_coordinator D" for D
  by unfold_locales (rule durable_hook)

lemmas quiet_reconciles [quiet_rules] = durable.quiet_reconcile

lemma quiet_finish_ready [quiet_rules]: "quiet (finish_ready D state cx ob)"
  unfolding finish_ready_def by (intro quiet_rules; simp)

section \<open>Accounting through the runtime\<close>

text \<open>A program whose provider calls for one step are all paid for, and that ends.\<close>

abbreviation accounts :: "string \<Rightarrow> string \<Rightarrow> 'a prog \<Rightarrow> bool" where
  "accounts run_id step_id \<equiv> tracks (accounted run_id step_id)"

lemma accounted_sound: "accounted run_id step_id w w' \<Longrightarrow> sound w \<Longrightarrow> sound w'"
  by (auto simp: accounted_def intro: follows_sound)

lemma accounted_trans:
  assumes "accounted run_id step_id w w1" and "accounted run_id step_id w1 w'" and w: "sound w"
  shows "accounted run_id step_id w w'"
proof -
  from assms(1) obtain c where c: "follows w w1" "w_calls w1 = w_calls w @ c"
    "int (length c) \<le> dispatches run_id step_id (w_db w1) - dispatches run_id step_id (w_db w)"
    "\<forall>q\<in>set c. \<exists>a. select_action run_id step_id (w_db w1) = Some a \<and> external_action_request a = Inr q"
    by (auto simp: accounted_def)
  from assms(2) obtain c' where c': "follows w1 w'" "w_calls w' = w_calls w1 @ c'"
    "int (length c') \<le> dispatches run_id step_id (w_db w') - dispatches run_id step_id (w_db w1)"
    "\<forall>q\<in>set c'. \<exists>a. select_action run_id step_id (w_db w') = Some a \<and> external_action_request a = Inr q"
    by (auto simp: accounted_def)
  have "\<exists>a'. select_action run_id step_id (w_db w') = Some a' \<and> external_action_request a' = Inr q"
    if "select_action run_id step_id (w_db w1) = Some a" "external_action_request a = Inr q" for a q
  proof -
    from that(1) have "snapshot run_id step_id a (w_db w1)" by (simp add: snapshot_def)
    from snapshot_follows [OF this c'(1) follows_sound [OF c(1) w]]
    obtain a' where "select_action run_id step_id (w_db w') = Some a'" "same_identity a a'"
      by (auto simp: snapshot_def action_evolves_def)
    with that(2) show ?thesis by (auto dest: request_identity)
  qed
  with c(4) have "\<forall>q\<in>set c. \<exists>a. select_action run_id step_id (w_db w') = Some a \<and> external_action_request a = Inr q" by blast
  with c c' follows_trans [OF c(1) c'(1)] show ?thesis
    unfolding accounted_def by (intro conjI exI [of _ "c @ c'"]) auto
qed

interpretation accounting: tracked "accounted run_id step_id" for run_id step_id
proof unfold_locales
  show "accounted run_id step_id w w'" if "follows w w'" "w_calls w' = w_calls w" "sound w" for w w'
    using that dispatches_follows [of w w' run_id step_id] by (fastforce simp: accounted_def)
  show "accounted run_id step_id w w'" if "accounted run_id step_id w w1" "accounted run_id step_id w1 w'" "sound w" for w w1 w'
    using that by (rule accounted_trans)
qed (simp add: accounted_def)

lemmas accounts_quiet = accounting.tracks_quiet
lemmas accounts_andThen = accounting.tracks_andThen
lemmas accounts_catch = accounting.tracks_catch

lemma accounts_webhook: "accounts (cx_run_id cx) ACTION_STEP_ID (execute_action (webhook_call D i cx provider))"
  using durable.execute_accounted [of "webhook_call D i cx provider" D] by (auto simp: tracks_def webhook_call_def)

lemma accounts_run_webhook: "accounts (cx_run_id cx) ACTION_STEP_ID (run_webhook D state i cx)"
  unfolding run_webhook_def
  by (intro tracks_if accounts_quiet [OF quiet_durable_fail] accounts_andThen [OF accounts_quiet [OF quiet_configured]])
    (auto split: option.split
      intro!: accounts_andThen [OF accounts_quiet [OF durable.quiet_reconcile(2)] accounts_quiet [OF quiet_durable_fail]]
        accounts_andThen [OF accounts_webhook accounts_quiet [OF quiet_finish_ready]])

lemma quiet_restore_ready [quiet_rules]: "quiet (restore_ready state json)"
  unfolding restore_ready_def by (intro quiet_rules; simp)

lemma accounts_durable_impl: "accounts (cx_run_id cx) ACTION_STEP_ID (durable_execute_impl D state i cx)"
  unfolding durable_execute_impl_def Let_def
  by (intro accounts_andThen tracks_if accounts_run_webhook accounts_quiet quiet_rules) simp_all

lemma accounts_durable_execute: "accounts (cx_run_id cx) ACTION_STEP_ID (durable_execute D state i cx)"
  unfolding durable_execute_def
  by (intro accounts_catch accounts_durable_impl) (auto split: exn.split intro!: accounts_quiet quiet_rules)

lemma dispatches_nonneg: "store_reachable s \<Longrightarrow> 0 \<le> dispatches run_id step_id s"
  using action_count_nonneg by (auto simp: dispatches_def split: option.split)

lemma unsafe_count: "store_reachable s \<Longrightarrow> select_action run_id step_id s = Some a \<Longrightarrow> xa_retry_mode a = retry_value UNSAFE \<Longrightarrow>
   xa_dispatch_count a \<le> 1"
  using reachable_wf_inv [of s] by (auto simp: action_ok_def dest!: select_action_SomeD wf_invD(3))

section \<open>What a response rests on\<close>

lemma row_to_execution_InrD: "row_to_execution row = Inr rec \<Longrightarrow> rec = row"
  by (auto simp: row_to_execution_def split: option.splits if_splits)

lemma transition_returns:
  "transition_execution clk run_id old f ty payload lease now_ms s = (Inr row, t) \<Longrightarrow> select_execution run_id t = Some row"
  by (auto simp: transition_execution_def after_commit_def fenced_body_def transaction_def event_frame
      split: prod.splits sum.splits option.splits if_splits dest!: row_to_execution_InrD)

lemma create_or_get_returns:
  "create_or_get_execution clk run_id wt h lease now_ms s = (Inr claim, t) \<Longrightarrow> select_execution run_id t = Some (ec_execution claim)"
  by (auto simp: create_or_get_execution_def resolve_execution_conflict_def fenced_body_def transaction_def Let_def
      select_execution_def fetchone_append split: prod.splits sum.splits option.splits if_splits dest!: row_to_execution_InrD)

lemma claimed_execution:
  assumes "call (\<lambda>t. create_or_get_execution (clk t) run_id wt h lease (now t)) w = (Inr claim, w')" and "sound w"
  shows "select_execution run_id (w_db w') = Some (ec_execution claim)"
  using assms(1) by (rule call_InrE [OF _ assms(2)]) (rule create_or_get_returns)

text \<open>The workflow is durably ready, and the reference is the recorded one.\<close>

definition ready_execution :: "string \<Rightarrow> db \<Rightarrow> execution_row \<Rightarrow> bool" where
  "ready_execution run_id s row \<longleftrightarrow> select_execution run_id s = Some row \<and> x_status row = workflow_value WF_READY"

definition reference_recorded :: "string \<Rightarrow> string \<Rightarrow> string \<Rightarrow> db \<Rightarrow> bool" where
  "reference_recorded run_id step_id reference s \<longleftrightarrow> (\<exists>a result. select_action run_id step_id s = Some a
     \<and> xa_status a = action_value SUCCEEDED \<and> xa_result_json a = Some (canonical_text result)
     \<and> webhook_output (JObj result) = Some reference)"

lemma noreturn_durable_fail [noreturn_rules]: "noreturn (durable_fail cx code detail)"
  unfolding durable_fail_def by (intro noreturn_rules)

lemma finish_ready_returns:
  assumes "finish_ready D state cx ob w = (Inr rsp, w')" and w: "sound w"
    and ob: "proves (cx_run_id cx) step_id ob (w_db w)"
  shows "\<exists>reference row. rsp = action_completed state reference \<and> ready_execution (cx_run_id cx) (w_db w') row
     \<and> reference_recorded (cx_run_id cx) step_id reference (w_db w')"
proof -
  from assms(1) obtain reference row where ref: "webhook_output (JObj (ob_result ob)) = Some reference"
    and fin: "call (\<lambda>t. finalize_ready (tk_clk t) (cx_run_id cx) (canonical_text (dump_output reference))
       (cx_lease_token cx) (tk_now t)) w = (Inr row, w')"
    and st: "x_status row = workflow_value WF_READY" "rsp = action_completed state reference"
    by (auto simp: finish_ready_def split: option.splits if_splits elim!: andThenE noreturnD [OF noreturn_durable_fail])
  from fin have "select_execution (cx_run_id cx) (w_db w') = Some row"
    by (rule call_InrE [OF _ w]) (auto simp: finalize_ready_def finalize_execution_def dest!: transition_returns)
  moreover from proves_follows [OF ob quietD(1) [OF quiet_executions(3) fin w] w] ref
  have "reference_recorded (cx_run_id cx) step_id reference (w_db w')" by (auto simp: proves_def reference_recorded_def)
  ultimately show ?thesis using st by (auto simp: ready_execution_def)
qed

lemma run_webhook_returns:
  assumes "run_webhook D state i cx w = (Inr rsp, w')" and w: "sound w"
  shows "\<exists>reference row. rsp = action_completed state reference \<and> ready_execution (cx_run_id cx) (w_db w') row
     \<and> reference_recorded (cx_run_id cx) ACTION_STEP_ID reference (w_db w')"
proof -
  from assms(1) obtain provider w1 ob w2 where c: "configured (di_destination i) w = (Inr (Some provider), w1)"
    and e: "execute_action (webhook_call D i cx provider) w1 = (Inr ob, w2)" and f: "finish_ready D state cx ob w2 = (Inr rsp, w')"
    by (auto simp: run_webhook_def split: if_splits option.splits elim!: andThenE noreturnD [OF noreturn_durable_fail])
  note w1 = quietD(3) [OF quiet_configured c w]
  from tracksD [OF accounts_webhook e w1] w1 have w2: "sound w2" by (blast intro: accounted_sound)
  have "truthful (cx_run_id cx) ACTION_STEP_ID (execute_action (webhook_call D i cx provider))"
    using durable.truthful_execute [of "webhook_call D i cx provider" D] by (simp add: webhook_call_def)
  with e w1 have "proves (cx_run_id cx) ACTION_STEP_ID ob (w_db w2)" by (auto simp: truthful_def)
  from finish_ready_returns [OF f w2 this] show ?thesis .
qed

lemma restore_ready_returns:
  "restore_ready state json w = (Inr rsp, w') \<Longrightarrow> w' = w \<and> (\<exists>j reference. json = Some (Encoded j)
     \<and> webhook_output j = Some reference \<and> rsp = action_completed state reference)"
  by (auto simp: restore_ready_def split: option.splits json_text.splits)

end
