(* ===== verification/Durable_Properties.thy ===== *)
theory Durable_Properties
  imports Durable_Action Workflow_Examples
begin

text \<open>
  The properties of the durable action runtime, applied to one evaluated execution: the worker
  that holds the lease of a run claims the workflow, dispatches the webhook once and records the
  provider's reference.
\<close>

section \<open>An execution\<close>

definition dx_digests :: digests where
  "dx_digests = \<lparr>sha256_hex = (\<lambda>_. ''h''), state_text = (\<lambda>_. [])\<rparr>"

definition dx_input :: durable_input where
  "dx_input = \<lparr>di_destination = ''crm'', di_idempotency_key = ''k'', di_payload = []\<rparr>"

definition dx_authority :: authority where
  "dx_authority = \<lparr>a_tenant_id = ''T'', a_subject_id = ''u'', a_permissions = [''external-actions:execute'', ''tools:execute'']\<rparr>"

definition dx_record :: run_record where
  "dx_record = (ex_run ''r1'' ''1'')\<lparr>r_execution_authority := Some dx_authority, r_thread_id := ''action_thread_v1_h'',
     r_agent_id := ACTION_AGENT_ID, r_agent_version := ACTION_AGENT_VERSION, r_domain_id := ACTION_DOMAIN_ID,
     r_schema_version := ACTION_SCHEMA_VERSION, r_client_request_id := Some ''action-request:v1:h'',
     r_input := dump_durable_input dx_input\<rparr>"

definition dx_owned :: db where
  "dx_owned = snd (claim_next_run ex_models ex_clk ''tok'' ''w'' 30 None 1000
     (snd (create_run_with_event ex_clk dx_record ''run.queued'' [] empty_db)))"

lemma dx_reachable: "store_reachable dx_owned"
  unfolding dx_owned_def
  by (rule store_tx [OF store_tx [OF tx_start store_step.create_with_event] store_step.claim])
    (simp add: record_fields_valid_def ex_run_def dx_record_def ACTION_AGENT_ID_def ACTION_AGENT_VERSION_def ACTION_DOMAIN_ID_def
      ACTION_SCHEMA_VERSION_def)

definition dx_context :: exec_context where
  "dx_context = \<lparr>cx_run_id = ''r1'', cx_thread_id = ''action_thread_v1_h'', cx_recovered_after_restart = False,
     cx_authority = dx_authority, cx_lease_token = Some ''tok''\<rparr>"

definition dx_tick :: "provider_reply \<Rightarrow> tick" where
  "dx_tick reply = \<lparr>tk_env = id, tk_clk = ex_clk, tk_now = 2000, tk_token = ''t1'', tk_id = ''c1'', tk_fault = Completes,
     tk_registry = [(''crm'', \<lparr>pv_identity = ''crm/1'', pv_supports_idempotency = False\<rparr>)], tk_reply = reply\<rparr>"

definition dx_world :: "provider_reply \<Rightarrow> world" where
  "dx_world reply = \<lparr>w_db = dx_owned, w_ticks = (\<lambda>_. dx_tick reply), w_time = 0, w_calls = []\<rparr>"

definition dx_success :: provider_reply where
  "dx_success = Returns \<lparr>rs_provider_reference = ''ref1'', rs_result = []\<rparr>"

definition dx_run :: "provider_reply \<Rightarrow> (exn + response) \<times> world" where
  "dx_run reply = durable_execute dx_digests (durable_initial_state ''action_thread_v1_h'') dx_input dx_context (dx_world reply)"

lemma dx_sound: "sound (dx_world reply)"
  using dx_reachable by (simp add: sound_def fair_def dx_world_def dx_tick_def tx_start)

section \<open>Properties\<close>

text \<open>
  C4. Every provider call is paid for. Whatever other workers do meanwhile, whichever calls fail
  and whatever the provider answers, one execution of the action runtime ends, and the requests
  that reached a provider are at most as many as the dispatches durably claimed for the action
  since the execution began, all of them the very request the stored action describes. An action
  of a provider without idempotency therefore gets at most one request, and none from an
  execution that starts when it was already dispatched.
\<close>

theorem provider_calls_are_claimed:
  assumes "sound w" and "durable_execute D state i cx w = (r, w')"
  shows "r \<noteq> Inl OutOfFuel \<and> (\<exists>calls. w_calls w' = w_calls w @ calls
     \<and> int (length calls) \<le> dispatches (cx_run_id cx) ACTION_STEP_ID (w_db w') - dispatches (cx_run_id cx) ACTION_STEP_ID (w_db w)
     \<and> (\<forall>q\<in>set calls. \<exists>a. select_action (cx_run_id cx) ACTION_STEP_ID (w_db w') = Some a \<and> external_action_request a = Inr q
          \<and> (xa_retry_mode a = retry_value UNSAFE \<longrightarrow> length calls = 1 \<and> dispatches (cx_run_id cx) ACTION_STEP_ID (w_db w) = 0)))"
proof -
  note acc = tracksD [OF accounts_durable_execute assms(2,1)]
  from acc obtain calls where calls: "w_calls w' = w_calls w @ calls"
    "int (length calls) \<le> dispatches (cx_run_id cx) ACTION_STEP_ID (w_db w') - dispatches (cx_run_id cx) ACTION_STEP_ID (w_db w)"
    "\<forall>q\<in>set calls. \<exists>a. select_action (cx_run_id cx) ACTION_STEP_ID (w_db w') = Some a \<and> external_action_request a = Inr q"
    by (auto simp: accounted_def)
  from acc assms(1) have r: "store_reachable (w_db w)" "store_reachable (w_db w')"
    by (auto simp: sound_def dest: accounted_sound [OF _ assms(1)])
  have one: "length calls = 1 \<and> dispatches (cx_run_id cx) ACTION_STEP_ID (w_db w) = 0"
    if "select_action (cx_run_id cx) ACTION_STEP_ID (w_db w') = Some a" "xa_retry_mode a = retry_value UNSAFE" "calls \<noteq> []" for a
    using calls(2) that dispatches_nonneg [OF r(1), of "cx_run_id cx" ACTION_STEP_ID] unsafe_count [OF r(2) that(1,2)]
    by (cases calls; cases "tl calls") (auto simp: dispatches_def split: option.splits)
  with calls acc show ?thesis by (intro conjI exI [of _ calls]) (auto, metis one length_pos_if_in_set length_greater_0_conv)
qed

theorem provider_calls_are_claimed_witness:
  "1 \<le> dispatches ''r1'' ACTION_STEP_ID (w_db (snd (dx_run dx_success)))"
proof -
  have q: "map q_tool_name (w_calls (snd (dx_run dx_success))) = [WEBHOOK_SEND]" by code_simp
  have "durable_execute dx_digests (durable_initial_state ''action_thread_v1_h'') dx_input dx_context (dx_world dx_success)
      = (fst (dx_run dx_success), snd (dx_run dx_success))" by (simp add: dx_run_def)
  from provider_calls_are_claimed [OF dx_sound this] q dispatches_nonneg [OF dx_reachable, of "''r1''" ACTION_STEP_ID]
  show ?thesis by (auto simp: dx_context_def dx_world_def)
qed

text \<open>
  C5. A completed action is durably recorded. When the action runtime returns a response, the
  workflow of the run is durably ready, and the reference it answers with is the one the ledger
  holds: the action is recorded as succeeded with a result that carries it, or it was read from
  the workflow an earlier attempt had finalized, without any provider call.
\<close>

theorem completed_action_is_recorded:
  assumes "sound w" and "durable_execute D state i cx w = (Inr rsp, w')"
  shows "\<exists>reference row. rsp = action_completed state reference \<and> ready_execution (cx_run_id cx) (w_db w') row
     \<and> (reference_recorded (cx_run_id cx) ACTION_STEP_ID reference (w_db w')
        \<or> w_calls w' = w_calls w \<and> (\<exists>j. x_result_json row = Some (Encoded j) \<and> webhook_output j = Some reference))"
proof -
  from assms(2) have "durable_execute_impl D state i cx w = (Inr rsp, w')"
    by (auto simp: durable_execute_def elim!: catchE andThenE noreturnD [OF noreturn_durable_fail] split: exn.splits)
  then show ?thesis unfolding durable_execute_impl_def Let_def
  proof (cases rule: andThenE)
    case (continues claim w1)
    note w1 = quietD [OF quiet_executions(1) continues(1) assms(1)]
    show ?thesis
    proof (cases "x_status (ec_execution claim) = workflow_value WF_READY \<and> ec_outcome claim \<notin> {EX_INPUT_MISMATCH, EX_WORKFLOW_TYPE_MISMATCH}")
      case True
      with continues(2) have "restore_ready state (x_result_json (ec_execution claim)) w1 = (Inr rsp, w')" by simp
      from restore_ready_returns [OF this] w1(2) claimed_execution [OF continues(1) assms(1)] True
      show ?thesis by (auto simp: ready_execution_def)
    next
      case False
      with continues(2) have "\<exists>w2. follows w1 w2 \<and> run_webhook D state i cx w2 = (Inr rsp, w')"
        by (auto split: if_splits elim!: andThenE noreturnD [OF noreturn_durable_fail]
            dest: quietD(1) [OF quiet_executions(2) _ w1(3)] intro: follows_refl)
      then obtain w2 where m: "follows w1 w2" and k: "run_webhook D state i cx w2 = (Inr rsp, w')" by blast
      from run_webhook_returns [OF k follows_sound [OF m w1(3)]] show ?thesis by blast
    qed
  qed simp
qed

theorem completed_action_is_recorded_witness:
  "\<exists>row. ready_execution ''r1'' (w_db (snd (dx_run dx_success))) row"
proof -
  have "(case fst (dx_run dx_success) of Inr rsp \<Rightarrow> True | Inl e \<Rightarrow> False)" by code_simp
  then obtain rsp w' where "dx_run dx_success = (Inr rsp, w')" by (cases "dx_run dx_success") (auto split: sum.splits)
  with completed_action_is_recorded [OF dx_sound this [unfolded dx_run_def]] show ?thesis by (auto simp: dx_context_def)
qed

end
