(* ===== verification/Projector_Properties.thy ===== *)
theory Projector_Properties
  imports Action_Projector Durable_Properties
begin

text \<open>
  What the Action resource tells a client about the provider, proved for every reachable
  database and every run record, however old.
\<close>

section \<open>The snapshot\<close>

lemma rows_to_actions_InrD: "rows_to_actions rows = Inr recs \<Longrightarrow> recs = rows"
  by (induction rows arbitrary: recs) (auto split: sum.splits dest: row_to_action_InrD)

lemma snapshot_actions:
  "read_run_snapshot run_id n s = Inr sn \<Longrightarrow>
     set (sn_external_actions sn) = {a \<in> set (db_external_actions s). xa_run_id a = run_id}"
  by (auto simp: read_run_snapshot_def list_external_actions_def split: sum.splits dest!: rows_to_actions_InrD)

lemma row_selected: "store_reachable s \<Longrightarrow> a \<in> set (db_external_actions s) \<Longrightarrow>
   select_action (xa_run_id a) (xa_step_id a) s = Some a"
  using fetchone_key [of action_key "db_external_actions s" a] reachable_wf_inv [of s]
  by (auto simp: select_action_def wf_inv_def action_key_def)

section \<open>What a projection says\<close>

text \<open>The resource agrees with the one ledger row it was computed from.\<close>

definition reflects :: "action_resource \<Rightarrow> action_row \<Rightarrow> bool" where
  "reflects res a \<longleftrightarrow>
     (case ar_status res of
        GW_SUCCEEDED \<Rightarrow> xa_status a = action_value SUCCEEDED \<and> ar_result res = xa_provider_reference a \<and> xa_provider_reference a \<noteq> None
          \<and> ar_error_code res = None
      | GW_FAILED \<Rightarrow> ar_result res = None \<and> (if ar_error_code res = Some FAILED_CODE then xa_status a = action_value ACTION_FAILED
          else xa_status a = action_value PREPARED \<and> xa_dispatch_count a = 0)
      | GW_CANCELLED \<Rightarrow> xa_status a = action_value PREPARED \<and> xa_dispatch_count a = 0
      | GW_RECONCILING \<Rightarrow> xa_status a = action_value DISPATCHING
      | GW_RUNNING \<Rightarrow> xa_status a = action_value DISPATCHING \<or> xa_status a = action_value PREPARED \<and> xa_dispatch_count a = 0
      | GW_QUEUED \<Rightarrow> False
      | GW_OUTCOME_UNKNOWN \<Rightarrow> True)"

lemma validated_success_InrD: "validated_success a step = Inr reference \<Longrightarrow> xa_provider_reference a = Some reference"
  by (auto simp: validated_success_def split: if_splits option.splits json_text.splits)

lemma prepared_reflects: "project_prepared run i a step = Inr res \<Longrightarrow> xa_status a = action_value PREPARED \<Longrightarrow> reflects res a"
  by (auto simp: project_prepared_def unknown_resource_def reflects_def resource_def split: if_splits option.splits run_status.splits)

lemma action_reflects: "project_action run i execution a step = Inr res \<Longrightarrow> reflects res a"
  by (auto simp: project_action_def unknown_resource_def reflects_def resource_def
      dest: validated_success_InrD prepared_reflects [unfolded reflects_def] split: if_splits sum.splits)

lemma without_action_status:
  "project_without_action run i execution = Inr res \<Longrightarrow> ar_status res \<noteq> GW_SUCCEEDED \<and> ar_status res \<noteq> GW_RECONCILING
     \<and> (ar_status res = GW_FAILED \<longrightarrow> ar_error_code res \<noteq> Some FAILED_CODE)"
  by (auto simp: project_without_action_def resource_def split: run_status.splits if_splits)

lemma binding_key: "action_binding_matches D run i a \<Longrightarrow> xa_run_id a = r_run_id run \<and> xa_step_id a = ACTION_STEP_ID"
  by (simp add: action_binding_matches_def Let_def split: option.splits)

lemma project_cases:
  assumes "project D run s = Inr res" and s: "store_reachable s"
  obtains (unknown) "ar_status res = GW_OUTCOME_UNKNOWN"
  | (none) "\<forall>a\<in>set (db_external_actions s). xa_run_id a \<noteq> r_run_id run" "ar_status res \<noteq> GW_SUCCEEDED" "ar_status res \<noteq> GW_RECONCILING"
      "ar_status res = GW_FAILED \<longrightarrow> ar_error_code res \<noteq> Some FAILED_CODE"
  | (row) a where "select_action (r_run_id run) ACTION_STEP_ID s = Some a" "reflects res a"
      "\<forall>b\<in>set (db_external_actions s). xa_run_id b = r_run_id run \<longrightarrow> b = a"
proof -
  from assms(1) obtain i sn where sn: "read_run_snapshot (r_run_id run) 0 s = Inr sn" and p: "project_snapshot D run i sn = Inr res"
    by (auto simp: project_def split: sum.splits)
  note acts = snapshot_actions [OF sn]
  consider "sn_external_actions sn = []" | a where "sn_external_actions sn = [a]" | "1 < length (sn_external_actions sn)"
    by (cases "sn_external_actions sn"; cases "tl (sn_external_actions sn)") auto
  then show thesis
  proof cases
    case 1
    with p have "ar_status res = GW_OUTCOME_UNKNOWN \<or> project_without_action run i (sn_execution sn) = Inr res"
      by (auto simp: project_snapshot_def Let_def unknown_resource_def resource_def split: if_splits option.splits)
    with 1 acts without_action_status [of run i "sn_execution sn" res] show thesis by (auto intro: unknown none)
  next
    case (2 a)
    from 2 p have "ar_status res = GW_OUTCOME_UNKNOWN \<or> action_binding_matches D run i a
       \<and> (\<exists>step. project_action run i (sn_execution sn) a step = Inr res)"
      by (auto simp: project_snapshot_def Let_def unknown_resource_def resource_def split: if_splits)
    moreover from 2 acts have "a \<in> set (db_external_actions s)" "\<forall>b\<in>set (db_external_actions s). xa_run_id b = r_run_id run \<longrightarrow> b = a"
      by auto
    ultimately show thesis using row_selected [OF s, of a] row [of a] unknown binding_key [of D run i a] action_reflects by metis
  next
    case 3
    with p have "ar_status res = GW_OUTCOME_UNKNOWN"
      by (auto simp: project_snapshot_def Let_def unknown_resource_def resource_def split: if_splits)
    then show thesis by (rule unknown)
  qed
qed

lemma selected_row: "select_action run_id step_id s = Some a \<Longrightarrow> a \<in> set (db_external_actions s) \<and> xa_run_id a = run_id"
  by (auto simp: action_key_def dest!: select_action_SomeD)

definition definite :: "action_resource \<Rightarrow> bool" where
  "definite res \<longleftrightarrow> ar_status res = GW_SUCCEEDED \<or> ar_status res = GW_FAILED \<and> ar_error_code res = Some FAILED_CODE"

definition px_done :: db where
  "px_done = w_db (snd (dx_run dx_success))"

lemma px_reachable: "store_reachable px_done"
  using tracksD [OF accounts_durable_execute _ dx_sound, of dx_digests "durable_initial_state ''action_thread_v1_h''" dx_input
      dx_context dx_success "fst (dx_run dx_success)" "snd (dx_run dx_success)"] accounted_sound [OF _ dx_sound]
  by (fastforce simp: px_done_def sound_def dx_run_def)

lemma px_projected: "\<exists>res. project dx_digests dx_record px_done = Inr res \<and> ar_status res = GW_SUCCEEDED"
proof -
  have "(case project dx_digests dx_record px_done of Inr res \<Rightarrow> ar_status res = GW_SUCCEEDED | Inl e \<Rightarrow> False)" by code_simp
  then show ?thesis by (auto split: sum.splits)
qed

section \<open>Properties\<close>

text \<open>
  C10. The Action resource claims only what the ledger proves. A client is told that an action
  succeeded only when its ledger row did, with the recorded provider reference; that it failed
  definitively only when the row failed. Once any action of the run was dispatched, the resource
  never says queued or cancelled and never blames a failure before the provider, whatever the
  state of the run and however old the run record is.
\<close>

theorem resource_claims_are_proved:
  assumes "store_reachable s" and "project D run s = Inr res"
  shows "(ar_status res = GW_SUCCEEDED \<longrightarrow> (\<exists>a. select_action (r_run_id run) ACTION_STEP_ID s = Some a
        \<and> xa_status a = action_value SUCCEEDED \<and> ar_result res = xa_provider_reference a \<and> xa_provider_reference a \<noteq> None))
    \<and> (ar_status res = GW_FAILED \<longrightarrow> ar_error_code res = Some FAILED_CODE \<longrightarrow>
        (\<exists>a. select_action (r_run_id run) ACTION_STEP_ID s = Some a \<and> xa_status a = action_value ACTION_FAILED))
    \<and> (\<forall>a\<in>set (db_external_actions s). xa_run_id a = r_run_id run \<and> 0 < xa_dispatch_count a \<longrightarrow>
        ar_status res \<noteq> GW_QUEUED \<and> ar_status res \<noteq> GW_CANCELLED
        \<and> (ar_status res = GW_FAILED \<longrightarrow> ar_error_code res = Some FAILED_CODE))"
  using assms(2,1)
proof (cases rule: project_cases)
  case (row a)
  then show ?thesis by (cases "ar_status res") (auto simp: reflects_def split: if_splits)
qed auto

theorem resource_claims_are_proved_witness:
  "\<exists>a. select_action ''r1'' ACTION_STEP_ID px_done = Some a \<and> xa_status a = action_value SUCCEEDED"
proof -
  from px_projected obtain res where "project dx_digests dx_record px_done = Inr res" "ar_status res = GW_SUCCEEDED" by blast
  with resource_claims_are_proved [OF px_reachable this(1)] show ?thesis by (auto simp: dx_record_def ex_run_def)
qed

text \<open>
  C13. A definite outcome never changes. Once the resource has reported success or a definitive
  failure, every later projection of that run, from any run record, reports the same outcome
  with the same result, or that the outcome is unknown.
\<close>

theorem definite_outcome_is_stable:
  assumes s: "store_reachable s" and p: "project D run s = Inr res" and d: "definite res"
    and l: "later s t" and p': "project D run' t = Inr res'" and id: "r_run_id run' = r_run_id run"
  shows "ar_status res' = GW_OUTCOME_UNKNOWN
    \<or> (ar_status res' = ar_status res \<and> ar_result res' = ar_result res \<and> ar_error_code res' = ar_error_code res)"
  using p s
proof (cases rule: project_cases)
  case (row a)
  with d have fin: "terminal_action_status (xa_status a)"
    by (auto simp: reflects_def definite_def terminal_action_status_def)
  obtain b where b: "select_action (r_run_id run) ACTION_STEP_ID t = Some b" "action_evolves a b"
    by (rule later_action [OF l s row(1)])
  from b(2) fin have ba: "b = a" by (simp add: action_evolves_def)
  from p' reachable_later [OF l s] show ?thesis
  proof (cases rule: project_cases)
    case none
    with selected_row [OF b(1)] id show ?thesis by auto
  next
    case row': (row c)
    with selected_row [OF b(1)] id ba have "c = a" by auto
    with row(2) row'(2) d show ?thesis
      by (auto simp: reflects_def definite_def split: gateway_status.splits if_splits)
  qed simp
qed (use d in \<open>auto simp: definite_def\<close>)

theorem definite_outcome_is_stable_witness:
  "\<exists>res. project dx_digests dx_record (snd (request_cancel_atomically ex_models ex_clk ''r1'' ''T'' px_done)) = Inr res
     \<and> (ar_status res = GW_SUCCEEDED \<or> ar_status res = GW_OUTCOME_UNKNOWN)"
proof -
  let ?t = "snd (request_cancel_atomically ex_models ex_clk ''r1'' ''T'' px_done)"
  from px_projected obtain res where p: "project dx_digests dx_record px_done = Inr res" "ar_status res = GW_SUCCEEDED" by blast
  then have d: "definite res" by (simp add: definite_def)
  have l: "later px_done ?t" by (intro later_one system_step.run_store store_step.request_cancel)
  have "(case project dx_digests dx_record ?t of Inr res \<Rightarrow> True | Inl e \<Rightarrow> False)" by code_simp
  then obtain res' where p': "project dx_digests dx_record ?t = Inr res'" by (auto split: sum.splits)
  from definite_outcome_is_stable [OF px_reachable p(1) d l p' refl] p(2) p' show ?thesis by auto
qed

end
