(* ===== verification/Agent_Registry.thy ===== *)
theory Agent_Registry
  imports Durable_Action
begin

text \<open>
  \<^verbatim>\<open>runtime_service/registry.py\<close>: agent versions pinned to their input model, state
  model and runtime factory. A domain's Pydantic classes and its runtime are code behind the
  registry, so a registration carries them as functions: an input model maps a payload to the
  dump of the validated input, a state model carries the identity of its class, its routing
  attributes and its \<^verbatim>\<open>model_validate\<close>, and a runtime is a pair of methods.
\<close>

section \<open>Runtimes and registrations\<close>

record managed_runtime =
  mr_initial_state :: "string \<Rightarrow> exn + rt_state"
  mr_execute :: "rt_state \<Rightarrow> (string \<times> json) list \<Rightarrow> exec_context \<Rightarrow> response prog"

record state_model =
  sm_class :: string
  sm_domain_id :: string
  sm_schema_version :: string
  sm_validate :: "state_json \<Rightarrow> rt_state option"

record registration =
  rg_agent_id :: string
  rg_version :: string
  rg_description :: string
  rg_domain_id :: string
  rg_schema_version :: string
  rg_input_model :: "(string \<times> json) list \<Rightarrow> (string \<times> json) list option"
  rg_state_model :: state_model
  rg_factory :: managed_runtime
  rg_run_references :: "((string \<times> json) list \<Rightarrow> exn + string list) option"
  rg_public_runs_api :: bool

definition parse_input :: "registration \<Rightarrow> (string \<times> json) list \<Rightarrow> store_error + (string \<times> json) list" where
  "parse_input rg payload = (case rg_input_model rg payload of None \<Rightarrow> Inl ValidationError | Some i \<Rightarrow> Inr i)"

definition registration_parse_state :: "registration \<Rightarrow> state_json \<Rightarrow> store_error + rt_state" where
  "registration_parse_state rg payload = (case sm_validate (rg_state_model rg) payload of
      None \<Rightarrow> Inl ValidationError | Some st \<Rightarrow> Inr st)"

definition referenced_run_ids :: "registration \<Rightarrow> (string \<times> json) list \<Rightarrow> exn + string list" where
  "referenced_run_ids rg i = (case rg_run_references rg of None \<Rightarrow> Inr [] | Some resolver \<Rightarrow> resolver i)"

section \<open>The registry\<close>

record agent_registry =
  reg_registrations :: "((string \<times> string) \<times> registration) list"
  reg_state_schemas :: "((string \<times> string) \<times> state_model) list"

definition empty_registry :: agent_registry where
  "empty_registry = \<lparr>reg_registrations = [], reg_state_schemas = []\<rparr>"

text \<open>A Python dictionary assignment: an existing key keeps its place.\<close>

definition put :: "'k \<Rightarrow> 'v \<Rightarrow> ('k \<times> 'v) list \<Rightarrow> ('k \<times> 'v) list" where
  "put k v kvs = (if map_of kvs k = None then kvs @ [(k, v)] else map (\<lambda>(k', v'). (k', if k' = k then v else v')) kvs)"

definition register_agent ::
  "string \<Rightarrow> string \<Rightarrow> managed_runtime \<Rightarrow> string \<Rightarrow> ((string \<times> json) list \<Rightarrow> (string \<times> json) list option) \<Rightarrow> state_model
     \<Rightarrow> ((string \<times> json) list \<Rightarrow> exn + string list) option \<Rightarrow> bool \<Rightarrow> agent_registry \<Rightarrow> store_error + agent_registry" where
  "register_agent agent_id version factory description input_model sm resolver public R =
     (let schema_key = (sm_domain_id sm, sm_schema_version sm) in
      if map_of (reg_registrations R) (agent_id, version) \<noteq> None
      then Inl (ValueError (''Agent already registered: '' @ agent_id @ '':'' @ version))
      else if (case map_of (reg_state_schemas R) schema_key of None \<Rightarrow> False | Some existing \<Rightarrow> sm_class existing \<noteq> sm_class sm)
      then Inl (ValueError (''State schema already registered: '' @ fst schema_key @ '':'' @ snd schema_key))
      else Inr \<lparr>reg_registrations = reg_registrations R @ [((agent_id, version),
             \<lparr>rg_agent_id = agent_id, rg_version = version, rg_description = description,
              rg_domain_id = sm_domain_id sm, rg_schema_version = sm_schema_version sm, rg_input_model = input_model,
              rg_state_model = sm, rg_factory = factory, rg_run_references = resolver, rg_public_runs_api = public\<rparr>)],
           reg_state_schemas = put schema_key sm (reg_state_schemas R)\<rparr>)"

definition registration_of :: "agent_registry \<Rightarrow> string \<Rightarrow> string \<Rightarrow> store_error + registration" where
  "registration_of R agent_id version = (case map_of (reg_registrations R) (agent_id, version) of
      None \<Rightarrow> Inl (KeyError (''Unknown agent version: '' @ agent_id @ '':'' @ version))
    | Some rg \<Rightarrow> Inr rg)"

definition resolve_runtime :: "agent_registry \<Rightarrow> string \<Rightarrow> string \<Rightarrow> store_error + managed_runtime" where
  "resolve_runtime R agent_id version = (case registration_of R agent_id version of
      Inl e \<Rightarrow> Inl e | Inr rg \<Rightarrow> Inr (rg_factory rg))"

definition registry_parse_state :: "agent_registry \<Rightarrow> string \<Rightarrow> string \<Rightarrow> state_json \<Rightarrow> store_error + rt_state" where
  "registry_parse_state R domain_id schema_version payload = (case map_of (reg_state_schemas R) (domain_id, schema_version) of
      None \<Rightarrow> Inl (KeyError (''Unknown state schema: '' @ domain_id @ '':'' @ schema_version))
    | Some sm \<Rightarrow> (case sm_validate sm payload of None \<Rightarrow> Inl ValidationError | Some st \<Rightarrow> Inr st))"

text \<open>The JSON schema of an input model is generated by Pydantic and is an argument.\<close>

definition list_agents :: "(registration \<Rightarrow> json) \<Rightarrow> agent_registry
    \<Rightarrow> (string \<times> string \<times> string \<times> string \<times> string \<times> json) list" where
  "list_agents model_json_schema R =
     map (\<lambda>(_, rg). (rg_agent_id rg, rg_version rg, rg_description rg, rg_domain_id rg, rg_schema_version rg, model_json_schema rg))
     (filter (\<lambda>(_, rg). rg_public_runs_api rg) (sort_key fst (reg_registrations R)))"

section \<open>The registry as the store sees it\<close>

text \<open>\<^verbatim>\<open>bind_state_registry\<close>: the store validates states with the registered classes.\<close>

definition models_of :: "agent_registry \<Rightarrow> models" where
  "models_of R = \<lparr>m_registered = (\<lambda>d v. map_of (reg_state_schemas R) (d, v) \<noteq> None),
     m_validate = (\<lambda>d v j. case map_of (reg_state_schemas R) (d, v) of None \<Rightarrow> None | Some sm \<Rightarrow> sm_validate sm j)\<rparr>"

lemma models_parse_state: "parse_state (models_of R) d v j = registry_parse_state R d v j"
  by (simp add: parse_state_def models_of_def registry_parse_state_def split: option.split)

text \<open>
  A registry built by registrations is coherent: every entry is filed under its own agent and
  version, and every agent's schema is bound to the class of its state model, so two agents
  that share a schema share the class.
\<close>

definition filed :: "agent_registry \<Rightarrow> (string \<times> string) \<times> registration \<Rightarrow> bool" where
  "filed R e \<longleftrightarrow> (case e of (k, rg) \<Rightarrow> k = (rg_agent_id rg, rg_version rg)
     \<and> rg_domain_id rg = sm_domain_id (rg_state_model rg) \<and> rg_schema_version rg = sm_schema_version (rg_state_model rg)
     \<and> map_option sm_class (map_of (reg_state_schemas R) (rg_domain_id rg, rg_schema_version rg))
         = Some (sm_class (rg_state_model rg)))"

definition registry_inv :: "agent_registry \<Rightarrow> bool" where
  "registry_inv R \<longleftrightarrow> distinct (map fst (reg_registrations R)) \<and> list_all (filed R) (reg_registrations R)"

lemma map_of_put: "map_of (put k v kvs) = (map_of kvs)(k \<mapsto> v)"
proof (cases "map_of kvs k")
  case None
  then show ?thesis by (auto simp: put_def fun_eq_iff map_add_def split: option.split)
next
  case (Some u)
  have "map_of (map (\<lambda>(k', v'). (k', if k' = k then v else v')) kvs) k' = (if k' = k \<and> map_of kvs k \<noteq> None then Some v else map_of kvs k')" for k'
    by (induction kvs) auto
  with Some show ?thesis by (auto simp: put_def fun_eq_iff)
qed

lemma registry_inv_empty: "registry_inv empty_registry"
  by (simp add: registry_inv_def empty_registry_def)

lemma register_agent_inv:
  assumes inv: "registry_inv R" and reg: "register_agent a v f d im sm rs p R = Inr R'"
  shows "registry_inv R'"
proof -
  let ?key = "(sm_domain_id sm, sm_schema_version sm)"
  let ?new = "((a, v), \<lparr>rg_agent_id = a, rg_version = v, rg_description = d,
       rg_domain_id = sm_domain_id sm, rg_schema_version = sm_schema_version sm, rg_input_model = im, rg_state_model = sm,
       rg_factory = f, rg_run_references = rs, rg_public_runs_api = p\<rparr>)"
  from reg have fresh: "map_of (reg_registrations R) (a, v) = None"
    and same: "\<forall>e. map_of (reg_state_schemas R) ?key = Some e \<longrightarrow> sm_class e = sm_class sm"
    and R': "reg_registrations R' = reg_registrations R @ [?new]" "reg_state_schemas R' = put ?key sm (reg_state_schemas R)"
    by (auto simp: register_agent_def Let_def split: if_splits option.splits)
  have "filed R' e" if "filed R e" for e
  proof -
    obtain k rg where e: "e = (k, rg)" by fastforce
    show ?thesis
    proof (cases "(rg_domain_id rg, rg_schema_version rg) = ?key")
      case True
      with that e obtain m where "map_of (reg_state_schemas R) ?key = Some m" "sm_class m = sm_class (rg_state_model rg)"
        by (auto simp: filed_def)
      with same that e True show ?thesis by (simp add: filed_def R'(2) map_of_put)
    next
      case False
      then have eq: "map_of (reg_state_schemas R') (rg_domain_id rg, rg_schema_version rg)
          = map_of (reg_state_schemas R) (rg_domain_id rg, rg_schema_version rg)" unfolding R'(2) map_of_put by (rule fun_upd_other)
      from that show ?thesis unfolding filed_def e prod.case eq .
    qed
  qed
  then have "list_all (filed R') (reg_registrations R)"
    using inv by (auto simp: registry_inv_def list_all_iff)
  moreover have "filed R' ?new" by (simp add: filed_def R'(2) map_of_put)
  ultimately show ?thesis using inv fresh by (simp add: registry_inv_def R'(1) map_of_eq_None_iff)
qed

section \<open>Registries that registration builds\<close>

definition registry_step :: "agent_registry \<Rightarrow> agent_registry \<Rightarrow> bool" where
  "registry_step R R' \<longleftrightarrow> (\<exists>a v f d im sm rs p. register_agent a v f d im sm rs p R = Inr R')"

interpretation registry: transactional empty_registry registry_step registry_inv
  by unfold_locales (auto simp: registry_step_def registry_inv_empty dest: register_agent_inv)

lemma registered_filed:
  assumes "tx_reachable empty_registry registry_step R" and "registration_of R a v = Inr rg"
  shows "filed R ((a, v), rg)"
  using registry.reachable_invar [OF assms(1)] assms(2)
  by (auto simp: registry_inv_def registration_of_def list_all_iff split: option.splits dest: map_of_SomeD)

text \<open>
  C40. One schema, one state class. In every registry that registrations build, an agent version
  is found under its own name, and the state class that the store uses for a schema is the class
  of every agent version registered with that schema; two of them never disagree.
\<close>

theorem one_state_class_per_schema:
  assumes "tx_reachable empty_registry registry_step R"
    and "registration_of R a v = Inr rg" and "registration_of R a' v' = Inr rg'"
    and "rg_domain_id rg' = rg_domain_id rg" and "rg_schema_version rg' = rg_schema_version rg"
  shows "rg_agent_id rg = a \<and> rg_version rg = v \<and> sm_class (rg_state_model rg') = sm_class (rg_state_model rg)
    \<and> map_option sm_class (map_of (reg_state_schemas R) (rg_domain_id rg, rg_schema_version rg)) = Some (sm_class (rg_state_model rg))"
proof -
  from registered_filed [OF assms(1,2)] have 1: "a = rg_agent_id rg" "v = rg_version rg"
    "map_option sm_class (map_of (reg_state_schemas R) (rg_domain_id rg, rg_schema_version rg)) = Some (sm_class (rg_state_model rg))"
    unfolding filed_def by blast+
  from registered_filed [OF assms(1,3)]
  have "map_option sm_class (map_of (reg_state_schemas R) (rg_domain_id rg, rg_schema_version rg)) = Some (sm_class (rg_state_model rg'))"
    unfolding filed_def prod.case assms(4,5) by blast
  with 1 show ?thesis by simp
qed

definition rx_model :: state_model where
  "rx_model = \<lparr>sm_class = ''S'', sm_domain_id = ''d'', sm_schema_version = ''v'', sm_validate = (\<lambda>_. None)\<rparr>"

definition rx_runtime :: managed_runtime where
  "rx_runtime = \<lparr>mr_initial_state = (\<lambda>_. Inl AssertionError), mr_execute = (\<lambda>_ _ _. raise AssertionError)\<rparr>"

definition rx_registry :: agent_registry where
  "rx_registry = projr (register_agent ''a'' ''1'' rx_runtime ''agent'' Some rx_model None True empty_registry)"

theorem one_state_class_per_schema_witness:
  "map_option sm_class (map_of (reg_state_schemas rx_registry) (''d'', ''v'')) = Some ''S''"
proof -
  have "register_agent ''a'' ''1'' rx_runtime ''agent'' Some rx_model None True empty_registry = Inr rx_registry"
    by (simp add: rx_registry_def register_agent_def empty_registry_def)
  then have r: "tx_reachable empty_registry registry_step rx_registry"
    unfolding registry_step_def by (intro tx_step [OF tx_start] exI)
  obtain rg where rg: "registration_of rx_registry ''a'' ''1'' = Inr rg" "rg_state_model rg = rx_model"
    "rg_domain_id rg = ''d''" "rg_schema_version rg = ''v''"
    by (simp add: registration_of_def rx_registry_def register_agent_def empty_registry_def rx_model_def)
  from one_state_class_per_schema [OF r rg(1) rg(1) refl refl] rg show ?thesis by (simp add: rx_model_def)
qed

end
