(* ===== verification/Run_Manager.thy ===== *)
theory Run_Manager
  imports Agent_Registry Runtime_Auth
begin

text \<open>
  \<^verbatim>\<open>runtime_service/manager.py\<close>: submission, and one attempt of a claimed run from the
  checkpoint load to the commit of its outcome. Each method is a worker program; the heartbeat
  thread of the attempt is one of the others a schedule stands for, and the flag it raises when
  a renewal fails is the argument \<open>lost\<close>, read at the worker's own pace. How Python prints an
  exception and its traceback is a parameter.
\<close>

section \<open>The manager\<close>

record manager =
  mg_registry :: agent_registry
  mg_owner_id :: string
  mg_lease_duration :: int
  mg_reconciliation_required :: "(string \<Rightarrow> db \<Rightarrow> bool) option"
  mg_error_text :: "exn \<Rightarrow> string"
  mg_traceback_text :: "exn \<Rightarrow> string"

abbreviation mg_models :: "manager \<Rightarrow> models" where
  "mg_models G \<equiv> models_of (mg_registry G)"

record run_create_request =
  rq_thread_id :: string
  rq_agent_id :: string
  rq_agent_version :: string
  rq_input :: "(string \<times> json) list"
  rq_state :: "state_json option"
  rq_client_request_id :: "string option"

definition store :: "store_error + 'a \<Rightarrow> 'a prog" where
  "store r = (case r of Inl e \<Rightarrow> raise (StoreExn e) | Inr x \<Rightarrow> ret x)"

section \<open>Submission\<close>

fun assert_referenced_runs_visible :: "manager \<Rightarrow> string list \<Rightarrow> string \<Rightarrow> unit prog" where
  "assert_referenced_runs_visible G [] tenant_id = ret ()"
| "assert_referenced_runs_visible G (run_id # run_ids) tenant_id =
     andThen (read (get_run_for_tenant (mg_models G) run_id tenant_id)) (\<lambda>found.
       if found = None then raise (StoreExn (KeyError ''Referenced run not found''))
       else assert_referenced_runs_visible G run_ids tenant_id)"

definition new_run :: "registration \<Rightarrow> tenant_context \<Rightarrow> run_create_request \<Rightarrow> (string \<times> json) list \<Rightarrow> rt_state option \<Rightarrow> tick \<Rightarrow> run_record" where
  "new_run rg tc q i state t = \<lparr>r_run_id = ''run_'' @ tk_id t, r_tenant_id = tc_tenant_id tc,
     r_execution_authority = Some (context_execution_authority tc), r_thread_id = rq_thread_id q, r_agent_id = rq_agent_id q,
     r_agent_version = rq_agent_version q, r_domain_id = rg_domain_id rg, r_schema_version = rg_schema_version rg,
     r_status = QUEUED, r_output_message = None, r_validation_errors = [], r_error_code = None, r_error = None, r_attempt = 0,
     r_cancel_requested = False, r_client_request_id = rq_client_request_id q, r_created_at = tk_clk t 0,
     r_updated_at = tk_clk t 1, r_started_at = None, r_completed_at = None, r_lease_owner_id = None, r_lease_token = None,
     r_lease_heartbeat_at = None, r_lease_expires_at = None, r_checkpoint_base_revision = None, r_input = i, r_state = state\<rparr>"

definition queued_payload :: "tenant_context \<Rightarrow> run_record \<Rightarrow> (string \<times> json) list" where
  "queued_payload tc run =
     [(''agent_id'', JStr (r_agent_id run)), (''agent_version'', JStr (r_agent_version run)),
      (''domain_id'', JStr (r_domain_id run)), (''schema_version'', JStr (r_schema_version run)),
      (''tenant_id'', JStr (r_tenant_id run)), (''subject_id'', JStr (tc_subject_id tc)),
      (''thread_id'', JStr (r_thread_id run)), (''client_request_id'', jopt_str (r_client_request_id run))]"

text \<open>The record is validated when it is built, before the transaction starts.\<close>

definition create_queued_run ::
  "registration \<Rightarrow> tenant_context \<Rightarrow> run_create_request \<Rightarrow> (string \<times> json) list \<Rightarrow> rt_state option \<Rightarrow> run_record prog" where
  "create_queued_run rg tc q i state = call (\<lambda>t s. let run = new_run rg tc q i state t in
     if \<not> record_fields_valid run then (Inl ValidationError, s)
     else create_run_with_event (\<lambda>n. tk_clk t (n + 2)) run ''run.queued'' (queued_payload tc run) s)"

definition find_existing :: "manager \<Rightarrow> tenant_context \<Rightarrow> run_create_request \<Rightarrow> run_record option prog" where
  "find_existing G tc q = (if opt_truthy (rq_client_request_id q)
     then read (get_run_by_client_request_id (mg_models G) (tc_tenant_id tc) (the (rq_client_request_id q)))
     else ret None)"

definition submit_new ::
  "manager \<Rightarrow> tenant_context \<Rightarrow> run_create_request \<Rightarrow> registration \<Rightarrow> (string \<times> json) list \<Rightarrow> rt_state option \<Rightarrow> run_record prog" where
  "submit_new G tc q rg i state = catch (create_queued_run rg tc q i state) (\<lambda>e.
     if e \<noteq> StoreExn IntegrityError \<or> \<not> opt_truthy (rq_client_request_id q) then raise e
     else andThen (find_existing G tc q) (\<lambda>existing. case existing of
         None \<Rightarrow> raise e | Some run \<Rightarrow> ret run))"

definition submit :: "manager \<Rightarrow> tenant_context \<Rightarrow> run_create_request \<Rightarrow> run_record prog" where
  "submit G tc q =
     andThen (store (registration_of (mg_registry G) (rq_agent_id q) (rq_agent_version q))) (\<lambda>rg.
     andThen (store (parse_input rg (rq_input q))) (\<lambda>i.
     andThen (lift (referenced_run_ids rg i)) (\<lambda>refs.
     andThen (assert_referenced_runs_visible G refs (tc_tenant_id tc)) (\<lambda>_.
     andThen (case rq_state q of None \<Rightarrow> ret None
       | Some j \<Rightarrow> andThen (store (registration_parse_state rg j)) (\<lambda>st. ret (Some st))) (\<lambda>state.
     if (case state of None \<Rightarrow> False | Some st \<Rightarrow> st_thread_id st \<noteq> rq_thread_id q)
     then raise (StoreExn (ValueError ''state.thread_id must match request.thread_id''))
     else andThen (find_existing G tc q) (\<lambda>existing. case existing of
         Some run \<Rightarrow> ret run
       | None \<Rightarrow> submit_new G tc q rg i state))))))"

definition manager_get_run :: "manager \<Rightarrow> tenant_context \<Rightarrow> string \<Rightarrow> run_record option prog" where
  "manager_get_run G tc run_id = read (get_run_for_tenant (mg_models G) run_id (tc_tenant_id tc))"

definition request_cancel :: "manager \<Rightarrow> tenant_context \<Rightarrow> string \<Rightarrow> run_record prog" where
  "request_cancel G tc run_id = call (\<lambda>t. request_cancel_atomically (mg_models G) (tk_clk t) run_id (tc_tenant_id tc))"

section \<open>Checks around an attempt\<close>

definition validate_runtime_state :: "registration \<Rightarrow> rt_state \<Rightarrow> string \<Rightarrow> string \<Rightarrow> store_error + rt_state" where
  "validate_runtime_state rg state thread_id boundary = (case registration_parse_state rg (model_dump state) of
      Inl _ \<Rightarrow> Inl (ValueError (''Runtime '' @ boundary @ '' state does not match registered schema ''
        @ rg_domain_id rg @ '':'' @ rg_schema_version rg))
    | Inr validated \<Rightarrow> if st_thread_id validated \<noteq> thread_id
        then Inl (ValueError (''Runtime '' @ boundary @ '' state.thread_id must match run.thread_id''))
        else Inr validated)"

definition execution_authority :: "run_record \<Rightarrow> store_error + authority" where
  "execution_authority run = (case r_execution_authority run of
      None \<Rightarrow> Inr \<lparr>a_tenant_id = r_tenant_id run, a_subject_id = ''legacy-unknown'', a_permissions = []\<rparr>
    | Some auth \<Rightarrow> if a_tenant_id auth \<noteq> r_tenant_id run
        then Inl (ValueError ''Persisted execution authority tenant does not match run tenant'') else Inr auth)"

definition recoverable_run_error :: "agent_registry \<Rightarrow> run_record \<Rightarrow> store_error option" where
  "recoverable_run_error R run =
     (if r_status run = RUNNING \<and> r_checkpoint_base_revision run = None
      then Some (RuntimeError (''RuntimeManager cannot start: running Run '' @ r_run_id run
        @ '' has no checkpoint base revision; drain legacy nonterminal Runs before enabling thread serialization''))
      else case registration_of R (r_agent_id run) (r_agent_version run) of
          Inl _ \<Rightarrow> Some (RuntimeError (''RuntimeManager cannot start: recoverable run '' @ r_run_id run
            @ '' requires unregistered Agent version '' @ r_agent_id run @ '':'' @ r_agent_version run))
        | Inr rg \<Rightarrow>
            if rg_domain_id rg \<noteq> r_domain_id run \<or> rg_schema_version rg \<noteq> r_schema_version run
            then Some (RuntimeError (''RuntimeManager cannot start: recoverable run '' @ r_run_id run @ '' schema ''
              @ r_domain_id run @ '':'' @ r_schema_version run @ '' does not match its registered Agent version''))
            else None)"

fun assert_recoverable_runs_registered :: "agent_registry \<Rightarrow> run_record list \<Rightarrow> store_error option" where
  "assert_recoverable_runs_registered R [] = None"
| "assert_recoverable_runs_registered R (run # runs) = (case recoverable_run_error R run of
      Some e \<Rightarrow> Some e | None \<Rightarrow> assert_recoverable_runs_registered R runs)"

definition start_checks :: "manager \<Rightarrow> unit prog" where
  "start_checks G = andThen (read (list_recoverable_runs (mg_models G))) (\<lambda>runs.
     case assert_recoverable_runs_registered (mg_registry G) runs of None \<Rightarrow> ret () | Some e \<Rightarrow> raise (StoreExn e))"

section \<open>Committing an outcome\<close>

definition mark_cancelled :: "run_record \<Rightarrow> string \<Rightarrow> string \<Rightarrow> unit prog" where
  "mark_cancelled run reason lease_token =
     andThen (call (\<lambda>t. commit_cancelled_run (tk_clk t) run reason lease_token (tk_now t))) (\<lambda>_. ret ())"

definition require_run :: "manager \<Rightarrow> string \<Rightarrow> run_record prog" where
  "require_run G run_id = andThen (read (get_run_internal (mg_models G) run_id)) (\<lambda>found. case found of
      None \<Rightarrow> raise (StoreExn (KeyError (''Run not found: '' @ run_id))) | Some run \<Rightarrow> ret run)"

definition unless_lost :: "(nat \<Rightarrow> bool) \<Rightarrow> unit prog \<Rightarrow> unit prog" where
  "unless_lost lost m w = (if lost (w_time w) then ret () w else m w)"

definition RESOLUTION_CODES :: "string list" where
  "RESOLUTION_CODES = [UNKNOWN_CODE, INCOMPLETE_CODE, FAILED_CODE, ''run_cancel_requested'']"

definition SAFETY_CODES :: "string list" where
  "SAFETY_CODES = [UNKNOWN_CODE, INCOMPLETE_CODE, FAILED_CODE]"

definition code_in :: "string list \<Rightarrow> exn \<Rightarrow> bool" where
  "code_in codes e \<longleftrightarrow> (case execution_code e of None \<Rightarrow> False | Some code \<Rightarrow> code \<in> set codes)"

definition commit_pending :: "manager \<Rightarrow> run_record \<Rightarrow> string \<Rightarrow> unit prog" where
  "commit_pending G run lease_token = andThen (call (\<lambda>t. commit_reconciliation_pending (tk_clk t) (r_run_id run) (r_tenant_id run)
     lease_token PENDING_CODE (mg_error_text G ReconciliationPendingError) (tk_now t))) (\<lambda>_. ret ())"

definition cancel_latest :: "manager \<Rightarrow> run_record \<Rightarrow> string \<Rightarrow> string \<Rightarrow> (run_record \<Rightarrow> run_record) \<Rightarrow> unit prog" where
  "cancel_latest G run reason lease_token f =
     andThen (require_run G (r_run_id run)) (\<lambda>latest. mark_cancelled (f latest) reason lease_token)"

definition commit_failure :: "manager \<Rightarrow> run_record \<Rightarrow> string \<Rightarrow> exn \<Rightarrow> unit prog" where
  "commit_failure G run lease_token e =
     (let safety = code_in SAFETY_CODES e in
      andThen (require_run G (r_run_id run)) (\<lambda>latest.
      if r_cancel_requested latest \<and> \<not> safety
      then mark_cancelled latest ''cancelled_during_failure_boundary'' lease_token
      else andThen (call (\<lambda>t. commit_failed_run (tk_clk t) run lease_token
          (case execution_code e of Some code \<Rightarrow> code | None \<Rightarrow> ''runtime_execution_failed'') (mg_error_text G e)
          (if execution_code e \<noteq> None then None else Some (mg_traceback_text G e)) safety (tk_now t))) (\<lambda>result.
        if fst result = CANCEL_REQUESTED \<and> \<not> safety
        then cancel_latest G run ''cancelled_during_failure_boundary'' lease_token id
        else ret ())))"

text \<open>The two \<^verbatim>\<open>except\<close> clauses of an attempt.\<close>

definition failure_boundary :: "manager \<Rightarrow> (nat \<Rightarrow> bool) \<Rightarrow> string \<Rightarrow> bool \<Rightarrow> run_record \<Rightarrow> exn \<Rightarrow> unit prog" where
  "failure_boundary G lost lease_token reconcile run e = unless_lost lost
     (if e = ReconciliationPendingError then commit_pending G run lease_token
      else if (r_error_code run = Some PENDING_CODE \<or> reconcile) \<and> \<not> code_in RESOLUTION_CODES e
      then commit_pending G run lease_token
      else commit_failure G run lease_token e)"

section \<open>One attempt\<close>

definition completed_record :: "run_record \<Rightarrow> response \<Rightarrow> rt_state \<Rightarrow> run_record" where
  "completed_record run rsp state = run\<lparr>r_state := Some state, r_output_message := Some (rp_message rsp),
     r_validation_errors := rp_validation_errors rsp, r_error_code := None, r_error := None\<rparr>"

definition commit_completion :: "manager \<Rightarrow> run_record \<Rightarrow> string \<Rightarrow> response \<Rightarrow> rt_state \<Rightarrow> unit prog" where
  "commit_completion G run lease_token rsp state =
     andThen (call (\<lambda>t. commit_completed_run (mg_models G) (tk_clk t) (completed_record run rsp state) lease_token (tk_now t))) (\<lambda>result.
     if fst result = CANCEL_REQUESTED
     then cancel_latest G run ''cancelled_after_execution_boundary'' lease_token (\<lambda>latest. completed_record latest rsp state)
     else ret ())"

definition checkpoint_conflict :: "manager \<Rightarrow> run_record \<Rightarrow> string \<Rightarrow> bool \<Rightarrow> unit prog" where
  "checkpoint_conflict G run lease_token reconcile =
     (if reconcile
      then andThen (call (\<lambda>t. quarantine_checkpoint_conflict_for_reconciliation (tk_clk t) run lease_token ''load'' (tk_now t))) (\<lambda>_. ret ())
      else andThen (call (\<lambda>t. commit_checkpoint_conflict (tk_clk t) run lease_token ''load'' (tk_now t))) (\<lambda>result.
        if fst result = CANCEL_REQUESTED then cancel_latest G run ''cancelled_before_execution_boundary'' lease_token id
        else ret ()))"

definition run_attempt ::
  "manager \<Rightarrow> run_record \<Rightarrow> string \<Rightarrow> bool \<Rightarrow> registration \<Rightarrow> thread_snapshot \<Rightarrow> (response \<times> rt_state) prog" where
  "run_attempt G run lease_token recovered rg checkpoint =
     andThen (store (resolve_runtime (mg_registry G) (r_agent_id run) (r_agent_version run))) (\<lambda>runtime.
     andThen (case r_state run of Some st \<Rightarrow> ret (''request'', st)
       | None \<Rightarrow> (case ts_state checkpoint of Some st \<Rightarrow> ret (''thread_store'', st)
         | None \<Rightarrow> andThen (lift (mr_initial_state runtime (r_thread_id run))) (\<lambda>st. ret (''new_state'', st)))) (\<lambda>(source, candidate).
     andThen (store (validate_runtime_state rg candidate (r_thread_id run) ''initial_state'')) (\<lambda>state.
     andThen (call (\<lambda>t. append_attempt_event (tk_clk t) (r_run_id run) (Some lease_token) ''checkpoint.loaded''
        [(''source'', JStr source), (''revision'', JInt (ts_revision checkpoint))] (tk_now t))) (\<lambda>_.
     andThen (store (parse_input rg (r_input run))) (\<lambda>i.
     andThen (lift (referenced_run_ids rg i)) (\<lambda>refs.
     andThen (assert_referenced_runs_visible G refs (r_tenant_id run)) (\<lambda>_.
     andThen (store (execution_authority run)) (\<lambda>auth.
     andThen (mr_execute runtime state i \<lparr>cx_run_id = r_run_id run, cx_thread_id = r_thread_id run,
        cx_recovered_after_restart = recovered, cx_authority = auth, cx_lease_token = Some lease_token\<rparr>) (\<lambda>rsp.
     andThen (store (validate_runtime_state rg (rp_state rsp) (r_thread_id run) ''execute'')) (\<lambda>result_state.
     ret (rsp, result_state)))))))))))"

text \<open>Up to the runtime's response; \<open>None\<close> when the load already ended the attempt.\<close>

definition load_and_run :: "manager \<Rightarrow> run_record \<Rightarrow> string \<Rightarrow> bool \<Rightarrow> bool \<Rightarrow> (response \<times> rt_state) option prog" where
  "load_and_run G run lease_token recovered reconcile =
     andThen (store (registration_of (mg_registry G) (r_agent_id run) (r_agent_version run))) (\<lambda>rg.
     if r_domain_id run \<noteq> rg_domain_id rg \<or> r_schema_version run \<noteq> rg_schema_version rg
     then raise (StoreExn (ValueError (''Persisted run schema does not match its registered runtime: ''
       @ r_domain_id run @ '':'' @ r_schema_version run)))
     else andThen (attempt (read (load_thread_state_snapshot (mg_models G) (r_thread_id run) (r_tenant_id run) (Some (r_domain_id run))
         (Some (r_schema_version run)) (r_checkpoint_base_revision run) True))) (\<lambda>loaded. case loaded of
       Inl e \<Rightarrow> (case e of
           StoreExn (ThreadCheckpointRevisionConflictError expected observed) \<Rightarrow>
             andThen (checkpoint_conflict G run lease_token reconcile) (\<lambda>_. ret None)
         | _ \<Rightarrow> raise e)
     | Inr checkpoint \<Rightarrow> andThen (run_attempt G run lease_token recovered rg checkpoint) (\<lambda>r. ret (Some r))))"

definition reconcile_before_cancelling :: "manager \<Rightarrow> run_record \<Rightarrow> bool \<Rightarrow> bool prog" where
  "reconcile_before_cancelling G run recovered =
     (if \<not> recovered then ret False
      else if r_error_code run = Some PENDING_CODE then ret True
      else case mg_reconciliation_required G of None \<Rightarrow> ret False
        | Some required \<Rightarrow> read (\<lambda>s. Inr (required (r_run_id run) s)))"

definition attempt_and_commit :: "manager \<Rightarrow> (nat \<Rightarrow> bool) \<Rightarrow> lease_claim \<Rightarrow> bool \<Rightarrow> unit prog" where
  "attempt_and_commit G lost claim reconcile =
     (let run = c_run claim; token = c_lease_token claim in
      andThen (attempt (load_and_run G run token (c_recovery_reason claim \<noteq> None) reconcile)) (\<lambda>outcome. case outcome of
        Inl e \<Rightarrow> failure_boundary G lost token reconcile run e
      | Inr None \<Rightarrow> ret ()
      | Inr (Some (rsp, state)) \<Rightarrow> unless_lost lost
          (catch (commit_completion G run token rsp state)
            (failure_boundary G lost token reconcile (completed_record run rsp state)))))"

definition execute_owned_run :: "manager \<Rightarrow> (nat \<Rightarrow> bool) \<Rightarrow> lease_claim \<Rightarrow> unit prog" where
  "execute_owned_run G lost claim = unless_lost lost
     (let run = c_run claim in
      andThen (reconcile_before_cancelling G run (c_recovery_reason claim \<noteq> None)) (\<lambda>reconcile.
      if r_cancel_requested run \<and> \<not> reconcile
      then mark_cancelled run ''cancelled_after_start_claim'' (c_lease_token claim)
      else attempt_and_commit G lost claim reconcile))"

section \<open>Claims of a worker\<close>

text \<open>
  The bookkeeping the workers of one manager share, changed only under the heartbeat lock: the
  lease tokens with a heartbeat, the claim generation held per run, and the latch that stops
  renewals at shutdown.
\<close>

record claim_book =
  cb_active_heartbeats :: "string list"
  cb_owned_claims :: "(string \<times> string) list"
  cb_renewals_disabled :: bool

definition admit_claim :: "lease_claim \<Rightarrow> claim_book \<Rightarrow> bool \<times> claim_book" where
  "admit_claim claim cb = (if cb_renewals_disabled cb then (False, cb)
     else (True, cb\<lparr>cb_active_heartbeats := c_lease_token claim # removeAll (c_lease_token claim) (cb_active_heartbeats cb),
       cb_owned_claims := put (r_run_id (c_run claim)) (c_lease_token claim) (cb_owned_claims cb)\<rparr>))"

definition release_claim :: "lease_claim \<Rightarrow> run_record option \<Rightarrow> claim_book \<Rightarrow> claim_book" where
  "release_claim claim persisted cb =
     (let cb' = cb\<lparr>cb_active_heartbeats := removeAll (c_lease_token claim) (cb_active_heartbeats cb)\<rparr> in
      if (case persisted of None \<Rightarrow> True | Some run \<Rightarrow> r_lease_token run \<noteq> Some (c_lease_token claim))
         \<and> map_of (cb_owned_claims cb) (r_run_id (c_run claim)) = Some (c_lease_token claim)
      then cb'\<lparr>cb_owned_claims := filter (\<lambda>(k, _). k \<noteq> r_run_id (c_run claim)) (cb_owned_claims cb)\<rparr> else cb')"

text \<open>The lease of a claim is given up at once when renewals are already off.\<close>

definition relinquish :: "string \<Rightarrow> string \<Rightarrow> unit prog" where
  "relinquish run_id lease_token = catch
     (andThen (call (\<lambda>t. expire_run_lease (tk_clk t) run_id lease_token (tk_now t))) (\<lambda>_. ret ())) (\<lambda>_. ret ())"

fun expire_claims :: "(string \<times> string) list \<Rightarrow> unit prog" where
  "expire_claims [] = ret ()"
| "expire_claims ((run_id, token) # claims) = andThen (relinquish run_id token) (\<lambda>_. expire_claims claims)"

definition expire_drained_claims :: "claim_book \<Rightarrow> claim_book prog" where
  "expire_drained_claims cb = andThen (expire_claims (cb_owned_claims cb)) (\<lambda>_. ret (cb\<lparr>cb_owned_claims := []\<rparr>))"

text \<open>The best-effort read after an attempt; whatever the attempt raised is raised again.\<close>

definition execute_claim :: "manager \<Rightarrow> (nat \<Rightarrow> bool) \<Rightarrow> lease_claim \<Rightarrow> claim_book \<Rightarrow> ((exn + unit) \<times> claim_book) prog" where
  "execute_claim G lost claim cb = (case admit_claim claim cb of
      (False, cb1) \<Rightarrow> andThen (relinquish (r_run_id (c_run claim)) (c_lease_token claim)) (\<lambda>_. ret (Inr (), cb1))
    | (True, cb1) \<Rightarrow> andThen (attempt (execute_owned_run G lost claim)) (\<lambda>outcome.
        andThen (catch (read (get_run_internal (mg_models G) (r_run_id (c_run claim)))) (\<lambda>_. ret None)) (\<lambda>persisted.
        ret (outcome, release_claim claim persisted cb1))))"

text \<open>One round of the worker loop up to the claim; \<^verbatim>\<open>None\<close> is a round without work.\<close>

fun retryable :: "exn \<Rightarrow> bool" where
  "retryable OperationalError = True"
| "retryable (StoreExn IntegrityError) = True"
| "retryable _ = False"

definition poll :: "manager \<Rightarrow> lease_claim option prog" where
  "poll G = catch
     (andThen (call (\<lambda>t. finalize_next_queued_cancellation (mg_models G) (tk_clk t))) (\<lambda>cancelled.
        if cancelled \<noteq> None then ret None
        else call (\<lambda>t. claim_next_run (mg_models G) (tk_clk t) (tk_token t) (mg_owner_id G) (mg_lease_duration G)
          (Some PENDING_CODE) (tk_now t))))
     (\<lambda>e. if retryable e then ret None else raise e)"

end
