(* ===== verification/Action_Service.thy ===== *)
theory Action_Service
  imports Run_Manager Action_Projector
begin

text \<open>
  How the service puts the parts together, \<^verbatim>\<open>api/main.py\<close>: the durable action domain is
  registered as a private agent of the manager, and \<^verbatim>\<open>DurableActionGateway\<close> of
  \<^verbatim>\<open>runtime_service/action_gateway_service.py\<close> turns a client's request into a run of it and
  answers with the projected resource.
\<close>

section \<open>The action domain as a registered agent\<close>

definition durable_runtime :: "digests \<Rightarrow> managed_runtime" where
  "durable_runtime D = \<lparr>mr_initial_state = (\<lambda>thread_id. Inr (durable_initial_state thread_id)),
     mr_execute = (\<lambda>state kvs cx. case validate_durable_input kvs of
        Inl e \<Rightarrow> raise (StoreExn e) | Inr i \<Rightarrow> durable_execute D state i cx)\<rparr>"

text \<open>\<^verbatim>\<open>DurableActionState.model_validate\<close>: no field but an optional result.\<close>

definition validate_action_state :: "state_json \<Rightarrow> rt_state option" where
  "validate_action_state j =
     (let state = \<lambda>result. Some \<lparr>st_domain_id = ACTION_DOMAIN_ID, st_schema_version = ACTION_SCHEMA_VERSION,
        st_thread_id = sj_thread_id j, st_execution_trace = sj_execution_trace j, st_fields = [(''result'', result)]\<rparr> in
      if \<not> only_keys [''result''] (sj_fields j) then None
      else case map_of (sj_fields j) ''result'' of
          None \<Rightarrow> state JNull
        | Some JNull \<Rightarrow> state JNull
        | Some v \<Rightarrow> (case webhook_output v of None \<Rightarrow> None | Some reference \<Rightarrow> state (JObj (dump_output reference))))"

definition action_state_model :: state_model where
  "action_state_model = \<lparr>sm_class = ''DurableActionState'', sm_domain_id = ACTION_DOMAIN_ID,
     sm_schema_version = ACTION_SCHEMA_VERSION, sm_validate = validate_action_state\<rparr>"

definition action_input_model :: "(string \<times> json) list \<Rightarrow> (string \<times> json) list option" where
  "action_input_model kvs = (case validate_durable_input kvs of Inl _ \<Rightarrow> None | Inr i \<Rightarrow> Some (dump_durable_input i))"

definition register_action_agent :: "digests \<Rightarrow> agent_registry \<Rightarrow> store_error + agent_registry" where
  "register_action_agent D = register_agent ACTION_AGENT_ID ACTION_AGENT_VERSION (durable_runtime D)
     ''Private single-step domain for the durable Action API facade.'' action_input_model action_state_model None False"

definition action_registry :: "digests \<Rightarrow> agent_registry" where
  "action_registry D = (case register_action_agent D empty_registry of Inr R \<Rightarrow> R | Inl _ \<Rightarrow> empty_registry)"

section \<open>The gateway\<close>

definition assert_same_request :: "digests \<Rightarrow> run_record \<Rightarrow> durable_input \<Rightarrow> gateway_error option" where
  "assert_same_request D run expected =
     (if \<not> is_action_run run then Some (EvidenceIncomplete ''Reserved Action namespace is owned by a non-Action Run'')
      else case persisted_action_input run of
          Inl _ \<Rightarrow> Some (EvidenceIncomplete ''Persisted Action input is invalid'')
        | Inr persisted \<Rightarrow>
            if di_idempotency_key persisted \<noteq> di_idempotency_key expected
               \<or> action_fingerprint D persisted \<noteq> action_fingerprint D expected
            then Some IdempotencyKeyReused else None)"

definition project_run :: "digests \<Rightarrow> run_record \<Rightarrow> (gateway_error + action_resource) prog" where
  "project_run D run = read (\<lambda>s. Inr (project D run s))"

text \<open>The answer to a request for the run found or created; the flag is \<^verbatim>\<open>existed\<close>.\<close>

definition submitted_action ::
  "digests \<Rightarrow> run_record \<Rightarrow> durable_input \<Rightarrow> bool \<Rightarrow> (gateway_error + action_resource \<times> bool) prog" where
  "submitted_action D run expected existed = (case assert_same_request D run expected of
      Some e \<Rightarrow> ret (Inl e)
    | None \<Rightarrow> andThen (project_run D run) (\<lambda>r. ret (case r of Inl e \<Rightarrow> Inl e | Inr res \<Rightarrow> Inr (res, existed))))"

definition run_request :: "digests \<Rightarrow> tenant_context \<Rightarrow> create_request \<Rightarrow> run_create_request" where
  "run_request D tc q =
     \<lparr>rq_thread_id = action_thread_id D (tc_tenant_id tc) (cr_action_type q) (cr_idempotency_key q),
      rq_agent_id = ACTION_AGENT_ID, rq_agent_version = ACTION_AGENT_VERSION,
      rq_input = dump_durable_input (to_durable_action_input q), rq_state = None,
      rq_client_request_id = Some (action_client_request_id D (cr_idempotency_key q))\<rparr>"

definition gateway_submit ::
  "digests \<Rightarrow> manager \<Rightarrow> tenant_context \<Rightarrow> create_request \<Rightarrow> (gateway_error + action_resource \<times> bool) prog" where
  "gateway_submit D G tc q =
     andThen (read (get_run_by_client_request_id (mg_models G) (tc_tenant_id tc) (action_client_request_id D (cr_idempotency_key q))))
     (\<lambda>existing. case existing of
         Some run \<Rightarrow>
           if cr_action_type q \<noteq> WEBHOOK_SEND then ret (Inl IdempotencyKeyReused)
           else submitted_action D run (to_durable_action_input q) True
       | None \<Rightarrow>
           if cr_action_type q \<noteq> WEBHOOK_SEND then ret (Inl ActionTypeNotRegistered)
           else andThen (configured (cr_destination q)) (\<lambda>provider.
             if provider = None then ret (Inl DestinationNotRegistered)
             else andThen (submit G tc (run_request D tc q)) (\<lambda>run.
               submitted_action D run (to_durable_action_input q) False)))"

definition gateway_run :: "manager \<Rightarrow> tenant_context \<Rightarrow> string \<Rightarrow> run_record option prog" where
  "gateway_run G tc action_id = andThen (manager_get_run G tc action_id) (\<lambda>found. ret (case found of
      None \<Rightarrow> None | Some run \<Rightarrow> if is_action_run run then Some run else None))"

definition gateway_exists :: "manager \<Rightarrow> tenant_context \<Rightarrow> string \<Rightarrow> bool prog" where
  "gateway_exists G tc action_id = andThen (gateway_run G tc action_id) (\<lambda>found. ret (found \<noteq> None))"

definition gateway_get :: "digests \<Rightarrow> manager \<Rightarrow> tenant_context \<Rightarrow> string \<Rightarrow> (gateway_error + action_resource) option prog" where
  "gateway_get D G tc action_id = andThen (gateway_run G tc action_id) (\<lambda>found. case found of
      None \<Rightarrow> ret None | Some run \<Rightarrow> andThen (project_run D run) (\<lambda>r. ret (Some r)))"

definition gateway_list_events ::
  "digests \<Rightarrow> manager \<Rightarrow> tenant_context \<Rightarrow> string \<Rightarrow> int \<Rightarrow> (gateway_error + action_event list) option prog" where
  "gateway_list_events D G tc action_id after_sequence = andThen (gateway_run G tc action_id) (\<lambda>found. case found of
      None \<Rightarrow> ret None
    | Some run \<Rightarrow> andThen (read (\<lambda>s. Inr (list_action_events D run after_sequence s))) (\<lambda>r. ret (Some r)))"

section \<open>The registered agent\<close>

lemma action_registry_inv: "registry_inv (action_registry D)"
  by (auto simp: action_registry_def register_action_agent_def registry_inv_empty split: sum.split dest: register_agent_inv [OF registry_inv_empty])

end
