(* ===== verification/Manager_Properties.thy ===== *)
theory Manager_Properties
  imports Action_Service Durable_Properties
begin

text \<open>
  What the manager guarantees whatever else uses the database: a submission with a client
  request id ends at the one run of that id, and a failure that proves nothing about a pending
  external action never ends its run.
\<close>

section \<open>Quiet programs\<close>

lemma quiet_store [quiet_rules]: "quiet (store r)"
  by (auto simp: store_def split: sum.split intro: quiet_rules)

lemma quiet_visible [quiet_rules]: "quiet (assert_referenced_runs_visible G refs tenant)"
  by (induction refs) (auto intro!: quiet_rules)

lemma quiet_find_existing [quiet_rules]: "quiet (find_existing G tc q)"
  unfolding find_existing_def by (intro quiet_rules)

lemma quiet_create_queued [quiet_rules]: "quiet (create_queued_run rg tc q i state)"
  unfolding create_queued_run_def Let_def
  by (rule quiet_call) (auto simp: tx_start intro!: later_one system_step.run_store store_step.create_with_event)

section \<open>Submission\<close>

text \<open>The database holds exactly one run of the tenant with the client request id, this one.\<close>

definition the_run :: "string \<Rightarrow> string \<Rightarrow> string \<Rightarrow> db \<Rightarrow> bool" where
  "the_run tenant_id key run_id s \<longleftrightarrow>
     map r_run_id (filter (\<lambda>r. client_key r = (tenant_id, Some key)) (db_runs s)) = [run_id]"

lemma filter_key_unique:
  assumes "distinct (map k rows)" and "r \<in> set rows"
  shows "filter (\<lambda>x. k x = k r) rows = [r]"
  using assms
proof (induction rows)
  case (Cons x rows)
  show ?case
  proof (cases "x = r")
    case True
    with Cons.prems have "\<forall>y\<in>set rows. k y \<noteq> k r" by (metis distinct.simps(2) image_eqI list.set_map list.simps(9))
    with True show ?thesis by (simp add: filter_empty_conv)
  next
    case False
    with Cons.prems Cons.IH show ?thesis by (auto dest: key_unique [where k = k])
  qed
qed simp

lemma the_runI:
  assumes "store_reachable s" and r: "r \<in> set (db_runs s)" and k: "client_key r = (tenant_id, Some key)"
  shows "the_run tenant_id key (r_run_id r) s"
proof -
  let ?rows = "filter (\<lambda>r. r_client_request_id r \<noteq> None) (db_runs s)"
  from assms(1) have "distinct (map client_key ?rows)"
    by (auto dest!: reachable_inv simp: store_inv_def run_constraints_def)
  moreover from r k have "r \<in> set ?rows" by (auto simp: client_key_def)
  ultimately have "filter (\<lambda>x. client_key x = client_key r) ?rows = [r]" by (rule filter_key_unique)
  moreover have "filter (\<lambda>x. client_key x = client_key r) ?rows = filter (\<lambda>x. client_key x = (tenant_id, Some key)) (db_runs s)"
    using k by (auto simp: client_key_def intro: filter_cong)
  ultimately have "filter (\<lambda>x. client_key x = (tenant_id, Some key)) (db_runs s) = [r]" by metis
  then show ?thesis by (simp add: the_run_def)
qed

lemma row_to_run_id: "row_to_run M row = Inr run \<Longrightarrow> r_run_id run = r_run_id row"
  by (auto simp: row_to_run_def split: sum.splits if_splits)

lemma existing_run:
  assumes "find_existing G tc q w = (Inr (Some run), w')" and w: "sound w" and key: "rq_client_request_id q = Some key" "key \<noteq> []"
  shows "the_run (tc_tenant_id tc) key (r_run_id run) (w_db w')"
proof -
  from assms(1) key have rd: "read (get_run_by_client_request_id (mg_models G) (tc_tenant_id tc) key) w = (Inr (Some run), w')"
    by (simp add: find_existing_def opt_truthy_def)
  then have "get_run_by_client_request_id (mg_models G) (tc_tenant_id tc) key (w_db w') = Inr (Some run)"
    by (rule read_InrE [OF _ w])
  then obtain r where r: "r \<in> set (db_runs (w_db w'))" "client_key r = (tc_tenant_id tc, Some key)" "r_run_id run = r_run_id r"
    by (auto simp: get_run_by_client_request_id_def read_row_def client_key_def split: option.splits sum.splits
        dest!: fetchone_SomeD row_to_run_id)
  have "store_reachable (w_db w')" using quietD(3) [OF quiet_read rd w] by (simp add: sound_def)
  from the_runI [OF this r(1,2)] r(3) show ?thesis by simp
qed

lemma created_row:
  assumes "create_run_with_event clk run ty payload s = (Inr run', t)"
  shows "\<exists>r\<in>set (db_runs t). r_run_id r = r_run_id run' \<and> client_key r = client_key run \<and> r_run_id run' = r_run_id run"
proof -
  from assms obtain s1 s2 e where 1: "insert_run (run_values run) s = Inr ((), s1)"
    and 2: "prepare_client_state_seed run s1 = Inr (run', s2)"
    and 3: "append_event_with_connection (r_run_id run) ty payload (clk 0) s2 = Inr (e, t)"
    by (auto simp: create_run_with_event_def transaction_def split: if_splits sum.splits prod.splits)
  from 1 obtain r0 where r0: "r0 \<in> set (db_runs s1)" "r_run_id r0 = r_run_id run" "client_key r0 = client_key run"
    by (fastforce simp: insert_run_def run_values_def client_key_def split: if_splits)
  have "(\<exists>r\<in>set (db_runs s2). r_run_id r = r_run_id run \<and> client_key r = client_key run) \<and> r_run_id run' = r_run_id run"
  proof (cases "r_state run = None")
    case True
    with 2 r0 show ?thesis by (auto simp: prepare_client_state_seed_def)
  next
    case False
    let ?f = "\<lambda>r::run_row. r\<lparr>r_checkpoint_base_revision := Some 0\<rparr>"
    obtain res where res: "update_runs (\<lambda>r. r_run_id r = r_run_id run) ?f s1 = res" by simp
    from False 2 have "case res of Inl e \<Rightarrow> False | Inr (n, s') \<Rightarrow> run' = run\<lparr>r_checkpoint_base_revision := Some 0\<rparr> \<and> s' = s2"
      unfolding prepare_client_state_seed_def res by (simp split: if_splits sum.splits prod.splits)
    then obtain n where run': "run' = run\<lparr>r_checkpoint_base_revision := Some 0\<rparr>" and "res = Inr (n, s2)"
      by (simp split: sum.splits prod.splits)
    from update_runs_eq [OF res [unfolded this(2)]]
    have "set (db_runs s2) = (\<lambda>r. if r_run_id r = r_run_id run then ?f r else r) ` set (db_runs s1)" by (simp add: set_sql_update)
    moreover have "?f r0 \<in> (\<lambda>r. if r_run_id r = r_run_id run then ?f r else r) ` set (db_runs s1)"
      by (rule image_eqI [OF _ r0(1)]) (simp only: r0(2) if_True simp_thms)
    ultimately have "?f r0 \<in> set (db_runs s2)" by simp
    moreover have "r_run_id (?f r0) = r_run_id run" "client_key (?f r0) = client_key run" "r_run_id run' = r_run_id run"
      using r0 run' by (simp_all add: client_key_def)
    ultimately show ?thesis by blast
  qed
  moreover from append_event_eq [OF 3] have "db_runs t = db_runs s2" by simp
  ultimately show ?thesis by auto
qed

lemma created_run:
  assumes "create_queued_run rg tc q i state w = (Inr run, w')" and w: "sound w" and key: "rq_client_request_id q = Some key"
  shows "the_run (tc_tenant_id tc) key (r_run_id run) (w_db w')"
proof -
  from assms(1) obtain s t where "create_run_with_event (\<lambda>n. tk_clk t (n + 2)) (new_run rg tc q i state t) ''run.queued''
      (queued_payload tc (new_run rg tc q i state t)) s = (Inr run, w_db w')"
    unfolding create_queued_run_def by (rule call_InrE [OF _ w]) (auto simp: Let_def split: if_splits)
  from created_row [OF this] obtain r where "r \<in> set (db_runs (w_db w'))" "r_run_id r = r_run_id run"
    "client_key r = (tc_tenant_id tc, Some key)" using key by (auto simp: client_key_def new_run_def)
  moreover have "store_reachable (w_db w')" using quietD(3) [OF quiet_create_queued assms(1) w] by (simp add: sound_def)
  ultimately show ?thesis using the_runI by metis
qed

lemma submitted_new:
  assumes "submit_new G tc q rg i state w = (Inr run, w')" and w: "sound w" and key: "rq_client_request_id q = Some key" "key \<noteq> []"
  shows "the_run (tc_tenant_id tc) key (r_run_id run) (w_db w')"
  using assms(1) unfolding submit_new_def
proof (cases rule: catchE)
  case (returns x)
  with created_run [OF returns(1) w key(1)] show ?thesis by simp
next
  case (handled e w1)
  note w1 = quietD(3) [OF quiet_create_queued handled(1) w]
  from handled(3) have "find_existing G tc q w1 = (Inr (Some run), w')"
    by (auto split: if_splits option.splits elim!: andThenE)
  from existing_run [OF this w1 key] show ?thesis .
qed simp

section \<open>The failure boundary\<close>

definition unresolved :: "bool \<Rightarrow> run_record \<Rightarrow> exn \<Rightarrow> bool" where
  "unresolved reconcile run e \<longleftrightarrow> e = ReconciliationPendingError
     \<or> (r_error_code run = Some PENDING_CODE \<or> reconcile) \<and> \<not> code_in RESOLUTION_CODES e"

text \<open>The marker never violates a constraint of the runs table, so the update is refused only for want of the lease.\<close>

lemma marked_constraints:
  assumes "run_constraints rows"
  shows "run_constraints (sql_update p (\<lambda>r. r\<lparr>r_error_code := c, r_error := e, r_completed_at := d, r_updated_at := u\<rparr>) rows)"
proof -
  let ?g = "\<lambda>r. if p r then r\<lparr>r_error_code := c, r_error := e, r_completed_at := d, r_updated_at := u\<rparr> else r"
  have g: "r_run_id (?g r) = r_run_id r" "r_status (?g r) = r_status r" "thread_key (?g r) = thread_key r"
    "client_key (?g r) = client_key r" "r_client_request_id (?g r) = r_client_request_id r" for r
    by (simp_all add: thread_key_def client_key_def)
  from assms show ?thesis by (simp add: run_constraints_def sql_update_def filter_map comp_def g)
qed

lemma pending_effect:
  assumes "store_inv s"
  shows "snd (commit_reconciliation_pending clk run_id ten tok code err now_ms s) =
    s\<lparr>db_runs := sql_update (\<lambda>r. r_run_id r = run_id \<and> r_tenant_id r = ten \<and> r_status r = RUNNING \<and> current_lease tok now_ms r)
      (\<lambda>r. r\<lparr>r_error_code := Some code, r_error := Some err, r_completed_at := None, r_updated_at := clk 0\<rparr>) (db_runs s)\<rparr>"
proof -
  let ?p = "\<lambda>r. r_run_id r = run_id \<and> r_tenant_id r = ten \<and> r_status r = RUNNING \<and> current_lease tok now_ms r"
  let ?f = "\<lambda>r. r\<lparr>r_error_code := Some code, r_error := Some err, r_completed_at := None, r_updated_at := clk 0\<rparr>"
  from assms have c: "run_constraints (db_runs s)" by (simp add: store_inv_def)
  from rowcount_key_le_1 [of r_run_id "db_runs s" ?p run_id] c have "rowcount ?p (db_runs s) \<le> 1" by (simp add: run_constraints_def)
  then consider "rowcount ?p (db_runs s) = 0" | "rowcount ?p (db_runs s) = 1" by linarith
  then show ?thesis
  proof cases
    case 1
    with sql_update_none [OF 1, of ?f] show ?thesis
      by (simp add: commit_reconciliation_pending_def update_runs_def transaction_def split: sum.split)
  next
    case 2
    with marked_constraints [OF c, of ?p] show ?thesis
      by (simp add: commit_reconciliation_pending_def update_runs_def Let_def)
  qed
qed

lemma commit_pending_effect:
  assumes "commit_pending G run token w = (r, w')" and w: "sound w"
  defines "t \<equiv> w_ticks w (w_time w)" and "s \<equiv> tk_env (w_ticks w (w_time w)) (w_db w)"
  shows "w_db w' = (if tk_fault t = Fails_Before then s
    else s\<lparr>db_runs := sql_update (\<lambda>x. r_run_id x = r_run_id run \<and> r_tenant_id x = r_tenant_id run \<and> r_status x = RUNNING
        \<and> current_lease token (tk_now t) x)
      (\<lambda>x. x\<lparr>r_error_code := Some PENDING_CODE, r_error := Some (mg_error_text G ReconciliationPendingError), r_completed_at := None,
        r_updated_at := tk_clk t 0\<rparr>) (db_runs s)\<rparr>)"
proof -
  from w have "store_inv s" unfolding s_def by (auto simp: sound_def fair_def intro: reachable_inv reachable_later)
  note eff = pending_effect [OF this]
  from assms(1) have "w_db w' = (if tk_fault t = Fails_Before then s
      else snd (commit_reconciliation_pending (tk_clk t) (r_run_id run) (r_tenant_id run)
        token PENDING_CODE (mg_error_text G ReconciliationPendingError) (tk_now t) s))"
    unfolding t_def s_def by (auto simp: commit_pending_def call_def Let_def elim!: andThenE split: if_splits prod.splits)
  then show ?thesis unfolding eff .
qed

section \<open>A deployment\<close>

definition mx_manager :: manager where
  "mx_manager = \<lparr>mg_registry = action_registry dx_digests, mg_owner_id = ''w'', mg_lease_duration = 30,
     mg_reconciliation_required = Some has_external_action_requiring_reconciliation,
     mg_error_text = (\<lambda>_. ''error''), mg_traceback_text = (\<lambda>_. ''traceback'')\<rparr>"

definition mx_tenant :: tenant_context where
  "mx_tenant = \<lparr>tc_tenant_id = ''T'', tc_subject_id = ''u'', tc_permissions = a_permissions dx_authority\<rparr>"

definition mx_request :: run_create_request where
  "mx_request = \<lparr>rq_thread_id = ''th'', rq_agent_id = ACTION_AGENT_ID, rq_agent_version = ACTION_AGENT_VERSION,
     rq_input = dump_durable_input dx_input, rq_state = None, rq_client_request_id = Some ''k1''\<rparr>"

definition mx_world :: world where
  "mx_world = (dx_world dx_success)\<lparr>w_db := empty_db\<rparr>"

section \<open>Properties\<close>

text \<open>
  C12. Submission is idempotent. Whatever other clients and workers do meanwhile and whichever
  storage call fails, a submission with a client request id that returns leaves exactly one run
  of the tenant with that id in the database, and it returns that run.
\<close>

theorem submission_is_idempotent:
  assumes w: "sound w" and run: "submit G tc q w = (Inr run, w')"
    and key: "rq_client_request_id q = Some key" "key \<noteq> []"
  shows "the_run (tc_tenant_id tc) key (r_run_id run) (w_db w')"
proof -
  from run obtain rg i refs w1 state w2 existing w3 where rg: "registration_of (mg_registry G) (rq_agent_id q) (rq_agent_version q) = Inr rg"
    and v: "assert_referenced_runs_visible G refs (tc_tenant_id tc) w = (Inr (), w1)"
    and st: "w2 = w1" and ex: "find_existing G tc q w2 = (Inr existing, w3)"
    and rest: "(case existing of Some run \<Rightarrow> ret run | None \<Rightarrow> submit_new G tc q rg i state) w3 = (Inr run, w')"
    by (auto simp: submit_def store_def lift_def elim!: andThenE split: sum.splits option.splits if_splits)
  note w1 = quietD(3) [OF quiet_visible v w]
  note w3 = quietD(3) [OF quiet_find_existing ex w1 [folded st]]
  show ?thesis
  proof (cases existing)
    case None
    with rest submitted_new [OF _ w3 key] show ?thesis by simp
  next
    case (Some r)
    with rest ex existing_run [OF _ w1 [folded st] key, of G tc r w3] show ?thesis by simp
  qed
qed

theorem submission_is_idempotent_witness:
  "the_run ''T'' ''k1'' ''run_c1'' (w_db (snd (submit mx_manager mx_tenant mx_request mx_world)))"
proof -
  have "(case fst (submit mx_manager mx_tenant mx_request mx_world) of Inr run \<Rightarrow> r_run_id run = ''run_c1'' | Inl e \<Rightarrow> False)"
    by code_simp
  then obtain run where "submit mx_manager mx_tenant mx_request mx_world = (Inr run, snd (submit mx_manager mx_tenant mx_request mx_world))"
    "r_run_id run = ''run_c1''" by (cases "submit mx_manager mx_tenant mx_request mx_world") (auto split: sum.splits)
  moreover have "sound mx_world" by (simp add: mx_world_def dx_world_def sound_def fair_def dx_tick_def tx_start)
  ultimately show ?thesis using submission_is_idempotent [of mx_world mx_manager mx_tenant mx_request run _ "''k1''"]
    by (auto simp: mx_request_def mx_tenant_def)
qed

text \<open>
  C9. A pending outcome keeps its run. When an attempt raises the reconciliation-pending error, or
  anything but one of the resolving errors while the run carries the pending marker or entered the
  attempt with an action to reconcile, the failure boundary ends no run. Unless the lease was seen
  lost or the storage call failed beforehand, it marks exactly the run this worker still leases, and
  only in its error code, error text, completion and update time: the run stays running and keeps
  its lease and its cancellation request. Every other run and every other table is as the other
  workers left it.
\<close>

theorem pending_outcome_keeps_run:
  assumes "sound w" and "unresolved reconcile run e" and "failure_boundary G lost token reconcile run e w = (r, w')"
  shows "w_db w' = (if lost (w_time w) then w_db w
    else let t = w_ticks w (w_time w); s = tk_env t (w_db w) in
      if tk_fault t = Fails_Before then s
      else s\<lparr>db_runs := map (\<lambda>x. if r_run_id x = r_run_id run \<and> r_tenant_id x = r_tenant_id run \<and> r_status x = RUNNING
            \<and> current_lease token (tk_now t) x
          then x\<lparr>r_error_code := Some PENDING_CODE, r_error := Some (mg_error_text G ReconciliationPendingError), r_completed_at := None,
            r_updated_at := tk_clk t 0\<rparr> else x) (db_runs s)\<rparr>)"
proof (cases "lost (w_time w)")
  case True
  with assms(3) show ?thesis by (simp add: failure_boundary_def unless_lost_def)
next
  case False
  with assms(2,3) have "commit_pending G run token w = (r, w')"
    by (auto simp: failure_boundary_def unless_lost_def unresolved_def split: if_splits)
  from commit_pending_effect [OF this assms(1)] False show ?thesis by (simp add: Let_def sql_update_def)
qed

theorem pending_outcome_keeps_run_witness:
  "map (\<lambda>x. (r_run_id x, r_status x, r_error_code x, r_lease_token x)) (db_runs (w_db (snd (failure_boundary mx_manager (\<lambda>_. False) ''tok''
     False dx_record ReconciliationPendingError (dx_world dx_success))))) = [(''r1'', RUNNING, Some PENDING_CODE, Some ''tok'')]"
proof -
  let ?b = "failure_boundary mx_manager (\<lambda>_. False) ''tok'' False dx_record ReconciliationPendingError (dx_world dx_success)"
  have u: "unresolved False dx_record ReconciliationPendingError" by (simp add: unresolved_def)
  have rows: "map (\<lambda>x. (r_run_id x, r_tenant_id x, r_status x, r_lease_token x, current_lease ''tok'' 2000 x)) (db_runs dx_owned)
      = [(''r1'', ''T'', RUNNING, Some ''tok'', True)]" "r_run_id dx_record = ''r1''" "r_tenant_id dx_record = ''T''" by code_simp+
  obtain x where x: "db_runs dx_owned = [x]" using rows(1) by (cases "db_runs dx_owned") auto
  with rows have xs: "r_run_id x = ''r1''" "r_tenant_id x = ''T''" "r_status x = RUNNING" "r_lease_token x = Some ''tok''"
    "current_lease ''tok'' 2000 x" by simp_all
  have "db_runs (w_db (snd ?b)) = [x\<lparr>r_error_code := Some PENDING_CODE, r_error := Some (mg_error_text mx_manager ReconciliationPendingError),
      r_completed_at := None, r_updated_at := tk_clk (dx_tick dx_success) 0\<rparr>]"
    by (subst pending_outcome_keeps_run [OF dx_sound u prod.collapse [symmetric]])
      (simp add: dx_world_def x dx_tick_def rows(2,3) xs)
  then show ?thesis using xs by simp
qed

section \<open>An outage that strands a dispatch\<close>

text \<open>
  The safety net of the action runtime is itself a storage call. When the outage that broke the
  attempt, here the evidence mirror after the dispatch claim, lasts until the net's first read,
  the storage exception leaves the runtime unclassified; on a first attempt the manager then
  commits the run as failed while the action stays in its dispatching state, and no later attempt
  can reconcile it.
\<close>

definition fx_claim :: lease_claim where
  "fx_claim = the (projr (fst (claim_next_run ex_models ex_clk ''tok'' ''w'' 30 None 1000
     (snd (create_run_with_event ex_clk dx_record ''run.queued'' [] empty_db)))))"

definition fx_world :: world where
  "fx_world = (dx_world dx_success)
     \<lparr>w_ticks := (\<lambda>n. (dx_tick dx_success)\<lparr>tk_fault := (if n = 13 \<or> n = 14 then Fails_Before else Completes)\<rparr>)\<rparr>"

definition fx_end :: db where
  "fx_end = w_db (snd (execute_owned_run mx_manager (\<lambda>_. False) fx_claim fx_world))"

definition outcome_summary :: "db \<Rightarrow> (run_status \<times> string option) list \<times> string list" where
  "outcome_summary s = (map (\<lambda>r. (r_status r, r_error_code r)) (db_runs s), map xa_status (db_external_actions s))"

lemma outage_strands_dispatch:
  "outcome_summary fx_end = ([(FAILED, Some ''runtime_execution_failed'')], [action_value DISPATCHING])"
  by code_simp

end
