(* ===== verification/Action_Lifecycle.thy ===== *)
theory Action_Lifecycle
  imports Durable_Action Workflow_Examples
begin

text \<open>
  The abstract life of an external action, and the refinement: whatever transactions the
  database runs through, what is left when everything but one action's status and dispatch count
  is forgotten is a path of the abstract machine.
\<close>

section \<open>The abstract machine\<close>

datatype spec_action = Prepared | Dispatched nat | Settled string nat

text \<open>The flag says that the tool is not retry-safe, so that it may be dispatched once only.\<close>

inductive spec_step :: "bool \<Rightarrow> spec_action option \<Rightarrow> spec_action option \<Rightarrow> bool" for once where
  prepares: "spec_step once None (Some Prepared)"
| dispatches_first: "spec_step once (Some Prepared) (Some (Dispatched 1))"
| dispatches_again: "\<not> once \<Longrightarrow> spec_step once (Some (Dispatched n)) (Some (Dispatched (Suc n)))"
| settles: "status \<in> action_value ` {SUCCEEDED, ACTION_FAILED, OUTCOME_UNKNOWN} \<Longrightarrow>
    spec_step once (Some (Dispatched n)) (Some (Settled status n))"

inductive_cases spec_settledE: "spec_step once (Some (Settled status n)) x"

lemma spec_settled_final: "(spec_step once)\<^sup>*\<^sup>* (Some (Settled status n)) x \<Longrightarrow> x = Some (Settled status n)"
  by (induction rule: rtranclp_induct) (auto elim: spec_settledE)

section \<open>The abstraction\<close>

definition abs_row :: "action_row \<Rightarrow> spec_action" where
  "abs_row a = (if xa_status a = action_value PREPARED then Prepared
     else if xa_status a = action_value DISPATCHING then Dispatched (nat (xa_dispatch_count a))
     else Settled (xa_status a) (nat (xa_dispatch_count a)))"

definition abs_action :: "string \<Rightarrow> string \<Rightarrow> db \<Rightarrow> spec_action option" where
  "abs_action run_id step_id s = map_option abs_row (select_action run_id step_id s)"

definition dispatched_once :: "action_row \<Rightarrow> bool" where
  "dispatched_once a \<longleftrightarrow> xa_retry_mode a = retry_value UNSAFE"

section \<open>Paths\<close>

lemma spec_redispatch: "n \<le> m \<Longrightarrow> (once \<longrightarrow> m = n) \<Longrightarrow> (spec_step once)\<^sup>*\<^sup>* (Some (Dispatched n)) (Some (Dispatched m))"
  by (induction m) (auto simp: le_Suc_eq intro: rtranclp.rtrancl_into_rtrancl spec_step.dispatches_again)

lemma action_cases:
  assumes "action_ok a"
  obtains (prepared) "xa_status a = action_value PREPARED" "xa_dispatch_count a = 0"
  | (dispatching) "xa_status a = action_value DISPATCHING" "1 \<le> xa_dispatch_count a"
  | (settled) "xa_status a \<in> action_value ` {SUCCEEDED, ACTION_FAILED, OUTCOME_UNKNOWN}" "1 \<le> xa_dispatch_count a"
proof -
  from assms have "xa_status a \<in> action_value ` {PREPARED, DISPATCHING, SUCCEEDED, ACTION_FAILED, OUTCOME_UNKNOWN}"
    "0 \<le> xa_dispatch_count a" "xa_status a = action_value PREPARED \<longleftrightarrow> xa_dispatch_count a = 0" unfolding action_ok_def by blast+
  then show thesis using prepared dispatching settled by (auto simp del: action_value.simps)
qed

lemma dispatched_to:
  assumes ok: "action_ok b" and "1 \<le> n" "n \<le> nat (xa_dispatch_count b)"
  shows "(spec_step (dispatched_once b))\<^sup>*\<^sup>* (Some (Dispatched n)) (Some (abs_row b))"
proof -
  have "(spec_step (dispatched_once b))\<^sup>*\<^sup>* (Some (Dispatched n)) (Some (Dispatched (nat (xa_dispatch_count b))))"
    using assms by (intro spec_redispatch) (auto simp: action_ok_def dispatched_once_def simp del: retry_value.simps)
  with ok show ?thesis
  proof (cases rule: action_cases)
    case prepared
    with assms show ?thesis by simp
  next
    case settled
    then have "abs_row b = Settled (xa_status b) (nat (xa_dispatch_count b))"
      by (auto simp: abs_row_def simp del: action_value.simps)
    with settled \<open>(spec_step _)\<^sup>*\<^sup>* _ (Some (Dispatched (nat (xa_dispatch_count b))))\<close> show ?thesis
      by (metis rtranclp.rtrancl_into_rtrancl spec_step.settles)
  qed (simp add: abs_row_def)
qed

lemma prepared_to:
  assumes ok: "action_ok b"
  shows "(spec_step (dispatched_once b))\<^sup>*\<^sup>* (Some Prepared) (Some (abs_row b))"
proof (cases "xa_status b = action_value PREPARED")
  case False
  have "1 \<le> nat (xa_dispatch_count b)" using ok by (cases rule: action_cases) (use False in auto)
  with dispatched_to [OF ok, of 1] show ?thesis by (auto intro: converse_rtranclp_into_rtranclp spec_step.dispatches_first)
qed (simp add: abs_row_def)

lemma evolves_path:
  assumes ok: "action_ok a" "action_ok b" and ev: "action_evolves a b"
  shows "(spec_step (dispatched_once b))\<^sup>*\<^sup>* (Some (abs_row a)) (Some (abs_row b))"
  using ok(1)
proof (cases rule: action_cases)
  case prepared
  with prepared_to [OF ok(2)] show ?thesis by (simp add: abs_row_def)
next
  case dispatching
  with ev have "nat (xa_dispatch_count a) \<le> nat (xa_dispatch_count b)" "1 \<le> nat (xa_dispatch_count a)" by (auto simp: action_evolves_def)
  with dispatched_to [OF ok(2)] dispatching show ?thesis by (simp add: abs_row_def)
next
  case settled
  then have "terminal_action_status (xa_status a)" by (auto simp: terminal_action_status_def)
  with ev show ?thesis by (simp add: action_evolves_def)
qed

lemma reachable_action_ok: "store_reachable s \<Longrightarrow> select_action run_id step_id s = Some a \<Longrightarrow> action_ok a"
  by (auto dest!: reachable_wf_inv select_action_SomeD simp: wf_inv_def)

section \<open>Refinement\<close>

text \<open>
  C11. The ledger refines the action life cycle. Any sequence of transactions, of any mixture of
  workers, requests and operators, takes an action along a path of the abstract machine: absent,
  prepared, dispatched once or, if it is retry-safe, again, and settled for good with one of the
  three outcomes. No action is settled without a dispatch, none goes back, and none that is not
  retry-safe is dispatched twice.
\<close>

theorem ledger_refines_action_lifecycle:
  assumes "store_reachable s" and "later s t"
  shows "case select_action run_id step_id t of
      None \<Rightarrow> abs_action run_id step_id s = None
    | Some b \<Rightarrow> (spec_step (dispatched_once b))\<^sup>*\<^sup>* (abs_action run_id step_id s) (abs_action run_id step_id t)"
proof (cases "select_action run_id step_id s")
  case None
  show ?thesis
  proof (cases "select_action run_id step_id t")
    case (Some b)
    from prepared_to [OF reachable_action_ok [OF reachable_later [OF assms(2,1)] Some]] None Some
    show ?thesis by (auto simp: abs_action_def intro: converse_rtranclp_into_rtranclp spec_step.prepares)
  qed (simp add: None abs_action_def)
next
  case (Some a)
  from later_action [OF assms(2,1) Some] obtain b where b: "select_action run_id step_id t = Some b" "action_evolves a b" .
  from evolves_path [OF reachable_action_ok [OF assms(1) Some] reachable_action_ok [OF reachable_later [OF assms(2,1)] b(1)] b(2)] Some b(1)
  show ?thesis by (simp add: abs_action_def)
qed

theorem ledger_refines_action_lifecycle_witness:
  "(spec_step True)\<^sup>*\<^sup>* None (Some (Settled ''succeeded'' 1))"
proof -
  have "select_action ''r1'' ''s1'' wx_done = Some (hd (db_external_actions wx_done))"
    "dispatched_once (hd (db_external_actions wx_done)) = True"
    "abs_action ''r1'' ''s1'' wx_done = Some (Settled ''succeeded'' 1)" "abs_action ''r1'' ''s1'' empty_db = None" by code_simp+
  with ledger_refines_action_lifecycle [OF tx_start wx_reachable(7), of "''r1''" "''s1''"] show ?thesis by simp
qed

end
