(* ===== verification/Governed_Memory.thy ===== *)
theory Governed_Memory
  imports Durable_Action
begin

text \<open>
  \<^verbatim>\<open>GovernedMemory\<close> of \<^verbatim>\<open>runtime_service/memory.py\<close>: what a runtime may do with memory during an
  attempt. Retrieval seals the snapshot of the run, remembering writes versions under the lease
  of the attempt, and both leave evidence in the run's event log. The methods are worker
  programs; permissions come from the authority persisted with the run.
\<close>

section \<open>The boundary\<close>

definition MEMORY_READ_PERMISSION :: string where
  "MEMORY_READ_PERMISSION = ''memory:read''"

definition MEMORY_WRITE_PERMISSION :: string where
  "MEMORY_WRITE_PERMISSION = ''memory:write''"

definition require_lease_token :: "exec_context \<Rightarrow> string prog" where
  "require_lease_token cx = (if opt_truthy (cx_lease_token cx) then ret (the (cx_lease_token cx))
     else raise (StoreExn (RunLeaseLostError (''Run execution has no lease token: '' @ cx_run_id cx))))"

definition ensure_run_event :: "exec_context \<Rightarrow> string \<Rightarrow> (string \<times> json) list \<Rightarrow> string \<Rightarrow> json \<Rightarrow> unit prog" where
  "ensure_run_event cx ty payload identity_key identity_value = andThen (run_events (cx_run_id cx)) (\<lambda>events.
     if \<exists>(t, p)\<in>set events. t = ty \<and> json_equal (py_get p identity_key) identity_value then ret ()
     else andThen (require_lease_token cx) (\<lambda>token. append_run_event (cx_run_id cx) ty payload (Some token)))"

definition retrieved_payload :: "memory_snapshot \<Rightarrow> (string \<times> json) list" where
  "retrieved_payload sn =
     [(''snapshot_id'', JStr (ms_run_id sn)), (''domain_id'', JStr (ms_domain_id sn)), (''created_at'', JStr (ms_created_at sn)),
      (''count'', JInt (int (length (ms_memories sn)))),
      (''memories'', JList (map (\<lambda>x. JObj [(''memory_id'', JStr (rm_memory_id x)), (''kind'', JStr (kind_value (rm_kind x))),
         (''key'', JStr (rm_key x)), (''version'', JInt (rm_version x))]) (ms_memories sn)))]"

definition retrieve :: "exec_context \<Rightarrow> string \<Rightarrow> string list \<Rightarrow> memory_snapshot prog" where
  "retrieve cx domain_id allowed_keys =
     (if \<not> allows (cx_authority cx) MEMORY_READ_PERMISSION
      then raise (ExecutionError ''memory_permission_denied'' ''Memory read denied by persisted execution authority.'')
      else andThen (require_lease_token cx) (\<lambda>token.
        andThen (call (\<lambda>t. get_or_create_run_snapshot_for_run (tk_clk t) (cx_run_id cx) (a_tenant_id (cx_authority cx))
           (a_subject_id (cx_authority cx)) domain_id (Some (sort (remdups allowed_keys))) token (tk_now t))) (\<lambda>sn.
        andThen (ensure_run_event cx ''memory.retrieved'' (retrieved_payload sn) ''snapshot_id'' (JStr (ms_run_id sn))) (\<lambda>_.
        ret sn))))"

section \<open>Remembering\<close>

text \<open>
  The audit events already mirrored into the run's log. Python keeps them in a set, so an audit
  id that is a list or an object raises.
\<close>

fun hashable :: "json \<Rightarrow> bool" where
  "hashable (JList _) = False"
| "hashable (JObj _) = False"
| "hashable _ = True"

definition audit_index :: "(string \<times> (string \<times> json) list) list \<Rightarrow> exn + (string \<times> json) list" where
  "audit_index events =
     (let ids = filter (\<lambda>(_, i). i \<noteq> JNull) (map (\<lambda>(ty, p). (ty, py_get p ''audit_event_id'')) events)
      in if list_all (\<lambda>(_, i). hashable i) ids then Inr ids else Inl TypeError)"

fun mirror_audit :: "exec_context \<Rightarrow> memory_event list \<Rightarrow> (string \<times> json) list \<Rightarrow> unit prog" where
  "mirror_audit cx [] index = ret ()"
| "mirror_audit cx (e # es) index =
     (if \<exists>(ty, i)\<in>set index. ty = me_event_type e \<and> json_equal i (JInt (me_event_id e)) then mirror_audit cx es index
      else andThen (require_lease_token cx) (\<lambda>token.
        andThen (append_run_event (cx_run_id cx) (me_event_type e)
          (foldl (\<lambda>kvs (k, v). dict_put k v kvs)
            [(''audit_event_id'', JInt (me_event_id e)), (''memory_id'', jopt_str (me_memory_id e))] (me_payload e)) (Some token)) (\<lambda>_.
        mirror_audit cx es ((me_event_type e, JInt (me_event_id e)) # index))))"

definition mirror_mutation_events :: "exec_context \<Rightarrow> unit prog" where
  "mirror_mutation_events cx = andThen (run_events (cx_run_id cx)) (\<lambda>events.
     andThen (lift (audit_index events)) (\<lambda>index.
     andThen (read (list_events_for_run (cx_run_id cx) (a_tenant_id (cx_authority cx)) (a_subject_id (cx_authority cx)))) (\<lambda>audit.
     mirror_audit cx audit index)))"

fun remember_all :: "exec_context \<Rightarrow> string \<Rightarrow> string \<Rightarrow> string \<Rightarrow> memory_write list \<Rightarrow> unit prog" where
  "remember_all cx domain_id source_thread_id token [] = ret ()"
| "remember_all cx domain_id source_thread_id token (w # ws) =
     andThen (call (\<lambda>t. upsert_from_run (tk_clk t) (tk_id t) (a_tenant_id (cx_authority cx)) (a_subject_id (cx_authority cx)) domain_id w
       (cx_run_id cx) source_thread_id (a_subject_id (cx_authority cx)) token (tk_now t))) (\<lambda>_.
     remember_all cx domain_id source_thread_id token ws)"

definition remember :: "exec_context \<Rightarrow> string \<Rightarrow> string \<Rightarrow> memory_write list \<Rightarrow> unit prog" where
  "remember cx domain_id source_thread_id writes =
     (if writes = [] then ret ()
      else if \<not> allows (cx_authority cx) MEMORY_WRITE_PERMISSION
      then raise (ExecutionError ''memory_permission_denied'' ''Memory write denied by persisted execution authority.'')
      else andThen (require_lease_token cx) (\<lambda>token.
        andThen (remember_all cx domain_id source_thread_id token writes) (\<lambda>_. mirror_mutation_events cx)))"

section \<open>Memory programs are quiet\<close>

lemma quiet_memory_call: "(\<And>t s. memory_step s (snd (op t s))) \<Longrightarrow> quiet (call op)"
  by (blast intro: quiet_call later_one system_step.memory)

lemma upsert_from_run_step: "memory_step s (snd (upsert_from_run clk fresh tenant_id subject_id domain_id w run_id thread_id actor token now_ms s)) \<or>
   snd (upsert_from_run clk fresh tenant_id subject_id domain_id w run_id thread_id actor token now_ms s) = s"
  by (simp add: upsert_from_run_def memory_step.upsert)

lemma snapshot_for_run_step: "memory_step s (snd (get_or_create_run_snapshot_for_run clk run_id tenant_id subject_id domain_id keys token now_ms s)) \<or>
   snd (get_or_create_run_snapshot_for_run clk run_id tenant_id subject_id domain_id keys token now_ms s) = s"
  by (simp add: get_or_create_run_snapshot_for_run_def memory_step.snapshot)

lemma later_upsert: "later s (snd (upsert_from_run clk fresh tenant_id subject_id domain_id w run_id thread_id actor token now_ms s))"
  using upsert_from_run_step [of s clk fresh tenant_id subject_id domain_id w run_id thread_id actor token now_ms]
  by (auto intro: later_one system_step.memory tx_start)

lemma later_snapshot: "later s (snd (get_or_create_run_snapshot_for_run clk run_id tenant_id subject_id domain_id keys token now_ms s))"
  using snapshot_for_run_step [of s clk run_id tenant_id subject_id domain_id keys token now_ms]
  by (auto intro: later_one system_step.memory tx_start)

lemma quiet_require_lease_token [quiet_rules]: "quiet (require_lease_token cx)"
  by (auto simp: require_lease_token_def intro: quiet_rules)

lemma quiet_ensure_run_event [quiet_rules]: "quiet (ensure_run_event cx ty payload k v)"
  unfolding ensure_run_event_def run_events_def by (intro quiet_rules)

lemma quiet_retrieve: "quiet (retrieve cx domain_id keys)"
  unfolding retrieve_def by (intro quiet_rules quiet_call later_snapshot) simp

lemma quiet_mirror_audit [quiet_rules]: "quiet (mirror_audit cx es index)"
  by (induction es arbitrary: index) (auto intro!: quiet_rules)

lemma quiet_remember_all [quiet_rules]: "quiet (remember_all cx domain_id thread_id token ws)"
  by (induction ws) (auto intro!: quiet_rules quiet_call later_upsert)

lemma quiet_remember: "quiet (remember cx domain_id thread_id ws)"
  unfolding remember_def mirror_mutation_events_def run_events_def
  by (intro quiet_rules) (auto simp: audit_index_def Let_def split: if_splits)

section \<open>Fencing\<close>

lemma memory_lease_lost: "store_inv s \<Longrightarrow> \<not> holds_lease run_id token now_ms s \<Longrightarrow> assert_memory_lease run_id token now_ms s \<noteq> None"
  using not_holds_row(1) [of s run_id token now_ms] by (auto simp: assert_memory_lease_def fetchone_None_iff)

interpretation remembered: fenced "upsert_from_run clk fresh tenant_id subject_id domain_id w run_id thread_id actor" run_id "\<lambda>_. True"
  for clk fresh tenant_id subject_id domain_id w run_id thread_id actor
proof
  fix s token now_ms assume "store_inv s" "\<not> holds_lease run_id token now_ms s"
  from memory_lease_lost [OF this] have "attempt_guard (Some token) run_id tenant_id subject_id domain_id now_ms s \<noteq> None"
    by (auto simp: attempt_guard_def split: option.split)
  then show "snd (upsert_from_run clk fresh tenant_id subject_id domain_id w run_id thread_id actor token now_ms s) = s \<and>
     (\<forall>x. fst (upsert_from_run clk fresh tenant_id subject_id domain_id w run_id thread_id actor token now_ms s) = Inr x \<longrightarrow> \<not> True)"
    by (cases rule: upsert_memory_cases [of clk fresh tenant_id subject_id domain_id w run_id thread_id actor "Some token" now_ms s])
      (auto simp: upsert_from_run_def)
qed

interpretation retrieved: fenced "get_or_create_run_snapshot_for_run clk run_id tenant_id subject_id domain_id keys" run_id "\<lambda>_. True"
  for clk run_id tenant_id subject_id domain_id keys
proof
  fix s token now_ms assume "store_inv s" "\<not> holds_lease run_id token now_ms s"
  from memory_lease_lost [OF this] show "snd (get_or_create_run_snapshot_for_run clk run_id tenant_id subject_id domain_id keys token now_ms s) = s \<and>
     (\<forall>x. fst (get_or_create_run_snapshot_for_run clk run_id tenant_id subject_id domain_id keys token now_ms s) = Inr x \<longrightarrow> \<not> True)"
    by (auto simp: get_or_create_run_snapshot_for_run_def get_or_create_run_snapshot_def split: option.splits)
qed

end
