(* ===== verification/Memory_Properties.thy ===== *)
theory Memory_Properties
  imports Governed_Memory Run_Examples
begin

text \<open>
  The properties of governed memory: what a run may see and that it keeps seeing it, what
  remembering leaves in the tables, and what forgetting erases.
\<close>

section \<open>Retrieval\<close>

lemma run_identityD:
  assumes "assert_run_identity run_id tenant_id subject_id domain_id s = None"
  obtains run auth where "select_run run_id s = Some run" "r_tenant_id run = tenant_id" "r_domain_id run = domain_id"
    "r_execution_authority run = Some auth" "a_subject_id auth = subject_id"
  using assms by (auto simp: assert_run_identity_def split: option.splits if_splits)

text \<open>After a retrieval the run's snapshot is stored, and it was made for the authority of the run.\<close>

lemma snapshot_stored:
  assumes "get_or_create_run_snapshot clk run_id tenant_id subject_id domain_id keys lease_token now_ms s = (Inr sn, t)"
  shows "select_snapshot run_id (db_memory t) = Some sn" and "assert_run_identity run_id tenant_id subject_id domain_id s = None"
    and "(ms_tenant_id sn, ms_subject_id sn, ms_domain_id sn) = (tenant_id, subject_id, domain_id)"
proof (atomize (full), cases rule: snapshot_cases [of clk run_id tenant_id subject_id domain_id keys lease_token now_ms s])
  case (refused e)
  with assms show "select_snapshot run_id (db_memory t) = Some sn \<and> assert_run_identity run_id tenant_id subject_id domain_id s = None \<and>
    (ms_tenant_id sn, ms_subject_id sn, ms_domain_id sn) = (tenant_id, subject_id, domain_id)" by simp
next
  case (reused sn')
  with assms show "select_snapshot run_id (db_memory t) = Some sn \<and> assert_run_identity run_id tenant_id subject_id domain_id s = None \<and>
    (ms_tenant_id sn, ms_subject_id sn, ms_domain_id sn) = (tenant_id, subject_id, domain_id)" by simp
next
  case (sealed sn' m)
  with assms seal_snapshotD [OF sealed(4)]
  show "select_snapshot run_id (db_memory t) = Some sn \<and> assert_run_identity run_id tenant_id subject_id domain_id s = None \<and>
    (ms_tenant_id sn, ms_subject_id sn, ms_domain_id sn) = (tenant_id, subject_id, domain_id)"
    by (auto simp: select_snapshot_def fetchone_append)
qed

lemma snapshot_copies:
  assumes "store_reachable s" and "select_snapshot run_id (db_memory s) = Some sn" and "x \<in> set (ms_memories sn)"
  shows "\<exists>r\<in>set (mt_records (db_memory s)). copied_from sn x r"
  using reachable_mem_inv [OF assms(1)] assms(2,3) by (auto simp: mem_inv_def snapshots_ok_def select_snapshot_def dest!: fetchone_SomeD)

lemma retrieve_returns:
  assumes "retrieve cx domain_id keys w = (Inr sn, w')" and "sound w"
  obtains s where "allows (cx_authority cx) MEMORY_READ_PERMISSION" "later (w_db w) s" "later s (w_db w')" "sound w'"
    "assert_run_identity (cx_run_id cx) (a_tenant_id (cx_authority cx)) (a_subject_id (cx_authority cx)) domain_id s = None"
    "(ms_tenant_id sn, ms_subject_id sn, ms_domain_id sn) = (a_tenant_id (cx_authority cx), a_subject_id (cx_authority cx), domain_id)"
    "select_snapshot (cx_run_id cx) (db_memory (w_db w')) = Some sn"
proof -
  from assms(1) obtain token w1 where perm: "allows (cx_authority cx) MEMORY_READ_PERMISSION"
    and c: "call (\<lambda>t. get_or_create_run_snapshot_for_run (tk_clk t) (cx_run_id cx) (a_tenant_id (cx_authority cx))
           (a_subject_id (cx_authority cx)) domain_id (Some (sort (remdups keys))) token (tk_now t)) w = (Inr sn, w1)"
    and e: "ensure_run_event cx ''memory.retrieved'' (retrieved_payload sn) ''snapshot_id'' (JStr (ms_run_id sn)) w1 = (Inr (), w')"
    by (auto simp: retrieve_def require_lease_token_def elim!: andThenE split: if_splits)
  from call_InrE [OF c assms(2)] obtain s where s: "later (w_db w) s" "store_reachable s"
    "get_or_create_run_snapshot_for_run (tk_clk (w_ticks w (w_time w))) (cx_run_id cx) (a_tenant_id (cx_authority cx))
       (a_subject_id (cx_authority cx)) domain_id (Some (sort (remdups keys))) token (tk_now (w_ticks w (w_time w))) s = (Inr sn, w_db w1)"
    "w_ticks w1 = w_ticks w" by metis
  have l1: "later s (w_db w1)" by (metis later_snapshot s(3) snd_conv)
  then have "follows w w1" using s(1,4) later_trans by (simp add: follows_def)
  note q = quietD [OF quiet_ensure_run_event e follows_sound [OF this assms(2)]]
  then have l2: "later (w_db w1) (w_db w')" by (simp add: follows_def)
  from s(3) have "get_or_create_run_snapshot (tk_clk (w_ticks w (w_time w))) (cx_run_id cx) (a_tenant_id (cx_authority cx))
     (a_subject_id (cx_authority cx)) domain_id (Some (sort (remdups keys))) (Some token) (tk_now (w_ticks w (w_time w))) s = (Inr sn, w_db w1)"
    by (simp add: get_or_create_run_snapshot_for_run_def split: if_splits)
  note sn = snapshot_stored [OF this]
  have "select_snapshot (cx_run_id cx) (db_memory (w_db w')) = Some sn"
    using later_mem_evolves [OF l2 reachable_later [OF l1 s(2)]] sn(1) by (simp add: mem_evolves_def)
  with that [OF perm s(1) later_trans [OF l2 l1] q(3) sn(2,3)] show thesis .
qed

section \<open>Remembering\<close>

lemma select_active_last:
  assumes "records_ok (rows @ [n])" and "mm_status n = MEM_ACTIVE" and "mt_records m = rows @ [n]"
  shows "select_active (logical_key n) m = Some n"
proof -
  have "logical_key n \<notin> logical_key ` set (filter (\<lambda>r. mm_status r = MEM_ACTIVE) rows)"
    using records_okD(3) [OF assms(1)] assms(2) by simp
  then have "\<forall>r\<in>set rows. \<not> (logical_key r = logical_key n \<and> mm_status r = MEM_ACTIVE)" by (simp add: image_iff) metis
  then show ?thesis using assms(2,3) by (simp add: select_active_def fetchone_append fetchone_None_iff [THEN iffD2])
qed

lemma filter_key: "distinct (map f xs) \<Longrightarrow> a \<in> set xs \<Longrightarrow> filter (\<lambda>x. f x = f a) xs = [a]"
  by (induction xs) (auto simp: filter_empty_conv image_iff split: if_splits)

lemma one_active:
  assumes "records_ok rows" and "a \<in> set rows" and "mm_status a = MEM_ACTIVE"
  shows "filter (\<lambda>r. logical_key r = logical_key a \<and> mm_status r = MEM_ACTIVE) rows = [a]"
  using filter_key [OF records_okD(3) [OF assms(1)], of a] assms(2,3) by (simp add: conj_commute)

text \<open>What an upsert makes of the earlier records of its key.\<close>

definition retire :: "string \<times> string \<times> string \<times> memory_kind \<times> string \<Rightarrow> string \<Rightarrow> memory_row \<Rightarrow> memory_row" where
  "retire k now r = (if logical_key r = k \<and> mm_status r = MEM_ACTIVE then r\<lparr>mm_status := MEM_SUPERSEDED, mm_updated_at := now\<rparr> else r)"

lemma superseded_rows_retire:
  assumes "records_ok (mt_records m)"
  shows "superseded_rows now (select_active k m) (mt_records m) = map (retire k now) (mt_records m)"
proof (cases "select_active k m")
  case None
  then have "retire k now r = r" if "r \<in> set (mt_records m)" for r
    using that by (auto simp: retire_def select_active_def fetchone_None_iff)
  with None show ?thesis by (simp add: superseded_rows_def map_idI)
next
  case (Some a)
  note act = select_active_SomeD [OF Some]
  have "(mm_memory_id r = mm_memory_id a) = (logical_key r = k \<and> mm_status r = MEM_ACTIVE)" if r: "r \<in> set (mt_records m)" for r
  proof
    assume "mm_memory_id r = mm_memory_id a"
    with key_unique [OF records_okD(2) [OF assms] r] act show "logical_key r = k \<and> mm_status r = MEM_ACTIVE" by blast
  next
    assume "logical_key r = k \<and> mm_status r = MEM_ACTIVE"
    with key_unique [OF records_okD(3) [OF assms], of r a] r act show "mm_memory_id r = mm_memory_id a" by auto
  qed
  then show ?thesis by (simp add: Some superseded_rows_def sql_update_def retire_def)
qed

lemma insert_version_events:
  assumes "insert_version clk actor old record encoded m = Inr (res, m2)"
  shows "\<exists>evs. mt_events m2 = mt_events m @ evs \<and>
     map me_event_type evs = (if old = None then [''memory.created''] else [''memory.superseded'', ''memory.created''])"
  using assms
  by (cases old) (auto simp: insert_version_def Let_def superseded_events_def append_memory_event_def created_event_def split: if_splits)

lemma draft_key: "logical_key (draft_record now fresh tenant_id subject_id domain_id w run_id thread_id) = (tenant_id, subject_id, domain_id, mw_kind w, mw_key w)"
  and draft_expires: "mm_expires_at (draft_record now fresh tenant_id subject_id domain_id w run_id thread_id) = mw_expires_at w"
  by (simp_all add: draft_record_def logical_key_def)

text \<open>The body of an upsert: the active version afterwards, and what it left alone.\<close>

lemma write_version_effect:
  assumes "write_version clk actor record encoded m = Inr (res, m')" and inv: "mem_inv m" and st: "mm_status record = MEM_ACTIVE"
  defines "k \<equiv> logical_key record"
  shows "\<exists>a. select_active k m' = Some a \<and> mm_value a = encoded \<and> mm_expires_at a = mm_expires_at record
    \<and> (if mu_action res = MUT_UNCHANGED then m' = m
       else mt_records m' = map (retire k (clk 0)) (mt_records m) @ [a] \<and> mt_snapshots m' = mt_snapshots m
         \<and> (\<exists>evs. mt_events m' = mt_events m @ evs \<and> map me_event_type evs =
              (if mu_action res = MUT_CREATED then [''memory.created''] else [''memory.superseded'', ''memory.created''])))"
  using assms(1)
proof (cases rule: write_version_cases)
  case (unchanged a)
  then show ?thesis by (simp add: k_def)
next
  case written
  let ?old = "select_active (logical_key record) m" and ?rows = "superseded_rows (clk 0) (select_active (logical_key record) m) (mt_records m)"
  let ?new = "record\<lparr>mm_version := next_version (logical_key record) ?rows\<rparr>"
  have old: "\<And>a. ?old = Some a \<Longrightarrow> a \<in> set (mt_records m) \<and> mm_status a = MEM_ACTIVE" by (auto dest: select_active_SomeD)
  have ins: "mem_ok m m'" "mu_action res = (if ?old = None then MUT_CREATED else MUT_SUPERSEDED)" "mt_snapshots m' = mt_snapshots m"
    and rec: "mt_records m' = ?rows @ [?new\<lparr>mm_value := encoded\<rparr>]"
    using insert_version_ok [OF written(1) inv st] old by blast+
  define n where "n = ?new\<lparr>mm_value := encoded\<rparr>"
  have n: "logical_key n = k" "mm_status n = MEM_ACTIVE" "mm_value n = encoded" "mm_expires_at n = mm_expires_at record"
    by (simp_all add: n_def k_def logical_key_def st)
  note rec = rec [folded n_def]
  have ok: "records_ok (mt_records m)" "records_ok (mt_records m')" using inv ins(1) by (simp_all add: mem_ok_def mem_inv_def)
  from select_active_last [OF _ n(2) rec] ok(2) rec n(1) have act: "select_active k m' = Some n" by simp
  have "mt_records m' = map (retire k (clk 0)) (mt_records m) @ [n]" using rec superseded_rows_retire [OF ok(1)] by (simp add: k_def)
  moreover from insert_version_events [OF written(1)] ins(2)
  have "\<exists>evs. mt_events m' = mt_events m @ evs \<and> map me_event_type evs =
      (if mu_action res = MUT_CREATED then [''memory.created''] else [''memory.superseded'', ''memory.created''])" by (cases ?old) simp_all
  moreover have "mu_action res \<noteq> MUT_UNCHANGED" using ins(2) by simp
  ultimately show ?thesis using act n(3,4) ins(3) by auto
qed

lemma retire_versions: "versions_of k (map (retire k' now) rows) = versions_of k rows"
  by (induction rows) (auto simp: versions_of_def retire_def logical_key_def)

section \<open>Forgetting\<close>

lemma forgotten_rows:
  assumes "store_reachable s" and f: "forget_memory clk memory_id tenant_id subject_id actor s = (Inr r, t)"
    and old: "old \<in> set (mt_records (db_memory s))" "logical_key old = logical_key r"
  shows "store_reachable t" and "\<exists>d\<in>set (mt_records (db_memory t)). mm_memory_id d = mm_memory_id old \<and> mm_status d = MEM_DELETED"
proof -
  from assms(1) have "tx_reachable empty_db system_step (snd (forget_memory clk memory_id tenant_id subject_id actor s))"
    by (rule tx_step) (intro system_step.memory memory_step.forget)
  with f show "store_reachable t" by simp
  let ?f = "\<lambda>r. r\<lparr>mm_status := MEM_DELETED, mm_value := JNull, mm_updated_at := clk 0\<rparr>"
  from f obtain target m where target: "select_memory memory_id tenant_id subject_id (db_memory s) = Some target"
    and m: "forget_rows (clk 0) target (clk 1) actor (db_memory s) = Inr m" "t = s\<lparr>db_memory := m\<rparr>"
    and r: "fetchone (\<lambda>r. mm_memory_id r = memory_id) (mt_records m) = Some r"
    by (auto simp: forget_memory_def split: option.splits sum.splits)
  let ?p = "\<lambda>r. logical_key r = logical_key target \<and> mm_status r \<noteq> MEM_DELETED"
  note inv = reachable_mem_inv [OF assms(1)]
  note rec = forget_rows_ok(2) [OF m(1) inv]
  from target have tg: "target \<in> set (mt_records (db_memory s))" "mm_memory_id target = memory_id"
    by (auto simp: select_memory_def dest!: fetchone_SomeD)
  from r rec obtain x where x: "x \<in> set (mt_records (db_memory s))" "r = (if ?p x then ?f x else x)" "mm_memory_id r = memory_id"
    by (auto simp: set_sql_update dest!: fetchone_SomeD)
  then have "mm_memory_id x = mm_memory_id target" "logical_key r = logical_key x" by (auto simp: tg logical_key_def split: if_splits)
  with key_unique [OF records_okD(2) x(1) tg(1)] inv have key: "logical_key r = logical_key target" by (simp add: mem_inv_def)
  have "(if ?p old then ?f old else old) \<in> set (mt_records m)" using old(1) by (auto simp: rec set_sql_update)
  then show "\<exists>d\<in>set (mt_records (db_memory t)). mm_memory_id d = mm_memory_id old \<and> mm_status d = MEM_DELETED"
    using old(2) key by (intro bexI [of _ "if ?p old then ?f old else old"]) (auto simp: m(2))
qed

lemma deleted_stays:
  assumes "store_reachable t" and "later t u" and "d \<in> set (mt_records (db_memory t))" and "mm_status d = MEM_DELETED"
  shows "d \<in> set (mt_records (db_memory u))" and "mm_value d = JNull"
proof -
  from later_mem_evolves [OF assms(2,1)] assms(3,4) show "d \<in> set (mt_records (db_memory u))"
    by (auto simp: mem_evolves_def record_evolves_def)
  from reachable_mem_inv [OF assms(1)] assms(3,4) show "mm_value d = JNull" by (auto simp: mem_inv_def records_ok_def)
qed

lemma listed_record:
  assumes "list_memories now tenant_id subject_id domain kind inactive s = Inr ms" and "x \<in> set ms"
  shows "x \<in> set (mt_records (db_memory s))"
  using assms by (auto simp: list_memories_def validated_rows_def split: option.split_asm if_split_asm)

lemma list_memoriesD:
  assumes "list_memories now tenant_id subject_id domain kind False s = Inr ms" and "x \<in> set ms"
  shows "x \<in> set (mt_records (db_memory s)) \<and> mm_status x = MEM_ACTIVE"
  using assms by (auto simp: list_memories_def validated_rows_def split: option.split_asm if_split_asm)

text \<open>A record that is active shares its identifier with no deleted one.\<close>

lemma active_not_deleted:
  assumes "store_reachable u" and "d \<in> set (mt_records (db_memory u))" "mm_status d = MEM_DELETED"
    and "a \<in> set (mt_records (db_memory u))" "mm_status a = MEM_ACTIVE"
  shows "mm_memory_id a \<noteq> mm_memory_id d"
  using key_unique [OF records_okD(2) assms(4,2)] reachable_mem_inv [OF assms(1)] assms(3,5) by (auto simp: mem_inv_def)

section \<open>Properties\<close>

text \<open>
  C17. A run sees one sealed view of its own subject's memory. Retrieval returns only to an attempt
  whose authority may read memory and names the tenant, subject and domain persisted with the run;
  every memory it returns is a copy of a record of exactly that tenant, subject and domain. Every
  later retrieval for the run, by any attempt on any worker, with any keys and whatever was
  remembered or forgotten meanwhile, returns the same snapshot or raises.
\<close>

theorem retrieval_is_scoped_and_sealed:
  assumes "sound w" and "retrieve cx domain_id keys w = (Inr sn, w')"
    and "sound v" and "later (w_db w') (w_db v)" and "cx_run_id cx' = cx_run_id cx" and "retrieve cx' domain_id' keys' v = (Inr sn', v')"
  shows "sn' = sn \<and> allows (cx_authority cx) MEMORY_READ_PERMISSION
    \<and> (\<exists>s run auth. later (w_db w) s \<and> later s (w_db w') \<and> select_run (cx_run_id cx) s = Some run \<and> r_execution_authority run = Some auth
        \<and> ms_tenant_id sn = r_tenant_id run \<and> ms_subject_id sn = a_subject_id auth \<and> ms_domain_id sn = r_domain_id run)
    \<and> (\<forall>x\<in>set (ms_memories sn). \<exists>r\<in>set (mt_records (db_memory (w_db w'))). copied_from sn x r)"
proof -
  from retrieve_returns [OF assms(2,1)] obtain s where 1: "allows (cx_authority cx) MEMORY_READ_PERMISSION" "later (w_db w) s" "later s (w_db w')"
    "sound w'" "assert_run_identity (cx_run_id cx) (a_tenant_id (cx_authority cx)) (a_subject_id (cx_authority cx)) domain_id s = None"
    "(ms_tenant_id sn, ms_subject_id sn, ms_domain_id sn) = (a_tenant_id (cx_authority cx), a_subject_id (cx_authority cx), domain_id)"
    "select_snapshot (cx_run_id cx) (db_memory (w_db w')) = Some sn" by blast
  from retrieve_returns [OF assms(6,3)] obtain s' where 2: "later (w_db v) s'" "later s' (w_db v')"
    "select_snapshot (cx_run_id cx) (db_memory (w_db v')) = Some sn'" by (metis assms(5))
  from 1(4) have r: "store_reachable (w_db w')" by (simp add: sound_def)
  have "later (w_db w') (w_db v')" using 2 assms(4) later_trans by blast
  from later_mem_evolves [OF this r] 1(7) 2(3) have "sn' = sn" by (auto simp: mem_evolves_def)
  moreover from run_identityD [OF 1(5)] 1(6) have "\<exists>run auth. select_run (cx_run_id cx) s = Some run \<and> r_execution_authority run = Some auth
        \<and> ms_tenant_id sn = r_tenant_id run \<and> ms_subject_id sn = a_subject_id auth \<and> ms_domain_id sn = r_domain_id run" by (metis prod.inject)
  ultimately show ?thesis using 1(1-3) snapshot_copies [OF r 1(7)] by blast
qed

lemma repeated_upsert:
  assumes "upsert_memory clk fresh tenant_id subject_id domain_id w run_id thread_id actor lease_token now_ms t = (Inr res, t')"
    and "encode_json (mw_value w) = Inr encoded"
    and a: "select_active (tenant_id, subject_id, domain_id, mw_kind w, mw_key w) (db_memory t) = Some a" "mm_value a = encoded"
      "mm_expires_at a = mw_expires_at w"
  shows "t' = t \<and> mu_action res = MUT_UNCHANGED"
proof -
  let ?d = "draft_record (clk 0) fresh tenant_id subject_id domain_id w run_id thread_id"
  from assms(1,2) obtain m where m: "t' = t\<lparr>db_memory := m\<rparr>" "write_version clk actor ?d encoded (db_memory t) = Inr (res, m)"
    by (cases rule: upsert_memory_cases [of clk fresh tenant_id subject_id domain_id w run_id thread_id actor lease_token now_ms t]) auto
  from m(2) a select_active_SomeD [OF a(1)] have "m = db_memory t \<and> mu_action res = MUT_UNCHANGED"
    by (cases rule: write_version_cases) (auto simp: draft_key draft_expires)
  with m(1) show ?thesis by simp
qed

text \<open>
  C18. What is remembered is the next version. An upsert that returns either finds the value and the
  expiry active already, and changes nothing, or appends exactly one record to the table: the only
  active record of the logical key, with the given value and expiry and the number after those of
  all versions of the key. Of the earlier records only the one active under that key changes, to
  superseded; every other record of that key and of every other, the sealed snapshots and all
  other tables are as before, and the audit log grows by one event for each record touched.
  Repeating the write, from any run and at any time of day, changes nothing and says so.
\<close>

theorem remembered_value_is_current:
  assumes "store_reachable s"
    and "upsert_memory clk fresh tenant_id subject_id domain_id w run_id thread_id actor lease_token now_ms s = (Inr res, t)"
  defines "k \<equiv> (tenant_id, subject_id, domain_id, mw_kind w, mw_key w)"
  shows "(\<exists>a. logical_key a = k \<and> encode_json (mw_value w) = Inr (mm_value a) \<and> mm_expires_at a = mw_expires_at w
        \<and> filter (\<lambda>r. logical_key r = k \<and> mm_status r = MEM_ACTIVE) (mt_records (db_memory t)) = [a]
        \<and> mm_version a = int (length (versions_of k (mt_records (db_memory t))))
        \<and> (if mu_action res = MUT_UNCHANGED then t = s
           else mt_records (db_memory t) = map (\<lambda>r. if logical_key r = k \<and> mm_status r = MEM_ACTIVE
                 then r\<lparr>mm_status := MEM_SUPERSEDED, mm_updated_at := clk 0\<rparr> else r) (mt_records (db_memory s)) @ [a]
             \<and> mm_version a = int (length (versions_of k (mt_records (db_memory s)))) + 1
             \<and> (\<exists>evs. mt_events (db_memory t) = mt_events (db_memory s) @ evs \<and> map me_event_type evs =
                  (if mu_action res = MUT_CREATED then [''memory.created''] else [''memory.superseded'', ''memory.created'']))
             \<and> mt_snapshots (db_memory t) = mt_snapshots (db_memory s) \<and> t = s\<lparr>db_memory := db_memory t\<rparr>))
    \<and> numbered (versions_of k (mt_records (db_memory t)))
    \<and> (\<forall>clk' fresh' run_id' thread_id' actor' lease_token' now_ms' res' t'.
        upsert_memory clk' fresh' tenant_id subject_id domain_id w run_id' thread_id' actor' lease_token' now_ms' t = (Inr res', t')
          \<longrightarrow> t' = t \<and> mu_action res' = MUT_UNCHANGED)"
proof -
  let ?d = "draft_record (clk 0) fresh tenant_id subject_id domain_id w run_id thread_id"
  note inv = reachable_mem_inv [OF assms(1)]
  from assms(2) obtain encoded m where up: "encode_json (mw_value w) = Inr encoded" "t = s\<lparr>db_memory := m\<rparr>"
    "write_version clk actor ?d encoded (db_memory s) = Inr (res, m)"
    by (cases rule: upsert_memory_cases [of clk fresh tenant_id subject_id domain_id w run_id thread_id actor lease_token now_ms s]) auto
  from write_version_effect [OF up(3) inv draft_active, unfolded draft_key draft_expires, folded k_def]
  obtain a where a: "select_active k m = Some a" "mm_value a = encoded" "mm_expires_at a = mw_expires_at w"
    and change: "if mu_action res = MUT_UNCHANGED then m = db_memory s
       else mt_records m = map (retire k (clk 0)) (mt_records (db_memory s)) @ [a] \<and> mt_snapshots m = mt_snapshots (db_memory s)
         \<and> (\<exists>evs. mt_events m = mt_events (db_memory s) @ evs \<and> map me_event_type evs =
              (if mu_action res = MUT_CREATED then [''memory.created''] else [''memory.superseded'', ''memory.created'']))" by blast
  from write_version_ok [OF up(3) inv draft_active] have ok: "records_ok (mt_records m)" by (simp add: mem_ok_def mem_inv_def)
  note act = select_active_SomeD [OF a(1)]
  have ver: "mm_version a = int (length (versions_of k (mt_records m)))" using ok act by (auto simp: records_ok_def)
  have nxt: "mm_version a = int (length (versions_of k (mt_records (db_memory s)))) + 1" if "mu_action res \<noteq> MUT_UNCHANGED"
  proof -
    from change that have "mt_records m = map (retire k (clk 0)) (mt_records (db_memory s)) @ [a]" by simp
    then have "versions_of k (mt_records m) = versions_of k (mt_records (db_memory s)) @ [mm_version a]"
      using act retire_versions [of k k "clk 0"] by (simp add: versions_of_def)
    with ver show ?thesis by simp
  qed
  have t: "db_memory t = m" "t = s\<lparr>db_memory := db_memory t\<rparr>" by (simp_all add: up(2))
  note again = repeated_upsert [OF _ up(1) _ a(2,3), where t = t, unfolded t(1), OF _ a(1) [unfolded k_def]]
  have one: "filter (\<lambda>r. logical_key r = k \<and> mm_status r = MEM_ACTIVE) (mt_records m) = [a]"
    using one_active [OF ok, of a] act by simp
  have "if mu_action res = MUT_UNCHANGED then t = s
     else mt_records (db_memory t) = map (\<lambda>r. if logical_key r = k \<and> mm_status r = MEM_ACTIVE
           then r\<lparr>mm_status := MEM_SUPERSEDED, mm_updated_at := clk 0\<rparr> else r) (mt_records (db_memory s)) @ [a]
       \<and> mm_version a = int (length (versions_of k (mt_records (db_memory s)))) + 1
       \<and> (\<exists>evs. mt_events (db_memory t) = mt_events (db_memory s) @ evs \<and> map me_event_type evs =
            (if mu_action res = MUT_CREATED then [''memory.created''] else [''memory.superseded'', ''memory.created'']))
       \<and> mt_snapshots (db_memory t) = mt_snapshots (db_memory s) \<and> t = s\<lparr>db_memory := db_memory t\<rparr>"
    using change nxt t up(2) by (auto simp: retire_def [abs_def])
  then show ?thesis
    using up(1) a act one ver again records_okD(1) [OF ok] t(1) by (intro conjI exI [of _ a] allI impI) simp_all
qed

text \<open>
  C19. Forgetting erases. Once a memory was forgotten, every version of its logical key stays in the
  table as a tombstone without a value, for ever: whatever happens later, no listing of active
  memories and no newly sealed snapshot, of any subject or run, contains one of them again, and a
  listing that includes inactive records shows only the empty tombstone. Snapshots that were sealed
  before keep what they hold.
\<close>

theorem forgotten_memory_is_erased:
  assumes "store_reachable s" and "forget_memory clk memory_id tenant_id subject_id actor s = (Inr r, t)"
    and "old \<in> set (mt_records (db_memory s))" and "logical_key old = logical_key r" and "later t u"
  shows "(\<exists>d\<in>set (mt_records (db_memory u)). mm_memory_id d = mm_memory_id old \<and> mm_status d = MEM_DELETED \<and> mm_value d = JNull)
    \<and> (\<forall>now tenant' subject' domain kind ms. list_memories now tenant' subject' domain kind False u = Inr ms \<longrightarrow>
        mm_memory_id old \<notin> mm_memory_id ` set ms)
    \<and> (\<forall>now tenant' subject' domain kind inactive ms. list_memories now tenant' subject' domain kind inactive u = Inr ms \<longrightarrow>
        (\<forall>x\<in>set ms. mm_memory_id x = mm_memory_id old \<longrightarrow> mm_status x = MEM_DELETED \<and> mm_value x = JNull))
    \<and> (\<forall>clk' run_id tenant' subject' domain keys lease_token now_ms sn u'. select_snapshot run_id (db_memory u) = None \<longrightarrow>
        get_or_create_run_snapshot clk' run_id tenant' subject' domain keys lease_token now_ms u = (Inr sn, u') \<longrightarrow>
        mm_memory_id old \<notin> rm_memory_id ` set (ms_memories sn))"
proof -
  note t = forgotten_rows [OF assms(1-4)]
  from t(2) obtain d where d: "d \<in> set (mt_records (db_memory t))" "mm_memory_id d = mm_memory_id old" "mm_status d = MEM_DELETED" by blast
  note du = deleted_stays [OF t(1) assms(5) d(1,3)]
  note gone = active_not_deleted [OF reachable_later [OF assms(5) t(1)] du(1) d(3), unfolded d(2)]
  have active: "mm_memory_id old \<notin> mm_memory_id ` set ms" if "list_memories now tenant' subject' domain kind False u = Inr ms" for now tenant' subject' domain kind ms
    using list_memoriesD [OF that] gone by (metis imageE)
  have inactive: "mm_status x = MEM_DELETED \<and> mm_value x = JNull"
    if "list_memories now tenant' subject' domain kind inactive u = Inr ms" and "x \<in> set ms" and "mm_memory_id x = mm_memory_id old"
    for now tenant' subject' domain kind inactive ms x
  proof -
    have "x = d" using listed_record [OF that(1,2)] du(1) d(2) that(3) reachable_mem_inv [OF reachable_later [OF assms(5) t(1)]]
      by (auto simp: mem_inv_def intro: key_unique [OF records_okD(2)])
    with d(3) du(2) show ?thesis by simp
  qed
  have sealed: "mm_memory_id old \<notin> rm_memory_id ` set (ms_memories sn)"
    if "select_snapshot run_id (db_memory u) = None"
      and "get_or_create_run_snapshot clk' run_id tenant' subject' domain keys lease_token now_ms u = (Inr sn, u')"
    for clk' run_id tenant' subject' domain keys lease_token now_ms sn u'
  proof (cases rule: snapshot_cases [of clk' run_id tenant' subject' domain keys lease_token now_ms u])
    case (sealed sn' m)
    with that have "sn' = sn" by simp
    with seal_snapshotD(5) [OF sealed(4)] have "rm_memory_id ` set (ms_memories sn) \<subseteq> mm_memory_id ` {a \<in> set (mt_records (db_memory u)). mm_status a = MEM_ACTIVE}"
      by (auto simp: from_record_def retrievable_def)
    moreover have "mm_memory_id old \<notin> mm_memory_id ` {a \<in> set (mt_records (db_memory u)). mm_status a = MEM_ACTIVE}"
      using gone by (metis (mono_tags, lifting) imageE mem_Collect_eq)
    ultimately show ?thesis by blast
  qed (use that in auto)
  from du d(2,3) have kept: "\<exists>d\<in>set (mt_records (db_memory u)). mm_memory_id d = mm_memory_id old \<and> mm_status d = MEM_DELETED \<and> mm_value d = JNull"
    by blast
  show ?thesis
    by (rule conjI [OF kept], (intro conjI allI impI), (erule active), (intro ballI impI, erule (2) inactive), (erule (1) sealed))
qed

section \<open>Examples\<close>

definition gx_authority :: authority where
  "gx_authority = \<lparr>a_tenant_id = ''T'', a_subject_id = ''u'', a_permissions = [''memory:read'', ''memory:write'']\<rparr>"

definition gx_owned :: db where
  "gx_owned = snd (claim_next_run ex_models ex_clk ''tok'' ''w'' 30 None 1000
     (snd (create_run_with_event ex_clk ((ex_run ''r1'' ''1'')\<lparr>r_execution_authority := Some gx_authority\<rparr>) ''run.queued'' [] empty_db)))"

definition gx_write :: memory_write where
  "gx_write = \<lparr>mw_kind = PREFERENCE, mw_key = ''seat'', mw_value = Jsonable (JStr ''aisle''), mw_confidence = Binary 1 0, mw_expires_at = None\<rparr>"

definition gx_upsert :: "memory_mutation store_outcome" where
  "gx_upsert = upsert_memory ex_clk ''1'' ''T'' ''u'' ''d'' gx_write ''r1'' ''th'' ''u'' (Some ''tok'') 2000 gx_owned"

definition gx_stored :: db where
  "gx_stored = snd gx_upsert"

definition gx_forget :: "memory_row store_outcome" where
  "gx_forget = forget_memory ex_clk ''mem_1'' ''T'' ''u'' ''u'' gx_stored"

definition gx_context :: exec_context where
  "gx_context = \<lparr>cx_run_id = ''r1'', cx_thread_id = ''th'', cx_recovered_after_restart = False,
     cx_authority = gx_authority, cx_lease_token = Some ''tok''\<rparr>"

definition gx_world :: "db \<Rightarrow> world" where
  "gx_world s = \<lparr>w_db = s, w_ticks = (\<lambda>_. \<lparr>tk_env = id, tk_clk = ex_clk, tk_now = 2000, tk_token = ''t1'', tk_id = ''c1'', tk_fault = Completes,
     tk_registry = [], tk_reply = RaisesOther\<rparr>), w_time = 0, w_calls = []\<rparr>"

lemma gx_reachable: "store_reachable gx_owned" "store_reachable gx_stored"
proof -
  show 1: "store_reachable gx_owned"
    unfolding gx_owned_def by (rule store_tx [OF store_tx [OF tx_start store_step.create_with_event] store_step.claim])
      (simp add: record_fields_valid_def ex_run_def)
  show "store_reachable gx_stored"
    unfolding gx_stored_def gx_upsert_def by (rule tx_step [OF 1]) (intro system_step.memory memory_step.upsert)
qed

lemma gx_sound: "store_reachable s \<Longrightarrow> sound (gx_world s)"
  by (simp add: sound_def fair_def gx_world_def tx_start)

text \<open>The first retrieval, a later one after the memory was forgotten, and what both return.\<close>

definition gx_first :: "(exn + memory_snapshot) \<times> world" where
  "gx_first = retrieve gx_context ''d'' [''seat''] (gx_world gx_stored)"

definition gx_second :: "(exn + memory_snapshot) \<times> world" where
  "gx_second = retrieve gx_context ''d'' [] (gx_world (snd (forget_memory ex_clk ''mem_1'' ''T'' ''u'' ''u'' (w_db (snd gx_first)))))"

fun seen :: "(exn + memory_snapshot) \<times> world \<Rightarrow> (string \<times> json) list option" where
  "seen (Inr sn, _) = Some (map (\<lambda>x. (rm_key x, rm_value x)) (ms_memories sn))"
| "seen (Inl _, _) = None"

lemma gx_seen: "seen gx_first = Some [(''seat'', JStr ''aisle'')]" "seen gx_second \<noteq> None"
  by code_simp+

lemma seen_cases: "seen x = Some vs \<Longrightarrow> \<exists>sn. x = (Inr sn, snd x) \<and> map (\<lambda>x. (rm_key x, rm_value x)) (ms_memories sn) = vs"
  by (cases x rule: seen.cases) auto

theorem retrieval_is_scoped_and_sealed_witness: "seen gx_second = Some [(''seat'', JStr ''aisle'')]"
proof -
  from gx_seen obtain sn sn' where 1: "retrieve gx_context ''d'' [''seat''] (gx_world gx_stored) = (Inr sn, snd gx_first)"
    "map (\<lambda>x. (rm_key x, rm_value x)) (ms_memories sn) = [(''seat'', JStr ''aisle'')]"
    and 2: "gx_second = (Inr sn', snd gx_second)"
    using seen_cases [of gx_first] seen_cases [of gx_second] by (auto simp: gx_first_def)
  let ?s = "w_db (snd gx_first)" and ?t = "snd (forget_memory ex_clk ''mem_1'' ''T'' ''u'' ''u'' (w_db (snd gx_first)))"
  from quietD [OF quiet_retrieve 1(1) gx_sound [OF gx_reachable(2)]] have "store_reachable ?s" by (simp add: sound_def)
  moreover have l: "later ?s ?t" by (intro later_one system_step.memory memory_step.forget)
  ultimately have "store_reachable ?t" by (rule reachable_later [rotated])
  from retrieval_is_scoped_and_sealed [OF gx_sound [OF gx_reachable(2)] 1(1) gx_sound [OF this] _ refl 2 [unfolded gx_second_def]] l
  have "sn' = sn" by (simp add: gx_world_def)
  with 1(2) 2 show ?thesis by (metis seen.simps(1))
qed

theorem remembered_value_is_current_witness:
  "\<exists>a. filter (\<lambda>r. logical_key r = (''T'', ''u'', ''d'', PREFERENCE, ''seat'') \<and> mm_status r = MEM_ACTIVE) (mt_records (db_memory gx_stored)) = [a]
     \<and> mm_value a = JStr ''aisle''"
proof -
  have "(case fst gx_upsert of Inr _ \<Rightarrow> True | Inl _ \<Rightarrow> False)" by code_simp
  then obtain res where "gx_upsert = (Inr res, gx_stored)" by (metis gx_stored_def prod.collapse sum.case_eq_if sum.collapse(2))
  then have "upsert_memory ex_clk ''1'' ''T'' ''u'' ''d'' gx_write ''r1'' ''th'' ''u'' (Some ''tok'') 2000 gx_owned = (Inr res, gx_stored)"
    by (simp add: gx_upsert_def)
  from remembered_value_is_current [OF gx_reachable(1) this] show ?thesis by (auto simp: gx_write_def encode_json_def)
qed

theorem forgotten_memory_is_erased_witness:
  "\<exists>d\<in>set (mt_records (db_memory (snd gx_forget))). mm_memory_id d = ''mem_1'' \<and> mm_value d = JNull"
proof -
  have "map (\<lambda>r. (mm_memory_id r, logical_key r)) (mt_records (db_memory gx_stored)) = [(''mem_1'', ''T'', ''u'', ''d'', PREFERENCE, ''seat'')]"
    by code_simp
  then obtain old where old: "old \<in> set (mt_records (db_memory gx_stored))" "mm_memory_id old = ''mem_1''"
    "logical_key old = (''T'', ''u'', ''d'', PREFERENCE, ''seat'')" by (cases "mt_records (db_memory gx_stored)") auto
  have "(case fst gx_forget of Inr r \<Rightarrow> logical_key r = (''T'', ''u'', ''d'', PREFERENCE, ''seat'') | Inl _ \<Rightarrow> False)" by code_simp
  then obtain r where "gx_forget = (Inr r, snd gx_forget)" "logical_key r = (''T'', ''u'', ''d'', PREFERENCE, ''seat'')"
    by (auto simp: prod_eq_iff split: sum.splits)
  with forgotten_memory_is_erased [OF gx_reachable(2) _ old(1) _ tx_start, of ex_clk "''mem_1''" "''T''" "''u''" "''u''" r "snd gx_forget"] old
  show ?thesis by (auto simp: gx_forget_def)
qed

end
