(* ===== verification/Tool_Registry.thy ===== *)
theory Tool_Registry
  imports Durable_Action
begin

text \<open>
  \<^verbatim>\<open>runtime_service/sandbox.py\<close> and \<^verbatim>\<open>runtime_service/planner.py\<close>: the server-owned tool
  registry, the sandbox that runs a read-only tool in a subprocess, and the typed decisions a
  planner may return. What the subprocess did, the JSON decoder and the texts that the library
  writes into an error are arguments; execution identifiers and durations are left out.
\<close>

section \<open>Tools\<close>

datatype tool_effect = READ_ONLY | EXTERNAL_WRITE

fun effect_value :: "tool_effect \<Rightarrow> string" where
  "effect_value READ_ONLY = ''read_only''"
| "effect_value EXTERNAL_WRITE = ''external_write''"

record tool_policy =
  tp_timeout_seconds :: py_float
  tp_max_output_bytes :: int
  tp_max_memory_mb :: int
  tp_max_cpu_seconds :: int
  tp_filesystem :: "string \<times> string"
  tp_network :: "string \<times> string"
  tp_environment :: "string \<times> string"

fun float_within :: "int \<Rightarrow> py_float \<Rightarrow> bool" where
  "float_within bound (Binary m e) \<longleftrightarrow> 0 < m \<and> (if 0 \<le> e then m * 2 ^ nat e \<le> bound else m \<le> bound * 2 ^ nat (- e))"
| "float_within bound NotFinite = False"

definition capability_in :: "string list \<Rightarrow> string \<times> string \<Rightarrow> bool" where
  "capability_in modes c \<longleftrightarrow> fst c \<in> set modes \<and> snd c \<in> {''process'', ''kernel''}"

definition policy_valid :: "tool_policy \<Rightarrow> bool" where
  "policy_valid p \<longleftrightarrow> float_within 30 (tp_timeout_seconds p)
     \<and> 256 \<le> tp_max_output_bytes p \<and> tp_max_output_bytes p \<le> 1048576
     \<and> 32 \<le> tp_max_memory_mb p \<and> tp_max_memory_mb p \<le> 1024 \<and> 1 \<le> tp_max_cpu_seconds p \<and> tp_max_cpu_seconds p \<le> 30
     \<and> capability_in [''none'', ''readonly'', ''readwrite''] (tp_filesystem p) \<and> capability_in [''none'', ''host''] (tp_network p)
     \<and> capability_in [''restricted'', ''inherited''] (tp_environment p)"

text \<open>
  The input model maps arguments to the dump of the validated input. A runtime-input gate answers
  or raises (\<open>None\<close>); an output model may fail to forbid extra fields.
\<close>

record registered_tool = tool_spec +
  ts_name :: string
  ts_description :: string
  ts_input_model :: "(string \<times> json) list \<Rightarrow> (string \<times> json) list option"
  ts_policy :: tool_policy
  ts_handler_entrypoint :: "string option"
  ts_effect :: tool_effect
  ts_output_forbids_extra :: bool
  ts_runtime_input_gate :: "((string \<times> json) list \<Rightarrow> bool option) option"

type_synonym tool_registry = "(string \<times> registered_tool) list"

definition valid_handler_entrypoint :: "string option \<Rightarrow> bool" where
  "valid_handler_entrypoint h = (case h of None \<Rightarrow> False | Some text \<Rightarrow>
     let module_name = takeWhile (\<lambda>c. c \<noteq> CHR '':'') text; rest = dropWhile (\<lambda>c. c \<noteq> CHR '':'') text
     in rest \<noteq> [] \<and> module_name \<noteq> [] \<and> tl rest \<noteq> [] \<and> CHR '':'' \<notin> set (tl rest))"

definition spec_problem :: "registered_tool \<Rightarrow> string option" where
  "spec_problem spec =
     (if ts_effect spec = READ_ONLY
      then (if ts_retry_mode spec \<noteq> SAFE then Some (''read-only tools must use retry_mode='' @ py_repr ''safe'')
            else if ts_provider_name spec \<noteq> None then Some ''read-only tools cannot declare provider_name''
            else if ts_runtime_input_gate spec \<noteq> None then Some ''read-only tools cannot declare runtime_input_gate''
            else if \<not> valid_handler_entrypoint (ts_handler_entrypoint spec)
            then Some (''handler_entrypoint must use the server-controlled '' @ py_repr ''module:function'' @ '' format'')
            else None)
      else if ts_handler_entrypoint spec \<noteq> None then Some ''external-write tools cannot declare a sandbox handler_entrypoint''
      else if (case ts_provider_name spec of None \<Rightarrow> True | Some n \<Rightarrow> py_strip n = [])
      then Some ''external-write tools require a non-empty provider_name''
      else if ts_output_model spec = None then Some ''external-write tools require an output_model''
      else if \<not> ts_output_forbids_extra spec
      then Some (''external-write output_model must be a BaseModel with extra='' @ py_repr ''forbid'')
      else None)"

definition register_tool :: "registered_tool \<Rightarrow> tool_registry \<Rightarrow> store_error + tool_registry" where
  "register_tool spec tools =
     (if map_of tools (ts_name spec) \<noteq> None then Inl (ValueError (''Tool already registered: '' @ ts_name spec))
      else case spec_problem spec of Some problem \<Rightarrow> Inl (ValueError problem)
        | None \<Rightarrow> Inr (tools @ [(ts_name spec, spec)]))"

definition resolve_tool :: "tool_registry \<Rightarrow> string \<Rightarrow> registered_tool option" where
  "resolve_tool tools name = map_of tools name"

record tool_descriptor =
  td_name :: string
  td_description :: string
  td_input_schema :: json
  td_policy :: tool_policy

definition list_tools :: "(registered_tool \<Rightarrow> json) \<Rightarrow> tool_registry \<Rightarrow> tool_descriptor list" where
  "list_tools model_json_schema tools =
     map (\<lambda>spec. \<lparr>td_name = ts_name spec, td_description = ts_description spec, td_input_schema = model_json_schema spec,
        td_policy = ts_policy spec\<rparr>) (sort_key ts_name (map snd tools))"

section \<open>The sandbox\<close>

datatype tool_execution_status = X_COMPLETED | X_DENIED | X_CAPABILITY_UNSUPPORTED | X_INVALID_INPUT | X_TIMED_OUT | X_FAILED

record tool_execution_result =
  xr_tool_name :: string
  xr_status :: tool_execution_status
  xr_result :: "(string \<times> json) list option"
  xr_error :: "string option"
  xr_exit_code :: "int option"
  xr_output_truncated :: bool

definition PROCESS_CAPABILITY_SUPPORT :: "string \<Rightarrow> (string \<times> string) list" where
  "PROCESS_CAPABILITY_SUPPORT capability =
     (if capability = ''filesystem'' then [(''readwrite'', ''process'')]
      else if capability = ''network'' then [(''none'', ''process''), (''host'', ''process'')]
      else [(''restricted'', ''process''), (''inherited'', ''process'')])"

definition unsupported_capability :: "tool_policy \<Rightarrow> string option" where
  "unsupported_capability p = map_option
     (\<lambda>(capability, mode, enforcement). ''Tool capability cannot be enforced by the subprocess executor: ''
        @ capability @ ''='' @ mode @ '', enforcement='' @ enforcement @ ''.'')
     (List.find (\<lambda>(capability, c). c \<notin> set (PROCESS_CAPABILITY_SUPPORT capability))
       [(''filesystem'', tp_filesystem p), (''network'', tp_network p), (''environment'', tp_environment p)])"

definition policy_environment :: "(string \<times> string) list \<Rightarrow> tool_policy \<Rightarrow> (string \<times> string) list" where
  "policy_environment environ p =
     [(''PYTHONIOENCODING'', ''utf-8''), (''PYTHONUNBUFFERED'', ''1''),
      (''PATH'', case map_of environ ''PATH'' of Some v \<Rightarrow> v | None \<Rightarrow> []),
      (''SANDBOX_MAX_CPU_SECONDS'', show_int (tp_max_cpu_seconds p)), (''SANDBOX_MAX_MEMORY_MB'', show_int (tp_max_memory_mb p)),
      (''SANDBOX_FILESYSTEM_MODE'', fst (tp_filesystem p)), (''SANDBOX_FILESYSTEM_ENFORCEMENT'', snd (tp_filesystem p)),
      (''SANDBOX_NETWORK_MODE'', fst (tp_network p)), (''SANDBOX_NETWORK_ENFORCEMENT'', snd (tp_network p)),
      (''SANDBOX_ENVIRONMENT_MODE'', fst (tp_environment p)), (''SANDBOX_ENVIRONMENT_ENFORCEMENT'', snd (tp_environment p))]"

definition PASSED_VARIABLES :: "string list" where
  "PASSED_VARIABLES = [''LANG'', ''LC_ALL'', ''TZ'', ''SYSTEMROOT'', ''WINDIR'']"

definition env_put :: "(string \<times> string) list \<Rightarrow> string \<times> string \<Rightarrow> (string \<times> string) list" where
  "env_put env kv = kv # filter (\<lambda>x. fst x \<noteq> fst kv) env"

definition sanitized_environment :: "(string \<times> string) list \<Rightarrow> tool_policy \<Rightarrow> (string \<times> string) list" where
  "sanitized_environment environ p =
     (let passed = (if fst (tp_environment p) = ''restricted''
        then concat (map (\<lambda>k. case map_of environ k of Some v \<Rightarrow> if v = [] then [] else [(k, v)] | None \<Rightarrow> []) PASSED_VARIABLES) else [])
      in foldl env_put (if fst (tp_environment p) = ''inherited'' then environ else []) (policy_environment environ p @ passed))"

text \<open>What became of the subprocess: its exit code and output, or that it never started.\<close>

datatype process_outcome = Exited int string string | TimedOut int string string | NotStarted

text \<open>Texts the code takes from elsewhere: a validation error, a duration with two decimals, the class of a decoding error.\<close>

record sandbox_texts =
  sx_invalid :: "(string \<times> json) list \<Rightarrow> string"
  sx_seconds :: "py_float \<Rightarrow> string"
  sx_decode :: "string \<Rightarrow> string"

definition rejected :: "string \<Rightarrow> tool_execution_status \<Rightarrow> string \<Rightarrow> tool_execution_result" where
  "rejected name status error = \<lparr>xr_tool_name = name, xr_status = status, xr_result = None, xr_error = Some error,
     xr_exit_code = None, xr_output_truncated = False\<rparr>"

definition starts_with :: "string \<Rightarrow> string \<Rightarrow> bool" where
  "starts_with p s \<longleftrightarrow> take (length p) s = p"

definition finished :: "sandbox_texts \<Rightarrow> (string \<Rightarrow> json option) \<Rightarrow> string \<Rightarrow> nat \<Rightarrow> int \<Rightarrow> string \<Rightarrow> string \<Rightarrow> tool_execution_result" where
  "finished X loads name max_output code stdout stderr =
     (let truncated = max_output < length stdout \<or> max_output < length stderr; error = py_strip (take max_output stderr);
        result = (\<lambda>status value text. \<lparr>xr_tool_name = name, xr_status = status, xr_result = value, xr_error = text,
          xr_exit_code = Some code, xr_output_truncated = truncated\<rparr>) in
      if code = 5 \<and> starts_with ''CAPABILITY_UNSUPPORTED: '' error then result X_CAPABILITY_UNSUPPORTED None (Some error)
      else if code \<noteq> 0 then result X_FAILED None (Some (if error \<noteq> [] then error else ''Tool exited with code '' @ show_int code @ ''.''))
      else case loads (take max_output stdout) of
          None \<Rightarrow> result X_FAILED None (Some (''Sandbox returned invalid JSON: '' @ sx_decode X (take max_output stdout)))
        | Some (JObj decoded) \<Rightarrow> result X_COMPLETED (Some decoded) None
        | Some _ \<Rightarrow> result X_FAILED None (Some ''Sandbox result must be a JSON object.''))"

text \<open>\<open>None\<close> stands for an exception of the executor itself.\<close>

definition sandbox_execute :: "sandbox_texts \<Rightarrow> tool_registry \<Rightarrow> (string \<Rightarrow> json option) \<Rightarrow> (string \<times> string) list
    \<Rightarrow> (string \<Rightarrow> (string \<times> string) list \<Rightarrow> (string \<times> json) list \<Rightarrow> process_outcome) \<Rightarrow> string \<Rightarrow> (string \<times> json) list \<Rightarrow> tool_execution_result option" where
  "sandbox_execute X tools loads environ run name arguments = (case resolve_tool tools name of
      None \<Rightarrow> Some (rejected name X_DENIED ''Tool is not registered in the runtime allowlist.'')
    | Some spec \<Rightarrow>
        if ts_effect spec = EXTERNAL_WRITE
        then Some (rejected name X_DENIED ''External-write tools require the durable external-action execution path.'')
        else (case unsupported_capability (ts_policy spec) of
          Some problem \<Rightarrow> Some (rejected name X_CAPABILITY_UNSUPPORTED problem)
        | None \<Rightarrow> (case ts_input_model spec arguments of
            None \<Rightarrow> Some (rejected name X_INVALID_INPUT (sx_invalid X arguments))
          | Some validated \<Rightarrow> (case ts_handler_entrypoint spec of
              None \<Rightarrow> None
            | Some entrypoint \<Rightarrow> let limit = nat (tp_max_output_bytes (ts_policy spec)) in
                (case run entrypoint (sanitized_environment environ (ts_policy spec)) validated of
                  NotStarted \<Rightarrow> None
                | TimedOut code stdout stderr \<Rightarrow> Some \<lparr>xr_tool_name = name, xr_status = X_TIMED_OUT, xr_result = None,
                    xr_error = Some (''Tool exceeded '' @ sx_seconds X (tp_timeout_seconds (ts_policy spec)) @ ''s timeout.''),
                    xr_exit_code = Some code, xr_output_truncated = (limit < length stdout \<or> limit < length stderr)\<rparr>
                | Exited code stdout stderr \<Rightarrow> Some (finished X loads name limit code stdout stderr))))))"

section \<open>Planner decisions\<close>

datatype decision =
    CallTool string "(string \<times> json) list" string
  | RequestClarification string string
  | Finish string "(string \<times> json) list" string

fun decision_valid :: "decision \<Rightarrow> bool" where
  "decision_valid (CallTool tool_name arguments reason) \<longleftrightarrow> bounded_text 200 tool_name \<and> bounded_text 1000 reason"
| "decision_valid (RequestClarification question reason) \<longleftrightarrow> bounded_text 2000 question \<and> bounded_text 1000 reason"
| "decision_valid (Finish message out reason) \<longleftrightarrow> bounded_text 4000 message \<and> bounded_text 1000 reason"

fun dump_decision :: "decision \<Rightarrow> json" where
  "dump_decision (CallTool tool_name arguments reason) = JObj [(''decision_type'', JStr ''CALL_TOOL''), (''tool_name'', JStr tool_name),
     (''arguments'', JObj arguments), (''reason'', JStr reason)]"
| "dump_decision (RequestClarification question reason) = JObj [(''decision_type'', JStr ''REQUEST_CLARIFICATION''),
     (''question'', JStr question), (''reason'', JStr reason)]"
| "dump_decision (Finish message out reason) = JObj [(''decision_type'', JStr ''FINISH''), (''message'', JStr message),
     (''output'', JObj out), (''reason'', JStr reason)]"

definition str_field :: "(string \<times> json) list \<Rightarrow> string \<Rightarrow> nat \<Rightarrow> string option" where
  "str_field kvs k n = (case map_of kvs k of Some (JStr v) \<Rightarrow> if bounded_text n v then Some v else None | _ \<Rightarrow> None)"

definition obj_field :: "(string \<times> json) list \<Rightarrow> string \<Rightarrow> (string \<times> json) list option" where
  "obj_field kvs k = (case map_of kvs k of Some (JObj v) \<Rightarrow> Some v | _ \<Rightarrow> None)"

text \<open>\<^verbatim>\<open>PLANNER_DECISION_ADAPTER.validate_python\<close>: a union discriminated by \<^verbatim>\<open>decision_type\<close>, without extra fields.\<close>

definition validate_call_tool :: "(string \<times> json) list \<Rightarrow> decision option" where
  "validate_call_tool kvs =
     (case (str_field kvs ''tool_name'' 200, if map_of kvs ''arguments'' = None then Some [] else obj_field kvs ''arguments'', str_field kvs ''reason'' 1000) of
        (Some tool_name, Some arguments, Some reason) \<Rightarrow>
          if only_keys [''decision_type'', ''tool_name'', ''arguments'', ''reason''] kvs then Some (CallTool tool_name arguments reason) else None
      | _ \<Rightarrow> None)"

definition validate_clarification :: "(string \<times> json) list \<Rightarrow> decision option" where
  "validate_clarification kvs = (case (str_field kvs ''question'' 2000, str_field kvs ''reason'' 1000) of
      (Some question, Some reason) \<Rightarrow>
        if only_keys [''decision_type'', ''question'', ''reason''] kvs then Some (RequestClarification question reason) else None
    | _ \<Rightarrow> None)"

definition validate_finish :: "(string \<times> json) list \<Rightarrow> decision option" where
  "validate_finish kvs = (case (str_field kvs ''message'' 4000, obj_field kvs ''output'', str_field kvs ''reason'' 1000) of
      (Some message, Some out, Some reason) \<Rightarrow>
        if only_keys [''decision_type'', ''message'', ''output'', ''reason''] kvs then Some (Finish message out reason) else None
    | _ \<Rightarrow> None)"

definition validate_decision :: "json \<Rightarrow> decision option" where
  "validate_decision value = (case value of
      JObj kvs \<Rightarrow> (case map_of kvs ''decision_type'' of
          Some (JStr tag) \<Rightarrow>
            if tag = ''CALL_TOOL'' then validate_call_tool kvs
            else if tag = ''REQUEST_CLARIFICATION'' then validate_clarification kvs
            else if tag = ''FINISH'' then validate_finish kvs else None
        | _ \<Rightarrow> None)
    | _ \<Rightarrow> None)"

record planner_context =
  pn_run_id :: string
  pn_thread_id :: string
  pn_runtime_input :: "(string \<times> json) list"
  pn_state :: "(string \<times> json) list"
  pn_tools :: "tool_descriptor list"
  pn_observations :: "observation list"
  pn_tool_call_count :: int
  pn_max_tool_calls :: int

text \<open>One answer of the planner: a decision object, a value to validate, or one of its exceptions.\<close>

datatype planner_reply = Decides decision | Answers json | RaisesInvalidDecision string | RaisesProviderError string | RaisesUnexpected string

section \<open>Facts\<close>

text \<open>A registered tool has exactly one way to run: a sandbox handler or a durable provider.\<close>

lemma register_tool_ok:
  assumes "register_tool spec tools = Inr tools'"
  shows "resolve_tool tools' (ts_name spec) = Some spec" and "spec_problem spec = None"
    and "\<And>n. resolve_tool tools n \<noteq> None \<Longrightarrow> resolve_tool tools' n = resolve_tool tools n"
  using assms by (auto simp: register_tool_def resolve_tool_def map_add_def split: if_splits option.splits)

lemma sandbox_never_writes:
  assumes "sandbox_execute X tools loads environ run name arguments = Some r" and "xr_status r = X_COMPLETED"
  shows "\<exists>spec. resolve_tool tools name = Some spec \<and> ts_effect spec = READ_ONLY \<and> unsupported_capability (ts_policy spec) = None
    \<and> xr_result r \<noteq> None"
  using assms unfolding sandbox_execute_def
  by (auto simp: rejected_def finished_def Let_def split: option.splits if_splits process_outcome.splits json.splits intro: tool_effect.exhaust)

text \<open>A restricted tool sees the host's variables of five names only, beside its search path and policy.\<close>

lemma env_puts: "set (foldl env_put env xs) \<subseteq> set env \<union> set xs"
  by (induction xs arbitrary: env) (fastforce simp: env_put_def)+

lemma restricted_environment:
  assumes "fst (tp_environment p) = ''restricted''" and "(k, v) \<in> set (sanitized_environment environ p)"
  shows "(k, v) \<in> set (policy_environment environ p) \<or> k \<in> set PASSED_VARIABLES \<and> map_of environ k = Some v"
  using assms(2) env_puts unfolding sanitized_environment_def Let_def assms(1) by (fastforce split: option.splits if_splits)

lemma decision_roundtrip: "decision_valid d \<Longrightarrow> validate_decision (dump_decision d) = Some d"
  by (cases d) (simp_all add: validate_decision_def validate_call_tool_def validate_clarification_def validate_finish_def
      str_field_def obj_field_def only_keys_def)

lemma validate_decision_valid: "validate_decision j = Some d \<Longrightarrow> decision_valid d"
  by (auto simp: validate_decision_def validate_call_tool_def validate_clarification_def validate_finish_def str_field_def
      split: json.splits option.splits if_splits)

end
