(* ===== verification/Dynamic_Loop.thy ===== *)
theory Dynamic_Loop
  imports Tool_Registry
begin

text \<open>
  \<^verbatim>\<open>runtime_service/dynamic_loop.py\<close>: the durable loop in which a planner decides, a policy
  admits and a tool runs, one indexed step at a time. Decisions, denials and results are recorded
  as evidence before they have an effect, so an attempt that recovers a run replays them. The
  planner, the subprocesses and the domain's evaluator of a final answer are arguments; the
  planner and the subprocesses may answer differently each time, so they also take the time of
  the schedule.
\<close>

section \<open>Configuration and results\<close>

record dynamic_loop =
  dl_planner :: "nat \<Rightarrow> planner_context \<Rightarrow> planner_reply"
  dl_tools :: tool_registry
  dl_texts :: sandbox_texts
  dl_environ :: "(string \<times> string) list"
  dl_process :: "nat \<Rightarrow> string \<Rightarrow> (string \<times> string) list \<Rightarrow> (string \<times> json) list \<Rightarrow> process_outcome"
  dl_loads :: "string \<Rightarrow> json option"
  dl_json_schema :: "registered_tool \<Rightarrow> json"
  dl_workflow_type :: string
  dl_max_tool_calls :: int
  dl_dispatcher :: bool
  dl_digests :: digests

definition new_dynamic_loop :: "dynamic_loop \<Rightarrow> store_error + dynamic_loop" where
  "new_dynamic_loop L = (if dl_max_tool_calls L < 1 then Inl (ValueError ''max_tool_calls must be at least 1'') else Inr L)"

datatype loop_outcome = LOOP_FINISHED | LOOP_CLARIFICATION | LOOP_BLOCKED

fun loop_value :: "loop_outcome \<Rightarrow> string" where
  "loop_value LOOP_FINISHED = ''finished''"
| "loop_value LOOP_CLARIFICATION = ''clarification''"
| "loop_value LOOP_BLOCKED = ''blocked''"

record finish_evaluation =
  fe_outcome :: loop_outcome
  fe_message :: string
  fe_output :: "(string \<times> json) list"
  fe_validation_errors :: "string list"

record loop_result = finish_evaluation +
  fe_observations :: "observation list"

text \<open>
  The domain's evaluator returns, rejects the payload with a validation error, raises a runtime
  execution error with a code of its own, or raises anything else.
\<close>

datatype evaluator_reply = Evaluates finish_evaluation | Rejects string | EvaluatorRaises string | EvaluatorRefuses string string

type_synonym finish_evaluator = "decision \<Rightarrow> observation list \<Rightarrow> evaluator_reply"

definition DYNAMIC_FAILURE_MESSAGES :: "(string \<times> string) list" where
  "DYNAMIC_FAILURE_MESSAGES =
     [(''unknown_tool'', ''Planner selected a tool outside the runtime allowlist.''),
      (''invalid_tool_arguments'', ''Planner supplied arguments that do not match the tool schema.''),
      (''tool_permission_denied'', ''Execution authority does not allow tool execution.''),
      (''tool_capability_unsupported'', ''The configured executor cannot enforce the tool's required capability.''),
      (''tool_timed_out'', ''Tool execution exceeded its configured deadline.''),
      (''tool_execution_failed'', ''Tool execution failed.''),
      (''step_limit_exceeded'', ''The dynamic tool-call limit was exceeded.''),
      (''invalid_planner_decision'', ''Planner decision validation failed.''),
      (''planner_provider_failed'', ''Planner provider failed.''),
      (''external_action_permission_denied'', ''Execution authority does not allow external actions.''),
      (''external_action_not_configured'', ''External action execution is not configured for this tool.''),
      (''external_action_idempotency_unsupported'', ''The configured provider does not support required idempotency.''),
      (''external_action_not_requested'', ''The external action was not explicitly requested by this run.''),
      (''external_action_failed'', ''External action failed definitively.''),
      (''external_action_outcome_unknown'', ''External action outcome is unknown and was not retried again.''),
      (''external_action_evidence_incomplete'', ''External action completed, but durable run evidence is incomplete.''),
      (''run_cancel_requested'', ''Run cancellation was requested before external action dispatch.'')]"

section \<open>Failing the loop\<close>

definition record_loop :: "exec_context \<Rightarrow> string \<Rightarrow> (string \<times> json) list \<Rightarrow> unit prog" where
  "record_loop cx ty payload = record_evidence (cx_run_id cx) ty payload (cx_lease_token cx)"

definition ensure_evidence :: "exec_context \<Rightarrow> string \<Rightarrow> (string \<times> json) list \<Rightarrow> unit prog" where
  "ensure_evidence cx ty payload = ensure_run_evidence (cx_run_id cx) ty payload (cx_lease_token cx)"

text \<open>The message of the failure: what an earlier attempt recorded, or the fixed one, recorded now.\<close>

definition failure_evidence :: "exec_context \<Rightarrow> string \<Rightarrow> string prog" where
  "failure_evidence cx code =
     (let message = (case map_of DYNAMIC_FAILURE_MESSAGES code of Some m \<Rightarrow> m | None \<Rightarrow> ''Dynamic tool loop failed.'') in
      andThen (workflow_evidence (cx_run_id cx) ''loop.outcome'' ''loop:outcome'') (\<lambda>existing. case existing of
        None \<Rightarrow> andThen (record_loop cx ''loop.outcome'' [(''evidence_id'', JStr ''loop:outcome''), (''outcome'', JStr ''failed''),
           (''error_code'', JStr code), (''message'', JStr message)]) (\<lambda>_. ret message)
      | Some p \<Rightarrow>
          if py_get p ''outcome'' \<noteq> JStr ''failed'' \<or> py_get p ''error_code'' \<noteq> JStr code
          then raise (ExecutionError INVALID_CODE ''Durable loop failure evidence does not match recovery state.'')
          else (case py_get p ''message'' of
              JStr persisted \<Rightarrow> if persisted = []
                then raise (ExecutionError INVALID_CODE ''Durable loop failure evidence has an invalid message.'')
                else andThen (ensure_evidence cx ''loop.outcome'' p) (\<lambda>_. ret persisted)
            | _ \<Rightarrow> raise (ExecutionError INVALID_CODE ''Durable loop failure evidence has an invalid message.''))))"

definition dynamic_fail :: "exec_context \<Rightarrow> string \<Rightarrow> string \<Rightarrow> 'a prog" where
  "dynamic_fail cx code detail =
     andThen (failure_evidence cx code) (\<lambda>message.
     andThen (read (get_execution (cx_run_id cx))) (\<lambda>execution.
     andThen (if map_option x_status execution = Some (workflow_value WF_RUNNING)
       then andThen (call (\<lambda>t. finalize_failed (tk_clk t) (cx_run_id cx) code (cx_lease_token cx) (tk_now t))) (\<lambda>_. ret ())
       else ret ()) (\<lambda>_.
     raise (ExecutionError code message))))"

definition dynamic_coordinator :: "dynamic_loop \<Rightarrow> coordinator" where
  "dynamic_coordinator L = \<lparr>co_dispatcher = dl_dispatcher L, co_workflow_type = dl_workflow_type L,
     co_failure_messages = DYNAMIC_FAILURE_MESSAGES, co_max_dispatches = 2, co_digests = dl_digests L,
     co_fail = (\<lambda>cx code detail. hook_of (dynamic_fail cx code detail))\<rparr>"

section \<open>Decisions\<close>

definition step_id_of :: "nat \<Rightarrow> string" where
  "step_id_of n = ''call-'' @ replicate (4 - length (show_nat n)) (CHR ''0'') @ show_nat n"

definition planner_id :: "nat \<Rightarrow> string" where
  "planner_id n = ''planner:'' @ show_nat n"

definition record_planner_failure :: "exec_context \<Rightarrow> nat \<Rightarrow> string \<Rightarrow> unit prog" where
  "record_planner_failure cx index code = record_loop cx ''planner.decision''
     [(''evidence_id'', JStr (planner_id index)), (''decision_index'', JInt (int index)), (''outcome'', JStr ''rejected''), (''error_code'', JStr code)]"

definition reject_decision :: "exec_context \<Rightarrow> nat \<Rightarrow> string \<Rightarrow> string \<Rightarrow> 'a prog" where
  "reject_decision cx index code detail = andThen (record_planner_failure cx index code) (\<lambda>_. dynamic_fail cx code detail)"

definition decision_payload :: "nat \<Rightarrow> decision \<Rightarrow> (string \<times> json) list" where
  "decision_payload index d = [(''evidence_id'', JStr (planner_id index)), (''decision_index'', JInt (int index)),
     (''outcome'', JStr ''accepted''), (''decision'', dump_decision d)]
     @ (case d of CallTool _ _ _ \<Rightarrow> [(''step_id'', JStr (step_id_of index))] | _ \<Rightarrow> [])"

definition persisted_decision :: "exec_context \<Rightarrow> (string \<times> json) list \<Rightarrow> decision prog" where
  "persisted_decision cx p =
     (if py_get p ''outcome'' = JStr ''rejected''
      then andThen (ensure_evidence cx ''planner.decision'' p) (\<lambda>_.
        dynamic_fail cx (let code = py_get p ''error_code'' in
            if code \<in> {JNull, JBool False, JInt 0, JStr [], JList [], JObj []} then INVALID_CODE else py_str code) ''Persisted planner attempt was rejected.'')
      else case Option.bind (map_of p ''decision'') validate_decision of
          None \<Rightarrow> dynamic_fail cx INVALID_CODE ''Persisted planner decision is invalid''
        | Some d \<Rightarrow> andThen (ensure_evidence cx ''planner.decision'' p) (\<lambda>_. ret d))"

definition ask_planner :: "dynamic_loop \<Rightarrow> planner_context \<Rightarrow> planner_reply prog" where
  "ask_planner L pc w = (Inr (dl_planner L (w_time w) pc), w\<lparr>w_time := Suc (w_time w)\<rparr>)"

definition context_of :: "dynamic_loop \<Rightarrow> exec_context \<Rightarrow> (string \<times> json) list \<Rightarrow> (string \<times> json) list \<Rightarrow> observation list \<Rightarrow> planner_context" where
  "context_of L cx runtime_input state observations = \<lparr>pn_run_id = cx_run_id cx, pn_thread_id = cx_thread_id cx, pn_runtime_input = runtime_input,
     pn_state = state, pn_tools = list_tools (dl_json_schema L) (dl_tools L), pn_observations = observations,
     pn_tool_call_count = int (length observations), pn_max_tool_calls = dl_max_tool_calls L\<rparr>"

definition fresh_decision :: "dynamic_loop \<Rightarrow> exec_context \<Rightarrow> nat \<Rightarrow> planner_context \<Rightarrow> decision prog" where
  "fresh_decision L cx index pc = andThen (ask_planner L pc) (\<lambda>reply. case reply of
      RaisesInvalidDecision e \<Rightarrow> reject_decision cx index INVALID_CODE (''Planner returned an invalid decision: '' @ e)
    | RaisesProviderError e \<Rightarrow> reject_decision cx index ''planner_provider_failed'' (''Planner provider failed: '' @ e)
    | RaisesUnexpected e \<Rightarrow> reject_decision cx index ''planner_provider_failed'' (''Planner provider failed: '' @ e)
    | _ \<Rightarrow> (case (case reply of Decides d \<Rightarrow> Some d | Answers j \<Rightarrow> validate_decision j | _ \<Rightarrow> None) of
        None \<Rightarrow> reject_decision cx index INVALID_CODE ''Planner decision failed schema validation''
      | Some d \<Rightarrow> andThen (record_loop cx ''planner.decision'' (decision_payload index d)) (\<lambda>_. ret d)))"

definition decision_for_index :: "dynamic_loop \<Rightarrow> exec_context \<Rightarrow> (string \<times> json) list \<Rightarrow> (string \<times> json) list \<Rightarrow> observation list \<Rightarrow> decision prog" where
  "decision_for_index L cx runtime_input state observations =
     (let index = length observations + 1 in
      andThen (workflow_evidence (cx_run_id cx) ''planner.decision'' (planner_id index)) (\<lambda>persisted. case persisted of
        Some p \<Rightarrow> persisted_decision cx p
      | None \<Rightarrow> fresh_decision L cx index (context_of L cx runtime_input state observations)))"


section \<open>Policy\<close>

definition TOOL_EXECUTE_PERMISSION :: string where
  "TOOL_EXECUTE_PERMISSION = ''tools:execute''"

definition EXTERNAL_ACTION_EXECUTE_PERMISSION :: string where
  "EXTERNAL_ACTION_EXECUTE_PERMISSION = ''external-actions:execute''"

definition policy_payload :: "string \<Rightarrow> string \<Rightarrow> string \<Rightarrow> json \<Rightarrow> (string \<times> json) list" where
  "policy_payload step_id tool_name outcome error_code = [(''evidence_id'', JStr (''policy:'' @ step_id)), (''step_id'', JStr step_id),
     (''tool_name'', JStr tool_name), (''outcome'', JStr outcome), (''error_code'', error_code)]"

definition record_policy_denial :: "exec_context \<Rightarrow> string \<Rightarrow> string \<Rightarrow> string \<Rightarrow> unit prog" where
  "record_policy_denial cx step_id tool_name code = record_loop cx ''policy.decision'' (policy_payload step_id tool_name ''denied'' (JStr code))"

text \<open>A refused call: an action that was already dispatched is settled first, then the denial is recorded.\<close>

definition deny_call :: "dynamic_loop \<Rightarrow> exec_context \<Rightarrow> action_row option \<Rightarrow> string \<Rightarrow> string \<Rightarrow> string \<Rightarrow> string \<Rightarrow> 'a prog" where
  "deny_call L cx prior step_id tool_name code detail =
     andThen (case prior of None \<Rightarrow> ret () | Some a \<Rightarrow> reconcile_action (dynamic_coordinator L) cx a True) (\<lambda>_.
     andThen (record_policy_denial cx step_id tool_name code) (\<lambda>_.
     dynamic_fail cx code detail))"

definition action_was_requested :: "registered_tool \<Rightarrow> (string \<times> json) list \<Rightarrow> bool" where
  "action_was_requested spec runtime_input = (case ts_runtime_input_gate spec of
      None \<Rightarrow> True | Some gate \<Rightarrow> gate runtime_input = Some True)"

definition authorize_external :: "dynamic_loop \<Rightarrow> exec_context \<Rightarrow> (string \<times> json) list \<Rightarrow> action_row option \<Rightarrow> string \<Rightarrow> string
     \<Rightarrow> registered_tool \<Rightarrow> unit prog" where
  "authorize_external L cx runtime_input prior step_id tool_name spec =
     (let deny = deny_call L cx prior step_id tool_name in
      if \<not> allows (cx_authority cx) EXTERNAL_ACTION_EXECUTE_PERMISSION
      then deny ''external_action_permission_denied'' ''Execution authority does not allow external actions.''
      else if \<not> action_was_requested spec runtime_input
      then deny ''external_action_not_requested'' ''External action requires an explicit runtime-input request.''
      else andThen (provider_for (dynamic_coordinator L) (tool_spec.truncate spec)) (\<lambda>provider. case provider of
          None \<Rightarrow> deny ''external_action_not_configured'' ''External action provider is not configured.''
        | Some p \<Rightarrow> if ts_retry_mode spec = PROVIDER_IDEMPOTENT \<and> \<not> pv_supports_idempotency p
            then deny ''external_action_idempotency_unsupported'' ''External action provider does not support idempotency.''
            else ret ()))"

definition allowed_payload :: "string \<Rightarrow> string \<Rightarrow> registered_tool \<Rightarrow> (string \<times> json) list" where
  "allowed_payload step_id tool_name spec = policy_payload step_id tool_name ''allowed'' JNull @
     (if ts_effect spec = EXTERNAL_WRITE then [(''effect'', JStr (effect_value (ts_effect spec))),
        (''retry_mode'', JStr (retry_value (ts_retry_mode spec))), (''provider_name'', jopt_str (ts_provider_name spec))] else [])"

definition authorize_call :: "dynamic_loop \<Rightarrow> exec_context \<Rightarrow> (string \<times> json) list \<Rightarrow> string \<Rightarrow> (string \<times> json) list \<Rightarrow> string \<Rightarrow> nat
     \<Rightarrow> (string \<times> json) list prog" where
  "authorize_call L cx runtime_input tool_name arguments step_id tool_call_count =
     andThen (dispatched_action (cx_run_id cx) step_id) (\<lambda>prior.
     let deny = deny_call L cx prior step_id tool_name in
     if dl_max_tool_calls L \<le> int tool_call_count
     then deny_call L cx None step_id tool_name ''step_limit_exceeded'' ''Tool-call limit was exceeded.''
     else case resolve_tool (dl_tools L) tool_name of
       None \<Rightarrow> deny ''unknown_tool'' ''Planner selected a tool outside the runtime allowlist.''
     | Some spec \<Rightarrow>
         if \<not> allows (cx_authority cx) TOOL_EXECUTE_PERMISSION
         then deny ''tool_permission_denied'' ''Execution authority does not allow tool execution.''
         else andThen (case prior of
             Some a \<Rightarrow> if ts_effect spec \<noteq> EXTERNAL_WRITE then reconcile_action (dynamic_coordinator L) cx a True else ret ()
           | None \<Rightarrow> ret ()) (\<lambda>_.
         andThen (if ts_effect spec = EXTERNAL_WRITE
             then authorize_external L cx runtime_input prior step_id tool_name spec else ret ()) (\<lambda>_.
         case ts_input_model spec arguments of
           None \<Rightarrow> deny ''invalid_tool_arguments'' ''Planner supplied arguments that do not match the tool schema.''
         | Some normalized \<Rightarrow>
             andThen (record_loop cx ''policy.decision'' (allowed_payload step_id tool_name spec)) (\<lambda>_. ret normalized))))"

section \<open>Tool calls\<close>

definition tool_error_code :: "tool_execution_status \<Rightarrow> string" where
  "tool_error_code status = (case status of
      X_DENIED \<Rightarrow> ''unknown_tool'' | X_CAPABILITY_UNSUPPORTED \<Rightarrow> ''tool_capability_unsupported''
    | X_INVALID_INPUT \<Rightarrow> ''invalid_tool_arguments'' | X_TIMED_OUT \<Rightarrow> ''tool_timed_out''
    | _ \<Rightarrow> ''tool_execution_failed'')"

definition decode_tool_result_or_fail :: "exec_context \<Rightarrow> tool_row \<Rightarrow> (string \<times> json) list prog" where
  "decode_tool_result_or_fail cx step = (case decode_tool_result step of
      Inr result \<Rightarrow> ret result
    | Inl e \<Rightarrow> (case e of ExecutionError code message \<Rightarrow> dynamic_fail cx code message | _ \<Rightarrow> raise e))"

definition run_sandbox :: "dynamic_loop \<Rightarrow> string \<Rightarrow> (string \<times> json) list \<Rightarrow> tool_execution_result option prog" where
  "run_sandbox L name arguments w =
     (Inr (sandbox_execute (dl_texts L) (dl_tools L) (dl_loads L) (dl_environ L) (dl_process L (w_time w)) name arguments), w\<lparr>w_time := Suc (w_time w)\<rparr>)"

text \<open>A failed call: the step, the evidence, then the loop.\<close>

definition fail_tool_call :: "exec_context \<Rightarrow> string \<Rightarrow> string \<Rightarrow> string \<Rightarrow> string \<Rightarrow> string \<Rightarrow> 'a prog" where
  "fail_tool_call cx step_id tool_name attempt_token code detail =
     andThen (call (\<lambda>t. fail_step (tk_clk t) (cx_run_id cx) step_id attempt_token code (cx_lease_token cx) (tk_now t))) (\<lambda>_.
     andThen (record_tool_failure (cx_run_id cx) step_id tool_name code (cx_lease_token cx)) (\<lambda>_.
     dynamic_fail cx code detail))"

definition run_claimed_call :: "dynamic_loop \<Rightarrow> exec_context \<Rightarrow> string \<Rightarrow> string \<Rightarrow> (string \<times> json) list \<Rightarrow> string \<Rightarrow> observation prog" where
  "run_claimed_call L cx tool_name step_id normalized attempt_token =
     andThen (run_sandbox L tool_name normalized) (\<lambda>execution. case execution of
       None \<Rightarrow> fail_tool_call cx step_id tool_name attempt_token ''tool_execution_failed'' ''Tool executor raised.''
     | Some x \<Rightarrow> (case (xr_status x, xr_result x) of
         (X_COMPLETED, Some result) \<Rightarrow>
           andThen (call (\<lambda>t. complete_step (tk_clk t) (cx_run_id cx) step_id attempt_token (canonical_text result)
              (cx_lease_token cx) (tk_now t))) (\<lambda>_.
           andThen (record_tool_success (cx_run_id cx) step_id tool_name result (cx_lease_token cx)) (\<lambda>_.
           ret \<lparr>ob_step_id = step_id, ob_tool_name = tool_name, ob_arguments = normalized, ob_result = result, ob_cached = False\<rparr>))
       | _ \<Rightarrow> fail_tool_call cx step_id tool_name attempt_token (tool_error_code (xr_status x))
           ''Tool execution did not complete successfully.''))"

definition settle_existing_step :: "exec_context \<Rightarrow> string \<Rightarrow> string \<Rightarrow> tool_row \<Rightarrow> unit prog" where
  "settle_existing_step cx step_id tool_name existing =
     (if k_status existing = tool_call_value TC_FAILED \<and> k_error_code existing \<noteq> Some ''interrupted''
      then let code = (if opt_truthy (k_error_code existing) then the (k_error_code existing) else ''tool_execution_failed'') in
        andThen (record_tool_failure (cx_run_id cx) step_id tool_name code (cx_lease_token cx)) (\<lambda>_.
        dynamic_fail cx code ''Tool call previously failed.'')
      else if k_status existing = tool_call_value TC_RUNNING
      then (if \<not> cx_recovered_after_restart cx
            then dynamic_fail cx ''tool_execution_failed'' ''Tool call is already running without a restart recovery boundary.''
            else andThen (call (\<lambda>t. recover_interrupted_step (tk_clk t) (cx_run_id cx) step_id (cx_lease_token cx) (tk_now t))) (\<lambda>_. ret ()))
      else ret ())"

definition claim_read_only :: "dynamic_loop \<Rightarrow> exec_context \<Rightarrow> string \<Rightarrow> string \<Rightarrow> (string \<times> json) list \<Rightarrow> observation prog" where
  "claim_read_only L cx tool_name step_id normalized =
     andThen (call (\<lambda>t. claim_step (tk_clk t) (tk_id t) (tk_token t) (cx_run_id cx) step_id tool_name
        (stable_hash (dl_digests L) normalized) 2 (cx_lease_token cx) (tk_now t))) (\<lambda>claim.
     if cl_outcome claim = CACHED
     then (case cl_step claim of
         None \<Rightarrow> raise AssertionError
       | Some step \<Rightarrow> if k_result_json step = None then raise AssertionError
           else andThen (decode_tool_result_or_fail cx step) (\<lambda>result.
             andThen (record_tool_success (cx_run_id cx) step_id tool_name result (cx_lease_token cx)) (\<lambda>_.
             ret \<lparr>ob_step_id = step_id, ob_tool_name = tool_name, ob_arguments = normalized, ob_result = result, ob_cached = True\<rparr>)))
     else if cl_outcome claim = INPUT_MISMATCH \<or> cl_outcome claim = DEFINITION_MISMATCH
     then dynamic_fail cx INVALID_CODE ''Persisted tool-call identity does not match the planner decision.''
     else if cl_outcome claim = ALREADY_RUNNING \<or> cl_outcome claim = ATTEMPTS_EXHAUSTED
     then dynamic_fail cx ''tool_execution_failed'' (''Tool call could not be claimed: '' @ claim_value (cl_outcome claim) @ ''.'')
     else (case cl_attempt_token claim of
         None \<Rightarrow> raise AssertionError
       | Some attempt_token \<Rightarrow> run_claimed_call L cx tool_name step_id normalized attempt_token))"

definition execute_read_only_call :: "dynamic_loop \<Rightarrow> exec_context \<Rightarrow> string \<Rightarrow> string \<Rightarrow> (string \<times> json) list \<Rightarrow> observation prog" where
  "execute_read_only_call L cx tool_name step_id normalized =
     andThen (read (get_step (cx_run_id cx) step_id)) (\<lambda>existing.
     andThen (case existing of None \<Rightarrow> ret () | Some k \<Rightarrow> settle_existing_step cx step_id tool_name k) (\<lambda>_.
     claim_read_only L cx tool_name step_id normalized))"

definition tool_action_call :: "dynamic_loop \<Rightarrow> exec_context \<Rightarrow> string \<Rightarrow> registered_tool \<Rightarrow> string \<Rightarrow> (string \<times> json) list \<Rightarrow> action_call" where
  "tool_action_call L cx tool_name spec step_id normalized = \<lparr>ac_co = dynamic_coordinator L, ac_context = cx, ac_tool_name = tool_name,
     ac_spec = tool_spec.truncate spec, ac_step_id = step_id, ac_arguments = normalized\<rparr>"

definition execute_call :: "dynamic_loop \<Rightarrow> exec_context \<Rightarrow> string \<Rightarrow> string \<Rightarrow> (string \<times> json) list \<Rightarrow> observation prog" where
  "execute_call L cx tool_name step_id normalized = (case resolve_tool (dl_tools L) tool_name of
      None \<Rightarrow> dynamic_fail cx ''unknown_tool'' ''Authorized tool disappeared from the runtime allowlist.''
    | Some spec \<Rightarrow> if ts_effect spec = EXTERNAL_WRITE then execute_action (tool_action_call L cx tool_name spec step_id normalized)
        else execute_read_only_call L cx tool_name step_id normalized)"

section \<open>Restoring an earlier attempt\<close>

definition fail_restored :: "dynamic_loop \<Rightarrow> exec_context \<Rightarrow> action_row option \<Rightarrow> string \<Rightarrow> string \<Rightarrow> 'a prog" where
  "fail_restored L cx action code detail = (case action of
      None \<Rightarrow> fail (dynamic_coordinator L) cx code detail
    | Some a \<Rightarrow> fail_restored_step (dynamic_coordinator L) cx a code detail)"

definition decision_payload_for_step :: "dynamic_loop \<Rightarrow> exec_context \<Rightarrow> string \<Rightarrow> action_row option \<Rightarrow> (string \<times> json) list prog" where
  "decision_payload_for_step L cx step_id action = andThen (workflow_events (cx_run_id cx)) (\<lambda>events.
     case List.find (\<lambda>(ty, p). ty = ''planner.decision'' \<and> py_get p ''step_id'' = JStr step_id) events of
       Some (_, p) \<Rightarrow> ret p
     | None \<Rightarrow> fail_restored L cx action INVALID_CODE (''Tool step '' @ step_id @ '' has no durable planner decision.''))"

text \<open>The decision behind a stored step, checked against the registry and the row as they are now.\<close>

definition restored_call :: "dynamic_loop \<Rightarrow> exec_context \<Rightarrow> tool_row \<Rightarrow> action_row option \<Rightarrow> string \<Rightarrow> string
     \<Rightarrow> (registered_tool \<times> (string \<times> json) list) prog" where
  "restored_call L cx step action title word =
     andThen (decision_payload_for_step L cx (k_step_id step) action) (\<lambda>p.
     case Option.bind (map_of p ''decision'') validate_decision of
       None \<Rightarrow> fail_restored L cx action INVALID_CODE ''Persisted planner decision is invalid''
     | Some (CallTool tool_name arguments reason) \<Rightarrow> (case resolve_tool (dl_tools L) tool_name of
         None \<Rightarrow> fail_restored L cx action ''unknown_tool'' (''A '' @ word @ '' tool is no longer registered.'')
       | Some spec \<Rightarrow> (case ts_input_model spec arguments of
           None \<Rightarrow> fail_restored L cx action ''invalid_tool_arguments'' ''Persisted tool arguments no longer pass schema validation.''
         | Some normalized \<Rightarrow>
             if k_tool_name step \<noteq> tool_name \<or> k_input_hash step \<noteq> stable_hash (dl_digests L) normalized
             then fail_restored L cx action INVALID_CODE (title @ '' tool evidence does not match its planner decision.'')
             else ret (spec, normalized)))
     | Some _ \<Rightarrow> fail_restored L cx action INVALID_CODE (title @ '' tool step is not backed by a CALL_TOOL decision.''))"

definition restore_completed_step :: "dynamic_loop \<Rightarrow> exec_context \<Rightarrow> tool_row \<Rightarrow> action_row option \<Rightarrow> observation prog" where
  "restore_completed_step L cx step action =
     andThen (restored_call L cx step action ''Completed'' ''completed'') (\<lambda>(spec, normalized).
     if ts_effect spec = EXTERNAL_WRITE
     then restore_success (tool_action_call L cx (k_tool_name step) spec (k_step_id step) normalized) step
     else if action \<noteq> None
     then fail_restored L cx action INVALID_CODE ''Read-only completed step unexpectedly has an external action.''
     else andThen (decode_tool_result_or_fail cx step) (\<lambda>result.
       andThen (record_tool_success (cx_run_id cx) (k_step_id step) (k_tool_name step) result (cx_lease_token cx)) (\<lambda>_.
       ret \<lparr>ob_step_id = k_step_id step, ob_tool_name = k_tool_name step, ob_arguments = normalized, ob_result = result,
             ob_cached = True\<rparr>)))"

definition restore_failed_step :: "dynamic_loop \<Rightarrow> exec_context \<Rightarrow> tool_row \<Rightarrow> action_row option \<Rightarrow> 'a prog" where
  "restore_failed_step L cx step action =
     andThen (restored_call L cx step action ''Failed'' ''failed'') (\<lambda>(spec, normalized).
     andThen (if ts_effect spec = EXTERNAL_WRITE
       then restore_failure (tool_action_call L cx (k_tool_name step) spec (k_step_id step) normalized) step else ret ()) (\<lambda>_.
     if action \<noteq> None
     then fail_restored L cx action INVALID_CODE ''Read-only failed step unexpectedly has an external action.''
     else let code = (if opt_truthy (k_error_code step) then the (k_error_code step) else ''tool_execution_failed'') in
       andThen (record_tool_failure (cx_run_id cx) (k_step_id step) (k_tool_name step) code (cx_lease_token cx)) (\<lambda>_.
       dynamic_fail cx code ''Persisted tool call failed.'')))"

fun restore_steps :: "dynamic_loop \<Rightarrow> exec_context \<Rightarrow> tool_row list \<Rightarrow> observation list \<Rightarrow> observation list prog" where
  "restore_steps L cx [] observations = ret observations"
| "restore_steps L cx (step # steps) observations =
     andThen (read (get_external_action (cx_run_id cx) (k_step_id step))) (\<lambda>action.
     if k_status step = tool_call_value TC_COMPLETED
     then andThen (restore_completed_step L cx step action) (\<lambda>ob. restore_steps L cx steps (observations @ [ob]))
     else if k_status step = tool_call_value TC_FAILED \<and> k_error_code step \<noteq> Some ''interrupted''
     then restore_failed_step L cx step action
     else restore_steps L cx steps observations)"

definition restore_observations :: "dynamic_loop \<Rightarrow> exec_context \<Rightarrow> observation list prog" where
  "restore_observations L cx = andThen (read (list_steps (cx_run_id cx))) (\<lambda>steps.
     restore_steps L cx (sort_key k_step_id steps) [])"

section \<open>Results\<close>

definition dump_observation :: "observation \<Rightarrow> json" where
  "dump_observation ob = JObj [(''step_id'', JStr (ob_step_id ob)), (''tool_name'', JStr (ob_tool_name ob)),
     (''arguments'', JObj (ob_arguments ob)), (''result'', JObj (ob_result ob)), (''cached'', JBool (ob_cached ob))]"

definition dump_loop_result :: "loop_result \<Rightarrow> json" where
  "dump_loop_result r = JObj [(''outcome'', JStr (loop_value (fe_outcome r))), (''message'', JStr (fe_message r)),
     (''output'', JObj (fe_output r)), (''validation_errors'', JList (map JStr (fe_validation_errors r))),
     (''observations'', JList (map dump_observation (fe_observations r)))]"

text \<open>Pydantic reads a truth value from a few words and numbers too.\<close>

definition ascii_lower :: "string \<Rightarrow> string" where
  "ascii_lower = map (\<lambda>c. if CHR ''A'' \<le> c \<and> c \<le> CHR ''Z'' then char_of (of_char c + 32 :: nat) else c)"

definition lax_bool :: "json \<Rightarrow> bool option" where
  "lax_bool j = (case j of JBool b \<Rightarrow> Some b
    | JInt i \<Rightarrow> if i = 0 then Some False else if i = 1 then Some True else None
    | JStr s \<Rightarrow> if ascii_lower s \<in> set [''0'', ''off'', ''f'', ''false'', ''n'', ''no''] then Some False
        else if ascii_lower s \<in> set [''1'', ''on'', ''t'', ''true'', ''y'', ''yes''] then Some True else None
    | _ \<Rightarrow> None)"

definition str_of :: "json \<Rightarrow> string option" where
  "str_of j = (case j of JStr s \<Rightarrow> Some s | _ \<Rightarrow> None)"

definition validate_observation :: "json \<Rightarrow> observation option" where
  "validate_observation j = (case j of
      JObj kvs \<Rightarrow>
        (case (Option.bind (map_of kvs ''step_id'') str_of, Option.bind (map_of kvs ''tool_name'') str_of, obj_field kvs ''arguments'',
           obj_field kvs ''result'', case map_of kvs ''cached'' of None \<Rightarrow> Some False | Some v \<Rightarrow> lax_bool v) of
           (Some step_id, Some tool_name, Some arguments, Some result, Some cached) \<Rightarrow>
             if only_keys [''step_id'', ''tool_name'', ''arguments'', ''result'', ''cached''] kvs
             then Some \<lparr>ob_step_id = step_id, ob_tool_name = tool_name, ob_arguments = arguments, ob_result = result, ob_cached = cached\<rparr>
             else None
         | _ \<Rightarrow> None)
    | _ \<Rightarrow> None)"

definition outcome_of :: "string \<Rightarrow> loop_outcome option" where
  "outcome_of s = List.find (\<lambda>oc. loop_value oc = s) [LOOP_FINISHED, LOOP_CLARIFICATION, LOOP_BLOCKED]"

definition list_field :: "(json \<Rightarrow> 'a option) \<Rightarrow> (string \<times> json) list \<Rightarrow> string \<Rightarrow> 'a list option" where
  "list_field f kvs k = (case map_of kvs k of
      None \<Rightarrow> Some []
    | Some (JList xs) \<Rightarrow> those (map f xs)
    | _ \<Rightarrow> None)"

definition validate_loop_result :: "json \<Rightarrow> loop_result option" where
  "validate_loop_result j = (case j of
      JObj kvs \<Rightarrow>
        (case (Option.bind (Option.bind (map_of kvs ''outcome'') str_of) outcome_of, Option.bind (map_of kvs ''message'') str_of,
           if map_of kvs ''output'' = None then Some [] else obj_field kvs ''output'', list_field str_of kvs ''validation_errors'',
           list_field validate_observation kvs ''observations'') of
           (Some oc, Some message, Some out, Some errors, Some observations) \<Rightarrow>
             if only_keys [''outcome'', ''message'', ''output'', ''validation_errors'', ''observations''] kvs
             then Some \<lparr>fe_outcome = oc, fe_message = message, fe_output = out, fe_validation_errors = errors, fe_observations = observations\<rparr>
             else None
         | _ \<Rightarrow> None)
    | _ \<Rightarrow> None)"

definition complete_loop :: "exec_context \<Rightarrow> loop_result \<Rightarrow> string option \<Rightarrow> unit prog" where
  "complete_loop cx result blocked_code =
     andThen (record_loop cx ''loop.outcome'' [(''evidence_id'', JStr ''loop:outcome''), (''outcome'', JStr (loop_value (fe_outcome result))),
        (''message'', JStr (fe_message result)), (''validation_errors'', JList (map JStr (fe_validation_errors result)))]) (\<lambda>_.
     let serialized = Encoded (dump_loop_result result) in
     andThen (case blocked_code of
         None \<Rightarrow> call (\<lambda>t. finalize_ready (tk_clk t) (cx_run_id cx) serialized (cx_lease_token cx) (tk_now t))
       | Some code \<Rightarrow> call (\<lambda>t. finalize_blocked (tk_clk t) (cx_run_id cx) serialized code (cx_lease_token cx) (tk_now t))) (\<lambda>_. ret ()))"

section \<open>The loop\<close>

definition clarify :: "exec_context \<Rightarrow> observation list \<Rightarrow> string \<Rightarrow> loop_result prog" where
  "clarify cx observations question =
     (let result = \<lparr>fe_outcome = LOOP_CLARIFICATION, fe_message = question, fe_output = [(''question'', JStr question)],
        fe_validation_errors = [], fe_observations = observations\<rparr> in
      andThen (complete_loop cx result (Some ''clarification_required'')) (\<lambda>_. ret result))"

definition finish_loop :: "exec_context \<Rightarrow> finish_evaluator \<Rightarrow> observation list \<Rightarrow> decision \<Rightarrow> loop_result prog" where
  "finish_loop cx evaluator observations d = (case evaluator d observations of
      Rejects name \<Rightarrow> dynamic_fail cx INVALID_CODE (''FINISH payload was rejected: '' @ name)
    | EvaluatorRaises text \<Rightarrow> raise (StoreExn (RuntimeError text))
    | EvaluatorRefuses code detail \<Rightarrow> raise (ExecutionError code detail)
    | Evaluates evaluation \<Rightarrow>
        if fe_outcome evaluation = LOOP_CLARIFICATION
        then dynamic_fail cx INVALID_CODE ''A FINISH evaluator cannot return clarification.''
        else let result = finish_evaluation.extend evaluation \<lparr>fe_observations = observations\<rparr> in
          andThen (complete_loop cx result (if fe_outcome result = LOOP_BLOCKED then Some ''domain_validation_failed'' else None)) (\<lambda>_.
          ret result))"

fun loop_steps :: "nat \<Rightarrow> dynamic_loop \<Rightarrow> exec_context \<Rightarrow> (string \<times> json) list \<Rightarrow> (string \<times> json) list \<Rightarrow> finish_evaluator
     \<Rightarrow> observation list \<Rightarrow> loop_result prog" where
  "loop_steps 0 L cx runtime_input state evaluator observations = raise OutOfFuel"
| "loop_steps (Suc n) L cx runtime_input state evaluator observations =
     andThen (decision_for_index L cx runtime_input state observations) (\<lambda>d. case d of
       RequestClarification question reason \<Rightarrow> clarify cx observations question
     | Finish message out reason \<Rightarrow> finish_loop cx evaluator observations d
     | CallTool tool_name arguments reason \<Rightarrow>
         let step_id = step_id_of (length observations + 1) in
         andThen (authorize_call L cx runtime_input tool_name arguments step_id (length observations)) (\<lambda>normalized.
         andThen (execute_call L cx tool_name step_id normalized) (\<lambda>ob.
         loop_steps n L cx runtime_input state evaluator (observations @ [ob]))))"

text \<open>Each round but the last adds an observation, and policy stops the round at the limit.\<close>

definition loop_fuel :: "dynamic_loop \<Rightarrow> observation list \<Rightarrow> nat" where
  "loop_fuel L observations = Suc (nat (dl_max_tool_calls L - int (length observations)))"

definition loop_input_hash :: "dynamic_loop \<Rightarrow> (string \<times> json) list \<Rightarrow> (string \<times> json) list \<Rightarrow> string" where
  "loop_input_hash L runtime_input state = stable_hash (dl_digests L) [(''runtime_input'', JObj runtime_input),
     (''state'', JObj (filter (\<lambda>kv. fst kv \<noteq> ''execution_trace'') state)), (''workflow_type'', JStr (dl_workflow_type L)),
     (''max_tool_calls'', JInt (dl_max_tool_calls L))]"

definition restore_result :: "json_text option \<Rightarrow> loop_result prog" where
  "restore_result result_json = (case result_json of
      None \<Rightarrow> raise (ExecutionError INVALID_CODE ''Terminal dynamic workflow is missing its result.'')
    | Some text \<Rightarrow> (case (case text of Encoded j \<Rightarrow> validate_loop_result j | Garbled _ \<Rightarrow> None) of
        None \<Rightarrow> raise (ExecutionError INVALID_CODE ''Terminal dynamic workflow has an invalid result.'')
      | Some result \<Rightarrow> ret result))"

definition dynamic_execute_impl :: "dynamic_loop \<Rightarrow> (string \<times> json) list \<Rightarrow> (string \<times> json) list \<Rightarrow> exec_context \<Rightarrow> finish_evaluator
     \<Rightarrow> loop_result prog" where
  "dynamic_execute_impl L runtime_input state cx evaluator =
     andThen (call (\<lambda>t. create_or_get_execution (tk_clk t) (cx_run_id cx) (dl_workflow_type L) (loop_input_hash L runtime_input state)
        (cx_lease_token cx) (tk_now t))) (\<lambda>claim.
     if ec_outcome claim = EX_INPUT_MISMATCH \<or> ec_outcome claim = EX_WORKFLOW_TYPE_MISMATCH
     then andThen (reconcile_dispatched_action (dynamic_coordinator L) cx True) (\<lambda>_.
       raise (ExecutionError INVALID_CODE ''Persisted dynamic workflow identity does not match this execution.''))
     else let execution = ec_execution claim in
       andThen (catch (mirror_evidence cx) (\<lambda>e. andThen (reconcile_dispatched_action (dynamic_coordinator L) cx True) (\<lambda>_. raise e))) (\<lambda>_.
       if x_status execution = workflow_value WF_READY \<or> x_status execution = workflow_value WF_BLOCKED
       then restore_result (x_result_json execution)
       else if x_status execution = workflow_value WF_FAILED
       then raise (ExecutionError (if opt_truthy (x_error_code execution) then the (x_error_code execution) else ''tool_execution_failed'')
         ''Dynamic workflow previously failed.'')
       else andThen (if x_status execution = workflow_value WF_PENDING
           then andThen (call (\<lambda>t. mark_running (tk_clk t) (cx_run_id cx) (cx_lease_token cx) (tk_now t))) (\<lambda>_. ret ())
           else ret ()) (\<lambda>_.
         andThen (restore_observations L cx) (\<lambda>observations.
         loop_steps (loop_fuel L observations) L cx runtime_input state evaluator observations))))"

definition dynamic_execute :: "dynamic_loop \<Rightarrow> (string \<times> json) list \<Rightarrow> (string \<times> json) list \<Rightarrow> exec_context \<Rightarrow> finish_evaluator
     \<Rightarrow> loop_result prog" where
  "dynamic_execute L runtime_input state cx evaluator = catch (dynamic_execute_impl L runtime_input state cx evaluator) (\<lambda>e.
     if e = ReconciliationPendingError \<or> (case e of ExecutionError code _ \<Rightarrow> code \<in> {UNKNOWN_CODE, INCOMPLETE_CODE} | _ \<Rightarrow> False)
     then raise e
     else andThen (reconcile_dispatched_action (dynamic_coordinator L) cx False) (\<lambda>_. raise e))"

end
