(* ===== verification/Dynamic_Safety.thy ===== *)
theory Dynamic_Safety
  imports Dynamic_Loop
begin

text \<open>
  What the dynamic loop keeps under interference and faults: everything but the call of an
  external-write tool is quiet, the loop ends within its limit, and every provider call of a run
  is paid for by a dispatch claimed for its own step.
\<close>

section \<open>Quiet parts\<close>

lemma quiet_records [quiet_rules]:
  "quiet (record_loop cx ty payload)" "quiet (ensure_evidence cx ty payload)" "quiet (record_policy_denial cx step_id tool_name code)"
  "quiet (record_planner_failure cx index code)"
  unfolding record_loop_def ensure_evidence_def record_policy_denial_def record_planner_failure_def by (intro quiet_rules)+

lemma quiet_steps [quiet_rules]:
  "quiet (call (\<lambda>t. finalize_blocked (clk t) run_id json code lease (now t)))"
  "quiet (call (\<lambda>t. fail_step (clk t) run_id step_id tok code lease (now t)))"
  "quiet (call (\<lambda>t. complete_step (clk t) run_id step_id tok json lease (now t)))"
  "quiet (call (\<lambda>t. recover_interrupted_step (clk t) run_id step_id lease (now t)))"
  by (intro quiet_ledger_call workflow_step.intros)+

lemma quiet_message: "(\<And>s. quiet (f s)) \<Longrightarrow> quiet m \<Longrightarrow> quiet (case j of JStr s \<Rightarrow> f s | _ \<Rightarrow> m)"
  by (cases j) auto

lemma quiet_dynamic_fail [quiet_rules]: "quiet (dynamic_fail cx code detail)"
  unfolding dynamic_fail_def failure_evidence_def Let_def by (intro quiet_rules quiet_message; simp)

lemma noreturn_dynamic_fail [noreturn_rules]: "noreturn (dynamic_fail cx code detail)"
  unfolding dynamic_fail_def by (intro noreturn_rules)

lemma dynamic_hook: "quiet_hook (dynamic_coordinator L)"
  unfolding quiet_hook_def dynamic_coordinator_def by (auto dest: hook_of_quiet [OF quiet_dynamic_fail])

interpretation dynamic: hosted "dynamic_coordinator L" for L
  by unfold_locales (rule dynamic_hook)

lemmas dynamic_quiet [quiet_rules] = dynamic.quiet_fail dynamic.quiet_reconcile dynamic.quiet_evidence(3)

lemma quiet_advance: "(\<And>w. fst (m w) \<noteq> Inl OutOfFuel) \<Longrightarrow> (\<And>w. snd (m w) = w\<lparr>w_time := Suc (w_time w)\<rparr>) \<Longrightarrow> quiet m"
  by (simp add: quiet_def follows_def tx_start)

lemma quiet_asks [quiet_rules]: "quiet (ask_planner L pc)" "quiet (run_sandbox L name arguments)"
  by (auto intro!: quiet_advance simp: ask_planner_def run_sandbox_def)

lemma quiet_reject [quiet_rules]: "quiet (reject_decision cx index code detail)"
  unfolding reject_decision_def by (intro quiet_rules)

lemma quiet_decision [quiet_rules]: "quiet (decision_for_index L cx runtime_input state observations)"
  unfolding decision_for_index_def persisted_decision_def fresh_decision_def Let_def
  by (intro quiet_rules) (auto split: planner_reply.split option.split intro!: quiet_rules)

lemma quiet_deny [quiet_rules]: "quiet (deny_call L cx prior step_id tool_name code detail)"
  unfolding deny_call_def by (intro quiet_rules)

lemma noreturn_deny [noreturn_rules]: "noreturn (deny_call L cx prior step_id tool_name code detail)"
  unfolding deny_call_def by (intro noreturn_rules)

lemma quiet_lookups [quiet_rules]: "quiet (provider_for co spec)" "quiet (dispatched_action run_id step_id)"
  unfolding provider_for_def dispatched_action_def by (intro quiet_rules)+

lemma quiet_authorize [quiet_rules]: "quiet (authorize_call L cx runtime_input tool_name arguments step_id n)"
  unfolding authorize_call_def authorize_external_def Let_def by (intro quiet_rules)

lemma quiet_decode [quiet_rules]: "quiet (decode_tool_result_or_fail cx step)"
  unfolding decode_tool_result_or_fail_def
  by (intro quiet_rules) (auto split: exn.split intro!: quiet_rules dest: decode_tool_result_Inl)

lemma quiet_read_only [quiet_rules]: "quiet (execute_read_only_call L cx tool_name step_id normalized)"
proof -
  have f: "quiet (fail_tool_call cx step_id tool_name tok code detail)" for tok code and detail :: string
    unfolding fail_tool_call_def by (intro quiet_rules)
  have r: "quiet (run_claimed_call L cx tool_name step_id normalized tok)" for tok
    unfolding run_claimed_call_def
    by (intro quiet_rules) (auto split: option.split tool_execution_status.split intro!: quiet_rules f)
  have "quiet (settle_existing_step cx step_id tool_name k)" for k
    unfolding settle_existing_step_def Let_def by (intro quiet_rules)
  then show ?thesis unfolding execute_read_only_call_def claim_read_only_def by (intro quiet_rules r; simp)
qed

lemma quiet_fail_restored [quiet_rules]: "quiet (fail_restored L cx action code detail)"
  unfolding fail_restored_def by (intro quiet_rules)

lemma quiet_restored_call [quiet_rules]: "quiet (restored_call L cx step action title word)"
  unfolding restored_call_def decision_payload_for_step_def
  by (intro quiet_rules) (auto split: option.split decision.split intro!: quiet_rules)

lemma tool_call_co [simp]: "ac_co (tool_action_call L cx tool_name spec step_id normalized) = dynamic_coordinator L"
  by (simp add: tool_action_call_def)

lemma quiet_restore_step [quiet_rules]:
  "quiet (restore_completed_step L cx step action)" "quiet (restore_failed_step L cx step action)"
  unfolding restore_completed_step_def restore_failed_step_def Let_def
  by (intro quiet_rules dynamic.quiet_restores; simp)+

lemma quiet_restore_observations [quiet_rules]: "quiet (restore_observations L cx)"
proof -
  have "quiet (restore_steps L cx steps observations)" for steps observations
    by (induction steps arbitrary: observations) (auto intro!: quiet_rules)
  then show ?thesis unfolding restore_observations_def by (intro quiet_rules)
qed

lemma quiet_complete [quiet_rules]: "quiet (complete_loop cx result code)"
  unfolding complete_loop_def Let_def by (intro quiet_rules)

lemma quiet_answers [quiet_rules]: "quiet (clarify cx observations question)" "quiet (finish_loop cx evaluator observations d)"
  unfolding clarify_def finish_loop_def Let_def by (auto intro!: quiet_rules split: evaluator_reply.split)

lemma quiet_restore_result [quiet_rules]: "quiet (restore_result json)"
  unfolding restore_result_def by (intro quiet_rules; simp)

section \<open>The loop ends\<close>

lemma noreturn_at_limit:
  "dl_max_tool_calls L \<le> int n \<Longrightarrow> noreturn (authorize_call L cx runtime_input tool_name arguments step_id n)"
  unfolding authorize_call_def Let_def by (intro noreturn_andThen) (simp add: noreturn_deny)

text \<open>
  Whatever relation the authorized tool calls satisfy, the whole execution satisfies: each round
  adds an observation, and none is authorized at the limit, so the rounds suffice.
\<close>

context tracked
begin

lemma tracks_noreturn:
  assumes "quiet m" and "noreturn m"
  shows "tracks R (andThen m f)"
  by (rule tracks_andThen_returns [OF tracks_quiet [OF assms(1)]]) (rule noreturnD [OF assms(2)])

lemma tracks_loop_steps:
  assumes calls: "\<And>w tool_name arguments step_id k normalized w1. sound w \<Longrightarrow>
      authorize_call L cx runtime_input tool_name arguments step_id k w = (Inr normalized, w1) \<Longrightarrow>
      tracks R (execute_call L cx tool_name step_id normalized)"
    and "dl_max_tool_calls L \<le> int n + int (length observations)"
  shows "tracks R (loop_steps (Suc n) L cx runtime_input state evaluator observations)"
  using assms(2)
proof (induction n arbitrary: observations)
  case 0
  then have "noreturn (authorize_call L cx runtime_input tool_name arguments step_id (length observations))" for tool_name arguments step_id
    by (intro noreturn_at_limit) simp
  then show ?case unfolding loop_steps.simps(2) Let_def
    by (intro tracks_andThen tracks_quiet [OF quiet_decision])
      (auto split: decision.split intro!: tracks_quiet [OF quiet_answers(1)] tracks_quiet [OF quiet_answers(2)]
        tracks_noreturn quiet_authorize)
next
  case (Suc n)
  from Suc.prems have "tracks R (loop_steps (Suc n) L cx runtime_input state evaluator (observations @ [ob]))" for ob
    by (intro Suc.IH) simp
  then show ?case unfolding loop_steps.simps(2) [of "Suc n"] Let_def
    by (intro tracks_andThen tracks_quiet [OF quiet_decision])
      (auto split: decision.split simp del: loop_steps.simps intro!: tracks_quiet [OF quiet_answers(1)]
        tracks_quiet [OF quiet_answers(2)] tracks_andThen_returns [OF tracks_quiet [OF quiet_authorize]]
        tracks_andThen [OF calls])
qed

lemma tracks_dynamic_execute:
  assumes calls: "\<And>w tool_name arguments step_id k normalized w1. sound w \<Longrightarrow>
      authorize_call L cx runtime_input tool_name arguments step_id k w = (Inr normalized, w1) \<Longrightarrow>
      tracks R (execute_call L cx tool_name step_id normalized)"
  shows "tracks R (dynamic_execute L runtime_input state cx evaluator)"
proof -
  have "tracks R (loop_steps (loop_fuel L observations) L cx runtime_input state evaluator observations)" for observations
    unfolding loop_fuel_def by (rule tracks_loop_steps [OF calls]) simp_all
  then have "tracks R (dynamic_execute_impl L runtime_input state cx evaluator)"
    unfolding dynamic_execute_impl_def Let_def
    by (intro tracks_andThen tracks_if) (rule tracks_quiet, (intro quiet_rules; simp))+
  then show ?thesis unfolding dynamic_execute_def
    by (rule tracks_catch) (intro tracks_quiet quiet_rules; simp)
qed

end

section \<open>Every step pays for its calls\<close>

definition calls_for :: "string \<Rightarrow> action_request list \<Rightarrow> int" where
  "calls_for step_id calls = int (length (filter (\<lambda>q. q_step_id q = step_id) calls))"

definition described :: "string \<Rightarrow> db \<Rightarrow> action_request \<Rightarrow> bool" where
  "described run_id s q \<longleftrightarrow> (\<exists>a. select_action run_id (q_step_id q) s = Some a \<and> external_action_request a = Inr q)"

definition charged :: "string \<Rightarrow> world \<Rightarrow> world \<Rightarrow> bool" where
  "charged run_id w w' \<longleftrightarrow> follows w w' \<and> (\<exists>calls. w_calls w' = w_calls w @ calls
     \<and> (\<forall>step_id. calls_for step_id calls \<le> dispatches run_id step_id (w_db w') - dispatches run_id step_id (w_db w))
     \<and> (\<forall>q\<in>set calls. described run_id (w_db w') q))"

lemma described_follows:
  assumes "described run_id (w_db w) q" and f: "follows w w'" and w: "sound w"
  shows "described run_id (w_db w') q"
proof -
  from assms(1) obtain a where a: "select_action run_id (q_step_id q) (w_db w) = Some a" "external_action_request a = Inr q"
    by (auto simp: described_def)
  from a(1) have "snapshot run_id (q_step_id q) a (w_db w)" by (simp add: snapshot_def)
  from snapshot_follows [OF this f w] obtain a' where "select_action run_id (q_step_id q) (w_db w') = Some a'" "same_identity a a'"
    by (auto simp: snapshot_def action_evolves_def)
  with a(2) show ?thesis by (auto simp: described_def dest: request_identity)
qed

lemma charged_trans:
  assumes "charged run_id w w1" and "charged run_id w1 w'" and w: "sound w"
  shows "charged run_id w w'"
proof -
  from assms(1) obtain c where c: "follows w w1" "w_calls w1 = w_calls w @ c"
    "\<forall>step_id. calls_for step_id c \<le> dispatches run_id step_id (w_db w1) - dispatches run_id step_id (w_db w)"
    "\<forall>q\<in>set c. described run_id (w_db w1) q"
    by (auto simp: charged_def)
  from assms(2) obtain c' where c': "follows w1 w'" "w_calls w' = w_calls w1 @ c'"
    "\<forall>step_id. calls_for step_id c' \<le> dispatches run_id step_id (w_db w') - dispatches run_id step_id (w_db w1)"
    "\<forall>q\<in>set c'. described run_id (w_db w') q"
    by (auto simp: charged_def)
  have "calls_for step_id (c @ c') \<le> dispatches run_id step_id (w_db w') - dispatches run_id step_id (w_db w)" for step_id
    using spec [OF c(3), of step_id] spec [OF c'(3), of step_id] by (simp add: calls_for_def)
  moreover have "\<forall>q\<in>set (c @ c'). described run_id (w_db w') q"
    using c(4) c'(4) described_follows [OF _ c'(1) follows_sound [OF c(1) w]] by auto
  ultimately show ?thesis using follows_trans [OF c(1) c'(1)] c(2) c'(2)
    unfolding charged_def by (intro conjI exI [of _ "c @ c'"]) auto
qed

interpretation charging: tracked "charged run_id" for run_id
proof unfold_locales
  show "charged run_id w w'" if "follows w w'" "w_calls w' = w_calls w" "sound w" for w w'
    using that dispatches_follows [of w w' run_id] unfolding charged_def by (intro conjI exI [of _ "[]"]) (simp_all add: calls_for_def)
  show "charged run_id w w'" if "charged run_id w w1" "charged run_id w1 w'" "sound w" for w w1 w'
    using that by (rule charged_trans)
qed (simp add: charged_def)

lemma request_step: "select_action run_id step_id s = Some a \<Longrightarrow> external_action_request a = Inr q \<Longrightarrow> q_step_id q = step_id"
  by (auto simp: external_action_request_def action_key_def Let_def split: json_text.splits json.splits if_splits dest!: select_action_SomeD)

lemma accounted_charged:
  assumes "accounted run_id step_id w w'" and w: "sound w"
  shows "charged run_id w w'"
proof -
  from assms(1) obtain c where c: "follows w w'" "w_calls w' = w_calls w @ c"
    "int (length c) \<le> dispatches run_id step_id (w_db w') - dispatches run_id step_id (w_db w)"
    "\<forall>q\<in>set c. \<exists>a. select_action run_id step_id (w_db w') = Some a \<and> external_action_request a = Inr q"
    by (auto simp: accounted_def)
  from c(4) have step: "\<forall>q\<in>set c. q_step_id q = step_id" by (blast intro: request_step)
  have "calls_for k c \<le> dispatches run_id k (w_db w') - dispatches run_id k (w_db w)" for k
  proof (cases "k = step_id")
    case True
    with c(3) step show ?thesis by (simp add: calls_for_def)
  next
    case False
    with step have "filter (\<lambda>q. q_step_id q = k) c = []" by (auto simp: filter_empty_conv)
    with dispatches_follows [OF c(1) w, of run_id k] show ?thesis by (simp add: calls_for_def)
  qed
  moreover from c(4) step have "\<forall>q\<in>set c. described run_id (w_db w') q" by (auto simp: described_def)
  ultimately show ?thesis using c(1,2) unfolding charged_def by blast
qed

lemma tracks_execute_call: "tracks (charged (cx_run_id cx)) (execute_call L cx tool_name step_id normalized)"
proof -
  have "tracks (charged (cx_run_id cx)) (execute_action (tool_action_call L cx tool_name spec step_id normalized))" for spec
    using dynamic.execute_accounted [of "tool_action_call L cx tool_name spec step_id normalized" L]
    by (auto simp: tracks_def tool_action_call_def intro: accounted_charged)
  then show ?thesis unfolding execute_call_def
    by (auto intro: charging.tracks_quiet quiet_rules split: option.split)
qed

lemma tracks_charged: "tracks (charged (cx_run_id cx)) (dynamic_execute L runtime_input state cx evaluator)"
  by (rule charging.tracks_dynamic_execute) (rule tracks_execute_call)

section \<open>Calls need authority\<close>

definition may_write :: "dynamic_loop \<Rightarrow> exec_context \<Rightarrow> (string \<times> json) list \<Rightarrow> bool" where
  "may_write L cx runtime_input \<longleftrightarrow> allows (cx_authority cx) TOOL_EXECUTE_PERMISSION
     \<and> allows (cx_authority cx) EXTERNAL_ACTION_EXECUTE_PERMISSION \<and> dl_dispatcher L
     \<and> (\<exists>name spec. resolve_tool (dl_tools L) name = Some spec \<and> ts_effect spec = EXTERNAL_WRITE \<and> action_was_requested spec runtime_input)"

definition permitted :: "dynamic_loop \<Rightarrow> exec_context \<Rightarrow> (string \<times> json) list \<Rightarrow> world \<Rightarrow> world \<Rightarrow> bool" where
  "permitted L cx runtime_input w w' \<longleftrightarrow> follows w w' \<and> (w_calls w' = w_calls w \<or> may_write L cx runtime_input)"

interpretation permits: tracked "permitted L cx runtime_input" for L cx runtime_input
  by unfold_locales (auto simp: permitted_def intro: follows_trans)

lemma external_authorized:
  assumes "authorize_external L cx runtime_input prior step_id tool_name spec w = (Inr u, w')"
  shows "allows (cx_authority cx) EXTERNAL_ACTION_EXECUTE_PERMISSION \<and> action_was_requested spec runtime_input \<and> dl_dispatcher L"
  using assms unfolding authorize_external_def Let_def
  by (auto simp: provider_for_def dynamic_coordinator_def split: if_splits option.splits elim!: andThenE noreturnD [OF noreturn_deny])

lemma may_writeI:
  "allows (cx_authority cx) TOOL_EXECUTE_PERMISSION \<Longrightarrow> allows (cx_authority cx) EXTERNAL_ACTION_EXECUTE_PERMISSION \<Longrightarrow> dl_dispatcher L
    \<Longrightarrow> resolve_tool (dl_tools L) name = Some spec \<Longrightarrow> ts_effect spec = EXTERNAL_WRITE \<Longrightarrow> action_was_requested spec runtime_input
    \<Longrightarrow> may_write L cx runtime_input"
  by (auto simp: may_write_def)

lemma call_authorized:
  assumes "authorize_call L cx runtime_input tool_name arguments step_id n w = (Inr normalized, w')"
  shows "\<exists>spec. resolve_tool (dl_tools L) tool_name = Some spec \<and> (ts_effect spec = EXTERNAL_WRITE \<longrightarrow> may_write L cx runtime_input)"
  using assms unfolding authorize_call_def Let_def
  by (auto intro: may_writeI split: if_splits option.splits elim!: andThenE noreturnD [OF noreturn_deny] dest!: external_authorized)

lemma tracks_permitted: "tracks (permitted L cx runtime_input) (dynamic_execute L runtime_input state cx evaluator)"
proof (rule permits.tracks_dynamic_execute)
  fix w tool_name arguments step_id k normalized w1
  assume "authorize_call L cx runtime_input tool_name arguments step_id k w = (Inr normalized, w1)"
  from call_authorized [OF this] obtain spec where spec: "resolve_tool (dl_tools L) tool_name = Some spec"
    "ts_effect spec = EXTERNAL_WRITE \<Longrightarrow> may_write L cx runtime_input" by blast
  have "tracks (charged (cx_run_id cx)) (execute_call L cx tool_name step_id normalized)" by (rule tracks_execute_call)
  then show "tracks (permitted L cx runtime_input) (execute_call L cx tool_name step_id normalized)"
  proof (cases "ts_effect spec = EXTERNAL_WRITE")
    case True
    with spec(2) show ?thesis using tracks_execute_call [of cx L tool_name step_id normalized]
      by (auto simp: tracks_def permitted_def charged_def)
  next
    case False
    with spec(1) show ?thesis by (auto simp: execute_call_def intro!: permits.tracks_quiet quiet_rules)
  qed
qed

end
