(* ===== verification/Dynamic_Evidence.thy ===== *)
theory Dynamic_Evidence
  imports Dynamic_Safety Run_Effects
begin

text \<open>
  What the dynamic loop reads back from the append-only workflow log and from a finished
  execution: the first evidence under an identifier stays the first, a decision is recorded
  before it is acted on, and a result survives its JSON form.
\<close>

section \<open>The first evidence\<close>

definition first_evidence :: "string \<Rightarrow> string \<Rightarrow> string \<Rightarrow> (string \<times> json) list \<Rightarrow> db \<Rightarrow> bool" where
  "first_evidence run_id ty i p s \<longleftrightarrow> (\<exists>es rest ds. list_workflow_events run_id 0 s = es @ rest
     \<and> decode_events es = Some ds \<and> find_evidence ty (JStr i) ds = Some p)"

lemma decode_events_append:
  "decode_events (es @ es') = (case decode_events es of None \<Rightarrow> None | Some ds \<Rightarrow> map_option (\<lambda>ds'. ds @ ds') (decode_events es'))"
  by (cases "decode_events es'"; induction es) (auto split: option.splits)

lemma find_evidence_append:
  "find_evidence ty i (ds @ ds') = (case find_evidence ty i ds of None \<Rightarrow> find_evidence ty i ds' | Some p \<Rightarrow> Some p)"
  by (induction ds) (auto simp: find_evidence_def)

lemma log_extends:
  assumes "store_reachable s" and "later s t"
  shows "\<exists>rest. list_workflow_events run_id 0 t = list_workflow_events run_id 0 s @ rest"
proof -
  from assms have s: "wf_inv s" and t: "wf_inv t" by (auto intro: reachable_wf_inv reachable_later)
  from later_wf_evolves [OF assms(2,1)] obtain evs where evs: "db_workflow_events t = db_workflow_events s @ evs"
    by (auto simp: wf_evolves_def)
  show ?thesis using workflow_log.read_resumes [OF s t evs] by blast
qed

lemma first_evidence_later:
  assumes "first_evidence run_id ty i p s" and "store_reachable s" and "later s t"
  shows "first_evidence run_id ty i p t"
proof -
  from assms(1) obtain es rest ds where "list_workflow_events run_id 0 s = es @ rest" "decode_events es = Some ds"
    "find_evidence ty (JStr i) ds = Some p" by (auto simp: first_evidence_def)
  moreover obtain more where "list_workflow_events run_id 0 t = list_workflow_events run_id 0 s @ more"
    using log_extends [OF assms(2,3)] by blast
  ultimately show ?thesis unfolding first_evidence_def by (intro exI [of _ es] exI [of _ "rest @ more"] exI [of _ ds]) simp
qed

lemma workflow_events_returns:
  assumes "workflow_events run_id w = (Inr ds, w')" and "sound w"
  shows "decode_events (list_workflow_events run_id 0 (w_db w')) = Some ds \<and> later (w_db w) (w_db w')"
  using assms(1) unfolding workflow_events_def
  by (rule read_InrE [OF _ assms(2)]) (auto simp: decoded_events_def split: option.splits)

lemma evidence_found:
  assumes "workflow_evidence run_id ty i w = (Inr (Some p), w')" and "sound w"
  shows "first_evidence run_id ty i p (w_db w')"
proof -
  from assms(1) obtain ds where "workflow_events run_id w = (Inr ds, w')" "find_evidence ty (JStr i) ds = Some p"
    by (auto simp: workflow_evidence_def elim!: andThenE)
  with workflow_events_returns [OF this(1) assms(2)] show ?thesis
    unfolding first_evidence_def by (intro exI [of _ "list_workflow_events run_id 0 (w_db w')"] exI [of _ "[]"] exI [of _ ds]) simp
qed

lemma evidence_read:
  assumes "workflow_evidence run_id ty i w = (Inr found, w')" and "first_evidence run_id ty i p (w_db w)" and w: "sound w"
  shows "found = Some p"
proof -
  from assms(1) obtain ds where ds: "workflow_events run_id w = (Inr ds, w')" "found = find_evidence ty (JStr i) ds"
    by (auto simp: workflow_evidence_def elim!: andThenE)
  note r = workflow_events_returns [OF ds(1) w]
  from first_evidence_later [OF assms(2)] r w have "first_evidence run_id ty i p (w_db w')" by (simp add: sound_def)
  then obtain es rest es' where "list_workflow_events run_id 0 (w_db w') = es @ rest" "decode_events es = Some es'"
    "find_evidence ty (JStr i) es' = Some p" by (auto simp: first_evidence_def)
  with r ds(2) show ?thesis by (auto simp: decode_events_append find_evidence_append split: option.splits)
qed

section \<open>Recording evidence\<close>

text \<open>
  A log that no longer decodes, which every reader reports as an error, and a log that has settled
  on some evidence for an identifier or on none being readable.
\<close>

definition garbled :: "string \<Rightarrow> db \<Rightarrow> bool" where
  "garbled run_id s \<longleftrightarrow> decode_events (list_workflow_events run_id 0 s) = None"

definition settled :: "string \<Rightarrow> string \<Rightarrow> string \<Rightarrow> db \<Rightarrow> bool" where
  "settled run_id ty i s \<longleftrightarrow> garbled run_id s \<or> (\<exists>p. first_evidence run_id ty i p s)"

text \<open>Nobody else records evidence under this identifier; other events may come in between.\<close>

definition sole_recorder :: "string \<Rightarrow> string \<Rightarrow> string \<Rightarrow> world \<Rightarrow> bool" where
  "sole_recorder run_id ty i w \<longleftrightarrow> (\<forall>n s p. store_reachable s \<longrightarrow> first_evidence run_id ty i p (tk_env (w_ticks w n) s) \<longrightarrow>
     first_evidence run_id ty i p s)"

lemma garbled_later: "garbled run_id s \<Longrightarrow> store_reachable s \<Longrightarrow> later s t \<Longrightarrow> garbled run_id t"
  using log_extends [of s t run_id] by (auto simp: garbled_def decode_events_append)

lemma settled_later: "settled run_id ty i s \<Longrightarrow> store_reachable s \<Longrightarrow> later s t \<Longrightarrow> settled run_id ty i t"
  unfolding settled_def using garbled_later first_evidence_later by blast

lemma settled_follows: "settled run_id ty i (w_db w) \<Longrightarrow> follows w w' \<Longrightarrow> sound w \<Longrightarrow> settled run_id ty i (w_db w')"
  by (auto simp: follows_def sound_def intro: settled_later)

lemma no_evidence:
  assumes "decode_events (list_workflow_events run_id 0 s) = Some ds" and "find_evidence ty (JStr i) ds = None"
  shows "\<not> first_evidence run_id ty i p s"
  using assms by (auto simp: first_evidence_def decode_events_append find_evidence_append split: option.splits)

lemma read_log:
  assumes "workflow_events run_id w = (Inr ds, w')" and "sound w"
  shows "decode_events (list_workflow_events run_id 0 (w_db w')) = Some ds \<and> w_db w' = tk_env (w_ticks w (w_time w)) (w_db w) \<and> w_ticks w' = w_ticks w"
  using assms by (auto simp: workflow_events_def read_def call_def Let_def decoded_events_def split: if_splits option.splits prod.splits sum.splits)

lemma evidence_readable:
  assumes "workflow_evidence run_id ty i w = (Inr found, w')" and "sound w"
  shows "\<not> garbled run_id (w_db w)"
proof -
  from assms obtain x where "decode_events (list_workflow_events run_id 0 (w_db w')) = Some x" "later (w_db w) (w_db w')"
    by (auto simp: workflow_evidence_def sound_def elim!: andThenE dest!: workflow_events_returns)
  then show ?thesis using garbled_later [of run_id "w_db w" "w_db w'"] assms(2) by (auto simp: garbled_def sound_def)
qed

lemma append_event_log:
  assumes "append_workflow_event clk run_id ty payload lease now_ms s = (Inr e, t)" and s: "store_reachable s"
  shows "\<exists>e. list_workflow_events run_id 0 t = list_workflow_events run_id 0 s @ [e] \<and> decode_events [e] = Some [(ty, payload)]"
proof -
  have "later s t" using ledger_tx [OF tx_start workflow_step.wf_event, of s clk run_id ty payload lease now_ms] assms(1) by simp
  then have inv: "wf_inv s" "wf_inv t" using s by (auto intro: reachable_wf_inv reachable_later)
  from assms(1) have e: "e_run_id e = run_id" "db_workflow_events t = db_workflow_events s @ [e]" "decode_events [e] = Some [(ty, payload)]"
    by (auto simp: append_workflow_event_def append_workflow_event_with_connection_def transaction_def fenced_body_def Let_def
        decode_json_object_def split: option.splits if_splits)
  then show ?thesis by (auto simp: workflow_log.read_all(1) [OF inv(1)] workflow_log.read_all(1) [OF inv(2)])
qed

lemma ledger_event_appended:
  assumes "append_ledger_event run_id ty payload lease w = (Inr u, w')" and w: "sound w"
  defines "s \<equiv> tk_env (w_ticks w (w_time w)) (w_db w)"
  shows "\<exists>e. list_workflow_events run_id 0 (w_db w') = list_workflow_events run_id 0 s @ [e] \<and> decode_events [e] = Some [(ty, payload)]"
proof -
  let ?t = "w_ticks w (w_time w)"
  from w have s: "store_reachable s" unfolding s_def by (auto simp: sound_def fair_def intro: reachable_later)
  from assms(1) obtain e where "append_workflow_event (tk_clk ?t) run_id ty payload lease (tk_now ?t) s = (Inr e, w_db w')"
    unfolding s_def by (auto simp: append_ledger_event_def call_def Let_def elim!: andThenE split: if_splits prod.splits sum.splits)
  from append_event_log [OF this s] show ?thesis .
qed

text \<open>After an append of evidence the log has settled, on this evidence if there was none before.\<close>

lemma appended_settles:
  assumes "list_workflow_events run_id 0 t = list_workflow_events run_id 0 s @ [e]" and "decode_events [e] = Some [(ty, payload)]"
    and i: "map_of payload ''evidence_id'' = Some (JStr i)"
  shows "settled run_id ty i t" and "\<forall>p. \<not> first_evidence run_id ty i p s \<Longrightarrow> garbled run_id t \<or> first_evidence run_id ty i payload t"
proof -
  have new: "find_evidence ty (JStr i) [(ty, payload)] = Some payload" by (simp add: find_evidence_def json_equal_def i)
  have "garbled run_id t \<or> (\<exists>p. first_evidence run_id ty i p s \<and> first_evidence run_id ty i p t) \<or> first_evidence run_id ty i payload t"
  proof (cases "decode_events (list_workflow_events run_id 0 s)")
    case None
    then show ?thesis by (simp add: garbled_def assms(1) decode_events_append)
  next
    case (Some ds)
    show ?thesis
    proof (cases "find_evidence ty (JStr i) ds")
      case None
      have "first_evidence run_id ty i payload t"
        unfolding first_evidence_def assms(1)
        by (intro exI [of _ "list_workflow_events run_id 0 s @ [e]"] exI [of _ "[]"] exI [of _ "ds @ [(ty, payload)]"])
          (simp add: decode_events_append Some assms(2) find_evidence_append None new del: decode_events.simps)
      then show ?thesis by simp
    next
      case p: (Some p)
      have "first_evidence run_id ty i p s"
        unfolding first_evidence_def by (intro exI [of _ "list_workflow_events run_id 0 s"] exI [of _ "[]"] exI [of _ ds]) (simp add: Some p)
      moreover have "first_evidence run_id ty i p t"
        unfolding first_evidence_def assms(1)
        by (intro exI [of _ "list_workflow_events run_id 0 s"] exI [of _ "[e]"] exI [of _ ds]) (simp add: Some p)
      ultimately show ?thesis by blast
    qed
  qed
  then show "settled run_id ty i t" "\<forall>p. \<not> first_evidence run_id ty i p s \<Longrightarrow> garbled run_id t \<or> first_evidence run_id ty i payload t"
    unfolding settled_def by blast+
qed

lemma evidence_recorded:
  assumes run: "record_evidence run_id ty payload lease w = (Inr u, w')" and w: "sound w"
    and i: "map_of payload ''evidence_id'' = Some (JStr i)"
  shows "settled run_id ty i (w_db w')"
    and "sole_recorder run_id ty i w \<Longrightarrow> \<forall>p. \<not> first_evidence run_id ty i p (w_db w) \<Longrightarrow>
      garbled run_id (w_db w') \<or> first_evidence run_id ty i payload (w_db w')"
proof -
  from run i obtain existing w1 where ex: "workflow_evidence run_id ty i w = (Inr existing, w1)"
    and k: "(case existing of None \<Rightarrow> andThen (append_ledger_event run_id ty payload lease) (\<lambda>_. ensure_run_evidence run_id ty payload lease)
        | Some stored \<Rightarrow> if \<not> json_equal (JObj stored) (JObj payload)
            then raise (ExecutionError ''invalid_planner_decision'' (''Durable evidence mismatch for '' @ i @ ''.''))
            else ensure_run_evidence run_id ty stored lease) w1 = (Inr u, w')"
    by (auto simp: record_evidence_def Let_def elim!: andThenE)
  note w1 = quietD [OF quiet_reads(3) ex w]
  from ex obtain ds where "workflow_events run_id w = (Inr ds, w1)" by (auto simp: workflow_evidence_def elim!: andThenE)
  note rd = read_log [OF this w]
  have step: "store_reachable (w_db w)" "store_reachable (w_db w1)" using w w1(3) by (simp_all add: sound_def)
  have none1: "\<forall>p. \<not> first_evidence run_id ty i p (w_db w1)"
    if "sole_recorder run_id ty i w" "\<forall>p. \<not> first_evidence run_id ty i p (w_db w)"
    using that step(1) rd unfolding sole_recorder_def by metis
  have "settled run_id ty i (w_db w') \<and> ((\<forall>p. \<not> first_evidence run_id ty i p (w_db w1)) \<and> sole_recorder run_id ty i w \<longrightarrow>
      garbled run_id (w_db w') \<or> first_evidence run_id ty i payload (w_db w'))"
  proof (cases existing)
    case (Some stored)
    with k have en: "ensure_run_evidence run_id ty stored lease w1 = (Inr u, w')" by (auto split: if_splits)
    from evidence_found [OF ex [unfolded Some] w] have f: "first_evidence run_id ty i stored (w_db w1)" .
    then have "settled run_id ty i (w_db w1)" by (auto simp: settled_def)
    from settled_follows [OF this quietD(1) [OF quiet_ensure_run_evidence en w1(3)] w1(3)] f show ?thesis by blast
  next
    case None
    with k obtain w2 where ap: "append_ledger_event run_id ty payload lease w1 = (Inr (), w2)"
      and en: "ensure_run_evidence run_id ty payload lease w2 = (Inr u, w')" by (auto elim!: andThenE)
    note w2 = quietD [OF quiet_append_ledger_event ap w1(3)]
    have l: "later (w_db w2) (w_db w')" "store_reachable (w_db w2)"
      using quietD(1) [OF quiet_ensure_run_evidence en w2(3)] w2(3) by (auto simp: follows_def sound_def)
    let ?s = "tk_env (w_ticks w1 (w_time w1)) (w_db w1)"
    from ledger_event_appended [OF ap w1(3)] obtain e where e: "list_workflow_events run_id 0 (w_db w2) = list_workflow_events run_id 0 ?s @ [e]"
      "decode_events [e] = Some [(ty, payload)]" by blast
    note st = appended_settles [OF e i]
    have "garbled run_id (w_db w') \<or> first_evidence run_id ty i payload (w_db w')"
      if "\<forall>p. \<not> first_evidence run_id ty i p (w_db w1)" "sole_recorder run_id ty i w"
    proof -
      have "\<forall>p. \<not> first_evidence run_id ty i p ?s" using that step(2) rd unfolding sole_recorder_def by metis
      from st(2) [OF this] show ?thesis using garbled_later [OF _ l(2,1)] first_evidence_later [OF _ l(2,1)] by blast
    qed
    with settled_later [OF st(1) l(2,1)] show ?thesis by blast
  qed
  with none1 show "settled run_id ty i (w_db w')" "sole_recorder run_id ty i w \<Longrightarrow> \<forall>p. \<not> first_evidence run_id ty i p (w_db w) \<Longrightarrow>
      garbled run_id (w_db w') \<or> first_evidence run_id ty i payload (w_db w')" by blast+
qed

section \<open>Decisions\<close>

definition decision_in :: "(string \<times> json) list \<Rightarrow> decision option" where
  "decision_in p = Option.bind (map_of p ''decision'') validate_decision"

text \<open>A planner that returns a decision object built it through its checked constructor.\<close>

definition constructs_decisions :: "dynamic_loop \<Rightarrow> bool" where
  "constructs_decisions L \<longleftrightarrow> (\<forall>t pc d. dl_planner L t pc = Decides d \<longrightarrow> decision_valid d)"

lemma noreturn_reject [noreturn_rules]: "noreturn (reject_decision cx index code detail)"
  unfolding reject_decision_def by (intro noreturn_rules)

lemma persisted_returns:
  "persisted_decision cx p w = (Inr d, w') \<Longrightarrow> decision_in p = Some d"
  by (auto simp: persisted_decision_def decision_in_def split: if_splits option.splits
      elim!: andThenE noreturnD [OF noreturn_dynamic_fail])

lemma fresh_returns:
  assumes "fresh_decision L cx index pc w = (Inr d, w')"
  shows "\<exists>w1. record_loop cx ''planner.decision'' (decision_payload index d) w1 = (Inr (), w')
     \<and> w_db w1 = w_db w \<and> w_ticks w1 = w_ticks w \<and> (constructs_decisions L \<longrightarrow> decision_valid d)"
proof -
  let ?reply = "dl_planner L (w_time w) pc" and ?w1 = "w\<lparr>w_time := Suc (w_time w)\<rparr>"
  from assms consider "?reply = Decides d" | j where "?reply = Answers j" "validate_decision j = Some d"
    by (auto simp: fresh_decision_def ask_planner_def split: planner_reply.splits option.splits
        elim!: andThenE noreturnD [OF noreturn_reject])
  then have v: "constructs_decisions L \<longrightarrow> decision_valid d"
    by cases (auto simp: constructs_decisions_def dest: validate_decision_valid)
  from assms have "record_loop cx ''planner.decision'' (decision_payload index d) ?w1 = (Inr (), w')"
    by (auto simp: fresh_decision_def ask_planner_def split: planner_reply.splits option.splits
        elim!: andThenE noreturnD [OF noreturn_reject])
  with v show ?thesis by (intro exI [of _ ?w1]) simp
qed

lemma decision_in_payload: "decision_valid d \<Longrightarrow> decision_in (decision_payload index d) = Some d"
  by (simp add: decision_in_def decision_payload_def decision_roundtrip)

lemma decision_recorded:
  assumes run: "decision_for_index L cx runtime_input state observations w = (Inr d, w')" and w: "sound w"
  defines "i \<equiv> planner_id (Suc (length observations))"
  shows "settled (cx_run_id cx) ''planner.decision'' i (w_db w')"
    and "sole_recorder (cx_run_id cx) ''planner.decision'' i w \<Longrightarrow> constructs_decisions L \<Longrightarrow>
      garbled (cx_run_id cx) (w_db w') \<or> (\<exists>p. first_evidence (cx_run_id cx) ''planner.decision'' i p (w_db w') \<and> decision_in p = Some d)"
proof -
  let ?run = "cx_run_id cx"
  from run obtain found w1 where ev: "workflow_evidence ?run ''planner.decision'' i w = (Inr found, w1)"
    and k: "(case found of Some p \<Rightarrow> persisted_decision cx p
        | None \<Rightarrow> fresh_decision L cx (Suc (length observations)) (context_of L cx runtime_input state observations)) w1 = (Inr d, w')"
    unfolding i_def by (auto simp: decision_for_index_def Let_def elim!: andThenE)
  note w1 = quietD [OF quiet_reads(3) ev w]
  have "settled ?run ''planner.decision'' i (w_db w') \<and> (sole_recorder ?run ''planner.decision'' i w \<and> constructs_decisions L \<longrightarrow>
      garbled ?run (w_db w') \<or> (\<exists>p. first_evidence ?run ''planner.decision'' i p (w_db w') \<and> decision_in p = Some d))"
  proof (cases found)
    case (Some p)
    with k have p: "persisted_decision cx p w1 = (Inr d, w')" by simp
    have "quiet (persisted_decision cx p)" unfolding persisted_decision_def by (intro quiet_rules)
    from quietD(1) [OF this p w1(3)] w1(3) evidence_found [OF ev [unfolded Some] w]
    have "first_evidence ?run ''planner.decision'' i p (w_db w')"
      by (auto simp: follows_def sound_def intro: first_evidence_later)
    with persisted_returns [OF p] show ?thesis unfolding settled_def by blast
  next
    case None
    from ev obtain ds where ds: "workflow_events ?run w = (Inr ds, w1)" "find_evidence ''planner.decision'' (JStr i) ds = None"
      by (auto simp: workflow_evidence_def None elim!: andThenE)
    note rd = read_log [OF ds(1) w]
    from k None have "fresh_decision L cx (Suc (length observations)) (context_of L cx runtime_input state observations) w1 = (Inr d, w')"
      by simp
    from fresh_returns [OF this] obtain w2 where w2: "record_loop cx ''planner.decision'' (decision_payload (Suc (length observations)) d) w2
        = (Inr (), w')" "w_db w2 = w_db w1" "w_ticks w2 = w_ticks w1" "constructs_decisions L \<longrightarrow> decision_valid d" by blast
    from w2(2,3) w1(3) have s2: "sound w2" by (simp add: sound_def fair_def)
    have id: "map_of (decision_payload (Suc (length observations)) d) ''evidence_id'' = Some (JStr i)"
      by (simp add: decision_payload_def i_def)
    note rec = evidence_recorded [OF w2(1) [unfolded record_loop_def] s2 id]
    have "\<forall>p. \<not> first_evidence ?run ''planner.decision'' i p (w_db w2)" unfolding w2(2)
      using no_evidence [OF conjunct1 [OF rd] ds(2)] by blast
    moreover have "sole_recorder ?run ''planner.decision'' i w \<Longrightarrow> sole_recorder ?run ''planner.decision'' i w2"
      using rd w2(3) by (simp add: sole_recorder_def)
    ultimately show ?thesis using rec w2(4) decision_in_payload by blast
  qed
  then show "settled ?run ''planner.decision'' i (w_db w')"
    "sole_recorder ?run ''planner.decision'' i w \<Longrightarrow> constructs_decisions L \<Longrightarrow>
      garbled ?run (w_db w') \<or> (\<exists>p. first_evidence ?run ''planner.decision'' i p (w_db w') \<and> decision_in p = Some d)" by blast+
qed

lemma decision_replayed:
  assumes run: "decision_for_index L cx runtime_input state observations w = (Inr d, w')" and w: "sound w"
    and ev: "first_evidence (cx_run_id cx) ''planner.decision'' (planner_id (Suc (length observations))) p (w_db w)"
  shows "decision_in p = Some d"
proof -
  let ?i = "planner_id (Suc (length observations))"
  from run obtain found w1 where f: "workflow_evidence (cx_run_id cx) ''planner.decision'' ?i w = (Inr found, w1)"
    and k: "(case found of Some p \<Rightarrow> persisted_decision cx p
        | None \<Rightarrow> fresh_decision L cx (Suc (length observations)) (context_of L cx runtime_input state observations)) w1 = (Inr d, w')"
    by (auto simp: decision_for_index_def Let_def elim!: andThenE)
  from evidence_read [OF f ev w] k show ?thesis by (auto dest: persisted_returns)
qed

lemma decision_readable:
  "decision_for_index L cx runtime_input state observations w = (Inr d, w') \<Longrightarrow> sound w \<Longrightarrow> \<not> garbled (cx_run_id cx) (w_db w)"
  by (auto simp: decision_for_index_def Let_def elim!: andThenE dest: evidence_readable)

section \<open>Results\<close>

lemma those_map_SomeI: "(\<And>x. x \<in> set xs \<Longrightarrow> f (g x) = Some x) \<Longrightarrow> those (map f (map g xs)) = Some xs"
  by (induction xs) auto

lemma observation_roundtrip: "validate_observation (dump_observation ob) = Some ob"
  by (simp add: validate_observation_def dump_observation_def str_of_def obj_field_def lax_bool_def only_keys_def)

lemma outcome_roundtrip: "outcome_of (loop_value oc) = Some oc"
  by (cases oc) (simp_all add: outcome_of_def)

lemma result_roundtrip: "validate_loop_result (dump_loop_result r) = Some r"
proof -
  have "those (map str_of (map JStr (fe_validation_errors r))) = Some (fe_validation_errors r)"
    by (rule those_map_SomeI) (simp add: str_of_def)
  moreover have "those (map validate_observation (map dump_observation (fe_observations r))) = Some (fe_observations r)"
    by (rule those_map_SomeI) (simp add: observation_roundtrip)
  ultimately show ?thesis
    by (simp add: validate_loop_result_def dump_loop_result_def list_field_def str_of_def outcome_roundtrip obj_field_def only_keys_def)
qed

end
