(* ===== verification/Dynamic_Properties.thy ===== *)
theory Dynamic_Properties
  imports Dynamic_Evidence Durable_Properties
begin

text \<open>
  The properties of the dynamic tool loop, applied to one evaluated execution: a planner asks for
  one payment through an external-write tool and then finishes.
\<close>

section \<open>An execution\<close>

definition dy_policy :: tool_policy where
  "dy_policy = \<lparr>tp_timeout_seconds = Binary 3 0, tp_max_output_bytes = 65536, tp_max_memory_mb = 256, tp_max_cpu_seconds = 2,
     tp_filesystem = (''readwrite'', ''process''), tp_network = (''none'', ''process''), tp_environment = (''restricted'', ''process'')\<rparr>"

definition dy_pay :: registered_tool where
  "dy_pay = \<lparr>ts_provider_name = Some ''crm'', ts_retry_mode = UNSAFE, ts_output_model = Some (\<lambda>_ result. Some result), ts_name = ''pay'',
     ts_description = ''Pay.'', ts_input_model = Some, ts_policy = dy_policy, ts_handler_entrypoint = None, ts_effect = EXTERNAL_WRITE,
     ts_output_forbids_extra = True, ts_runtime_input_gate = Some (\<lambda>i. Some (map_of i ''pay'' = Some (JBool True)))\<rparr>"

definition dy_planner :: "nat \<Rightarrow> planner_context \<Rightarrow> planner_reply" where
  "dy_planner t pc = Decides (if pn_observations pc = [] then CallTool ''pay'' [(''amount'', JInt 5)] ''due'' else Finish ''Paid.'' [] ''done'')"

definition dy_loop :: dynamic_loop where
  "dy_loop = \<lparr>dl_planner = dy_planner, dl_tools = [(''pay'', dy_pay)], dl_texts = \<lparr>sx_invalid = (\<lambda>_. []), sx_seconds = (\<lambda>_. []), sx_decode = (\<lambda>_. [])\<rparr>,
     dl_environ = [], dl_process = (\<lambda>_ _ _ _. NotStarted), dl_loads = (\<lambda>_. None),
     dl_json_schema = (\<lambda>_. JNull), dl_workflow_type = ''billing'', dl_max_tool_calls = 4, dl_dispatcher = True, dl_digests = dx_digests\<rparr>"

definition dy_evaluator :: finish_evaluator where
  "dy_evaluator d observations = Evaluates \<lparr>fe_outcome = LOOP_FINISHED, fe_message = ''Paid.'', fe_output = [], fe_validation_errors = []\<rparr>"

definition dy_run :: "(exn + loop_result) \<times> world" where
  "dy_run = dynamic_execute dy_loop [(''pay'', JBool True)] [] dx_context dy_evaluator (dx_world dx_success)"

lemma dy_run: "dynamic_execute dy_loop [(''pay'', JBool True)] [] dx_context dy_evaluator (dx_world dx_success) = (fst dy_run, snd dy_run)"
  by (simp add: dy_run_def)

lemma dy_evaluated: "(case dy_run of (r, w) \<Rightarrow> map q_step_id (w_calls w) = [''call-0001'']
   \<and> (case r of Inr x \<Rightarrow> map ob_step_id (fe_observations x) = [''call-0001''] | Inl _ \<Rightarrow> False))"
  by code_simp

lemma dy_calls: "map q_step_id (w_calls (snd dy_run)) = [''call-0001'']"
  using dy_evaluated by (simp add: case_prod_unfold)

section \<open>Properties\<close>

text \<open>
  C6. The tool loop ends and pays for every provider call. Whatever the planner decides, other
  workers do meanwhile, calls fail and providers answer, one execution of the dynamic tool loop
  ends; the requests that reached a provider for a step are at most as many as the dispatches
  durably claimed for that step since the execution began, and each is the very request the stored
  action of its step describes. A step whose provider is not idempotent therefore gets at most one
  request, and none from an execution that starts when it was already dispatched.
\<close>

theorem tool_loop_pays_for_every_call:
  assumes "sound w" and "dynamic_execute L runtime_input state cx evaluator w = (r, w')"
  shows "r \<noteq> Inl OutOfFuel \<and> (\<exists>calls. w_calls w' = w_calls w @ calls
     \<and> (\<forall>step_id. calls_for step_id calls \<le> dispatches (cx_run_id cx) step_id (w_db w') - dispatches (cx_run_id cx) step_id (w_db w))
     \<and> (\<forall>q\<in>set calls. \<exists>a. select_action (cx_run_id cx) (q_step_id q) (w_db w') = Some a \<and> external_action_request a = Inr q
          \<and> (xa_retry_mode a = retry_value UNSAFE \<longrightarrow>
               calls_for (q_step_id q) calls = 1 \<and> dispatches (cx_run_id cx) (q_step_id q) (w_db w) = 0)))"
proof -
  note ch = tracksD [OF tracks_charged assms(2,1)]
  from ch obtain calls where calls: "w_calls w' = w_calls w @ calls"
    "\<And>step_id. calls_for step_id calls \<le> dispatches (cx_run_id cx) step_id (w_db w') - dispatches (cx_run_id cx) step_id (w_db w)"
    "\<And>q. q \<in> set calls \<Longrightarrow> described (cx_run_id cx) (w_db w') q"
    by (auto simp: charged_def)
  from ch assms(1) have r: "store_reachable (w_db w)" "store_reachable (w_db w')"
    by (auto simp: sound_def dest: charging.stays_sound [OF _ assms(1)])
  have one: "calls_for (q_step_id q) calls = 1 \<and> dispatches (cx_run_id cx) (q_step_id q) (w_db w) = 0"
    if q: "q \<in> set calls" and a: "select_action (cx_run_id cx) (q_step_id q) (w_db w') = Some a" "xa_retry_mode a = retry_value UNSAFE" for q a
  proof -
    from q have "filter (\<lambda>p. q_step_id p = q_step_id q) calls \<noteq> []" by (auto simp: filter_empty_conv)
    then have "1 \<le> calls_for (q_step_id q) calls" by (cases "filter (\<lambda>p. q_step_id p = q_step_id q) calls") (simp_all add: calls_for_def)
    with calls(2) [of "q_step_id q"] unsafe_count [OF r(2) a] a(1) dispatches_nonneg [OF r(1), of "cx_run_id cx" "q_step_id q"]
    show ?thesis by (auto simp: dispatches_def)
  qed
  from ch have "r \<noteq> Inl OutOfFuel" by blast
  moreover have "\<forall>q\<in>set calls. \<exists>a. select_action (cx_run_id cx) (q_step_id q) (w_db w') = Some a \<and> external_action_request a = Inr q
      \<and> (xa_retry_mode a = retry_value UNSAFE \<longrightarrow> calls_for (q_step_id q) calls = 1 \<and> dispatches (cx_run_id cx) (q_step_id q) (w_db w) = 0)"
    using calls(3) one unfolding described_def by blast
  ultimately show ?thesis using calls(1,2) by blast
qed

theorem tool_loop_pays_for_every_call_witness: "1 \<le> dispatches ''r1'' ''call-0001'' (w_db (snd dy_run))"
proof -
  have "calls_for ''call-0001'' (w_calls (snd dy_run)) = 1"
    using arg_cong [OF dy_calls, of "\<lambda>l. length (filter (\<lambda>i. i = ''call-0001'') l)"]
    by (simp add: calls_for_def filter_map comp_def)
  moreover obtain calls where "w_calls (snd dy_run) = calls"
    "calls_for ''call-0001'' calls \<le> dispatches ''r1'' ''call-0001'' (w_db (snd dy_run)) - dispatches ''r1'' ''call-0001'' dx_owned"
    using tool_loop_pays_for_every_call [OF dx_sound dy_run] by (auto simp: dx_context_def dx_world_def)
  ultimately show ?thesis using dispatches_nonneg [OF dx_reachable, of "''r1''" "''call-0001''"] by simp
qed

text \<open>
  C7. Only an authorized run reaches a provider. When any request reached a provider during an
  execution of the dynamic tool loop, the authority the run was accepted under allows tool
  execution and external actions, a dispatcher is configured, and a registered external-write tool
  found in the run's input the request it demands: no decision of the planner, nor anything a
  tool returned, makes up for a missing one of these.
\<close>

theorem provider_calls_need_authority:
  assumes "sound w" and "dynamic_execute L runtime_input state cx evaluator w = (r, w')" and "w_calls w' \<noteq> w_calls w"
  shows "allows (cx_authority cx) TOOL_EXECUTE_PERMISSION \<and> allows (cx_authority cx) EXTERNAL_ACTION_EXECUTE_PERMISSION \<and> dl_dispatcher L
     \<and> (\<exists>name spec. resolve_tool (dl_tools L) name = Some spec \<and> ts_effect spec = EXTERNAL_WRITE \<and> action_was_requested spec runtime_input)"
  using tracksD [OF tracks_permitted assms(2,1)] assms(3) by (auto simp: permitted_def may_write_def)

theorem provider_calls_need_authority_witness: "allows dx_authority TOOL_EXECUTE_PERMISSION \<and> w_calls (snd dy_run) \<noteq> []"
proof -
  have c: "w_calls (snd dy_run) \<noteq> []" using dy_calls by auto
  then have "w_calls (snd dy_run) \<noteq> w_calls (dx_world dx_success)" by (simp add: dx_world_def)
  from provider_calls_need_authority [OF dx_sound dy_run this] c show ?thesis by (simp add: dx_context_def)
qed

text \<open>
  C8. A decision is taken once. When an attempt has obtained a decision for an index, the workflow
  log of the run has settled: any two attempts that start later, with whatever planners, inputs,
  states, interference and faults, and that obtain a decision for that index obtain the same one,
  even when several workers recorded one at the same time. It is the first attempt's own decision
  unless somebody else recorded a decision for the index while that attempt did.
\<close>

theorem decisions_are_taken_once:
  assumes "sound w" and "decision_for_index L cx runtime_input state observations w = (Inr d, w1)"
    and "later (w_db w1) (w_db w2)" and "sound w2" and "cx_run_id cx2 = cx_run_id cx" and "length observations2 = length observations"
    and "decision_for_index L2 cx2 runtime_input2 state2 observations2 w2 = (Inr d2, w2')"
    and "later (w_db w1) (w_db w3)" and "sound w3" and "cx_run_id cx3 = cx_run_id cx" and "length observations3 = length observations"
    and "decision_for_index L3 cx3 runtime_input3 state3 observations3 w3 = (Inr d3, w3')"
  shows "d3 = d2 \<and> (sole_recorder (cx_run_id cx) ''planner.decision'' (planner_id (Suc (length observations))) w
     \<and> constructs_decisions L \<longrightarrow> d2 = d)"
proof -
  let ?i = "planner_id (Suc (length observations))"
  note rec = decision_recorded [OF assms(2,1)]
  from quietD(3) [OF quiet_decision assms(2,1)] have r1: "store_reachable (w_db w1)" by (simp add: sound_def)
  have ok: "\<not> garbled (cx_run_id cx) (w_db w1)"
    using decision_readable [OF assms(7,4)] garbled_later [OF _ r1 assms(3)] assms(5) by auto
  have same: "decision_in p = Some d2 \<and> decision_in p = Some d3" if "first_evidence (cx_run_id cx) ''planner.decision'' ?i p (w_db w1)" for p
  proof
    show "decision_in p = Some d2"
      by (rule decision_replayed [OF assms(7,4)]) (simp add: assms(5,6) first_evidence_later [OF that r1 assms(3)])
    show "decision_in p = Some d3"
      by (rule decision_replayed [OF assms(12,9)]) (simp add: assms(10,11) first_evidence_later [OF that r1 assms(8)])
  qed
  from rec(1) ok obtain p where "first_evidence (cx_run_id cx) ''planner.decision'' ?i p (w_db w1)" by (auto simp: settled_def)
  from same [OF this] have "d3 = d2" by (metis option.inject)
  moreover have "d2 = d" if "sole_recorder (cx_run_id cx) ''planner.decision'' ?i w" "constructs_decisions L"
    using rec(2) [OF that] ok same by fastforce
  ultimately show ?thesis by blast
qed

text \<open>The second attempt has a planner that would finish at once.\<close>

definition dy_world :: world where
  "dy_world = \<lparr>w_db = wx_started, w_ticks = (\<lambda>_. dx_tick dx_success), w_time = 0, w_calls = []\<rparr>"

definition dy_first :: "(exn + decision) \<times> world" where
  "dy_first = decision_for_index dy_loop dx_context [] [] [] dy_world"

definition dy_second :: "(exn + decision) \<times> world" where
  "dy_second = decision_for_index (dy_loop\<lparr>dl_planner := \<lambda>_ _. Decides (Finish ''No.'' [] ''stop'')\<rparr>) dx_context [] [] [] (snd dy_first)"

lemma dy_returns: "isl (fst dy_first) = False" "isl (fst dy_second) = False"
  by code_simp+

theorem decisions_are_taken_once_witness: "fst dy_second = fst dy_first"
proof -
  obtain d where d: "decision_for_index dy_loop dx_context [] [] [] dy_world = (Inr d, snd dy_first)"
    using dy_returns(1) unfolding dy_first_def [symmetric] by (metis isl_def prod.collapse sum.exhaust)
  obtain d' where d': "decision_for_index (dy_loop\<lparr>dl_planner := \<lambda>_ _. Decides (Finish ''No.'' [] ''stop'')\<rparr>) dx_context [] [] [] (snd dy_first)
      = (Inr d', snd dy_second)"
    using dy_returns(2) unfolding dy_second_def [symmetric] by (metis isl_def prod.collapse sum.exhaust)
  have w: "sound dy_world" using wx_reachable(2) by (simp add: sound_def fair_def dy_world_def dx_tick_def tx_start)
  have "sole_recorder (cx_run_id dx_context) ''planner.decision'' (planner_id (Suc (length []))) dy_world"
    by (simp add: sole_recorder_def dy_world_def dx_tick_def)
  moreover have "constructs_decisions dy_loop"
    by (auto simp: constructs_decisions_def dy_loop_def dy_planner_def bounded_text_def)
  moreover note w2 = quietD(3) [OF quiet_decision d w]
  note once = decisions_are_taken_once [OF w d tx_start w2 refl refl d' tx_start w2 refl refl d']
  ultimately have "d' = d" using once by blast
  then show ?thesis using arg_cong [OF d, of fst] arg_cong [OF d', of fst] by (simp add: dy_first_def [symmetric] dy_second_def [symmetric])
qed

lemma restored_impl:
  assumes w: "sound w" and x: "select_execution (cx_run_id cx) (w_db w) = Some x"
    and st: "x_status x = workflow_value WF_READY \<or> x_status x = workflow_value WF_BLOCKED"
    and js: "x_result_json x = Some (Encoded (dump_loop_result result))"
    and run: "dynamic_execute_impl L runtime_input state cx evaluator w = (r, w')"
  shows "w_calls w' = w_calls w \<and> sound w' \<and> (\<forall>result'. r = Inr result' \<longrightarrow> result' = result)"
  using run unfolding dynamic_execute_impl_def
proof (cases rule: andThenE)
  case (raises e)
  with quietD [OF quiet_executions(1) raises(1) w] show ?thesis by simp
next
  case (continues claim w1)
  note w1 = quietD [OF quiet_executions(1) continues(1) w]
  from reachable_wf_inv [of "w_db w"] w x have "execution_ok x" by (auto simp: sound_def dest!: select_execution_SomeD wf_invD(1))
  then obtain status where "x_status x = workflow_value status" "workflow_terminal status \<longleftrightarrow> x_completed_at x \<noteq> None"
    by (auto simp: execution_ok_def)
  with st have "x_completed_at x \<noteq> None" by (cases status) auto
  moreover from w1(1) w have "wf_evolves (w_db w) (w_db w1)" by (simp add: follows_def sound_def later_wf_evolves)
  ultimately have [simp]: "ec_execution claim = x"
    using x claimed_execution [OF continues(1) w] unfolding wf_evolves_def execution_evolves_def by (metis option.inject)
  let ?mirror = "catch (mirror_evidence cx) (\<lambda>e. andThen (reconcile_dispatched_action (dynamic_coordinator L) cx True) (\<lambda>_. raise e))"
  let ?body = "if ec_outcome claim = EX_INPUT_MISMATCH \<or> ec_outcome claim = EX_WORKFLOW_TYPE_MISMATCH
     then andThen (reconcile_dispatched_action (dynamic_coordinator L) cx True) (\<lambda>_.
       raise (ExecutionError INVALID_CODE ''Persisted dynamic workflow identity does not match this execution.''))
     else andThen ?mirror (\<lambda>_. ret result)"
  have eq: "?body w1 = (r, w')"
    using continues(2) st js by (auto simp: Let_def restore_result_def result_roundtrip split: if_splits)
  have "quiet ?body" by (intro quiet_rules; simp)
  from quietD [OF this eq w1(3)] w1 eq show ?thesis by (auto split: if_splits elim!: andThenE)
qed

text \<open>
  C20. A finished loop is not run again. Once the workflow execution of a run has been finalized
  with a result, whatever planner, tools and limit a later attempt has, it calls no provider and
  returns nothing but that result, read back from its stored JSON form.
\<close>

theorem finished_loop_is_restored:
  assumes "sound w" and "select_execution (cx_run_id cx) (w_db w) = Some x"
    and "x_status x = workflow_value WF_READY \<or> x_status x = workflow_value WF_BLOCKED"
    and "x_result_json x = Some (Encoded (dump_loop_result result))"
    and "dynamic_execute L runtime_input state cx evaluator w = (r, w')"
  shows "w_calls w' = w_calls w \<and> (\<forall>result'. r = Inr result' \<longrightarrow> result' = result)"
  using assms(5) unfolding dynamic_execute_def
proof (cases rule: catchE)
  case (handled e w1)
  note i = restored_impl [OF assms(1-4) handled(1)]
  have "quiet (if e = ReconciliationPendingError \<or> (case e of ExecutionError code _ \<Rightarrow> code \<in> {UNKNOWN_CODE, INCOMPLETE_CODE} | _ \<Rightarrow> False)
     then raise e else andThen (reconcile_dispatched_action (dynamic_coordinator L) cx False) (\<lambda>_. raise e) :: loop_result prog)"
    using handled(2) by (intro quiet_rules)
  from quietD(2) [OF this handled(3)] i handled(3) show ?thesis by (auto split: if_splits elim!: andThenE)
qed (use restored_impl [OF assms(1-4)] in auto)

definition dy_result :: loop_result where
  "dy_result = \<lparr>fe_outcome = LOOP_FINISHED, fe_message = ''Paid.'', fe_output = [], fe_validation_errors = [], fe_observations = []\<rparr>"

definition dy_finished :: world where
  "dy_finished = dy_world\<lparr>w_db := snd (finalize_ready ex_clk ''r1'' (Encoded (dump_loop_result dy_result)) (Some ''tok'') 2000 wx_started)\<rparr>"

definition dy_again :: "(exn + loop_result) \<times> world" where
  "dy_again = dynamic_execute (dy_loop\<lparr>dl_workflow_type := ''wf''\<rparr>) [] [] dx_context dy_evaluator dy_finished"

theorem finished_loop_is_restored_witness: "fst dy_again = Inr dy_result"
proof -
  let ?x = "hd (db_executions (w_db dy_finished))"
  have ev: "select_execution ''r1'' (w_db dy_finished) = Some ?x" "x_status ?x = workflow_value WF_READY"
    "x_result_json ?x = Some (Encoded (dump_loop_result dy_result))" "isl (fst dy_again) = False" by code_simp+
  have "sound dy_finished"
    using ledger_tx [OF wx_reachable(2) workflow_step.wf_ready, of ex_clk "''r1''" "Encoded (dump_loop_result dy_result)" "Some ''tok''" 2000]
    by (simp add: sound_def fair_def dy_finished_def dy_world_def dx_tick_def tx_start)
  then show ?thesis
    using finished_loop_is_restored [of dy_finished dx_context ?x dy_result "dy_loop\<lparr>dl_workflow_type := ''wf''\<rparr>" "[]" "[]" dy_evaluator
        "fst dy_again" "snd dy_again"] ev
    by (cases "fst dy_again") (simp_all add: dy_again_def dx_context_def)
qed

end
