(* ===== verification/Release_Tools.thy ===== *)
theory Release_Tools
  imports Dynamic_Loop
begin

text \<open>
  The tools of the release-validation domain: the manifest of
  \<^verbatim>\<open>domains/release_validation/models.py\<close>, the registry of \<^verbatim>\<open>tools.py\<close>, the handlers of
  \<^verbatim>\<open>tool_handlers.py\<close>, and \<^verbatim>\<open>runtime_service/sandbox_worker.py\<close>, the script that runs a handler
  inside a tool's subprocess. A handler that raises is \<open>None\<close>.
\<close>

section \<open>Manifests\<close>

record build_artifact =
  ba_name :: string
  ba_checksum :: string

record release_manifest =
  rl_release_id :: string
  rl_application_name :: string
  rl_release_version :: string
  rl_required_artifacts :: "string list"
  rl_available_artifacts :: "build_artifact list"
  rl_required_test_suite :: string
  rl_executed_test_suite :: string
  rl_tests_passed :: bool
  rl_required_python_versions :: "string list"
  rl_tested_python_versions :: "string list"
  rl_deployment_environment :: string
  rl_configuration_requirements :: "string list"
  rl_actual_configuration_keys :: "string list"
  rl_evidence_checks_included :: "string list"

definition jstrs :: "string list \<Rightarrow> json" where
  "jstrs xs = JList (map JStr xs)"

definition dump_artifact :: "build_artifact \<Rightarrow> json" where
  "dump_artifact a = JObj [(''name'', JStr (ba_name a)), (''checksum'', JStr (ba_checksum a))]"

definition dump_manifest :: "release_manifest \<Rightarrow> (string \<times> json) list" where
  "dump_manifest m = [(''release_id'', JStr (rl_release_id m)), (''application_name'', JStr (rl_application_name m)),
     (''release_version'', JStr (rl_release_version m)), (''required_artifacts'', jstrs (rl_required_artifacts m)),
     (''available_artifacts'', JList (map dump_artifact (rl_available_artifacts m))), (''required_test_suite'', JStr (rl_required_test_suite m)),
     (''executed_test_suite'', JStr (rl_executed_test_suite m)), (''tests_passed'', JBool (rl_tests_passed m)),
     (''required_python_versions'', jstrs (rl_required_python_versions m)), (''tested_python_versions'', jstrs (rl_tested_python_versions m)),
     (''deployment_environment'', JStr (rl_deployment_environment m)), (''configuration_requirements'', jstrs (rl_configuration_requirements m)),
     (''actual_configuration_keys'', jstrs (rl_actual_configuration_keys m)),
     (''evidence_checks_included'', jstrs (rl_evidence_checks_included m))]"

section \<open>Input models\<close>

text \<open>A model whose fields are all required and which forbids extra fields, by the validators of its fields.\<close>

definition fields_model :: "(string \<times> (json \<Rightarrow> json option)) list \<Rightarrow> (string \<times> json) list \<Rightarrow> (string \<times> json) list option" where
  "fields_model fs kvs = (if \<not> only_keys (map fst fs) kvs then None
     else those (map (\<lambda>(k, validate). map_option (Pair k) (Option.bind (map_of kvs k) validate)) fs))"

definition str_value :: "json \<Rightarrow> json option" where
  "str_value j = map_option JStr (str_of j)"

definition bool_value :: "json \<Rightarrow> json option" where
  "bool_value j = map_option JBool (lax_bool j)"

definition list_of :: "(json \<Rightarrow> json option) \<Rightarrow> json \<Rightarrow> json option" where
  "list_of validate j = (case j of JList xs \<Rightarrow> map_option JList (those (map validate xs)) | _ \<Rightarrow> None)"

definition object_of :: "(string \<times> (json \<Rightarrow> json option)) list \<Rightarrow> json \<Rightarrow> json option" where
  "object_of fs j = (case j of JObj kvs \<Rightarrow> map_option JObj (fields_model fs kvs) | _ \<Rightarrow> None)"

definition LoadReleaseManifestInput :: "(string \<times> (json \<Rightarrow> json option)) list" where
  "LoadReleaseManifestInput = [(''release_id'', str_value), (''application_name'', str_value), (''release_version'', str_value),
     (''required_artifacts'', list_of str_value), (''required_test_suite'', str_value), (''required_python_versions'', list_of str_value),
     (''deployment_environment'', str_value), (''configuration_requirements'', list_of str_value)]"

definition InspectBuildArtifactsInput :: "(string \<times> (json \<Rightarrow> json option)) list" where
  "InspectBuildArtifactsInput = [(''required_artifacts'', list_of str_value),
     (''available_artifacts'', list_of (object_of [(''name'', str_value), (''checksum'', str_value)]))]"

definition RunUnitTestCheckInput :: "(string \<times> (json \<Rightarrow> json option)) list" where
  "RunUnitTestCheckInput = [(''required_test_suite'', str_value), (''executed_suite'', str_value), (''tests_passed'', bool_value)]"

definition RunCompatibilityCheckInput :: "(string \<times> (json \<Rightarrow> json option)) list" where
  "RunCompatibilityCheckInput = [(''required_python_versions'', list_of str_value), (''tested_python_versions'', list_of str_value)]"

definition InspectDeploymentConfigurationInput :: "(string \<times> (json \<Rightarrow> json option)) list" where
  "InspectDeploymentConfigurationInput = [(''configuration_requirements'', list_of str_value), (''actual_configuration_keys'', list_of str_value)]"

definition GenerateReleaseEvidenceInput :: "(string \<times> (json \<Rightarrow> json option)) list" where
  "GenerateReleaseEvidenceInput = [(''release_id'', str_value), (''include_checks'', list_of str_value)]"

definition release_policy :: tool_policy where
  "release_policy = \<lparr>tp_timeout_seconds = Binary 2 0, tp_max_output_bytes = 16384, tp_max_memory_mb = 256, tp_max_cpu_seconds = 2,
     tp_filesystem = (''readwrite'', ''process''), tp_network = (''host'', ''process''), tp_environment = (''restricted'', ''process'')\<rparr>"

definition release_tool :: "string \<Rightarrow> string \<Rightarrow> (string \<times> (json \<Rightarrow> json option)) list \<Rightarrow> registered_tool" where
  "release_tool name description fs = \<lparr>ts_provider_name = None, ts_retry_mode = SAFE, ts_output_model = None, ts_name = name,
     ts_description = description, ts_input_model = fields_model fs, ts_policy = release_policy,
     ts_handler_entrypoint = Some (''domains.release_validation.tool_handlers:'' @ name), ts_effect = READ_ONLY,
     ts_output_forbids_extra = False, ts_runtime_input_gate = None\<rparr>"

definition release_tools :: "registered_tool list" where
  "release_tools =
     [release_tool ''load_release_manifest'' ''Validate and echo a synthetic release manifest.'' LoadReleaseManifestInput,
      release_tool ''inspect_build_artifacts'' ''Check required build artifacts are present with plausible checksums.'' InspectBuildArtifactsInput,
      release_tool ''run_unit_test_check'' ''Confirm the required unit test suite executed and passed.'' RunUnitTestCheckInput,
      release_tool ''run_compatibility_check'' ''Confirm all required Python versions have compatibility evidence.'' RunCompatibilityCheckInput,
      release_tool ''inspect_deployment_configuration'' ''Confirm required deployment configuration keys are present.''
        InspectDeploymentConfigurationInput,
      release_tool ''generate_release_evidence'' ''Generate a deterministic evidence record referencing prior checks.'' GenerateReleaseEvidenceInput]"

fun register_all :: "registered_tool list \<Rightarrow> tool_registry \<Rightarrow> store_error + tool_registry" where
  "register_all [] tools = Inr tools"
| "register_all (spec # specs) tools = (case register_tool spec tools of Inl e \<Rightarrow> Inl e | Inr tools' \<Rightarrow> register_all specs tools')"

definition build_release_validation_tool_registry :: "store_error + tool_registry" where
  "build_release_validation_tool_registry = register_all release_tools []"

section \<open>Handlers\<close>

text \<open>Python's \<^verbatim>\<open>repr\<close> and \<^verbatim>\<open>str\<close> of a decoded value, what iterating over it yields, and its truth.\<close>

fun py_show :: "json \<Rightarrow> string" where
  "py_show JNull = ''None''"
| "py_show (JBool b) = (if b then ''True'' else ''False'')"
| "py_show (JInt i) = show_int i"
| "py_show (JStr s) = py_repr s"
| "py_show (JList xs) = ''['' @ join '', '' (map py_show xs) @ '']''"
| "py_show (JObj kvs) = ''{'' @ join '', '' (map (\<lambda>kv. py_repr (fst kv) @ '': '' @ py_show (snd kv)) kvs) @ ''}''"

definition py_text :: "json \<Rightarrow> string" where
  "py_text j = (case j of JStr s \<Rightarrow> s | _ \<Rightarrow> py_show j)"

definition py_iter :: "json \<Rightarrow> json list option" where
  "py_iter j = (case j of JList xs \<Rightarrow> Some xs | JObj kvs \<Rightarrow> Some (map (JStr \<circ> fst) kvs) | JStr s \<Rightarrow> Some (map (\<lambda>c. JStr [c]) s) | _ \<Rightarrow> None)"

definition py_true :: "json \<Rightarrow> bool" where
  "py_true j \<longleftrightarrow> j \<notin> {JNull, JBool False, JInt 0, JStr [], JList [], JObj []}"

definition texts_at :: "(string \<times> json) list \<Rightarrow> string \<Rightarrow> string list option" where
  "texts_at payload k = map_option (map py_text) (Option.bind (map_of payload k) py_iter)"

definition text_at :: "(string \<times> json) list \<Rightarrow> string \<Rightarrow> string option" where
  "text_at payload k = map_option py_text (map_of payload k)"

definition load_release_manifest :: "(string \<times> json) list \<Rightarrow> (string \<times> json) list option" where
  "load_release_manifest payload = map_option (\<lambda>i. [(''release_id'', JStr i), (''manifest_valid'', JBool True)]) (text_at payload ''release_id'')"

definition looks_like_sha256 :: "string \<Rightarrow> bool" where
  "looks_like_sha256 v \<longleftrightarrow> length v = 64 \<and> list_all (\<lambda>c. c \<in> set ''0123456789abcdef'') (ascii_lower v)"

definition artifact_entry :: "json \<Rightarrow> (string \<times> string) option" where
  "artifact_entry j = (case j of
      JObj kvs \<Rightarrow> (case (text_at kvs ''name'', text_at kvs ''checksum'') of (Some n, Some c) \<Rightarrow> Some (n, c) | _ \<Rightarrow> None)
    | _ \<Rightarrow> None)"

definition inspect_build_artifacts :: "(string \<times> json) list \<Rightarrow> (string \<times> json) list option" where
  "inspect_build_artifacts payload =
     (case (texts_at payload ''required_artifacts'',
        Option.bind (Option.bind (map_of payload ''available_artifacts'') py_iter) (\<lambda>items. those (map artifact_entry items))) of
        (Some required, Some entries) \<Rightarrow>
          let available = map_of (rev entries);
            missing = filter (\<lambda>n. available n = None) required;
            invalid = filter (\<lambda>n. case available n of None \<Rightarrow> False | Some c \<Rightarrow> \<not> looks_like_sha256 c) required
          in Some [(''missing_artifacts'', jstrs missing), (''invalid_checksums'', jstrs invalid), (''all_present'', JBool (missing = [] \<and> invalid = []))]
      | _ \<Rightarrow> None)"

definition run_unit_test_check :: "(string \<times> json) list \<Rightarrow> (string \<times> json) list option" where
  "run_unit_test_check payload = (case (text_at payload ''executed_suite'', text_at payload ''required_test_suite'', map_of payload ''tests_passed'') of
      (Some executed, Some required, Some passed) \<Rightarrow> Some [(''suite_name'', JStr executed),
        (''matches_required_suite'', JBool (executed = required)), (''passed'', JBool (py_true passed))]
    | _ \<Rightarrow> None)"

definition missing_from :: "string \<Rightarrow> string \<Rightarrow> string \<Rightarrow> string \<Rightarrow> (string \<times> json) list \<Rightarrow> (string \<times> json) list option" where
  "missing_from wanted present missing_key verdict_key payload = (case (texts_at payload wanted, texts_at payload present) of
      (Some required, Some actual) \<Rightarrow> let missing = filter (\<lambda>v. v \<notin> set actual) required
        in Some [(missing_key, jstrs missing), (verdict_key, JBool (missing = []))]
    | _ \<Rightarrow> None)"

definition run_compatibility_check :: "(string \<times> json) list \<Rightarrow> (string \<times> json) list option" where
  "run_compatibility_check = missing_from ''required_python_versions'' ''tested_python_versions'' ''missing_versions'' ''all_covered''"

definition inspect_deployment_configuration :: "(string \<times> json) list \<Rightarrow> (string \<times> json) list option" where
  "inspect_deployment_configuration = missing_from ''configuration_requirements'' ''actual_configuration_keys'' ''missing_keys'' ''all_present''"

definition REQUIRED_CHECKS :: "string list" where
  "REQUIRED_CHECKS = [''artifacts'', ''tests'', ''compatibility'', ''deployment'']"

definition generate_release_evidence :: "(string \<times> json) list \<Rightarrow> (string \<times> json) list option" where
  "generate_release_evidence payload = (case (texts_at payload ''include_checks'', text_at payload ''release_id'') of
      (Some referenced, Some i) \<Rightarrow> Some [(''release_id'', JStr i), (''referenced_checks'', jstrs referenced),
        (''evidence_complete'', JBool (set REQUIRED_CHECKS \<subseteq> set referenced))]
    | _ \<Rightarrow> None)"

definition release_handler :: "string \<Rightarrow> ((string \<times> json) list \<Rightarrow> (string \<times> json) list option) option" where
  "release_handler name = map_of [(''load_release_manifest'', load_release_manifest), (''inspect_build_artifacts'', inspect_build_artifacts),
     (''run_unit_test_check'', run_unit_test_check), (''run_compatibility_check'', run_compatibility_check),
     (''inspect_deployment_configuration'', inspect_deployment_configuration), (''generate_release_evidence'', generate_release_evidence)] name"

section \<open>The worker script\<close>

definition CAPABILITY_VARIABLES :: "(string \<times> string \<times> string) list" where
  "CAPABILITY_VARIABLES = [(''filesystem'', ''SANDBOX_FILESYSTEM_MODE'', ''SANDBOX_FILESYSTEM_ENFORCEMENT''),
     (''network'', ''SANDBOX_NETWORK_MODE'', ''SANDBOX_NETWORK_ENFORCEMENT''),
     (''environment'', ''SANDBOX_ENVIRONMENT_MODE'', ''SANDBOX_ENVIRONMENT_ENFORCEMENT'')]"

definition apply_capability_policy :: "(string \<times> string) list \<Rightarrow> string option" where
  "apply_capability_policy env =
     (case List.find (\<lambda>v. map_of env v = None) (concat (map (\<lambda>(_, v, v'). [v, v']) CAPABILITY_VARIABLES)) of
        Some v \<Rightarrow> Some (''missing worker capability requirement: '' @ v)
      | None \<Rightarrow> map_option
          (\<lambda>(capability, v, v'). ''unsupported worker capability requirement: '' @ capability @ ''='' @ the (map_of env v)
             @ '', enforcement='' @ the (map_of env v'))
          (List.find (\<lambda>(capability, v, v'). (the (map_of env v), the (map_of env v')) \<notin> set (PROCESS_CAPABILITY_SUPPORT capability))
            CAPABILITY_VARIABLES))"

text \<open>What \<^verbatim>\<open>import_module\<close> and \<^verbatim>\<open>getattr\<close> find is an argument; the text of an exception is too.\<close>

type_synonym modules = "string \<Rightarrow> string \<Rightarrow> ((string \<times> json) list \<Rightarrow> (string \<times> json) list option) option"

definition load_handler :: "modules \<Rightarrow> string \<Rightarrow> ((string \<times> json) list \<Rightarrow> (string \<times> json) list option) option" where
  "load_handler M entrypoint = (if \<not> valid_handler_entrypoint (Some entrypoint) then None
     else M (takeWhile (\<lambda>c. c \<noteq> CHR '':'') entrypoint) (tl (dropWhile (\<lambda>c. c \<noteq> CHR '':'') entrypoint)))"

definition worker_main :: "modules \<Rightarrow> (string \<Rightarrow> (string \<times> json) list \<Rightarrow> string) \<Rightarrow> (json \<Rightarrow> string) \<Rightarrow> string \<Rightarrow> (string \<times> string) list
    \<Rightarrow> (string \<times> json) list \<Rightarrow> process_outcome" where
  "worker_main M describe dumps entrypoint env payload = (case apply_capability_policy env of
      Some problem \<Rightarrow> Exited 5 [] (''CAPABILITY_UNSUPPORTED: '' @ problem @ [CHR 0x0A])
    | None \<Rightarrow> (case Option.bind (load_handler M entrypoint) (\<lambda>handler. handler payload) of
        None \<Rightarrow> Exited 4 [] (describe entrypoint payload @ [CHR 0x0A])
      | Some result \<Rightarrow> Exited 0 (dumps (JObj result)) []))"

definition release_modules :: modules where
  "release_modules module_name function_name =
     (if module_name = ''domains.release_validation.tool_handlers'' then release_handler function_name else None)"

section \<open>Facts\<close>

text \<open>The worker repeats the parent's check: it accepts exactly the policies the sandbox starts it for.\<close>

lemma map_of_filter_fst: "k \<noteq> a \<Longrightarrow> map_of (filter (\<lambda>x. fst x \<noteq> a) env) k = map_of env k"
  by (induction env) auto

lemma map_of_env_put: "map_of (foldl env_put env xs) k = (case map_of (rev xs) k of Some v \<Rightarrow> Some v | None \<Rightarrow> map_of env k)"
proof (induction xs arbitrary: env)
  case (Cons x xs)
  have "map_of (env_put env x) k = (if k = fst x then Some (snd x) else map_of env k)"
    by (cases x) (simp add: env_put_def map_of_filter_fst)
  with Cons show ?case by (cases x) (auto simp: map_add_def split: option.splits)
qed simp

lemma sanitized_policy:
  assumes "k \<notin> set PASSED_VARIABLES" and "map_of (rev (policy_environment environ p)) k = Some v"
  shows "map_of (sanitized_environment environ p) k = Some v"
proof -
  let ?passed = "concat (map (\<lambda>k. case map_of environ k of Some v \<Rightarrow> if v = [] then [] else [(k, v)] | None \<Rightarrow> []) PASSED_VARIABLES)"
  have "fst ` set ?passed \<subseteq> set PASSED_VARIABLES" by (auto split: option.splits if_splits)
  with assms(1) have "map_of (rev ?passed) k = None" by (auto simp: map_of_eq_None_iff)
  with assms(2) show ?thesis
    unfolding sanitized_environment_def Let_def map_of_env_put by (simp add: map_add_def split: if_splits)
qed

lemma worker_repeats_preflight:
  "apply_capability_policy (sanitized_environment environ p) = None \<longleftrightarrow> unsupported_capability p = None"
proof -
  let ?env = "sanitized_environment environ p"
  have v: "map_of ?env ''SANDBOX_FILESYSTEM_MODE'' = Some (fst (tp_filesystem p))"
    "map_of ?env ''SANDBOX_FILESYSTEM_ENFORCEMENT'' = Some (snd (tp_filesystem p))"
    "map_of ?env ''SANDBOX_NETWORK_MODE'' = Some (fst (tp_network p))"
    "map_of ?env ''SANDBOX_NETWORK_ENFORCEMENT'' = Some (snd (tp_network p))"
    "map_of ?env ''SANDBOX_ENVIRONMENT_MODE'' = Some (fst (tp_environment p))"
    "map_of ?env ''SANDBOX_ENVIRONMENT_ENFORCEMENT'' = Some (snd (tp_environment p))"
    by (rule sanitized_policy; simp add: PASSED_VARIABLES_def policy_environment_def)+
  show ?thesis
    by (simp add: apply_capability_policy_def CAPABILITY_VARIABLES_def v unsupported_capability_def)
qed

lemma release_tool_accepted: "name \<noteq> [] \<Longrightarrow> CHR '':'' \<notin> set name \<Longrightarrow> spec_problem (release_tool name description fs) = None"
  by (simp add: spec_problem_def release_tool_def valid_handler_entrypoint_def)

lemma register_release_tools: "build_release_validation_tool_registry = Inr (map (\<lambda>spec. (ts_name spec, spec)) release_tools)"
proof -
  have [simp]: "ts_name (release_tool name description fs) = name" for name description fs by (simp add: release_tool_def)
  show ?thesis by (simp add: build_release_validation_tool_registry_def release_tools_def register_tool_def release_tool_accepted)
qed

end
