(* ===== verification/Release_Validation.thy ===== *)
theory Release_Validation
  imports Release_Tools Workflow_Dag
begin

text \<open>
  \<^verbatim>\<open>domains/release_validation/runtime.py\<close>: a durable workflow over a fixed graph of read-only
  tools, run serially in the graph's order, with selective replay of an earlier run's evidence.
  Every step is claimed in the ledger before its tool runs, so an attempt that recovers the run
  reuses what was completed. The methods are worker programs.
\<close>

section \<open>Results\<close>

record finding =
  vf_rule_id :: string
  vf_message :: string

datatype release_status = RV_READY | RV_BLOCKED | RV_FAILED

fun release_value :: "release_status \<Rightarrow> string" where
  "release_value RV_READY = ''ready''"
| "release_value RV_BLOCKED = ''blocked''"
| "release_value RV_FAILED = ''failed''"

record replay_request =
  sr_source_run_id :: string
  sr_step_ids :: "string list"

definition replay_request :: "string \<Rightarrow> string list \<Rightarrow> replay_request option" where
  "replay_request source_run_id step_ids =
     (if source_run_id = [] \<or> step_ids = [] \<or> [] \<in> set step_ids \<or> \<not> distinct step_ids then None
      else Some \<lparr>sr_source_run_id = source_run_id, sr_step_ids = sort step_ids\<rparr>)"

record replay_summary =
  sy_source_run_id :: string
  sy_requested_step_ids :: "string list"
  sy_replayed_step_ids :: "string list"
  sy_reused_step_ids :: "string list"
  sy_automatically_invalidated_step_ids :: "string list"

record release_result =
  rr_run_id :: string
  rr_status :: release_status
  rr_findings :: "finding list"
  rr_replay :: "replay_summary option"

definition dump_finding :: "finding \<Rightarrow> json" where
  "dump_finding f = JObj [(''rule_id'', JStr (vf_rule_id f)), (''message'', JStr (vf_message f))]"

definition dump_summary :: "replay_summary \<Rightarrow> json" where
  "dump_summary y = JObj [(''source_run_id'', JStr (sy_source_run_id y)), (''requested_step_ids'', jstrs (sy_requested_step_ids y)),
     (''replayed_step_ids'', jstrs (sy_replayed_step_ids y)), (''reused_step_ids'', jstrs (sy_reused_step_ids y)),
     (''automatically_invalidated_step_ids'', jstrs (sy_automatically_invalidated_step_ids y))]"

definition dump_release_result :: "release_result \<Rightarrow> json" where
  "dump_release_result r = JObj [(''run_id'', JStr (rr_run_id r)), (''status'', JStr (release_value (rr_status r))),
     (''findings'', JList (map dump_finding (rr_findings r))), (''replay'', case rr_replay r of None \<Rightarrow> JNull | Some y \<Rightarrow> dump_summary y)]"

text \<open>These models ignore extra fields.\<close>

definition str_at :: "(string \<times> json) list \<Rightarrow> string \<Rightarrow> string option" where
  "str_at kvs k = Option.bind (map_of kvs k) str_of"

definition strs_at :: "(string \<times> json) list \<Rightarrow> string \<Rightarrow> string list option" where
  "strs_at kvs k = (case map_of kvs k of Some (JList xs) \<Rightarrow> those (map str_of xs) | _ \<Rightarrow> None)"

definition validate_finding :: "json \<Rightarrow> finding option" where
  "validate_finding j = (case j of
      JObj kvs \<Rightarrow> (case (str_at kvs ''rule_id'', str_at kvs ''message'') of
          (Some i, Some m) \<Rightarrow> Some \<lparr>vf_rule_id = i, vf_message = m\<rparr> | _ \<Rightarrow> None)
    | _ \<Rightarrow> None)"

definition validate_summary :: "json \<Rightarrow> replay_summary option" where
  "validate_summary j = (case j of
      JObj kvs \<Rightarrow> (case (str_at kvs ''source_run_id'', strs_at kvs ''requested_step_ids'', strs_at kvs ''replayed_step_ids'',
            strs_at kvs ''reused_step_ids'', strs_at kvs ''automatically_invalidated_step_ids'') of
          (Some src, Some requested, Some replayed, Some reused, Some automatic) \<Rightarrow>
            Some \<lparr>sy_source_run_id = src, sy_requested_step_ids = requested, sy_replayed_step_ids = replayed, sy_reused_step_ids = reused,
              sy_automatically_invalidated_step_ids = automatic\<rparr>
        | _ \<Rightarrow> None)
    | _ \<Rightarrow> None)"

definition release_status_of :: "string \<Rightarrow> release_status option" where
  "release_status_of v = List.find (\<lambda>st. release_value st = v) [RV_READY, RV_BLOCKED, RV_FAILED]"

definition validate_release_result :: "json \<Rightarrow> release_result option" where
  "validate_release_result j = (case j of
      JObj kvs \<Rightarrow> (case (str_at kvs ''run_id'', Option.bind (str_at kvs ''status'') release_status_of, list_field validate_finding kvs ''findings'',
            case map_of kvs ''replay'' of None \<Rightarrow> Some None | Some JNull \<Rightarrow> Some None | Some y \<Rightarrow> map_option Some (validate_summary y)) of
          (Some i, Some st, Some fs, Some y) \<Rightarrow> Some \<lparr>rr_run_id = i, rr_status = st, rr_findings = fs, rr_replay = y\<rparr>
        | _ \<Rightarrow> None)
    | _ \<Rightarrow> None)"

section \<open>The graph of steps\<close>

abbreviation WORKFLOW_TYPE :: string where
  "WORKFLOW_TYPE \<equiv> ''release_validation''"

definition MAX_ATTEMPTS :: int where
  "MAX_ATTEMPTS = 2"

definition STEP_LOOP_GUARD :: nat where
  "STEP_LOOP_GUARD = 5"

definition default_is_transient_failure :: "tool_execution_result \<Rightarrow> bool" where
  "default_is_transient_failure execution \<longleftrightarrow> xr_status execution = X_TIMED_OUT"

definition canonicalize_manifest :: "release_manifest \<Rightarrow> release_manifest" where
  "canonicalize_manifest m = m\<lparr>rl_required_artifacts := sort (rl_required_artifacts m),
     rl_available_artifacts := sort_key (\<lambda>a. (ba_name a, ba_checksum a)) (rl_available_artifacts m),
     rl_required_python_versions := sort (rl_required_python_versions m), rl_tested_python_versions := sort (rl_tested_python_versions m),
     rl_configuration_requirements := sort (rl_configuration_requirements m),
     rl_actual_configuration_keys := sort (rl_actual_configuration_keys m),
     rl_evidence_checks_included := sort (rl_evidence_checks_included m)\<rparr>"

record step_definition =
  sd_step_id :: string
  sd_tool_name :: string
  sd_build_arguments :: "release_manifest \<Rightarrow> (string \<times> json) list"
  sd_dependencies :: "string list"

definition manifest_arguments :: "release_manifest \<Rightarrow> (string \<times> json) list" where
  "manifest_arguments m = [(''release_id'', JStr (rl_release_id m)), (''application_name'', JStr (rl_application_name m)),
     (''release_version'', JStr (rl_release_version m)), (''required_artifacts'', jstrs (rl_required_artifacts m)),
     (''required_test_suite'', JStr (rl_required_test_suite m)), (''required_python_versions'', jstrs (rl_required_python_versions m)),
     (''deployment_environment'', JStr (rl_deployment_environment m)),
     (''configuration_requirements'', jstrs (rl_configuration_requirements m))]"

definition artifacts_arguments :: "release_manifest \<Rightarrow> (string \<times> json) list" where
  "artifacts_arguments m = [(''required_artifacts'', jstrs (rl_required_artifacts m)),
     (''available_artifacts'', JList (map dump_artifact (rl_available_artifacts m)))]"

definition unit_test_arguments :: "release_manifest \<Rightarrow> (string \<times> json) list" where
  "unit_test_arguments m = [(''required_test_suite'', JStr (rl_required_test_suite m)), (''executed_suite'', JStr (rl_executed_test_suite m)),
     (''tests_passed'', JBool (rl_tests_passed m))]"

definition compatibility_arguments :: "release_manifest \<Rightarrow> (string \<times> json) list" where
  "compatibility_arguments m = [(''required_python_versions'', jstrs (rl_required_python_versions m)),
     (''tested_python_versions'', jstrs (rl_tested_python_versions m))]"

definition deployment_arguments :: "release_manifest \<Rightarrow> (string \<times> json) list" where
  "deployment_arguments m = [(''configuration_requirements'', jstrs (rl_configuration_requirements m)),
     (''actual_configuration_keys'', jstrs (rl_actual_configuration_keys m))]"

definition evidence_arguments :: "release_manifest \<Rightarrow> (string \<times> json) list" where
  "evidence_arguments m = [(''release_id'', JStr (rl_release_id m)), (''include_checks'', jstrs (rl_evidence_checks_included m))]"

definition root_step :: "string \<Rightarrow> string \<Rightarrow> (release_manifest \<Rightarrow> (string \<times> json) list) \<Rightarrow> step_definition" where
  "root_step step_id tool_name build = \<lparr>sd_step_id = step_id, sd_tool_name = tool_name, sd_build_arguments = build, sd_dependencies = []\<rparr>"

definition STEP_DEFINITIONS :: "step_definition list" where
  "STEP_DEFINITIONS =
     [root_step ''load_manifest'' ''load_release_manifest'' manifest_arguments,
      root_step ''inspect_artifacts'' ''inspect_build_artifacts'' artifacts_arguments,
      root_step ''run_unit_tests'' ''run_unit_test_check'' unit_test_arguments,
      root_step ''run_compatibility'' ''run_compatibility_check'' compatibility_arguments,
      root_step ''inspect_deployment'' ''inspect_deployment_configuration'' deployment_arguments,
      (root_step ''generate_evidence'' ''generate_release_evidence'' evidence_arguments)\<lparr>sd_dependencies :=
        [''load_manifest'', ''inspect_artifacts'', ''run_unit_tests'', ''run_compatibility'', ''inspect_deployment'']\<rparr>]"

text \<open>The schedule is the same for every visiting order of Python sets, so the graph is built with one of them.\<close>

definition step_nodes :: "workflow_node list" where
  "step_nodes = map (\<lambda>d. \<lparr>node_id = sd_step_id d, dependencies = sd_dependencies d\<rparr>) STEP_DEFINITIONS"

definition RELEASE_VALIDATION_DAG :: workflow_dag where
  "RELEASE_VALIDATION_DAG = (case make_dag (\<lambda>_ _. 0) step_nodes of
      Inr dag \<Rightarrow> dag | Inl e \<Rightarrow> \<lparr>dag_nodes = [], dag_topological_order = []\<rparr>)"

definition STEP_SEQUENCE :: "step_definition list" where
  "STEP_SEQUENCE = map (\<lambda>i. hd (filter (\<lambda>d. sd_step_id d = i) STEP_DEFINITIONS)) (dag_topological_order RELEASE_VALIDATION_DAG)"

section \<open>Readiness\<close>

definition thenE :: "exn + 'a \<Rightarrow> ('a \<Rightarrow> exn + 'b) \<Rightarrow> exn + 'b" where
  "thenE r f = (case r of Inl e \<Rightarrow> Inl e | Inr x \<Rightarrow> f x)"

definition subscript :: "json \<Rightarrow> string \<Rightarrow> exn + json" where
  "subscript j k = (case j of
      JObj kvs \<Rightarrow> (case map_of kvs k of None \<Rightarrow> Inl (StoreExn (KeyError k)) | Some v \<Rightarrow> Inr v)
    | _ \<Rightarrow> Inl TypeError)"

definition rule :: "bool \<Rightarrow> string \<Rightarrow> string \<Rightarrow> finding list" where
  "rule violated rule_id message = (if violated then [\<lparr>vf_rule_id = rule_id, vf_message = message\<rparr>] else [])"

definition artifacts_rule :: "json \<Rightarrow> exn + finding list" where
  "artifacts_rule r = thenE (subscript r ''missing_artifacts'') (\<lambda>missing. thenE (subscript r ''invalid_checksums'') (\<lambda>invalid.
     Inr (rule (py_true missing \<or> py_true invalid) ''artifacts_present_and_valid''
       (''missing='' @ py_text missing @ '' invalid_checksums='' @ py_text invalid))))"

definition tests_rule :: "json \<Rightarrow> exn + finding list" where
  "tests_rule r = thenE (subscript r ''matches_required_suite'') (\<lambda>matches.
     thenE (if py_true matches then thenE (subscript r ''passed'') (\<lambda>passed. Inr (\<not> py_true passed)) else Inr True) (\<lambda>violated.
     if \<not> violated then Inr []
     else thenE (subscript r ''suite_name'') (\<lambda>suite. thenE (subscript r ''passed'') (\<lambda>passed.
       Inr (rule True ''unit_test_suite_passed''
         (''suite='' @ py_text suite @ '' matches_required='' @ py_text matches @ '' passed='' @ py_text passed))))))"

definition missing_rule :: "string \<Rightarrow> string \<Rightarrow> json \<Rightarrow> exn + finding list" where
  "missing_rule k rule_id r = thenE (subscript r k) (\<lambda>missing. Inr (rule (py_true missing) rule_id (k @ ''='' @ py_text missing)))"

definition evidence_rule :: "json \<Rightarrow> exn + finding list" where
  "evidence_rule r = thenE (subscript r ''evidence_complete'') (\<lambda>complete. if py_true complete then Inr []
     else thenE (subscript r ''referenced_checks'') (\<lambda>checks. Inr (rule True ''evidence_complete'' (''referenced_checks='' @ py_text checks))))"

fun apply_rules :: "(string \<times> json) list \<Rightarrow> (string \<times> (json \<Rightarrow> exn + finding list)) list \<Rightarrow> exn + finding list" where
  "apply_rules results [] = Inr []"
| "apply_rules results ((step_id, f) # rules) = (case map_of results step_id of
      None \<Rightarrow> Inl (StoreExn (KeyError step_id))
    | Some r \<Rightarrow> thenE (f r) (\<lambda>found. thenE (apply_rules results rules) (\<lambda>more. Inr (found @ more))))"

definition validate_release_readiness :: "(string \<times> json) list \<Rightarrow> exn + finding list" where
  "validate_release_readiness results = apply_rules results
     [(''inspect_artifacts'', artifacts_rule), (''run_unit_tests'', tests_rule),
      (''run_compatibility'', missing_rule ''missing_versions'' ''python_versions_covered''),
      (''inspect_deployment'', missing_rule ''missing_keys'' ''deployment_configuration_present''), (''generate_evidence'', evidence_rule)]"

section \<open>The workflow\<close>

text \<open>
  The collaborators of \<^verbatim>\<open>ReleaseValidationWorkflow\<close>: the sandbox with what its subprocesses do at
  each time, the classifier of transient failures, the digest, the text of an exception and the
  visiting order of Python sets.
\<close>

record release_flow =
  rf_tools :: tool_registry
  rf_texts :: sandbox_texts
  rf_loads :: "string \<Rightarrow> json option"
  rf_environ :: "(string \<times> string) list"
  rf_process :: "nat \<Rightarrow> string \<Rightarrow> (string \<times> string) list \<Rightarrow> (string \<times> json) list \<Rightarrow> process_outcome"
  rf_is_transient_failure :: "tool_execution_result \<Rightarrow> bool"
  rf_digests :: digests
  rf_describe :: "exn \<Rightarrow> string"
  rf_rank :: "string \<Rightarrow> string \<Rightarrow> nat"
  rf_root_rank :: "string \<Rightarrow> nat"

record flow_call =
  fc_flow :: release_flow
  fc_run_id :: string
  fc_manifest :: release_manifest
  fc_resume_interrupted :: bool
  fc_replay :: "replay_request option"
  fc_legacy_fixed_order :: bool
  fc_lease_token :: "string option"

fun execution_value :: "tool_execution_status \<Rightarrow> string" where
  "execution_value X_COMPLETED = ''completed''"
| "execution_value X_DENIED = ''denied''"
| "execution_value X_CAPABILITY_UNSUPPORTED = ''capability_unsupported''"
| "execution_value X_INVALID_INPUT = ''invalid_input''"
| "execution_value X_TIMED_OUT = ''timed_out''"
| "execution_value X_FAILED = ''failed''"

definition step_error_code :: "tool_execution_result \<Rightarrow> string" where
  "step_error_code x = (if xr_status x = X_FAILED \<and> opt_truthy (xr_error x) then take 200 (py_strip (the (xr_error x)))
     else execution_value (xr_status x))"

definition load_json :: "json_text option \<Rightarrow> json prog" where
  "load_json text = (case text of
      None \<Rightarrow> raise AssertionError
    | Some (Garbled _) \<Rightarrow> raise (StoreExn (ValueError ''JSONDecodeError''))
    | Some (Encoded j) \<Rightarrow> ret j)"

definition flow_sandbox :: "release_flow \<Rightarrow> string \<Rightarrow> (string \<times> json) list \<Rightarrow> tool_execution_result prog" where
  "flow_sandbox F name arguments w =
     ((case sandbox_execute (rf_texts F) (rf_tools F) (rf_loads F) (rf_environ F) (rf_process F (w_time w)) name arguments of
         None \<Rightarrow> Inl AssertionError | Some x \<Rightarrow> Inr x), w\<lparr>w_time := Suc (w_time w)\<rparr>)"

definition append_flow_event :: "flow_call \<Rightarrow> string \<Rightarrow> (string \<times> json) list \<Rightarrow> unit prog" where
  "append_flow_event C ty payload = append_ledger_event (fc_run_id C) ty payload (fc_lease_token C)"

definition step_label :: "flow_call \<Rightarrow> step_definition \<Rightarrow> string" where
  "step_label C step = ''step '' @ fc_run_id C @ ''/'' @ sd_step_id step"

definition cached_result :: "flow_call \<Rightarrow> step_definition \<Rightarrow> tool_row option \<Rightarrow> json prog" where
  "cached_result C step row = (case row of
      None \<Rightarrow> raise AssertionError
    | Some k \<Rightarrow> if k_result_json k = None then raise AssertionError
        else andThen (append_flow_event C ''step.cache_reused'' [(''step_id'', JStr (sd_step_id step)), (''tool_name'', JStr (sd_tool_name step)),
           (''attempt_count'', JInt (k_attempt_count k)), (''outcome'', JStr ''cached'')]) (\<lambda>_. load_json (k_result_json k)))"

text \<open>One attempt that holds the claim; \<open>again\<close> is the rest of the loop.\<close>

definition attempt_step :: "flow_call \<Rightarrow> step_definition \<Rightarrow> (string \<times> json) list \<Rightarrow> string \<Rightarrow> json prog \<Rightarrow> json prog" where
  "attempt_step C step arguments attempt_token again =
     andThen (flow_sandbox (fc_flow C) (sd_tool_name step) arguments) (\<lambda>x.
     if xr_status x = X_COMPLETED
     then andThen (call (\<lambda>t. complete_step (tk_clk t) (fc_run_id C) (sd_step_id step) attempt_token
         (Encoded (case xr_result x of None \<Rightarrow> JNull | Some r \<Rightarrow> JObj r)) (fc_lease_token C) (tk_now t))) (\<lambda>_.
       case xr_result x of None \<Rightarrow> raise AssertionError | Some r \<Rightarrow> ret (JObj r))
     else andThen (call (\<lambda>t. fail_step (tk_clk t) (fc_run_id C) (sd_step_id step) attempt_token (step_error_code x)
         (fc_lease_token C) (tk_now t))) (\<lambda>_.
       if rf_is_transient_failure (fc_flow C) x then again
       else raise (DomainError ''StepPermanentFailureError'' (''tool '' @ sd_tool_name step @ '' failed permanently for '' @ fc_run_id C @ ''/''
         @ sd_step_id step @ '': '' @ execution_value (xr_status x) @ '': '' @ (case xr_error x of None \<Rightarrow> ''None'' | Some e \<Rightarrow> e)))))"

fun run_step_loop :: "nat \<Rightarrow> flow_call \<Rightarrow> step_definition \<Rightarrow> (string \<times> json) list \<Rightarrow> json prog" where
  "run_step_loop 0 C step arguments = raise (StoreExn (RuntimeError (step_label C step @ '' did not resolve within ''
     @ show_nat STEP_LOOP_GUARD @ '' claim attempts; this indicates an internal logic error, not a normal retry'')))"
| "run_step_loop (Suc n) C step arguments =
     andThen (call (\<lambda>t. claim_step (tk_clk t) (tk_id t) (tk_token t) (fc_run_id C) (sd_step_id step) (sd_tool_name step)
        (stable_hash (rf_digests (fc_flow C)) arguments) MAX_ATTEMPTS (fc_lease_token C) (tk_now t))) (\<lambda>claim. case cl_outcome claim of
       CACHED \<Rightarrow> cached_result C step (cl_step claim)
     | INPUT_MISMATCH \<Rightarrow> raise (DomainError ''StepInputMismatchError'' (step_label C step @ '' was previously claimed with different arguments''))
     | DEFINITION_MISMATCH \<Rightarrow> (case cl_step claim of
         None \<Rightarrow> raise AssertionError
       | Some k \<Rightarrow> raise (DomainError ''StepDefinitionMismatchError'' (step_label C step @ '' was previously claimed by tool ''
           @ py_repr (k_tool_name k) @ '', not '' @ py_repr (sd_tool_name step))))
     | ATTEMPTS_EXHAUSTED \<Rightarrow> raise (DomainError ''StepAttemptsExhaustedError'' (step_label C step @ '' exhausted '' @ show_int MAX_ATTEMPTS @ '' attempts''))
     | ALREADY_RUNNING \<Rightarrow>
         if \<not> fc_resume_interrupted C
         then raise (DomainError ''StepAlreadyRunningError'' (step_label C step
           @ '' is already running; pass resume_interrupted=True to explicitly recover it''))
         else andThen (call (\<lambda>t. recover_interrupted_step (tk_clk t) (fc_run_id C) (sd_step_id step) (fc_lease_token C) (tk_now t))) (\<lambda>_.
           run_step_loop n C step arguments)
     | CLAIMED \<Rightarrow> (case cl_attempt_token claim of
         None \<Rightarrow> raise AssertionError
       | Some attempt_token \<Rightarrow> attempt_step C step arguments attempt_token (run_step_loop n C step arguments)))"

definition run_step :: "flow_call \<Rightarrow> step_definition \<Rightarrow> (string \<times> json) list \<Rightarrow> json prog" where
  "run_step C step arguments = run_step_loop STEP_LOOP_GUARD C step arguments"

section \<open>The schedule and selective replay\<close>

record flow_state =
  fs_results :: "(string \<times> json) list"
  fs_invalidated :: "string set"
  fs_replayed :: "string set"
  fs_reused :: "string set"
  fs_auto :: "string set"

definition graph_result :: "graph_error + 'a \<Rightarrow> exn + 'a" where
  "graph_result r = (case r of Inl (WorkflowGraphError m) \<Rightarrow> Inl (DomainError ''WorkflowGraphError'' m) | Inr x \<Rightarrow> Inr x)"

definition flow_descendants :: "flow_call \<Rightarrow> string list \<Rightarrow> string set prog" where
  "flow_descendants C ids = (case descendants (rf_rank (fc_flow C)) (rf_root_rank (fc_flow C)) RELEASE_VALIDATION_DAG ids True of
      None \<Rightarrow> raise OutOfFuel
    | Some r \<Rightarrow> lift (graph_result r))"

definition replay_error :: "string \<Rightarrow> 'a prog" where
  "replay_error m = raise (DomainError ''SelectiveReplayError'' m)"

definition validate_replay_request :: "flow_call \<Rightarrow> replay_request \<Rightarrow> unit prog" where
  "validate_replay_request C r =
     (if sr_source_run_id r = fc_run_id C then replay_error ''selective replay must create a new target run_id''
      else andThen (read (get_execution (sr_source_run_id r))) (\<lambda>found. case found of
          None \<Rightarrow> replay_error (''selective replay source not found: '' @ py_repr (sr_source_run_id r))
        | Some x \<Rightarrow>
            if x_workflow_type x \<noteq> WORKFLOW_TYPE
            then replay_error (''selective replay source '' @ py_repr (sr_source_run_id r) @ '' has workflow_type ''
              @ py_repr (x_workflow_type x) @ '', not '' @ py_repr WORKFLOW_TYPE)
            else if x_status x \<noteq> workflow_value WF_READY \<and> x_status x \<noteq> workflow_value WF_BLOCKED
            then replay_error (''selective replay source '' @ py_repr (sr_source_run_id r) @ '' must be READY or BLOCKED, not '' @ py_repr (x_status x))
            else ret ()))"

definition initial_flow :: "flow_call \<Rightarrow> flow_state prog" where
  "initial_flow C =
     (let st = \<lparr>fs_results = [], fs_invalidated = {}, fs_replayed = {}, fs_reused = {}, fs_auto = {}\<rparr> in
      if fc_legacy_fixed_order C \<and> fc_replay C \<noteq> None
      then replay_error ''release-validation:1.0.0 does not support selective replay''
      else case fc_replay C of
          None \<Rightarrow> ret st
        | Some r \<Rightarrow> andThen (validate_replay_request C r) (\<lambda>_.
            andThen (catch (flow_descendants C (sr_step_ids r)) (\<lambda>e. case e of
                DomainError name m \<Rightarrow> if name = ''WorkflowGraphError'' then replay_error m else raise e
              | _ \<Rightarrow> raise e)) (\<lambda>ids.
            ret (st\<lparr>fs_invalidated := ids\<rparr>))))"

definition check_ready :: "flow_call \<Rightarrow> step_definition \<Rightarrow> flow_state \<Rightarrow> unit prog" where
  "check_ready C step st =
     (if fc_legacy_fixed_order C then ret ()
      else andThen (lift (graph_result (dependencies_for RELEASE_VALIDATION_DAG (sd_step_id step)))) (\<lambda>ds.
        let missing = ds - set (map fst (fs_results st)) in
        if missing = {} then ret ()
        else raise (StoreExn (RuntimeError (''scheduler selected '' @ py_repr (sd_step_id step) @ '' before dependencies ''
          @ py_repr_list (sorted_list_of_set missing) @ '' completed'')))))"

text \<open>What the source run offers for a step that nothing has invalidated.\<close>

definition try_reuse :: "flow_call \<Rightarrow> replay_request \<Rightarrow> step_definition \<Rightarrow> (string \<times> json) list \<Rightarrow> json option prog" where
  "try_reuse C r step arguments =
     andThen (call (\<lambda>t. reuse_completed_step (tk_clk t) (tk_id t) (sr_source_run_id r) (fc_run_id C) (sd_step_id step) (sd_tool_name step)
        (stable_hash (rf_digests (fc_flow C)) arguments) (fc_lease_token C) (tk_now t))) (\<lambda>reuse.
     if ru_outcome reuse = COPIED \<or> ru_outcome reuse = RE_EXISTING
     then (case ru_step reuse of None \<Rightarrow> raise AssertionError | Some k \<Rightarrow> andThen (load_json (k_result_json k)) (\<lambda>j. ret (Some j)))
     else ret None)"

definition execute_step :: "flow_call \<Rightarrow> step_definition \<Rightarrow> (string \<times> json) list \<Rightarrow> flow_state \<Rightarrow> flow_state prog" where
  "execute_step C step arguments st = andThen (run_step C step arguments) (\<lambda>j.
     ret (st\<lparr>fs_results := dict_put (sd_step_id step) j (fs_results st),
       fs_replayed := (if fc_replay C \<noteq> None then insert (sd_step_id step) (fs_replayed st) else fs_replayed st)\<rparr>))"

definition advance_step :: "flow_call \<Rightarrow> step_definition \<Rightarrow> flow_state \<Rightarrow> flow_state prog" where
  "advance_step C step st =
     andThen (check_ready C step st) (\<lambda>_.
     let arguments = sd_build_arguments step (fc_manifest C) in
     case fc_replay C of
       None \<Rightarrow> execute_step C step arguments st
     | Some r \<Rightarrow>
         if sd_step_id step \<in> fs_invalidated st then execute_step C step arguments st
         else andThen (try_reuse C r step arguments) (\<lambda>found. case found of
             Some j \<Rightarrow> ret (st\<lparr>fs_results := dict_put (sd_step_id step) j (fs_results st), fs_reused := insert (sd_step_id step) (fs_reused st)\<rparr>)
           | None \<Rightarrow> andThen (flow_descendants C [sd_step_id step]) (\<lambda>ids.
               execute_step C step arguments (st\<lparr>fs_auto := insert (sd_step_id step) (fs_auto st), fs_invalidated := fs_invalidated st \<union> ids\<rparr>))))"

fun run_schedule :: "flow_call \<Rightarrow> step_definition list \<Rightarrow> flow_state \<Rightarrow> flow_state prog" where
  "run_schedule C [] st = ret st"
| "run_schedule C (step # steps) st = andThen (advance_step C step st) (run_schedule C steps)"

section \<open>Finishing\<close>

definition ordered_ids :: "string set \<Rightarrow> string list" where
  "ordered_ids ids = filter (\<lambda>i. i \<in> ids) (dag_topological_order RELEASE_VALIDATION_DAG)"

definition summarize :: "replay_request \<Rightarrow> flow_state \<Rightarrow> replay_summary" where
  "summarize r st = \<lparr>sy_source_run_id = sr_source_run_id r, sy_requested_step_ids = sr_step_ids r,
     sy_replayed_step_ids = ordered_ids (fs_replayed st), sy_reused_step_ids = ordered_ids (fs_reused st),
     sy_automatically_invalidated_step_ids = ordered_ids (fs_auto st)\<rparr>"

definition execution_failed :: "flow_call \<Rightarrow> string option \<Rightarrow> 'a prog" where
  "execution_failed C error_code = raise (DomainError ''WorkflowExecutionFailedError'' (''execution '' @ py_repr (fc_run_id C)
     @ '' already finalized as FAILED (error_code='' @ (case error_code of None \<Rightarrow> ''None'' | Some c \<Rightarrow> py_repr c) @ '')''))"

definition reuse_terminal_result :: "flow_call \<Rightarrow> execution_row \<Rightarrow> release_result prog" where
  "reuse_terminal_result C row = (case x_result_json row of
      None \<Rightarrow> raise (StoreExn (RuntimeError (''terminal execution '' @ py_repr (fc_run_id C) @ '' (status='' @ x_status row
        @ '') has no persisted result_json to reuse'')))
    | Some text \<Rightarrow> (case (case text of Encoded j \<Rightarrow> validate_release_result j | Garbled _ \<Rightarrow> None) of
        None \<Rightarrow> raise (StoreExn ValidationError)
      | Some result \<Rightarrow>
          if release_value (rr_status result) \<noteq> x_status row
          then raise (StoreExn (RuntimeError (''persisted result status '' @ py_repr (release_value (rr_status result))
            @ '' does not match execution status '' @ py_repr (x_status row) @ '' for '' @ py_repr (fc_run_id C))))
          else andThen (append_flow_event C ''workflow.result_reused'' [(''run_id'', JStr (fc_run_id C)),
             (''persisted_status'', JStr (x_status row)), (''outcome'', JStr ''reused'')]) (\<lambda>_. ret result)))"

definition settle_finalize :: "flow_call \<Rightarrow> release_result \<Rightarrow> execution_row \<Rightarrow> release_result prog" where
  "settle_finalize C candidate row =
     (if x_status row = release_value (rr_status candidate) then ret candidate
      else if x_status row = workflow_value WF_READY \<or> x_status row = workflow_value WF_BLOCKED then reuse_terminal_result C row
      else if x_status row = workflow_value WF_FAILED then execution_failed C (x_error_code row)
      else raise (StoreExn (RuntimeError (''finalize for '' @ py_repr (fc_run_id C) @ '' did not reach a terminal status as expected (persisted status=''
        @ py_repr (x_status row) @ ''); internal consistency error''))))"

definition conclude :: "flow_call \<Rightarrow> flow_state \<Rightarrow> release_result prog" where
  "conclude C st = andThen (lift (validate_release_readiness (fs_results st))) (\<lambda>findings.
     let candidate = \<lparr>rr_run_id = fc_run_id C, rr_status = (if findings = [] then RV_READY else RV_BLOCKED), rr_findings = findings,
       rr_replay = map_option (\<lambda>r. summarize r st) (fc_replay C)\<rparr>; text = Encoded (dump_release_result candidate) in
     andThen (if findings \<noteq> []
       then call (\<lambda>t. finalize_blocked (tk_clk t) (fc_run_id C) text ''readiness_requirements_unmet'' (fc_lease_token C) (tk_now t))
       else call (\<lambda>t. finalize_ready (tk_clk t) (fc_run_id C) text (fc_lease_token C) (tk_now t))) (\<lambda>row.
     settle_finalize C candidate row))"

definition scheduled_steps :: "flow_call \<Rightarrow> step_definition list" where
  "scheduled_steps C = (if fc_legacy_fixed_order C then STEP_DEFINITIONS else STEP_SEQUENCE)"

definition run_body :: "flow_call \<Rightarrow> release_result prog" where
  "run_body C = andThen (initial_flow C) (\<lambda>st. andThen (run_schedule C (scheduled_steps C) st) (conclude C))"

definition NOT_FAILURES :: "string list" where
  "NOT_FAILURES = [''ExecutionInputMismatchError'', ''WorkflowTypeMismatchError'', ''WorkflowExecutionFailedError'', ''StepAlreadyRunningError'']"

definition fail_flow :: "flow_call \<Rightarrow> exn \<Rightarrow> 'a prog" where
  "fail_flow C e =
     (if (case e of DomainError name _ \<Rightarrow> name \<in> set NOT_FAILURES | _ \<Rightarrow> False) then raise e
      else andThen (call (\<lambda>t. finalize_failed (tk_clk t) (fc_run_id C) (rf_describe (fc_flow C) e) (fc_lease_token C) (tk_now t))) (\<lambda>row.
        if x_status row \<noteq> workflow_value WF_FAILED
        then raise (StoreExn (RuntimeError (''finalize_failed did not apply for '' @ py_repr (fc_run_id C) @ ''; persisted status is ''
          @ py_repr (x_status row) @ '', not FAILED as expected'')))
        else raise e))"

definition identity_payload :: "flow_call \<Rightarrow> (string \<times> json) list" where
  "identity_payload C = (case fc_replay C of
      None \<Rightarrow> dump_manifest (fc_manifest C)
    | Some r \<Rightarrow> [(''manifest'', JObj (dump_manifest (fc_manifest C))),
        (''replay'', JObj [(''source_run_id'', JStr (sr_source_run_id r)), (''step_ids'', jstrs (sr_step_ids r))])])"

definition run_canonical :: "flow_call \<Rightarrow> release_result prog" where
  "run_canonical C =
     andThen (call (\<lambda>t. create_or_get_execution (tk_clk t) (fc_run_id C) WORKFLOW_TYPE (stable_hash (rf_digests (fc_flow C)) (identity_payload C))
        (fc_lease_token C) (tk_now t))) (\<lambda>claim.
     let row = ec_execution claim in
     if ec_outcome claim = EX_WORKFLOW_TYPE_MISMATCH
     then raise (DomainError ''WorkflowTypeMismatchError'' (''run_id '' @ py_repr (fc_run_id C) @ '' was previously used for workflow_type ''
       @ py_repr (x_workflow_type row) @ '', not '' @ py_repr WORKFLOW_TYPE))
     else if ec_outcome claim = EX_INPUT_MISMATCH
     then raise (DomainError ''ExecutionInputMismatchError'' (''run_id '' @ py_repr (fc_run_id C) @ '' was already started with a different manifest''))
     else if x_status row = workflow_value WF_READY \<or> x_status row = workflow_value WF_BLOCKED then reuse_terminal_result C row
     else if x_status row = workflow_value WF_FAILED then execution_failed C (x_error_code row)
     else andThen (if x_status row = workflow_value WF_PENDING
         then andThen (call (\<lambda>t. mark_running (tk_clk t) (fc_run_id C) (fc_lease_token C) (tk_now t))) (\<lambda>_. ret ())
         else ret ()) (\<lambda>_.
       catch (run_body C) (fail_flow C)))"

definition release_run :: "flow_call \<Rightarrow> release_result prog" where
  "release_run C = run_canonical (C\<lparr>fc_manifest := canonicalize_manifest (fc_manifest C)\<rparr>)"

section \<open>The managed runtime\<close>

text \<open>The input of version 1.0.0 has no replay.\<close>

record release_input =
  ri_manifest :: release_manifest
  ri_resume_interrupted :: bool
  ri_replay :: "replay_request option"

definition release_initial_state :: "string \<Rightarrow> rt_state" where
  "release_initial_state thread_id = \<lparr>st_domain_id = ''release-validation'', st_schema_version = ''1'', st_thread_id = thread_id,
     st_execution_trace = [], st_fields = [(''manifest'', JNull), (''result'', JNull), (''current_stage'', JStr ''initialized'')]\<rparr>"

definition stamp :: "string prog" where
  "stamp w = (Inr (tk_clk (w_ticks w (w_time w)) 0), w\<lparr>w_time := Suc (w_time w)\<rparr>)"

definition release_trace :: "string \<Rightarrow> release_result \<Rightarrow> string \<Rightarrow> trace_event" where
  "release_trace run_id result timestamp = \<lparr>te_event = ''release_validation_finished'', te_reason = release_value (rr_status result),
     te_payload = JObj [(''run_id'', JStr run_id), (''finding_count'', JInt (int (length (rr_findings result)))),
       (''replay_source_run_id'', case rr_replay result of None \<Rightarrow> JNull | Some y \<Rightarrow> JStr (sy_source_run_id y)),
       (''replayed_step_count'', JInt (case rr_replay result of None \<Rightarrow> 0 | Some y \<Rightarrow> int (length (sy_replayed_step_ids y))))],
     te_timestamp = timestamp\<rparr>"

definition managed_release_execute :: "release_flow \<Rightarrow> bool \<Rightarrow> rt_state \<Rightarrow> release_input \<Rightarrow> exec_context \<Rightarrow> response prog" where
  "managed_release_execute F legacy_fixed_order state i cx =
     andThen (release_run \<lparr>fc_flow = F, fc_run_id = cx_run_id cx, fc_manifest = ri_manifest i,
        fc_resume_interrupted = ri_resume_interrupted i \<or> cx_recovered_after_restart cx, fc_replay = ri_replay i,
        fc_legacy_fixed_order = legacy_fixed_order, fc_lease_token = cx_lease_token cx\<rparr>) (\<lambda>result.
     andThen stamp (\<lambda>timestamp.
     ret \<lparr>rp_message = (if rr_status result = RV_READY then ''Release validation passed.''
         else ''Release validation blocked by '' @ show_nat (length (rr_findings result)) @ '' finding(s).''),
       rp_state = state\<lparr>st_execution_trace := st_execution_trace state @ [release_trace (cx_run_id cx) result timestamp],
         st_fields := dict_put ''current_stage'' (JStr (release_value (rr_status result)))
           (dict_put ''result'' (dump_release_result result) (dict_put ''manifest'' (JObj (dump_manifest (ri_manifest i))) (st_fields state)))\<rparr>,
       rp_validation_errors = map (\<lambda>f. vf_rule_id f @ '': '' @ vf_message f) (rr_findings result)\<rparr>))"

end
