(* ===== verification/Release_Evidence.thy ===== *)
theory Release_Evidence
  imports Release_Validation Dynamic_Safety
begin

text \<open>
  What one validation run leaves in the ledger: it ends, calls no provider, rests its verdict on
  completed steps of the ledger, and its replay never reuses a step below one that was run again.
\<close>

section \<open>The graph\<close>

lemma release_dag: "make_dag (\<lambda>_ _. 0) step_nodes = Inr RELEASE_VALIDATION_DAG"
  by code_simp

lemma step_sequence: "map sd_step_id STEP_SEQUENCE = map sd_step_id STEP_DEFINITIONS" "distinct (map sd_step_id STEP_DEFINITIONS)"
  "node_ids step_nodes = map sd_step_id STEP_DEFINITIONS"
  by code_simp+

lemma set_step_sequence: "STEP_SEQUENCE = STEP_DEFINITIONS"
proof -
  have "dag_topological_order RELEASE_VALIDATION_DAG = map sd_step_id STEP_DEFINITIONS" by code_simp
  then show ?thesis by (simp add: STEP_SEQUENCE_def STEP_DEFINITIONS_def root_step_def)
qed

lemma scheduled [simp]: "scheduled_steps C = STEP_DEFINITIONS"
  by (simp add: scheduled_steps_def set_step_sequence)

lemma descendants_returns:
  assumes "descendants rank root_rank RELEASE_VALIDATION_DAG ids True = r"
  shows "\<exists>x. r = Some x" and "r = Some (Inr D) \<Longrightarrow> D = (dep_edges step_nodes)\<^sup>* `` set ids \<and> set ids \<subseteq> sd_step_id ` set STEP_DEFINITIONS"
  using descendants_closure [OF release_dag, of ids rank root_rank True] assms step_sequence(3) by (auto split: if_splits)

lemma release_edges: "step \<in> set STEP_DEFINITIONS \<Longrightarrow> d \<in> set (sd_dependencies step) \<Longrightarrow> (d, sd_step_id step) \<in> dep_edges step_nodes"
  by (auto simp: STEP_DEFINITIONS_def root_step_def dep_edges_def deps_def step_nodes_def node_ids_def)

section \<open>Quiet programs\<close>

lemma quiet_flow_basics [quiet_rules]:
  "quiet (load_json text)" "quiet (flow_sandbox F name arguments)" "quiet (append_flow_event C ty payload)" "quiet (replay_error m)"
  "quiet (flow_descendants C ids)" "quiet stamp"
proof -
  show "quiet (load_json text)" by (auto simp: load_json_def intro!: quiet_rules split: option.splits json_text.splits)
  show "quiet (flow_sandbox F name arguments)" "quiet stamp"
    by (auto simp: quiet_def flow_sandbox_def stamp_def follows_def tx_start split: option.splits)
  show "quiet (append_flow_event C ty payload)" "quiet (replay_error m)"
    unfolding append_flow_event_def replay_error_def by (intro quiet_rules; simp)+
  obtain r where "descendants (rf_rank (fc_flow C)) (rf_root_rank (fc_flow C)) RELEASE_VALIDATION_DAG ids True = Some r"
    using descendants_returns(1) [OF refl] by blast
  then show "quiet (flow_descendants C ids)"
    unfolding flow_descendants_def by (auto intro!: quiet_rules simp: graph_result_def split: sum.splits graph_error.splits)
qed

lemma quiet_step_calls [quiet_rules]:
  "quiet (call (\<lambda>t. claim_step (clk t) (cid t) (tok t) run_id step_id tool h mx lease (now t)))"
  "quiet (call (\<lambda>t. reuse_completed_step (clk t) (cid t) src run_id step_id tool h lease (now t)))"
  by (intro quiet_ledger_call workflow_step.intros)+

lemma quiet_cached_result [quiet_rules]: "quiet (cached_result C step row)"
  unfolding cached_result_def by (intro quiet_rules; simp)

lemma quiet_attempt_step [quiet_rules]: "quiet again \<Longrightarrow> quiet (attempt_step C step arguments tok again)"
  unfolding attempt_step_def by (intro quiet_andThen quiet_flow_basics quiet_steps quiet_if quiet_option quiet_ret quiet_raise) auto

lemma quiet_claim_case:
  "quiet a \<Longrightarrow> quiet b \<Longrightarrow> quiet c \<Longrightarrow> quiet d \<Longrightarrow> quiet e \<Longrightarrow> quiet f \<Longrightarrow>
   quiet (case oc of CACHED \<Rightarrow> a | INPUT_MISMATCH \<Rightarrow> b | DEFINITION_MISMATCH \<Rightarrow> c | ATTEMPTS_EXHAUSTED \<Rightarrow> d | ALREADY_RUNNING \<Rightarrow> e | CLAIMED \<Rightarrow> f)"
  by (cases oc) auto

lemma quiet_run_step_loop [quiet_rules]: "quiet (run_step_loop n C step arguments)"
proof (induction n)
  case (Suc n)
  then show ?case unfolding run_step_loop.simps
    by (intro quiet_andThen quiet_step_calls quiet_claim_case quiet_cached_result quiet_option quiet_if quiet_attempt_step quiet_steps quiet_raise) auto
qed (simp add: quiet_raise)

lemma quiet_schedule_parts [quiet_rules]:
  "quiet (validate_replay_request C r)" "quiet (initial_flow C)" "quiet (check_ready C step st)" "quiet (try_reuse C r step arguments)"
  "quiet (execute_step C step arguments st)"
proof -
  show v: "quiet (validate_replay_request C r)" for r unfolding validate_replay_request_def by (intro quiet_rules; simp)
  have h: "quiet (case e of DomainError name m \<Rightarrow> if name = ''WorkflowGraphError'' then replay_error m else raise e | _ \<Rightarrow> raise e)"
    if "e \<noteq> OutOfFuel" for e :: exn
    using that by (auto split: exn.splits intro!: quiet_raise quiet_flow_basics)
  show "quiet (initial_flow C)"
    unfolding initial_flow_def Let_def
    by (intro quiet_if quiet_option quiet_andThen quiet_catch quiet_flow_basics quiet_ret v h)
  show "quiet (check_ready C step st)"
    unfolding check_ready_def Let_def
    by (intro quiet_if quiet_andThen quiet_lift quiet_ret quiet_raise) (auto simp: graph_result_def split: sum.splits graph_error.splits)
  show "quiet (try_reuse C r step arguments)"
    unfolding try_reuse_def by (intro quiet_andThen quiet_step_calls quiet_if quiet_option quiet_raise quiet_ret quiet_flow_basics) simp
  show "quiet (execute_step C step arguments st)"
    unfolding execute_step_def run_step_def by (intro quiet_andThen quiet_run_step_loop quiet_ret)
qed

lemma quiet_advance_step [quiet_rules]: "quiet (advance_step C step st)"
  unfolding advance_step_def Let_def
  by (intro quiet_andThen quiet_schedule_parts quiet_option quiet_if quiet_flow_basics quiet_ret)

lemma quiet_run_schedule [quiet_rules]: "quiet (run_schedule C steps st)"
  by (induction steps arbitrary: st) (auto intro!: quiet_ret quiet_andThen quiet_advance_step)

lemma thenE_ends: "r \<noteq> Inl OutOfFuel \<Longrightarrow> (\<And>x. f x \<noteq> Inl OutOfFuel) \<Longrightarrow> thenE r f \<noteq> Inl OutOfFuel"
  by (cases r) (auto simp: thenE_def)

lemma subscript_ends: "subscript j k \<noteq> Inl OutOfFuel"
  by (auto simp: subscript_def split: json.splits option.splits)

lemma rules_end:
  "artifacts_rule j \<noteq> Inl OutOfFuel" "tests_rule j \<noteq> Inl OutOfFuel" "missing_rule k i j \<noteq> Inl OutOfFuel" "evidence_rule j \<noteq> Inl OutOfFuel"
  unfolding artifacts_rule_def tests_rule_def missing_rule_def evidence_rule_def
  by (intro thenE_ends subscript_ends; simp add: thenE_ends subscript_ends)+

lemma apply_rules_ends: "(\<And>i f j. (i, f) \<in> set rules \<Longrightarrow> f j \<noteq> Inl OutOfFuel) \<Longrightarrow> apply_rules results rules \<noteq> Inl OutOfFuel"
proof (induction rules)
  case (Cons p rules)
  obtain i f where p: "p = (i, f)" by (cases p)
  have "f j \<noteq> Inl OutOfFuel" for j using Cons.prems p by auto
  moreover have "apply_rules results rules \<noteq> Inl OutOfFuel" using Cons by auto
  ultimately show ?case unfolding p by (auto simp: thenE_def split: option.splits sum.splits)
qed simp

lemma readiness_ends: "validate_release_readiness results \<noteq> Inl OutOfFuel"
  unfolding validate_release_readiness_def by (rule apply_rules_ends) (auto simp: rules_end)

lemma quiet_reuse_terminal [quiet_rules]: "quiet (reuse_terminal_result C row)"
  unfolding reuse_terminal_result_def by (intro quiet_option quiet_raise quiet_if quiet_andThen quiet_flow_basics quiet_ret) auto

lemma quiet_settle_finalize [quiet_rules]: "quiet (settle_finalize C candidate row)"
  unfolding settle_finalize_def execution_failed_def by (intro quiet_if quiet_ret quiet_raise quiet_reuse_terminal) auto

lemma quiet_conclude [quiet_rules]: "quiet (conclude C st)"
  unfolding conclude_def Let_def
  by (intro quiet_andThen quiet_lift quiet_if quiet_executions quiet_steps quiet_settle_finalize readiness_ends)

lemma quiet_run_parts: "quiet (catch (run_body C) (fail_flow C))" "quiet (execution_failed C code :: release_result prog)"
proof -
  have fail: "quiet (fail_flow C e :: release_result prog)" if "e \<noteq> OutOfFuel" for e
    unfolding fail_flow_def using that by (intro quiet_if quiet_andThen quiet_executions quiet_raise) auto
  show "quiet (catch (run_body C) (fail_flow C))"
    unfolding run_body_def by (intro quiet_catch quiet_andThen quiet_schedule_parts quiet_run_schedule quiet_conclude fail)
  show "quiet (execution_failed C code :: release_result prog)" unfolding execution_failed_def by (rule quiet_raise) simp
qed

lemma quiet_release_run [quiet_rules]: "quiet (release_run C)"
  unfolding release_run_def run_canonical_def Let_def
  by (intro quiet_if quiet_andThen quiet_executions quiet_raise quiet_reuse_terminal quiet_ret quiet_run_parts) auto

section \<open>Results are completed steps\<close>

text \<open>The ledger holds \<open>j\<close> as the result of this tool on these arguments.\<close>

definition evidence :: "flow_call \<Rightarrow> step_definition \<Rightarrow> (string \<times> json) list \<Rightarrow> json \<Rightarrow> db \<Rightarrow> bool" where
  "evidence C step arguments j s \<longleftrightarrow> (\<exists>k. select_step (fc_run_id C) (sd_step_id step) s = Some k \<and> completed_step k
     \<and> k_tool_name k = sd_tool_name step \<and> k_input_hash k = stable_hash (rf_digests (fc_flow C)) arguments \<and> k_result_json k = Some (Encoded j))"

lemma evidence_later: "evidence C step arguments j s \<Longrightarrow> later s t \<Longrightarrow> store_reachable s \<Longrightarrow> evidence C step arguments j t"
  using later_wf_evolves [of s t] unfolding evidence_def wf_evolves_def step_evolves_def by metis

lemma evidence_follows: "evidence C step arguments j (w_db w) \<Longrightarrow> follows w w' \<Longrightarrow> sound w \<Longrightarrow> evidence C step arguments j (w_db w')"
  by (auto simp: follows_def sound_def intro: evidence_later)

lemma finalize_step_returns:
  assumes "finalize_step clk run_id step_id tok st result err ty oc lease now_ms s = (Inr k, t)" and inv: "wf_inv s"
  shows "select_step run_id step_id t = Some k \<and> k_status k = tool_call_value st \<and> k_result_json k = result"
proof -
  let ?P = "\<lambda>k. k_status k = tool_call_value TC_RUNNING \<and> sql_eq (k_attempt_token k) (Some tok)"
  let ?f = "\<lambda>k. k\<lparr>k_status := tool_call_value st, k_result_json := result, k_error_code := err, k_updated_at := clk 0\<rparr>"
  from assms(1) obtain s1 e where u: "update_steps (\<lambda>k. step_key k = (run_id, step_id) \<and> ?P k) ?f s = (1, s1)"
    and k: "select_step run_id step_id s1 = Some k"
    and e: "append_workflow_event_with_connection run_id ty (step_finished_payload step_id k oc) (clk 1) s1 = Inr (e, t)"
    by (auto simp: finalize_step_def split: prod.splits if_splits option.splits sum.splits dest!: transaction_InrD fenced_InrD row_to_step_InrD)
  from u have "rowcount (\<lambda>k. step_key k = (run_id, step_id) \<and> ?P k) (db_tool_calls s) \<noteq> 0" by (simp add: update_steps_def)
  then obtain k0 where k0: "k0 \<in> set (db_tool_calls s)" "step_key k0 = (run_id, step_id)" "?P k0" unfolding rowcount_0_iff by blast
  from update_steps_hit [OF inv select_step_mem [OF inv k0(1,2)], of ?P ?f] k0(3) u k
  have "k = ?f k0" by (auto simp: step_key_def)
  with k event_frame(1) [OF e] show ?thesis by simp
qed

lemma claimed_evolves:
  assumes "step_claimed run_id step_id tool h tok n claim s" and "later s t" and "store_reachable s" and "select_step run_id step_id t = Some k"
  shows "k_tool_name k = tool \<and> k_input_hash k = h"
  using assms later_wf_evolves [OF assms(2,3)] unfolding step_claimed_def wf_evolves_def step_evolves_def by (metis option.inject)

lemma load_json_returns: "load_json text w = (Inr j, w') \<longleftrightarrow> text = Some (Encoded j) \<and> w' = w"
  by (auto simp: load_json_def split: option.splits json_text.splits)

lemma completed_returns:
  assumes "call (\<lambda>t. complete_step (tk_clk t) (fc_run_id C) (sd_step_id step) tok (Encoded j) lease (tk_now t)) w = (Inr k, w')" and w: "sound w"
    and claim: "step_claimed (fc_run_id C) (sd_step_id step) (sd_tool_name step) (stable_hash (rf_digests (fc_flow C)) arguments) tok' n claim s0"
      "later s0 (w_db w)" "store_reachable s0"
  shows "evidence C step arguments j (w_db w')"
proof -
  from assms(1) obtain s where s: "store_reachable s"
    "complete_step (tk_clk (w_ticks w (w_time w))) (fc_run_id C) (sd_step_id step) tok (Encoded j) lease (tk_now (w_ticks w (w_time w))) s = (Inr k, w_db w')"
    by (rule call_InrE [OF _ w]) auto
  from finalize_step_returns [OF s(2) [unfolded complete_step_def] reachable_wf_inv [OF s(1)]]
  have k: "select_step (fc_run_id C) (sd_step_id step) (w_db w') = Some k" "completed_step k" "k_result_json k = Some (Encoded j)"
    by (auto simp: completed_step_def)
  have "later s0 (w_db w')" using quietD(1) [OF quiet_steps(3) assms(1) w] claim(2) by (auto simp: follows_def intro: later_trans)
  from claimed_evolves [OF claim(1) this claim(3) k(1)] k show ?thesis by (auto simp: evidence_def)
qed

lemma attempt_returns:
  assumes "attempt_step C step arguments tok again w = (Inr j, w')" and w: "sound w"
    and claim: "step_claimed (fc_run_id C) (sd_step_id step) (sd_tool_name step) (stable_hash (rf_digests (fc_flow C)) arguments) tok' n claim (w_db w)"
    and again: "\<And>w1. sound w1 \<Longrightarrow> again w1 = (Inr j, w') \<Longrightarrow> evidence C step arguments j (w_db w')"
  shows "evidence C step arguments j (w_db w')"
  using assms(1) unfolding attempt_step_def
proof (cases rule: andThenE)
  case (continues x w1)
  note w1 = quietD [OF quiet_flow_basics(2) continues(1) w]
  from w w1(1) have l: "later (w_db w) (w_db w1)" "store_reachable (w_db w)" by (auto simp: follows_def sound_def)
  show ?thesis
  proof (cases "xr_status x = X_COMPLETED")
    case True
    with continues(2) obtain r k where r: "j = JObj r"
      "call (\<lambda>t. complete_step (tk_clk t) (fc_run_id C) (sd_step_id step) tok (Encoded (JObj r)) (fc_lease_token C) (tk_now t)) w1 = (Inr k, w')"
      by (auto elim!: andThenE split: option.splits)
    show ?thesis unfolding r(1) by (rule completed_returns [OF r(2) w1(3) claim l])
  next
    case False
    from continues(2) [unfolded if_not_P [OF False]] show ?thesis
    proof (cases rule: andThenE)
      case fail: (continues k w2)
      with quietD(3) [OF quiet_steps(2) fail(1) w1(3)] again show ?thesis by (auto split: if_splits)
    qed simp
  qed
qed simp

lemma cached_returns:
  assumes "cached_result C step row w = (Inr j, w')" and w: "sound w" and "row = Some k"
    and k: "select_step (fc_run_id C) (sd_step_id step) (w_db w) = Some k" "completed_step k" "k_tool_name k = sd_tool_name step"
      "k_input_hash k = stable_hash (rf_digests (fc_flow C)) arguments"
  shows "evidence C step arguments j (w_db w')"
proof -
  from assms(1,3) obtain w1 where e: "append_flow_event C ''step.cache_reused'' [(''step_id'', JStr (sd_step_id step)),
       (''tool_name'', JStr (sd_tool_name step)), (''attempt_count'', JInt (k_attempt_count k)), (''outcome'', JStr ''cached'')] w = (Inr (), w1)"
    "load_json (k_result_json k) w1 = (Inr j, w')"
    by (auto simp: cached_result_def split: if_splits elim!: andThenE)
  with k have "evidence C step arguments j (w_db w)" by (auto simp: evidence_def load_json_returns)
  from evidence_follows [OF this quietD(1) [OF quiet_flow_basics(3) e(1) w] w] e(2) show ?thesis by (simp add: load_json_returns)
qed

lemma run_step_loop_returns:
  "run_step_loop n C step arguments w = (Inr j, w') \<Longrightarrow> sound w \<Longrightarrow> evidence C step arguments j (w_db w')"
proof (induction n arbitrary: w)
  case (Suc n)
  note w = Suc.prems(2)
  from Suc.prems(1) show ?case unfolding run_step_loop.simps
  proof (cases rule: andThenE)
    case (continues claim w1)
    note w1 = quietD [OF quiet_step_calls(1) continues(1) w]
    from continues(1) obtain s where s: "store_reachable s"
      "claim_step (tk_clk (w_ticks w (w_time w))) (tk_id (w_ticks w (w_time w))) (tk_token (w_ticks w (w_time w))) (fc_run_id C) (sd_step_id step)
         (sd_tool_name step) (stable_hash (rf_digests (fc_flow C)) arguments) MAX_ATTEMPTS (fc_lease_token C) (tk_now (w_ticks w (w_time w))) s
       = (Inr claim, w_db w1)"
      by (rule call_InrE [OF _ w]) auto
    note effect = claim_step_effect [OF reachable_wf_inv [OF s(1)] s(2)]
    show ?thesis
    proof (cases "cl_outcome claim")
      case CLAIMED
      with effect have "\<exists>tok n. step_claimed (fc_run_id C) (sd_step_id step) (sd_tool_name step)
          (stable_hash (rf_digests (fc_flow C)) arguments) tok n claim (w_db w1)"
        by (auto split: if_splits)
      then obtain tok m where c: "step_claimed (fc_run_id C) (sd_step_id step) (sd_tool_name step)
          (stable_hash (rf_digests (fc_flow C)) arguments) tok m claim (w_db w1)" by blast
      then have "cl_attempt_token claim = Some tok" by (simp add: step_claimed_def)
      with continues(2) CLAIMED have "attempt_step C step arguments tok (run_step_loop n C step arguments) w1 = (Inr j, w')" by simp
      then show ?thesis by (rule attempt_returns [OF _ w1(3) c]) (rule Suc.IH)
    next
      case CACHED
      with effect obtain k where k: "cl_step claim = Some k" "select_step (fc_run_id C) (sd_step_id step) (w_db w1) = Some k" "completed_step k"
        "k_tool_name k = sd_tool_name step" "k_input_hash k = stable_hash (rf_digests (fc_flow C)) arguments"
        by (auto simp: step_claimed_def split: if_splits)
      from continues(2) CACHED have "cached_result C step (cl_step claim) w1 = (Inr j, w')" by simp
      from cached_returns [OF this w1(3) k] show ?thesis .
    next
      case ALREADY_RUNNING
      with continues(2) obtain k w2 where r: "call (\<lambda>t. recover_interrupted_step (tk_clk t) (fc_run_id C) (sd_step_id step) (fc_lease_token C) (tk_now t)) w1
          = (Inr k, w2)" "run_step_loop n C step arguments w2 = (Inr j, w')"
        by (auto split: if_splits elim!: andThenE)
      from Suc.IH [OF r(2) quietD(3) [OF quiet_steps(4) r(1) w1(3)]] show ?thesis .
    qed (use continues(2) in \<open>auto split: option.splits\<close>)
  qed simp
qed simp

lemma reuse_returns:
  assumes "reuse_completed_step clk call_id src tgt step_id tool h lease now_ms s = (Inr r, t)" and inv: "wf_inv s"
    and "ru_outcome r = COPIED \<or> ru_outcome r = RE_EXISTING"
  shows "\<exists>k. ru_step r = Some k \<and> select_step tgt step_id t = Some k \<and> step_reusable tool h k"
proof -
  from assms(1) have body: "copy_completed_step clk call_id src tgt step_id tool h s = Inr (r, t)"
    unfolding reuse_completed_step_def by (auto split: if_splits option.splits sum.splits dest!: transaction_InrD fenced_InrD)
  from body assms(3) obtain k0 where k0: "select_step src step_id s = Some k0" by (auto simp: copy_completed_step_def split: option.splits)
  note row = row_to_step_ok [OF inv k0]
  from body assms(3) k0 row have ok: "step_reusable tool h k0" by (auto simp: copy_completed_step_def split: if_splits)
  show ?thesis
  proof (cases "select_step tgt step_id s")
    case (Some k)
    with body assms(3) k0 row row_to_step_ok [OF inv Some] show ?thesis by (auto simp: copy_completed_step_def split: if_splits)
  next
    case None
    let ?k = "\<lparr>k_call_id = call_id, k_run_id = tgt, k_step_id = step_id, k_tool_name = tool, k_input_hash = h,
        k_status = tool_call_value TC_COMPLETED, k_attempt_count = 0, k_attempt_token = None,
        k_result_json = k_result_json k0, k_error_code = None, k_created_at = clk 0, k_updated_at = clk 0\<rparr>"
    from None body assms(3) k0 row obtain s1 e where r: "ru_step r = Some ?k" and s1: "insert_step ?k s = Inr ((), s1)"
      and e: "append_workflow_event_with_connection tgt ''step.replay_reused'' [(''step_id'', JStr step_id), (''tool_name'', JStr tool),
           (''source_run_id'', JStr src), (''attempt_count'', JInt 0), (''outcome'', JStr ''reused'')] (clk 1) s1 = Inr (e, t)"
      by (auto simp: copy_completed_step_def Let_def split: sum.splits if_splits)
    from s1 None have "select_step tgt step_id s1 = Some ?k"
      by (auto simp: insert_step_def select_step_def fetchone_append step_key_def split: if_splits)
    with event_frame(1) [OF e, of tgt step_id] r ok show ?thesis by (auto simp: step_reusable_def)
  qed
qed

lemma try_reuse_returns:
  assumes "try_reuse C r step arguments w = (Inr (Some j), w')" and w: "sound w"
  shows "evidence C step arguments j (w_db w')"
proof -
  from assms(1) obtain reuse k where c: "call (\<lambda>t. reuse_completed_step (tk_clk t) (tk_id t) (sr_source_run_id r) (fc_run_id C) (sd_step_id step)
        (sd_tool_name step) (stable_hash (rf_digests (fc_flow C)) arguments) (fc_lease_token C) (tk_now t)) w = (Inr reuse, w')"
    and k: "ru_outcome reuse = COPIED \<or> ru_outcome reuse = RE_EXISTING" "ru_step reuse = Some k" "k_result_json k = Some (Encoded j)"
    by (auto simp: try_reuse_def load_json_returns split: if_splits option.splits elim!: andThenE)
  from c obtain s where s: "store_reachable s" "reuse_completed_step (tk_clk (w_ticks w (w_time w))) (tk_id (w_ticks w (w_time w)))
      (sr_source_run_id r) (fc_run_id C) (sd_step_id step) (sd_tool_name step) (stable_hash (rf_digests (fc_flow C)) arguments)
      (fc_lease_token C) (tk_now (w_ticks w (w_time w))) s = (Inr reuse, w_db w')"
    by (rule call_InrE [OF _ w]) auto
  from reuse_returns [OF s(2) reachable_wf_inv [OF s(1)] k(1)] k(2,3) show ?thesis
    by (auto simp: evidence_def step_reusable_def completed_step_def)
qed

section \<open>The schedule\<close>

text \<open>The ways a step is settled: run, reused, or run because the source had nothing to reuse.\<close>

inductive settles :: "flow_call \<Rightarrow> step_definition \<Rightarrow> json \<Rightarrow> flow_state \<Rightarrow> flow_state \<Rightarrow> bool" where
  plain: "fc_replay C = None \<Longrightarrow> settles C step j st (st\<lparr>fs_results := dict_put (sd_step_id step) j (fs_results st)\<rparr>)"
| rerun: "fc_replay C = Some r \<Longrightarrow> sd_step_id step \<in> fs_invalidated st \<Longrightarrow>
    settles C step j st (st\<lparr>fs_results := dict_put (sd_step_id step) j (fs_results st), fs_replayed := insert (sd_step_id step) (fs_replayed st)\<rparr>)"
| reused: "fc_replay C = Some r \<Longrightarrow> sd_step_id step \<notin> fs_invalidated st \<Longrightarrow>
    settles C step j st (st\<lparr>fs_results := dict_put (sd_step_id step) j (fs_results st), fs_reused := insert (sd_step_id step) (fs_reused st)\<rparr>)"
| invalidated: "fc_replay C = Some r \<Longrightarrow> sd_step_id step \<notin> fs_invalidated st \<Longrightarrow>
    settles C step j st (st\<lparr>fs_auto := insert (sd_step_id step) (fs_auto st),
      fs_invalidated := fs_invalidated st \<union> (dep_edges step_nodes)\<^sup>* `` {sd_step_id step},
      fs_results := dict_put (sd_step_id step) j (fs_results st), fs_replayed := insert (sd_step_id step) (fs_replayed st)\<rparr>)"

lemma execute_step_returns:
  assumes "execute_step C step arguments st w = (Inr st', w')" and "sound w"
  shows "\<exists>j. evidence C step arguments j (w_db w') \<and> st' = st\<lparr>fs_results := dict_put (sd_step_id step) j (fs_results st),
       fs_replayed := (if fc_replay C \<noteq> None then insert (sd_step_id step) (fs_replayed st) else fs_replayed st)\<rparr>"
  using assms run_step_loop_returns [of STEP_LOOP_GUARD C step arguments w _ w']
  unfolding execute_step_def run_step_def by (auto elim!: andThenE)

lemma flow_descendants_returns: "flow_descendants C ids w = (Inr D, w') \<Longrightarrow> w' = w \<and> D = (dep_edges step_nodes)\<^sup>* `` set ids
    \<and> set ids \<subseteq> sd_step_id ` set STEP_DEFINITIONS"
  using descendants_returns [OF refl, of "rf_rank (fc_flow C)" "rf_root_rank (fc_flow C)" ids]
  by (auto simp: flow_descendants_def lift_def graph_result_def split: option.splits sum.splits graph_error.splits)

lemma check_ready_returns:
  assumes "check_ready C step st w = (Inr u, w')" and "step \<in> set STEP_DEFINITIONS"
  shows "w' = w \<and> (fc_legacy_fixed_order C \<or> deps step_nodes (sd_step_id step) \<subseteq> fst ` set (fs_results st))"
proof -
  have n: "dag_nodes RELEASE_VALIDATION_DAG = step_nodes" by code_simp
  have "require_known step_nodes [sd_step_id step] = None" using assms(2) step_sequence(3) by (auto simp: require_known_def)
  with assms(1) show ?thesis
    by (auto simp: check_ready_def dependencies_for_def n deps_def [symmetric] graph_result_def lift_def Let_def split: if_splits elim!: andThenE)
qed

lemma advance_returns:
  assumes "advance_step C step st w = (Inr st', w')" and w: "sound w" and step: "step \<in> set STEP_DEFINITIONS"
  shows "\<exists>j. evidence C step (sd_build_arguments step (fc_manifest C)) j (w_db w') \<and> settles C step j st st'"
    and "fc_legacy_fixed_order C \<or> deps step_nodes (sd_step_id step) \<subseteq> fst ` set (fs_results st)"
proof -
  let ?a = "sd_build_arguments step (fc_manifest C)"
  from assms(1) obtain w0 where c: "check_ready C step st w = (Inr (), w0)"
    and b: "(case fc_replay C of None \<Rightarrow> execute_step C step ?a st
     | Some r \<Rightarrow> if sd_step_id step \<in> fs_invalidated st then execute_step C step ?a st
         else andThen (try_reuse C r step ?a) (\<lambda>found. case found of
             Some j \<Rightarrow> ret (st\<lparr>fs_results := dict_put (sd_step_id step) j (fs_results st), fs_reused := insert (sd_step_id step) (fs_reused st)\<rparr>)
           | None \<Rightarrow> andThen (flow_descendants C [sd_step_id step]) (\<lambda>ids.
               execute_step C step ?a (st\<lparr>fs_auto := insert (sd_step_id step) (fs_auto st), fs_invalidated := fs_invalidated st \<union> ids\<rparr>)))) w0
       = (Inr st', w')"
    by (auto simp: advance_step_def Let_def elim!: andThenE)
  note r = check_ready_returns [OF c step]
  then show "fc_legacy_fixed_order C \<or> deps step_nodes (sd_step_id step) \<subseteq> fst ` set (fs_results st)" by simp
  show "\<exists>j. evidence C step ?a j (w_db w') \<and> settles C step j st st'"
  proof (cases "fc_replay C")
    case None
    with b r have "execute_step C step ?a st w = (Inr st', w')" by simp
    from execute_step_returns [OF this w] None settles.plain [OF None] show ?thesis by auto
  next
    case (Some rq)
    show ?thesis
    proof (cases "sd_step_id step \<in> fs_invalidated st")
      case True
      with b r Some have "execute_step C step ?a st w = (Inr st', w')" by simp
      from execute_step_returns [OF this w] Some settles.rerun [OF Some True] show ?thesis by auto
    next
      case False
      with b r Some obtain found w1 where t: "try_reuse C rq step ?a w = (Inr found, w1)"
        and k: "(case found of
             Some j \<Rightarrow> ret (st\<lparr>fs_results := dict_put (sd_step_id step) j (fs_results st), fs_reused := insert (sd_step_id step) (fs_reused st)\<rparr>)
           | None \<Rightarrow> andThen (flow_descendants C [sd_step_id step]) (\<lambda>ids.
               execute_step C step ?a (st\<lparr>fs_auto := insert (sd_step_id step) (fs_auto st), fs_invalidated := fs_invalidated st \<union> ids\<rparr>))) w1
          = (Inr st', w')"
        by (auto elim!: andThenE)
      note w1 = quietD(3) [OF quiet_schedule_parts(4) t w]
      show ?thesis
      proof (cases found)
        case None
        with k have "execute_step C step ?a (st\<lparr>fs_auto := insert (sd_step_id step) (fs_auto st),
            fs_invalidated := fs_invalidated st \<union> (dep_edges step_nodes)\<^sup>* `` {sd_step_id step}\<rparr>) w1 = (Inr st', w')"
          by (auto elim!: andThenE dest!: flow_descendants_returns)
        from execute_step_returns [OF this w1] Some settles.invalidated [OF Some False] show ?thesis by auto
      next
        case f: (Some j)
        from k f have "st' = st\<lparr>fs_results := dict_put (sd_step_id step) j (fs_results st), fs_reused := insert (sd_step_id step) (fs_reused st)\<rparr>"
          "w' = w1" by simp_all
        moreover from try_reuse_returns [OF t [unfolded f] w] have "evidence C step ?a j (w_db w1)" .
        ultimately show ?thesis using settles.reused [OF Some False] by blast
      qed
    qed
  qed
qed

lemma keys_dict_put: "fst ` set (dict_put k v kvs) = insert k (fst ` set kvs)"
  by (auto simp: dict_put_def map_of_eq_None_iff image_iff split: prod.splits) (metis domI fst_conv map_of_eq_Some_iff option.distinct(1) weak_map_of_SomeI)+

lemma map_of_dict_put: "map_of (dict_put k v kvs) i = (if i = k then Some v else map_of kvs i)"
proof (cases "map_of kvs k")
  case None
  then show ?thesis by (auto simp: dict_put_def map_add_def split: option.splits)
next
  case (Some v')
  have "map_of (map (\<lambda>(k', v'). (k', if k' = k then v else v')) kvs) i = (if i = k then map_option (\<lambda>_. v) (map_of kvs i) else map_of kvs i)"
    by (induction kvs) auto
  with Some show ?thesis by (simp add: dict_put_def)
qed

lemma settles_results: "settles C step j st st' \<Longrightarrow> fs_results st' = dict_put (sd_step_id step) j (fs_results st)"
  by (erule settles.cases) auto

text \<open>
  The replay so far: what ran again or was reused are the settled steps, the invalidated steps are
  closed under dependents, and exactly the invalidated ones among the settled steps ran again.
\<close>

definition replaying :: "flow_state \<Rightarrow> bool" where
  "replaying st \<longleftrightarrow> fs_replayed st \<union> fs_reused st = fst ` set (fs_results st) \<and> fs_replayed st \<inter> fs_reused st = {}
     \<and> fs_invalidated st \<inter> fst ` set (fs_results st) = fs_replayed st \<and> dep_edges step_nodes `` fs_invalidated st \<subseteq> fs_invalidated st
     \<and> (\<forall>n\<in>fst ` set (fs_results st). deps step_nodes n \<subseteq> fst ` set (fs_results st)) \<and> fs_auto st \<subseteq> fs_replayed st"

lemma settled_ancestors:
  assumes "(d, n) \<in> (dep_edges nodes)\<^sup>*" and "n \<in> K" and "\<forall>n\<in>K. deps nodes n \<subseteq> K"
  shows "d \<in> K"
  using assms(1,2) by (induction rule: converse_rtrancl_induct) (use assms(3) in \<open>auto simp: dep_edges_def\<close>)

lemma replaying_step:
  assumes "settles C step j st st'" and "replaying st" and "fc_replay C \<noteq> None" and new: "sd_step_id step \<notin> fst ` set (fs_results st)"
    and deps: "deps step_nodes (sd_step_id step) \<subseteq> fst ` set (fs_results st)"
  shows "replaying st'"
  using assms(1)
proof cases
  case (invalidated r)
  let ?K = "fst ` set (fs_results st)" and ?i = "sd_step_id step" and ?D = "(dep_edges step_nodes)\<^sup>* `` {sd_step_id step}"
  have D: "?D \<inter> ?K = {}" using settled_ancestors [of ?i _ step_nodes ?K] new assms(2) unfolding replaying_def by blast
  have "dep_edges step_nodes `` ?D \<subseteq> ?D" by (auto intro: rtrancl_into_rtrancl)
  moreover have "?i \<in> ?D" by simp
  ultimately show ?thesis
    using assms(2) deps new D invalidated unfolding replaying_def by (simp add: keys_dict_put) blast
qed (use assms in \<open>auto simp: replaying_def keys_dict_put\<close>)

lemma settles_invalidated: "settles C step j st st' \<Longrightarrow> fs_invalidated st \<subseteq> fs_invalidated st'"
  by (erule settles.cases) auto

text \<open>What running these steps from \<open>st\<close> makes of the state, with the ledger in \<open>s\<close>.\<close>

definition schedule_done :: "flow_call \<Rightarrow> step_definition list \<Rightarrow> flow_state \<Rightarrow> flow_state \<Rightarrow> db \<Rightarrow> bool" where
  "schedule_done C steps st st' s \<longleftrightarrow>
     (\<forall>step\<in>set steps. \<exists>j. map_of (fs_results st') (sd_step_id step) = Some j
        \<and> evidence C step (sd_build_arguments step (fc_manifest C)) j s)
     \<and> (\<forall>i. i \<notin> sd_step_id ` set steps \<longrightarrow> map_of (fs_results st') i = map_of (fs_results st) i)
     \<and> fst ` set (fs_results st') = fst ` set (fs_results st) \<union> sd_step_id ` set steps \<and> fs_invalidated st \<subseteq> fs_invalidated st'
     \<and> (replaying st \<and> fc_replay C \<noteq> None \<and> \<not> fc_legacy_fixed_order C \<longrightarrow> replaying st')"

lemma schedule_done_result:
  "schedule_done C steps st st' s \<Longrightarrow> step \<in> set steps \<Longrightarrow> \<exists>j. map_of (fs_results st') (sd_step_id step) = Some j
     \<and> evidence C step (sd_build_arguments step (fc_manifest C)) j s"
  by (simp add: schedule_done_def)

lemma schedule_done_step:
  assumes j: "evidence C step (sd_build_arguments step (fc_manifest C)) j s" and st: "settles C step j st st1"
    and deps: "fc_legacy_fixed_order C \<or> deps step_nodes (sd_step_id step) \<subseteq> fst ` set (fs_results st)"
    and new: "sd_step_id step \<notin> fst ` set (fs_results st)" "sd_step_id step \<notin> sd_step_id ` set steps"
    and rest: "schedule_done C steps st1 st' s"
  shows "schedule_done C (step # steps) st st' s"
proof -
  note r = settles_results [OF st]
  from rest new(2) have "map_of (fs_results st') (sd_step_id step) = Some j" by (simp add: schedule_done_def r map_of_dict_put)
  moreover from replaying_step [OF st _ _ new(1)] deps rest
  have "replaying st \<and> fc_replay C \<noteq> None \<and> \<not> fc_legacy_fixed_order C \<longrightarrow> replaying st'" by (auto simp: schedule_done_def)
  ultimately show ?thesis
    using rest j settles_invalidated [OF st] by (auto simp: schedule_done_def r map_of_dict_put keys_dict_put)
qed

lemma run_schedule_returns:
  assumes "run_schedule C steps st w = (Inr st', w')" and "sound w" and "set steps \<subseteq> set STEP_DEFINITIONS"
    and "distinct (map sd_step_id steps)" and "sd_step_id ` set steps \<inter> fst ` set (fs_results st) = {}"
  shows "schedule_done C steps st st' (w_db w')"
  using assms
proof (induction steps arbitrary: st w)
  case (Cons step steps)
  from Cons.prems(1) obtain st1 w1 where a: "advance_step C step st w = (Inr st1, w1)" and b: "run_schedule C steps st1 w1 = (Inr st', w')"
    by (auto elim!: andThenE)
  note w1 = quietD(3) [OF quiet_advance_step a Cons.prems(2)]
  from Cons.prems(3) have "step \<in> set STEP_DEFINITIONS" by simp
  note ad = advance_returns [OF a Cons.prems(2) this]
  from ad(1) obtain j where j: "evidence C step (sd_build_arguments step (fc_manifest C)) j (w_db w1)" "settles C step j st st1" by blast
  have "sd_step_id ` set steps \<inter> fst ` set (fs_results st1) = {}"
    using Cons.prems(4,5) settles_results [OF j(2)] by (auto simp: keys_dict_put)
  with Cons.IH [OF b w1] Cons.prems(3,4) have "schedule_done C steps st1 st' (w_db w')" by simp
  from schedule_done_step [OF _ j(2) ad(2) _ _ this] evidence_follows [OF j(1) quietD(1) [OF quiet_run_schedule b w1] w1] Cons.prems(4,5)
  show ?case by simp
qed (simp add: schedule_done_def)

lemma initial_flow_returns:
  assumes "initial_flow C w = (Inr st, w')"
  shows "fs_results st = []" and "fc_replay C = Some r \<Longrightarrow> replaying st \<and> \<not> fc_legacy_fixed_order C
    \<and> set (sr_step_ids r) \<subseteq> fs_invalidated st \<inter> sd_step_id ` set STEP_DEFINITIONS"
proof -
  show "fs_results st = []"
    using assms by (auto simp: initial_flow_def Let_def replay_error_def split: if_splits option.splits elim!: andThenE)
  show "replaying st \<and> \<not> fc_legacy_fixed_order C
    \<and> set (sr_step_ids r) \<subseteq> fs_invalidated st \<inter> sd_step_id ` set STEP_DEFINITIONS" if "fc_replay C = Some r"
  proof -
    from assms that obtain w1 D where D: "catch (flow_descendants C (sr_step_ids r)) (\<lambda>e. case e of
        DomainError name m \<Rightarrow> if name = ''WorkflowGraphError'' then replay_error m else raise e | _ \<Rightarrow> raise e) w1 = (Inr D, w')"
      and st: "st = \<lparr>fs_results = [], fs_invalidated = D, fs_replayed = {}, fs_reused = {}, fs_auto = {}\<rparr>" "\<not> fc_legacy_fixed_order C"
      by (auto simp: initial_flow_def Let_def replay_error_def split: if_splits elim!: andThenE)
    from D have "D = (dep_edges step_nodes)\<^sup>* `` set (sr_step_ids r) \<and> set (sr_step_ids r) \<subseteq> sd_step_id ` set STEP_DEFINITIONS"
      by (auto simp: replay_error_def elim!: catchE dest!: flow_descendants_returns split: exn.splits if_splits)
    with st show ?thesis by (auto simp: replaying_def intro: rtrancl_into_rtrancl)
  qed
qed

end
