(* ===== verification/Release_Examples.thy ===== *)
theory Release_Examples
  imports Release_Evidence Durable_Properties
begin

text \<open>
  An evaluated replay: a source run with five of the six steps completed, and a target run that
  asks for the last step again.
\<close>

declare descend.simps [code]

section \<open>An evaluated replay\<close>

definition rx_manifest :: release_manifest where
  "rx_manifest = \<lparr>rl_release_id = ''R'', rl_application_name = ''a'', rl_release_version = ''1'', rl_required_artifacts = [],
     rl_available_artifacts = [], rl_required_test_suite = ''u'', rl_executed_test_suite = ''u'', rl_tests_passed = True,
     rl_required_python_versions = [''3''], rl_tested_python_versions = [], rl_deployment_environment = ''p'',
     rl_configuration_requirements = [], rl_actual_configuration_keys = [], rl_evidence_checks_included = [''tests'']\<rparr>"

text \<open>The only tool the replay runs, with an empty answer.\<close>

definition rx_tool :: registered_tool where
  "rx_tool = (release_tool ''generate_release_evidence'' [] [])\<lparr>ts_input_model := Some, ts_policy := release_policy\<lparr>tp_max_output_bytes := 8\<rparr>\<rparr>"

definition rx_flow :: release_flow where
  "rx_flow = \<lparr>rf_tools = [(''generate_release_evidence'', rx_tool)],
     rf_texts = \<lparr>sx_invalid = (\<lambda>_. []), sx_seconds = (\<lambda>_. []), sx_decode = (\<lambda>_. [])\<rparr>,
     rf_loads = (\<lambda>_. Some (JObj [])), rf_environ = [], rf_process = (\<lambda>_ _ _ _. Exited 0 [] []),
     rf_is_transient_failure = default_is_transient_failure, rf_digests = dx_digests, rf_describe = (\<lambda>_. ''error''),
     rf_rank = (\<lambda>_ _. 0), rf_root_rank = (\<lambda>_. 0)\<rparr>"

definition rx_call :: "string \<Rightarrow> replay_request option \<Rightarrow> flow_call" where
  "rx_call run_id replay = \<lparr>fc_flow = rx_flow, fc_run_id = run_id, fc_manifest = rx_manifest, fc_resume_interrupted = False, fc_replay = replay,
     fc_legacy_fixed_order = False, fc_lease_token = None\<rparr>"

definition rx_world :: world where
  "rx_world = \<lparr>w_db = empty_db, w_ticks = (\<lambda>n. (dx_tick dx_success)\<lparr>tk_id := show_nat n\<rparr>), w_time = 0, w_calls = []\<rparr>"

lemma rx_sound: "sound rx_world"
  by (simp add: sound_def fair_def rx_world_def dx_tick_def tx_start)

definition rx_start :: "string \<Rightarrow> unit prog" where
  "rx_start run_id = andThen (call (\<lambda>t. create_or_get_execution (tk_clk t) run_id WORKFLOW_TYPE ''h'' None (tk_now t))) (\<lambda>_.
     andThen (call (\<lambda>t. mark_running (tk_clk t) run_id None (tk_now t))) (\<lambda>_. ret ()))"

fun rx_steps :: "step_definition list \<Rightarrow> unit prog" where
  "rx_steps [] = ret ()"
| "rx_steps (step # steps) =
     andThen (call (\<lambda>t. claim_step (tk_clk t) (tk_id t) (tk_token t) ''r1'' (sd_step_id step) (sd_tool_name step) ''h'' 2 None (tk_now t))) (\<lambda>_.
     andThen (call (\<lambda>t. complete_step (tk_clk t) ''r1'' (sd_step_id step) ''t1'' (Encoded (JObj [])) None (tk_now t))) (\<lambda>_. rx_steps steps))"

definition rx_result :: release_result where
  "rx_result = \<lparr>rr_run_id = ''r1'', rr_status = RV_READY, rr_findings = [], rr_replay = None\<rparr>"

definition rx_source :: "unit prog" where
  "rx_source = andThen (rx_start ''r1'') (\<lambda>_. andThen (rx_steps (take 5 STEP_DEFINITIONS)) (\<lambda>_.
     andThen (call (\<lambda>t. finalize_ready (tk_clk t) ''r1'' (Encoded (dump_release_result rx_result)) None (tk_now t))) (\<lambda>_. rx_start ''r2'')))"

definition rx_ready :: world where
  "rx_ready = snd (rx_source rx_world)"

lemma rx_ready_sound: "sound rx_ready"
proof -
  have start: "quiet (rx_start run_id)" for run_id unfolding rx_start_def by (intro quiet_andThen quiet_executions quiet_ret)
  have steps: "quiet (rx_steps steps)" for steps
    by (induction steps) (auto intro!: quiet_ret quiet_andThen quiet_step_calls quiet_steps)
  have "quiet rx_source" unfolding rx_source_def by (intro quiet_andThen quiet_executions start steps)
  from quietD(3) [OF this prod.collapse [symmetric] rx_sound] show ?thesis by (simp add: rx_ready_def)
qed

definition rx_replay :: flow_call where
  "rx_replay = rx_call ''r2'' (Some \<lparr>sr_source_run_id = ''r1'', sr_step_ids = [''generate_evidence'']\<rparr>)"

definition rx_replayed :: "(exn + flow_state) \<times> world" where
  "rx_replayed = andThen (initial_flow rx_replay) (run_schedule rx_replay STEP_DEFINITIONS) rx_ready"

lemma rx_evaluated: "case rx_replayed of (Inr st, _) \<Rightarrow> fs_replayed st = {''generate_evidence''} | _ \<Rightarrow> False"
  by code_simp

lemma rx_runs: obtains st0 w1 st where "initial_flow rx_replay rx_ready = (Inr st0, w1)"
  "run_schedule rx_replay (scheduled_steps rx_replay) st0 w1 = (Inr st, snd rx_replayed)" "fs_replayed st = {''generate_evidence''}"
proof -
  obtain r w where rw: "rx_replayed = (r, w)" by (cases rx_replayed)
  obtain st where st: "r = Inr st" "fs_replayed st = {''generate_evidence''}" using rx_evaluated unfolding rw by (cases r) simp_all
  have "rx_replayed = (Inr st, snd rx_replayed)" unfolding rw st(1) by simp
  then have "andThen (initial_flow rx_replay) (run_schedule rx_replay STEP_DEFINITIONS) rx_ready = (Inr st, snd rx_replayed)"
    unfolding rx_replayed_def [symmetric] .
  then show thesis by (rule andThenE) (simp_all add: that st(2))
qed

end
