(* ===== verification/Release_Readiness.thy ===== *)
theory Release_Readiness
  imports Release_Validation
begin

text \<open>
  The verdict as a function of the manifest: each tool, run in the sandbox by the worker script,
  returns what its handler computes, and the rules on those results find exactly the requirements
  the manifest does not meet.
\<close>

section \<open>Requirements of a manifest\<close>

text \<open>Of several artifacts with one name the last one counts.\<close>

definition artifact_checksum :: "release_manifest \<Rightarrow> string \<Rightarrow> string option" where
  "artifact_checksum m n = map_of (rev (map (\<lambda>a. (ba_name a, ba_checksum a)) (rl_available_artifacts m))) n"

definition artifact_valid :: "release_manifest \<Rightarrow> string \<Rightarrow> bool" where
  "artifact_valid m n \<longleftrightarrow> (case artifact_checksum m n of None \<Rightarrow> False | Some c \<Rightarrow> looks_like_sha256 c)"

definition requirements :: "release_manifest \<Rightarrow> (string \<times> bool) list" where
  "requirements m =
     [(''artifacts_present_and_valid'', \<forall>n\<in>set (rl_required_artifacts m). artifact_valid m n),
      (''unit_test_suite_passed'', rl_executed_test_suite m = rl_required_test_suite m \<and> rl_tests_passed m),
      (''python_versions_covered'', set (rl_required_python_versions m) \<subseteq> set (rl_tested_python_versions m)),
      (''deployment_configuration_present'', set (rl_configuration_requirements m) \<subseteq> set (rl_actual_configuration_keys m)),
      (''evidence_complete'', set REQUIRED_CHECKS \<subseteq> set (rl_evidence_checks_included m))]"

definition unmet_requirements :: "release_manifest \<Rightarrow> string list" where
  "unmet_requirements m = map fst (filter (\<lambda>(_, met). \<not> met) (requirements m))"

section \<open>Values through the models and handlers\<close>

lemma those_Some [simp]: "those (map (\<lambda>x. Some (g x)) xs) = Some (map g xs)"
  by (induction xs) auto

lemma str_value_JStr [simp]: "str_value (JStr v) = Some (JStr v)"
  by (simp add: str_value_def str_of_def)

lemma list_of_jstrs [simp]: "list_of str_value (jstrs xs) = Some (jstrs xs)"
  by (simp add: list_of_def jstrs_def comp_def)

lemma list_of_artifacts [simp]:
  "list_of (object_of [(''name'', str_value), (''checksum'', str_value)]) (JList (map dump_artifact as)) = Some (JList (map dump_artifact as))"
  by (simp add: list_of_def comp_def dump_artifact_def object_of_def fields_model_def only_keys_def)

lemma py_text_JStr [simp]: "py_text (JStr v) = v"
  by (simp add: py_text_def)

lemma py_iter_lists [simp]: "py_iter (jstrs xs) = Some (map JStr xs)" "py_iter (JList js) = Some js"
  by (simp_all add: py_iter_def jstrs_def)

lemma map_py_text [simp]: "map (py_text \<circ> JStr) xs = xs"
  by (induction xs) auto

lemma py_true_simps [simp]: "py_true (jstrs xs) \<longleftrightarrow> xs \<noteq> []" "py_true (JBool b) \<longleftrightarrow> b"
  by (auto simp: py_true_def jstrs_def)

lemma artifact_entries [simp]: "those (map (artifact_entry \<circ> dump_artifact) as) = Some (map (\<lambda>a. (ba_name a, ba_checksum a)) as)"
  by (simp add: comp_def artifact_entry_def dump_artifact_def text_at_def)

section \<open>What each tool returns\<close>

definition step_result :: "release_manifest \<Rightarrow> step_definition \<Rightarrow> (string \<times> json) list" where
  "step_result m step = the (Option.bind (release_handler (sd_tool_name step)) (\<lambda>h. h (sd_build_arguments step m)))"

lemmas step_arguments = manifest_arguments_def artifacts_arguments_def unit_test_arguments_def compatibility_arguments_def
  deployment_arguments_def evidence_arguments_def

lemmas step_handlers = load_release_manifest_def inspect_build_artifacts_def run_unit_test_check_def run_compatibility_check_def
  inspect_deployment_configuration_def generate_release_evidence_def missing_from_def texts_at_def text_at_def

lemma handlers_return:
  assumes "step \<in> set STEP_DEFINITIONS"
  shows "\<exists>h. release_handler (sd_tool_name step) = Some h \<and> h (sd_build_arguments step m) = Some (step_result m step)"
  using assms unfolding STEP_DEFINITIONS_def
  by (auto simp: root_step_def step_result_def release_handler_def step_arguments step_handlers Let_def)

lemma release_tool_simps:
  "ts_name (release_tool name description fs) = name" "ts_effect (release_tool name description fs) = READ_ONLY"
  "ts_policy (release_tool name description fs) = release_policy" "ts_input_model (release_tool name description fs) = fields_model fs"
  "ts_handler_entrypoint (release_tool name description fs) = Some (''domains.release_validation.tool_handlers:'' @ name)"
  by (simp_all add: release_tool_def)

lemma models_accept:
  "fields_model LoadReleaseManifestInput (manifest_arguments m) = Some (manifest_arguments m)"
  "fields_model InspectBuildArtifactsInput (artifacts_arguments m) = Some (artifacts_arguments m)"
  "fields_model RunUnitTestCheckInput (unit_test_arguments m) = Some (unit_test_arguments m)"
  "fields_model RunCompatibilityCheckInput (compatibility_arguments m) = Some (compatibility_arguments m)"
  "fields_model InspectDeploymentConfigurationInput (deployment_arguments m) = Some (deployment_arguments m)"
  "fields_model GenerateReleaseEvidenceInput (evidence_arguments m) = Some (evidence_arguments m)"
  by (simp_all add: step_arguments fields_model_def only_keys_def LoadReleaseManifestInput_def InspectBuildArtifactsInput_def
      RunUnitTestCheckInput_def RunCompatibilityCheckInput_def InspectDeploymentConfigurationInput_def GenerateReleaseEvidenceInput_def
      bool_value_def lax_bool_def)

lemma inputs_accepted:
  assumes "step \<in> set STEP_DEFINITIONS"
  shows "\<exists>spec. resolve_tool (map (\<lambda>spec. (ts_name spec, spec)) release_tools) (sd_tool_name step) = Some spec
    \<and> ts_effect spec = READ_ONLY \<and> ts_policy spec = release_policy
    \<and> ts_handler_entrypoint spec = Some (''domains.release_validation.tool_handlers:'' @ sd_tool_name step)
    \<and> ts_input_model spec (sd_build_arguments step m) = Some (sd_build_arguments step m) \<and> CHR '':'' \<notin> set (sd_tool_name step)
    \<and> sd_tool_name step \<noteq> []"
proof -
  note simps = root_step_def resolve_tool_def release_tools_def release_tool_simps models_accept
  from assms show ?thesis unfolding STEP_DEFINITIONS_def by (simp only: list.set insert_iff empty_iff) (elim disjE FalseE; simp add: simps)
qed

lemma sandboxed_step:
  assumes "step \<in> set STEP_DEFINITIONS" and "build_release_validation_tool_registry = Inr tools"
    and "loads (dumps (JObj (step_result m step))) = Some (JObj (step_result m step))"
    and "length (dumps (JObj (step_result m step))) \<le> 16384"
  shows "sandbox_execute X tools loads environ (worker_main release_modules describe dumps) (sd_tool_name step) (sd_build_arguments step m)
     = Some \<lparr>xr_tool_name = sd_tool_name step, xr_status = X_COMPLETED, xr_result = Some (step_result m step), xr_error = None,
         xr_exit_code = Some 0, xr_output_truncated = False\<rparr>"
proof -
  from assms(2) have tools: "tools = map (\<lambda>spec. (ts_name spec, spec)) release_tools" by (simp add: register_release_tools)
  obtain spec where spec: "resolve_tool tools (sd_tool_name step) = Some spec" "ts_effect spec = READ_ONLY" "ts_policy spec = release_policy"
    "ts_handler_entrypoint spec = Some (''domains.release_validation.tool_handlers:'' @ sd_tool_name step)"
    "ts_input_model spec (sd_build_arguments step m) = Some (sd_build_arguments step m)" "CHR '':'' \<notin> set (sd_tool_name step)" "sd_tool_name step \<noteq> []"
    using inputs_accepted [OF assms(1), of m] unfolding tools by blast
  obtain h where h: "release_handler (sd_tool_name step) = Some h" "h (sd_build_arguments step m) = Some (step_result m step)"
    using handlers_return [OF assms(1)] by blast
  have policy: "unsupported_capability release_policy = None" by code_simp
  have "load_handler release_modules (''domains.release_validation.tool_handlers:'' @ sd_tool_name step) = Some h"
    using spec(6,7) h(1) by (simp add: load_handler_def valid_handler_entrypoint_def release_modules_def)
  then have "worker_main release_modules describe dumps (''domains.release_validation.tool_handlers:'' @ sd_tool_name step)
      (sanitized_environment environ release_policy) (sd_build_arguments step m) = Exited 0 (dumps (JObj (step_result m step))) []"
    using h(2) policy worker_repeats_preflight [of environ release_policy] by (simp add: worker_main_def)
  moreover have "nat (tp_max_output_bytes release_policy) = 16384" by (simp add: release_policy_def)
  ultimately show ?thesis
    using spec(1-5) policy assms(3,4) by (simp add: sandbox_execute_def finished_def Let_def)
qed

section \<open>The rules\<close>

definition step_results :: "release_manifest \<Rightarrow> (string \<times> json) list" where
  "step_results m = map (\<lambda>step. (sd_step_id step, JObj (step_result m step))) STEP_DEFINITIONS"

lemma artifacts_verdict: "\<exists>msg. artifacts_rule (JObj (the (inspect_build_artifacts (artifacts_arguments m)))) =
   Inr (rule (\<not> (\<forall>n\<in>set (rl_required_artifacts m). artifact_valid m n)) ''artifacts_present_and_valid'' msg)"
proof -
  let ?c = "artifact_checksum m" and ?req = "rl_required_artifacts m"
  let ?missing = "filter (\<lambda>n. ?c n = None) ?req"
  let ?invalid = "filter (\<lambda>n. case ?c n of None \<Rightarrow> False | Some c \<Rightarrow> \<not> looks_like_sha256 c) ?req"
  have "inspect_build_artifacts (artifacts_arguments m) = Some [(''missing_artifacts'', jstrs ?missing), (''invalid_checksums'', jstrs ?invalid),
      (''all_present'', JBool (?missing = [] \<and> ?invalid = []))]"
    by (simp add: step_arguments step_handlers Let_def artifact_checksum_def [abs_def])
  moreover have "(?missing \<noteq> [] \<or> ?invalid \<noteq> []) = (\<not> (\<forall>n\<in>set ?req. artifact_valid m n))"
    unfolding filter_empty_conv artifact_valid_def by (metis (no_types, lifting) not_None_eq option.case)
  ultimately show ?thesis by (auto simp: artifacts_rule_def subscript_def thenE_def)
qed

lemma tests_verdict: "\<exists>msg. tests_rule (JObj (the (run_unit_test_check (unit_test_arguments m)))) =
   Inr (rule (\<not> (rl_executed_test_suite m = rl_required_test_suite m \<and> rl_tests_passed m)) ''unit_test_suite_passed'' msg)"
  by (auto simp: step_arguments step_handlers tests_rule_def subscript_def thenE_def rule_def)

lemma missing_verdict:
  assumes "missing_from wanted present k v arguments = Some r" and "texts_at arguments wanted = Some xs" and "texts_at arguments present = Some ys"
  shows "\<exists>msg. missing_rule k rule_id (JObj r) = Inr (rule (\<not> set xs \<subseteq> set ys) rule_id msg)"
proof -
  let ?missing = "filter (\<lambda>v. v \<notin> set ys) xs"
  from assms have "r = [(k, jstrs ?missing), (v, JBool (?missing = []))]" by (simp add: missing_from_def Let_def)
  then have "missing_rule k rule_id (JObj r) = Inr (rule (?missing \<noteq> []) rule_id (k @ ''='' @ py_text (jstrs ?missing)))"
    by (simp add: missing_rule_def subscript_def thenE_def)
  moreover have "(?missing \<noteq> []) = (\<not> set xs \<subseteq> set ys)" by (auto simp: filter_empty_conv)
  ultimately show ?thesis by (simp only:) (rule exI, rule refl)
qed

lemma evidence_verdict: "\<exists>msg. evidence_rule (JObj (the (generate_release_evidence (evidence_arguments m)))) =
   Inr (rule (\<not> set REQUIRED_CHECKS \<subseteq> set (rl_evidence_checks_included m)) ''evidence_complete'' msg)"
  by (auto simp: step_arguments step_handlers evidence_rule_def subscript_def thenE_def rule_def)

lemma step_results_at:
  "map_of (step_results m) ''inspect_artifacts'' = Some (JObj (the (inspect_build_artifacts (artifacts_arguments m))))"
  "map_of (step_results m) ''run_unit_tests'' = Some (JObj (the (run_unit_test_check (unit_test_arguments m))))"
  "map_of (step_results m) ''run_compatibility'' = Some (JObj (the (run_compatibility_check (compatibility_arguments m))))"
  "map_of (step_results m) ''inspect_deployment'' = Some (JObj (the (inspect_deployment_configuration (deployment_arguments m))))"
  "map_of (step_results m) ''generate_evidence'' = Some (JObj (the (generate_release_evidence (evidence_arguments m))))"
  by (simp_all add: step_results_def STEP_DEFINITIONS_def root_step_def step_result_def release_handler_def)

lemma ids_of_rule: "map vf_rule_id (rule b i msg) = (if b then [i] else [])"
  by (simp add: rule_def)

lemma readiness_of_results: "\<exists>findings. validate_release_readiness (step_results m) = Inr findings \<and> map vf_rule_id findings = unmet_requirements m"
proof -
  obtain m1 m2 m5 where 1: "artifacts_rule (JObj (the (inspect_build_artifacts (artifacts_arguments m)))) =
      Inr (rule (\<not> (\<forall>n\<in>set (rl_required_artifacts m). artifact_valid m n)) ''artifacts_present_and_valid'' m1)"
    and 2: "tests_rule (JObj (the (run_unit_test_check (unit_test_arguments m)))) =
      Inr (rule (\<not> (rl_executed_test_suite m = rl_required_test_suite m \<and> rl_tests_passed m)) ''unit_test_suite_passed'' m2)"
    and 5: "evidence_rule (JObj (the (generate_release_evidence (evidence_arguments m)))) =
      Inr (rule (\<not> set REQUIRED_CHECKS \<subseteq> set (rl_evidence_checks_included m)) ''evidence_complete'' m5)"
    using artifacts_verdict tests_verdict evidence_verdict by blast
  have "run_compatibility_check (compatibility_arguments m) = Some (the (run_compatibility_check (compatibility_arguments m)))"
    by (simp add: step_arguments step_handlers Let_def)
  from missing_verdict [OF this [unfolded run_compatibility_check_def], of "rl_required_python_versions m" "rl_tested_python_versions m" "''python_versions_covered''"]
  obtain m3 where 3: "missing_rule ''missing_versions'' ''python_versions_covered'' (JObj (the (run_compatibility_check (compatibility_arguments m)))) =
      Inr (rule (\<not> set (rl_required_python_versions m) \<subseteq> set (rl_tested_python_versions m)) ''python_versions_covered'' m3)"
    by (auto simp: texts_at_def step_arguments run_compatibility_check_def)
  have "inspect_deployment_configuration (deployment_arguments m) = Some (the (inspect_deployment_configuration (deployment_arguments m)))"
    by (simp add: step_arguments step_handlers Let_def)
  from missing_verdict [OF this [unfolded inspect_deployment_configuration_def], of "rl_configuration_requirements m" "rl_actual_configuration_keys m"
      "''deployment_configuration_present''"]
  obtain m4 where 4: "missing_rule ''missing_keys'' ''deployment_configuration_present'' (JObj (the (inspect_deployment_configuration (deployment_arguments m)))) =
      Inr (rule (\<not> set (rl_configuration_requirements m) \<subseteq> set (rl_actual_configuration_keys m)) ''deployment_configuration_present'' m4)"
    by (auto simp: texts_at_def step_arguments inspect_deployment_configuration_def)
  show ?thesis
    unfolding validate_release_readiness_def unmet_requirements_def requirements_def
    by (simp only: apply_rules.simps step_results_at 1 2 3 4 5 option.case thenE_def sum.case) (simp add: ids_of_rule)
qed

end
