(* ===== verification/Release_Properties.thy ===== *)
theory Release_Properties
  imports Release_Examples Release_Readiness
begin

text \<open>
  The properties of release validation: what its verdict rests on, what it says of the manifest,
  what a replay reuses, and that the result a run returns is the stored one.
\<close>

section \<open>Persisted results\<close>

lemma terminal_stays:
  assumes "select_execution i s = Some x" and "x_status x = workflow_value WF_READY \<or> x_status x = workflow_value WF_BLOCKED"
    and "store_reachable s" and "later s t"
  shows "select_execution i t = Some x \<and> x_completed_at x \<noteq> None"
proof -
  from reachable_wf_inv [OF assms(3)] assms(1) have "execution_ok x" by (auto dest!: select_execution_SomeD wf_invD(1))
  then obtain status where "x_status x = workflow_value status" "workflow_terminal status \<longleftrightarrow> x_completed_at x \<noteq> None"
    by (auto simp: execution_ok_def)
  with assms(2) have "x_completed_at x \<noteq> None" by (cases status) auto
  with later_wf_evolves [OF assms(4,3)] assms(1) show ?thesis unfolding wf_evolves_def execution_evolves_def by metis
qed

text \<open>The database holds the execution as finished with the status of \<open>result\<close>.\<close>

definition persisted :: "flow_call \<Rightarrow> release_result \<Rightarrow> db \<Rightarrow> bool" where
  "persisted C result s \<longleftrightarrow> rr_status result \<noteq> RV_FAILED \<and>
     (\<exists>x. select_execution (fc_run_id C) s = Some x \<and> x_status x = release_value (rr_status result))"

lemma release_value_terminal:
  "st \<noteq> RV_FAILED \<longleftrightarrow> release_value st = workflow_value WF_READY \<or> release_value st = workflow_value WF_BLOCKED"
  by (cases st) auto

lemma reuse_terminal_persisted:
  assumes "reuse_terminal_result C row w = (Inr result, w')" and w: "sound w" and row: "select_execution (fc_run_id C) (w_db w) = Some row"
    and st: "x_status row = workflow_value WF_READY \<or> x_status row = workflow_value WF_BLOCKED"
  shows "persisted C result (w_db w')"
proof -
  from assms(1) have "release_value (rr_status result) = x_status row"
    by (auto simp: reuse_terminal_result_def split: option.splits if_splits elim!: andThenE)
  moreover have "select_execution (fc_run_id C) (w_db w') = Some row"
    using terminal_stays [OF row st] w quietD(1) [OF quiet_reuse_terminal assms(1) w] by (auto simp: sound_def follows_def)
  ultimately show ?thesis using st by (auto simp: persisted_def release_value_terminal)
qed

lemma finalized_row:
  assumes "(if b then call (\<lambda>t. finalize_blocked (clk t) run_id text code lease (now t))
      else call (\<lambda>t. finalize_ready (clk t) run_id text lease (now t))) w = (Inr row, w')" and w: "sound w"
  shows "select_execution run_id (w_db w') = Some row" and "sound w'"
proof -
  show "select_execution run_id (w_db w') = Some row"
  proof (cases b)
    case True
    with assms(1) have "call (\<lambda>t. finalize_blocked (clk t) run_id text code lease (now t)) w = (Inr row, w')" by simp
    then show ?thesis
      by (rule call_InrE [OF _ w]) (auto simp: finalize_blocked_def finalize_execution_def dest!: transition_returns)
  next
    case False
    with assms(1) have "call (\<lambda>t. finalize_ready (clk t) run_id text lease (now t)) w = (Inr row, w')" by simp
    then show ?thesis
      by (rule call_InrE [OF _ w]) (auto simp: finalize_ready_def finalize_execution_def dest!: transition_returns)
  qed
  have "quiet (if b then call (\<lambda>t. finalize_blocked (clk t) run_id text code lease (now t))
      else call (\<lambda>t. finalize_ready (clk t) run_id text lease (now t)))" by (intro quiet_if quiet_steps quiet_executions)
  from quietD(3) [OF this assms] show "sound w'" .
qed

lemma settle_persisted:
  assumes "settle_finalize C candidate row w = (Inr result, w')" and "sound w" and "select_execution (fc_run_id C) (w_db w) = Some row"
    and "rr_status candidate \<noteq> RV_FAILED"
  shows "persisted C result (w_db w')"
  using assms reuse_terminal_persisted [of C row w result w']
  by (auto simp: settle_finalize_def execution_failed_def persisted_def split: if_splits)

lemma conclude_persisted:
  assumes "conclude C st w = (Inr result, w')" and w: "sound w"
  shows "persisted C result (w_db w')"
proof -
  from assms(1) obtain findings row w1 where
    f: "(if findings \<noteq> []
       then call (\<lambda>t. finalize_blocked (tk_clk t) (fc_run_id C) (Encoded (dump_release_result \<lparr>rr_run_id = fc_run_id C,
           rr_status = (if findings = [] then RV_READY else RV_BLOCKED), rr_findings = findings,
           rr_replay = map_option (\<lambda>r. summarize r st) (fc_replay C)\<rparr>)) ''readiness_requirements_unmet'' (fc_lease_token C) (tk_now t))
       else call (\<lambda>t. finalize_ready (tk_clk t) (fc_run_id C) (Encoded (dump_release_result \<lparr>rr_run_id = fc_run_id C,
           rr_status = (if findings = [] then RV_READY else RV_BLOCKED), rr_findings = findings,
           rr_replay = map_option (\<lambda>r. summarize r st) (fc_replay C)\<rparr>)) (fc_lease_token C) (tk_now t))) w = (Inr row, w1)"
    and s: "settle_finalize C \<lparr>rr_run_id = fc_run_id C, rr_status = (if findings = [] then RV_READY else RV_BLOCKED), rr_findings = findings,
       rr_replay = map_option (\<lambda>r. summarize r st) (fc_replay C)\<rparr> row w1 = (Inr result, w')"
    unfolding conclude_def Let_def lift_def by (auto elim!: andThenE split: sum.splits)
  from settle_persisted [OF s finalized_row(2,1) [OF f w]] show ?thesis by simp
qed

lemma noreturn_fail_flow: "noreturn (fail_flow C e)"
  unfolding fail_flow_def by (intro noreturn_rules)

lemma run_body_persisted:
  assumes "catch (run_body C) (fail_flow C) w = (Inr result, w')" and w: "sound w"
  shows "persisted C result (w_db w')"
proof -
  from assms(1) have "run_body C w = (Inr result, w')" by (auto elim!: catchE noreturnD [OF noreturn_fail_flow])
  then obtain st w1 st' w2 where r: "initial_flow C w = (Inr st, w1)" "run_schedule C (scheduled_steps C) st w1 = (Inr st', w2)"
    "conclude C st' w2 = (Inr result, w')"
    unfolding run_body_def by (auto elim!: andThenE)
  from quietD(3) [OF quiet_run_schedule r(2) quietD(3) [OF quiet_schedule_parts(2) r(1) w]] conclude_persisted [OF r(3)] show ?thesis by simp
qed

lemma claim_identity:
  "create_or_get_execution clk run_id wt h lease now_ms s = (Inr claim, t) \<Longrightarrow>
     ec_outcome claim \<noteq> EX_WORKFLOW_TYPE_MISMATCH \<Longrightarrow> ec_outcome claim \<noteq> EX_INPUT_MISMATCH \<Longrightarrow>
     x_workflow_type (ec_execution claim) = wt \<and> x_input_hash (ec_execution claim) = h"
  by (auto simp: create_or_get_execution_def resolve_execution_conflict_def fenced_body_def transaction_def Let_def
      split: prod.splits sum.splits option.splits if_splits)

lemma run_canonical_persisted:
  assumes "run_canonical C w = (Inr result, w')" and w: "sound w"
  shows "persisted C result (w_db w')" and "\<exists>x. select_execution (fc_run_id C) (w_db w') = Some x \<and> x_workflow_type x = WORKFLOW_TYPE
     \<and> x_input_hash x = stable_hash (rf_digests (fc_flow C)) (identity_payload C)"
proof -
  let ?create = "call (\<lambda>t. create_or_get_execution (tk_clk t) (fc_run_id C) WORKFLOW_TYPE (stable_hash (rf_digests (fc_flow C)) (identity_payload C))
        (fc_lease_token C) (tk_now t))"
  let ?start = "\<lambda>row. if x_status row = workflow_value WF_PENDING
     then andThen (call (\<lambda>t. mark_running (tk_clk t) (fc_run_id C) (fc_lease_token C) (tk_now t))) (\<lambda>_. ret ()) else ret ()"
  from assms(1) obtain claim w1 where c: "?create w = (Inr claim, w1)"
    and ok: "ec_outcome claim \<noteq> EX_WORKFLOW_TYPE_MISMATCH" "ec_outcome claim \<noteq> EX_INPUT_MISMATCH"
    and k: "(if x_status (ec_execution claim) = workflow_value WF_READY \<or> x_status (ec_execution claim) = workflow_value WF_BLOCKED
        then reuse_terminal_result C (ec_execution claim)
        else if x_status (ec_execution claim) = workflow_value WF_FAILED then execution_failed C (x_error_code (ec_execution claim))
        else andThen (?start (ec_execution claim)) (\<lambda>_. catch (run_body C) (fail_flow C))) w1 = (Inr result, w')"
    unfolding run_canonical_def Let_def by - (erule andThenE; simp split: if_split_asm)
  note row = claimed_execution [OF c w] and w1 = quietD(3) [OF quiet_executions(1) c w]
  show "persisted C result (w_db w')"
  proof (cases "x_status (ec_execution claim) = workflow_value WF_READY \<or> x_status (ec_execution claim) = workflow_value WF_BLOCKED")
    case True
    with k reuse_terminal_persisted [OF _ w1 row] show ?thesis by simp
  next
    case False
    with k have "andThen (?start (ec_execution claim)) (\<lambda>_. catch (run_body C) (fail_flow C)) w1 = (Inr result, w')"
      by (simp add: execution_failed_def split: if_split_asm)
    then obtain u w2 where s: "?start (ec_execution claim) w1 = (Inr u, w2)" "catch (run_body C) (fail_flow C) w2 = (Inr result, w')"
      by (rule andThenE) simp_all
    have "quiet (?start (ec_execution claim))" by (intro quiet_if quiet_andThen quiet_executions quiet_ret)
    from run_body_persisted [OF s(2) quietD(3) [OF this s(1) w1]] show ?thesis .
  qed
  from c have id: "x_workflow_type (ec_execution claim) = WORKFLOW_TYPE \<and> x_input_hash (ec_execution claim) = stable_hash (rf_digests (fc_flow C)) (identity_payload C)"
    by (rule call_InrE [OF _ w]) (rule claim_identity [OF _ ok])
  have "quiet (if x_status (ec_execution claim) = workflow_value WF_READY \<or> x_status (ec_execution claim) = workflow_value WF_BLOCKED
        then reuse_terminal_result C (ec_execution claim)
        else if x_status (ec_execution claim) = workflow_value WF_FAILED then execution_failed C (x_error_code (ec_execution claim))
        else andThen (?start (ec_execution claim)) (\<lambda>_. catch (run_body C) (fail_flow C)))"
    using quiet_run_parts by (intro quiet_if quiet_andThen quiet_executions quiet_ret quiet_reuse_terminal) blast+
  from quietD(1) [OF this k w1] w1 have "wf_evolves (w_db w1) (w_db w')" by (simp add: follows_def sound_def later_wf_evolves)
  with row id show "\<exists>x. select_execution (fc_run_id C) (w_db w') = Some x \<and> x_workflow_type x = WORKFLOW_TYPE
     \<and> x_input_hash x = stable_hash (rf_digests (fc_flow C)) (identity_payload C)"
    unfolding wf_evolves_def execution_evolves_def by metis
qed

section \<open>Properties\<close>

text \<open>
  C23. A verdict rests on durable evidence. Whatever other workers do, calls fail and subprocesses
  answer, when the schedule of a validation run comes to its end, each of the six steps has a
  result, and that result is the one of a completed step of this run in the ledger, for the step's
  tool and for the hash of the arguments built from the manifest; it is so in every later database too.
\<close>

theorem verdict_rests_on_durable_evidence:
  assumes "sound w" and "initial_flow C w = (Inr st0, w1)" and "run_schedule C (scheduled_steps C) st0 w1 = (Inr st, w2)"
  shows "\<forall>step\<in>set STEP_DEFINITIONS. \<exists>j. map_of (fs_results st) (sd_step_id step) = Some j \<and>
     (\<forall>s. later (w_db w2) s \<longrightarrow> (\<exists>k. select_step (fc_run_id C) (sd_step_id step) s = Some k \<and> completed_step k
        \<and> k_tool_name k = sd_tool_name step \<and> k_result_json k = Some (Encoded j)
        \<and> k_input_hash k = stable_hash (rf_digests (fc_flow C)) (sd_build_arguments step (fc_manifest C))))"
proof -
  note w1 = quietD(3) [OF quiet_schedule_parts(2) assms(2,1)]
  have reach: "store_reachable (w_db w2)" using quietD(3) [OF quiet_run_schedule assms(3) w1] by (simp add: sound_def)
  have fin: "schedule_done C STEP_DEFINITIONS st0 st (w_db w2)"
    using run_schedule_returns [OF assms(3) w1] initial_flow_returns(1) [OF assms(2)] step_sequence(2) by simp
  show ?thesis
  proof (intro ballI)
    fix step assume "step \<in> set STEP_DEFINITIONS"
    from schedule_done_result [OF fin this] obtain j where j: "map_of (fs_results st) (sd_step_id step) = Some j"
      "evidence C step (sd_build_arguments step (fc_manifest C)) j (w_db w2)" by blast
    from evidence_later [OF j(2) _ reach] j(1) show "\<exists>j. map_of (fs_results st) (sd_step_id step) = Some j \<and>
       (\<forall>s. later (w_db w2) s \<longrightarrow> (\<exists>k. select_step (fc_run_id C) (sd_step_id step) s = Some k \<and> completed_step k
          \<and> k_tool_name k = sd_tool_name step \<and> k_result_json k = Some (Encoded j)
          \<and> k_input_hash k = stable_hash (rf_digests (fc_flow C)) (sd_build_arguments step (fc_manifest C))))"
      unfolding evidence_def by blast
  qed
qed

theorem verdict_rests_on_durable_evidence_witness:
  "\<exists>k. select_step ''r2'' ''generate_evidence'' (w_db (snd rx_replayed)) = Some k \<and> completed_step k"
proof (rule rx_runs)
  fix st0 w1 st assume r: "initial_flow rx_replay rx_ready = (Inr st0, w1)"
    "run_schedule rx_replay (scheduled_steps rx_replay) st0 w1 = (Inr st, snd rx_replayed)"
  have last: "last STEP_DEFINITIONS \<in> set STEP_DEFINITIONS" by (rule last_in_set) (simp add: STEP_DEFINITIONS_def)
  have names: "fc_run_id rx_replay = ''r2''" "sd_step_id (last STEP_DEFINITIONS) = ''generate_evidence''"
    by (simp_all add: rx_replay_def rx_call_def STEP_DEFINITIONS_def root_step_def)
  from bspec [OF verdict_rests_on_durable_evidence [OF rx_ready_sound r] last] tx_start [of "w_db (snd rx_replayed)"]
  show ?thesis unfolding names by blast
qed









text \<open>
  C21. The status a run returns is the stored one. Whatever other workers do, calls fail and subprocesses
  answer, a validation run ends and calls no provider; when it returns a result, that is not a
  failure, and the execution stored under its run id has finished with the result's status, as a
  release validation of this very input, and stays so in every later database. In particular a
  run never reports READY for an execution that is stored as blocked or failed.
\<close>

theorem release_status_is_stored:
  assumes "sound w" and "release_run C w = (r, w')"
  shows "r \<noteq> Inl OutOfFuel \<and> w_calls w' = w_calls w \<and> (\<forall>result. r = Inr result \<longrightarrow> rr_status result \<noteq> RV_FAILED \<and>
     (\<exists>x. (\<forall>s. later (w_db w') s \<longrightarrow> select_execution (fc_run_id C) s = Some x)
        \<and> x_status x = release_value (rr_status result) \<and> x_workflow_type x = WORKFLOW_TYPE
        \<and> x_input_hash x = stable_hash (rf_digests (fc_flow C)) (identity_payload (C\<lparr>fc_manifest := canonicalize_manifest (fc_manifest C)\<rparr>))))"
proof -
  note q = quietD [OF quiet_release_run assms(2,1)]
  have "rr_status result \<noteq> RV_FAILED \<and> (\<exists>x. (\<forall>s. later (w_db w') s \<longrightarrow> select_execution (fc_run_id C) s = Some x)
        \<and> x_status x = release_value (rr_status result) \<and> x_workflow_type x = WORKFLOW_TYPE
        \<and> x_input_hash x = stable_hash (rf_digests (fc_flow C)) (identity_payload (C\<lparr>fc_manifest := canonicalize_manifest (fc_manifest C)\<rparr>)))"
    if "r = Inr result" for result
  proof -
    let ?C = "C\<lparr>fc_manifest := canonicalize_manifest (fc_manifest C)\<rparr>"
    from assms(2) that have "run_canonical ?C w = (Inr result, w')" by (simp add: release_run_def)
    note p = run_canonical_persisted [OF this assms(1)]
    from p obtain x where x: "select_execution (fc_run_id C) (w_db w') = Some x" "x_status x = release_value (rr_status result)"
      "x_workflow_type x = WORKFLOW_TYPE" "x_input_hash x = stable_hash (rf_digests (fc_flow C)) (identity_payload ?C)"
      and st: "rr_status result \<noteq> RV_FAILED" by (auto simp: persisted_def)
    from q(3) have "store_reachable (w_db w')" by (simp add: sound_def)
    with terminal_stays [OF x(1)] x(2) st have "\<forall>s. later (w_db w') s \<longrightarrow> select_execution (fc_run_id C) s = Some x"
      by (simp add: release_value_terminal)
    with x(2-4) st show ?thesis by blast
  qed
  with q(2,4) show ?thesis by blast
qed

definition rx_again :: "(exn + release_result) \<times> world" where
  "rx_again = release_run (rx_call ''r1'' None) rx_ready"

lemma rx_again_returns: "isl (fst rx_again) = False"
  by code_simp

theorem release_status_is_stored_witness:
  "\<exists>x. select_execution ''r1'' (w_db (snd rx_again)) = Some x \<and> x_workflow_type x = WORKFLOW_TYPE"
proof -
  have "release_run (rx_call ''r1'' None) rx_ready = (fst rx_again, snd rx_again)" by (simp add: rx_again_def)
  from release_status_is_stored [OF rx_ready_sound this] rx_again_returns tx_start [of "w_db (snd rx_again)"]
  show ?thesis by (cases "fst rx_again") (auto simp: rx_call_def)
qed

end
