(* ===== verification/Spec2Isabelle.thy ===== *)
theory Spec2Isabelle
  imports Run_Properties Quarantine_Properties Workflow_Properties Workflow_Dag Runtime_Auth
    Projector_Properties Manager_Properties Action_Lifecycle Memory_Properties Dynamic_Properties
    Release_Properties
begin

text \<open>
  A verification development of the agent runtime platform, a service that runs agents durably:
  a client submits a run on a thread, one of several worker processes claims it under a lease,
  executes the agent's runtime, and commits the outcome together with the thread's checkpoint;
  the side effects an agent has on external systems go through a ledger that survives crashes.

  \<^bold>\<open>Parts and theories.\<close>

  \<^item> \<^verbatim>\<open>Runtime_Prelude\<close>: tables, SQL statements and \<^verbatim>\<open>NULL\<close>, JSON values, transactions, and the
    interface of a transactional component.
  \<^item> \<^verbatim>\<open>Runtime_Database\<close>: the records and enumerations of \<^verbatim>\<open>runtime_service/models.py\<close> and
    \<^verbatim>\<open>agent/contracts.py\<close>, and the rows of the tables both stores share.
  \<^item> \<^verbatim>\<open>Run_Store\<close>, \<^verbatim>\<open>Run_Leases\<close>, \<^verbatim>\<open>Run_Commits\<close>: the transactions of
    \<^verbatim>\<open>runtime_service/store.py\<close>, in the order of the file. \<^verbatim>\<open>Run_Invariant\<close> and
    \<^verbatim>\<open>Run_Safety\<close> hold the invariant of the run tables and show that each transaction keeps it;
    \<^verbatim>\<open>Run_Effects\<close> and \<^verbatim>\<open>Commit_Effects\<close> say what each writes.
  \<^item> \<^verbatim>\<open>Workflow_Store\<close>, \<^verbatim>\<open>External_Action_Store\<close>: the transactions of
    \<^verbatim>\<open>runtime_service/workflow_store.py\<close>; \<^verbatim>\<open>Workflow_Invariant\<close>, \<^verbatim>\<open>Workflow_Safety\<close>,
    \<^verbatim>\<open>Workflow_Fencing\<close> and \<^verbatim>\<open>Workflow_Effects\<close> are their counterparts for the ledger.
  \<^item> \<^verbatim>\<open>Quarantine\<close>, \<^verbatim>\<open>Quarantine_Safety\<close>: \<^verbatim>\<open>runtime_service/quarantine.py\<close> and the resolution
    operations of the run store.
  \<^item> \<^verbatim>\<open>Memory_Store\<close>, \<^verbatim>\<open>Memory_Safety\<close>: the transactions of \<^verbatim>\<open>SQLiteMemoryStore\<close> in
    \<^verbatim>\<open>runtime_service/memory.py\<close> and the invariant of its tables. \<^verbatim>\<open>Governed_Memory\<close>: the class
    of that name, what a runtime may do with memory during an attempt.
  \<^item> \<^verbatim>\<open>Run_Lifecycle\<close>: the three stores as one state machine. A step is one transaction by anyone with
    any arguments; reachable databases, later databases and the fencing interface live here.
  \<^item> \<^verbatim>\<open>Workflow_Dag\<close>: \<^verbatim>\<open>runtime_service/dag.py\<close>. \<^verbatim>\<open>Runtime_Auth\<close>: \<^verbatim>\<open>runtime_service/auth.py\<close>.
  \<^item> \<^verbatim>\<open>Action_Lifecycle\<close>: the abstract life cycle of an external action and the proof that the
    ledger refines it.
  \<^item> \<^verbatim>\<open>External_Actions\<close>: \<^verbatim>\<open>runtime_service/external_actions.py\<close>, requests, replies, the
    provider registry and the dispatcher. \<^verbatim>\<open>Worker_Programs\<close>: worker code as programs over a
    world with interference and faults; \<^verbatim>\<open>Program_Tracking\<close>: rules for what a program leaves
    behind. \<^verbatim>\<open>Evidence_Projector\<close>: \<^verbatim>\<open>runtime_service/evidence.py\<close>
    and \<^verbatim>\<open>canonical.py\<close>.
  \<^item> \<^verbatim>\<open>Action_Coordinator\<close>: \<^verbatim>\<open>runtime_service/external_action_coordinator.py\<close>, the dispatch
    protocol method by method. \<^verbatim>\<open>Coordinator_Safety\<close>, \<^verbatim>\<open>Coordinator_Dispatch\<close> and
    \<^verbatim>\<open>Coordinator_Truth\<close> hold its laws: what it may write, how many requests it sends, what a
    returned observation proves.
  \<^item> \<^verbatim>\<open>Action_Gateway\<close>, \<^verbatim>\<open>Durable_Action\<close>, \<^verbatim>\<open>Action_Projector\<close>, \<^verbatim>\<open>Action_Service\<close>: the Action
    API over one durable step, \<^verbatim>\<open>runtime_service/action_gateway.py\<close>,
    \<^verbatim>\<open>domains/durable_action/runtime.py\<close> and \<^verbatim>\<open>runtime_service/action_gateway_service.py\<close>.
  \<^item> \<^verbatim>\<open>Agent_Registry\<close>: \<^verbatim>\<open>runtime_service/registry.py\<close>. \<^verbatim>\<open>Run_Manager\<close>:
    \<^verbatim>\<open>runtime_service/manager.py\<close>.
  \<^item> \<^verbatim>\<open>Tool_Registry\<close>: \<^verbatim>\<open>runtime_service/sandbox.py\<close> and \<^verbatim>\<open>planner.py\<close>, registered tools, what a
    sandbox execution returns, and the typed decisions of a planner. \<^verbatim>\<open>Dynamic_Loop\<close>:
    \<^verbatim>\<open>runtime_service/dynamic_loop.py\<close>, the loop in which a planner decides, policy admits and a
    tool runs. \<^verbatim>\<open>Dynamic_Safety\<close> and \<^verbatim>\<open>Dynamic_Evidence\<close> hold its laws: that it ends, which
    provider calls it makes, and what it reads back from its log.
  \<^item> \<^verbatim>\<open>Release_Tools\<close>, \<^verbatim>\<open>Release_Validation\<close>: the release-validation domain
    \<^verbatim>\<open>domains/release_validation\<close>, its tools and their handlers, the worker script
    \<^verbatim>\<open>runtime_service/sandbox_worker.py\<close> that runs a handler in a subprocess, and the durable
    workflow over the graph of six steps with selective replay. \<^verbatim>\<open>Release_Evidence\<close> shows what a
    settled step leaves in the ledger, \<^verbatim>\<open>Release_Readiness\<close> what the tools and the readiness
    rules say about a manifest.
  \<^item> \<^verbatim>\<open>Run_Examples\<close>, \<^verbatim>\<open>Workflow_Examples\<close>, \<^verbatim>\<open>Release_Examples\<close>: concrete reachable databases
    and worlds for the witnesses.
  \<^item> \<^verbatim>\<open>Run_Properties\<close>, \<^verbatim>\<open>Workflow_Properties\<close>, \<^verbatim>\<open>Quarantine_Properties\<close>,
    \<^verbatim>\<open>Durable_Properties\<close>, \<^verbatim>\<open>Projector_Properties\<close>, \<^verbatim>\<open>Manager_Properties\<close>,
    \<^verbatim>\<open>Memory_Properties\<close>, \<^verbatim>\<open>Dynamic_Properties\<close>, \<^verbatim>\<open>Release_Properties\<close>: the properties.

  \<^bold>\<open>How the model corresponds to the code.\<close> One transaction is one function from a database to an
  outcome and the next database; an exception rolls back, so the database of a failed transaction
  is the old one. The stores write to one SQLite file, so they share one record of tables.
  SQLite serializes write transactions, hence any interleaving of workers is a sequence of steps.
  Clock readings, fresh identifiers and tokens, digests, Pydantic's validation of a domain state
  and the visiting order of Python sets are arguments; the theorems hold for all of them unless
  they state what they rely on. Text is ASCII. JSON numbers are integers. A text column that
  should hold JSON is a decoded value or text that does not decode.

  \<^bold>\<open>Worker programs.\<close> Code that makes several storage calls is a function from a world to a result
  or an exception and the next world. The world holds the database, the requests that reached a
  provider and a schedule: before each call the schedule lets the other workers take any number
  of store steps, says whether the call commits, fails before the commit or fails after it,
  supplies clock readings and fresh identifiers, and holds the reply of a provider. The theorems
  quantify over every schedule, so they cover each interleaving, failure of the storage
  connection, lost acknowledgement and provider. The one loop of the coordinator, dispatch and
  retry after an ambiguous reply, carries a fuel of one more than the configured maximum of
  dispatches (\<open>dispatch_fuel\<close>); running out is an exception no handler catches, and the
  property on provider calls shows that it never happens. The rounds of the tool loop carry a fuel
  of one more than the tool calls left (\<open>loop_fuel\<close>), shown to be enough in the same way.
  The claims of a release step are bounded by the guard the code has (\<open>STEP_LOOP_GUARD\<close>). The death of a worker is a schedule that never runs it again;
  what it left is recovered by an attempt that starts from the database alone.

  \<^bold>\<open>What is shown.\<close> The tables stay well formed under any interleaving; at most one run of a
  thread executes; a worker whose lease is gone changes nothing and is never told it succeeded;
  completions never lose an update and happen exactly when they should; a cancellation wins over
  a completion; terminal rows never change; event logs have no gaps. For the ledger: an action
  that is not retry-safe is dispatched at most once for ever, the first recorded outcome of an
  action is its only one, step claims are exclusive and bounded. For quarantine: exactly the reviewed plan is applied, and it can be repeated and
  verified. For an action: the requests sent are at most the dispatches claimed, a reported
  completion is recorded, a definite outcome never changes, and the Action resource claims only
  what the ledger proves. For the manager: submission is idempotent, and a pending
  outcome of a dispatched action keeps its run, with the exact marker that is written; the one
  path on which a storage outage strands a dispatched action is evaluated beside it. For memory:
  a run sees one sealed view of its own subject, what is remembered is the next version and
  changes nothing else, and what is forgotten is erased from every later view. For the
  tool loop: it ends, pays for every provider call, reaches a provider only with the run's
  authority, agrees on each decision once one is recorded and is not run again once finished. For release
  validation: the status returned is the one stored, each result is durable evidence for this
  very input, replay reuses nothing below a step that ran again, and the verdict names exactly
  the requirements the manifest does not meet. Graph validation accepts exactly the acyclic graphs and schedules them
  deterministically. Authentication and the authority snapshot are exact.

  \<^bold>\<open>Interfaces.\<close> \<open>transactional\<close> (invariant and monotone relations of a state machine),
  \<open>fenced\<close> (a write bound to a lease token) and \<open>event_log\<close> (an append-only log with gap-free
  sequence numbers), \<open>hosted\<close> (what a runtime that owns a coordinator provides) and \<open>tracked\<close>
  (a relation between worlds that composes along programs) are locales, interpreted on the
  operations of the model.

  \<^bold>\<open>Not modelled.\<close> Schema creation and migration, connections, the process-local locks and
  threads; the PostgreSQL twins of the stores, a second implementation of the same contracts whose
  row locks the table model has no counterpart for; the HTTP service, deployment and logging; the
  operating-system side of a tool subprocess (resource limits, network guard); the planner client of
  a model provider; the travel and incident domains; evaluation and training programs.
\<close>

end
